(* ===== verification/GoPrelude.thy ===== *)
theory GoPrelude
  imports Main "HOL-Library.Char_ord" "HOL-Library.List_Lexorder" "HOL-Library.Sublist"
begin

text \<open>
  What every component shares: the shape of a Go \<open>(T, error)\<close> result, the fragment of Go's
  \<open>strings\<close>, \<open>strconv\<close> and \<open>sort\<close> packages that \<open>pkg/\<close> uses, and the generic lemmas
  about them. Strings are byte strings, as in Go; the case mapping and the white space of
  \<open>strings.TrimSpace\<close>, \<open>strings.Fields\<close>, \<open>strings.ToLower\<close> and \<open>strings.ToUpper\<close>
  are those of ASCII (the inputs are resource names, labels, versions and CLI output).
\<close>

named_theorems go_string "facts about the string functions"
named_theorems result_split "case splits for results, options and pairs"

lemmas result_splits [result_split] =
  sum.splits option.splits prod.splits if_splits

section \<open>Results\<close>

text \<open>A Go function that returns \<open>(T, error)\<close> is a sum: \<open>Inl\<close> the error, \<open>Inr\<close> the value.\<close>

fun is_ok :: "'e + 'a \<Rightarrow> bool" where
  "is_ok (Inl _) = False"
| "is_ok (Inr _) = True"

lemma is_ok_iff: "is_ok r \<longleftrightarrow> (\<exists>x. r = Inr x)"
  by (cases r) auto

section \<open>Prefixes, suffixes, substrings\<close>

text \<open>\<open>strings.HasPrefix(s, p)\<close>, \<open>strings.HasSuffix(s, p)\<close>, \<open>strings.Contains(s, sub)\<close>.\<close>

definition has_prefix :: "string \<Rightarrow> string \<Rightarrow> bool" where
  "has_prefix s p = (take (length p) s = p)"

definition has_suffix :: "string \<Rightarrow> string \<Rightarrow> bool" where
  "has_suffix s p = has_prefix (rev s) (rev p)"

fun contains :: "string \<Rightarrow> string \<Rightarrow> bool" where
  "contains [] sub = (sub = [])"
| "contains (c # s) sub = (has_prefix (c # s) sub \<or> contains s sub)"

text \<open>\<open>strings.TrimPrefix\<close> and \<open>strings.TrimSuffix\<close> drop the affix when it is there.\<close>

definition trim_prefix :: "string \<Rightarrow> string \<Rightarrow> string" where
  "trim_prefix s p = (if has_prefix s p then drop (length p) s else s)"

definition trim_suffix :: "string \<Rightarrow> string \<Rightarrow> string" where
  "trim_suffix s p = (if has_suffix s p then take (length s - length p) s else s)"

lemma has_prefix_iff [go_string]: "has_prefix s p \<longleftrightarrow> (\<exists>r. s = p @ r)"
  unfolding has_prefix_def by (metis append_eq_conv_conj append_take_drop_id)

lemma has_prefix_append [simp]: "has_prefix (p @ r) p"
  by (auto simp: has_prefix_iff)

lemma has_suffix_iff [go_string]: "has_suffix s p \<longleftrightarrow> (\<exists>r. s = r @ p)"
  unfolding has_suffix_def has_prefix_iff by (metis rev_append rev_rev_ident)

lemma contains_iff [go_string]: "contains s sub \<longleftrightarrow> (\<exists>a b. s = a @ sub @ b)"
proof (induction s)
  case Nil
  then show ?case by auto
next
  case (Cons c s)
  have "(\<exists>a b. c # s = a @ sub @ b) \<longleftrightarrow>
      (\<exists>b. c # s = sub @ b) \<or> (\<exists>a b. s = a @ sub @ b)" (is "?l \<longleftrightarrow> ?r")
  proof
    assume ?l
    then obtain a b where ab: "c # s = a @ sub @ b" by blast
    then show ?r by (cases a) auto
  next
    assume ?r
    then show ?l by (metis append_Cons append_Nil)
  qed
  then show ?case using Cons.IH by (simp add: has_prefix_iff)
qed

lemma contains_sublist: "contains s sub \<longleftrightarrow> sublist sub s"
  by (auto simp: contains_iff sublist_def)

lemma contains_empty [simp]: "contains s []"
  by (cases s) (auto simp: has_prefix_def)

lemma contains_self [simp]: "contains s s"
  by (auto simp: contains_iff intro!: exI [of _ "[]"])

lemma contains_append: "contains s sub \<Longrightarrow> contains (a @ s @ b) sub"
  by (metis append.assoc contains_iff)

lemma trim_prefix_append [simp]: "trim_prefix (p @ r) p = r"
  by (simp add: trim_prefix_def)

section \<open>Trimming\<close>

text \<open>The ASCII white space of \<open>unicode.IsSpace\<close>: tab, LF, VT, FF, CR and blank.\<close>

definition is_space :: "char \<Rightarrow> bool" where
  "is_space c = (c \<in> {CHR 0x09, CHR 0x0A, CHR 0x0B, CHR 0x0C, CHR 0x0D, CHR '' ''})"

definition trim_left_by :: "(char \<Rightarrow> bool) \<Rightarrow> string \<Rightarrow> string" where
  "trim_left_by P s = dropWhile P s"

definition trim_right_by :: "(char \<Rightarrow> bool) \<Rightarrow> string \<Rightarrow> string" where
  "trim_right_by P s = rev (dropWhile P (rev s))"

definition trim_by :: "(char \<Rightarrow> bool) \<Rightarrow> string \<Rightarrow> string" where
  "trim_by P s = trim_right_by P (trim_left_by P s)"

text \<open>\<open>strings.TrimSpace(s)\<close> and \<open>strings.Trim(s, cutset)\<close>.\<close>

definition trim_space :: "string \<Rightarrow> string" where
  "trim_space s = trim_by is_space s"

definition trim_set :: "string \<Rightarrow> string \<Rightarrow> string" where
  "trim_set s cutset = trim_by (\<lambda>c. c \<in> set cutset) s"

lemma set_trim_by: "set (trim_by P s) \<subseteq> set s"
  unfolding trim_by_def trim_right_by_def trim_left_by_def
  by (metis dual_order.trans set_dropWhileD set_rev subsetI)

lemma trim_by_Nil [simp]: "trim_by P [] = []"
  by (simp add: trim_by_def trim_right_by_def trim_left_by_def)

lemma dropWhile_hd: "dropWhile P s \<noteq> [] \<Longrightarrow> \<not> P (hd (dropWhile P s))"
  by (rule hd_dropWhile)

lemma trim_by_last: "trim_by P s \<noteq> [] \<Longrightarrow> \<not> P (last (trim_by P s))"
  unfolding trim_by_def trim_right_by_def
  by (metis hd_dropWhile last_rev rev_is_Nil_conv)

lemma trim_by_hd:
  assumes ne: "trim_by P s \<noteq> []"
  shows "\<not> P (hd (trim_by P s))"
proof -
  let ?l = "dropWhile P s"
  obtain ys where ys: "rev ?l = ys @ dropWhile P (rev ?l)"
    by (metis takeWhile_dropWhile_id)
  then have "?l = trim_by P s @ rev ys"
    unfolding trim_by_def trim_right_by_def trim_left_by_def by (metis rev_append rev_rev_ident)
  with ne have "hd ?l = hd (trim_by P s)" and "?l \<noteq> []" by auto
  then show ?thesis using hd_dropWhile by metis
qed

lemma trim_by_id:
  assumes "s \<noteq> [] \<Longrightarrow> \<not> P (hd s)" and "s \<noteq> [] \<Longrightarrow> \<not> P (last s)"
  shows "trim_by P s = s"
proof (cases s rule: rev_cases)
  case Nil
  then show ?thesis by simp
next
  case (snoc t y)
  then have h: "\<not> P (hd s)" and y: "\<not> P y" using assms by auto
  have "dropWhile P s = s"
  proof (cases s)
    case (Cons a l)
    with h show ?thesis by simp
  qed simp
  then show ?thesis using snoc y by (simp add: trim_by_def trim_right_by_def trim_left_by_def)
qed

lemma trim_by_idem [simp]: "trim_by P (trim_by P s) = trim_by P s"
  by (rule trim_by_id) (auto dest: trim_by_hd trim_by_last)

lemma trim_space_idem [simp]: "trim_space (trim_space s) = trim_space s"
  by (simp add: trim_space_def)

section \<open>Splitting and joining\<close>

text \<open>
  \<open>strings.Split(s, sep)\<close>, \<open>strings.SplitN(s, sep, n)\<close> and \<open>strings.ReplaceAll(s, old, new)\<close>:
  every use in \<open>pkg/\<close> has a one-byte \<open>sep\<close> or \<open>old\<close>.
\<close>

fun split_char :: "char \<Rightarrow> string \<Rightarrow> string list" where
  "split_char c [] = [[]]"
| "split_char c (x # xs) =
     (if x = c then [] # split_char c xs
      else (x # hd (split_char c xs)) # tl (split_char c xs))"

fun splitn_char :: "nat \<Rightarrow> char \<Rightarrow> string \<Rightarrow> string list" where
  "splitn_char 0 c s = []"
| "splitn_char (Suc 0) c s = [s]"
| "splitn_char (Suc (Suc n)) c [] = [[]]"
| "splitn_char (Suc (Suc n)) c (x # xs) =
     (if x = c then [] # splitn_char (Suc n) c xs
      else (x # hd (splitn_char (Suc (Suc n)) c xs)) # tl (splitn_char (Suc (Suc n)) c xs))"

fun join :: "string \<Rightarrow> string list \<Rightarrow> string" where
  "join sep [] = []"
| "join sep [w] = w"
| "join sep (w # ws) = w @ sep @ join sep ws"

definition replace_char :: "char \<Rightarrow> string \<Rightarrow> string \<Rightarrow> string" where
  "replace_char old new s = concat (map (\<lambda>x. if x = old then new else [x]) s)"

text \<open>\<open>strings.Fields(s)\<close>: the maximal runs of non-space bytes.\<close>

fun fields_from :: "string \<Rightarrow> string \<Rightarrow> string list" where
  "fields_from w [] = (if w = [] then [] else [w])"
| "fields_from w (x # xs) =
     (if is_space x then (if w = [] then fields_from [] xs else w # fields_from [] xs)
      else fields_from (w @ [x]) xs)"

definition fields :: "string \<Rightarrow> string list" where
  "fields s = fields_from [] s"

lemma split_char_ne [simp]: "split_char c s \<noteq> []"
  by (induction s) auto

lemma splitn_char_ne [simp]: "splitn_char (Suc n) c s \<noteq> []"
proof (cases n)
  case (Suc m)
  then show ?thesis by (cases s) auto
qed simp

text \<open>Evaluation that splits the rest of the text once.\<close>

lemma split_char_code [code]:
  "split_char c [] = [[]]"
  "split_char c (x # xs) =
     (if x = c then [] # split_char c xs
      else (case split_char c xs of [] \<Rightarrow> [[x]] | w # ws \<Rightarrow> (x # w) # ws))"
  using split_char_ne [of c xs] by (auto split: list.splits)

lemma join_Cons: "ws \<noteq> [] \<Longrightarrow> join sep (w # ws) = w @ sep @ join sep ws"
  by (cases ws) auto

lemma join_hd_Cons: "ws \<noteq> [] \<Longrightarrow> join sep ((x # hd ws) # tl ws) = x # join sep ws"
  by (cases ws; cases "tl ws") auto

lemma join_split_char [go_string]: "join [c] (split_char c s) = s"
  by (induction s) (auto simp: join_Cons join_hd_Cons)

lemma split_char_no_sep: "w \<in> set (split_char c s) \<Longrightarrow> c \<notin> set w"
proof (induction s arbitrary: w)
  case Nil
  then show ?case by simp
next
  case (Cons x s)
  then show ?case
    by (cases "split_char c s") (auto split: if_splits)
qed

lemma split_char_append_sep:
  "c \<notin> set w \<Longrightarrow> split_char c (w @ c # s) = w # split_char c s"
  by (induction w) auto

lemma split_char_atom: "c \<notin> set w \<Longrightarrow> split_char c w = [w]"
  by (induction w) auto

lemma split_char_join [go_string]:
  assumes "ws \<noteq> []" and "\<And>w. w \<in> set ws \<Longrightarrow> c \<notin> set w"
  shows "split_char c (join [c] ws) = ws"
  using assms
proof (induction "[c]" ws rule: join.induct)
  case (3 w v ws)
  then show ?case by (simp add: split_char_append_sep)
qed (auto simp: split_char_atom)

lemma splitn_two [go_string]:
  "splitn_char 2 c s =
     (if c \<in> set s then [takeWhile (\<lambda>x. x \<noteq> c) s, tl (dropWhile (\<lambda>x. x \<noteq> c) s)] else [s])"
  by (induction s) (auto simp: numeral_2_eq_2)

lemma splitn_two_sep: "c \<notin> set k \<Longrightarrow> splitn_char 2 c (k @ c # v) = [k, v]"
  by (induction k) (auto simp: splitn_two)

lemma length_splitn_two: "length (splitn_char 2 c s) = (if c \<in> set s then 2 else 1)"
  by (simp add: splitn_two)

lemma replace_char_absent: "old \<notin> set s \<Longrightarrow> replace_char old new s = s"
  by (induction s) (auto simp: replace_char_def)

lemma set_replace_char: "set (replace_char old new s) \<subseteq> set s - {old} \<union> set new"
  by (auto simp: replace_char_def split: if_splits)

section \<open>Printed lines\<close>

text \<open>What a command prints one line per item for, read back by trimming and splitting.\<close>

definition printed_lines :: "string list \<Rightarrow> string" where
  "printed_lines ls = concat (map (\<lambda>l. l @ [CHR 10]) ls)"

lemma printed_lines_join:
  "ls \<noteq> [] \<Longrightarrow> printed_lines ls = join [CHR 10] ls @ [CHR 10]"
  unfolding printed_lines_def
proof (induction ls rule: list_nonempty_induct)
  case (cons x xs)
  then show ?case by (cases xs) auto
qed simp

lemma join_ends:
  assumes "ws \<noteq> []" and "\<And>w. w \<in> set ws \<Longrightarrow> w \<noteq> []"
  shows "join sep ws \<noteq> [] \<and> hd (join sep ws) = hd (hd ws) \<and> last (join sep ws) = last (last ws)"
  using assms
proof (induction ws rule: list_nonempty_induct)
  case (cons w ws)
  then show ?case by (simp add: join_Cons)
qed simp

lemma trim_trailing: "P c \<Longrightarrow> trim_by P (xs @ [c]) = trim_by P xs"
  by (cases "dropWhile P xs = []") (auto simp: trim_by_def trim_left_by_def trim_right_by_def dropWhile_append
      dest: set_dropWhileD)

lemma newline_space: "is_space (CHR 10)"
  by (simp add: is_space_def)

lemma split_printed_lines [go_string]:
  assumes "ls \<noteq> []" and "\<And>l c. l \<in> set ls \<Longrightarrow> l \<noteq> [] \<and> (c \<in> set l \<longrightarrow> \<not> is_space c)"
  shows "split_char (CHR 10) (trim_space (printed_lines ls)) = ls"
proof -
  have ends: "hd (join [CHR 10] ls) = hd (hd ls)" "last (join [CHR 10] ls) = last (last ls)"
    using join_ends [of ls "[CHR 10]"] assms by auto
  have "hd ls \<in> set ls" "last ls \<in> set ls" using assms(1) by auto
  then have "\<not> is_space (hd (hd ls))" "\<not> is_space (last (last ls))"
    using assms(2) by (meson hd_in_set last_in_set)+
  with ends have "trim_by is_space (join [CHR 10] ls) = join [CHR 10] ls" by (intro trim_by_id) auto
  then have "trim_space (printed_lines ls) = join [CHR 10] ls"
    by (simp add: trim_space_def printed_lines_join [OF assms(1)] trim_trailing newline_space)
  moreover have "CHR 10 \<notin> set w" if "w \<in> set ls" for w
    using that assms(2) newline_space by blast
  ultimately show ?thesis using split_char_join [of ls "CHR 10"] assms(1) by simp
qed

section \<open>Case mapping\<close>

definition is_upper :: "char \<Rightarrow> bool" where
  "is_upper c = (CHR ''A'' \<le> c \<and> c \<le> CHR ''Z'')"

definition is_lower :: "char \<Rightarrow> bool" where
  "is_lower c = (CHR ''a'' \<le> c \<and> c \<le> CHR ''z'')"

definition is_digit :: "char \<Rightarrow> bool" where
  "is_digit c = (CHR ''0'' \<le> c \<and> c \<le> CHR ''9'')"

definition lower_char :: "char \<Rightarrow> char" where
  "lower_char c = (if is_upper c then char_of (of_char c + (32 :: nat)) else c)"

definition upper_char :: "char \<Rightarrow> char" where
  "upper_char c = (if is_lower c then char_of (of_char c - (32 :: nat)) else c)"

text \<open>\<open>strings.ToLower(s)\<close> and \<open>strings.ToUpper(s)\<close>.\<close>

definition to_lower :: "string \<Rightarrow> string" where
  "to_lower s = map lower_char s"

definition to_upper :: "string \<Rightarrow> string" where
  "to_upper s = map upper_char s"

lemma lower_char_not_upper: "\<not> is_upper (lower_char c)"
proof (cases "is_upper c")
  case True
  then have b: "65 \<le> (of_char c :: nat)" "(of_char c :: nat) \<le> 90"
    by (auto simp: is_upper_def less_eq_char_def)
  then have "of_char (char_of (of_char c + (32 :: nat))) = (of_char c + (32 :: nat))"
    by (simp add: of_char_of)
  with b show ?thesis by (auto simp: lower_char_def is_upper_def less_eq_char_def True)
next
  case False
  then show ?thesis by (simp add: lower_char_def)
qed

lemma lower_char_idem [simp]: "lower_char (lower_char c) = lower_char c"
  using lower_char_not_upper [of c] by (simp add: lower_char_def)

lemma to_lower_idem [simp]: "to_lower (to_lower s) = to_lower s"
  by (simp add: to_lower_def)

section \<open>Decimal numbers\<close>

definition digit_val :: "char \<Rightarrow> nat" where
  "digit_val c = of_char c - 48"

definition digit_char :: "nat \<Rightarrow> char" where
  "digit_char d = char_of (48 + d)"

text \<open>The value of a string of digits (the callers have matched it against \<open>\d+\<close>).\<close>

definition decimal :: "string \<Rightarrow> nat" where
  "decimal s = foldl (\<lambda>n c. 10 * n + digit_val c) 0 s"

text \<open>\<open>%d\<close> of a non-negative number.\<close>

fun show_nat :: "nat \<Rightarrow> string" where
  "show_nat n = (if n < 10 then [digit_char n] else show_nat (n div 10) @ [digit_char (n mod 10)])"

declare show_nat.simps [simp del]

definition show_int :: "int \<Rightarrow> string" where
  "show_int i = (if i < 0 then CHR ''-'' # show_nat (nat (- i)) else show_nat (nat i))"

lemma digit_val_char [simp]: "d < 10 \<Longrightarrow> digit_val (digit_char d) = d"
  by (simp add: digit_val_def digit_char_def of_char_of)

lemma is_digit_char [simp]: "d < 10 \<Longrightarrow> is_digit (digit_char d)"
  by (simp add: is_digit_def digit_char_def less_eq_char_def of_char_of)

lemma decimal_snoc: "decimal (s @ [c]) = 10 * decimal s + digit_val c"
  by (simp add: decimal_def)

lemma decimal_show_nat [go_string]: "decimal (show_nat n) = n"
proof (induction n rule: show_nat.induct)
  case (1 n)
  then show ?case
    by (subst show_nat.simps) (auto simp: decimal_snoc, simp add: decimal_def)
qed

lemma show_nat_digits: "c \<in> set (show_nat n) \<Longrightarrow> is_digit c"
proof (induction n rule: show_nat.induct)
  case (1 n)
  from 1(2) show ?case
    by (subst (asm) show_nat.simps) (auto split: if_splits dest: 1(1))
qed

lemma show_nat_ne [simp]: "show_nat n \<noteq> []"
  by (subst show_nat.simps) auto

lemma show_nat_inj: "show_nat m = show_nat n \<longleftrightarrow> m = n"
  by (metis decimal_show_nat)

text \<open>
  \<open>strconv.Atoi\<close> on the digits of an unsigned number and \<open>fmt.Sscanf(s, "%d", &n)\<close> on a
  string of digits: both refuse a value beyond a 64-bit \<open>int\<close>.
\<close>

definition max_int64 :: nat where
  "max_int64 = 9223372036854775807"

definition scan_decimal :: "string \<Rightarrow> nat option" where
  "scan_decimal s =
     (if s \<noteq> [] \<and> list_all is_digit s \<and> decimal s \<le> max_int64 then Some (decimal s) else None)"

lemma scan_show_nat: "n \<le> max_int64 \<Longrightarrow> scan_decimal (show_nat n) = Some n"
  by (auto simp: scan_decimal_def decimal_show_nat list_all_iff show_nat_digits)

end
