(* ===== verification/Polling.thy ===== *)
theory Polling
  imports GoPrelude
begin

text \<open>
  The polling loop every wait helper of \<open>pkg/\<close> runs through,
  \<open>wait.PollUntilContextTimeout\<close> of k8s.io/apimachinery, and \<open>retry.RetryOnConflict\<close> of
  client-go. Both are outside \<open>src/\<close>: the definitions of the components take them as
  parameters \<open>poll\<close> and \<open>retry\<close>, and a theorem that depends on what they do has their
  documented contract (\<open>poll_contract\<close>, \<open>retry_contract\<close>) as a hypothesis. The state the
  condition runs over holds the outside world, so it may change between two attempts.
\<close>

section \<open>Conditions and the poller\<close>

text \<open>
  A \<open>wait.ConditionFunc\<close> returns \<open>(done bool, err error)\<close>; the poller returns nil, the
  condition's error, or the error of its expired context.
\<close>

type_synonym ('s, 'e) cond = "'s \<Rightarrow> (bool \<times> 'e option) \<times> 's"

datatype 'e poll_error = PollTimeout | CondError 'e

text \<open>Interval and timeout in seconds, then \<open>immediate\<close>, then the condition.\<close>

type_synonym ('s, 'e) poller =
  "nat \<Rightarrow> nat \<Rightarrow> bool \<Rightarrow> ('s, 'e) cond \<Rightarrow> 's \<Rightarrow> 'e poll_error option \<times> 's"

primrec poll_rounds :: "nat \<Rightarrow> ('s, 'e) cond \<Rightarrow> 's \<Rightarrow> 'e poll_error option \<times> 's" where
  "poll_rounds 0 f s = (Some PollTimeout, s)"
| "poll_rounds (Suc n) f s =
     (case f s of ((finished, err), s') \<Rightarrow>
       (case err of
          Some e \<Rightarrow> (Some (CondError e), s')
        | None \<Rightarrow> if finished then (None, s') else poll_rounds n f s'))"

text \<open>
  The documented contract: the condition is evaluated some number of times before the
  deadline, at least once when \<open>immediate\<close> is set, until it reports done or fails.
\<close>

definition poll_contract :: "('s, 'e) poller \<Rightarrow> bool" where
  "poll_contract poll \<longleftrightarrow>
     (\<forall>interval timeout immediate f s. \<exists>n. (immediate \<longrightarrow> 0 < n) \<and>
        poll interval timeout immediate f s = poll_rounds n f s)"

definition rounds_poller :: "nat \<Rightarrow> ('s, 'e) poller" where
  "rounds_poller n interval timeout immediate f s = poll_rounds (Suc n) f s"

lemma rounds_poller_contract: "poll_contract (rounds_poller n)"
  unfolding poll_contract_def rounds_poller_def by (metis zero_less_Suc)

lemma poll_contractE:
  assumes "poll_contract poll"
  obtains n where "immediate \<Longrightarrow> 0 < n"
    and "poll interval timeout immediate f s = poll_rounds n f s"
  using assms unfolding poll_contract_def by blast

section \<open>What a poll observes\<close>

text \<open>
  \<open>pending f k s t\<close>: \<open>k\<close> evaluations of the condition from \<open>s\<close> were all "not yet" and lead
  to \<open>t\<close>. A poll that ends is such a run followed by one decisive evaluation.
\<close>

inductive pending :: "('s, 'e) cond \<Rightarrow> nat \<Rightarrow> 's \<Rightarrow> 's \<Rightarrow> bool" for f where
  pending_0: "pending f 0 s s"
| pending_Suc: "f s = ((False, None), s') \<Longrightarrow> pending f k s' t \<Longrightarrow> pending f (Suc k) s t"

inductive_simps pending_0_iff [simp]: "pending f 0 s t"
inductive_cases pending_SucE: "pending f (Suc k) s t"

lemma pending_Suc_iff: "pending f (Suc k) s t \<longleftrightarrow> (\<exists>s'. f s = ((False, None), s') \<and> pending f k s' t)"
  by (auto elim: pending_SucE intro: pending_Suc)

lemma poll_rounds_pending:
  "pending f k s t \<Longrightarrow> poll_rounds (k + n) f s = poll_rounds n f t"
  by (induction rule: pending.induct) auto

text \<open>The poll returns nil exactly when some evaluation within its rounds is done without error.\<close>

lemma poll_rounds_None_iff:
  "poll_rounds n f s = (None, s') \<longleftrightarrow>
     (\<exists>k t. k < n \<and> pending f k s t \<and> f t = ((True, None), s'))" (is "_ \<longleftrightarrow> ?r n s")
proof
  assume "poll_rounds n f s = (None, s')"
  then show "?r n s"
  proof (induction n arbitrary: s)
    case (Suc n)
    show ?case
    proof (cases "f s = ((False, None), snd (f s))")
      case True
      with Suc.prems have "poll_rounds n f (snd (f s)) = (None, s')"
        by (metis (mono_tags, lifting) option.case(1) poll_rounds.simps(2) prod.case)
      from Suc.IH [OF this] True show ?thesis
        by (metis Suc_less_eq pending_Suc)
    next
      case False
      with Suc.prems have "f s = ((True, None), s')"
        by (auto split: result_splits)
      then show ?thesis by (intro exI [of _ 0] exI [of _ s]) simp
    qed
  qed simp
next
  assume "?r n s"
  then obtain k t where k: "k < n" and p: "pending f k s t" and d: "f t = ((True, None), s')"
    by blast
  then obtain m where "n = k + Suc m" by (metis add_Suc_right less_natE)
  then show "poll_rounds n f s = (None, s')"
    using poll_rounds_pending [OF p, of "Suc m"] d by simp
qed

lemma poll_rounds_Error_iff:
  "poll_rounds n f s = (Some (CondError e), s') \<longleftrightarrow>
     (\<exists>k t b. k < n \<and> pending f k s t \<and> f t = ((b, Some e), s'))" (is "_ \<longleftrightarrow> ?r n s")
proof
  assume "poll_rounds n f s = (Some (CondError e), s')"
  then show "?r n s"
  proof (induction n arbitrary: s)
    case (Suc n)
    obtain b err s1 where fs: "f s = ((b, err), s1)" by (metis surj_pair)
    show ?case
    proof (cases "err = None \<and> \<not> b")
      case True
      with Suc.prems fs have "poll_rounds n f s1 = (Some (CondError e), s')" by simp
      from Suc.IH [OF this] obtain k t c where
        "k < n" "pending f k s1 t" "f t = ((c, Some e), s')" by blast
      with True fs show ?thesis
        by (intro exI [of _ "Suc k"] exI [of _ t] exI [of _ c]) (auto intro: pending_Suc)
    next
      case False
      with Suc.prems fs have "err = Some e" and "s1 = s'"
        by (auto split: result_splits)
      with fs show ?thesis by (intro exI [of _ 0] exI [of _ s] exI [of _ b]) simp
    qed
  qed simp
next
  assume "?r n s"
  then obtain k t b where k: "k < n" and p: "pending f k s t" and d: "f t = ((b, Some e), s')"
    by blast
  then obtain m where "n = k + Suc m" by (metis add_Suc_right less_natE)
  then show "poll_rounds n f s = (Some (CondError e), s')"
    using poll_rounds_pending [OF p, of "Suc m"] d by simp
qed

lemma poll_None:
  assumes "poll_contract poll" and "poll i t imm f s = (None, s')"
  obtains k u where "pending f k s u" and "f u = ((True, None), s')"
  using assms by (metis poll_contractE poll_rounds_None_iff)

lemma poll_Error:
  assumes "poll_contract poll" and "poll i t imm f s = (Some (CondError e), s')"
  obtains k u b where "pending f k s u" and "f u = ((b, Some e), s')"
  using assms by (metis poll_contractE poll_rounds_Error_iff)

lemma pending_invariant:
  assumes "pending f k s t" and "I s"
    and "\<And>s s'. I s \<Longrightarrow> f s = ((False, None), s') \<Longrightarrow> I s'"
  shows "I t"
  using assms(1,2) by (induction rule: pending.induct) (auto intro: assms(3))

text \<open>A poll is a run of unfinished evaluations and at most one that ends it.\<close>

lemma poll_rounds_ends:
  "poll_rounds n f s = (r, s') \<Longrightarrow>
     \<exists>k u. pending f k s u \<and> (s' = u \<and> r = Some PollTimeout \<or> (f u = ((True, None), s') \<and> r = None)
       \<or> (\<exists>b e. f u = ((b, Some e), s') \<and> r = Some (CondError e)))"
proof (induction n arbitrary: s)
  case 0
  then show ?case by (auto intro: pending_0)
next
  case (Suc n)
  obtain b e s1 where f: "f s = ((b, e), s1)" by (metis surj_pair)
  show ?case
  proof (cases "e = None \<and> \<not> b")
    case True
    with Suc.prems f have "poll_rounds n f s1 = (r, s')" by simp
    from Suc.IH [OF this] obtain k u where p: "pending f k s1 u" and
      "s' = u \<and> r = Some PollTimeout \<or> (f u = ((True, None), s') \<and> r = None)
       \<or> (\<exists>b e. f u = ((b, Some e), s') \<and> r = Some (CondError e))" by (elim exE conjE)
    moreover have "pending f (Suc k) s u" using f True p by (auto intro: pending_Suc)
    ultimately show ?thesis by (intro exI [of _ "Suc k"] exI [of _ u] conjI)
  next
    case False
    show ?thesis
    proof (cases e)
      case None
      with False Suc.prems f have "f s = ((True, None), s')" "r = None" by simp_all
      then show ?thesis using pending_0 [of f s] by blast
    next
      case (Some x)
      with Suc.prems f have "f s = ((b, Some x), s')" "r = Some (CondError x)" by simp_all
      then show ?thesis using pending_0 [of f s] by blast
    qed
  qed
qed

lemma poll_ends:
  assumes "poll_contract poll" and "poll i t imm f s = (r, s')"
  obtains k u where "pending f k s u" and
    "s' = u \<and> r = Some PollTimeout \<or> (f u = ((True, None), s') \<and> r = None)
     \<or> (\<exists>b e. f u = ((b, Some e), s') \<and> r = Some (CondError e))"
proof -
  from assms(1) obtain n where "poll i t imm f s = poll_rounds n f s" by (rule poll_contractE)
  with assms(2) have "poll_rounds n f s = (r, s')" by simp
  from poll_rounds_ends [OF this] show thesis using that by (elim exE conjE)
qed

text \<open>A condition that is decisive on the first immediate attempt decides the poll.\<close>

lemma poll_immediate_done:
  assumes "poll_contract poll" and "f s = ((True, None), s')"
  shows "poll i t True f s = (None, s')"
proof -
  from assms(1) obtain n where "0 < n" and "poll i t True f s = poll_rounds n f s"
    by (metis poll_contractE)
  with assms(2) show ?thesis by (cases n) auto
qed

lemma poll_immediate_error:
  assumes "poll_contract poll" and "f s = ((b, Some e), s')"
  shows "poll i t True f s = (Some (CondError e), s')"
proof -
  from assms(1) obtain n where "0 < n" and "poll i t True f s = poll_rounds n f s"
    by (metis poll_contractE)
  with assms(2) show ?thesis by (cases n) auto
qed

text \<open>An invariant of the condition's state is an invariant of the poll.\<close>

lemma poll_rounds_invariant:
  assumes "\<And>s. I s \<Longrightarrow> I (snd (f s))" and "I s"
  shows "I (snd (poll_rounds n f s))"
  using assms(2)
proof (induction n arbitrary: s)
  case (Suc n)
  have "I (snd (f s))" using assms(1) Suc.prems .
  then show ?case using Suc.IH by (cases "f s") (auto split: result_splits)
qed simp

lemma poll_invariant:
  assumes "poll_contract poll" and "\<And>s. I s \<Longrightarrow> I (snd (f s))" and "I s"
  shows "I (snd (poll i t imm f s))"
  using assms by (metis poll_contractE poll_rounds_invariant)

lemma poll_invariant_state:
  assumes "poll_contract poll" and "poll i t imm f s = (e, s')" and "I s"
    and "\<And>s. I s \<Longrightarrow> I (snd (f s))"
  shows "I s'"
proof -
  have "I (snd (poll i t imm f s))" using assms(1,4,3) by (rule poll_invariant)
  then show ?thesis by (simp add: assms(2))
qed

section \<open>RetryOnConflict\<close>

text \<open>
  \<open>retry.RetryOnConflict(retry.DefaultRetry, fn)\<close> runs \<open>fn\<close> again while it fails with a
  conflict, a bounded number of times, and returns what the last run returned.
\<close>

type_synonym ('s, 'e) attempt = "'s \<Rightarrow> 'e option \<times> 's"

primrec retry_rounds :: "('e \<Rightarrow> bool) \<Rightarrow> nat \<Rightarrow> ('s, 'e) attempt \<Rightarrow> 's \<Rightarrow> 'e option \<times> 's" where
  "retry_rounds conflict 0 f s = f s"
| "retry_rounds conflict (Suc n) f s =
     (case f s of (err, s') \<Rightarrow>
       (case err of
          Some e \<Rightarrow> if conflict e then retry_rounds conflict n f s' else (Some e, s')
        | None \<Rightarrow> (None, s')))"

definition retry_contract ::
    "('e \<Rightarrow> bool) \<Rightarrow> (('s, 'e) attempt \<Rightarrow> 's \<Rightarrow> 'e option \<times> 's) \<Rightarrow> bool" where
  "retry_contract conflict retry \<longleftrightarrow> (\<forall>f s. \<exists>n. retry f s = retry_rounds conflict n f s)"

lemma retry_rounds_contract: "retry_contract conflict (retry_rounds conflict n)"
  unfolding retry_contract_def by blast

lemma retry_rounds_invariant:
  assumes "\<And>s. I s \<Longrightarrow> I (snd (f s))" and "I s"
  shows "I (snd (retry_rounds conflict n f s))"
  using assms(2)
proof (induction n arbitrary: s)
  case 0
  then show ?case using assms(1) by simp
next
  case (Suc n)
  have "I (snd (f s))" using assms(1) Suc.prems .
  then show ?case using Suc.IH by (cases "f s") (auto split: result_splits)
qed

lemma retry_invariant:
  assumes "retry_contract conflict retry" and "\<And>s. I s \<Longrightarrow> I (snd (f s))" and "I s"
  shows "I (snd (retry f s))"
  using assms retry_rounds_invariant unfolding retry_contract_def by metis

text \<open>Success of a retried operation is success of one of its runs.\<close>

lemma retry_rounds_None:
  assumes "retry_rounds conflict n f s = (None, s')" and "\<And>s. I s \<Longrightarrow> I (snd (f s))" and "I s"
  shows "\<exists>t. I t \<and> f t = (None, s')"
  using assms(1,3)
proof (induction n arbitrary: s)
  case 0
  then show ?case by auto
next
  case (Suc n)
  have "I (snd (f s))" using assms(2) Suc.prems(2) .
  with Suc show ?case by (cases "f s") (auto split: result_splits)
qed

lemma retry_None:
  assumes "retry_contract conflict retry" and "retry f s = (None, s')"
    and "\<And>s. I s \<Longrightarrow> I (snd (f s))" and "I s"
  obtains t where "I t" and "f t = (None, s')"
  using assms retry_rounds_None unfolding retry_contract_def by metis

end
