(* ===== verification/ClusterApi.thy ===== *)
theory ClusterApi
  imports Polling
begin

text \<open>
  The Kubernetes API as the packages under \<open>pkg/\<close> see it. The API server is outside
  \<open>src/\<close>: it is the parameter \<open>sv\<close> of every definition that talks to it, a record of
  functions over an arbitrary world \<open>'w\<close>, which may change at every call (other clients and
  controllers run beside the tests). The client side is explicit state passing over a record
  that holds the world and, as a ghost field, the trace of the requests made and the answers
  received, newest first; safety properties are stated on the trace and hold for every server.
\<close>

section \<open>Errors, conditions, objects\<close>

text \<open>
  What \<open>apierrors.IsNotFound\<close>, \<open>IsAlreadyExists\<close>, \<open>IsConflict\<close> and \<open>IsGone\<close> tell
  apart; every other error is \<open>OtherError\<close> with its text.
\<close>

datatype api_error = NotFound | AlreadyExists | Conflict | Gone | OtherError string

definition is_conflict :: "api_error \<Rightarrow> bool" where
  "is_conflict e = (e = Conflict)"

fun is_not_found :: "api_error + 'a \<Rightarrow> bool" where
  "is_not_found (Inl e) = (e = NotFound)"
| "is_not_found (Inr _) = False"

record condition =
  cd_type :: string
  cd_status :: string
  cd_reason :: string
  cd_message :: string

text \<open>An object is addressed by its cluster, kind (or resource), namespace and name.\<close>

datatype ref = Ref (ref_cluster: string) (ref_kind: string) (ref_ns: string) (ref_name: string)

record 'b kobject =
  o_ref :: ref
  o_labels :: "string \<rightharpoonup> string"
  o_uid :: string
  o_body :: 'b

text \<open>Reading a Go \<open>map[string]string\<close> at a missing key gives the empty string.\<close>

definition label_of :: "(string \<rightharpoonup> string) \<Rightarrow> string \<Rightarrow> string" where
  "label_of m k = (case m k of None \<Rightarrow> [] | Some v \<Rightarrow> v)"

lemma label_of_simps [simp]:
  "m k = None \<Longrightarrow> label_of m k = []"
  "m k = Some v \<Longrightarrow> label_of m k = v"
  by (simp_all add: label_of_def)

section \<open>The server and the client state\<close>

record ('w, 'b) server =
  sv_get :: "ref \<Rightarrow> 'w \<Rightarrow> (api_error + 'b kobject) \<times> 'w"
  sv_create :: "'b kobject \<Rightarrow> 'w \<Rightarrow> (api_error + 'b kobject) \<times> 'w"
  sv_update :: "'b kobject \<Rightarrow> 'w \<Rightarrow> (api_error + 'b kobject) \<times> 'w"
  sv_delete :: "ref \<Rightarrow> 'w \<Rightarrow> api_error option \<times> 'w"
  sv_list :: "string \<Rightarrow> string \<Rightarrow> string \<Rightarrow> string \<Rightarrow> 'w \<Rightarrow> (api_error + 'b kobject list) \<times> 'w"

text \<open>What a CLI command leaves behind: the \<open>icmd.Result\<close>.\<close>

record cmd_result =
  ExitCode :: int
  Stdout :: string
  Stderr :: string

datatype 'b event =
    Got ref "api_error + 'b kobject"
  | Created "'b kobject" "api_error + 'b kobject"
  | Updated "'b kobject" "api_error + 'b kobject"
  | Deleted ref "api_error option"
  | Listed string string string string "api_error + 'b kobject list"
  | Ran "string list" cmd_result

record ('w, 'b) io =
  io_world :: 'w
  io_trace :: "'b event list"

definition k_get :: "('w, 'b) server \<Rightarrow> ref \<Rightarrow> ('w, 'b, 'm) io_scheme \<Rightarrow>
    (api_error + 'b kobject) \<times> ('w, 'b, 'm) io_scheme" where
  "k_get sv r s = (case sv_get sv r (io_world s) of
     (res, w) \<Rightarrow> (res, s\<lparr>io_world := w, io_trace := Got r res # io_trace s\<rparr>))"

definition k_create :: "('w, 'b) server \<Rightarrow> 'b kobject \<Rightarrow> ('w, 'b, 'm) io_scheme \<Rightarrow>
    (api_error + 'b kobject) \<times> ('w, 'b, 'm) io_scheme" where
  "k_create sv ob s = (case sv_create sv ob (io_world s) of
     (res, w) \<Rightarrow> (res, s\<lparr>io_world := w, io_trace := Created ob res # io_trace s\<rparr>))"

definition k_update :: "('w, 'b) server \<Rightarrow> 'b kobject \<Rightarrow> ('w, 'b, 'm) io_scheme \<Rightarrow>
    (api_error + 'b kobject) \<times> ('w, 'b, 'm) io_scheme" where
  "k_update sv ob s = (case sv_update sv ob (io_world s) of
     (res, w) \<Rightarrow> (res, s\<lparr>io_world := w, io_trace := Updated ob res # io_trace s\<rparr>))"

definition k_delete :: "('w, 'b) server \<Rightarrow> ref \<Rightarrow> ('w, 'b, 'm) io_scheme \<Rightarrow>
    api_error option \<times> ('w, 'b, 'm) io_scheme" where
  "k_delete sv r s = (case sv_delete sv r (io_world s) of
     (res, w) \<Rightarrow> (res, s\<lparr>io_world := w, io_trace := Deleted r res # io_trace s\<rparr>))"

definition k_list :: "('w, 'b) server \<Rightarrow> string \<Rightarrow> string \<Rightarrow> string \<Rightarrow> string \<Rightarrow>
    ('w, 'b, 'm) io_scheme \<Rightarrow> (api_error + 'b kobject list) \<times> ('w, 'b, 'm) io_scheme" where
  "k_list sv c k ns sel s = (case sv_list sv c k ns sel (io_world s) of
     (res, w) \<Rightarrow> (res, s\<lparr>io_world := w, io_trace := Listed c k ns sel res # io_trace s\<rparr>))"

text \<open>A command run outside the program, by \<open>icmd.RunCmd\<close>.\<close>

definition k_run :: "(string list \<Rightarrow> 'w \<Rightarrow> cmd_result \<times> 'w) \<Rightarrow> string list \<Rightarrow> ('w, 'b, 'm) io_scheme \<Rightarrow>
    cmd_result \<times> ('w, 'b, 'm) io_scheme" where
  "k_run sh args s = (case sh args (io_world s) of
     (res, w) \<Rightarrow> (res, s\<lparr>io_world := w, io_trace := Ran args res # io_trace s\<rparr>))"

text \<open>Each call records itself and changes nothing of the client's own state.\<close>

lemma call_frames:
  "k_get sv r s = (res, s') \<Longrightarrow> io_trace s' = Got r res # io_trace s \<and> io.more s' = io.more s"
  "k_create sv ob s = (res, s') \<Longrightarrow> io_trace s' = Created ob res # io_trace s \<and> io.more s' = io.more s"
  "k_update sv ob s = (res, s') \<Longrightarrow> io_trace s' = Updated ob res # io_trace s \<and> io.more s' = io.more s"
  "k_delete sv r s = (del, s') \<Longrightarrow> io_trace s' = Deleted r del # io_trace s \<and> io.more s' = io.more s"
  "k_list sv c k ns sel s = (lres, s') \<Longrightarrow>
     io_trace s' = Listed c k ns sel lres # io_trace s \<and> io.more s' = io.more s"
  "k_run sh args s = (cres, s') \<Longrightarrow> io_trace s' = Ran args cres # io_trace s \<and> io.more s' = io.more s"
  by (auto simp: k_get_def k_create_def k_update_def k_delete_def k_list_def k_run_def split: prod.splits)

section \<open>Guarded deletes\<close>

text \<open>What the client knows of an object: the answer to its latest read of it.\<close>

primrec last_read :: "ref \<Rightarrow> 'b event list \<Rightarrow> 'b kobject option" where
  "last_read r [] = None"
| "last_read r (e # tr) =
     (case e of
        Got r' res \<Rightarrow> if r' = r then (case res of Inl _ \<Rightarrow> None | Inr ob \<Rightarrow> Some ob) else last_read r tr
      | _ \<Rightarrow> last_read r tr)"

text \<open>
  \<open>deletes_ok P tr\<close>: every delete request of the trace came after a read of the same object
  whose latest answer was an object that \<open>P\<close> accepts.
\<close>

primrec deletes_ok :: "(ref \<Rightarrow> 'b kobject \<Rightarrow> bool) \<Rightarrow> 'b event list \<Rightarrow> bool" where
  "deletes_ok P [] = True"
| "deletes_ok P (e # tr) =
     (deletes_ok P tr \<and>
      (case e of
         Deleted r _ \<Rightarrow> (case last_read r tr of None \<Rightarrow> False | Some ob \<Rightarrow> P r ob)
       | _ \<Rightarrow> True))"

lemma deletes_ok_calls:
  "k_get sv r s = (res, s') \<Longrightarrow> deletes_ok P (io_trace s') = deletes_ok P (io_trace s)"
  "k_create sv ob s = (res, s') \<Longrightarrow> deletes_ok P (io_trace s') = deletes_ok P (io_trace s)"
  "k_update sv ob s = (res, s') \<Longrightarrow> deletes_ok P (io_trace s') = deletes_ok P (io_trace s)"
  "k_list sv c k ns sel s = (lres, s') \<Longrightarrow> deletes_ok P (io_trace s') = deletes_ok P (io_trace s)"
  "k_run sh args s = (cres, s') \<Longrightarrow> deletes_ok P (io_trace s') = deletes_ok P (io_trace s)"
  by (auto dest: call_frames)

lemma deletes_ok_delete:
  assumes "k_delete sv r s = (del, s')" and "deletes_ok P (io_trace s)"
    and "last_read r (io_trace s) = Some ob" and "P r ob"
  shows "deletes_ok P (io_trace s')"
  using assms by (auto dest!: call_frames)

lemma last_read_get:
  "k_get sv r s = (Inr ob, s') \<Longrightarrow> last_read r (io_trace s') = Some ob"
  by (auto dest: call_frames)

lemma last_read_update:
  "k_update sv ob s = (res, s') \<Longrightarrow> last_read r (io_trace s') = last_read r (io_trace s)"
  by (auto dest: call_frames)

lemma deletes_ok_mono:
  "deletes_ok P tr \<Longrightarrow> (\<And>r ob. P r ob \<Longrightarrow> Q r ob) \<Longrightarrow> deletes_ok Q tr"
  by (induction tr) (auto split: event.splits option.splits)

lemma deletes_ok_append:
  "deletes_ok P (tr @ tr') \<Longrightarrow> deletes_ok P tr'"
  by (induction tr) auto

lemma deletes_okD:
  assumes "deletes_ok P (tr1 @ Deleted r res # tr2)"
  obtains ob where "last_read r tr2 = Some ob" and "P r ob"
  using deletes_ok_append [OF assms] by (auto split: option.splits)

text \<open>The objects the client asked the server to create.\<close>

primrec created_refs :: "'b event list \<Rightarrow> ref list" where
  "created_refs [] = []"
| "created_refs (e # tr) = (case e of Created ob _ \<Rightarrow> [o_ref ob] | _ \<Rightarrow> []) @ created_refs tr"

section \<open>Ownership labels\<close>

text \<open>
  Two packages mark what a run creates with a pair of labels and recognise it by them. The
  contract: the labels a run puts on are recognised by the same run, and nothing is recognised
  that another tool manages or that another run created.
\<close>

locale ownership =
  fixes owns :: "string \<Rightarrow> (string \<rightharpoonup> string) \<Rightarrow> bool"
    and own_labels :: "string \<Rightarrow> (string \<rightharpoonup> string)"
    and valid :: "string \<Rightarrow> bool"
  assumes owns_own: "valid p \<Longrightarrow> owns p (own_labels p)"
    and owns_managed: "owns p l \<Longrightarrow> label_of l ''app.kubernetes.io/managed-by'' = ''release-tests-ginkgo''"
    and owns_instance: "owns p l \<Longrightarrow> label_of l ''app.kubernetes.io/instance'' = p"
begin

lemma owns_unique: "owns p l \<Longrightarrow> owns q l \<Longrightarrow> p = q"
  using owns_instance by metis

lemma owns_other_run: "valid q \<Longrightarrow> owns p (own_labels q) \<Longrightarrow> p = q"
  using owns_own owns_unique by blast

lemma not_owns_unlabelled: "\<not> owns p Map.empty"
  using owns_managed [of p Map.empty] by (auto simp: label_of_def)

lemma not_owns_foreign:
  "l ''app.kubernetes.io/managed-by'' \<noteq> Some ''release-tests-ginkgo'' \<Longrightarrow> \<not> owns p l"
  using owns_managed [of p l] by (auto simp: label_of_def split: option.splits)

text \<open>An ownership-guarded trace never deletes an object last seen under foreign labels.\<close>

lemma guarded_not_foreign:
  assumes "deletes_ok (\<lambda>r ob. owns p (o_labels ob)) (tr1 @ Deleted r res # tr2)"
  obtains ob where "last_read r tr2 = Some ob"
    and "label_of (o_labels ob) ''app.kubernetes.io/instance'' = p"
    and "label_of (o_labels ob) ''app.kubernetes.io/managed-by'' = ''release-tests-ginkgo''"
  using assms by (elim deletes_okD) (metis owns_instance owns_managed)

end

end
