(* ===== verification/Wait.thy ===== *)
theory Wait
  imports ClusterApi
begin

text \<open>
  Package \<open>pkg/wait\<close> (\<open>wait.go\<close>): the condition functions on the Succeeded condition of a
  run, the \<open>WaitFor...State\<close> helpers that poll them, and the \<open>wait.ConditionFunc\<close>s on
  event listeners, pods and deleted objects. A \<open>ConditionAccessor\<close> is its one method used,
  \<open>GetCondition\<close>; the log lines are left out.
\<close>

section \<open>Verdicts\<close>

text \<open>The errors the package builds, one constructor per \<open>fmt.Errorf\<close>, and those it passes on.\<close>

datatype wait_error =
    WApi api_error
  | WContext string
  | WFailed string
  | WSucceeded string
  | WWrongReason (wr_name: string) (wr_was: string) (wr_expected: string)
  | WNotFailedReason string string
  | WWrongMessage string string
  | WNotFailedMessage string string
  | WFinished string

type_synonym accessor = "string \<Rightarrow> condition option"
type_synonym verdict = "accessor \<Rightarrow> bool \<times> wait_error option"

definition Succeed :: "string \<Rightarrow> verdict" where
  "Succeed name ca =
     (case ca ''Succeeded'' of
        Some c \<Rightarrow>
          if cd_status c = ''True'' then (True, None)
          else if cd_status c = ''False'' then (True, Some (WFailed name))
          else (False, None)
      | None \<Rightarrow> (False, None))"

definition Failed :: "string \<Rightarrow> verdict" where
  "Failed name ca =
     (case ca ''Succeeded'' of
        Some c \<Rightarrow>
          if cd_status c = ''True'' then (True, Some (WSucceeded name))
          else if cd_status c = ''False'' then (True, None)
          else (False, None)
      | None \<Rightarrow> (False, None))"

text \<open>
  The message of a wrong reason is \<open>"was: %s, expected: %s"\<close>, filled with \<open>reason\<close> and
  \<open>c.Reason\<close> in this order.
\<close>

definition FailedWithReason :: "string \<Rightarrow> string \<Rightarrow> verdict" where
  "FailedWithReason reason name ca =
     (case ca ''Succeeded'' of
        Some c \<Rightarrow>
          if cd_status c = ''False'' then
            (if cd_reason c = reason then (True, None)
             else (True, Some (WWrongReason name reason (cd_reason c))))
          else if cd_status c = ''True'' then (True, Some (WNotFailedReason name reason))
          else (False, None)
      | None \<Rightarrow> (False, None))"

definition FailedWithMessage :: "string \<Rightarrow> string \<Rightarrow> verdict" where
  "FailedWithMessage message name ca =
     (case ca ''Succeeded'' of
        Some c \<Rightarrow>
          if cd_status c = ''False'' then
            (if contains (cd_message c) message then (True, None)
             else (True, Some (WWrongMessage name (cd_message c))))
          else if cd_status c = ''True'' then (True, Some (WNotFailedMessage name message))
          else (False, None)
      | None \<Rightarrow> (False, None))"

definition Running :: "string \<Rightarrow> verdict" where
  "Running name ca =
     (case ca ''Succeeded'' of
        Some c \<Rightarrow>
          if cd_status c = ''True'' \<or> cd_status c = ''False'' then (True, Some (WFinished name))
          else if cd_status c = ''Unknown'' \<and> (cd_reason c = ''Running'' \<or> cd_reason c = ''Pending'')
            then (True, None)
          else (False, None)
      | None \<Rightarrow> (False, None))"

definition TaskRunSucceed :: "string \<Rightarrow> verdict" where
  "TaskRunSucceed name = Succeed name"

definition TaskRunFailed :: "string \<Rightarrow> verdict" where
  "TaskRunFailed name = Failed name"

definition PipelineRunSucceed :: "string \<Rightarrow> verdict" where
  "PipelineRunSucceed name = Succeed name"

definition PipelineRunFailed :: "string \<Rightarrow> verdict" where
  "PipelineRunFailed name = Failed name"

section \<open>The polling helpers\<close>

text \<open>\<open>config.APIRetry\<close> and \<open>config.APITimeout\<close>, in seconds.\<close>

definition APIRetry :: nat where "APIRetry = 5"
definition APITimeout :: nat where "APITimeout = 600"

text \<open>
  \<open>pollImmediateWithContext(ctx, fn)\<close>: an expired context, \<open>ctx s = Some e\<close> with \<open>e\<close> the text
  of \<open>ctx.Err()\<close>, ends the poll before \<open>fn\<close> is asked.
\<close>

definition pollImmediateWithContext ::
    "('s, wait_error) poller \<Rightarrow> ('s \<Rightarrow> string option) \<Rightarrow> ('s, wait_error) cond \<Rightarrow> 's \<Rightarrow>
     wait_error poll_error option \<times> 's" where
  "pollImmediateWithContext poll ctx fn s =
     poll APIRetry APITimeout True
       (\<lambda>s. case ctx s of Some e \<Rightarrow> ((True, Some (WContext e)), s) | None \<Rightarrow> fn s) s"

text \<open>The condition the \<open>WaitFor...State\<close> helpers poll: read the object, ask \<open>inState\<close>.\<close>

definition state_cond ::
    "('s \<Rightarrow> (api_error + 'r) \<times> 's) \<Rightarrow> ('r \<Rightarrow> bool \<times> wait_error option) \<Rightarrow> ('s, wait_error) cond" where
  "state_cond read inState s =
     (case read s of
        (Inl e, s') \<Rightarrow> ((True, Some (WApi e)), s')
      | (Inr r, s') \<Rightarrow> (inState r, s'))"

definition WaitForTaskRunState where
  "WaitForTaskRunState poll ctx getTaskRun name inState s =
     pollImmediateWithContext poll ctx (state_cond (getTaskRun name) inState) s"

definition WaitForDeploymentState where
  "WaitForDeploymentState poll ctx getDeployment name namespace inState s =
     pollImmediateWithContext poll ctx (state_cond (getDeployment namespace name) inState) s"

definition WaitForPodState where
  "WaitForPodState poll ctx getPod name namespace inState s =
     pollImmediateWithContext poll ctx (state_cond (getPod namespace name) inState) s"

definition WaitForPipelineRunState ::
    "('s, wait_error) poller \<Rightarrow> ('s \<Rightarrow> string option) \<Rightarrow>
     (string \<Rightarrow> 's \<Rightarrow> (api_error + accessor) \<times> 's) \<Rightarrow> string \<Rightarrow> verdict \<Rightarrow> 's \<Rightarrow>
     wait_error poll_error option \<times> 's" where
  "WaitForPipelineRunState poll ctx getPipelineRun name inState s =
     pollImmediateWithContext poll ctx (state_cond (getPipelineRun name) inState) s"

definition WaitForServiceExternalIPState where
  "WaitForServiceExternalIPState poll ctx getService namespace name inState s =
     pollImmediateWithContext poll ctx (state_cond (getService namespace name) inState) s"

definition WaitFor where
  "WaitFor poll ctx waitFunc s = pollImmediateWithContext poll ctx waitFunc s"

section \<open>Event listeners, pods, absence\<close>

text \<open>
  \<open>EventListenerReady\<close> looks at the error only to recognise NotFound, so the read gives both
  the error and the (then empty) status, as the Go client does. \<open>getCondition\<close> is knative's
  \<open>Status.GetCondition\<close>.
\<close>

definition EventListenerReady ::
    "('s \<Rightarrow> (api_error option \<times> condition list) \<times> 's) \<Rightarrow>
     (condition list \<Rightarrow> string \<Rightarrow> condition option) \<Rightarrow> ('s, wait_error) cond" where
  "EventListenerReady getListener getCondition s =
     (case getListener s of
        ((err, conds), s') \<Rightarrow>
          if err = Some NotFound then ((False, None), s')
          else if conds = [] then ((False, None), s')
          else if getCondition conds ''Available'' = None then ((False, None), s')
          else if list_ex (\<lambda>c. cd_status c \<noteq> ''True'') conds then ((False, None), s')
          else ((True, None), s'))"

text \<open>The closure's counter \<open>lastKnownPodNumber\<close>, initially \<open>-1\<close>, only feeds the log.\<close>

definition WaitForPodsWithLabels ::
    "('s \<Rightarrow> (api_error + string list) \<times> 's) \<Rightarrow> (int \<times> 's, wait_error) cond" where
  "WaitForPodsWithLabels listPodPhases =
     (\<lambda>(lastKnown, s). case listPodPhases s of
        (Inl _, s') \<Rightarrow> ((False, None), (lastKnown, s'))
      | (Inr phases, s') \<Rightarrow>
          (let lastKnown' = (if lastKnown \<noteq> int (length phases) then int (length phases) else lastKnown)
           in if phases = [] then ((False, None), (lastKnown', s'))
              else if list_ex (\<lambda>p. p \<noteq> ''Running'') phases then ((False, None), (lastKnown', s'))
              else ((True, None), (lastKnown', s'))))"

definition DeploymentNotExist :: "('s \<Rightarrow> (api_error + 'r) \<times> 's) \<Rightarrow> ('s, wait_error) cond" where
  "DeploymentNotExist getDeployment s =
     (case getDeployment s of
        (Inl e, s') \<Rightarrow> if e = NotFound then ((True, None), s') else ((False, None), s')
      | (Inr _, s') \<Rightarrow> ((False, None), s'))"

definition ServiceNotExist :: "('s \<Rightarrow> (api_error + 'r) \<times> 's) \<Rightarrow> ('s, wait_error) cond" where
  "ServiceNotExist getService s =
     (case getService s of
        (Inl e, s') \<Rightarrow> if e = NotFound then ((True, None), s') else ((False, None), s')
      | (Inr _, s') \<Rightarrow> ((False, None), s'))"

definition RouteNotExist :: "('s \<Rightarrow> (api_error + 'r) \<times> 's) \<Rightarrow> ('s, wait_error) cond" where
  "RouteNotExist getRoute s =
     (case getRoute s of
        (Inl e, s') \<Rightarrow> if e = NotFound then ((True, None), s') else ((False, None), s')
      | (Inr _, s') \<Rightarrow> ((False, None), s'))"

text \<open>Unlike the three above, \<open>PipelineRunExist\<close> hands every other error to the poller.\<close>

definition PipelineRunExist :: "('s \<Rightarrow> (api_error + 'r) \<times> 's) \<Rightarrow> ('s, wait_error) cond" where
  "PipelineRunExist getPipelineRun s =
     (case getPipelineRun s of
        (Inl e, s') \<Rightarrow> if e = NotFound then ((False, None), s') else ((True, Some (WApi e)), s')
      | (Inr _, s') \<Rightarrow> ((True, None), s'))"

section \<open>The contract of a verdict\<close>

text \<open>
  What the polling helpers rely on: a verdict looks at the Succeeded condition only, an absent
  condition keeps the poll going, and an error always ends it. A terminal verdict moreover is
  decided exactly by the statuses True and False.
\<close>

locale poll_verdict =
  fixes v :: verdict
  assumes absent: "ca ''Succeeded'' = None \<Longrightarrow> v ca = (False, None)"
    and error_done: "v ca = (d, Some e) \<Longrightarrow> d"
    and reads_succeeded: "ca ''Succeeded'' = ca' ''Succeeded'' \<Longrightarrow> v ca = v ca'"
begin

lemma waits_on_pending_reads:
  assumes "pending (\<lambda>s. case ctx s of Some e \<Rightarrow> ((True, Some (WContext e)), s)
                        | None \<Rightarrow> state_cond read v s) k s t" and "0 < k"
  shows "\<exists>acc s1. read s = (Inr acc, s1) \<and> v acc = (False, None)"
proof -
  from assms obtain j where "k = Suc j" by (cases k) auto
  with assms(1) show ?thesis
    by (auto simp: pending_Suc_iff state_cond_def split: option.splits sum.splits prod.splits)
qed

lemma wait_ok:
  assumes "poll_contract poll"
    and "WaitForPipelineRunState poll ctx get name v s = (None, s')"
  obtains t acc c where "ctx t = None" and "get name t = (Inr acc, s')"
    and "acc ''Succeeded'' = Some c" and "v acc = (True, None)"
proof -
  from assms obtain k t where
    "(case ctx t of Some e \<Rightarrow> ((True, Some (WContext e)), t)
      | None \<Rightarrow> state_cond (get name) v t) = ((True, None), s')"
    unfolding WaitForPipelineRunState_def pollImmediateWithContext_def by (elim poll_None)
  then obtain acc where "ctx t = None" "get name t = (Inr acc, s')" and v: "v acc = (True, None)"
    by (auto simp: state_cond_def split: option.splits sum.splits prod.splits)
  moreover from v obtain c where "acc ''Succeeded'' = Some c"
    using absent by (cases "acc ''Succeeded''") auto
  ultimately show thesis using that by blast
qed

lemma wait_error_cases:
  assumes "poll_contract poll"
    and "WaitForPipelineRunState poll ctx get name v s = (Some (CondError e), s')"
  obtains (expired) t msg where "ctx t = Some msg" and "e = WContext msg"
    | (api) t err where "get name t = (Inl err, s')" and "e = WApi err"
    | (verdict) t acc where "get name t = (Inr acc, s')" and "v acc = (True, Some e)"
proof -
  from assms obtain k t b where *:
    "(case ctx t of Some e \<Rightarrow> ((True, Some (WContext e)), t)
      | None \<Rightarrow> state_cond (get name) v t) = ((b, Some e), s')"
    unfolding WaitForPipelineRunState_def pollImmediateWithContext_def by (elim poll_Error)
  show thesis
  proof (cases "ctx t")
    case (Some msg)
    with * show thesis using expired by auto
  next
    case None
    with * consider (e1) err where "get name t = (Inl err, s')" "e = WApi err"
      | (e2) acc where "get name t = (Inr acc, s')" "v acc = (b, Some e)"
      by (auto simp: state_cond_def split: sum.splits prod.splits)
    then show thesis
    proof cases
      case e1
      then show thesis by (rule api)
    next
      case e2
      moreover from e2 have b using error_done by blast
      ultimately show thesis using verdict by simp
    qed
  qed
qed

end

locale terminal_verdict = poll_verdict +
  assumes decided: "ca ''Succeeded'' = Some c \<Longrightarrow>
    fst (v ca) \<longleftrightarrow> cd_status c = ''True'' \<or> cd_status c = ''False''"
begin

text \<open>A poll that succeeds has seen the run finish.\<close>

lemma wait_ok_finished:
  assumes "poll_contract poll"
    and "WaitForPipelineRunState poll ctx get name v s = (None, s')"
  obtains t acc c where "get name t = (Inr acc, s')" and "acc ''Succeeded'' = Some c"
    and "cd_status c = ''True'' \<or> cd_status c = ''False''" and "v acc = (True, None)"
proof -
  from assms obtain t acc c where *: "get name t = (Inr acc, s')" "acc ''Succeeded'' = Some c"
    "v acc = (True, None)" by (elim wait_ok)
  with decided [of acc c] have "cd_status c = ''True'' \<or> cd_status c = ''False''" by simp
  with * show thesis using that by blast
qed

text \<open>A run that is finished when the poll starts is decided by its first read.\<close>

lemma wait_finished_first_read:
  assumes "poll_contract poll" and "ctx s = None" and "get name s = (Inr acc, s')"
    and "acc ''Succeeded'' = Some c" and "cd_status c = ''True'' \<or> cd_status c = ''False''"
  shows "WaitForPipelineRunState poll ctx get name v s = (map_option CondError (snd (v acc)), s')"
proof -
  let ?f = "\<lambda>s. case ctx s of Some e \<Rightarrow> ((True, Some (WContext e)), s)
    | None \<Rightarrow> state_cond (get name) v s"
  have f: "?f s = (v acc, s')" using assms(2,3) by (simp add: state_cond_def)
  have d: "fst (v acc)" using decided assms(4,5) by blast
  show ?thesis
  proof (cases "snd (v acc)")
    case None
    with f d have "?f s = ((True, None), s')" by (metis prod.collapse)
    from poll_immediate_done [of poll ?f, OF assms(1) this] None show ?thesis
      unfolding WaitForPipelineRunState_def pollImmediateWithContext_def by simp
  next
    case (Some e)
    with f d have "?f s = ((True, Some e), s')" by (metis prod.collapse)
    from poll_immediate_error [of poll ?f, OF assms(1) this] Some show ?thesis
      unfolding WaitForPipelineRunState_def pollImmediateWithContext_def by simp
  qed
qed

end

lemmas verdict_defs = Succeed_def Failed_def FailedWithReason_def FailedWithMessage_def Running_def
  TaskRunSucceed_def TaskRunFailed_def PipelineRunSucceed_def PipelineRunFailed_def

interpretation succeed_v: terminal_verdict "Succeed name" for name
  by unfold_locales (auto simp: verdict_defs split: option.splits if_splits)

interpretation failed_v: terminal_verdict "Failed name" for name
  by unfold_locales (auto simp: verdict_defs split: option.splits if_splits)

interpretation reason_v: terminal_verdict "FailedWithReason reason name" for reason name
  by unfold_locales (auto simp: verdict_defs split: option.splits if_splits)

interpretation message_v: terminal_verdict "FailedWithMessage message name" for message name
  by unfold_locales (auto simp: verdict_defs split: option.splits if_splits)

interpretation running_v: poll_verdict "Running name" for name
  by unfold_locales (auto simp: verdict_defs split: option.splits if_splits)

section \<open>Properties\<close>

text \<open>
  waiting for a PipelineRun to succeed. Nil is returned only on a read of a run whose
  Succeeded condition is True; the error names the failed run, or is the API's or the
  context's; a run that is already finished is decided by the first read, True by nil and
  False by the error.
\<close>

theorem wait_pipelinerun_succeed:
  assumes contract: "poll_contract poll"
  shows "(WaitForPipelineRunState poll ctx get name (PipelineRunSucceed name) s = (None, s') \<longrightarrow>
      (\<exists>t acc c. get name t = (Inr acc, s') \<and> acc ''Succeeded'' = Some c \<and> cd_status c = ''True''))
    \<and> (WaitForPipelineRunState poll ctx get name (PipelineRunSucceed name) s = (Some (CondError e), s') \<longrightarrow>
      (\<exists>t msg. ctx t = Some msg \<and> e = WContext msg)
      \<or> (\<exists>t err. get name t = (Inl err, s') \<and> e = WApi err)
      \<or> (\<exists>t acc c. get name t = (Inr acc, s') \<and> acc ''Succeeded'' = Some c
           \<and> cd_status c = ''False'' \<and> e = WFailed name))
    \<and> (ctx s = None \<and> get name s = (Inr acc, s') \<and> acc ''Succeeded'' = Some c
        \<and> cd_status c \<in> {''True'', ''False''} \<longrightarrow>
       WaitForPipelineRunState poll ctx get name (PipelineRunSucceed name) s =
         (if cd_status c = ''True'' then None else Some (CondError (WFailed name)), s'))"
proof (intro conjI impI)
  assume "WaitForPipelineRunState poll ctx get name (PipelineRunSucceed name) s = (None, s')"
  then obtain t acc c where "get name t = (Inr acc, s')" "acc ''Succeeded'' = Some c"
    and ok: "Succeed name acc = (True, None)"
    unfolding PipelineRunSucceed_def by (rule succeed_v.wait_ok_finished [OF contract])
  moreover from ok this(2) have "cd_status c = ''True''"
    by (auto simp: Succeed_def split: if_splits)
  ultimately show "\<exists>t acc c. get name t = (Inr acc, s') \<and> acc ''Succeeded'' = Some c \<and> cd_status c = ''True''"
    by blast
next
  assume "WaitForPipelineRunState poll ctx get name (PipelineRunSucceed name) s = (Some (CondError e), s')"
  then show "(\<exists>t msg. ctx t = Some msg \<and> e = WContext msg)
      \<or> (\<exists>t err. get name t = (Inl err, s') \<and> e = WApi err)
      \<or> (\<exists>t acc c. get name t = (Inr acc, s') \<and> acc ''Succeeded'' = Some c
           \<and> cd_status c = ''False'' \<and> e = WFailed name)"
    unfolding PipelineRunSucceed_def
    by (rule succeed_v.wait_error_cases [OF contract]) (auto simp: Succeed_def split: option.splits if_splits)
next
  assume "ctx s = None \<and> get name s = (Inr acc, s') \<and> acc ''Succeeded'' = Some c
        \<and> cd_status c \<in> {''True'', ''False''}"
  then show "WaitForPipelineRunState poll ctx get name (PipelineRunSucceed name) s =
         (if cd_status c = ''True'' then None else Some (CondError (WFailed name)), s')"
    using succeed_v.wait_finished_first_read [OF contract, of ctx s get name acc s' c name]
    by (auto simp: PipelineRunSucceed_def Succeed_def)
qed

text \<open>A run that turns True on the third read, and one that has failed.\<close>

definition scripted_run :: "string \<Rightarrow> nat \<Rightarrow> (api_error + accessor) \<times> nat" where
  "scripted_run name n =
     (Inr (\<lambda>_. if n < 2 then None
        else Some \<lparr>cd_type = ''Succeeded'', cd_status = ''True'', cd_reason = [], cd_message = []\<rparr>), Suc n)"

lemma scripted_wait:
  "WaitForPipelineRunState (rounds_poller 4) (\<lambda>_. None) scripted_run ''run'' (PipelineRunSucceed ''run'') 0
     = (None, 3)"
  by (simp add: WaitForPipelineRunState_def pollImmediateWithContext_def rounds_poller_def
      state_cond_def scripted_run_def PipelineRunSucceed_def Succeed_def numeral_eq_Suc)

theorem wait_pipelinerun_succeed_witness:
  "\<exists>t acc c. scripted_run ''run'' t = (Inr acc, 3) \<and> acc ''Succeeded'' = Some c
     \<and> cd_status c = ''True''"
proof -
  from wait_pipelinerun_succeed [OF rounds_poller_contract, where ctx = "\<lambda>_. None"
      and get = scripted_run and name = "''run''" and s = 0 and s' = 3]
  show ?thesis using scripted_wait by blast
qed

text \<open>
  the verdicts on a finished run are complementary. Succeed and Failed end the poll on the
  same observations, exactly one of them with an error; FailedWithReason and FailedWithMessage
  accept only what Failed accepts; and while Running is content, Succeed and Failed still wait.
\<close>

theorem verdicts_complementary:
  "fst (Succeed name ca) = fst (Failed name ca)
    \<and> (fst (Succeed name ca) \<longrightarrow> (snd (Succeed name ca) = None \<longleftrightarrow> snd (Failed name ca) \<noteq> None))
    \<and> (FailedWithReason reason name ca = (True, None) \<longrightarrow> Failed name ca = (True, None))
    \<and> (FailedWithMessage msg name ca = (True, None) \<longrightarrow> Failed name ca = (True, None))
    \<and> (Running name ca = (True, None) \<longrightarrow>
         Succeed name ca = (False, None) \<and> Failed name ca = (False, None))"
  by (auto simp: verdict_defs split: option.splits if_splits)

definition failed_accessor :: accessor where
  "failed_accessor k = Some \<lparr>cd_type = k, cd_status = ''False'', cd_reason = ''TimedOut'', cd_message = ''late''\<rparr>"

theorem verdicts_complementary_witness:
  "FailedWithReason ''TimedOut'' ''run'' failed_accessor = (True, None)
   \<and> Failed ''run'' failed_accessor = (True, None)"
  using verdicts_complementary [of "''run''" failed_accessor "''TimedOut''" "[]"]
  by (simp add: FailedWithReason_def failed_accessor_def)

text \<open>
  the wrong-reason error reports the two reasons the other way round: the text after
  "was" is the reason that was asked for, the text after "expected" the one observed.
\<close>

theorem wrong_reason_swapped:
  "snd (FailedWithReason reason name ca) = Some (WWrongReason n was expected) \<Longrightarrow>
     was = reason \<and> n = name \<and> expected \<noteq> reason \<and>
     (\<exists>c. ca ''Succeeded'' = Some c \<and> expected = cd_reason c)"
  by (auto simp: FailedWithReason_def split: option.splits if_splits)

theorem wrong_reason_swapped_witness:
  "snd (FailedWithReason ''Cancelled'' ''run'' failed_accessor)
     = Some (WWrongReason ''run'' ''Cancelled'' ''TimedOut'')
   \<and> ''Cancelled'' \<noteq> ''TimedOut''"
proof -
  have *: "snd (FailedWithReason ''Cancelled'' ''run'' failed_accessor)
     = Some (WWrongReason ''run'' ''Cancelled'' ''TimedOut'')"
    by (simp add: FailedWithReason_def failed_accessor_def)
  from wrong_reason_swapped [OF *] * show ?thesis by auto
qed

end
