(* ===== verification/ApiObjects.thy ===== *)
theory ApiObjects
  imports ClusterApi
begin

text \<open>
  The objects the packages read and write on a cluster, as far as the code looks at them: one
  type of bodies shared by every component that talks to the API server, so that their requests
  appear in one trace.
\<close>

section \<open>Object bodies\<close>

text \<open>The value of an \<open>unstructured.Unstructured\<close>: what \<open>map[string]any\<close> can hold.\<close>

datatype json =
    JNull | JBool bool | JNum int | JStr string | JArr "json list" | JObj "(string \<times> json) list"

text \<open>Indexing a \<open>map[string]any\<close> at a missing key gives nil.\<close>

fun jget :: "(string \<times> json) list \<Rightarrow> string \<Rightarrow> json" where
  "jget kvs k = (case map_of kvs k of None \<Rightarrow> JNull | Some v \<Rightarrow> v)"

record policy_rule =
  pr_groups :: "string list"
  pr_resources :: "string list"
  pr_verbs :: "string list"

record subject =
  sj_kind :: string
  sj_name :: string
  sj_ns :: string

text \<open>
  The fields of \<open>operatorv1alpha1.Scheduler\<close> the packages touch; \<open>Disabled\<close> is a pointer.
  \<open>MultiClusterRole\<close> is a string type with the constants \<open>MultiClusterRoleHub\<close> and
  \<open>MultiClusterRoleSpoke\<close>, whose texts the operator's package chooses.
\<close>

datatype mc_role = RoleHub | RoleSpoke | RoleOther string

record scheduler =
  sc_disabled :: "bool option"
  sc_multiClusterDisabled :: bool
  sc_role :: mc_role
  sc_queueName :: string
  sc_override :: bool

text \<open>A pod's waiting containers: the reason and message of \<open>State.Waiting\<close>, None when nil.\<close>

type_synonym waiting = "(string \<times> string) option"

text \<open>The spec of an OLM \<open>Subscription\<close>; its pointer may be nil in \<open>SubscriptionBody\<close>.\<close>

record subscription_spec =
  ss_package :: string
  ss_channel :: string
  ss_source :: string
  ss_sourceNamespace :: string
  ss_approval :: string

datatype kbody =
    Dyn json
  | NamespaceBody
  | ServiceAccountBody
  | TokenBody string
  | RoleBody "policy_rule list"
  | BindingBody string string "subject list"
  | SecretBody "(string \<times> string) list"
  | ConfigMapBody "string \<rightharpoonup> string"
  | EgressBody "string list" "int list"
  | ConfigBody scheduler "condition list"
  | SchedulerBody "condition list"
  | RunBody "string option" "condition option"
  | TaskRunBody
  | PodBody string "waiting list"
  | SubscriptionBody "subscription_spec option" string
  | CsvBody string string string
  | OperatorGroupBody

type_synonym kobj = "kbody kobject"

text \<open>Typed reads: the client decodes into a struct, whose fields are zero when absent.\<close>

fun dyn_content :: "kbody \<Rightarrow> json" where
  "dyn_content (Dyn j) = j"
| "dyn_content _ = JObj []"

definition zero_scheduler :: scheduler where
  "zero_scheduler = \<lparr>sc_disabled = None, sc_multiClusterDisabled = False, sc_role = RoleOther [],
     sc_queueName = [], sc_override = False\<rparr>"

fun config_scheduler :: "kbody \<Rightarrow> scheduler" where
  "config_scheduler (ConfigBody sc _) = sc"
| "config_scheduler _ = zero_scheduler"

fun status_conditions :: "kbody \<Rightarrow> condition list" where
  "status_conditions (ConfigBody _ cs) = cs"
| "status_conditions (SchedulerBody cs) = cs"
| "status_conditions _ = []"

fun configmap_data :: "kbody \<Rightarrow> (string \<rightharpoonup> string)" where
  "configmap_data (ConfigMapBody m) = m"
| "configmap_data _ = Map.empty"

fun token_of :: "kbody \<Rightarrow> string" where
  "token_of (TokenBody t) = t"
| "token_of _ = []"

end
