(* ===== verification/Effects.thy ===== *)
theory Effects
  imports ApiObjects
begin

text \<open>
  Errors of the components that work on a cluster, and the ways the code chains steps that may
  fail.
\<close>

section \<open>Errors\<close>

text \<open>
  \<open>KMsg\<close> is a \<open>fmt.Errorf\<close> text, \<open>KContext\<close> one that wraps an error with \<open>%w\<close>, \<open>KJoin\<close> an
  \<open>errors.Join\<close>; \<open>KTimeout\<close> is the poller's expired deadline, and \<open>KAbort\<close> a failed Ginkgo or Gomega
  assertion, which ends the test at once. The progress detail that some
  timeout messages quote is left out.
\<close>

datatype kerror =
    KApi api_error
  | KMsg string
  | KContext string kerror
  | KJoin "kerror list"
  | KTimeout
  | KAbort string

definition k_conflict :: "kerror \<Rightarrow> bool" where
  "k_conflict e = (e = KApi Conflict)"

fun of_poll :: "kerror poll_error option \<Rightarrow> kerror option" where
  "of_poll None = None"
| "of_poll (Some PollTimeout) = Some KTimeout"
| "of_poll (Some (CondError e)) = Some e"

text \<open>\<open>errors.Join\<close>: nil when every argument is nil, otherwise the errors that are not.\<close>

definition join_errors :: "kerror option list \<Rightarrow> kerror option" where
  "join_errors es = (case List.map_filter id es of [] \<Rightarrow> None | xs \<Rightarrow> Some (KJoin xs))"

definition wrap_error :: "string \<Rightarrow> kerror option \<Rightarrow> kerror option" where
  "wrap_error msg err = map_option (KContext msg) err"

section \<open>Sequencing\<close>

text \<open>\<open>if err := m1; err != nil { return err }; m2\<close>, and a loop that returns its first error.\<close>

type_synonym 's step = "'s \<Rightarrow> kerror option \<times> 's"

definition seq :: "'s step \<Rightarrow> 's step \<Rightarrow> 's step" where
  "seq m1 m2 s = (case m1 s of (Some e, s') \<Rightarrow> (Some e, s') | (None, s') \<Rightarrow> m2 s')"

definition wrap :: "string \<Rightarrow> 's step \<Rightarrow> 's step" where
  "wrap msg m s = (case m s of (err, s') \<Rightarrow> (wrap_error msg err, s'))"

fun for_each :: "('a \<Rightarrow> 's step) \<Rightarrow> 'a list \<Rightarrow> 's step" where
  "for_each f [] s = (None, s)"
| "for_each f (x # xs) s = (case f x s of (Some e, s') \<Rightarrow> (Some e, s') | (None, s') \<Rightarrow> for_each f xs s')"

text \<open>Steps that are all made, whatever fails; the caller joins the errors.\<close>

fun run_all :: "'s step list \<Rightarrow> 's \<Rightarrow> kerror option list \<times> 's" where
  "run_all [] s = ([], s)"
| "run_all (m # ms) s =
     (case m s of (err, s1) \<Rightarrow> (case run_all ms s1 of (errs, s2) \<Rightarrow> (err # errs, s2)))"

definition join_all :: "'s step list \<Rightarrow> 's step" where
  "join_all ms s = (case run_all ms s of (errs, s') \<Rightarrow> (join_errors errs, s'))"

text \<open>An invariant of the steps is an invariant of what is composed of them.\<close>

definition keeps :: "('s \<Rightarrow> bool) \<Rightarrow> ('s \<Rightarrow> 'r \<times> 's) \<Rightarrow> bool" where
  "keeps I m \<longleftrightarrow> (\<forall>s. I s \<longrightarrow> I (snd (m s)))"

named_theorems keeps_intro "steps that keep an invariant"

lemma keepsD: "keeps I m \<Longrightarrow> I s \<Longrightarrow> m s = (err, s') \<Longrightarrow> I s'"
  unfolding keeps_def by (metis snd_conv)

lemma keepsE: "keeps I m \<Longrightarrow> m s = (err, s') \<Longrightarrow> I s \<Longrightarrow> I s'"
  by (rule keepsD)

lemma keepsI: "(\<And>s err s'. I s \<Longrightarrow> m s = (err, s') \<Longrightarrow> I s') \<Longrightarrow> keeps I m"
  unfolding keeps_def by (metis prod.collapse)

lemma keeps_seq [keeps_intro]: "keeps I m1 \<Longrightarrow> keeps I m2 \<Longrightarrow> keeps I (seq m1 m2)"
  unfolding keeps_def seq_def by (fastforce split: prod.splits option.splits)

lemma keeps_wrap [keeps_intro]: "keeps I m \<Longrightarrow> keeps I (wrap msg m)"
  unfolding keeps_def wrap_def by (fastforce split: prod.splits)

lemma keeps_for_each [keeps_intro]:
  assumes "\<And>x. x \<in> set xs \<Longrightarrow> keeps I (f x)"
  shows "keeps I (for_each f xs)"
proof -
  have "I s \<Longrightarrow> I (snd (for_each f xs s))" for s
    using assms
  proof (induction xs arbitrary: s)
    case (Cons x xs)
    obtain err s1 where f: "f x s = (err, s1)" by (metis surj_pair)
    then have "I s1" using Cons.prems keepsD by (metis list.set_intros(1))
    with Cons f show ?case by (cases err) auto
  qed simp
  then show ?thesis by (simp add: keeps_def)
qed

lemma keeps_join_all [keeps_intro]:
  assumes "\<And>m. m \<in> set ms \<Longrightarrow> keeps I m"
  shows "keeps I (join_all ms)"
proof -
  have "I s \<Longrightarrow> I (snd (run_all ms s))" for s
    using assms
  proof (induction ms arbitrary: s)
    case (Cons m ms)
    obtain err s1 where f: "m s = (err, s1)" by (metis surj_pair)
    then have "I s1" using Cons.prems keepsD by (metis list.set_intros(1))
    then have "I (snd (run_all ms s1))" by (rule Cons.IH) (simp add: Cons.prems)
    with f show ?case by (cases "run_all ms s1") simp
  qed simp
  then show ?thesis by (simp add: keeps_def join_all_def split: prod.splits) (metis snd_conv)
qed

lemma join_errors_None: "join_errors es = None \<longleftrightarrow> set es \<subseteq> {None}"
  by (induction es) (auto simp: join_errors_def List.map_filter_simps split: option.splits list.splits)

text \<open>A joined sequence returns nil exactly when every one of its steps did.\<close>

lemma join_all_None_Cons:
  "join_all (m # ms) s = (None, s') \<longleftrightarrow> (\<exists>t. m s = (None, t) \<and> join_all ms t = (None, s'))"
  by (auto simp: join_all_def join_errors_None split: prod.splits)

lemma join_all_Nil [simp]: "join_all [] s = (None, s)"
  by (simp add: join_all_def join_errors_def List.map_filter_simps)

lemma keeps_const [keeps_intro]: "keeps I (Pair err)"
  by (simp add: keeps_def)

lemma keeps_poll:
  assumes "poll_contract poll" and "keeps I f"
  shows "keeps I (poll i t imm f)"
  using assms(2) poll_invariant [OF assms(1), of I f] by (simp add: keeps_def)

lemma keeps_retry:
  assumes "retry_contract c retry" and "keeps I f"
  shows "keeps I (retry f)"
  using assms(2) retry_invariant [OF assms(1), of I f] by (simp add: keeps_def)

lemma keeps_pollE:
  "poll_contract poll \<Longrightarrow> poll i t imm f s = (e, s') \<Longrightarrow> keeps I f \<Longrightarrow> I s \<Longrightarrow> I s'"
  by (metis keepsD keeps_poll)

lemma seq_None: "seq m1 m2 s = (None, s') \<longleftrightarrow> (\<exists>t. m1 s = (None, t) \<and> m2 t = (None, s'))"
  by (auto simp: seq_def split: prod.splits option.splits)

lemma for_each_append:
  "for_each f (xs @ ys) s = seq (for_each f xs) (for_each f ys) s"
  by (induction xs arbitrary: s) (auto simp: seq_def split: prod.splits option.splits)

section \<open>Invariants of the calls\<close>

text \<open>
  A predicate on the client's state that no read, no write and no command breaks, whatever is
  answered: the operations that only make such calls keep it. Deletes are left to those who make
  them.
\<close>

locale call_invariant =
  fixes I :: "('w, 'b, 'm) io_scheme \<Rightarrow> bool"
  assumes inv_get: "k_get sv r s = (res, s') \<Longrightarrow> I s \<Longrightarrow> I s'"
    and inv_create: "k_create sv ob s = (res, s') \<Longrightarrow> I s \<Longrightarrow> I s'"
    and inv_update: "k_update sv ob s = (res, s') \<Longrightarrow> I s \<Longrightarrow> I s'"
    and inv_list: "k_list sv c k ns sel s = (lres, s') \<Longrightarrow> I s \<Longrightarrow> I s'"
    and inv_run: "k_run sh args s = (cres, s') \<Longrightarrow> I s \<Longrightarrow> I s'"
    and inv_world [simp]: "I (s\<lparr>io_world := w\<rparr>) = I s"
begin

lemmas inv_calls = inv_get inv_create inv_update inv_list inv_run

lemma keeps_get [keeps_intro]: "keeps I (k_get sv r)"
  by (rule keepsI) (rule inv_get)

end

text \<open>
  \<open>grows s0\<close>: the trace only gets longer; \<open>saw Q s0 s\<close>: from \<open>s0\<close> to \<open>s\<close> some call satisfied \<open>Q\<close>.
\<close>

definition grows :: "('w, 'b, 'm) io_scheme \<Rightarrow> ('w, 'b, 'm) io_scheme \<Rightarrow> bool" where
  "grows s0 s \<longleftrightarrow> (\<exists>evs. io_trace s = evs @ io_trace s0)"

definition saw :: "('b event \<Rightarrow> bool) \<Rightarrow> ('w, 'b, 'm) io_scheme \<Rightarrow> ('w, 'b, 'm) io_scheme \<Rightarrow> bool" where
  "saw Q s0 s \<longleftrightarrow> (\<exists>evs. io_trace s = evs @ io_trace s0 \<and> list_ex Q evs)"

lemma grows_refl [simp]: "grows s s"
  by (simp add: grows_def)

lemma grows_event: "io_trace t = e # io_trace s \<Longrightarrow> grows s0 s \<Longrightarrow> grows s0 t"
  by (auto simp: grows_def)

lemma grows_trans: "grows s t \<Longrightarrow> grows t u \<Longrightarrow> grows s u"
  by (auto simp: grows_def)

lemma saw_event: "io_trace t = e # io_trace s \<Longrightarrow> Q e \<Longrightarrow> grows s0 s \<Longrightarrow> saw Q s0 t"
  by (fastforce simp: grows_def saw_def)

lemma saw_grows: "saw Q s t \<Longrightarrow> grows t u \<Longrightarrow> saw Q s u"
  by (fastforce simp: grows_def saw_def)

lemma grows_saw: "grows s t \<Longrightarrow> saw Q t u \<Longrightarrow> saw Q s u"
  by (fastforce simp: grows_def saw_def)

text \<open>A loop that returns nil did for each element what its step does when that returns nil.\<close>

lemma for_each_saw:
  assumes "for_each f xs s = (None, s')"
    and "\<And>x s t. x \<in> set xs \<Longrightarrow> f x s = (None, t) \<Longrightarrow> grows s t \<and> R x s t"
    and "\<And>x s t u. R x s t \<Longrightarrow> grows t u \<Longrightarrow> R x s u"
    and "\<And>x s t u. grows s t \<Longrightarrow> R x t u \<Longrightarrow> R x s u"
  shows "grows s s' \<and> (\<forall>x \<in> set xs. R x s s')"
  using assms(1,2)
proof (induction xs arbitrary: s)
  case (Cons x xs)
  then obtain t where t: "f x s = (None, t)" and r: "for_each f xs t = (None, s')"
    by (auto split: prod.splits option.splits)
  have x: "grows s t" "R x s t" using Cons.prems(2) [OF list.set_intros(1) t] by auto
  have "grows t s' \<and> (\<forall>y \<in> set xs. R y t s')"
    by (rule Cons.IH [OF r], rule Cons.prems(2)) auto
  with x assms(3,4) show ?case by (auto intro: grows_trans)
qed simp

interpretation growing: call_invariant "grows s0"
  by unfold_locales (auto simp: grows_def dest!: call_frames)

text \<open>A delete that was accepted, as a predicate that evaluates.\<close>

fun deleted :: "ref \<Rightarrow> 'b event \<Rightarrow> bool" where
  "deleted r (Deleted r' None) = (r' = r)"
| "deleted r _ = False"

lemma deleted_split:
  assumes "list_ex (deleted r) tr"
  obtains later earlier where "tr = later @ Deleted r None # earlier"
proof -
  from assms obtain e where "e \<in> set tr" and "deleted r e" by (auto simp: list_ex_iff)
  then have "Deleted r None \<in> set tr" by (cases "(r, e)" rule: deleted.cases) auto
  with that show ?thesis by (meson split_list)
qed

end
