(* ===== verification/KueueTypes.thy ===== *)
theory KueueTypes
  imports Effects
begin

text \<open>
  The data of \<open>pkg/tektonkueue\<close>: clusters, the environment's state and its cleanup stack, and the
  record of the operations it takes from
  packages outside \<open>src/\<close> (API server, pollers, clientcmd, net, the unstructured helpers).
\<close>

section \<open>Clusters, cleanups, the environment\<close>

text \<open>
  A \<open>Cluster\<close>: \<open>cl_clients\<close> is None for nil \<open>Clients\<close>, \<open>Some None\<close> for a nil \<open>KubeConfig\<close>,
  otherwise the REST config's host. The host identifies the API server requests go to.
\<close>

record cluster =
  cl_name :: string
  cl_clients :: "string option option"

definition endpoint :: "cluster \<Rightarrow> string" where
  "endpoint c = (case cl_clients c of Some (Some h) \<Rightarrow> h | _ \<Rightarrow> [])"

text \<open>
  A \<open>cleanupFunc\<close>, one constructor per closure the package registers with the variables the
  closure captures. The UID is captured by reference and stays empty until the create it was
  registered for has succeeded.
\<close>

datatype cleanup =
    DeleteKueue cluster string
  | RestoreKueue cluster "string list list"
  | DeleteNamespace cluster string
  | DeleteDynamic cluster ref string
  | DeleteClusterRole cluster string string
  | DeleteClusterRoleBinding cluster string string
  | DeleteHubSecret cluster string string
  | DeleteEgressPolicy string
  | RestoreScheduler cluster scheduler mc_role
  | DeletePipelineRun string string

text \<open>
  The state of \<open>Environment\<close> methods: the client's \<open>io\<close> record, the fields of the struct
  and, from \<open>k_ca\<close> on, the local variables that the condition closures of a poll assign.
\<close>

record 'w kstate = "('w, kbody) io" +
  k_hub :: cluster
  k_spokes :: "cluster list"
  k_prefix :: string
  k_namespace :: string
  k_runName :: string
  k_workloadName :: string
  k_cleanups :: "cleanup list"
  k_ca :: string
  k_found :: string
  k_seen :: "string list"
  k_selected :: "cluster option"
  k_succeeded :: bool
  k_conflicts :: "string list"
  k_logs :: string

section \<open>What the package takes from elsewhere\<close>

text \<open>
  \<open>d_poll\<close> and \<open>d_retry\<close> are \<open>wait.PollUntilContextTimeout\<close> and \<open>retry.RetryOnConflict\<close>;
  \<open>d_nestedSlice\<close> and \<open>d_setNestedSlice\<close> the helpers of \<open>unstructured\<close>; \<open>d_isDisabled\<close> and
  \<open>d_isReady\<close> methods of the operator's API types; \<open>d_isDNSLabel\<close> is
  \<open>validation.IsDNS1123Label\<close>; \<open>d_writeKubeconfig\<close>, \<open>d_parseKubeconfig\<close> are clientcmd;
  \<open>d_accessReview\<close> the SelfSubjectAccessReview made with a kubeconfig (verb, group, resource,
  namespace); \<open>d_parseURL\<close> gives the hostname and port text of a URL; \<open>d_parseIP\<close> and
  \<open>d_lookupIP\<close> give addresses with their text and whether \<open>To4\<close> is not nil; \<open>d_podLogs\<close> reads
  a container's log; \<open>d_ownerUIDs\<close> is \<open>GetOwnerReferences\<close> and
  \<open>d_schedulerName\<close> the constant \<open>TektonSchedulerResourceName\<close> of the operator's API.
\<close>

type_synonym ip = "string \<times> bool"

record 'w deps =
  d_server :: "('w, kbody) server"
  d_poll :: "('w kstate, kerror) poller"
  d_retry :: "('w kstate, kerror) attempt \<Rightarrow> 'w kstate \<Rightarrow> kerror option \<times> 'w kstate"
  d_nestedSlice :: "json \<Rightarrow> string list \<Rightarrow> string + json list option"
  d_setNestedSlice :: "json \<Rightarrow> json list \<Rightarrow> string list \<Rightarrow> string + json"
  d_isDisabled :: "scheduler \<Rightarrow> bool"
  d_isReady :: "condition list \<Rightarrow> bool"
  d_isDNSLabel :: "string \<Rightarrow> string list"
  d_writeKubeconfig :: "string \<Rightarrow> string \<Rightarrow> string \<Rightarrow> string + string"
  d_parseKubeconfig :: "string \<Rightarrow> string option"
  d_accessReview :: "string \<Rightarrow> string \<Rightarrow> string \<Rightarrow> string \<Rightarrow> string \<Rightarrow> 'w \<Rightarrow> (api_error + bool) \<times> 'w"
  d_parseURL :: "string \<Rightarrow> (string \<times> string) option"
  d_parseIP :: "string \<Rightarrow> ip option"
  d_lookupIP :: "string \<Rightarrow> 'w \<Rightarrow> (string + ip list) \<times> 'w"
  d_schedulerName :: string
  d_ownerUIDs :: "json \<Rightarrow> string list"
  d_podLogs :: "ref \<Rightarrow> string \<Rightarrow> 'w \<Rightarrow> (api_error + string) \<times> 'w"

definition deps_ok :: "'w deps \<Rightarrow> bool" where
  "deps_ok d \<longleftrightarrow> poll_contract (d_poll d) \<and> retry_contract k_conflict (d_retry d)"

end
