(* ===== verification/KueueResources.thy ===== *)
theory KueueResources
  imports KueueTypes
begin

text \<open>
  \<open>pkg/tektonkueue/resources.go\<close>: the ownership labels, the cleanup closures, and the
  creation of namespaces, RBAC objects, queues, worker credentials, MultiKueue resources and
  the egress policy of a test environment.
\<close>

section \<open>Ownership and shared helpers\<close>

definition kueueNamespace :: string where
  "kueueNamespace = ''openshift-kueue-operator''"

definition pollInterval :: nat where
  "pollInterval = 3"

definition ownedLabels :: "string \<Rightarrow> (string \<rightharpoonup> string)" where
  "ownedLabels pfx =
     [''app.kubernetes.io/managed-by'' \<mapsto> ''release-tests-ginkgo'',
      ''app.kubernetes.io/instance'' \<mapsto> pfx]"

definition owns :: "string \<Rightarrow> (string \<rightharpoonup> string) \<Rightarrow> bool" where
  "owns pfx labels =
     (label_of labels ''app.kubernetes.io/managed-by'' = ''release-tests-ginkgo''
      \<and> label_of labels ''app.kubernetes.io/instance'' = pfx)"

interpretation kueue_labels: ownership owns ownedLabels "\<lambda>_. True"
  by unfold_locales (auto simp: owns_def ownedLabels_def label_of_def)

definition workerName :: "string \<Rightarrow> cluster \<Rightarrow> string" where
  "workerName pfx spoke = pfx @ ''-'' @ cl_name spoke"

definition ignoreNotFound :: "api_error option \<Rightarrow> api_error option" where
  "ignoreNotFound err = (if err = Some NotFound then None else err)"

definition waitForNotFound :: "'w deps \<Rightarrow> nat \<Rightarrow> ref \<Rightarrow> 'w kstate step" where
  "waitForNotFound d timeout r s =
     (case d_poll d pollInterval timeout True
        (\<lambda>s. case k_get (d_server d) r s of
           (Inl e, s1) \<Rightarrow>
             if e = NotFound then ((True, None), s1) else ((False, Some (KApi e)), s1)
         | (Inr _, s1) \<Rightarrow> ((False, None), s1)) s of
        (err, s') \<Rightarrow> (of_poll err, s'))"

definition addCleanup :: "cleanup \<Rightarrow> 'w kstate \<Rightarrow> 'w kstate" where
  "addCleanup c s = s\<lparr>k_cleanups := k_cleanups s @ [c]\<rparr>"

text \<open>
  Assigning the captured variable \<open>uid\<close> of the closure registered last, once the create has
  returned the object.
\<close>

fun set_uid :: "string \<Rightarrow> cleanup \<Rightarrow> cleanup" where
  "set_uid u (DeleteKueue c _) = DeleteKueue c u"
| "set_uid u (DeleteNamespace c _) = DeleteNamespace c u"
| "set_uid u (DeleteDynamic c r _) = DeleteDynamic c r u"
| "set_uid u (DeleteClusterRole c n _) = DeleteClusterRole c n u"
| "set_uid u (DeleteClusterRoleBinding c n _) = DeleteClusterRoleBinding c n u"
| "set_uid u (DeleteHubSecret c n _) = DeleteHubSecret c n u"
| "set_uid u (DeleteEgressPolicy _) = DeleteEgressPolicy u"
| "set_uid u (DeletePipelineRun n _) = DeletePipelineRun n u"
| "set_uid u c = c"

definition assign_uid :: "string \<Rightarrow> 'w kstate \<Rightarrow> 'w kstate" where
  "assign_uid u s = s\<lparr>k_cleanups := butlast (k_cleanups s) @ map (set_uid u) (drop (length (k_cleanups s) - 1) (k_cleanups s))\<rparr>"

text \<open>\<open>e.addCleanup(...)\<close>, then the create, then \<open>uid = created.UID\<close>.\<close>

definition register_create :: "'w deps \<Rightarrow> cleanup \<Rightarrow> kobj \<Rightarrow> 'w kstate step" where
  "register_create d c ob s =
     (case k_create (d_server d) ob (addCleanup c s) of
        (Inl e, s') \<Rightarrow> (Some (KApi e), s')
      | (Inr made, s') \<Rightarrow> (None, assign_uid (o_uid made) s'))"

text \<open>\<open>if _, err := Get(...); err == nil { return exists } else if !IsNotFound(err) { return err }\<close>.\<close>

definition require_absent :: "'w deps \<Rightarrow> ref \<Rightarrow> kerror \<Rightarrow> 'w kstate step" where
  "require_absent d r exists s =
     (case k_get (d_server d) r s of
        (Inr _, s') \<Rightarrow> (Some exists, s')
      | (Inl e, s') \<Rightarrow> if e = NotFound then (None, s') else (Some (KApi e), s'))"

text \<open>A plain create whose result is dropped.\<close>

definition create_only :: "'w deps \<Rightarrow> kobj \<Rightarrow> 'w kstate step" where
  "create_only d ob s =
     (case k_create (d_server d) ob s of
        (Inl e, s') \<Rightarrow> (Some (KApi e), s')
      | (Inr _, s') \<Rightarrow> (None, s'))"

section \<open>The cleanup closures that delete\<close>

text \<open>
  Every one of them reads the object again, returns nil when it is gone, refuses when the
  labels are not this run's or the UID is not the recorded one, and deletes it. \<open>Inr True\<close> says
  that the delete was made, \<open>Inr False\<close> that the object was already gone.
\<close>

definition guarded_delete ::
    "'w deps \<Rightarrow> ref \<Rightarrow> string \<Rightarrow> kerror \<Rightarrow> 'w kstate \<Rightarrow> (kerror + bool) \<times> 'w kstate" where
  "guarded_delete d r uid refusal s =
     (case k_get (d_server d) r s of
        (Inl e, s1) \<Rightarrow> if e = NotFound then (Inr False, s1) else (Inl (KApi e), s1)
      | (Inr current, s1) \<Rightarrow>
          if \<not> owns (k_prefix s) (o_labels current) \<or> (uid \<noteq> [] \<and> o_uid current \<noteq> uid)
          then (Inl refusal, s1)
          else (case k_delete (d_server d) r s1 of (err, s2) \<Rightarrow>
            (case ignoreNotFound err of
               Some e \<Rightarrow> (Inl (KApi e), s2)
             | None \<Rightarrow> (Inr True, s2))))"

definition delete_only :: "'w deps \<Rightarrow> ref \<Rightarrow> string \<Rightarrow> kerror \<Rightarrow> 'w kstate step" where
  "delete_only d r uid refusal s =
     (case guarded_delete d r uid refusal s of
        (Inl e, s') \<Rightarrow> (Some e, s')
      | (Inr _, s') \<Rightarrow> (None, s'))"

definition delete_and_wait :: "'w deps \<Rightarrow> nat \<Rightarrow> ref \<Rightarrow> string \<Rightarrow> kerror \<Rightarrow> 'w kstate step" where
  "delete_and_wait d timeout r uid refusal s =
     (case guarded_delete d r uid refusal s of
        (Inl e, s') \<Rightarrow> (Some e, s')
      | (Inr gone, s') \<Rightarrow> if gone then waitForNotFound d timeout r s' else (None, s'))"

definition namespace_ref :: "cluster \<Rightarrow> string \<Rightarrow> ref" where
  "namespace_ref c ns = Ref (endpoint c) ''Namespace'' [] ns"

definition clusterRole_ref :: "cluster \<Rightarrow> string \<Rightarrow> ref" where
  "clusterRole_ref c name = Ref (endpoint c) ''ClusterRole'' [] name"

definition clusterRoleBinding_ref :: "cluster \<Rightarrow> string \<Rightarrow> ref" where
  "clusterRoleBinding_ref c name = Ref (endpoint c) ''ClusterRoleBinding'' [] name"

definition secret_ref :: "cluster \<Rightarrow> string \<Rightarrow> ref" where
  "secret_ref c name = Ref (endpoint c) ''Secret'' kueueNamespace name"

definition egress_ref :: "cluster \<Rightarrow> string \<Rightarrow> ref" where
  "egress_ref c name = Ref (endpoint c) ''NetworkPolicy'' kueueNamespace name"

definition cleanup_namespace :: "'w deps \<Rightarrow> cluster \<Rightarrow> string \<Rightarrow> 'w kstate step" where
  "cleanup_namespace d c uid s =
     delete_and_wait d 600 (namespace_ref c (k_namespace s)) uid
       (KMsg (''refusing to delete replacement namespace '' @ k_namespace s @ '' on '' @ cl_name c)) s"

definition cleanup_dynamic :: "'w deps \<Rightarrow> cluster \<Rightarrow> ref \<Rightarrow> string \<Rightarrow> 'w kstate step" where
  "cleanup_dynamic d c r uid s =
     delete_and_wait d 300 r uid
       (KMsg (''refusing to delete replacement '' @ ref_kind r @ '' '' @ ref_name r @ '' on '' @ cl_name c)) s"

definition cleanup_clusterRole :: "'w deps \<Rightarrow> cluster \<Rightarrow> string \<Rightarrow> string \<Rightarrow> 'w kstate step" where
  "cleanup_clusterRole d c name uid s =
     delete_only d (clusterRole_ref c name) uid
       (KMsg (''refusing to delete replacement ClusterRole '' @ name @ '' on '' @ cl_name c)) s"

definition cleanup_hubSecret :: "'w deps \<Rightarrow> cluster \<Rightarrow> string \<Rightarrow> string \<Rightarrow> 'w kstate step" where
  "cleanup_hubSecret d spoke name uid s =
     delete_only d (secret_ref (k_hub s) name) uid
       (KMsg (''refusing to delete replacement worker credential for '' @ cl_name spoke)) s"

definition cleanup_egressPolicy :: "'w deps \<Rightarrow> string \<Rightarrow> 'w kstate step" where
  "cleanup_egressPolicy d uid s =
     delete_only d (egress_ref (k_hub s) (k_prefix s)) uid
       (KMsg ''refusing to delete replacement Kueue egress policy'') s"

text \<open>
  The binding's closure runs under \<open>RetryOnConflict\<close>: it empties the subjects first, so that
  the binding may be deleted on clusters that protect bindings of existing accounts.
\<close>

fun drop_subjects :: "kbody \<Rightarrow> kbody" where
  "drop_subjects (BindingBody kind name _) = BindingBody kind name []"
| "drop_subjects b = b"

definition clusterRoleBinding_attempt ::
    "'w deps \<Rightarrow> cluster \<Rightarrow> string \<Rightarrow> string \<Rightarrow> ('w kstate, kerror) attempt" where
  "clusterRoleBinding_attempt d c name uid s =
     (case k_get (d_server d) (clusterRoleBinding_ref c name) s of
        (Inl e, s1) \<Rightarrow> if e = NotFound then (None, s1) else (Some (KApi e), s1)
      | (Inr current, s1) \<Rightarrow>
          if \<not> owns (k_prefix s) (o_labels current) \<or> (uid \<noteq> [] \<and> o_uid current \<noteq> uid)
          then (Some (KMsg (''refusing to delete replacement ClusterRoleBinding '' @ name
                  @ '' on '' @ cl_name c)), s1)
          else (case k_update (d_server d) (current\<lparr>o_body := drop_subjects (o_body current)\<rparr>) s1 of
              (Inl e, s2) \<Rightarrow> (Some (KApi e), s2)
            | (Inr _, s2) \<Rightarrow>
                (case k_delete (d_server d) (clusterRoleBinding_ref c name) s2 of (err, s3) \<Rightarrow>
                  (map_option KApi (ignoreNotFound err), s3))))"

definition cleanup_clusterRoleBinding :: "'w deps \<Rightarrow> cluster \<Rightarrow> string \<Rightarrow> string \<Rightarrow> 'w kstate step" where
  "cleanup_clusterRoleBinding d c name uid s = d_retry d (clusterRoleBinding_attempt d c name uid) s"

section \<open>Creating owned objects\<close>

definition createNamespace :: "'w deps \<Rightarrow> cluster \<Rightarrow> 'w kstate step" where
  "createNamespace d c s =
     seq (require_absent d (namespace_ref c (k_namespace s))
            (KMsg (''namespace '' @ k_namespace s @ '' already exists'')))
         (register_create d (DeleteNamespace c [])
            \<lparr>o_ref = namespace_ref c (k_namespace s), o_labels = ownedLabels (k_prefix s),
             o_uid = [], o_body = NamespaceBody\<rparr>) s"

definition createClusterRole :: "'w deps \<Rightarrow> cluster \<Rightarrow> string \<Rightarrow> policy_rule list \<Rightarrow> 'w kstate step" where
  "createClusterRole d c name rules s =
     seq (require_absent d (clusterRole_ref c name)
            (KMsg (''ClusterRole '' @ name @ '' already exists on '' @ cl_name c)))
         (register_create d (DeleteClusterRole c name [])
            \<lparr>o_ref = clusterRole_ref c name, o_labels = ownedLabels (k_prefix s),
             o_uid = [], o_body = RoleBody rules\<rparr>) s"

definition createClusterRoleBinding :: "'w deps \<Rightarrow> cluster \<Rightarrow> string \<Rightarrow> kbody \<Rightarrow> 'w kstate step" where
  "createClusterRoleBinding d c name binding s =
     seq (require_absent d (clusterRoleBinding_ref c name)
            (KMsg (''ClusterRoleBinding '' @ name @ '' already exists on '' @ cl_name c)))
         (register_create d (DeleteClusterRoleBinding c name [])
            \<lparr>o_ref = clusterRoleBinding_ref c name, o_labels = ownedLabels (k_prefix s),
             o_uid = [], o_body = binding\<rparr>) s"

definition createRole :: "'w deps \<Rightarrow> cluster \<Rightarrow> string \<Rightarrow> policy_rule list \<Rightarrow> 'w kstate step" where
  "createRole d c name rules s =
     create_only d \<lparr>o_ref = Ref (endpoint c) ''Role'' (k_namespace s) name,
       o_labels = ownedLabels (k_prefix s), o_uid = [], o_body = RoleBody rules\<rparr> s"

definition createRoleBinding :: "'w deps \<Rightarrow> cluster \<Rightarrow> string \<Rightarrow> kbody \<Rightarrow> 'w kstate step" where
  "createRoleBinding d c name binding s =
     create_only d \<lparr>o_ref = Ref (endpoint c) ''RoleBinding'' (k_namespace s) name,
       o_labels = ownedLabels (k_prefix s), o_uid = [], o_body = binding\<rparr> s"

text \<open>
  \<open>createDynamic\<close> on an object built by \<open>object(kind, name, namespace, spec)\<close>; the GVR is the
  kind's, and the request goes to the object's namespace (empty for cluster scope).
\<close>

definition object_value :: "string \<Rightarrow> string \<Rightarrow> string \<Rightarrow> json option \<Rightarrow> json" where
  "object_value kind name namespace spec =
     JObj ([(''apiVersion'', JStr ''kueue.x-k8s.io/v1beta2''), (''kind'', JStr kind),
            (''metadata'', JObj ((''name'', JStr name) #
                (if namespace \<noteq> [] then [(''namespace'', JStr namespace)] else [])))]
           @ (case spec of None \<Rightarrow> [] | Some v \<Rightarrow> [(''spec'', v)]))"

definition createDynamic :: "'w deps \<Rightarrow> cluster \<Rightarrow> string \<Rightarrow> string \<Rightarrow> string \<Rightarrow> json option \<Rightarrow> 'w kstate step" where
  "createDynamic d c kind name namespace spec s =
     (let r = Ref (endpoint c) kind namespace name
      in seq (require_absent d r (KMsg (kind @ '' '' @ name @ '' already exists on '' @ cl_name c)))
             (register_create d (DeleteDynamic c r [])
                \<lparr>o_ref = r, o_labels = ownedLabels (k_prefix s), o_uid = [],
                 o_body = Dyn (object_value kind name namespace spec)\<rparr>) s)"

section \<open>RBAC, queues, credentials\<close>

definition tekton_rule :: "string list \<Rightarrow> string list \<Rightarrow> policy_rule" where
  "tekton_rule resources verbs =
     \<lparr>pr_groups = [''tekton.dev''], pr_resources = resources, pr_verbs = verbs\<rparr>"

definition kueue_rule :: "string list \<Rightarrow> string list \<Rightarrow> policy_rule" where
  "kueue_rule resources verbs =
     \<lparr>pr_groups = [''kueue.x-k8s.io''], pr_resources = resources, pr_verbs = verbs\<rparr>"

definition all_verbs :: "string list" where
  "all_verbs = [''create'', ''delete'', ''get'', ''list'', ''patch'', ''update'', ''watch'']"

definition createKueueControllerRBAC :: "'w deps \<Rightarrow> cluster \<Rightarrow> 'w kstate step" where
  "createKueueControllerRBAC d c s =
     (let name = k_prefix s @ ''-kueue-controller''
      in seq (createClusterRole d c name [tekton_rule [''pipelineruns'', ''pipelineruns/status''] all_verbs])
             (createClusterRoleBinding d c name
                (BindingBody ''ClusterRole'' name
                   [\<lparr>sj_kind = ''ServiceAccount'', sj_name = ''kueue-controller-manager'', sj_ns = kueueNamespace\<rparr>])) s)"

definition clusterQueueSpec :: "string \<Rightarrow> bool \<Rightarrow> json" where
  "clusterQueueSpec pfx hub =
     JObj ([(''namespaceSelector'', JObj []),
       (''resourceGroups'', JArr [JObj
          [(''coveredResources'', JArr [JStr ''tekton.dev/pipelineruns'']),
           (''flavors'', JArr [JObj
              [(''name'', JStr pfx),
               (''resources'', JArr [JObj
                  [(''name'', JStr ''tekton.dev/pipelineruns''),
                   (''nominalQuota'', JNum (if hub then 1 else 2))]])]])]])]
      @ (if hub then [(''admissionChecksStrategy'', JObj
             [(''admissionChecks'', JArr [JObj [(''name'', JStr pfx)]])])] else []))"

definition createQueues :: "'w deps \<Rightarrow> cluster \<Rightarrow> bool \<Rightarrow> 'w kstate step" where
  "createQueues d c hub s =
     seq (createDynamic d c ''ResourceFlavor'' (k_prefix s) [] None)
       (seq (createDynamic d c ''ClusterQueue'' (k_prefix s) [] (Some (clusterQueueSpec (k_prefix s) hub)))
         (createDynamic d c ''LocalQueue'' (k_prefix s) (k_namespace s)
            (Some (JObj [(''clusterQueue'', JStr (k_prefix s))])))) s"

definition workerReadClusterRole :: "policy_rule list" where
  "workerReadClusterRole =
     [kueue_rule [''workloads''] [''get'', ''list'', ''watch''],
      tekton_rule [''pipelineruns''] [''get'', ''list'', ''watch'']]"

definition workerWriteRole :: "policy_rule list" where
  "workerWriteRole =
     [kueue_rule [''workloads''] all_verbs,
      kueue_rule [''workloads/status''] [''get'', ''patch'', ''update''],
      tekton_rule [''pipelineruns''] all_verbs,
      tekton_rule [''pipelineruns/status''] [''get'', ''patch'', ''update'']]"

text \<open>\<open>host\<close> is None for a nil REST config.\<close>

definition scopedKubeconfig :: "'w deps \<Rightarrow> string option \<Rightarrow> string \<Rightarrow> string \<Rightarrow> kerror + string" where
  "scopedKubeconfig d host token ca =
     (case host of
        None \<Rightarrow> Inl (KMsg ''REST config, token, and CA are required'')
      | Some h \<Rightarrow>
          if h = [] \<or> token = [] \<or> ca = [] then Inl (KMsg ''REST config, token, and CA are required'')
          else (case d_writeKubeconfig d h token ca of Inl e \<Rightarrow> Inl (KMsg e) | Inr kc \<Rightarrow> Inr kc))"

definition review_allowed ::
    "'w deps \<Rightarrow> string \<Rightarrow> string \<Rightarrow> string \<Rightarrow> string \<Rightarrow> string \<Rightarrow> 'w kstate \<Rightarrow> (api_error + bool) \<times> 'w kstate" where
  "review_allowed d kc verb grp resource namespace s =
     (case d_accessReview d kc verb grp resource namespace (io_world s) of
        (res, w) \<Rightarrow> (res, s\<lparr>io_world := w\<rparr>))"

text \<open>
  The three questions of \<open>verifyWorkerCredentialScope\<close>: the credential can create PipelineRuns
  in the test namespace (soon), cannot create them in \<open>default\<close>, and cannot read Secrets.
\<close>

definition credential_usable :: "'w deps \<Rightarrow> string \<Rightarrow> string \<Rightarrow> 'w kstate step" where
  "credential_usable d kc namespace s =
     (case d_poll d 1 30 True
        (\<lambda>s. case review_allowed d kc ''create'' ''tekton.dev'' ''pipelineruns'' namespace s of
           (Inl e, s1) \<Rightarrow> ((False, Some (KApi e)), s1)
         | (Inr allowed, s1) \<Rightarrow> ((allowed, None), s1)) s of
        (err, s') \<Rightarrow>
          (wrap_error ''worker credential cannot create PipelineRuns in the test namespace'' (of_poll err), s'))"

definition review_denied :: "'w deps \<Rightarrow> string \<Rightarrow> string \<Rightarrow> string \<Rightarrow> string \<Rightarrow> string \<Rightarrow> string \<Rightarrow> 'w kstate step" where
  "review_denied d kc verb grp resource namespace complaint s =
     (case review_allowed d kc verb grp resource namespace s of
        (Inl e, s1) \<Rightarrow> (Some (KApi e), s1)
      | (Inr allowed, s1) \<Rightarrow> if allowed then (Some (KMsg complaint), s1) else (None, s1))"

definition verifyWorkerCredentialScope :: "'w deps \<Rightarrow> string \<Rightarrow> string \<Rightarrow> 'w kstate step" where
  "verifyWorkerCredentialScope d kc namespace s =
     (case d_parseKubeconfig d kc of
        Some e \<Rightarrow> (Some (KMsg e), s)
      | None \<Rightarrow>
          seq (credential_usable d kc namespace)
            (seq (review_denied d kc ''create'' ''tekton.dev'' ''pipelineruns'' ''default''
                    ''worker credential can mutate PipelineRuns outside the test namespace'')
                 (review_denied d kc ''get'' [] ''secrets'' namespace
                    ''worker credential can read Secrets'')) s)"

text \<open>\<open>ca\<close>, the variable the condition closure assigns, is the field \<open>k_ca\<close>.\<close>

definition waitForRootCA :: "'w deps \<Rightarrow> cluster \<Rightarrow> 'w kstate step" where
  "waitForRootCA d spoke s =
     (case d_poll d 1 120 True
        (\<lambda>s. case k_get (d_server d) (Ref (endpoint spoke) ''ConfigMap'' (k_namespace s) ''kube-root-ca.crt'') s of
           (Inl _, s1) \<Rightarrow> ((False, None), s1)
         | (Inr ob, s1) \<Rightarrow>
             (let ca = label_of (configmap_data (o_body ob)) ''ca.crt''
              in ((ca \<noteq> [], None), s1\<lparr>k_ca := ca\<rparr>)))
        (s\<lparr>k_ca := []\<rparr>) of
        (err, s') \<Rightarrow> (wrap_error ''worker root CA was not populated'' (of_poll err), s'))"

text \<open>From the token on: CA, kubeconfig, its scope, and the secret on the hub.\<close>

definition createHubSecret :: "'w deps \<Rightarrow> cluster \<Rightarrow> string \<Rightarrow> string \<Rightarrow> 'w kstate step" where
  "createHubSecret d spoke name token s =
     (case waitForRootCA d spoke s of
        (Some e, s1) \<Rightarrow> (Some e, s1)
      | (None, s1) \<Rightarrow>
          (case scopedKubeconfig d (case cl_clients spoke of Some c \<Rightarrow> c | None \<Rightarrow> None) token (k_ca s1) of
             Inl e \<Rightarrow> (Some e, s1)
           | Inr kc \<Rightarrow>
               seq (verifyWorkerCredentialScope d kc (k_namespace s1))
                 (register_create d (DeleteHubSecret spoke name [])
                    \<lparr>o_ref = secret_ref (k_hub s1) name, o_labels = ownedLabels (k_prefix s1),
                     o_uid = [], o_body = SecretBody [(''kubeconfig'', kc)]\<rparr>) s1))"

definition mint_token :: "'w deps \<Rightarrow> cluster \<Rightarrow> string \<Rightarrow> 'w kstate step" where
  "mint_token d spoke name s =
     (case k_create (d_server d)
        \<lparr>o_ref = Ref (endpoint spoke) ''ServiceAccount/token'' (k_namespace s) name,
         o_labels = Map.empty, o_uid = [], o_body = TokenBody []\<rparr> s of
        (Inl e, s1) \<Rightarrow> (Some (KContext ''create bounded service-account token'' (KApi e)), s1)
      | (Inr t, s1) \<Rightarrow> createHubSecret d spoke name (token_of (o_body t)) s1)"

definition createWorkerCredential :: "'w deps \<Rightarrow> cluster \<Rightarrow> 'w kstate step" where
  "createWorkerCredential d spoke s =
     (let name = workerName (k_prefix s) spoke;
          account = [\<lparr>sj_kind = ''ServiceAccount'', sj_name = name, sj_ns = k_namespace s\<rparr>]
      in seq (create_only d \<lparr>o_ref = Ref (endpoint spoke) ''ServiceAccount'' (k_namespace s) name,
                o_labels = ownedLabels (k_prefix s), o_uid = [], o_body = ServiceAccountBody\<rparr>)
         (seq (createClusterRole d spoke name workerReadClusterRole)
         (seq (createClusterRoleBinding d spoke name (BindingBody ''ClusterRole'' name account))
         (seq (createRole d spoke name workerWriteRole)
         (seq (createRoleBinding d spoke name (BindingBody ''Role'' name account))
              (mint_token d spoke name))))) s)"

section \<open>The hub's MultiKueue resources and egress policy\<close>

definition createMultiKueueCluster :: "'w deps \<Rightarrow> cluster \<Rightarrow> 'w kstate step" where
  "createMultiKueueCluster d spoke s =
     (let name = workerName (k_prefix s) spoke
      in wrap (''create MultiKueueCluster for '' @ cl_name spoke)
           (createDynamic d (k_hub s) ''MultiKueueCluster'' name []
              (Some (JObj [(''clusterSource'', JObj [(''kubeConfig'', JObj
                 [(''locationType'', JStr ''Secret''), (''location'', JStr name)])])]))) s)"

definition createHubMultiKueueResources :: "'w deps \<Rightarrow> 'w kstate step" where
  "createHubMultiKueueResources d s =
     seq (for_each (createMultiKueueCluster d) (k_spokes s))
       (seq (createDynamic d (k_hub s) ''MultiKueueConfig'' (k_prefix s) []
               (Some (JObj [(''clusters'', JArr (map (\<lambda>sp. JStr (workerName (k_prefix s) sp)) (k_spokes s)))])))
            (createDynamic d (k_hub s) ''AdmissionCheck'' (k_prefix s) []
               (Some (JObj [(''controllerName'', JStr ''kueue.x-k8s.io/multikueue''),
                  (''parameters'', JObj [(''apiGroup'', JStr ''kueue.x-k8s.io''),
                     (''kind'', JStr ''MultiKueueConfig''), (''name'', JStr (k_prefix s))])])))) s"

text \<open>
  \<open>spokeAPIPeers\<close>: the CIDRs of the spokes' API endpoints and their ports, each a set; the
  order of a Go map's keys is unspecified, the model keeps the order of insertion.
\<close>

definition ip_cidr :: "ip \<Rightarrow> string" where
  "ip_cidr a = fst a @ ''/'' @ show_nat (if snd a then 32 else 128)"

definition resolve_endpoint :: "'w deps \<Rightarrow> cluster \<Rightarrow> string \<Rightarrow> 'w kstate \<Rightarrow> (kerror + ip list) \<times> 'w kstate" where
  "resolve_endpoint d spoke hostname s =
     (case d_parseIP d hostname of
        Some a \<Rightarrow> (Inr [a], s)
      | None \<Rightarrow>
          (case d_lookupIP d hostname (io_world s) of
             (Inl e, w) \<Rightarrow>
               (Inl (KContext (''resolve API endpoint for '' @ cl_name spoke) (KMsg e)), s\<lparr>io_world := w\<rparr>)
           | (Inr ips, w) \<Rightarrow> (Inr ips, s\<lparr>io_world := w\<rparr>)))"

definition endpoint_port :: "cluster \<Rightarrow> string \<Rightarrow> kerror + nat" where
  "endpoint_port spoke port =
     (if port = [] then Inr 443
      else (case scan_decimal port of
              None \<Rightarrow> Inl (KMsg (''invalid API port for '' @ cl_name spoke))
            | Some p \<Rightarrow> Inr p))"

fun spokeAPIPeers ::
    "'w deps \<Rightarrow> cluster list \<Rightarrow> string list \<Rightarrow> nat list \<Rightarrow> 'w kstate \<Rightarrow>
     (kerror + string list \<times> nat list) \<times> 'w kstate" where
  "spokeAPIPeers d [] cidrs ports s = (Inr (cidrs, ports), s)"
| "spokeAPIPeers d (spoke # spokes) cidrs ports s =
     (case d_parseURL d (endpoint spoke) of
        None \<Rightarrow> (Inl (KMsg (''invalid API endpoint for '' @ cl_name spoke)), s)
      | Some (hostname, port) \<Rightarrow>
          if hostname = [] then (Inl (KMsg (''invalid API endpoint for '' @ cl_name spoke)), s)
          else (case endpoint_port spoke port of
              Inl e \<Rightarrow> (Inl e, s)
            | Inr p \<Rightarrow>
                (case resolve_endpoint d spoke hostname s of
                   (Inl e, s1) \<Rightarrow> (Inl e, s1)
                 | (Inr ips, s1) \<Rightarrow>
                     spokeAPIPeers d spokes
                       (fold (\<lambda>a cs. if ip_cidr a \<in> set cs then cs else cs @ [ip_cidr a]) ips cidrs)
                       (if p \<in> set ports then ports else ports @ [p]) s1)))"

definition createKueueEgressPolicy :: "'w deps \<Rightarrow> 'w kstate step" where
  "createKueueEgressPolicy d s =
     (case spokeAPIPeers d (k_spokes s) [] [] s of
        (Inl e, s1) \<Rightarrow> (Some e, s1)
      | (Inr (peers, ports), s1) \<Rightarrow>
          wrap ''create temporary Kueue egress policy''
            (register_create d (DeleteEgressPolicy [])
              \<lparr>o_ref = egress_ref (k_hub s1) (k_prefix s1), o_labels = ownedLabels (k_prefix s1),
               o_uid = [], o_body = EgressBody peers (map int ports)\<rparr>) s1)"

end
