(* ===== verification/KueueEnvironment.thy ===== *)
theory KueueEnvironment
  imports KueueResources
begin

text \<open>
  \<open>pkg/tektonkueue/environment.go\<close>, first part: validation, the Kueue operator's configuration
  and its restoration, and the readiness waits; those at the end of \<open>resources.go\<close> are here
  too, since they use \<open>conditionTrue\<close>.
\<close>

section \<open>Validation\<close>

definition clusters :: "'w kstate \<Rightarrow> cluster list" where
  "clusters s = k_hub s # k_spokes s"

text \<open>The map from hosts to names is filled in the order of the clusters.\<close>

fun validate_hosts :: "(string \<rightharpoonup> string) \<Rightarrow> cluster list \<Rightarrow> kerror option" where
  "validate_hosts hosts [] = None"
| "validate_hosts hosts (c # cs) =
     (case cl_clients c of
        Some (Some h) \<Rightarrow>
          if cl_name c = [] then Some (KMsg ''cluster name, clients, and REST config are required'')
          else (let host = trim_suffix h ''/''
                in (case hosts host of
                      Some previous \<Rightarrow> Some (KMsg (''clusters '' @ previous @ '' and '' @ cl_name c
                                              @ '' use the same API server''))
                    | None \<Rightarrow> validate_hosts (hosts(host \<mapsto> cl_name c)) cs))
      | _ \<Rightarrow> Some (KMsg ''cluster name, clients, and REST config are required''))"

definition validate :: "'w deps \<Rightarrow> 'w kstate \<Rightarrow> kerror option" where
  "validate d s =
     (let errs = d_isDNSLabel d (k_prefix s)
      in if errs \<noteq> []
         then Some (KMsg (''invalid test prefix '' @ k_prefix s @ '': '' @ join '', '' errs))
         else if k_spokes s = [] then Some (KMsg ''at least one spoke is required'')
         else validate_hosts Map.empty (clusters s))"

section \<open>The PipelineRun integration\<close>

definition pipelineRunFramework :: json where
  "pipelineRunFramework =
     JObj [(''group'', JStr ''tekton.dev''), (''resource'', JStr ''pipelineruns''), (''version'', JStr ''v1'')]"

fun isPipelineRunFramework :: "json \<Rightarrow> bool" where
  "isPipelineRunFramework (JObj framework) =
     (jget framework ''group'' = JStr ''tekton.dev''
      \<and> jget framework ''resource'' = JStr ''pipelineruns''
      \<and> jget framework ''version'' = JStr ''v1'')"
| "isPipelineRunFramework _ = False"

fun removePipelineRunFramework :: "json list \<Rightarrow> json list \<times> bool" where
  "removePipelineRunFramework [] = ([], False)"
| "removePipelineRunFramework (item # items) =
     (if isPipelineRunFramework item then (items, True)
      else (case removePipelineRunFramework items of (rest, removed) \<Rightarrow> (item # rest, removed)))"

definition integrationPaths :: "string list list" where
  "integrationPaths =
     [[''spec'', ''config'', ''integrations'', ''externalFrameworks''],
      [''spec'', ''config'', ''multiKueue'', ''externalFrameworks'']]"

text \<open>\<open>items\<close> of a path that is not found is nil.\<close>

definition path_items :: "json list option \<Rightarrow> json list" where
  "path_items found = (case found of None \<Rightarrow> [] | Some items \<Rightarrow> items)"

fun ensure_paths :: "'w deps \<Rightarrow> string list list \<Rightarrow> json \<Rightarrow> string list list \<Rightarrow>
    string + string list list \<times> json" where
  "ensure_paths d [] kueue changed = Inr (changed, kueue)"
| "ensure_paths d (path # paths) kueue changed =
     (case d_nestedSlice d kueue path of
        Inl e \<Rightarrow> Inl e
      | Inr found \<Rightarrow>
          if found = None \<or> \<not> list_ex isPipelineRunFramework (path_items found)
          then (case d_setNestedSlice d kueue (path_items found @ [pipelineRunFramework]) path of
                  Inl e \<Rightarrow> Inl e
                | Inr kueue' \<Rightarrow> ensure_paths d paths kueue' (changed @ [path]))
          else ensure_paths d paths kueue changed)"

definition ensurePipelineRunIntegration ::
    "'w deps \<Rightarrow> json \<Rightarrow> string + string list list \<times> json" where
  "ensurePipelineRunIntegration d kueue = ensure_paths d integrationPaths kueue []"

text \<open>The loop of the restoring closure: the object without the entry, and whether it changed.\<close>

fun restore_paths :: "'w deps \<Rightarrow> string list list \<Rightarrow> json \<Rightarrow> bool \<Rightarrow> string + bool \<times> json" where
  "restore_paths d [] kueue changed = Inr (changed, kueue)"
| "restore_paths d (path # paths) kueue changed =
     (case d_nestedSlice d kueue path of
        Inl e \<Rightarrow> Inl e
      | Inr found \<Rightarrow>
          (case removePipelineRunFramework (path_items found) of (items, removed) \<Rightarrow>
             if removed
             then (case d_setNestedSlice d kueue items path of
                     Inl e \<Rightarrow> Inl e
                   | Inr kueue' \<Rightarrow> restore_paths d paths kueue' True)
             else restore_paths d paths kueue changed))"

definition requiredKueue :: json where
  "requiredKueue = JObj
     [(''apiVersion'', JStr ''kueue.openshift.io/v1''),
      (''kind'', JStr ''Kueue''),
      (''metadata'', JObj [(''name'', JStr ''cluster'')]),
      (''spec'', JObj
         [(''config'', JObj
             [(''integrations'', JObj
                 [(''externalFrameworks'', JArr [pipelineRunFramework]),
                  (''frameworks'', JArr [JStr ''Deployment''])]),
              (''multiKueue'', JObj [(''externalFrameworks'', JArr [pipelineRunFramework])])]),
          (''logLevel'', JStr ''Normal''),
          (''managementState'', JStr ''Managed''),
          (''operatorLogLevel'', JStr ''Normal'')])]"

definition kueue_ref :: "cluster \<Rightarrow> ref" where
  "kueue_ref c = Ref (endpoint c) ''Kueue'' [] ''cluster''"

text \<open>The labels \<open>requiredKueue\<close> puts in the metadata are the object's \<open>o_labels\<close>.\<close>

definition create_kueue :: "'w deps \<Rightarrow> cluster \<Rightarrow> 'w kstate step" where
  "create_kueue d c s =
     register_create d (DeleteKueue c [])
       \<lparr>o_ref = kueue_ref c, o_labels = ownedLabels (k_prefix s), o_uid = [], o_body = Dyn requiredKueue\<rparr> s"

definition update_kueue :: "'w deps \<Rightarrow> kobj \<Rightarrow> json \<Rightarrow> 'w kstate step" where
  "update_kueue d ob j s =
     (case k_update (d_server d) (ob\<lparr>o_body := Dyn j\<rparr>) s of
        (Inl e, s') \<Rightarrow> (Some (KApi e), s')
      | (Inr _, s') \<Rightarrow> (None, s'))"

definition ensureKueue :: "'w deps \<Rightarrow> cluster \<Rightarrow> 'w kstate step" where
  "ensureKueue d c s =
     (case k_get (d_server d) (kueue_ref c) s of
        (Inl e, s1) \<Rightarrow> if e = NotFound then create_kueue d c s1 else (Some (KApi e), s1)
      | (Inr existing, s1) \<Rightarrow>
          (case ensurePipelineRunIntegration d (dyn_content (o_body existing)) of
             Inl e \<Rightarrow> (Some (KMsg e), s1)
           | Inr (changedPaths, kueue) \<Rightarrow>
               if changedPaths = [] then (None, s1)
               else update_kueue d existing kueue (addCleanup (RestoreKueue c changedPaths) s1)))"

text \<open>The two closures \<open>ensureKueue\<close> registers.\<close>

definition cleanup_kueue :: "'w deps \<Rightarrow> cluster \<Rightarrow> string \<Rightarrow> 'w kstate step" where
  "cleanup_kueue d c uid s =
     (case k_get (d_server d) (kueue_ref c) s of
        (Inl e, s1) \<Rightarrow>
          if e = NotFound then (None, s1)
          else (Some (KContext (''get test-created Kueue on '' @ cl_name c) (KApi e)), s1)
      | (Inr current, s1) \<Rightarrow>
          if \<not> owns (k_prefix s1) (o_labels current) \<or> (uid \<noteq> [] \<and> o_uid current \<noteq> uid)
          then (Some (KMsg (''refusing to delete replacement Kueue on '' @ cl_name c)), s1)
          else (case k_delete (d_server d) (kueue_ref c) s1 of (err, s2) \<Rightarrow>
            (case ignoreNotFound err of
               Some e \<Rightarrow> (Some (KApi e), s2)
             | None \<Rightarrow> waitForNotFound d 600 (kueue_ref c) s2)))"

definition restoreKueue_attempt ::
    "'w deps \<Rightarrow> cluster \<Rightarrow> string list list \<Rightarrow> ('w kstate, kerror) attempt" where
  "restoreKueue_attempt d c changedPaths s =
     (case k_get (d_server d) (kueue_ref c) s of
        (Inl e, s1) \<Rightarrow> (Some (KApi e), s1)
      | (Inr current, s1) \<Rightarrow>
          (case restore_paths d changedPaths (dyn_content (o_body current)) False of
             Inl e \<Rightarrow> (Some (KMsg e), s1)
           | Inr (changed, kueue) \<Rightarrow> if changed then update_kueue d current kueue s1 else (None, s1)))"

definition cleanup_restoreKueue :: "'w deps \<Rightarrow> cluster \<Rightarrow> string list list \<Rightarrow> 'w kstate step" where
  "cleanup_restoreKueue d c changedPaths s = d_retry d (restoreKueue_attempt d c changedPaths) s"

section \<open>Readiness\<close>

text \<open>
  The first condition of the wanted type decides. \<open>condition["type"]\<close> is compared with a
  string, so a value of another JSON type does not match.
\<close>

fun condition_verdict :: "json list \<Rightarrow> string \<Rightarrow> bool" where
  "condition_verdict [] conditionType = False"
| "condition_verdict (item # items) conditionType =
     (case item of
        JObj condition \<Rightarrow>
          if jget condition ''type'' \<noteq> JStr conditionType then condition_verdict items conditionType
          else jget condition ''status'' = JStr ''True''
      | _ \<Rightarrow> condition_verdict items conditionType)"

definition conditionTrue :: "'w deps \<Rightarrow> json \<Rightarrow> string \<Rightarrow> bool" where
  "conditionTrue d ob conditionType =
     (case d_nestedSlice d ob [''status'', ''conditions''] of
        Inl _ \<Rightarrow> condition_verdict [] conditionType
      | Inr found \<Rightarrow> condition_verdict (path_items found) conditionType)"

text \<open>The condition closure of \<open>waitForKueue\<close> and \<open>waitForActive\<close>: read errors mean "not yet".\<close>

definition condition_reached :: "'w deps \<Rightarrow> ref \<Rightarrow> string \<Rightarrow> ('w kstate, kerror) cond" where
  "condition_reached d r conditionType s =
     (case k_get (d_server d) r s of
        (Inl _, s1) \<Rightarrow> ((False, None), s1)
      | (Inr ob, s1) \<Rightarrow> ((conditionTrue d (dyn_content (o_body ob)) conditionType, None), s1))"

definition waitForKueue :: "'w deps \<Rightarrow> cluster \<Rightarrow> 'w kstate step" where
  "waitForKueue d c s =
     (case d_poll d pollInterval 600 True (condition_reached d (kueue_ref c) ''Available'') s of
        (err, s') \<Rightarrow> (wrap_error ''kueue did not become available'' (of_poll err), s'))"

definition waitForActive :: "'w deps \<Rightarrow> cluster \<Rightarrow> string \<Rightarrow> string \<Rightarrow> string \<Rightarrow> 'w kstate step" where
  "waitForActive d c kind namespace name s =
     (case d_poll d pollInterval 600 True
        (condition_reached d (Ref (endpoint c) kind namespace name) ''Active'') s of
        (err, s') \<Rightarrow> (wrap_error (name @ '' did not become active'') (of_poll err), s'))"

definition waitForKueueResources :: "'w deps \<Rightarrow> 'w kstate step" where
  "waitForKueueResources d s =
     seq (for_each (\<lambda>c. wrap (''ClusterQueue on '' @ cl_name c)
            (waitForActive d c ''ClusterQueue'' [] (k_prefix s))) (clusters s))
       (seq (wrap ''AdmissionCheck'' (waitForActive d (k_hub s) ''AdmissionCheck'' [] (k_prefix s)))
          (for_each (\<lambda>spoke. wrap (''MultiKueueCluster for '' @ cl_name spoke)
             (waitForActive d (k_hub s) ''MultiKueueCluster'' [] (workerName (k_prefix s) spoke)))
             (k_spokes s))) s"

end
