(* ===== verification/KueueScheduler.thy ===== *)
theory KueueScheduler
  imports KueueEnvironment
begin

text \<open>
  \<open>pkg/tektonkueue/environment.go\<close>, second part: the scheduler fields of the cluster's
  TektonConfig, which a test overwrites and its cleanup restores field by field without
  undoing what somebody else changed meanwhile.
\<close>

section \<open>Restoring the fields\<close>

fun equalBoolPointers :: "bool option \<Rightarrow> bool option \<Rightarrow> bool" where
  "equalBoolPointers None None = True"
| "equalBoolPointers (Some l) (Some r) = (l = r)"
| "equalBoolPointers _ _ = False"

text \<open>
  One \<open>if\<close> block each: the new value of the field and the conflicts it adds. A field that is
  not the original's is put back when it still has the value the test installed.
\<close>

definition restore_disabled :: "bool option \<Rightarrow> bool option \<Rightarrow> bool option \<times> string list" where
  "restore_disabled current original =
     (if \<not> equalBoolPointers current original
      then if current = Some False then (original, [])
           else (current, [''scheduler.disabled changed concurrently''])
      else (current, []))"

definition restore_field :: "'a \<Rightarrow> 'a \<Rightarrow> 'a \<Rightarrow> string \<Rightarrow> 'a \<times> string list" where
  "restore_field current original installed conflict =
     (if current \<noteq> original
      then if current = installed then (original, []) else (current, [conflict])
      else (current, []))"

definition restoreSchedulerFields ::
    "scheduler \<Rightarrow> scheduler \<Rightarrow> mc_role \<Rightarrow> string \<Rightarrow> scheduler \<times> string list" where
  "restoreSchedulerFields current original role queueName =
     (let (disabled, e1) = restore_disabled (sc_disabled current) (sc_disabled original);
          (mcDisabled, e2) = restore_field (sc_multiClusterDisabled current)
             (sc_multiClusterDisabled original) False ''scheduler.multi-cluster-disabled changed concurrently'';
          (mcRole, e3) = restore_field (sc_role current) (sc_role original) role
             ''scheduler.multi-cluster-role changed concurrently'';
          (queue, e4) = restore_field (sc_queueName current) (sc_queueName original) queueName
             ''scheduler queueName changed concurrently'';
          (override, e5) = restore_field (sc_override current) (sc_override original) (role = RoleHub)
             ''scheduler multiKueueOverride changed concurrently''
      in (current\<lparr>sc_disabled := disabled, sc_multiClusterDisabled := mcDisabled, sc_role := mcRole,
            sc_queueName := queue, sc_override := override\<rparr>, e1 @ e2 @ e3 @ e4 @ e5))"

text \<open>What the update of \<open>enableScheduler\<close> writes.\<close>

definition installScheduler :: "mc_role \<Rightarrow> string \<Rightarrow> scheduler \<Rightarrow> scheduler" where
  "installScheduler role pfx sc =
     sc\<lparr>sc_disabled := Some False, sc_multiClusterDisabled := False, sc_role := role,
        sc_queueName := pfx, sc_override := (role = RoleHub)\<rparr>"

section \<open>Waiting for the TektonConfig\<close>

definition config_ref :: "cluster \<Rightarrow> ref" where
  "config_ref c = Ref (endpoint c) ''TektonConfig'' [] ''config''"

definition targetNamespace :: string where
  "targetNamespace = ''openshift-pipelines''"

fun stuck_waiting :: "waiting list \<Rightarrow> string option" where
  "stuck_waiting [] = None"
| "stuck_waiting (w # ws) =
     (case w of
        Some (reason, message) \<Rightarrow>
          if reason = ''CreateContainerError'' \<and> contains message ''executable file'' then Some message
          else stuck_waiting ws
      | None \<Rightarrow> stuck_waiting ws)"

fun pod_waiting :: "kbody \<Rightarrow> waiting list" where
  "pod_waiting (PodBody _ ws) = ws"
| "pod_waiting _ = []"

fun stuck_pod :: "cluster \<Rightarrow> kobj list \<Rightarrow> kerror option" where
  "stuck_pod c [] = None"
| "stuck_pod c (pod # pods) =
     (if \<not> has_prefix (ref_name (o_ref pod)) ''tekton-kueue-'' then stuck_pod c pods
      else (case stuck_waiting (pod_waiting (o_body pod)) of
              Some message \<Rightarrow>
                Some (KMsg (''tekton scheduler pod on '' @ cl_name c @ '' cannot start: '' @ message))
            | None \<Rightarrow> stuck_pod c pods))"

definition schedulerTerminalError :: "'w deps \<Rightarrow> cluster \<Rightarrow> 'w kstate step" where
  "schedulerTerminalError d c s =
     (case k_list (d_server d) (endpoint c) ''Pod'' targetNamespace [] s of
        (Inl _, s1) \<Rightarrow> (None, s1)
      | (Inr pods, s1) \<Rightarrow> (stuck_pod c pods, s1))"

text \<open>The rest of the condition, once no pod of the scheduler is known to be stuck.\<close>

definition config_settled :: "'w deps \<Rightarrow> cluster \<Rightarrow> kbody \<Rightarrow> ('w kstate, kerror) cond" where
  "config_settled d c config s =
     (if \<not> d_isReady d (status_conditions config) then ((False, None), s)
      else if d_isDisabled d (config_scheduler config) then ((True, None), s)
      else (case k_get (d_server d) (Ref (endpoint c) ''TektonScheduler'' [] (d_schedulerName d)) s of
          (Inl _, s1) \<Rightarrow> ((False, None), s1)
        | (Inr sched, s1) \<Rightarrow> ((d_isReady d (status_conditions (o_body sched)), None), s1)))"

definition config_condition :: "'w deps \<Rightarrow> cluster \<Rightarrow> ('w kstate, kerror) cond" where
  "config_condition d c s =
     (case k_get (d_server d) (config_ref c) s of
        (Inl _, s1) \<Rightarrow> ((False, None), s1)
      | (Inr config, s1) \<Rightarrow>
          if \<not> d_isDisabled d (config_scheduler (o_body config))
          then (case schedulerTerminalError d c s1 of
                  (Some e, s2) \<Rightarrow> ((False, Some e), s2)
                | (None, s2) \<Rightarrow> config_settled d c (o_body config) s2)
          else config_settled d c (o_body config) s1)"

definition waitForTektonConfig :: "'w deps \<Rightarrow> cluster \<Rightarrow> 'w kstate step" where
  "waitForTektonConfig d c s =
     (case d_poll d pollInterval 600 True (config_condition d c) s of
        (err, s') \<Rightarrow>
          (wrap_error (''scheduler on '' @ cl_name c @ '' did not become ready'') (of_poll err), s'))"

section \<open>Installing and restoring\<close>

fun set_scheduler :: "scheduler \<Rightarrow> kbody \<Rightarrow> kbody" where
  "set_scheduler sc (ConfigBody _ conditions) = ConfigBody sc conditions"
| "set_scheduler sc body = body"

definition update_config :: "'w deps \<Rightarrow> kobj \<Rightarrow> scheduler \<Rightarrow> 'w kstate step" where
  "update_config d latest sc s =
     (case k_update (d_server d) (latest\<lparr>o_body := set_scheduler sc (o_body latest)\<rparr>) s of
        (Inl e, s') \<Rightarrow> (Some (KApi e), s')
      | (Inr _, s') \<Rightarrow> (None, s'))"

definition install_attempt :: "'w deps \<Rightarrow> cluster \<Rightarrow> mc_role \<Rightarrow> ('w kstate, kerror) attempt" where
  "install_attempt d c role s =
     (case k_get (d_server d) (config_ref c) s of
        (Inl e, s1) \<Rightarrow> (Some (KApi e), s1)
      | (Inr latest, s1) \<Rightarrow>
          update_config d latest
            (installScheduler role (k_prefix s1) (config_scheduler (o_body latest))) s1)"

text \<open>\<open>conflicts\<close>, which every attempt overwrites, is the field \<open>k_conflicts\<close>.\<close>

definition restore_attempt ::
    "'w deps \<Rightarrow> cluster \<Rightarrow> scheduler \<Rightarrow> mc_role \<Rightarrow> ('w kstate, kerror) attempt" where
  "restore_attempt d c original role s =
     (case k_get (d_server d) (config_ref c) s of
        (Inl e, s1) \<Rightarrow> (Some (KApi e), s1)
      | (Inr latest, s1) \<Rightarrow>
          (case restoreSchedulerFields (config_scheduler (o_body latest)) original role (k_prefix s1) of
             (sc, conflicts) \<Rightarrow> update_config d latest sc (s1\<lparr>k_conflicts := conflicts\<rparr>)))"

definition cleanup_scheduler :: "'w deps \<Rightarrow> cluster \<Rightarrow> scheduler \<Rightarrow> mc_role \<Rightarrow> 'w kstate step" where
  "cleanup_scheduler d c original role s =
     (case d_retry d (restore_attempt d c original role) (s\<lparr>k_conflicts := []\<rparr>) of
        (updateErr, s1) \<Rightarrow>
          (case waitForTektonConfig d c s1 of
             (readyErr, s2) \<Rightarrow>
               (join_errors
                  [wrap_error (''restore scheduler on '' @ cl_name c) updateErr, readyErr,
                   join_errors (map (Some \<circ> KMsg) (k_conflicts s1))], s2)))"

definition enableScheduler :: "'w deps \<Rightarrow> cluster \<Rightarrow> mc_role \<Rightarrow> 'w kstate step" where
  "enableScheduler d c role s =
     (case k_get (d_server d) (config_ref c) s of
        (Inl e, s1) \<Rightarrow> (Some (KApi e), s1)
      | (Inr current, s1) \<Rightarrow>
          seq (d_retry d (install_attempt d c role)) (waitForTektonConfig d c)
            (addCleanup (RestoreScheduler c (config_scheduler (o_body current)) role) s1))"

section \<open>Properties of the restoration\<close>

lemma restore_field_cases [simp]:
  "restore_field current original current conflict = (original, [])"
  "restore_field original original installed conflict = (original, [])"
  by (auto simp: restore_field_def)

lemma restore_field_conflict:
  "current \<noteq> original \<Longrightarrow> current \<noteq> installed \<Longrightarrow>
   restore_field current original installed conflict = (current, [conflict])"
  by (simp add: restore_field_def)

lemma equalBoolPointers_eq [simp]: "equalBoolPointers l r \<longleftrightarrow> l = r"
  by (cases "(l, r)" rule: equalBoolPointers.cases) auto

lemma restore_disabled_simps [simp]:
  "restore_disabled (Some False) original = (original, [])"
  "restore_disabled original original = (original, [])"
  by (auto simp: restore_disabled_def)

text \<open>
  restoring right after installing gives back the original scheduler settings and reports
  no conflict, for either role and every queue name and original value.
\<close>

theorem restore_after_install:
  "restoreSchedulerFields (installScheduler role queueName original) original role queueName
     = (original, [])"
  by (simp add: restoreSchedulerFields_def installScheduler_def)

text \<open>
  What one field's block does: the original is back and nothing is reported when the field
  still has the installed or the original value; otherwise it is left alone and reported.
\<close>

definition field_restored :: "'a \<Rightarrow> 'a \<Rightarrow> 'a \<Rightarrow> 'a \<Rightarrow> string \<Rightarrow> string list \<Rightarrow> bool" where
  "field_restored result current original installed conflict conflicts =
     (if current = original \<or> current = installed
      then result = original \<and> conflict \<notin> set conflicts
      else result = current \<and> conflict \<in> set conflicts)"

lemma restore_field_parts:
  "fst (restore_field current original installed conflict) =
     (if current = original \<or> current = installed then original else current)"
  "m \<in> set (snd (restore_field current original installed conflict)) \<longleftrightarrow>
     m = conflict \<and> current \<noteq> original \<and> current \<noteq> installed"
  by (simp_all add: restore_field_def)

lemma restore_disabled_as_field:
  "restore_disabled current original =
     restore_field current original (Some False) ''scheduler.disabled changed concurrently''"
  by (simp add: restore_disabled_def restore_field_def)

lemma field_restoredI:
  assumes "result = fst (restore_field current original installed conflict)"
    and "conflict \<in> set conflicts \<longleftrightarrow>
      conflict \<in> set (snd (restore_field current original installed conflict))"
  shows "field_restored result current original installed conflict conflicts"
  using assms by (simp add: field_restored_def restore_field_parts)

lemma restored_fields:
  fixes current original role queueName
  defines "result \<equiv> fst (restoreSchedulerFields current original role queueName)"
    and "conflicts \<equiv> snd (restoreSchedulerFields current original role queueName)"
  shows "field_restored (sc_disabled result) (sc_disabled current) (sc_disabled original) (Some False)
       ''scheduler.disabled changed concurrently'' conflicts"
    and "field_restored (sc_multiClusterDisabled result) (sc_multiClusterDisabled current)
       (sc_multiClusterDisabled original) False
       ''scheduler.multi-cluster-disabled changed concurrently'' conflicts"
    and "field_restored (sc_role result) (sc_role current) (sc_role original) role
       ''scheduler.multi-cluster-role changed concurrently'' conflicts"
    and "field_restored (sc_queueName result) (sc_queueName current) (sc_queueName original) queueName
       ''scheduler queueName changed concurrently'' conflicts"
    and "field_restored (sc_override result) (sc_override current) (sc_override original) (role = RoleHub)
       ''scheduler multiKueueOverride changed concurrently'' conflicts"
  unfolding result_def conflicts_def
  by (rule field_restoredI;
      simp add: restoreSchedulerFields_def restore_disabled_as_field case_prod_unfold restore_field_parts)+

text \<open>
  C4: a restoration never loses a concurrent change. Every one of the five fields ends as the
  original when it still had the installed (or the original) value; otherwise it is left as it
  was found and its conflict is reported.
\<close>

theorem restore_keeps_concurrent:
  "case restoreSchedulerFields current original role queueName of (result, conflicts) \<Rightarrow>
     field_restored (sc_disabled result) (sc_disabled current) (sc_disabled original) (Some False)
       ''scheduler.disabled changed concurrently'' conflicts
   \<and> field_restored (sc_multiClusterDisabled result) (sc_multiClusterDisabled current)
       (sc_multiClusterDisabled original) False
       ''scheduler.multi-cluster-disabled changed concurrently'' conflicts
   \<and> field_restored (sc_role result) (sc_role current) (sc_role original) role
       ''scheduler.multi-cluster-role changed concurrently'' conflicts
   \<and> field_restored (sc_queueName result) (sc_queueName current) (sc_queueName original) queueName
       ''scheduler queueName changed concurrently'' conflicts
   \<and> field_restored (sc_override result) (sc_override current) (sc_override original) (role = RoleHub)
       ''scheduler multiKueueOverride changed concurrently'' conflicts"
  unfolding case_prod_unfold by (intro conjI restored_fields)

end
