(* ===== verification/KueueWorkload.thy ===== *)
theory KueueWorkload
  imports KueueScheduler
begin

text \<open>
  \<open>pkg/tektonkueue/workload.go\<close>: one PipelineRun is created on the hub and must execute on
  exactly one spoke. The local variables that the poll closures assign (\<open>seen\<close>, \<open>selected\<close>,
  \<open>name\<close>, \<open>workerObservedSuccess\<close>, \<open>logs\<close>) are fields of the state.
\<close>

section \<open>References and requests\<close>

record result =
  rs_PipelineRun :: string
  rs_Spoke :: string
  rs_Logs :: string

definition workloadLogMarker :: string where
  "workloadLogMarker = ''multi-cluster-execution-ok''"

definition run_ref :: "cluster \<Rightarrow> string \<Rightarrow> string \<Rightarrow> ref" where
  "run_ref c namespace name = Ref (endpoint c) ''PipelineRun'' namespace name"

definition workload_ref :: "cluster \<Rightarrow> string \<Rightarrow> string \<Rightarrow> ref" where
  "workload_ref c namespace name = Ref (endpoint c) ''Workload'' namespace name"

definition run_selector :: "string \<Rightarrow> string" where
  "run_selector runName = ''tekton.dev/pipelineRun='' @ runName"

definition list_taskRuns :: "'w deps \<Rightarrow> cluster \<Rightarrow> string \<Rightarrow> 'w kstate \<Rightarrow>
    (api_error + kobj list) \<times> 'w kstate" where
  "list_taskRuns d c runName s =
     k_list (d_server d) (endpoint c) ''TaskRun'' (k_namespace s) (run_selector runName) s"

section \<open>Waiting until the execution's objects are gone\<close>

text \<open>
  \<open>if _, err := Get(...); !IsNotFound(err) { return false, ignoreNotFound(err) }\<close> for one
  object after the other: an object still there is "not yet", an error ends the poll.
\<close>

fun all_gone :: "'w deps \<Rightarrow> ref list \<Rightarrow> ('w kstate, kerror) cond" where
  "all_gone d [] s = ((True, None), s)"
| "all_gone d (r # rs) s =
     (case k_get (d_server d) r s of
        (Inr _, s1) \<Rightarrow> ((False, None), s1)
      | (Inl e, s1) \<Rightarrow> if e = NotFound then all_gone d rs s1 else ((False, Some (KApi e)), s1))"

definition execution_refs :: "'w kstate \<Rightarrow> cluster \<Rightarrow> ref list" where
  "execution_refs s c =
     run_ref c (k_namespace s) (k_runName s) #
       (if k_workloadName s \<noteq> [] then [workload_ref c (k_namespace s) (k_workloadName s)] else [])"

definition waitForExecutionObjectsGone :: "'w deps \<Rightarrow> 'w kstate step" where
  "waitForExecutionObjectsGone d s =
     (case d_poll d pollInterval 600 True
        (\<lambda>s. all_gone d (concat (map (execution_refs s) (clusters s))) s) s of
        (err, s') \<Rightarrow>
          (wrap_error ''execution objects were not deleted before scheduler restoration'' (of_poll err), s'))"

section \<open>Creating the PipelineRun\<close>

definition cleanup_pipelineRun :: "'w deps \<Rightarrow> string \<Rightarrow> string \<Rightarrow> 'w kstate step" where
  "cleanup_pipelineRun d name uid s =
     seq (delete_only d (run_ref (k_hub s) (k_namespace s) name) uid
            (KMsg (''refusing to delete replacement PipelineRun '' @ name)))
         (waitForExecutionObjectsGone d) s"

definition run_labels :: "string \<Rightarrow> (string \<rightharpoonup> string)" where
  "run_labels pfx = (ownedLabels pfx)(''kueue.x-k8s.io/queue-name'' \<mapsto> pfx)"

text \<open>
  The spec of the run (its one task, image and timeout) is constant; \<open>RunBody\<close> keeps the
  controller it is managed by. The created object's UID is the fourth component of a success.
\<close>

definition createPipelineRun :: "'w deps \<Rightarrow> 'w kstate \<Rightarrow> (kerror + kobj) \<times> 'w kstate" where
  "createPipelineRun d s =
     (let name = k_prefix s @ ''-run'';
          run = \<lparr>o_ref = run_ref (k_hub s) (k_namespace s) name, o_labels = run_labels (k_prefix s),
                 o_uid = [], o_body = RunBody (Some ''kueue.x-k8s.io/multikueue'') None\<rparr>
      in (case k_create (d_server d) run (addCleanup (DeletePipelineRun name []) (s\<lparr>k_runName := name\<rparr>)) of
            (Inl e, s1) \<Rightarrow> (Inl (KContext ''create hub PipelineRun'' (KApi e)), s1)
          | (Inr created, s1) \<Rightarrow> (Inr created, assign_uid (o_uid created) s1)))"

section \<open>The hub's workload\<close>

text \<open>The first listed workload that has an owner reference with the run's UID.\<close>

fun owned_workload :: "'w deps \<Rightarrow> string \<Rightarrow> kobj list \<Rightarrow> string option" where
  "owned_workload d uid [] = None"
| "owned_workload d uid (ob # obs) =
     (if uid \<in> set (d_ownerUIDs d (dyn_content (o_body ob))) then Some (ref_name (o_ref ob))
      else owned_workload d uid obs)"

definition workload_listed :: "'w deps \<Rightarrow> string \<Rightarrow> ('w kstate, kerror) cond" where
  "workload_listed d uid s =
     (case k_list (d_server d) (endpoint (k_hub s)) ''Workload'' (k_namespace s) [] s of
        (Inl _, s1) \<Rightarrow> ((False, None), s1)
      | (Inr obs, s1) \<Rightarrow>
          (case owned_workload d uid obs of
             Some name \<Rightarrow> ((True, None), s1\<lparr>k_found := name\<rparr>)
           | None \<Rightarrow> ((False, None), s1)))"

definition waitForHubWorkload :: "'w deps \<Rightarrow> kobj \<Rightarrow> 'w kstate \<Rightarrow> (kerror + string) \<times> 'w kstate" where
  "waitForHubWorkload d run s =
     (case d_poll d pollInterval 300 True (workload_listed d (o_uid run)) (s\<lparr>k_found := []\<rparr>) of
        (Some e, s1) \<Rightarrow>
          (Inl (KContext (''hub Workload was not created for PipelineRun '' @ ref_name (o_ref run))
             (the (of_poll (Some e)))), s1)
      | (None, s1) \<Rightarrow> (Inr (k_found s1), s1\<lparr>k_workloadName := k_found s1\<rparr>))"

section \<open>Exactly one spoke\<close>

text \<open>\<open>seen\<close> is a set of names: \<open>seen[name] = true\<close> twice adds one key.\<close>

definition mark :: "string \<Rightarrow> string list \<Rightarrow> string list" where
  "mark name seen = (if name \<in> set seen then seen else seen @ [name])"

fun look_at_spokes :: "'w deps \<Rightarrow> string \<Rightarrow> cluster list \<Rightarrow> 'w kstate step" where
  "look_at_spokes d runName [] s = (None, s)"
| "look_at_spokes d runName (spoke # spokes) s =
     (case k_get (d_server d) (run_ref spoke (k_namespace s) runName) s of
        (Inr _, s1) \<Rightarrow>
          look_at_spokes d runName spokes
            (s1\<lparr>k_seen := mark (cl_name spoke) (k_seen s1), k_selected := Some spoke\<rparr>)
      | (Inl e, s1) \<Rightarrow>
          if e = NotFound then look_at_spokes d runName spokes s1 else (Some (KApi e), s1))"

definition spoke_condition :: "'w deps \<Rightarrow> string \<Rightarrow> ('w kstate, kerror) cond" where
  "spoke_condition d runName s =
     (case look_at_spokes d runName (k_spokes s) s of
        (Some e, s1) \<Rightarrow> ((False, Some e), s1)
      | (None, s1) \<Rightarrow>
          if 1 < length (k_seen s1)
          then ((False, Some (KMsg ''PipelineRun appeared on multiple spokes'')), s1)
          else (case k_selected s1 of
              None \<Rightarrow> ((False, None), s1)
            | Some selected \<Rightarrow>
                if k_seen s1 = [] then ((False, None), s1)
                else (case list_taskRuns d selected runName s1 of
                  (Inl e, s2) \<Rightarrow> ((False, Some (KApi e)), s2)
                | (Inr taskRuns, s2) \<Rightarrow> ((taskRuns \<noteq> [], None), s2))))"

text \<open>
  \<open>selected\<close> is assigned together with the first mark in \<open>seen\<close>, so the \<open>None\<close> branches are
  those of an empty \<open>seen\<close>; the zero \<open>Cluster\<close> is never used.
\<close>

definition waitForSpokeExecution :: "'w deps \<Rightarrow> string \<Rightarrow> 'w kstate \<Rightarrow> (kerror + cluster) \<times> 'w kstate" where
  "waitForSpokeExecution d runName s =
     (case d_poll d pollInterval 600 True (spoke_condition d runName)
             (s\<lparr>k_seen := [], k_selected := None\<rparr>) of
        (Some e, s1) \<Rightarrow>
          (Inl (KContext (''PipelineRun '' @ runName @ '' did not execute on exactly one spoke'')
             (the (of_poll (Some e)))), s1)
      | (None, s1) \<Rightarrow>
          (case list_taskRuns d (k_hub s1) runName s1 of
             (Inl e, s2) \<Rightarrow> (Inl (KApi e), s2)
           | (Inr hubTaskRuns, s2) \<Rightarrow>
               if hubTaskRuns \<noteq> []
               then (Inl (KMsg (''PipelineRun '' @ runName @ '' unexpectedly created TaskRuns on the hub'')), s2)
               else (Inr (case k_selected s2 of Some c \<Rightarrow> c | None \<Rightarrow> \<lparr>cl_name = [], cl_clients = None\<rparr>), s2)))"

section \<open>Completion\<close>

fun pipelineRunState :: "kbody \<Rightarrow> bool \<times> bool" where
  "pipelineRunState (RunBody _ (Some condition)) =
     (if cd_status condition = ''True'' then (True, True)
      else if cd_status condition = ''False'' then (True, False)
      else (False, False))"
| "pipelineRunState _ = (False, False)"

fun recordSpokes_loop :: "'w deps \<Rightarrow> string \<Rightarrow> cluster list \<Rightarrow> 'w kstate step" where
  "recordSpokes_loop d runName [] s = (None, s)"
| "recordSpokes_loop d runName (spoke # spokes) s =
     (case k_get (d_server d) (run_ref spoke (k_namespace s) runName) s of
        (Inr _, s1) \<Rightarrow>
          recordSpokes_loop d runName spokes (s1\<lparr>k_seen := mark (cl_name spoke) (k_seen s1)\<rparr>)
      | (Inl e, s1) \<Rightarrow>
          if e = NotFound then recordSpokes_loop d runName spokes s1 else (Some (KApi e), s1))"

definition recordSpokes :: "'w deps \<Rightarrow> string \<Rightarrow> 'w kstate step" where
  "recordSpokes d runName s =
     (case recordSpokes_loop d runName (k_spokes s) s of
        (Some e, s1) \<Rightarrow> (Some e, s1)
      | (None, s1) \<Rightarrow>
          if 1 < length (k_seen s1) then (Some (KMsg ''PipelineRun appeared on multiple spokes''), s1)
          else (None, s1))"

definition pipelineRunLogs :: "'w deps \<Rightarrow> cluster \<Rightarrow> string \<Rightarrow> 'w kstate \<Rightarrow> (kerror + string) \<times> 'w kstate" where
  "pipelineRunLogs d spoke runName s =
     (case k_list (d_server d) (endpoint spoke) ''Pod'' (k_namespace s) (run_selector runName) s of
        (Inl e, s1) \<Rightarrow> (Inl (KContext (''list PipelineRun pods on '' @ cl_name spoke) (KApi e)), s1)
      | (Inr pods, s1) \<Rightarrow>
          if length pods \<noteq> 1
          then (Inl (KMsg (''found '' @ show_nat (length pods) @ '' PipelineRun pods on ''
                      @ cl_name spoke @ '', want 1'')), s1)
          else (case d_podLogs d (Ref (endpoint spoke) ''Pod'' (k_namespace s1) (ref_name (o_ref (hd pods))))
                       ''step-prove-execution'' (io_world s1) of
                  (Inl e, w) \<Rightarrow>
                    (Inl (KContext (''read PipelineRun logs on '' @ cl_name spoke) (KApi e)), s1\<lparr>io_world := w\<rparr>)
                | (Inr logs, w) \<Rightarrow> (Inr logs, s1\<lparr>io_world := w\<rparr>)))"

text \<open>\<open>if logs == "" { ... }\<close>: the logs are kept once they hold the marker.\<close>

definition capture_logs :: "'w deps \<Rightarrow> cluster \<Rightarrow> string \<Rightarrow> 'w kstate \<Rightarrow> 'w kstate" where
  "capture_logs d spoke runName s =
     (if k_logs s \<noteq> [] then s
      else (case pipelineRunLogs d spoke runName s of
              (Inl _, s1) \<Rightarrow> s1
            | (Inr candidate, s1) \<Rightarrow>
                if \<not> contains candidate workloadLogMarker then s1 else s1\<lparr>k_logs := candidate\<rparr>))"

definition observe_worker :: "'w deps \<Rightarrow> cluster \<Rightarrow> string \<Rightarrow> 'w kstate step" where
  "observe_worker d spoke runName s =
     (case k_get (d_server d) (run_ref spoke (k_namespace s) runName) s of
        (Inl e, s1) \<Rightarrow> if e = NotFound then (None, s1) else (Some (KApi e), s1)
      | (Inr worker, s1) \<Rightarrow>
          (case pipelineRunState (o_body worker) of (terminal, succeeded) \<Rightarrow>
             if terminal \<and> \<not> succeeded
             then (Some (KMsg (''PipelineRun failed on '' @ cl_name spoke)), s1)
             else (None, s1\<lparr>k_succeeded := k_succeeded s1 \<or> succeeded\<rparr>)))"

definition observe_hub :: "'w deps \<Rightarrow> cluster \<Rightarrow> string \<Rightarrow> ('w kstate, kerror) cond" where
  "observe_hub d spoke runName s =
     (case k_get (d_server d) (run_ref (k_hub s) (k_namespace s) runName) s of
        (Inl e, s1) \<Rightarrow> ((False, Some (KApi e)), s1)
      | (Inr hub, s1) \<Rightarrow>
          (case pipelineRunState (o_body hub) of (terminal, succeeded) \<Rightarrow>
             if terminal \<and> \<not> succeeded
             then ((False, Some (KMsg (''hub PipelineRun failed after execution on '' @ cl_name spoke))), s1)
             else ((succeeded \<and> k_succeeded s1 \<and> k_logs s1 \<noteq> [], None), s1)))"

definition completion_condition :: "'w deps \<Rightarrow> cluster \<Rightarrow> string \<Rightarrow> ('w kstate, kerror) cond" where
  "completion_condition d spoke runName s =
     (case recordSpokes d runName s of
        (Some e, s1) \<Rightarrow> ((False, Some e), s1)
      | (None, s1) \<Rightarrow>
          (case observe_worker d spoke runName (capture_logs d spoke runName s1) of
             (Some e, s2) \<Rightarrow> ((False, Some e), s2)
           | (None, s2) \<Rightarrow> observe_hub d spoke runName s2))"

definition waitForWorkloadFinished :: "'w deps \<Rightarrow> string \<Rightarrow> string \<Rightarrow> 'w kstate step" where
  "waitForWorkloadFinished d workloadName runName s =
     (case d_poll d pollInterval 300 True
        (\<lambda>s. case recordSpokes d runName s of
           (Some e, s1) \<Rightarrow> ((False, Some e), s1)
         | (None, s1) \<Rightarrow>
             condition_reached d (workload_ref (k_hub s1) (k_namespace s1) workloadName) ''Finished'' s1) s of
        (err, s') \<Rightarrow> (wrap_error (''hub Workload '' @ workloadName @ '' did not finish'') (of_poll err), s'))"

definition waitForWorkerCleanup :: "'w deps \<Rightarrow> cluster \<Rightarrow> string \<Rightarrow> string \<Rightarrow> 'w kstate step" where
  "waitForWorkerCleanup d spoke runName workloadName s =
     (case d_poll d pollInterval 300 True
        (\<lambda>s. case recordSpokes d runName s of
           (Some e, s1) \<Rightarrow> ((False, Some e), s1)
         | (None, s1) \<Rightarrow>
             (case k_get (d_server d) (run_ref spoke (k_namespace s1) runName) s1 of
                (runRes, s2) \<Rightarrow>
                  (case k_get (d_server d) (workload_ref spoke (k_namespace s2) workloadName) s2 of
                     (workloadRes, s3) \<Rightarrow>
                       ((is_not_found runRes \<and> is_not_found workloadRes, None), s3)))) s of
        (err, s') \<Rightarrow>
          (wrap_error (''worker objects were not cleaned from '' @ cl_name spoke) (of_poll err), s'))"

definition waitForCompletion :: "'w deps \<Rightarrow> string \<Rightarrow> string \<Rightarrow> cluster \<Rightarrow> 'w kstate \<Rightarrow>
    (kerror + string) \<times> 'w kstate" where
  "waitForCompletion d runName workloadName spoke s =
     (case d_poll d pollInterval 600 True (completion_condition d spoke runName)
             (s\<lparr>k_seen := [cl_name spoke], k_succeeded := False, k_logs := []\<rparr>) of
        (Some e, s1) \<Rightarrow>
          (Inl (KContext (''PipelineRun '' @ runName @ '' did not complete'') (the (of_poll (Some e)))), s1)
      | (None, s1) \<Rightarrow>
          (case seq (waitForWorkloadFinished d workloadName runName)
                    (waitForWorkerCleanup d spoke runName workloadName) s1 of
             (Some e, s2) \<Rightarrow> (Inl e, s2)
           | (None, s2) \<Rightarrow>
               (case list_taskRuns d (k_hub s2) runName s2 of
                  (Inl e, s3) \<Rightarrow> (Inl (KApi e), s3)
                | (Inr hubTaskRuns, s3) \<Rightarrow>
                    if hubTaskRuns \<noteq> []
                    then (Inl (KMsg (''PipelineRun '' @ runName @ '' created TaskRuns on the hub'')), s3)
                    else (Inr (k_logs s1), s3))))"

definition Execute :: "'w deps \<Rightarrow> 'w kstate \<Rightarrow> (kerror + result) \<times> 'w kstate" where
  "Execute d s =
     (case createPipelineRun d s of
        (Inl e, s1) \<Rightarrow> (Inl e, s1)
      | (Inr run, s1) \<Rightarrow>
          (case waitForHubWorkload d run s1 of
             (Inl e, s2) \<Rightarrow> (Inl e, s2)
           | (Inr workloadName, s2) \<Rightarrow>
               (case waitForSpokeExecution d (ref_name (o_ref run)) s2 of
                  (Inl e, s3) \<Rightarrow> (Inl e, s3)
                | (Inr spoke, s3) \<Rightarrow>
                    (case waitForCompletion d (ref_name (o_ref run)) workloadName spoke s3 of
                       (Inl e, s4) \<Rightarrow> (Inl e, s4)
                     | (Inr logs, s4) \<Rightarrow>
                         (Inr \<lparr>rs_PipelineRun = ref_name (o_ref run), rs_Spoke = cl_name spoke,
                               rs_Logs = logs\<rparr>, s4)))))"

end
