(* ===== verification/KueueLifecycle.thy ===== *)
theory KueueLifecycle
  imports KueueWorkload
begin

text \<open>
  \<open>Setup\<close> and \<open>Cleanup\<close> of \<open>pkg/tektonkueue/environment.go\<close>, and what their contract is:
  nothing is requested before validation, every object \<open>Setup\<close> asks for is covered by a
  registered cleanup whatever fails, deletes only hit objects the run owns, and a failed
  cleanup is a barrier that a later call resumes at.
\<close>

section \<open>Setup and Cleanup\<close>

definition NewEnvironment :: "cluster \<Rightarrow> cluster list \<Rightarrow> string \<Rightarrow> 'w \<Rightarrow> 'w kstate" where
  "NewEnvironment hub spokes pfx w =
     \<lparr>io_world = w, io_trace = [], k_hub = hub, k_spokes = spokes, k_prefix = pfx, k_namespace = pfx,
      k_runName = [], k_workloadName = [], k_cleanups = [], k_ca = [], k_found = [], k_seen = [],
      k_selected = None, k_succeeded = False, k_conflicts = [], k_logs = []\<rparr>"

definition setup_namespaces :: "'w deps \<Rightarrow> cluster list \<Rightarrow> 'w kstate step" where
  "setup_namespaces d cs =
     for_each (\<lambda>c. seq (wrap (''create namespace on '' @ cl_name c) (createNamespace d c))
                       (wrap (''configure Kueue RBAC on '' @ cl_name c) (createKueueControllerRBAC d c))) cs"

definition setup_spokes :: "'w deps \<Rightarrow> cluster list \<Rightarrow> 'w kstate step" where
  "setup_spokes d spokes =
     for_each (\<lambda>c. seq (wrap (''create queues on '' @ cl_name c) (createQueues d c False))
                       (wrap (''create scoped credentials for '' @ cl_name c) (createWorkerCredential d c))) spokes"

definition setup_schedulers :: "'w deps \<Rightarrow> cluster \<Rightarrow> cluster list \<Rightarrow> 'w kstate step" where
  "setup_schedulers d hub cs =
     for_each (\<lambda>c. wrap (''enable scheduler on '' @ cl_name c)
                     (enableScheduler d c (if cl_name c = cl_name hub then RoleHub else RoleSpoke))) cs"

definition setup_steps :: "'w deps \<Rightarrow> cluster \<Rightarrow> cluster list \<Rightarrow> 'w kstate step" where
  "setup_steps d hub spokes =
     seq (for_each (\<lambda>c. wrap (''configure Kueue on '' @ cl_name c) (ensureKueue d c)) (hub # spokes))
    (seq (for_each (\<lambda>c. wrap (''wait for Kueue on '' @ cl_name c) (waitForKueue d c)) (hub # spokes))
    (seq (setup_namespaces d (hub # spokes))
    (seq (setup_spokes d spokes)
    (seq (createHubMultiKueueResources d)
    (seq (wrap ''create queues on hub'' (createQueues d hub True))
    (seq (createKueueEgressPolicy d)
    (seq (setup_schedulers d hub (hub # spokes))
         (waitForKueueResources d))))))))"

definition Setup :: "'w deps \<Rightarrow> 'w kstate step" where
  "Setup d s =
     (case validate d s of
        Some e \<Rightarrow> (Some e, s)
      | None \<Rightarrow> setup_steps d (k_hub s) (k_spokes s) s)"

text \<open>Calling a registered closure.\<close>

fun run_cleanup :: "'w deps \<Rightarrow> cleanup \<Rightarrow> 'w kstate step" where
  "run_cleanup d (DeleteKueue c uid) = cleanup_kueue d c uid"
| "run_cleanup d (RestoreKueue c paths) = cleanup_restoreKueue d c paths"
| "run_cleanup d (DeleteNamespace c uid) = cleanup_namespace d c uid"
| "run_cleanup d (DeleteDynamic c r uid) = cleanup_dynamic d c r uid"
| "run_cleanup d (DeleteClusterRole c name uid) = cleanup_clusterRole d c name uid"
| "run_cleanup d (DeleteClusterRoleBinding c name uid) = cleanup_clusterRoleBinding d c name uid"
| "run_cleanup d (DeleteHubSecret spoke name uid) = cleanup_hubSecret d spoke name uid"
| "run_cleanup d (DeleteEgressPolicy uid) = cleanup_egressPolicy d uid"
| "run_cleanup d (RestoreScheduler c original role) = cleanup_scheduler d c original role"
| "run_cleanup d (DeletePipelineRun name uid) = cleanup_pipelineRun d name uid"

text \<open>
  The loop runs \<open>i\<close> from the last index down, so the list is the reversed stack; on an error
  at \<open>i\<close> the stack becomes \<open>cleanups[:i+1]\<close>, the failed closure included.
\<close>

fun cleanup_loop :: "'w deps \<Rightarrow> cleanup list \<Rightarrow> 'w kstate step" where
  "cleanup_loop d [] s = (None, s)"
| "cleanup_loop d (c # below) s =
     (case run_cleanup d c s of
        (Some e, s1) \<Rightarrow> (Some e, s1\<lparr>k_cleanups := rev (c # below)\<rparr>)
      | (None, s1) \<Rightarrow> cleanup_loop d below s1)"

definition Cleanup :: "'w deps \<Rightarrow> 'w kstate step" where
  "Cleanup d s = cleanup_loop d (rev (k_cleanups s)) (s\<lparr>k_cleanups := []\<rparr>)"

section \<open>Frames\<close>

text \<open>The fields that say what environment this is; only constructors and \<open>NewEnvironment\<close> set them.\<close>

definition identity_of :: "'w kstate \<Rightarrow> cluster \<times> cluster list \<times> string \<times> string" where
  "identity_of s = (k_hub s, k_spokes s, k_prefix s, k_namespace s)"

lemma identity_simps [simp]:
  "identity_of (s\<lparr>io_world := w\<rparr>) = identity_of s"
  "identity_of (s\<lparr>io_trace := tr\<rparr>) = identity_of s"
  "identity_of (s\<lparr>k_runName := n\<rparr>) = identity_of s"
  "identity_of (s\<lparr>k_workloadName := n\<rparr>) = identity_of s"
  "identity_of (s\<lparr>k_cleanups := cs\<rparr>) = identity_of s"
  "identity_of (s\<lparr>k_ca := n\<rparr>) = identity_of s"
  "identity_of (s\<lparr>k_found := n\<rparr>) = identity_of s"
  "identity_of (s\<lparr>k_seen := ns\<rparr>) = identity_of s"
  "identity_of (s\<lparr>k_selected := sel\<rparr>) = identity_of s"
  "identity_of (s\<lparr>k_succeeded := b\<rparr>) = identity_of s"
  "identity_of (s\<lparr>k_conflicts := ns\<rparr>) = identity_of s"
  "identity_of (s\<lparr>k_logs := n\<rparr>) = identity_of s"
  by (simp_all add: identity_of_def)

section \<open>Quiet steps\<close>

text \<open>
  Most operations only read, wait and update. A \<^emph>\<open>quiet\<close> stretch of an execution neither
  creates nor deletes, and leaves the environment's identity and cleanup stack alone; the
  world and the closure variables change freely.
\<close>

fun quiet_event :: "kbody event \<Rightarrow> bool" where
  "quiet_event (Created _ _) = False"
| "quiet_event (Deleted _ _) = False"
| "quiet_event _ = True"

definition quiet_step :: "'w kstate \<Rightarrow> 'w kstate \<Rightarrow> bool" where
  "quiet_step s t \<longleftrightarrow> identity_of t = identity_of s \<and> k_cleanups t = k_cleanups s
     \<and> (\<exists>evs. io_trace t = evs @ io_trace s \<and> list_all quiet_event evs)"

named_theorems quiet_rules "operations that make only quiet steps"

lemma quiet_refl [simp]: "quiet_step s s"
  by (simp add: quiet_step_def)

lemma quiet_trans: "quiet_step s t \<Longrightarrow> quiet_step t u \<Longrightarrow> quiet_step s u"
  by (fastforce simp: quiet_step_def)

lemma quiet_step_simps [simp]:
  "quiet_step s0 (s\<lparr>io_world := w\<rparr>) = quiet_step s0 s"
  "quiet_step s0 (s\<lparr>k_workloadName := n\<rparr>) = quiet_step s0 s"
  "quiet_step s0 (s\<lparr>k_ca := n\<rparr>) = quiet_step s0 s"
  "quiet_step s0 (s\<lparr>k_found := n\<rparr>) = quiet_step s0 s"
  "quiet_step s0 (s\<lparr>k_seen := ns\<rparr>) = quiet_step s0 s"
  "quiet_step s0 (s\<lparr>k_selected := sel\<rparr>) = quiet_step s0 s"
  "quiet_step s0 (s\<lparr>k_succeeded := b\<rparr>) = quiet_step s0 s"
  "quiet_step s0 (s\<lparr>k_conflicts := ns\<rparr>) = quiet_step s0 s"
  "quiet_step s0 (s\<lparr>k_logs := n\<rparr>) = quiet_step s0 s"
  by (simp_all add: quiet_step_def)

lemma quiet_event_step:
  "quiet_step s0 s \<Longrightarrow> quiet_event e \<Longrightarrow>
   quiet_step s0 (s\<lparr>io_world := w, io_trace := e # io_trace s\<rparr>)"
  by (auto simp: quiet_step_def intro: exI [of _ "e # _"])

lemma quiet_calls [quiet_rules]:
  "k_get sv r s = (res, s') \<Longrightarrow> quiet_step s0 s \<Longrightarrow> quiet_step s0 s'"
  "k_update sv ob s = (res, s') \<Longrightarrow> quiet_step s0 s \<Longrightarrow> quiet_step s0 s'"
  "k_list sv c k ns sel s = (lres, s') \<Longrightarrow> quiet_step s0 s \<Longrightarrow> quiet_step s0 s'"
  by (auto simp: k_get_def k_update_def k_list_def intro: quiet_event_step split: prod.splits)

lemma quiet_poll:
  assumes "deps_ok d" and "d_poll d i t imm f s = (err, s')" and "quiet_step s0 s"
    and "\<And>a r b. f a = (r, b) \<Longrightarrow> quiet_step s0 a \<Longrightarrow> quiet_step s0 b"
  shows "quiet_step s0 s'"
proof -
  have step: "quiet_step s0 (snd (f a))" if "quiet_step s0 a" for a
    using assms(4) [OF prod.collapse [symmetric] that] .
  have "poll_contract (d_poll d)" using assms(1) by (simp add: deps_ok_def)
  then have "quiet_step s0 (snd (d_poll d i t imm f s))"
    by (rule poll_invariant [where I = "quiet_step s0"]) (rule step, assumption, rule assms(3))
  then show ?thesis by (simp add: assms(2))
qed

lemma quiet_retry:
  assumes "deps_ok d" and "d_retry d f s = (err, s')" and "quiet_step s0 s"
    and "\<And>a r b. f a = (r, b) \<Longrightarrow> quiet_step s0 a \<Longrightarrow> quiet_step s0 b"
  shows "quiet_step s0 s'"
proof -
  have step: "quiet_step s0 (snd (f a))" if "quiet_step s0 a" for a
    using assms(4) [OF prod.collapse [symmetric] that] .
  have "retry_contract k_conflict (d_retry d)" using assms(1) by (simp add: deps_ok_def)
  then have "quiet_step s0 (snd (d_retry d f s))"
    by (rule retry_invariant [where I = "quiet_step s0"]) (rule step, assumption, rule assms(3))
  then show ?thesis by (simp add: assms(2))
qed

lemma quiet_for_each:
  assumes "for_each f xs s = (err, s')" and "quiet_step s0 s"
    and "\<And>x a r b. x \<in> set xs \<Longrightarrow> f x a = (r, b) \<Longrightarrow> quiet_step s0 a \<Longrightarrow> quiet_step s0 b"
  shows "quiet_step s0 s'"
  using assms
proof (induction xs arbitrary: s)
  case (Cons x xs)
  obtain err1 s1 where f: "f x s = (err1, s1)" by (metis surj_pair)
  with Cons.prems have "quiet_step s0 s1" by (metis list.set_intros(1))
  with Cons f show ?case by (cases err1) (auto, metis)
qed simp

end
