(* ===== verification/KueueFrames.thy ===== *)
theory KueueFrames
  imports KueueLifecycle
begin

text \<open>
  Frame facts of the Kueue environment: every operation that only reads, waits or updates makes
  quiet steps, so that the invariants of \<open>KueueSafety\<close> follow for it without looking inside.
\<close>

section \<open>Waiting and updating\<close>

lemma join_step: "seq m1 m2 s = (err, s') \<Longrightarrow>
   (\<And>r a b. m1 a = (r, b) \<Longrightarrow> quiet_step s0 a \<Longrightarrow> quiet_step s0 b) \<Longrightarrow>
   (\<And>r a b. m2 a = (r, b) \<Longrightarrow> quiet_step s0 a \<Longrightarrow> quiet_step s0 b) \<Longrightarrow>
   quiet_step s0 s \<Longrightarrow> quiet_step s0 s'"
  by (force simp: seq_def split: prod.splits option.splits)

lemma q_waitForNotFound [quiet_rules]:
  assumes "waitForNotFound d t r s = (res, s')" and "deps_ok d" and "quiet_step s0 s"
  shows "quiet_step s0 s'"
  using assms(1,3) unfolding waitForNotFound_def
  by (auto split: result_splits simp: Let_def elim!: quiet_poll [OF assms(2)] quiet_calls)

lemma q_condition_reached [quiet_rules]:
  assumes "condition_reached d r ty s = (res, s')" and "deps_ok d" and "quiet_step s0 s"
  shows "quiet_step s0 s'"
  using assms(1,3) unfolding condition_reached_def
  by (auto split: result_splits simp: Let_def elim!: quiet_calls)

lemma q_waitForKueue [quiet_rules]:
  assumes "waitForKueue d c s = (res, s')" and "deps_ok d" and "quiet_step s0 s"
  shows "quiet_step s0 s'"
  using assms(1,3) unfolding waitForKueue_def
  by (auto split: result_splits simp: Let_def elim!: quiet_poll [OF assms(2)] q_condition_reached [OF _ assms(2)])

lemma q_waitForActive [quiet_rules]:
  assumes "waitForActive d c k ns n s = (res, s')" and "deps_ok d" and "quiet_step s0 s"
  shows "quiet_step s0 s'"
  using assms(1,3) unfolding waitForActive_def
  by (auto split: result_splits simp: Let_def elim!: quiet_poll [OF assms(2)] q_condition_reached [OF _ assms(2)])

lemma q_review [quiet_rules]:
  assumes "review_allowed d kc v g rs ns s = (res, s')" and "deps_ok d" and "quiet_step s0 s"
  shows "quiet_step s0 s'"
  using assms(1,3) unfolding review_allowed_def
  by (auto split: result_splits simp: Let_def elim!: quiet_calls)

lemma q_credential_usable [quiet_rules]:
  assumes "credential_usable d kc ns s = (res, s')" and "deps_ok d" and "quiet_step s0 s"
  shows "quiet_step s0 s'"
  using assms(1,3) unfolding credential_usable_def
  by (auto split: result_splits elim!: quiet_poll [OF assms(2)] q_review [OF _ assms(2)])

lemma q_review_denied [quiet_rules]:
  assumes "review_denied d kc v g rs ns msg s = (res, s')" and "deps_ok d" and "quiet_step s0 s"
  shows "quiet_step s0 s'"
  using assms(1,3) unfolding review_denied_def
  by (auto split: result_splits elim!: q_review [OF _ assms(2)])

lemma q_verifyScope [quiet_rules]:
  assumes "verifyWorkerCredentialScope d kc ns s = (res, s')" and "deps_ok d" and "quiet_step s0 s"
  shows "quiet_step s0 s'"
  using assms(1,3) unfolding verifyWorkerCredentialScope_def
  by (auto split: option.splits
      elim!: join_step q_credential_usable [OF _ assms(2)] q_review_denied [OF _ assms(2)])

lemma q_waitForRootCA [quiet_rules]:
  assumes "waitForRootCA d c s = (res, s')" and "deps_ok d" and "quiet_step s0 s"
  shows "quiet_step s0 s'"
  using assms(1,3) unfolding waitForRootCA_def
  by (auto split: result_splits simp: Let_def elim!: quiet_poll [OF assms(2)] quiet_calls)

lemma q_require_absent [quiet_rules]:
  assumes "require_absent d r ex s = (res, s')" and "deps_ok d" and "quiet_step s0 s"
  shows "quiet_step s0 s'"
  using assms(1,3) unfolding require_absent_def
  by (auto split: result_splits simp: Let_def elim!: quiet_calls)

lemma q_resolve [quiet_rules]:
  assumes "resolve_endpoint d c h s = (res, s')" and "deps_ok d" and "quiet_step s0 s"
  shows "quiet_step s0 s'"
  using assms(1,3) unfolding resolve_endpoint_def
  by (auto split: result_splits simp: Let_def elim!: quiet_calls)

lemma q_update_kueue [quiet_rules]:
  assumes "update_kueue d ob j s = (res, s')" and "deps_ok d" and "quiet_step s0 s"
  shows "quiet_step s0 s'"
  using assms(1,3) unfolding update_kueue_def
  by (auto split: result_splits simp: Let_def elim!: quiet_calls)

lemma q_update_config [quiet_rules]:
  assumes "update_config d ob sc s = (res, s')" and "deps_ok d" and "quiet_step s0 s"
  shows "quiet_step s0 s'"
  using assms(1,3) unfolding update_config_def
  by (auto split: result_splits simp: Let_def elim!: quiet_calls)

lemma q_terminal [quiet_rules]:
  assumes "schedulerTerminalError d c s = (res, s')" and "deps_ok d" and "quiet_step s0 s"
  shows "quiet_step s0 s'"
  using assms(1,3) unfolding schedulerTerminalError_def
  by (auto split: result_splits simp: Let_def elim!: quiet_calls)

lemma q_settled [quiet_rules]:
  assumes "config_settled d c body s = (res, s')" and "deps_ok d" and "quiet_step s0 s"
  shows "quiet_step s0 s'"
  using assms(1,3) unfolding config_settled_def
  by (auto split: result_splits simp: Let_def elim!: quiet_calls)

lemma q_config_condition [quiet_rules]:
  assumes "config_condition d c s = (res, s')" and "deps_ok d" and "quiet_step s0 s"
  shows "quiet_step s0 s'"
  using assms(1,3) unfolding config_condition_def
  by (auto split: result_splits simp: Let_def
      elim!: quiet_calls q_terminal [OF _ assms(2)] q_settled [OF _ assms(2)])

lemma q_waitForTektonConfig [quiet_rules]:
  assumes "waitForTektonConfig d c s = (res, s')" and "deps_ok d" and "quiet_step s0 s"
  shows "quiet_step s0 s'"
  using assms(1,3) unfolding waitForTektonConfig_def
  by (auto split: result_splits simp: Let_def elim!: quiet_poll [OF assms(2)] q_config_condition [OF _ assms(2)])

lemma q_install_attempt [quiet_rules]:
  assumes "install_attempt d c role s = (res, s')" and "deps_ok d" and "quiet_step s0 s"
  shows "quiet_step s0 s'"
  using assms(1,3) unfolding install_attempt_def
  by (auto split: result_splits simp: Let_def elim!: quiet_calls q_update_config [OF _ assms(2)])

lemma q_restore_attempt [quiet_rules]:
  assumes "restore_attempt d c orig role s = (res, s')" and "deps_ok d" and "quiet_step s0 s"
  shows "quiet_step s0 s'"
  using assms(1,3) unfolding restore_attempt_def
  by (auto split: result_splits simp: Let_def
      elim!: quiet_calls q_update_config [OF _ assms(2)])

lemma q_restoreKueue_attempt [quiet_rules]:
  assumes "restoreKueue_attempt d c paths s = (res, s')" and "deps_ok d" and "quiet_step s0 s"
  shows "quiet_step s0 s'"
  using assms(1,3) unfolding restoreKueue_attempt_def
  by (auto split: result_splits simp: Let_def elim!: quiet_calls q_update_kueue [OF _ assms(2)])

lemma q_cleanup_restoreKueue [quiet_rules]:
  assumes "cleanup_restoreKueue d c paths s = (res, s')" and "deps_ok d" and "quiet_step s0 s"
  shows "quiet_step s0 s'"
  using assms(1,3) unfolding cleanup_restoreKueue_def
  by (auto split: result_splits simp: Let_def elim!: quiet_retry [OF assms(2)] q_restoreKueue_attempt [OF _ assms(2)])

lemma q_cleanup_scheduler [quiet_rules]:
  assumes "cleanup_scheduler d c orig role s = (res, s')" and "deps_ok d" and "quiet_step s0 s"
  shows "quiet_step s0 s'"
  using assms(1,3) unfolding cleanup_scheduler_def
  by (auto split: result_splits simp: Let_def
      elim!: q_waitForTektonConfig [OF _ assms(2)] quiet_retry [OF assms(2)] q_restore_attempt [OF _ assms(2)])

lemma q_list_taskRuns [quiet_rules]:
  assumes "list_taskRuns d c n s = (res, s')" and "deps_ok d" and "quiet_step s0 s"
  shows "quiet_step s0 s'"
  using assms(1,3) unfolding list_taskRuns_def
  by (auto split: result_splits simp: Let_def elim!: quiet_calls)

lemma q_workload_listed [quiet_rules]:
  assumes "workload_listed d u s = (res, s')" and "deps_ok d" and "quiet_step s0 s"
  shows "quiet_step s0 s'"
  using assms(1,3) unfolding workload_listed_def
  by (auto split: result_splits simp: Let_def elim!: quiet_calls)

lemma q_waitForHubWorkload [quiet_rules]:
  assumes "waitForHubWorkload d run s = (res, s')" and "deps_ok d" and "quiet_step s0 s"
  shows "quiet_step s0 s'"
  using assms(1,3) unfolding waitForHubWorkload_def
  by (auto split: result_splits simp: Let_def
      elim!: quiet_poll [OF assms(2)] q_workload_listed [OF _ assms(2)])

section \<open>The PipelineRun's execution\<close>

lemma q_all_gone [quiet_rules]:
  assumes "all_gone d rs s = (res, s')" and "deps_ok d" and "quiet_step s0 s"
  shows "quiet_step s0 s'"
  using assms(1,3)
  by (induction rs arbitrary: s) (auto split: result_splits elim!: quiet_calls, (fastforce intro: quiet_calls)+)

lemma q_waitForExecutionObjectsGone [quiet_rules]:
  assumes "waitForExecutionObjectsGone d s = (res, s')" and "deps_ok d" and "quiet_step s0 s"
  shows "quiet_step s0 s'"
  using assms(1,3) unfolding waitForExecutionObjectsGone_def
  by (auto split: result_splits simp: Let_def
      elim!: q_all_gone [OF _ assms(2)] quiet_poll [OF assms(2)])

lemma q_look [quiet_rules]:
  assumes "look_at_spokes d n cs s = (res, s')" and "deps_ok d" and "quiet_step s0 s"
  shows "quiet_step s0 s'"
  using assms(1,3)
  by (induction cs arbitrary: s) (auto split: result_splits elim!: quiet_calls, (fastforce intro: quiet_calls)+)

lemma q_spoke_condition [quiet_rules]:
  assumes "spoke_condition d n s = (res, s')" and "deps_ok d" and "quiet_step s0 s"
  shows "quiet_step s0 s'"
  using assms(1,3) unfolding spoke_condition_def
  by (auto split: result_splits simp: Let_def
      elim!: quiet_calls q_list_taskRuns [OF _ assms(2)] q_look [OF _ assms(2)])

lemma q_waitForSpokeExecution [quiet_rules]:
  assumes "waitForSpokeExecution d n s = (res, s')" and "deps_ok d" and "quiet_step s0 s"
  shows "quiet_step s0 s'"
  using assms(1,3) unfolding waitForSpokeExecution_def
  by (auto split: result_splits simp: Let_def
      elim!: quiet_poll [OF assms(2)] q_spoke_condition [OF _ assms(2)] q_list_taskRuns [OF _ assms(2)])

lemma q_record_loop [quiet_rules]:
  assumes "recordSpokes_loop d n cs s = (res, s')" and "deps_ok d" and "quiet_step s0 s"
  shows "quiet_step s0 s'"
  using assms(1,3)
  by (induction cs arbitrary: s) (auto split: result_splits elim!: quiet_calls, (fastforce intro: quiet_calls)+)

lemma q_recordSpokes [quiet_rules]:
  assumes "recordSpokes d n s = (res, s')" and "deps_ok d" and "quiet_step s0 s"
  shows "quiet_step s0 s'"
  using assms(1,3) unfolding recordSpokes_def
  by (auto split: result_splits simp: Let_def
      elim!: q_record_loop [OF _ assms(2)])

lemma q_logs [quiet_rules]:
  assumes "pipelineRunLogs d c n s = (res, s')" and "deps_ok d" and "quiet_step s0 s"
  shows "quiet_step s0 s'"
  using assms(1,3) unfolding pipelineRunLogs_def
  by (auto split: result_splits simp: Let_def
      elim!: quiet_calls)

lemma q_observe_worker [quiet_rules]:
  assumes "observe_worker d c n s = (res, s')" and "deps_ok d" and "quiet_step s0 s"
  shows "quiet_step s0 s'"
  using assms(1,3) unfolding observe_worker_def
  by (auto split: result_splits simp: Let_def
      elim!: quiet_calls)

lemma q_observe_hub [quiet_rules]:
  assumes "observe_hub d c n s = (res, s')" and "deps_ok d" and "quiet_step s0 s"
  shows "quiet_step s0 s'"
  using assms(1,3) unfolding observe_hub_def
  by (auto split: result_splits simp: Let_def
      elim!: quiet_calls)

lemma q_capture_logs: "quiet_step s0 s \<Longrightarrow> deps_ok d \<Longrightarrow> quiet_step s0 (capture_logs d c n s)"
  unfolding capture_logs_def by (auto split: result_splits elim: q_logs)

lemma q_completion_condition [quiet_rules]:
  assumes "completion_condition d c n s = (res, s')" and "deps_ok d" and "quiet_step s0 s"
  shows "quiet_step s0 s'"
  using assms(1,3) unfolding completion_condition_def
  by (auto split: result_splits intro!: q_capture_logs assms(2)
      elim!: q_recordSpokes [OF _ assms(2)] q_observe_worker [OF _ assms(2)] q_observe_hub [OF _ assms(2)])

lemma q_waitForWorkloadFinished [quiet_rules]:
  assumes "waitForWorkloadFinished d w n s = (res, s')" and "deps_ok d" and "quiet_step s0 s"
  shows "quiet_step s0 s'"
  using assms(1,3) unfolding waitForWorkloadFinished_def
  by (auto split: result_splits simp: Let_def
      elim!: quiet_poll [OF assms(2)] q_recordSpokes [OF _ assms(2)] q_condition_reached [OF _ assms(2)])

lemma q_waitForWorkerCleanup [quiet_rules]:
  assumes "waitForWorkerCleanup d c n w s = (res, s')" and "deps_ok d" and "quiet_step s0 s"
  shows "quiet_step s0 s'"
  using assms(1,3) unfolding waitForWorkerCleanup_def
  by (auto split: result_splits simp: Let_def
      elim!: quiet_poll [OF assms(2)] q_recordSpokes [OF _ assms(2)] quiet_calls)

lemma q_waitForCompletion [quiet_rules]:
  assumes "waitForCompletion d n w c s = (res, s')" and "deps_ok d" and "quiet_step s0 s"
  shows "quiet_step s0 s'"
  using assms(1,3) unfolding waitForCompletion_def
  by (auto split: result_splits simp: Let_def
      elim!: quiet_poll [OF assms(2)] q_completion_condition [OF _ assms(2)] join_step q_waitForWorkloadFinished [OF _ assms(2)] q_waitForWorkerCleanup [OF _ assms(2)] q_list_taskRuns [OF _ assms(2)])

lemma q_spokeAPIPeers [quiet_rules]:
  assumes "spokeAPIPeers d cs cidrs ports s = (res, s')" and "deps_ok d" and "quiet_step s0 s"
  shows "quiet_step s0 s'"
  using assms(1,3)
proof (induction cs arbitrary: cidrs ports s)
  case (Cons c cs)
  show ?case
  proof (cases "\<exists>h p pn. d_parseURL d (endpoint c) = Some (h, p) \<and> h \<noteq> [] \<and> endpoint_port c p = Inr pn")
    case True
    then obtain h p pn where h: "d_parseURL d (endpoint c) = Some (h, p)" "h \<noteq> []"
      "endpoint_port c p = Inr pn" by blast
    obtain r s1 where r: "resolve_endpoint d c h s = (r, s1)" by (metis surj_pair)
    with Cons.prems have "quiet_step s0 s1" using q_resolve [OF _ assms(2)] by blast
    with Cons h r show ?thesis by (cases r) auto
  next
    case False
    with Cons.prems show ?thesis by (auto split: result_splits)
  qed
qed simp

lemma q_waitForKueueResources [quiet_rules]:
  assumes "waitForKueueResources d s = (res, s')" and "deps_ok d" and "quiet_step s0 s"
  shows "quiet_step s0 s'"
  using assms(1,3) unfolding waitForKueueResources_def
  by (auto simp: wrap_def split: prod.splits
      elim!: join_step quiet_for_each q_waitForActive [OF _ assms(2)])

end
