(* ===== verification/KueueSafety.thy ===== *)
theory KueueSafety
  imports KueueFrames
begin

text \<open>
  The safety of the Kueue environment. \<open>no_orphans\<close>: every object the environment has asked a
  server to create is the target of a registered cleanup, or lies in a namespace that is.
  \<open>guarded\<close>: every delete follows a read that showed the run's own labels. \<open>settled\<close>: a
  cleanup that returned nil has deleted its target or found it gone.
\<close>

section \<open>What a cleanup covers\<close>

fun covers :: "'w kstate \<Rightarrow> cleanup \<Rightarrow> ref \<Rightarrow> bool" where
  "covers s (DeleteKueue c _) r = (r = kueue_ref c)"
| "covers s (DeleteNamespace c _) r =
     (r = namespace_ref c (k_namespace s) \<or> (ref_cluster r = endpoint c \<and> ref_ns r = k_namespace s))"
| "covers s (DeleteDynamic c r' _) r = (r = r')"
| "covers s (DeleteClusterRole c name _) r = (r = clusterRole_ref c name)"
| "covers s (DeleteClusterRoleBinding c name _) r = (r = clusterRoleBinding_ref c name)"
| "covers s (DeleteHubSecret spoke name _) r = (r = secret_ref (k_hub s) name)"
| "covers s (DeleteEgressPolicy _) r = (r = egress_ref (k_hub s) (k_prefix s))"
| "covers s (DeletePipelineRun name _) r = (r = run_ref (k_hub s) (k_namespace s) name)"
| "covers s (RestoreKueue _ _) r = False"
| "covers s (RestoreScheduler _ _ _) r = False"

definition covered :: "'w kstate \<Rightarrow> ref \<Rightarrow> bool" where
  "covered s r \<longleftrightarrow> (\<exists>c \<in> set (k_cleanups s). covers s c r)"

fun is_delete :: "kbody event \<Rightarrow> bool" where
  "is_delete (Deleted _ _) = True"
| "is_delete _ = False"

text \<open>Since the trace was \<open>base\<close>: every object asked for is covered, and nothing was deleted.\<close>

definition no_orphans :: "kbody event list \<Rightarrow> 'w kstate \<Rightarrow> bool" where
  "no_orphans base s \<longleftrightarrow>
     (\<exists>evs. io_trace s = evs @ base \<and> list_all (covered s) (created_refs evs)
        \<and> list_all (\<lambda>e. \<not> is_delete e) evs)"

definition ns_ready :: "cluster list \<Rightarrow> 'w kstate \<Rightarrow> bool" where
  "ns_ready cs s \<longleftrightarrow>
     (\<forall>c \<in> set cs. \<exists>c' u. endpoint c' = endpoint c \<and> DeleteNamespace c' u \<in> set (k_cleanups s))"

lemma covers_identity: "identity_of s = identity_of t \<Longrightarrow> covers s c r = covers t c r"
  by (cases c) (auto simp: identity_of_def)

lemma covers_set_uid [simp]: "covers s (set_uid u c) r = covers s c r"
  by (cases c) auto

lemma created_refs_append [simp]: "created_refs (evs @ tr) = created_refs evs @ created_refs tr"
  by (induction evs) auto

lemma quiet_events:
  "list_all quiet_event evs \<Longrightarrow> created_refs evs = [] \<and> list_all (\<lambda>e. \<not> is_delete e) evs"
  by (induction evs) (auto split: event.splits elim: quiet_event.elims)

text \<open>
  \<open>tracked cs i s\<close>: the invariant of \<open>Setup\<close> and \<open>Execute\<close>, for the clusters \<open>cs\<close> whose
  namespaces are registered; \<open>i\<close> is the identity of the environment with the trace it began at.
\<close>

type_synonym origin = "(cluster \<times> cluster list \<times> string \<times> string) \<times> kbody event list"

definition tracked :: "cluster list \<Rightarrow> origin \<Rightarrow> 'w kstate \<Rightarrow> bool" where
  "tracked cs i s \<longleftrightarrow> identity_of s = fst i \<and> no_orphans (snd i) s \<and> ns_ready cs s"

definition namespace_in :: "origin \<Rightarrow> string" where
  "namespace_in i = snd (snd (snd (fst i)))"

lemma tracked_namespace: "tracked cs i s \<Longrightarrow> k_namespace s = namespace_in i"
  by (simp add: tracked_def namespace_in_def) (metis identity_of_def snd_conv)

lemma no_orphansI:
  assumes "no_orphans base s" and "identity_of t = identity_of s"
    and "set (k_cleanups s) \<subseteq> set (k_cleanups t)"
    and "io_trace t = evs @ io_trace s" and "list_all (covered t) (created_refs evs)"
    and "list_all (\<lambda>e. \<not> is_delete e) evs"
  shows "no_orphans base t"
proof -
  obtain old where old: "io_trace s = old @ base" "list_all (covered s) (created_refs old)"
    "list_all (\<lambda>e. \<not> is_delete e) old"
    using assms(1) by (auto simp: no_orphans_def)
  have "covered s r \<Longrightarrow> covered t r" for r
    using assms(3) covers_identity [OF assms(2)] by (auto simp: covered_def)
  with old assms(4-6) show ?thesis
    unfolding no_orphans_def by (intro exI [of _ "evs @ old"]) (auto simp: list_all_iff)
qed

lemma covered_identity:
  "identity_of t = identity_of s \<Longrightarrow> c \<in> set (k_cleanups t) \<Longrightarrow> covers s c r \<Longrightarrow> covered t r"
  using covers_identity [of t s] by (auto simp: covered_def)

lemma tracked_quiet:
  assumes "quiet_step s t" and "tracked cs i s"
  shows "tracked cs i t"
proof -
  from assms(1) obtain evs where q: "identity_of t = identity_of s" "k_cleanups t = k_cleanups s"
    "io_trace t = evs @ io_trace s" "list_all quiet_event evs"
    by (auto simp: quiet_step_def)
  have "no_orphans (snd i) t"
    using assms(2) quiet_events [OF q(4)] q
    by (intro no_orphansI [OF _ q(1) _ q(3)]) (auto simp: tracked_def)
  with assms(2) q show ?thesis by (simp add: tracked_def ns_ready_def)
qed

lemma tracked_addCleanup:
  assumes "tracked cs i s"
  shows "tracked cs i (addCleanup c s)"
proof -
  have f: "identity_of (addCleanup c s) = identity_of s" "io_trace (addCleanup c s) = [] @ io_trace s"
    by (simp_all add: addCleanup_def)
  have "no_orphans (snd i) (addCleanup c s)"
    using assms by (intro no_orphansI [OF _ f(1) _ f(2)]) (auto simp: tracked_def addCleanup_def)
  moreover have "ns_ready cs (addCleanup c s)"
    using assms unfolding tracked_def ns_ready_def addCleanup_def by auto blast
  ultimately show ?thesis using assms f(1) by (simp add: tracked_def)
qed

lemma map_last_split:
  "xs \<noteq> [] \<Longrightarrow> butlast xs @ map f (drop (length xs - 1) xs) = butlast xs @ [f (last xs)]"
  by (induction xs rule: rev_induct) auto

lemma cleanups_assign_uid:
  "k_cleanups s = cs @ [c] \<Longrightarrow> k_cleanups (assign_uid u s) = cs @ [set_uid u c]"
  by (simp add: assign_uid_def)

lemma assign_uid_frame [simp]:
  "identity_of (assign_uid u s) = identity_of s"
  "io_trace (assign_uid u s) = io_trace s"
  "io_world (assign_uid u s) = io_world s"
  by (simp_all add: assign_uid_def)

lemma k_create_frame:
  assumes "k_create sv ob s = (res, s')"
  shows "identity_of s' = identity_of s" and "k_cleanups s' = k_cleanups s"
    and "io_trace s' = Created ob res # io_trace s"
  using assms by (auto simp: k_create_def split: prod.splits)

lemma k_delete_frame:
  assumes "k_delete sv r s = (res, s')"
  shows "identity_of s' = identity_of s" and "k_cleanups s' = k_cleanups s"
    and "io_trace s' = Deleted r res # io_trace s"
  using assms by (auto simp: k_delete_def split: prod.splits)

text \<open>The registration comes before the create, so its target is covered whatever the answer.\<close>

lemma register_create_frame:
  assumes "register_create d c ob s = (err, s')"
  obtains res u where "identity_of s' = identity_of s"
    and "io_trace s' = Created ob res # io_trace s"
    and "k_cleanups s' = k_cleanups s @ [c] \<or> k_cleanups s' = k_cleanups s @ [set_uid u c]"
proof -
  obtain res s1 where cr: "k_create (d_server d) ob (addCleanup c s) = (res, s1)" by (metis surj_pair)
  note fr = k_create_frame [OF cr]
  have cs: "k_cleanups s1 = k_cleanups s @ [c]" and *: "identity_of s1 = identity_of s"
    "io_trace s1 = Created ob res # io_trace s"
    using fr by (simp_all add: addCleanup_def)
  show ?thesis
  proof (cases res)
    case (Inl e)
    with assms cr have "s' = s1" by (simp add: register_create_def)
    with * cs that [of res "[]"] show ?thesis by simp
  next
    case (Inr made)
    with assms cr have "s' = assign_uid (o_uid made) s1" by (simp add: register_create_def)
    with * cs that [of res "o_uid made"] show ?thesis by (simp add: cleanups_assign_uid)
  qed
qed

lemma tracked_register:
  assumes "register_create d c ob s = (err, s')" and "tracked cs i s"
    and "covers s c (o_ref ob)"
  shows "tracked cs i s'"
  using register_create_frame [OF assms(1)]
proof cases
  case (1 res u)
  have sub: "set (k_cleanups s) \<subseteq> set (k_cleanups s')" using 1(3) by auto
  have tr: "io_trace s' = [Created ob res] @ io_trace s" using 1(2) by simp
  have "covered s' (o_ref ob)"
    using 1(3) assms(3) covers_identity [OF 1(1)] by (auto simp: covered_def)
  then have "no_orphans (snd i) s'"
    using assms(2) by (intro no_orphansI [OF _ 1(1) sub tr]) (simp_all add: tracked_def)
  moreover have "ns_ready cs s'"
    using 1(3) assms(2) unfolding ns_ready_def tracked_def by (metis Un_iff set_append)
  ultimately show ?thesis using 1(1) assms(2) by (simp add: tracked_def)
qed

text \<open>A plain create is covered by its namespace.\<close>

lemma tracked_create:
  assumes "k_create sv ob s = (res, s')" and "tracked cs i s"
    and "c \<in> set cs" and "ref_cluster (o_ref ob) = endpoint c" and "ref_ns (o_ref ob) = namespace_in i"
  shows "tracked cs i s'"
proof -
  note fr = k_create_frame [OF assms(1)]
  from assms(2,3) obtain c' u where "endpoint c' = endpoint c"
    and m: "DeleteNamespace c' u \<in> set (k_cleanups s)"
    unfolding tracked_def ns_ready_def by blast
  moreover have "k_namespace s = namespace_in i" using assms(2) tracked_namespace by blast
  ultimately have "covers s (DeleteNamespace c' u) (o_ref ob)" using assms(4,5) by simp
  with m have "covered s' (o_ref ob)"
    using covered_identity [OF fr(1), of "DeleteNamespace c' u"] by (simp only: fr)
  moreover have tr: "io_trace s' = [Created ob res] @ io_trace s" using fr(3) by simp
  ultimately have "no_orphans (snd i) s'"
    using assms(2) by (intro no_orphansI [OF _ fr(1) _ tr]) (simp_all add: tracked_def fr(2))
  with fr assms(2) show ?thesis by (auto simp: tracked_def ns_ready_def)
qed

section \<open>Setup keeps its objects tracked\<close>

named_theorems tracked_rules "operations that keep an environment tracked"

lemma tracked_seq [tracked_rules]:
  assumes "seq m1 m2 s = (err, s')" and "tracked cs i s"
    and "\<And>a r b. m1 a = (r, b) \<Longrightarrow> tracked cs i a \<Longrightarrow> tracked cs i b"
    and "\<And>a r b. m2 a = (r, b) \<Longrightarrow> tracked cs i a \<Longrightarrow> tracked cs i b"
  shows "tracked cs i s'"
  using assms by (force simp: seq_def split: prod.splits option.splits)

lemma tracked_wrap [tracked_rules]:
  assumes "wrap msg m s = (err, s')" and "tracked cs i s"
    and "\<And>a r b. m a = (r, b) \<Longrightarrow> tracked cs i a \<Longrightarrow> tracked cs i b"
  shows "tracked cs i s'"
  using assms by (auto simp: wrap_def split: prod.splits)

lemma tracked_for_each [tracked_rules]:
  assumes "for_each f xs s = (err, s')" and "tracked cs i s"
    and "\<And>x a r b. x \<in> set xs \<Longrightarrow> f x a = (r, b) \<Longrightarrow> tracked cs i a \<Longrightarrow> tracked cs i b"
  shows "tracked cs i s'"
proof -
  have "keeps (tracked cs i) (for_each f xs)"
    using assms(3) by (intro keeps_for_each keepsI)
  with assms(1,2) show ?thesis by (metis keepsD)
qed

lemma tracked_absent: "require_absent d r e s = (err, s') \<Longrightarrow> deps_ok d \<Longrightarrow> tracked cs i s \<Longrightarrow> tracked cs i s'"
  by (erule tracked_quiet [OF q_require_absent [OF _ _ quiet_refl]])

text \<open>Everything that is guarded by \<open>require_absent\<close> and registered before it is created.\<close>

lemma tracked_absent_register:
  fixes s :: "'w kstate"
  assumes "seq (require_absent d r e) (register_create d c ob) s = (err, s')"
    and "deps_ok d" and "tracked cs i s" and "\<And>t :: 'w kstate. identity_of t = identity_of s \<Longrightarrow> covers t c (o_ref ob)"
  shows "tracked cs i s'"
proof -
  obtain e1 s1 where ab: "require_absent d r e s = (e1, s1)" by (metis surj_pair)
  have t1: "tracked cs i s1" using tracked_absent [OF ab assms(2,3)] .
  then have "identity_of s1 = identity_of s" using assms(3) by (simp add: tracked_def)
  then have "covers s1 c (o_ref ob)" by (rule assms(4))
  with ab t1 assms(1) show ?thesis
    by (cases e1) (auto simp: seq_def intro: tracked_register)
qed

lemma tracked_createNamespace:
  assumes "createNamespace d c s = (err, s')" and "deps_ok d" and "tracked cs i s"
  shows "tracked cs i s'"
  using assms(1) unfolding createNamespace_def
  by (rule tracked_absent_register [OF _ assms(2,3)]) (auto simp: identity_of_def)

lemma tracked_createClusterRole [tracked_rules]:
  assumes "createClusterRole d c n rs s = (err, s')" and "deps_ok d" and "tracked cs i s"
  shows "tracked cs i s'"
  using assms(1) unfolding createClusterRole_def
  by (rule tracked_absent_register [OF _ assms(2,3)]) simp

lemma tracked_createClusterRoleBinding [tracked_rules]:
  assumes "createClusterRoleBinding d c n b s = (err, s')" and "deps_ok d" and "tracked cs i s"
  shows "tracked cs i s'"
  using assms(1) unfolding createClusterRoleBinding_def
  by (rule tracked_absent_register [OF _ assms(2,3)]) simp

lemma tracked_createDynamic [tracked_rules]:
  assumes "createDynamic d c k n ns sp s = (err, s')" and "deps_ok d" and "tracked cs i s"
  shows "tracked cs i s'"
  using assms(1) unfolding createDynamic_def Let_def
  by (rule tracked_absent_register [OF _ assms(2,3)]) simp

lemma tracked_create_only:
  assumes "create_only d ob s = (err, s')" and "tracked cs i s"
    and "c \<in> set cs" and "ref_cluster (o_ref ob) = endpoint c" and "ref_ns (o_ref ob) = namespace_in i"
  shows "tracked cs i s'"
  using assms(1) tracked_create [OF _ assms(2-5)]
  by (auto simp: create_only_def split: result_splits)

lemma tracked_createRole:
  assumes "createRole d c n rs s = (err, s')" and "tracked cs i s" and "c \<in> set cs"
  shows "tracked cs i s'"
  using assms(1) unfolding createRole_def by (rule tracked_create_only [OF _ assms(2,3)]) (simp_all add: tracked_namespace [OF assms(2)])

lemma tracked_createRoleBinding:
  assumes "createRoleBinding d c n b s = (err, s')" and "tracked cs i s" and "c \<in> set cs"
  shows "tracked cs i s'"
  using assms(1) unfolding createRoleBinding_def by (rule tracked_create_only [OF _ assms(2,3)]) (simp_all add: tracked_namespace [OF assms(2)])

lemma tracked_createHubSecret:
  assumes "createHubSecret d c n tok s = (err, s')" and "deps_ok d" and "tracked cs i s"
  shows "tracked cs i s'"
proof -
  obtain e1 s1 where ca: "waitForRootCA d c s = (e1, s1)" by (metis surj_pair)
  have t1: "tracked cs i s1"
    using tracked_quiet [OF q_waitForRootCA [OF ca assms(2) quiet_refl] assms(3)] .
  have "tracked cs i s'" if "seq (verifyWorkerCredentialScope d kc (k_namespace s1))
        (register_create d (DeleteHubSecret c n [])
          \<lparr>o_ref = secret_ref (k_hub s1) n, o_labels = ownedLabels (k_prefix s1),
           o_uid = [], o_body = SecretBody [(''kubeconfig'', kc)]\<rparr>) s1 = (err, s')" for kc
  proof -
    obtain e2 s2 where v: "verifyWorkerCredentialScope d kc (k_namespace s1) s1 = (e2, s2)"
      by (metis surj_pair)
    have q: "quiet_step s1 s2" using q_verifyScope [OF v assms(2) quiet_refl] .
    then have "tracked cs i s2" using t1 by (rule tracked_quiet)
    moreover from q have "k_hub s2 = k_hub s1" by (simp add: quiet_step_def identity_of_def)
    ultimately have "tracked cs i s2" and "k_hub s2 = k_hub s1" .
    with v that show ?thesis by (cases e2) (auto simp: seq_def intro: tracked_register)
  qed
  with assms(1) ca t1 show ?thesis
    by (auto simp: createHubSecret_def split: option.splits sum.splits)
qed

lemma tracked_mint_token:
  assumes "mint_token d c n s = (err, s')" and "deps_ok d" and "tracked cs i s" and "c \<in> set cs"
  shows "tracked cs i s'"
proof -
  obtain res s1 where cr: "k_create (d_server d)
      \<lparr>o_ref = Ref (endpoint c) ''ServiceAccount/token'' (k_namespace s) n,
       o_labels = Map.empty, o_uid = [], o_body = TokenBody []\<rparr> s = (res, s1)"
    by (metis surj_pair)
  have "tracked cs i s1" by (rule tracked_create [OF cr assms(3,4)]) (simp_all add: tracked_namespace [OF assms(3)])
  with assms(1,2) cr show ?thesis
    by (cases res) (auto simp: mint_token_def intro: tracked_createHubSecret)
qed

lemma tracked_createWorkerCredential:
  assumes "createWorkerCredential d c s = (err, s')" and "deps_ok d" and "tracked cs i s" and "c \<in> set cs"
  shows "tracked cs i s'"
  using assms(1) unfolding createWorkerCredential_def Let_def
  by (auto simp: tracked_namespace [OF assms(3)] intro: assms(3) elim!: tracked_seq tracked_create_only [OF _ _ assms(4)]
      tracked_createClusterRole [OF _ assms(2)] tracked_createClusterRoleBinding [OF _ assms(2)]
      tracked_createRole [OF _ _ assms(4)] tracked_createRoleBinding [OF _ _ assms(4)]
      tracked_mint_token [OF _ assms(2) _ assms(4)])

lemma tracked_controllerRBAC:
  assumes "createKueueControllerRBAC d c s = (err, s')" and "deps_ok d" and "tracked cs i s"
  shows "tracked cs i s'"
  using assms(1) unfolding createKueueControllerRBAC_def Let_def
  by (auto intro: assms(3) elim!: tracked_seq tracked_createClusterRole [OF _ assms(2)]
      tracked_createClusterRoleBinding [OF _ assms(2)])

lemma tracked_createQueues:
  assumes "createQueues d c hub s = (err, s')" and "deps_ok d" and "tracked cs i s"
  shows "tracked cs i s'"
  using assms(1) unfolding createQueues_def
  by (auto intro: assms(3) elim!: tracked_seq tracked_createDynamic [OF _ assms(2)])

lemma tracked_createMultiKueueCluster:
  assumes "createMultiKueueCluster d c s = (err, s')" and "deps_ok d" and "tracked cs i s"
  shows "tracked cs i s'"
  using assms(1) unfolding createMultiKueueCluster_def Let_def
  by (auto intro: assms(3) elim!: tracked_wrap tracked_createDynamic [OF _ assms(2)])

lemma tracked_hubResources:
  assumes "createHubMultiKueueResources d s = (err, s')" and "deps_ok d" and "tracked cs i s"
  shows "tracked cs i s'"
  using assms(1) unfolding createHubMultiKueueResources_def
  by (auto intro: assms(3) elim!: tracked_seq tracked_for_each tracked_createMultiKueueCluster [OF _ assms(2)]
      tracked_createDynamic [OF _ assms(2)])

lemma tracked_egressPolicy:
  assumes "createKueueEgressPolicy d s = (err, s')" and "deps_ok d" and "tracked cs i s"
  shows "tracked cs i s'"
proof -
  obtain res s1 where p: "spokeAPIPeers d (k_spokes s) [] [] s = (res, s1)" by (metis surj_pair)
  have "tracked cs i s1" using tracked_quiet [OF q_spokeAPIPeers [OF p assms(2) quiet_refl] assms(3)] .
  with assms(1) p show ?thesis
    by (auto simp: createKueueEgressPolicy_def wrap_def split: result_splits intro: tracked_register)
qed

lemma tracked_ensureKueue:
  assumes "ensureKueue d c s = (err, s')" and "deps_ok d" and "tracked cs i s"
  shows "tracked cs i s'"
proof -
  obtain res s1 where g: "k_get (d_server d) (kueue_ref c) s = (res, s1)" by (metis surj_pair)
  have t1: "tracked cs i s1" using tracked_quiet [OF quiet_calls(1) [OF g quiet_refl] assms(3)] .
  have "tracked cs i s'" if "create_kueue d c s1 = (err, s')"
    using that tracked_register [OF _ t1] by (auto simp: create_kueue_def)
  moreover have "tracked cs i s'" if "update_kueue d ob j (addCleanup (RestoreKueue c ps) s1) = (err, s')" for ob j ps
    using tracked_quiet [OF q_update_kueue [OF that assms(2) quiet_refl] tracked_addCleanup [OF t1]] .
  ultimately show ?thesis
    using assms(1) g t1 by (auto simp: ensureKueue_def split: sum.splits if_splits)
qed

lemma tracked_enableScheduler:
  assumes "enableScheduler d c role s = (err, s')" and "deps_ok d" and "tracked cs i s"
  shows "tracked cs i s'"
proof -
  obtain res s1 where g: "k_get (d_server d) (config_ref c) s = (res, s1)" by (metis surj_pair)
  have t1: "tracked cs i s1" using tracked_quiet [OF quiet_calls(1) [OF g quiet_refl] assms(3)] .
  have "tracked cs i s'" if "seq (d_retry d (install_attempt d c role)) (waitForTektonConfig d c)
      (addCleanup cl s1) = (err, s')" for cl
  proof -
    have "quiet_step (addCleanup cl s1) s'"
      using join_step [OF that, of "addCleanup cl s1"] quiet_retry [OF assms(2)]
        q_install_attempt [OF _ assms(2)] q_waitForTektonConfig [OF _ assms(2)] by (metis quiet_refl)
    then show ?thesis using tracked_addCleanup [OF t1] by (rule tracked_quiet)
  qed
  with assms(1) g t1 show ?thesis by (auto simp: enableScheduler_def split: sum.splits)
qed

text \<open>A created namespace is registered, so later plain creates in it are covered.\<close>

lemma createNamespace_ready:
  assumes "createNamespace d c s = (None, s')" and "deps_ok d" and "tracked cs i s"
  shows "tracked (c # cs) i s'"
proof -
  obtain s1 where "register_create d (DeleteNamespace c [])
     \<lparr>o_ref = namespace_ref c (k_namespace s), o_labels = ownedLabels (k_prefix s),
      o_uid = [], o_body = NamespaceBody\<rparr> s1 = (None, s')"
    using assms(1) unfolding createNamespace_def by (auto simp: seq_None)
  then have "\<exists>u. DeleteNamespace c u \<in> set (k_cleanups s')"
    by (rule register_create_frame) auto
  with tracked_createNamespace [OF assms] show ?thesis
    by (auto simp: tracked_def ns_ready_def)
qed

lemma tracked_weaken: "tracked as i s \<Longrightarrow> set bs \<subseteq> set as \<Longrightarrow> tracked bs i s"
  by (auto simp: tracked_def ns_ready_def)

lemma tracked_setup_namespace:
  assumes "seq (wrap m1 (createNamespace d c)) (wrap m2 (createKueueControllerRBAC d c)) s = (err, s')"
    and "deps_ok d" and "tracked cs i s"
  shows "tracked (if err = None then c # cs else cs) i s'"
proof -
  obtain e0 s0 where n: "createNamespace d c s = (e0, s0)" by (metis surj_pair)
  show ?thesis
  proof (cases e0)
    case None
    then have t0: "tracked (c # cs) i s0" using createNamespace_ready n assms(2,3) by blast
    obtain e2 s2 where r: "createKueueControllerRBAC d c s0 = (e2, s2)" by (metis surj_pair)
    have "tracked (c # cs) i s2" using tracked_controllerRBAC [OF r assms(2) t0] .
    moreover have "s' = s2"
      using assms(1) n r None by (auto simp: seq_def wrap_def wrap_error_def split: option.splits)
    ultimately show ?thesis using tracked_weaken [of "c # cs" i s2 cs] by auto
  next
    case (Some e)
    then have "err \<noteq> None \<and> s' = s0" using assms(1) n by (auto simp: seq_def wrap_def wrap_error_def)
    with tracked_createNamespace [OF n assms(2,3)] show ?thesis by auto
  qed
qed

lemma tracked_setup_namespaces:
  assumes "setup_namespaces d new s = (err, s')" and "deps_ok d" and "tracked cs i s"
  shows "tracked (if err = None then rev new @ cs else cs) i s'"
  using assms(1,3) unfolding setup_namespaces_def
proof (induction new arbitrary: s cs)
  case (Cons c new)
  define f where "f = (\<lambda>c. seq (wrap (''create namespace on '' @ cl_name c) (createNamespace d c))
                     (wrap (''configure Kueue RBAC on '' @ cl_name c) (createKueueControllerRBAC d c)))"
  obtain e1 s1 where f1: "f c s = (e1, s1)" by (metis surj_pair)
  then have t1: "tracked (if e1 = None then c # cs else cs) i s1"
    using tracked_setup_namespace [OF _ assms(2) Cons.prems(2)] by (simp add: f_def)
  show ?case
  proof (cases e1)
    case None
    with f1 Cons.prems(1) have rest: "for_each f new s1 = (err, s')" by (simp add: f_def)
    from None t1 have "tracked (c # cs) i s1" by simp
    from Cons.IH [OF rest [unfolded f_def] this] show ?thesis
      by (auto split: if_splits intro: tracked_weaken)
  next
    case (Some e)
    with f1 Cons.prems(1) t1 show ?thesis by (auto simp: f_def)
  qed
qed simp

lemma tracked_setup_spokes:
  assumes "setup_spokes d spokes s = (err, s')" and "deps_ok d" and "tracked cs i s"
    and "set spokes \<subseteq> set cs"
  shows "tracked cs i s'"
  using assms(1) unfolding setup_spokes_def
proof (rule tracked_for_each [OF _ assms(3)])
  fix c a b and r
  assume "c \<in> set spokes" and "tracked cs i a"
    and st: "seq (wrap (''create queues on '' @ cl_name c) (createQueues d c False))
            (wrap (''create scoped credentials for '' @ cl_name c) (createWorkerCredential d c)) a = (r, b)"
  then have "c \<in> set cs" using assms(4) by blast
  with st \<open>tracked cs i a\<close> show "tracked cs i b"
    by (auto elim!: tracked_seq tracked_wrap tracked_createQueues [OF _ assms(2)]
        tracked_createWorkerCredential [OF _ assms(2)])
qed

lemma tracked_for_each_quiet:
  assumes "for_each f xs s = (err, s')" and "tracked cs i s"
    and "\<And>x a r b. f x a = (r, b) \<Longrightarrow> quiet_step a b"
  shows "tracked cs i s'"
  using assms(1,2) by (rule tracked_for_each) (metis assms(3) tracked_quiet)

lemma tracked_waitForKueue:
  "waitForKueue d c s = (err, s') \<Longrightarrow> deps_ok d \<Longrightarrow> tracked cs i s \<Longrightarrow> tracked cs i s'"
  by (rule tracked_quiet [OF q_waitForKueue [OF _ _ quiet_refl]])

text \<open>The stages of \<open>Setup\<close> after the namespaces.\<close>

lemma tracked_after_namespaces:
  assumes "seq (setup_spokes d spokes)
    (seq (createHubMultiKueueResources d)
    (seq (wrap m (createQueues d hub True))
    (seq (createKueueEgressPolicy d)
    (seq (setup_schedulers d hub (hub # spokes)) (waitForKueueResources d))))) s = (err, s')"
    and "deps_ok d" and "tracked cs i s" and "set spokes \<subseteq> set cs"
  shows "tracked cs i s'"
proof -
  have spokes: "tracked cs i b" if "setup_spokes d spokes a = (r, b)" "tracked cs i a" for r a b
    using tracked_setup_spokes [OF that(1) assms(2) that(2) assms(4)] .
  have sched: "tracked cs i b" if "setup_schedulers d hub (hub # spokes) a = (r, b)" "tracked cs i a" for r a b
    using that unfolding setup_schedulers_def
    by (auto elim!: tracked_for_each tracked_wrap tracked_enableScheduler [OF _ assms(2)] simp del: for_each.simps)
  have wait: "tracked cs i b" if "waitForKueueResources d a = (r, b)" "tracked cs i a" for r a b
    using tracked_quiet [OF q_waitForKueueResources [OF that(1) assms(2) quiet_refl] that(2)] .
  show ?thesis
    using assms(1,3)
    by (auto elim!: tracked_seq tracked_wrap spokes sched wait tracked_hubResources [OF _ assms(2)]
        tracked_createQueues [OF _ assms(2)] tracked_egressPolicy [OF _ assms(2)])
qed

lemma tracked_Setup:
  assumes "Setup d s = (err, s')" and "deps_ok d" and "tracked cs i s"
  shows "tracked cs i s'"
proof (cases "validate d s")
  case (Some e)
  with assms show ?thesis by (simp add: Setup_def)
next
  case None
  define hub spokes where "hub = k_hub s" and "spokes = k_spokes s"
  have kueue: "tracked cs i b" if "for_each (\<lambda>c. wrap (m c) (ensureKueue d c)) as a = (r, b)" "tracked cs i a"
    for r a b as m
    using that by (auto elim!: tracked_for_each tracked_wrap tracked_ensureKueue [OF _ assms(2)])
  have wait: "tracked cs i b" if "for_each (\<lambda>c. wrap (m c) (waitForKueue d c)) as a = (r, b)" "tracked cs i a"
    for r a b as m
    using that by (auto elim!: tracked_for_each tracked_wrap tracked_waitForKueue [OF _ assms(2)])
  have rest: "tracked cs i b"
    if "seq (setup_namespaces d (hub # spokes)) (seq (setup_spokes d spokes)
    (seq (createHubMultiKueueResources d)
    (seq (wrap m (createQueues d hub True))
    (seq (createKueueEgressPolicy d)
    (seq (setup_schedulers d hub (hub # spokes)) (waitForKueueResources d)))))) a = (r, b)"
      and "tracked cs i a" for r a b m
  proof -
    obtain e1 a1 where n: "setup_namespaces d (hub # spokes) a = (e1, a1)" by (metis surj_pair)
    note t1 = tracked_setup_namespaces [OF n assms(2) that(2)]
    show ?thesis
    proof (cases e1)
      case (Some e)
      with t1 n that(1) show ?thesis by (simp add: seq_def)
    next
      case None
      then have "tracked (rev (hub # spokes) @ cs) i a1" using t1 by simp
      with None n that(1) have "tracked (rev (hub # spokes) @ cs) i b"
        by (auto simp: seq_def [of "setup_namespaces d (hub # spokes)"]
            elim!: tracked_after_namespaces [OF _ assms(2)])
      then show ?thesis by (rule tracked_weaken) auto
    qed
  qed
  show ?thesis
    using assms(1,3) None unfolding Setup_def setup_steps_def hub_def [symmetric] spokes_def [symmetric]
    by (auto elim!: tracked_seq kueue wait rest)
qed

section \<open>Execute keeps its objects tracked\<close>

lemma tracked_createPipelineRun:
  assumes "createPipelineRun d s = (res, s')" and "tracked cs i s"
  shows "tracked cs i s'"
proof -
  define name where "name = k_prefix s @ ''-run''"
  define run where "run = \<lparr>o_ref = run_ref (k_hub s) (k_namespace s) name, o_labels = run_labels (k_prefix s),
     o_uid = [], o_body = RunBody (Some ''kueue.x-k8s.io/multikueue'') None\<rparr>"
  obtain err where "register_create d (DeletePipelineRun name []) run (s\<lparr>k_runName := name\<rparr>) = (err, s')"
    using assms(1)
    by (auto simp: createPipelineRun_def register_create_def Let_def name_def [symmetric] run_def [symmetric]
        split: prod.splits sum.splits)
  moreover have "tracked cs i (s\<lparr>k_runName := name\<rparr>)"
    using assms(2) covers_identity [of "s\<lparr>k_runName := name\<rparr>" s]
    by (auto simp: tracked_def no_orphans_def covered_def [abs_def] ns_ready_def)
  ultimately show ?thesis by (rule tracked_register) (simp add: run_def)
qed

lemma tracked_Execute:
  assumes "Execute d s = (res, s')" and "deps_ok d" and "tracked cs i s"
  shows "tracked cs i s'"
proof -
  obtain r1 s1 where run: "createPipelineRun d s = (r1, s1)" by (metis surj_pair)
  have t1: "tracked cs i s1" using tracked_createPipelineRun [OF run assms(3)] .
  have "quiet_step s1 s'"
    using assms(1) run unfolding Execute_def
    by (auto split: result_splits elim!: q_waitForHubWorkload [OF _ assms(2)]
        q_waitForSpokeExecution [OF _ assms(2)] q_waitForCompletion [OF _ assms(2)])
  with t1 show ?thesis using tracked_quiet by blast
qed

end
