(* ===== verification/KueueCleanup.thy ===== *)
theory KueueCleanup
  imports KueueSafety
begin

text \<open>
  What \<open>Cleanup\<close> guarantees: it deletes nothing the run does not own, a cleanup that succeeds
  has settled its target, and a failed one is a barrier at which the next call resumes.
\<close>

section \<open>Guards\<close>

text \<open>The check before a delete: the run's labels, and the recorded UID once there is one.\<close>

definition guards :: "string \<Rightarrow> string \<Rightarrow> kobj \<Rightarrow> bool" where
  "guards pfx uid ob \<longleftrightarrow> owns pfx (o_labels ob) \<and> (uid = [] \<or> o_uid ob = uid)"

fun cleanup_uid :: "cleanup \<Rightarrow> string" where
  "cleanup_uid (DeleteKueue _ uid) = uid"
| "cleanup_uid (DeleteNamespace _ uid) = uid"
| "cleanup_uid (DeleteDynamic _ _ uid) = uid"
| "cleanup_uid (DeleteClusterRole _ _ uid) = uid"
| "cleanup_uid (DeleteClusterRoleBinding _ _ uid) = uid"
| "cleanup_uid (DeleteHubSecret _ _ uid) = uid"
| "cleanup_uid (DeleteEgressPolicy uid) = uid"
| "cleanup_uid (DeletePipelineRun _ uid) = uid"
| "cleanup_uid _ = []"

text \<open>
  \<open>kept P s0 s\<close>: \<open>s\<close> is reached from \<open>s0\<close> in the same environment, with the same stack, by requests whose deletes,
  if those of \<open>s0\<close> were all accepted by \<open>P\<close>, are accepted too.
\<close>

definition kept :: "(ref \<Rightarrow> kobj \<Rightarrow> bool) \<Rightarrow> 'w kstate \<Rightarrow> 'w kstate \<Rightarrow> bool" where
  "kept P s0 s \<longleftrightarrow> identity_of s = identity_of s0 \<and> k_cleanups s = k_cleanups s0
     \<and> (\<exists>evs. io_trace s = evs @ io_trace s0)
     \<and> (deletes_ok P (io_trace s0) \<longrightarrow> deletes_ok P (io_trace s))"

lemma kept_refl [simp]: "kept P s s"
  by (simp add: kept_def)

lemma kept_trans: "kept P s t \<Longrightarrow> kept P t u \<Longrightarrow> kept P s u"
  by (auto simp: kept_def)

lemma deletes_ok_quiet: "list_all quiet_event evs \<Longrightarrow> deletes_ok P (evs @ tr) = deletes_ok P tr"
  by (induction evs) (auto split: event.splits)

lemma kept_quiet: "quiet_step s t \<Longrightarrow> kept P s0 s \<Longrightarrow> kept P s0 t"
  by (auto simp: kept_def quiet_step_def deletes_ok_quiet)

lemma kept_delete:
  assumes "k_delete sv r s = (res, s')" and "kept P s0 s"
    and "last_read r (io_trace s) = Some ob" and "P r ob"
  shows "kept P s0 s'"
  using assms k_delete_frame [OF assms(1)] by (auto simp: kept_def)

lemma kept_prefix: "kept P s0 s \<Longrightarrow> k_prefix s = k_prefix s0"
  by (auto simp: kept_def identity_of_def)

section \<open>The closures\<close>

text \<open>What a guarded delete reaches: a state of the same environment, its target settled on success.\<close>

definition settles :: "ref \<Rightarrow> kbody event \<Rightarrow> bool" where
  "settles r e \<longleftrightarrow> e = Deleted r None \<or> e = Deleted r (Some NotFound) \<or> e = Got r (Inl NotFound)"

definition settled_since :: "ref \<Rightarrow> 'w kstate \<Rightarrow> 'w kstate \<Rightarrow> bool" where
  "settled_since r s0 s \<longleftrightarrow> (\<exists>evs. io_trace s = evs @ io_trace s0 \<and> list_ex (settles r) evs)"

lemma settled_later: "settled_since r s0 s \<Longrightarrow> kept P s t \<Longrightarrow> settled_since r s0 t"
  by (auto simp: settled_since_def kept_def)

lemma settled_earlier: "settled_since r s t \<Longrightarrow> kept P s0 s \<Longrightarrow> settled_since r s0 t"
  by (auto simp: settled_since_def kept_def)

lemma settled_quiet: "settled_since r s0 s \<Longrightarrow> quiet_step s t \<Longrightarrow> settled_since r s0 t"
  by (auto simp: settled_since_def quiet_step_def)

lemma settled_get:
  "k_get sv r s = (Inl NotFound, s') \<Longrightarrow> settled_since r s s'"
  by (auto simp: settled_since_def k_get_def settles_def split: prod.splits intro: exI [of _ "[_]"])

lemma settled_delete:
  "k_delete sv r s = (err, s') \<Longrightarrow> ignoreNotFound err = None \<Longrightarrow> settled_since r s s'"
  by (auto simp: settled_since_def k_delete_def settles_def ignoreNotFound_def split: prod.splits if_splits
      intro: exI [of _ "[_]"])

lemma kept_call_get: "k_get sv r s = (res, s') \<Longrightarrow> kept P s s'"
  by (rule kept_quiet [OF quiet_calls(1) [OF _ quiet_refl] kept_refl])

lemma guarded_delete_ok:
  assumes "guarded_delete d r uid refusal s = (res, s')"
    and "\<And>ob. guards (k_prefix s) uid ob \<Longrightarrow> P r ob"
  shows "kept P s s' \<and> (is_ok res \<longrightarrow> settled_since r s s')"
proof -
  obtain got s1 where g: "k_get (d_server d) r s = (got, s1)" by (metis surj_pair)
  have k1: "kept P s s1" using kept_call_get [OF g] .
  show ?thesis
  proof (cases got)
    case (Inl e)
    with assms(1) g k1 settled_get show ?thesis by (auto simp: guarded_delete_def split: if_splits)
  next
    case (Inr ob)
    then have lr: "last_read r (io_trace s1) = Some ob" using g last_read_get by blast
    obtain err s2 where de: "k_delete (d_server d) r s1 = (err, s2)" by (metis surj_pair)
    show ?thesis
    proof (cases "guards (k_prefix s) uid ob")
      case True
      then have "kept P s s2" using kept_delete [OF de k1 lr assms(2)] by simp
      moreover have "ignoreNotFound err = None \<Longrightarrow> settled_since r s s2"
        using settled_earlier [OF settled_delete [OF de] k1] .
      ultimately show ?thesis using assms(1) g Inr de True
        by (auto simp: guarded_delete_def guards_def split: option.splits)
    next
      case False
      with assms(1) g Inr k1 show ?thesis by (auto simp: guarded_delete_def guards_def)
    qed
  qed
qed

text \<open>Hence the same for the closures that are built on it.\<close>

definition cleanup_ok :: "(ref \<Rightarrow> kobj \<Rightarrow> bool) \<Rightarrow> ref \<Rightarrow> 'w kstate \<Rightarrow> kerror option \<times> 'w kstate \<Rightarrow> bool" where
  "cleanup_ok P r s res \<longleftrightarrow>
     kept P s (snd res) \<and> (fst res = None \<longrightarrow> settled_since r s (snd res))"

lemma delete_only_ok:
  assumes "\<And>ob. guards (k_prefix s) uid ob \<Longrightarrow> P r ob"
  shows "cleanup_ok P r s (delete_only d r uid refusal s)"
  using guarded_delete_ok [where P = P and s = s and r = r and uid = uid, OF _ assms]
  by (fastforce simp: delete_only_def cleanup_ok_def split: prod.splits sum.splits)

lemma delete_and_wait_ok:
  assumes "deps_ok d" and "\<And>ob. guards (k_prefix s) uid ob \<Longrightarrow> P r ob"
  shows "cleanup_ok P r s (delete_and_wait d t r uid refusal s)"
proof -
  obtain res s1 where g: "guarded_delete d r uid refusal s = (res, s1)" by (metis surj_pair)
  note ok = guarded_delete_ok [where P = P, OF g assms(2)]
  obtain err s2 where w: "waitForNotFound d t r s1 = (err, s2)" by (metis surj_pair)
  then have q: "quiet_step s1 s2" using q_waitForNotFound [OF _ assms(1)] by auto
  show ?thesis using ok g w kept_quiet [OF q] settled_quiet [OF _ q]
    by (cases res) (auto simp: delete_and_wait_def cleanup_ok_def)
qed

lemma cleanup_kueue_ok:
  assumes "deps_ok d" and "\<And>ob. guards (k_prefix s) uid ob \<Longrightarrow> P (kueue_ref c) ob"
  shows "cleanup_ok P (kueue_ref c) s (cleanup_kueue d c uid s)"
proof -
  obtain got s1 where g: "k_get (d_server d) (kueue_ref c) s = (got, s1)" by (metis surj_pair)
  have k1: "kept P s s1" using kept_call_get [OF g] .
  show ?thesis
  proof (cases got)
    case (Inl e)
    with g k1 settled_get show ?thesis by (auto simp: cleanup_kueue_def cleanup_ok_def)
  next
    case (Inr ob)
    then have lr: "last_read (kueue_ref c) (io_trace s1) = Some ob" using g last_read_get by blast
    obtain err s2 where de: "k_delete (d_server d) (kueue_ref c) s1 = (err, s2)" by (metis surj_pair)
    obtain e3 s3 where w: "waitForNotFound d 600 (kueue_ref c) s2 = (e3, s3)" by (metis surj_pair)
    have q: "quiet_step s2 s3" using q_waitForNotFound [OF w assms(1)] by simp
    show ?thesis
    proof (cases "guards (k_prefix s1) uid ob")
      case True
      then have k2: "kept P s s2" using kept_delete [OF de k1 lr assms(2)] kept_prefix [OF k1] by simp
      moreover have "ignoreNotFound err = None \<Longrightarrow> settled_since (kueue_ref c) s s2"
        using settled_earlier [OF settled_delete [OF de] k1] .
      ultimately show ?thesis using g Inr de w True kept_quiet [OF q k2] settled_quiet [OF _ q]
        by (auto simp: cleanup_kueue_def cleanup_ok_def guards_def split: option.splits)
    next
      case False
      with g Inr k1 show ?thesis by (auto simp: cleanup_kueue_def cleanup_ok_def guards_def)
    qed
  qed
qed

text \<open>The binding's closure may run several times; every run is guarded and the last one decides.\<close>

lemma binding_attempt_ok:
  assumes "\<And>ob. guards (k_prefix s) uid ob \<Longrightarrow> P (clusterRoleBinding_ref c n) ob"
  shows "cleanup_ok P (clusterRoleBinding_ref c n) s (clusterRoleBinding_attempt d c n uid s)"
proof -
  let ?r = "clusterRoleBinding_ref c n"
  obtain got s1 where g: "k_get (d_server d) ?r s = (got, s1)" by (metis surj_pair)
  have k1: "kept P s s1" using kept_call_get [OF g] .
  show ?thesis
  proof (cases got)
    case (Inl e)
    with g k1 settled_get show ?thesis by (auto simp: clusterRoleBinding_attempt_def cleanup_ok_def)
  next
    case (Inr ob)
    then have lr: "last_read ?r (io_trace s1) = Some ob" using g last_read_get by blast
    obtain up s2 where u: "k_update (d_server d) (ob\<lparr>o_body := drop_subjects (o_body ob)\<rparr>) s1 = (up, s2)"
      by (metis surj_pair)
    have k2: "kept P s s2" using kept_quiet [OF quiet_calls(2) [OF u quiet_refl] k1] .
    have lr2: "last_read ?r (io_trace s2) = Some ob" using last_read_update [OF u] lr by simp
    obtain err s3 where de: "k_delete (d_server d) ?r s2 = (err, s3)" by (metis surj_pair)
    show ?thesis
    proof (cases "guards (k_prefix s) uid ob")
      case True
      then have "kept P s s3" using kept_delete [OF de k2 lr2 assms] by simp
      moreover have "ignoreNotFound err = None \<Longrightarrow> settled_since ?r s s3"
        using settled_earlier [OF settled_delete [OF de] k2] .
      ultimately show ?thesis using g Inr u de k2 True
        by (cases up) (auto simp: clusterRoleBinding_attempt_def cleanup_ok_def guards_def)
    next
      case False
      with g Inr k1 show ?thesis by (auto simp: clusterRoleBinding_attempt_def cleanup_ok_def guards_def)
    qed
  qed
qed

lemma cleanup_binding_ok:
  assumes "deps_ok d" and "\<And>ob. guards (k_prefix s) uid ob \<Longrightarrow> P (clusterRoleBinding_ref c n) ob"
  shows "cleanup_ok P (clusterRoleBinding_ref c n) s (cleanup_clusterRoleBinding d c n uid s)"
proof -
  let ?f = "clusterRoleBinding_attempt d c n uid" and ?r = "clusterRoleBinding_ref c n"
  have rc: "retry_contract k_conflict (d_retry d)" using assms(1) by (simp add: deps_ok_def)
  have ok: "cleanup_ok P ?r a (?f a)" if "kept P s a" for a
    using binding_attempt_ok [where P = P and s = a] assms(2) kept_prefix [OF that] by simp
  have step: "kept P s (snd (?f a))" if "kept P s a" for a
    using ok [OF that] kept_trans [OF that] by (simp add: cleanup_ok_def)
  have all: "kept P s (snd (d_retry d ?f s))"
    by (rule retry_invariant [where I = "kept P s", OF rc]) (auto intro: step)
  moreover have "settled_since ?r s s'" if fin: "d_retry d ?f s = (None, s')" for s'
  proof -
    obtain a where "kept P s a" and "?f a = (None, s')"
      using retry_None [where I = "kept P s", OF rc fin step kept_refl] by blast
    with ok [of a] settled_earlier [of ?r a s'] show ?thesis by (auto simp: cleanup_ok_def)
  qed
  ultimately show ?thesis
    by (metis cleanup_clusterRoleBinding_def cleanup_ok_def prod.collapse)
qed

section \<open>Every closure\<close>

text \<open>The object a closure deletes; the two restoring closures delete nothing.\<close>

fun target :: "'w kstate \<Rightarrow> cleanup \<Rightarrow> ref option" where
  "target s (DeleteKueue c _) = Some (kueue_ref c)"
| "target s (DeleteNamespace c _) = Some (namespace_ref c (k_namespace s))"
| "target s (DeleteDynamic c r _) = Some r"
| "target s (DeleteClusterRole c name _) = Some (clusterRole_ref c name)"
| "target s (DeleteClusterRoleBinding c name _) = Some (clusterRoleBinding_ref c name)"
| "target s (DeleteHubSecret spoke name _) = Some (secret_ref (k_hub s) name)"
| "target s (DeleteEgressPolicy _) = Some (egress_ref (k_hub s) (k_prefix s))"
| "target s (DeletePipelineRun name _) = Some (run_ref (k_hub s) (k_namespace s) name)"
| "target s (RestoreKueue _ _) = None"
| "target s (RestoreScheduler _ _ _) = None"

lemma cleanup_pipelineRun_ok:
  assumes "deps_ok d" and "\<And>r ob. guards (k_prefix s) uid ob \<Longrightarrow> P r ob"
  shows "cleanup_ok P (run_ref (k_hub s) (k_namespace s) name) s (cleanup_pipelineRun d name uid s)"
proof -
  let ?r = "run_ref (k_hub s) (k_namespace s) name"
  obtain e1 s1 where g: "delete_only d ?r uid (KMsg (''refusing to delete replacement PipelineRun '' @ name)) s = (e1, s1)"
    by (metis surj_pair)
  have ok: "kept P s s1" "e1 = None \<Longrightarrow> settled_since ?r s s1"
    using delete_only_ok [where P = P and s = s and r = ?r and uid = uid, OF assms(2)] g
    by (metis cleanup_ok_def fst_conv snd_conv)+
  obtain e2 s2 where w: "waitForExecutionObjectsGone d s1 = (e2, s2)" by (metis surj_pair)
  have q: "quiet_step s1 s2" using q_waitForExecutionObjectsGone [OF w assms(1)] by simp
  show ?thesis using g ok w kept_quiet [OF q ok(1)] settled_quiet [OF _ q]
    by (cases e1) (auto simp: cleanup_pipelineRun_def cleanup_ok_def seq_def)
qed

lemma run_cleanup_ok:
  assumes "deps_ok d" and "\<And>r ob. guards (k_prefix s) (cleanup_uid c) ob \<Longrightarrow> P r ob"
  shows "kept P s (snd (run_cleanup d c s))"
    and "fst (run_cleanup d c s) = None \<Longrightarrow> target s c = Some r \<Longrightarrow> settled_since r s (snd (run_cleanup d c s))"
proof -
  have "cleanup_ok P r s (run_cleanup d c s)" if "target s c = Some r" for r
    using that assms
    by (cases c) (auto simp: cleanup_namespace_def cleanup_dynamic_def cleanup_clusterRole_def
        cleanup_hubSecret_def cleanup_egressPolicy_def
        intro!: cleanup_kueue_ok delete_and_wait_ok delete_only_ok cleanup_binding_ok cleanup_pipelineRun_ok)
  moreover have "kept P s (snd (run_cleanup d c s))" if "target s c = None"
  proof -
    have "quiet_step s (snd (cleanup_restoreKueue d c' paths s))" for c' paths
      using q_cleanup_restoreKueue [OF prod.collapse [symmetric] assms(1) quiet_refl] .
    moreover have "quiet_step s (snd (cleanup_scheduler d c' orig role s))" for c' orig role
      using q_cleanup_scheduler [OF prod.collapse [symmetric] assms(1) quiet_refl] .
    ultimately show ?thesis using that by (cases c) (auto intro: kept_quiet [OF _ kept_refl])
  qed
  ultimately show "kept P s (snd (run_cleanup d c s))"
    and "fst (run_cleanup d c s) = None \<Longrightarrow> target s c = Some r \<Longrightarrow> settled_since r s (snd (run_cleanup d c s))"
    by (cases "target s c"; auto simp: cleanup_ok_def)+
qed

section \<open>The whole stack\<close>

lemma target_identity: "identity_of s = identity_of t \<Longrightarrow> target s c = target t c"
  by (cases c) (auto simp: identity_of_def)

text \<open>The loop's state before it puts a failed remainder back on the stack.\<close>

lemma cleanup_loop_kept:
  assumes "cleanup_loop d cs s = (err, s')" and "deps_ok d"
    and "\<And>c r ob. c \<in> set cs \<Longrightarrow> guards (k_prefix s) (cleanup_uid c) ob \<Longrightarrow> P r ob"
  obtains t stack where "kept P s t" and "s' = t\<lparr>k_cleanups := stack\<rparr>"
    and "err = None \<Longrightarrow> stack = k_cleanups s"
  using assms(1,3)
proof (induction cs arbitrary: s thesis)
  case Nil
  show ?case by (rule Nil.prems(1) [of s "k_cleanups s"]) (use Nil.prems(2) in auto)
next
  case (Cons c cs)
  obtain e1 s1 where r: "run_cleanup d c s = (e1, s1)" by (metis surj_pair)
  have k1: "kept P s s1"
    using run_cleanup_ok(1) [where P = P and s = s and c = c, OF assms(2)] Cons.prems(3) r by auto
  show ?case
  proof (cases e1)
    case None
    with Cons.prems(2) r have loop: "cleanup_loop d cs s1 = (err, s')" by simp
    have "P r ob" if "c' \<in> set cs" and "guards (k_prefix s1) (cleanup_uid c') ob" for c' r ob
      by (rule Cons.prems(3) [of c']) (use that kept_prefix [OF k1] in simp_all)
    then obtain t stack where t: "kept P s1 t"
      "s' = t\<lparr>k_cleanups := stack\<rparr>" "err = None \<Longrightarrow> stack = k_cleanups s1"
      using Cons.IH [where s = s1, OF _ loop] by metis
    show ?thesis
      by (rule Cons.prems(1) [OF kept_trans [OF k1 t(1)] t(2)]) (use t(3) k1 in \<open>auto simp: kept_def\<close>)
  next
    case (Some e)
    show ?thesis by (rule Cons.prems(1) [OF k1]) (use Cons.prems(2) r Some in auto)
  qed
qed

lemma settled_stack [simp]: "settled_since r s (t\<lparr>k_cleanups := cs\<rparr>) = settled_since r s t"
  "settled_since r (s\<lparr>k_cleanups := cs\<rparr>) t = settled_since r s t"
  by (simp_all add: settled_since_def)

text \<open>
  What the loop does, apart from how it is written: the closures of a list run one after the other,
  each from the state the one before left, and all return nil.
\<close>

fun all_clean :: "'w deps \<Rightarrow> cleanup list \<Rightarrow> 'w kstate \<Rightarrow> 'w kstate \<Rightarrow> bool" where
  "all_clean d [] s t \<longleftrightarrow> s = t"
| "all_clean d (c # cs) s t \<longleftrightarrow>
     (case run_cleanup d c s of (None, u) \<Rightarrow> all_clean d cs u t | (Some e, u) \<Rightarrow> False)"

text \<open>
  The loop splits its list at the first closure that fails: everything before it returned nil and has
  settled its target, and it stays on the stack with everything below, of which nothing was run.
\<close>

lemma cleanup_loop_splits:
  assumes "cleanup_loop d cs s = (err, s')" and "deps_ok d"
  obtains completed rest t where "cs = completed @ rest"
    and "\<And>c r. c \<in> set completed \<Longrightarrow> target s c = Some r \<Longrightarrow> settled_since r s s'"
    and "all_clean d completed s t" and "err = None \<Longrightarrow> rest = [] \<and> s' = t"
    and "\<And>e. err = Some e \<Longrightarrow> rest \<noteq> [] \<and> (\<exists>u. run_cleanup d (hd rest) t = (Some e, u) \<and> s' = u\<lparr>k_cleanups := rev rest\<rparr>)"
  using assms(1)
proof (induction cs arbitrary: s thesis)
  case Nil
  show ?case by (rule Nil.prems(1) [of "[]" "[]" s]) (use Nil.prems(2) in auto)
next
  case (Cons c cs)
  let ?T = "\<lambda>r ob. True"
  obtain e1 s1 where r: "run_cleanup d c s = (e1, s1)" by (metis surj_pair)
  note ok = run_cleanup_ok [where P = ?T and s = s and c = c, OF assms(2)]
  have k1: "kept ?T s s1" using ok(1) r by simp
  show ?case
  proof (cases e1)
    case None
    with Cons.prems(2) r have loop: "cleanup_loop d cs s1 = (err, s')" by simp
    obtain t stack where k2: "kept ?T s1 t" and s': "s' = t\<lparr>k_cleanups := stack\<rparr>"
      by (rule cleanup_loop_kept [where P = ?T, OF loop assms(2)]) simp_all
    have c: "settled_since q s s'" if "target s c = Some q" for q
      using ok(2) [OF _ _ that] r None settled_later [OF _ k2] by (simp add: s')
    from k1 have id: "identity_of s = identity_of s1" by (simp add: kept_def)
    show ?thesis
    proof (rule Cons.IH [OF _ loop])
      fix completed rest t
      assume "cs = completed @ rest" "all_clean d completed s1 t"
        and "\<And>c r. c \<in> set completed \<Longrightarrow> target s1 c = Some r \<Longrightarrow> settled_since r s1 s'"
        and "err = None \<Longrightarrow> rest = [] \<and> s' = t"
        and "\<And>e. err = Some e \<Longrightarrow> rest \<noteq> [] \<and> (\<exists>u. run_cleanup d (hd rest) t = (Some e, u) \<and> s' = u\<lparr>k_cleanups := rev rest\<rparr>)"
      then show ?thesis
        by (intro Cons.prems(1) [of "c # completed" rest t])
          (use c r None target_identity [OF id] settled_earlier [OF _ k1] in auto)
    qed
  next
    case (Some e)
    show ?thesis
      by (rule Cons.prems(1) [of "[]" "c # cs" s]) (use Cons.prems(2) r Some in auto)
  qed
qed

end
