(* ===== verification/KueueProperties.thy ===== *)
theory KueueProperties
  imports KueueCleanup
begin

text \<open>
  The properties of the Kueue test environment, and a small store server on which they are
  applied to concrete runs.
\<close>

section \<open>A store server for concrete runs\<close>

text \<open>Nested fields of a JSON object, as the helpers of \<open>unstructured\<close> document them.\<close>

fun field_get :: "json \<Rightarrow> string list \<Rightarrow> json option" where
  "field_get j [] = Some j"
| "field_get (JObj kvs) (k # ks) =
     (case map_of kvs k of None \<Rightarrow> None | Some j \<Rightarrow> field_get j ks)"
| "field_get _ (k # ks) = None"

fun field_set :: "json \<Rightarrow> json \<Rightarrow> string list \<Rightarrow> json option" where
  "field_set j v [] = Some v"
| "field_set (JObj kvs) v (k # ks) =
     (case field_set (case map_of kvs k of None \<Rightarrow> JObj [] | Some j \<Rightarrow> j) v ks of
        None \<Rightarrow> None | Some j' \<Rightarrow> Some (JObj ((k, j') # kvs)))"
| "field_set _ v (k # ks) = None"

definition store_nestedSlice :: "json \<Rightarrow> string list \<Rightarrow> string + json list option" where
  "store_nestedSlice j p = (case field_get j p of
     None \<Rightarrow> Inr None | Some (JArr xs) \<Rightarrow> Inr (Some xs) | Some _ \<Rightarrow> Inl ''accessor error'')"

definition store_setNestedSlice :: "json \<Rightarrow> json list \<Rightarrow> string list \<Rightarrow> string + json" where
  "store_setNestedSlice j items p =
     (case field_set j (JArr items) p of None \<Rightarrow> Inl ''not a map'' | Some j' \<Rightarrow> Inr j')"

text \<open>
  The world is the list of stored objects; a create stores the object under its name as UID.
  No controller runs beside it, so \<open>Setup\<close> gives up waiting for Kueue on the first cluster.
\<close>

definition store_server :: "(kobj list, kbody) server" where
  "store_server = \<lparr>
     sv_get = (\<lambda>r w. (case List.find (\<lambda>ob. o_ref ob = r) w of None \<Rightarrow> Inl NotFound | Some ob \<Rightarrow> Inr ob, w)),
     sv_create = (\<lambda>ob w. (Inr (ob\<lparr>o_uid := ref_name (o_ref ob)\<rparr>), ob\<lparr>o_uid := ref_name (o_ref ob)\<rparr> # w)),
     sv_update = (\<lambda>ob w. (Inr ob, ob # filter (\<lambda>x. o_ref x \<noteq> o_ref ob) w)),
     sv_delete = (\<lambda>r w. (None, filter (\<lambda>x. o_ref x \<noteq> r) w)),
     sv_list = (\<lambda>c k ns sel w. (Inr (filter (\<lambda>x. ref_cluster (o_ref x) = c \<and> ref_kind (o_ref x) = k
        \<and> ref_ns (o_ref x) = ns) w), w))\<rparr>"

definition store_deps :: "kobj list deps" where
  "store_deps = \<lparr>d_server = store_server, d_poll = rounds_poller 0, d_retry = retry_rounds k_conflict 1,
     d_nestedSlice = store_nestedSlice, d_setNestedSlice = store_setNestedSlice,
     d_isDisabled = (\<lambda>sc. sc_disabled sc = Some True), d_isReady = (\<lambda>cs. cs = []), d_isDNSLabel = (\<lambda>_. []),
     d_writeKubeconfig = (\<lambda>h t ca. Inr h), d_parseKubeconfig = (\<lambda>_. None),
     d_accessReview = (\<lambda>_ _ _ _ _ w. (Inr False, w)),
     d_parseURL = (\<lambda>u. Some (u, [])),
     d_parseIP = (\<lambda>h. Some (h, True)), d_lookupIP = (\<lambda>_ w. (Inr [], w)), d_schedulerName = ''scheduler'',
     d_ownerUIDs = (\<lambda>_. []), d_podLogs = (\<lambda>_ _ w. (Inr [], w))\<rparr>"

lemma store_deps_ok: "deps_ok store_deps"
  by (simp add: deps_ok_def store_deps_def rounds_poller_contract retry_rounds_contract)

definition demo_hub :: cluster where
  "demo_hub = \<lparr>cl_name = ''hub'', cl_clients = Some (Some ''h'')\<rparr>"

definition demo_spoke :: cluster where
  "demo_spoke = \<lparr>cl_name = ''sp'', cl_clients = Some (Some ''s'')\<rparr>"

definition demo_env :: "kobj list kstate" where
  "demo_env = NewEnvironment demo_hub [demo_spoke] ''t'' []"

definition demo_set_up :: "kobj list kstate" where
  "demo_set_up = snd (Setup store_deps demo_env)"

definition demo_cleaned :: "kobj list kstate" where
  "demo_cleaned = snd (Cleanup store_deps demo_set_up)"

lemma demo_runs:
  "Setup store_deps demo_env = (fst (Setup store_deps demo_env), demo_set_up)"
  "Cleanup store_deps demo_set_up = (None, demo_cleaned)"
proof -
  have "fst (Cleanup store_deps demo_set_up) = None" by code_simp
  then show "Cleanup store_deps demo_set_up = (None, demo_cleaned)"
    unfolding demo_cleaned_def by (metis prod.collapse)
qed (simp add: demo_set_up_def)

section \<open>Nothing is leaked\<close>

lemma covers_target:
  assumes "covers s c r"
  obtains q where "target s c = Some q" and "q = r \<or> q = Ref (ref_cluster r) ''Namespace'' [] (ref_ns r)"
  using assms by (cases c) (auto simp: namespace_ref_def)

lemma tracked_start:
  "identity_of s = ident \<Longrightarrow> io_trace s = base \<Longrightarrow> tracked [] (ident, base) s"
  by (simp add: tracked_def no_orphans_def ns_ready_def)

lemma Cleanup_settles:
  assumes "Cleanup d s = (None, s')" and "deps_ok d" and "c \<in> set (k_cleanups s)" and "target s c = Some r"
  shows "settled_since r s s'"
proof -
  let ?s0 = "s\<lparr>k_cleanups := []\<rparr>"
  have loop: "cleanup_loop d (rev (k_cleanups s)) ?s0 = (None, s')"
    using assms(1) by (simp add: Cleanup_def)
  obtain completed where
    "rev (k_cleanups s) = completed" "\<And>c r. c \<in> set completed \<Longrightarrow> target ?s0 c = Some r \<Longrightarrow> settled_since r ?s0 s'"
    by (rule cleanup_loop_splits [OF loop assms(2)]) auto
  moreover have "target ?s0 c = Some r" using assms(4) target_identity [of ?s0 s] by simp
  ultimately show ?thesis using assms(3) by (metis set_rev settled_stack(2))
qed

text \<open>
  C1: a test run leaks nothing. After Setup, with or without a following Execute, and whatever
  failed in either, a Cleanup that returns nil has deleted, or found gone, every object the run
  had asked any cluster to create, or the namespace that object lives in.
\<close>

theorem no_leak:
  assumes "deps_ok d" and "Setup d (NewEnvironment hub spokes pfx w) = (err, s1)"
    and "s2 = s1 \<or> Execute d s1 = (res, s2)"
    and "Cleanup d s2 = (None, s3)" and "r \<in> set (created_refs (io_trace s2))"
  shows "settled_since r s2 s3 \<or> settled_since (Ref (ref_cluster r) ''Namespace'' [] (ref_ns r)) s2 s3"
proof -
  let ?i = "(identity_of (NewEnvironment hub spokes pfx w), [])"
  have "tracked [] ?i (NewEnvironment hub spokes pfx w)"
    by (rule tracked_start) (simp_all add: NewEnvironment_def)
  from tracked_Setup [OF assms(2,1) this] have "tracked [] ?i s1" .
  with assms(3) tracked_Execute [OF _ assms(1)] have "tracked [] ?i s2" by blast
  with assms(5) obtain c where c: "c \<in> set (k_cleanups s2)" and "covers s2 c r"
    by (auto simp: tracked_def no_orphans_def covered_def list_all_iff)
  from this(2) obtain q where "target s2 c = Some q"
    and q: "q = r \<or> q = Ref (ref_cluster r) ''Namespace'' [] (ref_ns r)"
    by (rule covers_target)
  then have "settled_since q s2 s3" using Cleanup_settles [OF assms(4,1) c] by blast
  with q show ?thesis by blast
qed

theorem no_leak_witness:
  "kueue_ref demo_hub \<in> set (created_refs (io_trace demo_set_up))
   \<and> (settled_since (kueue_ref demo_hub) demo_set_up demo_cleaned
      \<or> settled_since (Ref ''h'' ''Namespace'' [] []) demo_set_up demo_cleaned)"
proof -
  have m: "kueue_ref demo_hub \<in> set (created_refs (io_trace demo_set_up))" by code_simp
  have r: "ref_cluster (kueue_ref demo_hub) = ''h''" "ref_ns (kueue_ref demo_hub) = []"
    by (simp_all add: kueue_ref_def demo_hub_def endpoint_def)
  from no_leak [OF store_deps_ok demo_runs(1) [unfolded demo_env_def] disjI1 [OF refl] demo_runs(2) m] m
  show ?thesis by (simp add: r)
qed

text \<open>
  C3: while Setup or Execute runs, and whatever they return, nothing is deleted and every object
  they ask for is covered by a cleanup on the stack: registration comes before creation.
\<close>

theorem setup_registers:
  assumes "deps_ok d" and "Setup d s = (err, s1)" and "s2 = s1 \<or> Execute d s1 = (res, s2)"
  shows "\<exists>evs. io_trace s2 = evs @ io_trace s
     \<and> (\<forall>r \<in> set (created_refs evs). covered s2 r) \<and> list_all (\<lambda>e. \<not> is_delete e) evs"
proof -
  let ?i = "(identity_of s, io_trace s)"
  have "tracked [] ?i s" by (rule tracked_start) simp_all
  from tracked_Setup [OF assms(2,1) this] have "tracked [] ?i s1" .
  with assms(3) tracked_Execute [OF _ assms(1)] have "tracked [] ?i s2" by blast
  then show ?thesis by (auto simp: tracked_def no_orphans_def list_all_iff)
qed

theorem setup_registers_witness:
  "\<exists>evs. io_trace demo_set_up = evs @ io_trace demo_env
     \<and> (\<forall>r \<in> set (created_refs evs). covered demo_set_up r) \<and> list_all (\<lambda>e. \<not> is_delete e) evs"
  using setup_registers [OF store_deps_ok demo_runs(1) disjI1 [OF refl]] .

section \<open>Only the run's own objects are deleted\<close>

text \<open>What a test does with an environment: any sequence of calls, whatever they return.\<close>

inductive lifecycle :: "'w deps \<Rightarrow> 'w kstate \<Rightarrow> 'w kstate \<Rightarrow> bool" for d s0 where
  fresh: "lifecycle d s0 s0"
| does_setup: "lifecycle d s0 s \<Longrightarrow> Setup d s = (err, t) \<Longrightarrow> lifecycle d s0 t"
| does_execute: "lifecycle d s0 s \<Longrightarrow> Execute d s = (res, t) \<Longrightarrow> lifecycle d s0 t"
| does_cleanup: "lifecycle d s0 s \<Longrightarrow> Cleanup d s = (err, t) \<Longrightarrow> lifecycle d s0 t"

lemma deletes_ok_no_delete:
  "list_all (\<lambda>e. \<not> is_delete e) evs \<Longrightarrow> deletes_ok P (evs @ tr) = deletes_ok P tr"
  by (induction evs) (auto split: event.splits)

lemma tracked_deletes:
  assumes "tracked [] (identity_of s, io_trace s) t" and "deletes_ok P (io_trace s)"
  shows "identity_of t = identity_of s \<and> deletes_ok P (io_trace t)"
  using assms by (auto simp: tracked_def no_orphans_def deletes_ok_no_delete)

lemma lifecycle_owned:
  assumes "lifecycle d s0 s" and "deps_ok d" and "deletes_ok (\<lambda>r ob. owns (k_prefix s0) (o_labels ob)) (io_trace s0)"
  shows "identity_of s = identity_of s0 \<and> deletes_ok (\<lambda>r ob. owns (k_prefix s0) (o_labels ob)) (io_trace s)"
  using assms(1)
proof induction
  case fresh
  with assms(3) show ?case by simp
next
  case (does_setup s err t)
  have "tracked [] (identity_of s, io_trace s) s" by (rule tracked_start) simp_all
  from tracked_deletes [OF tracked_Setup [OF does_setup.hyps(2) assms(2) this] conjunct2 [OF does_setup.IH]] does_setup.IH
  show ?case by simp
next
  case (does_execute s res t)
  have "tracked [] (identity_of s, io_trace s) s" by (rule tracked_start) simp_all
  from tracked_deletes [OF tracked_Execute [OF does_execute.hyps(2) assms(2) this] conjunct2 [OF does_execute.IH]] does_execute.IH
  show ?case by simp
next
  case (does_cleanup s err t)
  let ?P = "\<lambda>r ob. owns (k_prefix s0) (o_labels (ob :: kobj))"
  have p: "k_prefix s = k_prefix s0" using does_cleanup.IH by (simp add: identity_of_def)
  have "cleanup_loop d (rev (k_cleanups s)) (s\<lparr>k_cleanups := []\<rparr>) = (err, t)"
    using does_cleanup.hyps(2) by (simp add: Cleanup_def)
  then obtain u stack where "kept ?P (s\<lparr>k_cleanups := []\<rparr>) u" and "t = u\<lparr>k_cleanups := stack\<rparr>"
    by (rule cleanup_loop_kept [where P = ?P, OF _ assms(2)]) (simp_all add: guards_def p)
  with does_cleanup.IH show ?case by (simp add: kept_def)
qed

text \<open>
  C2: whatever calls of Setup, Execute and Cleanup a test makes and whatever the servers answer,
  each delete request follows a read of that object whose latest answer carried this run's own
  labels: objects of other tools and of other runs are never deleted.
\<close>

theorem deletes_only_owned:
  assumes "deps_ok d" and "lifecycle d (NewEnvironment hub spokes pfx w) s"
    and "io_trace s = later @ Deleted r res # earlier"
  shows "\<exists>ob. last_read r earlier = Some ob
     \<and> label_of (o_labels ob) ''app.kubernetes.io/managed-by'' = ''release-tests-ginkgo''
     \<and> label_of (o_labels ob) ''app.kubernetes.io/instance'' = pfx"
proof -
  have "deletes_ok (\<lambda>r ob. owns pfx (o_labels ob)) (io_trace s)"
    using lifecycle_owned [OF assms(2,1)] by (simp add: NewEnvironment_def)
  with assms(3) show ?thesis by (metis kueue_labels.guarded_not_foreign)
qed

lemma demo_lifecycle: "lifecycle store_deps demo_env demo_cleaned"
  by (rule lifecycle.does_cleanup [OF lifecycle.does_setup [OF lifecycle.fresh demo_runs(1)] demo_runs(2)])

theorem deletes_only_owned_witness:
  "\<exists>later earlier. io_trace demo_cleaned = later @ Deleted (kueue_ref demo_hub) None # earlier
     \<and> (\<exists>ob. last_read (kueue_ref demo_hub) earlier = Some ob
         \<and> label_of (o_labels ob) ''app.kubernetes.io/managed-by'' = ''release-tests-ginkgo''
         \<and> label_of (o_labels ob) ''app.kubernetes.io/instance'' = ''t'')"
proof -
  have "list_ex (deleted (kueue_ref demo_hub)) (io_trace demo_cleaned)" by code_simp
  then obtain later earlier where sp: "io_trace demo_cleaned = later @ Deleted (kueue_ref demo_hub) None # earlier"
    by (rule deleted_split)
  from deletes_only_owned [OF store_deps_ok demo_lifecycle [unfolded demo_env_def] sp] sp
  show ?thesis by blast
qed

text \<open>
  a closure that knows the UID of what it created deletes only an object read with that UID
  and the run's labels, so a replacement under the same name survives.
\<close>

theorem cleanup_respects_uid:
  assumes "deps_ok d" and "io_trace s = []"
    and "io_trace (snd (run_cleanup d c s)) = later @ Deleted r res # earlier"
  shows "\<exists>ob. last_read r earlier = Some ob \<and> owns (k_prefix s) (o_labels ob)
     \<and> (cleanup_uid c = [] \<or> o_uid ob = cleanup_uid c)"
proof -
  let ?P = "\<lambda>r ob. guards (k_prefix s) (cleanup_uid c) ob"
  have "kept ?P s (snd (run_cleanup d c s))" by (rule run_cleanup_ok(1) [OF assms(1)])
  with assms(2,3) have "deletes_ok ?P (later @ Deleted r res # earlier)" by (simp add: kept_def)
  then show ?thesis by (rule deletes_okD) (auto simp: guards_def)
qed

definition demo_owned :: "kobj list kstate" where
  "demo_owned = demo_env\<lparr>io_world := [\<lparr>o_ref = kueue_ref demo_hub, o_labels = ownedLabels ''t'',
     o_uid = ''u1'', o_body = Dyn JNull\<rparr>]\<rparr>"

theorem cleanup_respects_uid_witness:
  "\<exists>later earlier. io_trace (snd (run_cleanup store_deps (DeleteKueue demo_hub ''u1'') demo_owned))
       = later @ Deleted (kueue_ref demo_hub) None # earlier
     \<and> (\<exists>ob. last_read (kueue_ref demo_hub) earlier = Some ob \<and> owns ''t'' (o_labels ob) \<and> o_uid ob = ''u1'')"
proof -
  let ?tr = "io_trace (snd (run_cleanup store_deps (DeleteKueue demo_hub ''u1'') demo_owned))"
  have "list_ex (deleted (kueue_ref demo_hub)) ?tr" by code_simp
  then obtain later earlier where sp: "?tr = later @ Deleted (kueue_ref demo_hub) None # earlier"
    by (rule deleted_split)
  have "io_trace demo_owned = []" and "k_prefix demo_owned = ''t''"
    by (simp_all add: demo_owned_def demo_env_def NewEnvironment_def)
  with cleanup_respects_uid [OF store_deps_ok _ sp] sp show ?thesis by auto
qed

section \<open>A failed cleanup is a barrier\<close>

text \<open>
  C27: cleanups run in reverse order of registration and stop at the first that fails. Those above it
  each returned nil, one after the other, and settled their targets. The state at the end is the one
  the failing cleanup left, with the failing one and everything below it put back on the stack in the
  old order: nothing below it was run. A Cleanup that returns nil ran every cleanup and leaves none.
\<close>

theorem cleanup_barrier:
  assumes "deps_ok d" and "Cleanup d s = (err, s')"
  shows "\<exists>completed t. k_cleanups s = k_cleanups s' @ rev completed
     \<and> all_clean d completed (s\<lparr>k_cleanups := []\<rparr>) t
     \<and> (\<forall>c \<in> set completed. \<forall>r. target s c = Some r \<longrightarrow> settled_since r s s')
     \<and> (case err of
          None \<Rightarrow> k_cleanups s' = [] \<and> s' = t
        | Some e \<Rightarrow> k_cleanups s' \<noteq> []
            \<and> (\<exists>u. run_cleanup d (last (k_cleanups s')) t = (Some e, u) \<and> s' = u\<lparr>k_cleanups := k_cleanups s'\<rparr>))"
proof -
  let ?s0 = "s\<lparr>k_cleanups := []\<rparr>"
  have tgt: "target ?s0 c = target s c" for c by (rule target_identity) simp
  have loop: "cleanup_loop d (rev (k_cleanups s)) ?s0 = (err, s')" using assms(2) by (simp add: Cleanup_def)
  obtain u stack where u: "s' = u\<lparr>k_cleanups := stack\<rparr>" "err = None \<Longrightarrow> stack = []"
    by (rule cleanup_loop_kept [where P = "\<lambda>r ob. True", OF loop assms(1)]) simp_all
  show ?thesis
  proof (rule cleanup_loop_splits [OF loop assms(1)])
    fix completed rest t
    assume sp: "rev (k_cleanups s) = completed @ rest" "all_clean d completed ?s0 t"
      "\<And>c r. c \<in> set completed \<Longrightarrow> target ?s0 c = Some r \<Longrightarrow> settled_since r ?s0 s'"
      "err = None \<Longrightarrow> rest = [] \<and> s' = t"
      "\<And>e. err = Some e \<Longrightarrow> rest \<noteq> []
         \<and> (\<exists>u. run_cleanup d (hd rest) t = (Some e, u) \<and> s' = u\<lparr>k_cleanups := rev rest\<rparr>)"
    have "k_cleanups s = rev rest @ rev completed" using sp(1) by (metis rev_append rev_swap)
    moreover have stack: "k_cleanups s' = rev rest"
    proof (cases err)
      case None
      with sp(4) u have "rest = []" and "s' = u\<lparr>k_cleanups := []\<rparr>" by simp_all
      then show ?thesis by simp
    next
      case (Some e)
      with sp(5) show ?thesis by force
    qed
    ultimately show ?thesis
      using sp(2-5) by (intro exI [of _ completed] exI [of _ t]) (auto simp: tgt last_rev split: option.split)
  qed
qed

theorem cleanup_barrier_witness:
  "\<exists>completed t. k_cleanups demo_set_up = k_cleanups demo_cleaned @ rev completed
     \<and> all_clean store_deps completed (demo_set_up\<lparr>k_cleanups := []\<rparr>) t
     \<and> (\<forall>c \<in> set completed. \<forall>r. target demo_set_up c = Some r \<longrightarrow> settled_since r demo_set_up demo_cleaned)
     \<and> k_cleanups demo_cleaned = [] \<and> demo_cleaned = t"
  using cleanup_barrier [OF store_deps_ok demo_runs(2)] by simp

end
