(* ===== verification/KueueExecution.thy ===== *)
theory KueueExecution
  imports KueueProperties
begin

text \<open>
  Functional properties of the Kueue environment: what \<open>validate\<close> accepts, the PipelineRun
  integration added and taken back, and what an \<open>Execute\<close> that succeeds has shown.
\<close>

section \<open>Validation\<close>

definition host_key :: "cluster \<Rightarrow> string" where
  "host_key c = trim_suffix (endpoint c) ''/''"

definition complete_cluster :: "cluster \<Rightarrow> bool" where
  "complete_cluster c \<longleftrightarrow> cl_name c \<noteq> [] \<and> (\<exists>h. cl_clients c = Some (Some h))"

lemma validate_hosts_None:
  "validate_hosts hosts cs = None \<longleftrightarrow>
     list_all complete_cluster cs \<and> distinct (map host_key cs) \<and> dom hosts \<inter> set (map host_key cs) = {}"
proof (induction cs arbitrary: hosts)
  case (Cons c cs)
  show ?case
  proof (cases "complete_cluster c")
    case True
    then obtain h where h: "cl_clients c = Some (Some h)" "cl_name c \<noteq> []"
      by (auto simp: complete_cluster_def)
    then have key: "host_key c = trim_suffix h ''/''" by (simp add: host_key_def endpoint_def)
    have "validate_hosts hosts (c # cs) = None \<longleftrightarrow> host_key c \<notin> dom hosts
        \<and> validate_hosts (hosts(host_key c \<mapsto> cl_name c)) cs = None"
      using h key by (auto simp: domIff Let_def split: option.splits)
    also have "\<dots> \<longleftrightarrow> host_key c \<notin> dom hosts \<and> list_all complete_cluster cs
        \<and> distinct (map host_key cs) \<and> insert (host_key c) (dom hosts) \<inter> set (map host_key cs) = {}"
      by (simp only: Cons.IH dom_fun_upd option.distinct if_False)
    finally show ?thesis using True by auto
  next
    case False
    then show ?thesis by (auto simp: complete_cluster_def split: option.splits)
  qed
qed simp

text \<open>
  C6: Setup sends no request unless the environment is sound: a legal prefix, at least one spoke,
  every cluster with a name, clients and a REST config, and no two clusters with the same host
  up to a trailing slash. Otherwise it returns an error and the state is untouched.
\<close>

theorem setup_validates_first:
  "(validate d s = None \<longleftrightarrow> d_isDNSLabel d (k_prefix s) = [] \<and> k_spokes s \<noteq> []
      \<and> list_all complete_cluster (clusters s) \<and> distinct (map host_key (clusters s)))
   \<and> (validate d s = None \<or> (\<exists>e. Setup d s = (Some e, s)))"
proof -
  have "validate d s = None \<longleftrightarrow> d_isDNSLabel d (k_prefix s) = [] \<and> k_spokes s \<noteq> []
      \<and> validate_hosts Map.empty (clusters s) = None"
    by (simp add: validate_def Let_def)
  moreover have "validate d s = None \<or> (\<exists>e. Setup d s = (Some e, s))"
    by (cases "validate d s") (auto simp: Setup_def)
  ultimately show ?thesis by (simp add: validate_hosts_None)
qed

section \<open>The PipelineRun integration\<close>

text \<open>
  What the helpers of \<open>unstructured\<close> document: a slice that was set is read back, and setting
  it leaves a field alone whose path neither extends nor is extended by the one set.
\<close>

definition nested_contract :: "'w deps \<Rightarrow> bool" where
  "nested_contract d \<longleftrightarrow>
     (\<forall>j items p j'. p \<noteq> [] \<longrightarrow> d_setNestedSlice d j items p = Inr j' \<longrightarrow>
        d_nestedSlice d j' p = Inr (Some items)
        \<and> (\<forall>q. p \<parallel> q \<longrightarrow> d_nestedSlice d j' q = d_nestedSlice d j q))"

lemma framework_is_one [simp]: "isPipelineRunFramework pipelineRunFramework"
  by (simp add: pipelineRunFramework_def)

lemma remove_appended:
  "\<not> list_ex isPipelineRunFramework items \<Longrightarrow> isPipelineRunFramework f \<Longrightarrow>
   removePipelineRunFramework (items @ [f]) = (items, True)"
  by (induction items) auto

lemma remove_absent:
  "\<not> list_ex isPipelineRunFramework items \<Longrightarrow> removePipelineRunFramework items = (items, False)"
  by (induction items) auto

definition integrated :: "'w deps \<Rightarrow> json \<Rightarrow> string list \<Rightarrow> bool" where
  "integrated d j p \<longleftrightarrow>
     (\<exists>items. d_nestedSlice d j p = Inr (Some items) \<and> list_ex isPipelineRunFramework items)"

lemma ensure_path:
  assumes "nested_contract d" and "p \<noteq> []" and "ensure_paths d (p # ps) j ch = Inr (ch', j')"
  obtains j1 where "ensure_paths d ps j1 (if integrated d j p then ch else ch @ [p]) = Inr (ch', j')"
    and "integrated d j1 p" and "integrated d j p \<Longrightarrow> j1 = j"
    and "\<And>q. p \<parallel> q \<Longrightarrow> d_nestedSlice d j1 q = d_nestedSlice d j q"
    and "\<not> integrated d j p \<Longrightarrow> \<exists>found. d_nestedSlice d j p = Inr found
      \<and> \<not> list_ex isPipelineRunFramework (path_items found)
      \<and> d_nestedSlice d j1 p = Inr (Some (path_items found @ [pipelineRunFramework]))"
proof (cases "integrated d j p")
  case True
  then obtain items where "d_nestedSlice d j p = Inr (Some items)" "list_ex isPipelineRunFramework items"
    by (auto simp: integrated_def)
  with assms(3) True show ?thesis by (intro that [of j]) (auto simp: path_items_def)
next
  case False
  obtain found where f: "d_nestedSlice d j p = Inr found"
    using assms(3) by (cases "d_nestedSlice d j p") auto
  have no: "found = None \<or> \<not> list_ex isPipelineRunFramework (path_items found)"
    using False f by (cases found) (auto simp: integrated_def path_items_def)
  then have no': "\<not> list_ex isPipelineRunFramework (path_items found)"
    by (auto simp: path_items_def)
  obtain j1 where s: "d_setNestedSlice d j (path_items found @ [pipelineRunFramework]) p = Inr j1"
    and e: "ensure_paths d ps j1 (ch @ [p]) = Inr (ch', j')"
    using assms(3) f no by (auto split: sum.splits)
  have c: "d_nestedSlice d j1 p = Inr (Some (path_items found @ [pipelineRunFramework]))"
    "\<And>q. p \<parallel> q \<Longrightarrow> d_nestedSlice d j1 q = d_nestedSlice d j q"
    using assms(1,2) s unfolding nested_contract_def by blast+
  show ?thesis
    by (rule that [of j1]) (use e False c f no' in \<open>auto simp: integrated_def\<close>)
qed

text \<open>Paths of which none is a prefix of another, as \<open>integrationPaths\<close>.\<close>

definition separate :: "string list list \<Rightarrow> bool" where
  "separate ps \<longleftrightarrow> [] \<notin> set ps \<and> sorted_wrt parallel ps"

lemma separate_Cons: "separate (p # ps) \<longleftrightarrow> p \<noteq> [] \<and> separate ps \<and> (\<forall>q \<in> set ps. p \<parallel> q \<and> q \<parallel> p)"
  by (auto simp: separate_def parallel_def)

lemma separate_paths: "separate integrationPaths"
  by (simp add: separate_def integrationPaths_def parallel_def)

text \<open>The list at \<open>p\<close> in \<open>j'\<close> is that of \<open>j\<close> with the entry added, or is left alone if it had one.\<close>

definition entry_added :: "'w deps \<Rightarrow> json \<Rightarrow> json \<Rightarrow> string list \<Rightarrow> bool" where
  "entry_added d j j' p \<longleftrightarrow>
     (if integrated d j p then d_nestedSlice d j' p = d_nestedSlice d j p
      else (\<exists>found. d_nestedSlice d j p = Inr found \<and> \<not> list_ex isPipelineRunFramework (path_items found)
        \<and> d_nestedSlice d j' p = Inr (Some (path_items found @ [pipelineRunFramework]))))"

lemma ensure_paths_added:
  assumes "nested_contract d" and "separate ps" and "ensure_paths d ps j ch = Inr (ch', j')"
  shows "ch' = ch @ filter (\<lambda>p. \<not> integrated d j p) ps \<and> (\<forall>p \<in> set ps. entry_added d j j' p)
    \<and> (\<forall>q. (\<forall>p \<in> set ps. p \<parallel> q) \<longrightarrow> d_nestedSlice d j' q = d_nestedSlice d j q)"
  using assms(2,3)
proof (induction ps arbitrary: j ch)
  case (Cons p ps)
  have sep: "p \<noteq> []" "separate ps" "\<And>q. q \<in> set ps \<Longrightarrow> p \<parallel> q" "\<And>q. q \<in> set ps \<Longrightarrow> q \<parallel> p"
    using Cons.prems(1) by (auto simp: separate_Cons)
  obtain j1 where 1: "ensure_paths d ps j1 (if integrated d j p then ch else ch @ [p]) = Inr (ch', j')"
    "integrated d j p \<Longrightarrow> j1 = j" "\<And>q. p \<parallel> q \<Longrightarrow> d_nestedSlice d j1 q = d_nestedSlice d j q"
    "\<not> integrated d j p \<Longrightarrow> \<exists>found. d_nestedSlice d j p = Inr found
      \<and> \<not> list_ex isPipelineRunFramework (path_items found)
      \<and> d_nestedSlice d j1 p = Inr (Some (path_items found @ [pipelineRunFramework]))"
    using ensure_path [OF assms(1) sep(1) Cons.prems(2)] by metis
  note IH = Cons.IH [OF sep(2) 1(1)]
  have q: "integrated d j1 q = integrated d j q \<and> (entry_added d j1 j' q \<longrightarrow> entry_added d j j' q)" if "q \<in> set ps" for q
  proof -
    have eq: "d_nestedSlice d j1 q = d_nestedSlice d j q" using 1(3) [OF sep(3) [OF that]] .
    then have "integrated d j1 q = integrated d j q" by (simp add: integrated_def)
    then show ?thesis by (simp add: entry_added_def eq)
  qed
  have "d_nestedSlice d j' p = d_nestedSlice d j1 p" using IH sep(4) by blast
  then have "entry_added d j j' p" using 1(2,4) by (auto simp: entry_added_def)
  moreover have "filter (\<lambda>p. \<not> integrated d j1 p) ps = filter (\<lambda>p. \<not> integrated d j p) ps"
    using q by (intro filter_cong) auto
  ultimately show ?case using IH q 1(3) by auto
qed simp

lemma entry_added_integrated: "entry_added d j j' p \<Longrightarrow> integrated d j' p"
  by (auto simp: entry_added_def integrated_def split: if_splits)

lemma ensure_integrated:
  "(\<And>p. p \<in> set ps \<Longrightarrow> integrated d j p) \<Longrightarrow> ensure_paths d ps j ch = Inr (ch, j)"
proof (induction ps)
  case (Cons p ps)
  obtain items where "d_nestedSlice d j p = Inr (Some items)" "list_ex isPipelineRunFramework items"
    using Cons.prems [of p] by (auto simp: integrated_def)
  with Cons show ?case by (simp add: path_items_def)
qed simp

text \<open>
  adding the PipelineRun integration is idempotent: after it both framework lists hold the
  entry, and a second run finds nothing to change.
\<close>

theorem integration_idempotent:
  assumes "nested_contract d" and "ensurePipelineRunIntegration d j = Inr (ch, j')"
  shows "ensurePipelineRunIntegration d j' = Inr ([], j')"
proof -
  have "integrated d j' p" if "p \<in> set integrationPaths" for p
    using ensure_paths_added [OF assms(1) separate_paths assms(2) [unfolded ensurePipelineRunIntegration_def]]
      that entry_added_integrated by blast
  then show ?thesis unfolding ensurePipelineRunIntegration_def by (rule ensure_integrated)
qed

lemma nested_get_set:
  assumes "field_set j v p = Some j'" and "p \<noteq> []"
  shows "field_get j' p = Some v" and "p \<parallel> q \<Longrightarrow> field_get j' q = field_get j q"
proof -
  show "field_get j' p = Some v" using assms(1)
  proof (induction j v p arbitrary: j' rule: field_set.induct)
    case (2 kvs v k ks)
    then show ?case by (auto split: option.splits)
  qed auto
  show "p \<parallel> q \<Longrightarrow> field_get j' q = field_get j q" using assms(1)
  proof (induction j v p arbitrary: j' q rule: field_set.induct)
    case (2 kvs v k ks)
    then obtain j1 where j1: "field_set (case map_of kvs k of None \<Rightarrow> JObj [] | Some j \<Rightarrow> j) v ks = Some j1"
      and j': "j' = JObj ((k, j1) # kvs)" by (auto split: option.splits)
    from 2(2) obtain k' qs where q: "q = k' # qs" by (cases q) auto
    show ?case
    proof (cases "k' = k")
      case True
      with 2(2) q have par: "ks \<parallel> qs" by (auto simp: parallel_def)
      then obtain a as where "qs = a # as" by (cases qs) auto
      with 2(1) [OF par j1] show ?thesis using True q j'
        by (auto split: option.splits)
    qed (simp add: q j')
  qed (auto simp: parallel_def)
qed

lemma store_nested: "nested_contract store_deps"
  unfolding nested_contract_def
  by (auto simp: store_deps_def store_setNestedSlice_def store_nestedSlice_def nested_get_set split: option.splits)

definition bare_kueue :: json where
  "bare_kueue = JObj [(''spec'', JObj [(''config'', JObj [])])]"

definition integrated_kueue :: json where
  "integrated_kueue = snd (projr (ensurePipelineRunIntegration store_deps bare_kueue))"

lemma bare_kueue_ensured:
  "ensurePipelineRunIntegration store_deps bare_kueue = Inr (integrationPaths, integrated_kueue)"
  by code_simp

theorem integration_idempotent_witness:
  "ensurePipelineRunIntegration store_deps integrated_kueue = Inr ([], integrated_kueue)"
  by (rule integration_idempotent [OF store_nested bare_kueue_ensured])

lemma restore_path:
  assumes "nested_contract d" and "p \<noteq> []" and "restore_paths d (p # ps) j b = Inr (b', j')"
    and "d_nestedSlice d j p = Inr (Some (items @ [pipelineRunFramework]))"
    and "\<not> list_ex isPipelineRunFramework items"
  obtains j1 where "restore_paths d ps j1 True = Inr (b', j')"
    and "d_nestedSlice d j1 p = Inr (Some items)"
    and "\<And>q. p \<parallel> q \<Longrightarrow> d_nestedSlice d j1 q = d_nestedSlice d j q"
proof -
  have "removePipelineRunFramework (items @ [pipelineRunFramework]) = (items, True)"
    using remove_appended [OF assms(5)] by simp
  with assms(3,4) obtain j1 where "d_setNestedSlice d j items p = Inr j1"
    and "restore_paths d ps j1 True = Inr (b', j')"
    by (auto simp: path_items_def split: sum.splits)
  moreover from this(1) assms(1,2) have "d_nestedSlice d j1 p = Inr (Some items)"
    "\<And>q. p \<parallel> q \<Longrightarrow> d_nestedSlice d j1 q = d_nestedSlice d j q"
    unfolding nested_contract_def by blast+
  ultimately show ?thesis using that by blast
qed

lemma restore_paths_removed:
  assumes "nested_contract d" and "separate ps" and "restore_paths d ps j b = Inr (b', j')"
    and "\<And>p. p \<in> set ps \<Longrightarrow> d_nestedSlice d j p = Inr (Some (items p @ [pipelineRunFramework]))
           \<and> \<not> list_ex isPipelineRunFramework (items p)"
  shows "(\<forall>p \<in> set ps. d_nestedSlice d j' p = Inr (Some (items p)))
    \<and> (\<forall>q. (\<forall>p \<in> set ps. p \<parallel> q) \<longrightarrow> d_nestedSlice d j' q = d_nestedSlice d j q)"
  using assms(2-4)
proof (induction ps arbitrary: j b)
  case (Cons p ps)
  have sep: "p \<noteq> []" "separate ps" "\<And>q. q \<in> set ps \<Longrightarrow> p \<parallel> q" "\<And>q. q \<in> set ps \<Longrightarrow> q \<parallel> p"
    using Cons.prems(1) by (auto simp: separate_Cons)
  obtain j1 where 1: "restore_paths d ps j1 True = Inr (b', j')" "d_nestedSlice d j1 p = Inr (Some (items p))"
    "\<And>q. p \<parallel> q \<Longrightarrow> d_nestedSlice d j1 q = d_nestedSlice d j q"
    using restore_path [OF assms(1) sep(1) Cons.prems(2), of "items p"] Cons.prems(3) [of p] by auto
  have "(\<forall>p \<in> set ps. d_nestedSlice d j' p = Inr (Some (items p)))
    \<and> (\<forall>q. (\<forall>p \<in> set ps. p \<parallel> q) \<longrightarrow> d_nestedSlice d j' q = d_nestedSlice d j1 q)"
    using Cons.prems(3) sep(3) 1(3) by (intro Cons.IH [OF sep(2) 1(1)]) auto
  with 1(2,3) sep(4) show ?case by auto
qed simp

lemma separate_filter: "separate ps \<Longrightarrow> separate (filter P ps)"
  by (auto simp: separate_def sorted_wrt_filter)

text \<open>The framework list at a path, empty when the field is absent.\<close>

definition items_at :: "'w deps \<Rightarrow> json \<Rightarrow> string list \<Rightarrow> json list" where
  "items_at d j p = (case d_nestedSlice d j p of Inl _ \<Rightarrow> [] | Inr found \<Rightarrow> path_items found)"

lemma entry_added_items:
  "entry_added d j j' p \<Longrightarrow> \<not> integrated d j p \<Longrightarrow>
   d_nestedSlice d j' p = Inr (Some (items_at d j p @ [pipelineRunFramework]))
   \<and> \<not> list_ex isPipelineRunFramework (items_at d j p)"
  by (auto simp: entry_added_def items_at_def)

text \<open>
  C7: restoring undoes the integration: when the restoring closure finds the object as the update
  left it, both framework lists are again what they were before the test.
\<close>

theorem integration_round_trip:
  assumes "nested_contract d" and "ensurePipelineRunIntegration d j = Inr (ch, j')"
    and "restore_paths d ch j' False = Inr (b, j'')" and "p \<in> set integrationPaths"
  shows "items_at d j'' p = items_at d j p"
proof -
  let ?missing = "filter (\<lambda>p. \<not> integrated d j p) integrationPaths"
  note e = ensure_paths_added [OF assms(1) separate_paths assms(2) [unfolded ensurePipelineRunIntegration_def]]
  have r: "restore_paths d ?missing j' False = Inr (b, j'')" using assms(3) e by simp
  have "(\<forall>p \<in> set ?missing. d_nestedSlice d j'' p = Inr (Some (items_at d j p)))
    \<and> (\<forall>q. (\<forall>p \<in> set ?missing. p \<parallel> q) \<longrightarrow> d_nestedSlice d j'' q = d_nestedSlice d j' q)"
  proof (rule restore_paths_removed [OF assms(1) separate_filter [OF separate_paths] r])
    fix p assume "p \<in> set ?missing"
    then have "entry_added d j j' p" and "\<not> integrated d j p" using e by auto
    then show "d_nestedSlice d j' p = Inr (Some (items_at d j p @ [pipelineRunFramework]))
        \<and> \<not> list_ex isPipelineRunFramework (items_at d j p)" by (rule entry_added_items)
  qed
  moreover have "\<forall>q \<in> set ?missing. q \<parallel> p" if "integrated d j p"
    using that assms(4) separate_paths by (auto simp: separate_def integrationPaths_def parallel_def)
  moreover have "d_nestedSlice d j' p = d_nestedSlice d j p" if "integrated d j p"
    using that e assms(4) by (auto simp: entry_added_def)
  ultimately show ?thesis
    using assms(4) by (cases "integrated d j p") (auto simp: items_at_def path_items_def)
qed

lemma bare_kueue_restored:
  "restore_paths store_deps integrationPaths integrated_kueue False
     = Inr (True, snd (projr (restore_paths store_deps integrationPaths integrated_kueue False)))"
  by code_simp

theorem integration_round_trip_witness:
  "items_at store_deps (snd (projr (restore_paths store_deps integrationPaths integrated_kueue False)))
       (hd integrationPaths)
     = items_at store_deps bare_kueue (hd integrationPaths)"
  by (rule integration_round_trip [OF store_nested bare_kueue_ensured bare_kueue_restored])
    (simp add: integrationPaths_def)

end
