(* ===== verification/KueueSpokes.thy ===== *)
theory KueueSpokes
  imports KueueExecution
begin

text \<open>
  What a successful \<open>Execute\<close> of the Kueue environment has established: the PipelineRun was seen
  on one spoke only and had TaskRuns there, the hub had none, and the logs prove that the
  workload's script ran.
\<close>

section \<open>Exactly one spoke\<close>

text \<open>
  Since the start: each run found on a spoke is counted in \<open>seen\<close>, and the run was found on the
  selected spoke.
\<close>

definition spotted :: "string \<Rightarrow> 'w kstate \<Rightarrow> 'w kstate \<Rightarrow> bool" where
  "spotted runName s0 t \<longleftrightarrow> identity_of t = identity_of s0
     \<and> (\<exists>evs. io_trace t = evs @ io_trace s0
          \<and> (\<forall>r ob. Got r (Inr ob) \<in> set evs \<longrightarrow>
               (\<exists>sp \<in> set (k_spokes s0). r = run_ref sp (k_namespace s0) runName \<and> cl_name sp \<in> set (k_seen t)))
          \<and> (\<forall>c. k_selected t = Some c \<longrightarrow> (\<exists>ob. Got (run_ref c (k_namespace s0) runName) (Inr ob) \<in> set evs)))
     \<and> (k_seen t \<noteq> [] \<longrightarrow> (\<exists>c \<in> set (k_spokes s0). k_selected t = Some c \<and> cl_name c \<in> set (k_seen t)))"

lemma more_fields:
  assumes "io.more s' = io.more (s :: 'w kstate)"
  shows "k_hub s' = k_hub s" "k_spokes s' = k_spokes s" "k_namespace s' = k_namespace s"
    "k_seen s' = k_seen s" "k_selected s' = k_selected s" "k_logs s' = k_logs s"
    "k_succeeded s' = k_succeeded s" "identity_of s' = identity_of s"
  using assms by (cases s; cases s'; simp add: identity_of_def)+

lemmas get_fields = call_frames(1) [THEN conjunct2, THEN more_fields(1)]
  call_frames(1) [THEN conjunct2, THEN more_fields(2)] call_frames(1) [THEN conjunct2, THEN more_fields(3)]
  call_frames(1) [THEN conjunct2, THEN more_fields(4)] call_frames(1) [THEN conjunct2, THEN more_fields(5)]
  call_frames(1) [THEN conjunct2, THEN more_fields(6)] call_frames(1) [THEN conjunct2, THEN more_fields(7)]
  call_frames(1) [THEN conjunct2, THEN more_fields(8)]

lemmas list_fields = call_frames(5) [THEN conjunct2, THEN more_fields(1)]
  call_frames(5) [THEN conjunct2, THEN more_fields(2)] call_frames(5) [THEN conjunct2, THEN more_fields(3)]
  call_frames(5) [THEN conjunct2, THEN more_fields(4)] call_frames(5) [THEN conjunct2, THEN more_fields(5)]
  call_frames(5) [THEN conjunct2, THEN more_fields(6)] call_frames(5) [THEN conjunct2, THEN more_fields(7)]
  call_frames(5) [THEN conjunct2, THEN more_fields(8)]

lemma mark_set [simp]: "set (mark n ns) = insert n (set ns)" "mark n ns \<noteq> []"
  by (auto simp: mark_def)

lemma spotted_missed:
  assumes "spotted n s0 t" and "k_get sv r t = (Inl e, t1)"
  shows "spotted n s0 t1"
proof -
  obtain evs where "io_trace t = evs @ io_trace s0"
    "\<And>r ob. Got r (Inr ob) \<in> set evs \<Longrightarrow>
       \<exists>sp \<in> set (k_spokes s0). r = run_ref sp (k_namespace s0) n \<and> cl_name sp \<in> set (k_seen t)"
    "\<And>c. k_selected t = Some c \<Longrightarrow> \<exists>ob. Got (run_ref c (k_namespace s0) n) (Inr ob) \<in> set evs"
    using assms(1) by (auto simp: spotted_def)
  with assms(1) call_frames(1) [OF assms(2)] get_fields [OF assms(2)] show ?thesis
    unfolding spotted_def by (intro conjI exI [of _ "Got r (Inl e) # evs"]) auto
qed

lemma spotted_listed:
  assumes "spotted n s0 t" and "k_list sv c k ns sel t = (res, t1)"
  shows "spotted n s0 t1"
proof -
  obtain evs where "io_trace t = evs @ io_trace s0"
    "\<And>r ob. Got r (Inr ob) \<in> set evs \<Longrightarrow>
       \<exists>sp \<in> set (k_spokes s0). r = run_ref sp (k_namespace s0) n \<and> cl_name sp \<in> set (k_seen t)"
    "\<And>c. k_selected t = Some c \<Longrightarrow> \<exists>ob. Got (run_ref c (k_namespace s0) n) (Inr ob) \<in> set evs"
    using assms(1) by (auto simp: spotted_def)
  with assms(1) call_frames(5) [OF assms(2)] list_fields [OF assms(2)] show ?thesis
    unfolding spotted_def by (intro conjI exI [of _ "Listed c k ns sel res # evs"]) auto
qed

lemma spotted_found:
  assumes "spotted n s0 t" and "k_get sv (run_ref sp (k_namespace t) n) t = (Inr ob, t1)"
    and "sp \<in> set (k_spokes s0)"
  shows "spotted n s0 (t1\<lparr>k_seen := mark (cl_name sp) (k_seen t1), k_selected := Some sp\<rparr>)"
proof -
  have ns: "k_namespace t = k_namespace s0" using assms(1) by (simp add: spotted_def identity_of_def)
  obtain evs where evs: "io_trace t = evs @ io_trace s0"
    "\<And>r ob. Got r (Inr ob) \<in> set evs \<Longrightarrow>
       \<exists>sp \<in> set (k_spokes s0). r = run_ref sp (k_namespace s0) n \<and> cl_name sp \<in> set (k_seen t)"
    using assms(1) by (auto simp: spotted_def)
  have tr: "io_trace t1 = (Got (run_ref sp (k_namespace s0) n) (Inr ob) # evs) @ io_trace s0"
    using call_frames(1) [OF assms(2)] evs(1) by (simp add: ns)
  have id: "identity_of t1 = identity_of s0" "k_seen t1 = k_seen t"
    using get_fields [OF assms(2)] assms(1) by (simp_all add: spotted_def)
  show ?thesis
    unfolding spotted_def
    by (intro conjI exI [of _ "Got (run_ref sp (k_namespace s0) n) (Inr ob) # evs"])
      (use assms(3) tr id evs(2) in auto)
qed

lemma spotted_look:
  assumes "look_at_spokes d n sps t = (res, t')" and "spotted n s0 t" and "set sps \<subseteq> set (k_spokes s0)"
  shows "spotted n s0 t'"
  using assms
proof (induction sps arbitrary: t)
  case (Cons sp sps)
  obtain got t1 where g: "k_get (d_server d) (run_ref sp (k_namespace t) n) t = (got, t1)" by (metis surj_pair)
  show ?case
  proof (cases got)
    case (Inl e)
    with Cons g spotted_missed [OF Cons.prems(2)] show ?thesis by (auto split: if_splits)
  next
    case (Inr ob)
    with Cons g spotted_found [OF Cons.prems(2)] show ?thesis by auto
  qed
qed simp

text \<open>One evaluation of the condition, and what it has seen when it reports done.\<close>

lemma spotted_condition:
  assumes "spotted n s0 t" and "spoke_condition d n t = (res, t')"
  shows "spotted n s0 t'"
proof -
  have sub: "set (k_spokes t) \<subseteq> set (k_spokes s0)" using assms(1) by (auto simp: spotted_def identity_of_def)
  obtain e t1 where l: "look_at_spokes d n (k_spokes t) t = (e, t1)" by (metis surj_pair)
  have s1: "spotted n s0 t1" using spotted_look [OF l assms(1) sub] .
  show ?thesis using assms(2) l s1 spotted_listed [OF s1]
    by (auto simp: spoke_condition_def list_taskRuns_def split: result_splits)
qed

lemma spoke_condition_done:
  assumes "spotted n s0 t" and "spoke_condition d n t = ((True, None), t')"
  obtains c trs evs where "c \<in> set (k_spokes s0)" and "k_selected t' = Some c" and "trs \<noteq> []"
    and "io_trace t' = Listed (endpoint c) ''TaskRun'' (k_namespace s0) (run_selector n) (Inr trs) # evs @ io_trace s0"
    and "\<exists>ob. Got (run_ref c (k_namespace s0) n) (Inr ob) \<in> set evs"
    and "\<And>r ob. Got r (Inr ob) \<in> set evs \<Longrightarrow>
      \<exists>sp \<in> set (k_spokes s0). r = run_ref sp (k_namespace s0) n \<and> cl_name sp = cl_name c"
proof -
  have sub: "set (k_spokes t) \<subseteq> set (k_spokes s0)" using assms(1) by (auto simp: spotted_def identity_of_def)
  obtain e t1 where l: "look_at_spokes d n (k_spokes t) t = (e, t1)" by (metis surj_pair)
  have s1: "spotted n s0 t1" using spotted_look [OF l assms(1) sub] .
  from assms(2) l obtain c trs where c: "k_selected t1 = Some c" "k_seen t1 \<noteq> []" "\<not> 1 < length (k_seen t1)"
    and ls: "k_list (d_server d) (endpoint c) ''TaskRun'' (k_namespace t1) (run_selector n) t1 = (Inr trs, t')" "trs \<noteq> []"
    by (auto simp: spoke_condition_def list_taskRuns_def split: result_splits)
  have ns: "k_namespace t1 = k_namespace s0" using s1 by (simp add: spotted_def identity_of_def)
  from c(2,3) obtain x where x: "k_seen t1 = [x]" by (cases "k_seen t1") auto
  with s1 c(1) have "c \<in> set (k_spokes s0)" "x = cl_name c" by (auto simp: spotted_def)
  moreover obtain evs where "io_trace t1 = evs @ io_trace s0"
    and "\<exists>ob. Got (run_ref c (k_namespace s0) n) (Inr ob) \<in> set evs"
    and "\<And>r ob. Got r (Inr ob) \<in> set evs \<Longrightarrow>
      \<exists>sp \<in> set (k_spokes s0). r = run_ref sp (k_namespace s0) n \<and> cl_name sp = x"
    using s1 x c(1) by (auto simp: spotted_def)
  ultimately show ?thesis
    using c(1) ls(2) call_frames(5) [OF ls(1)] list_fields(5) [OF ls(1)] by (intro that [of c trs evs]) (auto simp: ns)
qed

text \<open>The decisive evaluation of a wait that returned a spoke.\<close>

lemma spoke_wait_decided:
  assumes "deps_ok d" and "waitForSpokeExecution d runName s = (Inr c, s')"
  obtains s1 trs evs where "c \<in> set (k_spokes s)" and "trs \<noteq> []"
    and "k_list (d_server d) (endpoint (k_hub s)) ''TaskRun'' (k_namespace s) (run_selector runName) s1 = (Inr [], s')"
    and "io_trace s1 = Listed (endpoint c) ''TaskRun'' (k_namespace s) (run_selector runName) (Inr trs) # evs @ io_trace s"
    and "\<exists>ob. Got (run_ref c (k_namespace s) runName) (Inr ob) \<in> set evs"
    and "\<And>r ob. Got r (Inr ob) \<in> set evs \<Longrightarrow>
      \<exists>sp \<in> set (k_spokes s). r = run_ref sp (k_namespace s) runName \<and> cl_name sp = cl_name c"
proof -
  let ?s0 = "s\<lparr>k_seen := [], k_selected := None\<rparr>"
  have pc: "poll_contract (d_poll d)" using assms(1) by (simp add: deps_ok_def)
  have init: "spotted runName ?s0 ?s0" by (simp add: spotted_def)
  obtain e1 s1 where po: "d_poll d pollInterval 600 True (spoke_condition d runName) ?s0 = (e1, s1)" by (metis surj_pair)
  with assms(2) have "e1 = None" by (auto simp: waitForSpokeExecution_def split: option.splits)
  with po obtain k u where pend: "pending (spoke_condition d runName) k ?s0 u"
    and fin: "spoke_condition d runName u = ((True, None), s1)" using poll_None [OF pc] by metis
  from pend init have u: "spotted runName ?s0 u"
    by (rule pending_invariant) (rule spotted_condition)
  have fr: "k_hub s1 = k_hub s" "k_namespace s1 = k_namespace s"
    using spotted_condition [OF u fin] by (auto simp: spotted_def identity_of_def)
  obtain x trs evs where x: "x \<in> set (k_spokes s)" "k_selected s1 = Some x" "trs \<noteq> []"
    "io_trace s1 = Listed (endpoint x) ''TaskRun'' (k_namespace s) (run_selector runName) (Inr trs) # evs @ io_trace s"
    "\<exists>ob. Got (run_ref x (k_namespace s) runName) (Inr ob) \<in> set evs"
    "\<And>r ob. Got r (Inr ob) \<in> set evs \<Longrightarrow>
      \<exists>sp \<in> set (k_spokes s). r = run_ref sp (k_namespace s) runName \<and> cl_name sp = cl_name x"
    by (rule spoke_condition_done [OF u fin]) auto
  obtain res s2 where ls: "k_list (d_server d) (endpoint (k_hub s)) ''TaskRun'' (k_namespace s) (run_selector runName) s1 = (res, s2)"
    by (metis surj_pair)
  have "res = Inr []" and "c = x" and "s' = s2"
    using assms(2) po \<open>e1 = None\<close> x(2) ls list_fields(5) [OF ls]
    by (auto simp: waitForSpokeExecution_def list_taskRuns_def fr split: sum.splits if_splits)
  with x ls that [of trs s1 evs] show ?thesis by simp
qed

text \<open>
  C28: waitForSpokeExecution returns a spoke only if the PipelineRun was found on this spoke and,
  over the whole wait, on no spoke with another name; TaskRuns of the run were listed on this
  spoke, and the last thing read is that the hub has none.
\<close>

theorem spoke_exclusive:
  assumes "deps_ok d" and "waitForSpokeExecution d runName s = (Inr c, s')"
  shows "c \<in> set (k_spokes s) \<and> (\<exists>trs evs. trs \<noteq> []
     \<and> io_trace s' = Listed (endpoint (k_hub s)) ''TaskRun'' (k_namespace s) (run_selector runName) (Inr [])
          # Listed (endpoint c) ''TaskRun'' (k_namespace s) (run_selector runName) (Inr trs) # evs @ io_trace s
     \<and> (\<exists>ob. Got (run_ref c (k_namespace s) runName) (Inr ob) \<in> set evs)
     \<and> (\<forall>r ob. Got r (Inr ob) \<in> set evs \<longrightarrow>
          (\<exists>sp \<in> set (k_spokes s). r = run_ref sp (k_namespace s) runName \<and> cl_name sp = cl_name c)))"
proof -
  obtain s1 trs evs where w: "c \<in> set (k_spokes s)" "trs \<noteq> []"
    "k_list (d_server d) (endpoint (k_hub s)) ''TaskRun'' (k_namespace s) (run_selector runName) s1 = (Inr [], s')"
    "io_trace s1 = Listed (endpoint c) ''TaskRun'' (k_namespace s) (run_selector runName) (Inr trs) # evs @ io_trace s"
    "\<exists>ob. Got (run_ref c (k_namespace s) runName) (Inr ob) \<in> set evs"
    "\<And>r ob. Got r (Inr ob) \<in> set evs \<Longrightarrow>
      \<exists>sp \<in> set (k_spokes s). r = run_ref sp (k_namespace s) runName \<and> cl_name sp = cl_name c"
    by (rule spoke_wait_decided [OF assms]) blast
  with call_frames(5) [OF w(3)] show ?thesis by auto
qed

text \<open>A world in which the run is on the spoke, with a TaskRun there.\<close>

definition demo_running :: "kobj list kstate" where
  "demo_running = demo_env\<lparr>io_world :=
     [\<lparr>o_ref = run_ref demo_spoke ''t'' ''r'', o_labels = Map.empty, o_uid = ''u'', o_body = RunBody None None\<rparr>,
      \<lparr>o_ref = Ref ''s'' ''TaskRun'' ''t'' ''r-x'', o_labels = Map.empty, o_uid = ''v'', o_body = TaskRunBody\<rparr>]\<rparr>"

lemma demo_running_ok:
  "waitForSpokeExecution store_deps ''r'' demo_running
     = (Inr demo_spoke, snd (waitForSpokeExecution store_deps ''r'' demo_running))"
proof -
  have "is_ok (fst (waitForSpokeExecution store_deps ''r'' demo_running))
     \<and> cl_name (projr (fst (waitForSpokeExecution store_deps ''r'' demo_running))) = ''sp''
     \<and> cl_clients (projr (fst (waitForSpokeExecution store_deps ''r'' demo_running))) = Some (Some ''s'')"
    by code_simp
  then have "fst (waitForSpokeExecution store_deps ''r'' demo_running) = Inr demo_spoke"
    by (cases "fst (waitForSpokeExecution store_deps ''r'' demo_running)") (auto simp: demo_spoke_def)
  then show ?thesis by (metis prod.collapse)
qed

theorem spoke_exclusive_witness:
  "demo_spoke \<in> set (k_spokes demo_running)
   \<and> (\<exists>trs evs. trs \<noteq> [] \<and> io_trace (snd (waitForSpokeExecution store_deps ''r'' demo_running))
        = Listed ''h'' ''TaskRun'' ''t'' (run_selector ''r'') (Inr [])
          # Listed ''s'' ''TaskRun'' ''t'' (run_selector ''r'') (Inr trs) # evs @ io_trace demo_running
        \<and> (\<exists>ob. Got (run_ref demo_spoke ''t'' ''r'') (Inr ob) \<in> set evs))"
proof -
  have "k_namespace demo_running = ''t''" "endpoint (k_hub demo_running) = ''h''" "endpoint demo_spoke = ''s''"
    by (simp_all add: demo_running_def demo_env_def NewEnvironment_def demo_hub_def demo_spoke_def endpoint_def)
  with spoke_exclusive [OF store_deps_ok demo_running_ok] show ?thesis by metis
qed

section \<open>What a result proves\<close>

definition marked :: "'w kstate \<Rightarrow> bool" where
  "marked s \<longleftrightarrow> k_logs s = [] \<or> contains (k_logs s) workloadLogMarker"

lemma recordSpokes_loop_logs: "recordSpokes_loop d n sps s = (e, s') \<Longrightarrow> k_logs s' = k_logs s"
proof (induction sps arbitrary: s)
  case (Cons sp sps)
  then show ?case
    by (auto split: prod.splits sum.splits if_splits simp: get_fields(6))
qed simp

lemma recordSpokes_logs: "recordSpokes d n s = (e, s') \<Longrightarrow> k_logs s' = k_logs s"
  by (auto simp: recordSpokes_def split: result_splits dest: recordSpokes_loop_logs)

lemma marked_capture: "marked s \<Longrightarrow> marked (capture_logs d c n s)"
  by (auto simp: capture_logs_def pipelineRunLogs_def marked_def list_fields(6) split: result_splits)

lemma observe_worker_logs: "observe_worker d c n s = (e, s') \<Longrightarrow> k_logs s' = k_logs s"
  by (auto simp: observe_worker_def get_fields(6) split: result_splits)

lemma observe_hub_logs: "observe_hub d c n s = ((b, e), s') \<Longrightarrow> k_logs s' = k_logs s \<and> (b \<longrightarrow> k_logs s' \<noteq> [])"
  by (auto simp: observe_hub_def get_fields(6) split: result_splits)

lemma completion_logs:
  assumes "completion_condition d c n s = ((b, e), s')" and "marked s"
  shows "marked s' \<and> (b \<longrightarrow> k_logs s' \<noteq> [])"
proof -
  obtain e1 s1 where r: "recordSpokes d n s = (e1, s1)" by (metis surj_pair)
  then have m1: "marked s1" using assms(2) recordSpokes_logs [OF r] by (simp add: marked_def)
  obtain e2 s2 where w: "observe_worker d c n (capture_logs d c n s1) = (e2, s2)" by (metis surj_pair)
  have "marked s2" using marked_capture [OF m1] observe_worker_logs [OF w] by (simp add: marked_def)
  with assms(1) r w m1 show ?thesis
    by (auto simp: completion_condition_def marked_def split: option.splits dest!: observe_hub_logs)
qed

lemma waitForCompletion_logs:
  assumes "deps_ok d" and "waitForCompletion d n w c s = (Inr logs, s')"
  shows "contains logs workloadLogMarker"
proof -
  let ?s0 = "s\<lparr>k_seen := [cl_name c], k_succeeded := False, k_logs := []\<rparr>"
  have pc: "poll_contract (d_poll d)" using assms(1) by (simp add: deps_ok_def)
  have init: "marked ?s0" by (simp add: marked_def)
  obtain e1 s1 where po: "d_poll d pollInterval 600 True (completion_condition d c n) ?s0 = (e1, s1)" by (metis surj_pair)
  with assms(2) have e: "e1 = None" and l: "logs = k_logs s1"
    by (auto simp: waitForCompletion_def split: result_splits)
  from po e obtain k u where pend: "pending (completion_condition d c n) k ?s0 u"
    and fin: "completion_condition d c n u = ((True, None), s1)" using poll_None [OF pc] by metis
  from pend init have "marked u"
    by (rule pending_invariant) (use completion_logs in blast)
  from completion_logs [OF fin this] show ?thesis by (auto simp: l marked_def)
qed

text \<open>
  C5: a result of Execute names one of the environment's spokes and carries logs that contain the
  marker only the workload's own step prints.
\<close>

theorem execute_proves_execution:
  assumes "deps_ok d" and "Execute d s = (Inr res, s')"
  shows "contains (rs_Logs res) workloadLogMarker \<and> rs_Spoke res \<in> cl_name ` set (k_spokes s)"
proof -
  from assms(2) obtain run s1 w s2 c s3 logs where
    1: "createPipelineRun d s = (Inr run, s1)" and 2: "waitForHubWorkload d run s1 = (Inr w, s2)"
    and 3: "waitForSpokeExecution d (ref_name (o_ref run)) s2 = (Inr c, s3)"
    and 4: "waitForCompletion d (ref_name (o_ref run)) w c s3 = (Inr logs, s')"
    and res: "rs_Spoke res = cl_name c" "rs_Logs res = logs"
    by (auto simp: Execute_def split: prod.splits sum.splits)
  have "tracked [] (identity_of s, io_trace s) s" by (rule tracked_start) simp_all
  from tracked_createPipelineRun [OF 1 this] have "identity_of s1 = identity_of s" by (simp add: tracked_def)
  moreover have "identity_of s2 = identity_of s1"
    using q_waitForHubWorkload [OF 2 assms(1) quiet_refl] by (simp add: quiet_step_def)
  ultimately have sp: "k_spokes s2 = k_spokes s" by (simp add: identity_of_def)
  have spoke_in: "c \<in> set (k_spokes s2)" by (rule spoke_wait_decided [OF assms(1) 3])
  with sp waitForCompletion_logs [OF assms(1) 4] res show ?thesis by simp
qed

text \<open>
  A scripted server: the world counts the reads. The run is on the spoke, succeeded, until the
  workload has been seen finished; then the spoke's objects are gone.
\<close>

definition finished_workload :: kobj where
  "finished_workload = \<lparr>o_ref = Ref ''h'' ''Workload'' ''t'' ''wl'', o_labels = Map.empty, o_uid = ''w'',
     o_body = Dyn (JObj [(''status'', JObj [(''conditions'', JArr
       [JObj [(''type'', JStr ''Finished''), (''status'', JStr ''True'')]])])])\<rparr>"

definition succeeded_run :: "string \<Rightarrow> kobj" where
  "succeeded_run c = \<lparr>o_ref = Ref c ''PipelineRun'' ''t'' ''t-run'', o_labels = Map.empty, o_uid = ''u'',
     o_body = RunBody None (Some \<lparr>cd_type = ''Succeeded'', cd_status = ''True'', cd_reason = [], cd_message = []\<rparr>)\<rparr>"

definition script_server :: "(nat, kbody) server" where
  "script_server = \<lparr>
     sv_get = (\<lambda>r n. (if ref_kind r = ''PipelineRun''
        then (if ref_cluster r = ''h'' then Inr (succeeded_run ''h'')
              else if n < 5 then Inr (succeeded_run ''s'') else Inl NotFound)
        else if ref_cluster r = ''h'' then Inr finished_workload else Inl NotFound, n + 1)),
     sv_create = (\<lambda>ob n. (Inr (ob\<lparr>o_uid := ''u''\<rparr>), n)),
     sv_update = (\<lambda>ob n. (Inr ob, n)),
     sv_delete = (\<lambda>r n. (None, n)),
     sv_list = (\<lambda>c k ns sel n. (Inr (if k = ''Workload'' then [finished_workload]
        else if k = ''TaskRun'' \<and> c = ''h'' then []
        else [\<lparr>o_ref = Ref c k ns ''x'', o_labels = Map.empty, o_uid = [], o_body = TaskRunBody\<rparr>]), n))\<rparr>"

definition script_deps :: "nat deps" where
  "script_deps = \<lparr>d_server = script_server, d_poll = rounds_poller 0, d_retry = retry_rounds k_conflict 1,
     d_nestedSlice = store_nestedSlice, d_setNestedSlice = store_setNestedSlice,
     d_isDisabled = (\<lambda>_. True), d_isReady = (\<lambda>_. True), d_isDNSLabel = (\<lambda>_. []),
     d_writeKubeconfig = (\<lambda>h t ca. Inr h), d_parseKubeconfig = (\<lambda>_. None),
     d_accessReview = (\<lambda>_ _ _ _ _ w. (Inr False, w)),
     d_parseURL = (\<lambda>u. Some (u, [])), d_parseIP = (\<lambda>h. Some (h, True)), d_lookupIP = (\<lambda>_ w. (Inr [], w)),
     d_schedulerName = ''scheduler'', d_ownerUIDs = (\<lambda>_. [''u'']),
     d_podLogs = (\<lambda>_ _ w. (Inr (''+ '' @ workloadLogMarker), w))\<rparr>"

definition script_run :: "(kerror + result) \<times> nat kstate" where
  "script_run = Execute script_deps (NewEnvironment demo_hub [demo_spoke] ''t'' 0)"

lemma script_run_result:
  "fst script_run = Inr \<lparr>rs_PipelineRun = ''t-run'', rs_Spoke = ''sp'', rs_Logs = ''+ '' @ workloadLogMarker\<rparr>"
  by code_simp

theorem execute_proves_execution_witness:
  "contains (''+ '' @ workloadLogMarker) workloadLogMarker \<and> ''sp'' \<in> cl_name ` {demo_spoke}"
proof -
  have ok: "deps_ok script_deps"
    by (simp add: deps_ok_def script_deps_def rounds_poller_contract retry_rounds_contract)
  have "Execute script_deps (NewEnvironment demo_hub [demo_spoke] ''t'' 0)
     = (Inr \<lparr>rs_PipelineRun = ''t-run'', rs_Spoke = ''sp'', rs_Logs = ''+ '' @ workloadLogMarker\<rparr>, snd script_run)"
    using script_run_result unfolding script_run_def by (metis prod.collapse)
  from execute_proves_execution [OF ok this] show ?thesis by (simp add: NewEnvironment_def)
qed

end
