(* ===== verification/OlmBootstrap.thy ===== *)
theory OlmBootstrap
  imports Effects
begin

text \<open>
  \<open>pkg/olm/cluster_bootstrap.go\<close> and the state functions of \<open>pkg/olm/subscription.go\<close>: installing
  an operator through OLM, or reusing the subscription that is there, and waiting until its CSV
  has succeeded and its API is served. A \<open>client.Client\<close> is a server, None for a nil client;
  discovery is a function of the group version and the world.
\<close>

section \<open>Objects and prerequisites\<close>

record operator_flags =
  of_pipelineChannel :: string
  of_catalogSource :: string
  of_pipelinesNamespace :: string
  of_certManagerChannel :: string
  of_certManagerNamespace :: string
  of_kueueChannel :: string
  of_kueueNamespace :: string

record OperatorPrerequisite =
  op_Package :: string
  op_Channel :: string
  op_CatalogSource :: string
  op_Namespace :: string
  op_GroupVersion :: string

definition OLMNamespace :: string where
  "OLMNamespace = ''openshift-marketplace''"

definition PipelinePrerequisite :: "operator_flags \<Rightarrow> OperatorPrerequisite" where
  "PipelinePrerequisite fl =
     \<lparr>op_Package = ''openshift-pipelines-operator-rh'', op_Channel = of_pipelineChannel fl,
      op_CatalogSource = of_catalogSource fl, op_Namespace = of_pipelinesNamespace fl,
      op_GroupVersion = ''operator.tekton.dev/v1alpha1''\<rparr>"

definition MulticlusterPrerequisites :: "operator_flags \<Rightarrow> OperatorPrerequisite list" where
  "MulticlusterPrerequisites fl =
     [\<lparr>op_Package = ''openshift-cert-manager-operator'', op_Channel = of_certManagerChannel fl,
       op_CatalogSource = ''redhat-operators'', op_Namespace = of_certManagerNamespace fl,
       op_GroupVersion = ''cert-manager.io/v1''\<rparr>,
      \<lparr>op_Package = ''kueue-operator'', op_Channel = of_kueueChannel fl,
       op_CatalogSource = ''redhat-operators'', op_Namespace = of_kueueNamespace fl,
       op_GroupVersion = ''kueue.openshift.io/v1''\<rparr>]"

fun subscription_package :: "kbody \<Rightarrow> string option" where
  "subscription_package (SubscriptionBody (Some spec) _) = Some (ss_package spec)"
| "subscription_package _ = None"

fun installed_csv :: "kbody \<Rightarrow> string" where
  "installed_csv (SubscriptionBody _ csv) = csv"
| "installed_csv _ = []"

fun csv_status :: "kbody \<Rightarrow> string \<times> string \<times> string" where
  "csv_status (CsvBody phase reason message) = (phase, reason, message)"
| "csv_status _ = ([], [], [])"

definition subscription_ref :: "string \<Rightarrow> string \<Rightarrow> ref" where
  "subscription_ref ns name = Ref [] ''Subscription'' ns name"

definition csv_ref :: "string \<Rightarrow> string \<Rightarrow> ref" where
  "csv_ref ns name = Ref [] ''ClusterServiceVersion'' ns name"

section \<open>Namespaces and operator groups\<close>

definition create_unless_exists :: "('w, kbody) server \<Rightarrow> kobj \<Rightarrow> string \<Rightarrow> ('w, kbody, 'm) io_scheme step" where
  "create_unless_exists sv ob msg s =
     (case k_create sv ob s of
        (Inl e, s1) \<Rightarrow> if e = AlreadyExists then (None, s1) else (Some (KContext msg (KApi e)), s1)
      | (Inr _, s1) \<Rightarrow> (None, s1))"

definition plain_object :: "ref \<Rightarrow> kbody \<Rightarrow> kobj" where
  "plain_object r b = \<lparr>o_ref = r, o_labels = Map.empty, o_uid = [], o_body = b\<rparr>"

definition EnsureNamespace :: "('w, kbody) server \<Rightarrow> string \<Rightarrow> ('w, kbody, 'm) io_scheme step" where
  "EnsureNamespace sv namespace s =
     (case k_get sv (Ref [] ''Namespace'' [] namespace) s of
        (Inr _, s1) \<Rightarrow> (None, s1)
      | (Inl e, s1) \<Rightarrow>
          if e \<noteq> NotFound then (Some (KContext (''get namespace '' @ namespace) (KApi e)), s1)
          else create_unless_exists sv (plain_object (Ref [] ''Namespace'' [] namespace) NamespaceBody)
                 (''create namespace '' @ namespace) s1)"

definition ensureOperatorGroup :: "('w, kbody) server \<Rightarrow> string \<Rightarrow> ('w, kbody, 'm) io_scheme step" where
  "ensureOperatorGroup sv namespace s =
     seq (EnsureNamespace sv namespace)
       (\<lambda>s. case k_list sv [] ''OperatorGroup'' namespace [] s of
          (Inl e, s1) \<Rightarrow> (Some (KContext (''list OperatorGroups in '' @ namespace) (KApi e)), s1)
        | (Inr groups, s1) \<Rightarrow>
            if 1 < length groups
            then (Some (KMsg (''found '' @ show_nat (length groups) @ '' OperatorGroups in namespace '' @ namespace)), s1)
            else if length groups = 1 then (None, s1)
            else create_unless_exists sv
                   (plain_object (Ref [] ''OperatorGroup'' namespace namespace) OperatorGroupBody)
                   (''create OperatorGroup in '' @ namespace) s1) s"

section \<open>Waiting for the operator\<close>

definition operatorInstallTimeout :: nat where
  "operatorInstallTimeout = 1800"

definition csv_verdict :: "kobj \<Rightarrow> bool \<times> kerror option" where
  "csv_verdict csv =
     (case csv_status (o_body csv) of (phase, reason, message) \<Rightarrow>
        if phase = ''Succeeded'' then (True, None)
        else if phase = ''Failed''
        then (False, Some (KMsg (''CSV '' @ ref_ns (o_ref csv) @ ''/'' @ ref_name (o_ref csv)
                @ '' failed: '' @ reason @ '': '' @ message)))
        else (False, None))"

definition operator_condition ::
    "('w, kbody) server \<Rightarrow> ref \<Rightarrow> (('w, kbody, 'm) io_scheme, kerror) cond" where
  "operator_condition sv key s =
     (case k_get sv key s of
        (Inl e, s1) \<Rightarrow> if e = NotFound then ((False, None), s1) else ((False, Some (KApi e)), s1)
      | (Inr sub, s1) \<Rightarrow>
          if installed_csv (o_body sub) = [] then ((False, None), s1)
          else (case k_get sv (csv_ref (ref_ns (o_ref sub)) (installed_csv (o_body sub))) s1 of
              (Inl e, s2) \<Rightarrow> if e = NotFound then ((False, None), s2) else ((False, Some (KApi e)), s2)
            | (Inr csv, s2) \<Rightarrow> (csv_verdict csv, s2)))"

definition waitForOperator ::
    "('w, kbody) server \<Rightarrow> (('w, kbody, 'm) io_scheme, kerror) poller \<Rightarrow> ref \<Rightarrow> ('w, kbody, 'm) io_scheme step" where
  "waitForOperator sv poll key s =
     (case poll 5 operatorInstallTimeout True (operator_condition sv key) s of
        (err, s') \<Rightarrow> (of_poll err, s'))"

section \<open>Ensuring an operator\<close>

definition matching_subscriptions :: "string \<Rightarrow> kobj list \<Rightarrow> kobj list" where
  "matching_subscriptions packageName items =
     filter (\<lambda>sub. subscription_package (o_body sub) = Some packageName) items"

text \<open>The subscription to wait for when none matches: created, or found under the same name.\<close>

definition create_subscription :: "('w, kbody) server \<Rightarrow> string \<Rightarrow> string \<Rightarrow> string \<Rightarrow> string \<Rightarrow>
    ('w, kbody, 'm) io_scheme \<Rightarrow> (kerror + ref) \<times> ('w, kbody, 'm) io_scheme" where
  "create_subscription sv packageName channel catalogSource namespace s =
     (let key = subscription_ref namespace packageName;
          sub = plain_object key (SubscriptionBody (Some
             \<lparr>ss_package = packageName, ss_channel = channel, ss_source = catalogSource,
              ss_sourceNamespace = OLMNamespace, ss_approval = ''Automatic''\<rparr>) [])
      in (case k_create sv sub s of
            (Inr _, s1) \<Rightarrow> (Inr key, s1)
          | (Inl e, s1) \<Rightarrow>
              if e \<noteq> AlreadyExists
              then (Inl (KContext (''create subscription '' @ namespace @ ''/'' @ packageName) (KApi e)), s1)
              else (case k_get sv key s1 of
                  (Inl e, s2) \<Rightarrow>
                    (Inl (KContext (''get existing subscription '' @ namespace @ ''/'' @ packageName) (KApi e)), s2)
                | (Inr existing, s2) \<Rightarrow>
                    if subscription_package (o_body existing) \<noteq> Some packageName
                    then (Inl (KMsg (''subscription '' @ namespace @ ''/'' @ packageName
                            @ '' already exists for a different package'')), s2)
                    else (Inr (o_ref existing), s2))))"

definition choose_subscription :: "('w, kbody) server \<Rightarrow> string \<Rightarrow> string \<Rightarrow> string \<Rightarrow> string \<Rightarrow>
    ('w, kbody, 'm) io_scheme \<Rightarrow> (kerror + ref) \<times> ('w, kbody, 'm) io_scheme" where
  "choose_subscription sv packageName channel catalogSource namespace s =
     (case k_list sv [] ''Subscription'' [] [] s of
        (Inl e, s1) \<Rightarrow> (Inl (KContext ''list subscriptions'' (KApi e)), s1)
      | (Inr items, s1) \<Rightarrow>
          (case matching_subscriptions packageName items of
             [] \<Rightarrow> (case ensureOperatorGroup sv namespace s1 of
                 (Some e, s2) \<Rightarrow> (Inl e, s2)
               | (None, s2) \<Rightarrow> create_subscription sv packageName channel catalogSource namespace s2)
           | [sub] \<Rightarrow> (Inr (o_ref sub), s1)
           | matches \<Rightarrow> (Inl (KMsg (''found '' @ show_nat (length matches)
                @ '' subscriptions for package '' @ packageName)), s1)))"

definition EnsureOperator ::
    "('w, kbody) server option \<Rightarrow> (('w, kbody, 'm) io_scheme, kerror) poller \<Rightarrow>
     string \<Rightarrow> string \<Rightarrow> string \<Rightarrow> string \<Rightarrow> ('w, kbody, 'm) io_scheme step" where
  "EnsureOperator cb poll packageName channel catalogSource namespace s =
     (case cb of
        None \<Rightarrow> (Some (KMsg (''cannot ensure operator '' @ packageName @ '' with a nil client'')), s)
      | Some sv \<Rightarrow>
          (case choose_subscription sv packageName channel catalogSource namespace s of
             (Inl e, s1) \<Rightarrow> (Some e, s1)
           | (Inr key, s1) \<Rightarrow>
               wrap (''wait for subscription '' @ ref_ns key @ ''/'' @ ref_name key)
                 (waitForOperator sv poll key) s1))"

definition WaitForAPI ::
    "(string \<Rightarrow> 'w \<Rightarrow> bool \<times> 'w) \<Rightarrow> (('w, kbody, 'm) io_scheme, kerror) poller \<Rightarrow>
     string \<Rightarrow> ('w, kbody, 'm) io_scheme step" where
  "WaitForAPI discovery poll groupVersion s =
     (case poll 5 operatorInstallTimeout True
        (\<lambda>s. case discovery groupVersion (io_world s) of (served, w) \<Rightarrow> ((served, None), s\<lparr>io_world := w\<rparr>)) s of
        (err, s') \<Rightarrow> (wrap_error (''API '' @ groupVersion @ '' was never served'') (of_poll err), s'))"

definition ensure_prerequisite ::
    "('w, kbody) server option \<Rightarrow> (('w, kbody, 'm) io_scheme, kerror) poller \<Rightarrow>
     (string \<Rightarrow> 'w \<Rightarrow> bool \<times> 'w) option \<Rightarrow> OperatorPrerequisite \<Rightarrow> ('w, kbody, 'm) io_scheme step" where
  "ensure_prerequisite cb poll discovery p =
     seq (wrap (''ensure operator '' @ op_Package p)
            (EnsureOperator cb poll (op_Package p) (op_Channel p) (op_CatalogSource p) (op_Namespace p)))
         (case discovery of
            None \<Rightarrow> Pair None
          | Some disc \<Rightarrow> wrap (''ensure operator '' @ op_Package p) (WaitForAPI disc poll (op_GroupVersion p)))"

definition EnsurePrerequisites ::
    "('w, kbody) server option \<Rightarrow> (('w, kbody, 'm) io_scheme, kerror) poller \<Rightarrow>
     (string \<Rightarrow> 'w \<Rightarrow> bool \<times> 'w) option \<Rightarrow> OperatorPrerequisite list \<Rightarrow> ('w, kbody, 'm) io_scheme step" where
  "EnsurePrerequisites cb poll discovery ps = for_each (ensure_prerequisite cb poll discovery) ps"

definition EnsureOperators ::
    "operator_flags \<Rightarrow> ('w, kbody) server option \<Rightarrow> (('w, kbody, 'm) io_scheme, kerror) poller \<Rightarrow>
     ('w, kbody, 'm) io_scheme step" where
  "EnsureOperators fl cb poll =
     EnsurePrerequisites cb poll None (PipelinePrerequisite fl # MulticlusterPrerequisites fl)"

section \<open>Invariants\<close>

text \<open>The invariants of the clients that read and write these objects.\<close>

locale kbody_invariant = call_invariant I for I :: "('w, kbody, 'm) io_scheme \<Rightarrow> bool"
begin

lemma keeps_EnsureNamespace: "keeps I (EnsureNamespace sv ns)"
  by (rule keepsI) (auto simp: EnsureNamespace_def create_unless_exists_def split: result_splits elim!: inv_calls)

lemma keeps_ensureOperatorGroup: "keeps I (ensureOperatorGroup sv ns)"
  by (rule keepsI) (auto simp: ensureOperatorGroup_def seq_def create_unless_exists_def
      split: result_splits elim!: inv_calls keepsE [OF keeps_EnsureNamespace])

lemma keeps_create_subscription: "keeps I (create_subscription sv pkg ch cat ns)"
  by (rule keepsI) (auto simp: create_subscription_def Let_def split: result_splits elim!: inv_calls)

lemma keeps_choose_subscription: "keeps I (choose_subscription sv pkg ch cat ns)"
  by (rule keepsI) (auto simp: choose_subscription_def split: result_splits list.splits
      elim!: inv_calls keepsE [OF keeps_ensureOperatorGroup] keepsE [OF keeps_create_subscription])

lemma keeps_operator_condition: "keeps I (operator_condition sv key)"
  by (rule keepsI) (auto simp: operator_condition_def split: result_splits elim!: inv_calls)

lemma keeps_waitForOperator:
  assumes "poll_contract poll"
  shows "keeps I (waitForOperator sv poll key)"
  using keeps_poll [OF assms keeps_operator_condition]
  by (auto simp: keeps_def waitForOperator_def split: prod.splits) (metis snd_conv)

lemma keeps_EnsureOperator:
  assumes "poll_contract poll"
  shows "keeps I (EnsureOperator cb poll pkg ch cat ns)"
  by (rule keepsI) (auto simp: EnsureOperator_def split: result_splits
      elim!: keepsE [OF keeps_choose_subscription] keepsE [OF keeps_wrap [OF keeps_waitForOperator [OF assms]]])

lemma keeps_WaitForAPI:
  assumes "poll_contract poll"
  shows "keeps I (WaitForAPI disc poll gv)"
  by (rule keepsI) (auto simp: WaitForAPI_def keeps_def split: prod.splits elim!: keeps_pollE [OF assms])

lemma keeps_EnsurePrerequisites:
  assumes "poll_contract poll"
  shows "keeps I (EnsurePrerequisites cb poll disc ps)"
proof -
  have "keeps I (ensure_prerequisite cb poll disc p)" for p
    unfolding ensure_prerequisite_def
    by (cases disc) (auto intro!: keeps_intro keeps_EnsureOperator [OF assms] keeps_WaitForAPI [OF assms])
  then show ?thesis unfolding EnsurePrerequisites_def by (rule keeps_for_each)
qed

end

interpretation kbody_growing: kbody_invariant "grows s0"
  by unfold_locales (auto simp: grows_def dest!: call_frames)


section \<open>What a nil result says\<close>

text \<open>
  The operator is installed, seen by the last two reads: the subscription names the CSV and the
  CSV has succeeded.
\<close>

definition operator_ready :: "ref \<Rightarrow> kbody event list \<Rightarrow> bool" where
  "operator_ready key tr \<longleftrightarrow>
     (\<exists>sub csv rest. tr = Got (csv_ref (ref_ns (o_ref sub)) (installed_csv (o_body sub))) (Inr csv)
          # Got key (Inr sub) # rest
        \<and> installed_csv (o_body sub) \<noteq> [] \<and> fst (csv_status (o_body csv)) = ''Succeeded'')"

lemma operator_condition_done:
  assumes "operator_condition sv key s = ((True, None), s')"
  shows "operator_ready key (io_trace s')"
  using assms
  by (auto simp: operator_condition_def csv_verdict_def operator_ready_def
      split: sum.splits prod.splits if_splits dest!: call_frames)

lemma waitForOperator_ready:
  assumes "poll_contract poll" and "waitForOperator sv poll key s = (None, s')"
  shows "operator_ready key (io_trace s')"
proof -
  obtain e where "poll 5 operatorInstallTimeout True (operator_condition sv key) s = (e, s')" and "of_poll e = None"
    using assms(2) by (auto simp: waitForOperator_def split: prod.splits)
  moreover from this(2) have "e = None" by (cases e rule: of_poll.cases) auto
  ultimately obtain k u where "operator_condition sv key u = ((True, None), s')"
    using poll_None [OF assms(1)] by metis
  then show ?thesis by (rule operator_condition_done)
qed

section \<open>What is touched\<close>

text \<open>
  \<open>adds C s0 t\<close>: from \<open>s0\<close> to \<open>t\<close> there were only reads and creates, the latter of objects in \<open>C\<close>.
\<close>

fun adds_event :: "ref set \<Rightarrow> kbody event \<Rightarrow> bool" where
  "adds_event C (Created ob _) = (o_ref ob \<in> C)"
| "adds_event C (Updated _ _) = False"
| "adds_event C (Deleted _ _) = False"
| "adds_event C (Ran _ _) = False"
| "adds_event C _ = True"

definition adds :: "ref set \<Rightarrow> ('w, kbody, 'm) io_scheme \<Rightarrow> ('w, kbody, 'm) io_scheme \<Rightarrow> bool" where
  "adds C s0 t \<longleftrightarrow> (\<exists>evs. io_trace t = evs @ io_trace s0 \<and> list_all (adds_event C) evs)"

lemma adds_refl [simp]: "adds C s s"
  by (simp add: adds_def)

lemma adds_world [simp]: "adds C s0 (s\<lparr>io_world := w\<rparr>) = adds C s0 s"
  by (simp add: adds_def)

lemma adds_trans: "adds C s t \<Longrightarrow> adds C t u \<Longrightarrow> adds C s u"
  by (fastforce simp: adds_def)

lemma adds_mono: "adds C s t \<Longrightarrow> C \<subseteq> D \<Longrightarrow> adds D s t"
  unfolding adds_def by (metis (no_types, lifting) adds_event.elims(2) adds_event.simps list.pred_mono_strong subsetD)

lemma adds_step:
  assumes "io_trace t = e # io_trace s" and "adds C s0 s" and "adds_event C e"
  shows "adds C s0 t"
  using assms by (auto simp: adds_def intro: exI [of _ "e # _"])

lemma adds_get: "k_get sv r s = (res, t) \<Longrightarrow> adds C s0 s \<Longrightarrow> adds C s0 t"
  by (rule adds_step [where e = "Got r res"]) (auto dest: call_frames)

lemma adds_list: "k_list sv c k ns sel s = (res, t) \<Longrightarrow> adds C s0 s \<Longrightarrow> adds C s0 t"
  by (rule adds_step [where e = "Listed c k ns sel res"]) (auto dest: call_frames)

lemma adds_create: "k_create sv ob s = (res, t) \<Longrightarrow> adds C s0 s \<Longrightarrow> o_ref ob \<in> C \<Longrightarrow> adds C s0 t"
  by (rule adds_step [where e = "Created ob res"]) (auto dest: call_frames)

lemma adds_unless_exists:
  "create_unless_exists sv ob msg s = (e, t) \<Longrightarrow> adds C s0 s \<Longrightarrow> o_ref ob \<in> C \<Longrightarrow> adds C s0 t"
  by (auto simp: create_unless_exists_def split: result_splits elim!: adds_create)

definition touched :: "string \<Rightarrow> string \<Rightarrow> ref set" where
  "touched packageName namespace =
     {Ref [] ''Namespace'' [] namespace, Ref [] ''OperatorGroup'' namespace namespace,
      subscription_ref namespace packageName}"

lemma adds_namespace:
  "EnsureNamespace sv ns s = (e, t) \<Longrightarrow> adds (touched pkg ns) s0 s \<Longrightarrow> adds (touched pkg ns) s0 t"
  by (auto simp: EnsureNamespace_def touched_def plain_object_def split: result_splits
      elim!: adds_get adds_unless_exists)

lemma adds_group:
  assumes "ensureOperatorGroup sv ns s = (e, t)" and "adds (touched pkg ns) s0 s"
  shows "adds (touched pkg ns) s0 t"
proof -
  obtain e1 s1 where n: "EnsureNamespace sv ns s = (e1, s1)" by (metis surj_pair)
  have "adds (touched pkg ns) s0 s1" using adds_namespace [OF n assms(2)] .
  with assms(1) n show ?thesis
    by (cases e1) (auto simp: ensureOperatorGroup_def seq_def touched_def plain_object_def
        split: result_splits elim!: adds_list adds_unless_exists)
qed

lemma adds_create_subscription:
  "create_subscription sv pkg ch cat ns s = (r, t) \<Longrightarrow> adds (touched pkg ns) s0 s \<Longrightarrow> adds (touched pkg ns) s0 t"
  by (auto simp: create_subscription_def plain_object_def touched_def Let_def split: result_splits
      elim!: adds_get adds_create)

lemma adds_choose:
  "choose_subscription sv pkg ch cat ns s = (r, t) \<Longrightarrow> adds (touched pkg ns) s0 s \<Longrightarrow> adds (touched pkg ns) s0 t"
  by (auto simp: choose_subscription_def split: result_splits list.splits
      elim!: adds_list adds_group adds_create_subscription)

lemma adds_waitForOperator:
  assumes "poll_contract poll" and "waitForOperator sv poll key s = (e, t)" and "adds C s0 s"
  shows "adds C s0 t"
proof -
  have "adds C s0 (snd (operator_condition sv key u))" if "adds C s0 u" for u
    using that by (auto simp: operator_condition_def split: result_splits elim!: adds_get)
  moreover obtain e1 where "poll 5 operatorInstallTimeout True (operator_condition sv key) s = (e1, t)"
    using assms(2) by (auto simp: waitForOperator_def split: prod.splits)
  ultimately show ?thesis using poll_invariant_state [where I = "adds C s0", OF assms(1) _ assms(3)] by blast
qed

lemma adds_EnsureOperator:
  assumes "poll_contract poll" and "EnsureOperator cb poll pkg ch cat ns s = (e, t)"
  shows "adds (touched pkg ns) s t"
  using assms(2) adds_waitForOperator [OF assms(1)] adds_choose [OF _ adds_refl]
  by (auto simp: EnsureOperator_def wrap_def split: result_splits) blast+

lemma adds_WaitForAPI:
  assumes "poll_contract poll" and "WaitForAPI disc poll gv s = (e, t)"
  shows "adds C s t"
proof -
  let ?f = "\<lambda>s. case disc gv (io_world s) of (served, w) \<Rightarrow> ((served, None), s\<lparr>io_world := w\<rparr>)"
  obtain e1 where p: "poll 5 operatorInstallTimeout True ?f s = (e1, t)"
    using assms(2) by (auto simp: WaitForAPI_def split: prod.splits)
  show ?thesis
    by (rule poll_invariant_state [where I = "adds C s", OF assms(1) p adds_refl]) (simp split: prod.splits)
qed

lemma keeps_adds: "(\<And>a r b. m a = (r, b) \<Longrightarrow> adds C a b) \<Longrightarrow> keeps (adds C s) m"
  by (rule keepsI) (metis adds_trans)

text \<open>
  an operator that is already subscribed is reused as it is. When the cluster lists exactly
  one subscription of the package, EnsureOperator only reads, whatever channel, catalog or
  namespace was asked for, and returns nil only once that subscription's CSV has succeeded.
\<close>

theorem ensure_operator_reuses:
  assumes "poll_contract poll" and "EnsureOperator (Some sv) poll pkg ch cat ns s = (err, s')"
    and "k_list sv [] ''Subscription'' [] [] s = (Inr items, s1)" and "matching_subscriptions pkg items = [sub]"
  shows "adds {} s s' \<and> (err = None \<longrightarrow> operator_ready (o_ref sub) (io_trace s'))"
proof -
  have c: "choose_subscription sv pkg ch cat ns s = (Inr (o_ref sub), s1)"
    using assms(3,4) by (simp add: choose_subscription_def)
  obtain e2 where w: "waitForOperator sv poll (o_ref sub) s1 = (e2, s')" and e: "err = None \<longleftrightarrow> e2 = None"
    using assms(2) c by (auto simp: EnsureOperator_def wrap_def wrap_error_def split: prod.splits)
  have "adds {} s s1" using adds_list [OF assms(3) adds_refl] .
  from adds_waitForOperator [OF assms(1) w this] have "adds {} s s'" .
  moreover have "operator_ready (o_ref sub) (io_trace s')" if "err = None"
    using waitForOperator_ready [OF assms(1)] w e that by blast
  ultimately show ?thesis by blast
qed

text \<open>
  C8: installing prerequisites never updates or deletes anything, and creates nothing but the
  namespace, the operator group and the subscription of the operators asked for.
\<close>

theorem prerequisites_only_add:
  assumes "poll_contract poll" and "EnsurePrerequisites cb poll disc ps s = (err, s')"
  shows "adds (\<Union>p \<in> set ps. touched (op_Package p) (op_Namespace p)) s s'"
proof -
  let ?C = "\<Union>p \<in> set ps. touched (op_Package p) (op_Namespace p)"
  have "keeps (adds ?C s) (ensure_prerequisite cb poll disc p)" if "p \<in> set ps" for p
  proof -
    have "adds ?C a b" if "EnsureOperator cb poll (op_Package p) (op_Channel p) (op_CatalogSource p) (op_Namespace p) a = (r, b)"
      for a r b
      by (rule adds_mono [OF adds_EnsureOperator [OF assms(1) that]]) (rule UN_upper [OF \<open>p \<in> set ps\<close>])
    then have "keeps (adds ?C s) (EnsureOperator cb poll (op_Package p) (op_Channel p) (op_CatalogSource p) (op_Namespace p))"
      by (rule keeps_adds)
    moreover have "keeps (adds ?C s) (WaitForAPI d poll (op_GroupVersion p))" for d
      by (rule keeps_adds) (rule adds_WaitForAPI [OF assms(1)])
    ultimately show ?thesis
      unfolding ensure_prerequisite_def
      by (cases disc) (simp_all add: keeps_seq keeps_wrap keeps_const)
  qed
  then have "keeps (adds ?C s) (EnsurePrerequisites cb poll disc ps)"
    unfolding EnsurePrerequisites_def by (rule keeps_for_each)
  from keepsD [OF this adds_refl assms(2)] show ?thesis .
qed

section \<open>A cluster with one operator installed\<close>

definition ready_sub :: kobj where
  "ready_sub = plain_object (subscription_ref ''ops'' ''existing'')
     (SubscriptionBody (Some \<lparr>ss_package = ''kueue-operator'', ss_channel = ''old'', ss_source = ''src'',
        ss_sourceNamespace = OLMNamespace, ss_approval = ''Automatic''\<rparr>) ''kueue.v1'')"

definition ready_server :: "(unit, kbody) server" where
  "ready_server = \<lparr>
     sv_get = (\<lambda>r w. (if ref_kind r = ''Subscription'' then Inr ready_sub
        else if ref_kind r = ''ClusterServiceVersion'' then Inr (plain_object r (CsvBody ''Succeeded'' [] []))
        else Inl NotFound, w)),
     sv_create = (\<lambda>ob w. (Inr ob, w)), sv_update = (\<lambda>ob w. (Inr ob, w)), sv_delete = (\<lambda>r w. (None, w)),
     sv_list = (\<lambda>c k ns sel w. (Inr (if k = ''Subscription'' then [ready_sub] else []), w))\<rparr>"

definition ready_start :: "(unit, kbody) io" where
  "ready_start = \<lparr>io_world = (), io_trace = []\<rparr>"

definition ready_run :: "kerror option \<times> (unit, kbody) io" where
  "ready_run = EnsureOperator (Some ready_server) (rounds_poller 0) ''kueue-operator'' ''new'' ''other'' ''ns'' ready_start"

lemma ready_run_nil: "fst ready_run = None"
  by code_simp

lemma ready_listed:
  "k_list ready_server [] ''Subscription'' [] [] ready_start
     = (Inr [ready_sub], snd (k_list ready_server [] ''Subscription'' [] [] ready_start))"
  by (simp add: k_list_def ready_server_def)

theorem ensure_operator_reuses_witness:
  "fst ready_run = None \<and> adds {} ready_start (snd ready_run)
   \<and> operator_ready (subscription_ref ''ops'' ''existing'') (io_trace (snd ready_run))"
proof -
  have "EnsureOperator (Some ready_server) (rounds_poller 0) ''kueue-operator'' ''new'' ''other'' ''ns'' ready_start
      = (None, snd ready_run)"
    using ready_run_nil unfolding ready_run_def by (metis prod.collapse)
  moreover have "matching_subscriptions ''kueue-operator'' [ready_sub] = [ready_sub]"
    by (simp add: matching_subscriptions_def ready_sub_def plain_object_def)
  ultimately have "adds {} ready_start (snd ready_run)
      \<and> (None = (None :: kerror option) \<longrightarrow> operator_ready (o_ref ready_sub) (io_trace (snd ready_run)))"
    by (rule ensure_operator_reuses [OF rounds_poller_contract _ ready_listed])
  moreover have "o_ref ready_sub = subscription_ref ''ops'' ''existing''"
    by (simp add: ready_sub_def plain_object_def)
  ultimately show ?thesis using ready_run_nil by simp
qed

definition ready_prerequisites :: "OperatorPrerequisite list" where
  "ready_prerequisites = MulticlusterPrerequisites
     \<lparr>of_pipelineChannel = [], of_catalogSource = [], of_pipelinesNamespace = [], of_certManagerChannel = ''stable'',
      of_certManagerNamespace = ''cm'', of_kueueChannel = ''stable'', of_kueueNamespace = ''kq''\<rparr>"

theorem prerequisites_only_add_witness:
  "adds (touched ''openshift-cert-manager-operator'' ''cm'' \<union> touched ''kueue-operator'' ''kq'') ready_start
     (snd (EnsurePrerequisites (Some ready_server) (rounds_poller 0) None ready_prerequisites ready_start))"
proof -
  have "(\<Union>p \<in> set ready_prerequisites. touched (op_Package p) (op_Namespace p))
      = touched ''openshift-cert-manager-operator'' ''cm'' \<union> touched ''kueue-operator'' ''kq''"
    by (simp add: ready_prerequisites_def MulticlusterPrerequisites_def)
  with prerequisites_only_add [where cb = "Some ready_server" and disc = None and ps = ready_prerequisites
      and s = ready_start, OF rounds_poller_contract prod.collapse [symmetric]]
  show ?thesis by simp
qed

end
