(* ===== verification/OlmSubscription.thy ===== *)
theory OlmSubscription
  imports OlmBootstrap
begin

text \<open>
  \<open>pkg/olm/subscription.go\<close>: creating or updating a subscription and waiting until the operator
  it installs is ready. Rendering the subscription's template and applying it with \<open>oc\<close> is the
  argument \<open>apply\<close> (subscription name, channel, catalog source).
\<close>

section \<open>Desired states\<close>

text \<open>
  An \<open>inState\<close> function gets the object and the error of the read; a failed read of the typed
  client comes with a zero object.
\<close>

type_synonym in_state = "api_error + kobj \<Rightarrow> bool \<times> kerror option"

fun read_error :: "api_error + kobj \<Rightarrow> kerror option" where
  "read_error (Inl e) = Some (KApi e)"
| "read_error (Inr _) = None"

fun read_body :: "kbody \<Rightarrow> api_error + kobj \<Rightarrow> kbody" where
  "read_body zero (Inl _) = zero"
| "read_body zero (Inr ob) = o_body ob"

definition IsCSVSucceeded :: in_state where
  "IsCSVSucceeded res = (fst (csv_status (read_body (CsvBody [] [] []) res)) = ''Succeeded'', read_error res)"

definition IsSubscriptionInstalledCSVPresent :: in_state where
  "IsSubscriptionInstalledCSVPresent res =
     (let csv = installed_csv (read_body (SubscriptionBody None []) res)
      in (csv \<noteq> [] \<and> csv \<noteq> ''<none>'', read_error res))"

text \<open>\<open>lastState\<close> is what the latest read returned; the result carries it and the error.\<close>

definition in_state_condition ::
    "('w, kbody) server \<Rightarrow> ref \<Rightarrow> in_state \<Rightarrow> (('w, kbody, 'm) io_scheme, kerror) cond" where
  "in_state_condition sv r inState s = (case k_get sv r s of (res, s1) \<Rightarrow> (inState res, s1))"

definition last_state :: "ref \<Rightarrow> ('w, kbody, 'm) io_scheme \<Rightarrow> kobj option" where
  "last_state r s = last_read r (io_trace s)"

definition wait_in_state ::
    "('w, kbody) server \<Rightarrow> (('w, kbody, 'm) io_scheme, kerror) poller \<Rightarrow> string \<Rightarrow> ref \<Rightarrow> in_state \<Rightarrow>
     ('w, kbody, 'm) io_scheme \<Rightarrow> (kerror + kobj option) \<times> ('w, kbody, 'm) io_scheme" where
  "wait_in_state sv poll what r inState s =
     (case poll 10 480 True (in_state_condition sv r inState) s of
        (Some e, s') \<Rightarrow> (Inl (KContext (what @ '' '' @ ref_name r @ '' is not in desired state'')
            (the (of_poll (Some e)))), s')
      | (None, s') \<Rightarrow> (Inr (last_state r s'), s'))"

definition WaitForSubscriptionState ::
    "('w, kbody) server \<Rightarrow> (('w, kbody, 'm) io_scheme, kerror) poller \<Rightarrow> string \<Rightarrow> string \<Rightarrow> in_state \<Rightarrow>
     ('w, kbody, 'm) io_scheme \<Rightarrow> (kerror + kobj option) \<times> ('w, kbody, 'm) io_scheme" where
  "WaitForSubscriptionState sv poll name namespace inState =
     wait_in_state sv poll ''subscription'' (subscription_ref namespace name) inState"

definition WaitForClusterServiceVersionState ::
    "('w, kbody) server \<Rightarrow> (('w, kbody, 'm) io_scheme, kerror) poller \<Rightarrow> string \<Rightarrow> string \<Rightarrow> in_state \<Rightarrow>
     ('w, kbody, 'm) io_scheme \<Rightarrow> (kerror + kobj option) \<times> ('w, kbody, 'm) io_scheme" where
  "WaitForClusterServiceVersionState sv poll name namespace inState =
     wait_in_state sv poll ''clusterserviceversion'' (csv_ref namespace name) inState"

section \<open>Subscribing and updating\<close>

definition OperatorsNamespace :: string where
  "OperatorsNamespace = ''openshift-operators''"

definition getSubcription :: "('w, kbody) server \<Rightarrow> string \<Rightarrow> ('w, kbody, 'm) io_scheme \<Rightarrow>
    (kerror + kobj) \<times> ('w, kbody, 'm) io_scheme" where
  "getSubcription sv name s =
     (case k_get sv (subscription_ref OperatorsNamespace name) s of
        (Inl e, s1) \<Rightarrow> (Inl (KContext (''failed to get subscription '' @ name @ '' in namespace ''
            @ OperatorsNamespace) (KApi e)), s1)
      | (Inr sub, s1) \<Rightarrow> (Inr sub, s1))"

fun set_channel :: "string \<Rightarrow> kbody \<Rightarrow> kbody" where
  "set_channel channel (SubscriptionBody (Some spec) csv) = SubscriptionBody (Some (spec\<lparr>ss_channel := channel\<rparr>)) csv"
| "set_channel channel b = b"

definition UpdateSubscription :: "('w, kbody) server \<Rightarrow> string \<Rightarrow> string \<Rightarrow> ('w, kbody, 'm) io_scheme \<Rightarrow>
    (kerror + kobj) \<times> ('w, kbody, 'm) io_scheme" where
  "UpdateSubscription sv name channel s =
     (case getSubcription sv name s of
        (Inl e, s1) \<Rightarrow> (Inl e, s1)
      | (Inr sub, s1) \<Rightarrow>
          (case k_update sv (sub\<lparr>o_body := set_channel channel (o_body sub)\<rparr>) s1 of
             (Inl e, s2) \<Rightarrow> (Inl (KApi e), s2)
           | (Inr subs, s2) \<Rightarrow> (Inr subs, s2)))"

text \<open>The common tail of both: wait for an installed CSV, then for that CSV to succeed.\<close>

definition wait_operator_ready ::
    "('w, kbody) server \<Rightarrow> (('w, kbody, 'm) io_scheme, kerror) poller \<Rightarrow> string \<Rightarrow>
     ('w, kbody, 'm) io_scheme \<Rightarrow> (kerror + kobj option) \<times> ('w, kbody, 'm) io_scheme" where
  "wait_operator_ready sv poll name s =
     (case WaitForSubscriptionState sv poll name OperatorsNamespace IsSubscriptionInstalledCSVPresent s of
        (Inl e, s1) \<Rightarrow> (Inl e, s1)
      | (Inr subs, s1) \<Rightarrow>
          (case WaitForClusterServiceVersionState sv poll
                  (case subs of None \<Rightarrow> [] | Some sub \<Rightarrow> installed_csv (o_body sub))
                  OperatorsNamespace IsCSVSucceeded s1 of
             (Inl e, s2) \<Rightarrow> (Inl e, s2)
           | (Inr _, s2) \<Rightarrow> (Inr subs, s2)))"

definition SubscribeAndWaitForOperatorToBeReady ::
    "(string \<Rightarrow> string \<Rightarrow> string \<Rightarrow> ('w, kbody, 'm) io_scheme step) \<Rightarrow> ('w, kbody) server \<Rightarrow>
     (('w, kbody, 'm) io_scheme, kerror) poller \<Rightarrow> string \<Rightarrow> string \<Rightarrow> string \<Rightarrow>
     ('w, kbody, 'm) io_scheme \<Rightarrow> (kerror + kobj option) \<times> ('w, kbody, 'm) io_scheme" where
  "SubscribeAndWaitForOperatorToBeReady apply sv poll name channel source s =
     (case apply name channel source s of
        (Some e, s1) \<Rightarrow> (Inl (KContext ''failed to create subscription'' e), s1)
      | (None, s1) \<Rightarrow> wait_operator_ready sv poll name s1)"

definition UptadeSubscriptionAndWaitForOperatorToBeReady ::
    "('w, kbody) server \<Rightarrow> (('w, kbody, 'm) io_scheme, kerror) poller \<Rightarrow> string \<Rightarrow> string \<Rightarrow>
     ('w, kbody, 'm) io_scheme \<Rightarrow> (kerror + kobj option) \<times> ('w, kbody, 'm) io_scheme" where
  "UptadeSubscriptionAndWaitForOperatorToBeReady sv poll name channel s =
     (case UpdateSubscription sv name channel s of
        (Inl e, s1) \<Rightarrow> (Inl e, s1)
      | (Inr _, s1) \<Rightarrow> wait_operator_ready sv poll name s1)"

section \<open>What success means\<close>

lemma wait_in_state_ok:
  assumes "poll_contract poll" and "wait_in_state sv poll what r inState s = (Inr res, s')"
  obtains got tr where "io_trace s' = Got r got # tr" and "inState got = (True, None)"
    and "res = (case got of Inl _ \<Rightarrow> None | Inr ob \<Rightarrow> Some ob)"
proof -
  have p: "poll 10 480 True (in_state_condition sv r inState) s = (None, s')" and res: "res = last_state r s'"
    using assms(2) by (auto simp: wait_in_state_def split: prod.splits option.splits)
  obtain u where u: "in_state_condition sv r inState u = ((True, None), s')"
    using poll_None [OF assms(1) p] by metis
  then obtain got where "k_get sv r u = (got, s')" and st: "inState got = (True, None)"
    by (auto simp: in_state_condition_def split: prod.splits)
  then have "io_trace s' = Got r got # io_trace u" using call_frames(1) by blast
  with that st show ?thesis by (simp add: res last_state_def split: sum.splits)
qed

text \<open>
  the subscription helpers return only once the operator is ready: the subscription returned
  names an installed CSV other than "<none>", and the very last read found that CSV, in the
  operators' namespace, with phase Succeeded.
\<close>

theorem subscription_wait_ready:
  assumes "poll_contract poll" and "wait_operator_ready sv poll name s = (Inr res, s')"
  shows "\<exists>sub csv rest. res = Some sub \<and> installed_csv (o_body sub) \<notin> {[], ''<none>''}
     \<and> io_trace s' = Got (csv_ref OperatorsNamespace (installed_csv (o_body sub))) (Inr csv) # rest
     \<and> fst (csv_status (o_body csv)) = ''Succeeded''"
proof -
  from assms(2) obtain s1 x where
    1: "wait_in_state sv poll ''subscription'' (subscription_ref OperatorsNamespace name)
          IsSubscriptionInstalledCSVPresent s = (Inr res, s1)"
    and 2: "wait_in_state sv poll ''clusterserviceversion''
          (csv_ref OperatorsNamespace (case res of None \<Rightarrow> [] | Some sub \<Rightarrow> installed_csv (o_body sub)))
          IsCSVSucceeded s1 = (Inr x, s')"
    by (auto simp: wait_operator_ready_def WaitForSubscriptionState_def WaitForClusterServiceVersionState_def
        split: prod.splits sum.splits)
  obtain got1 where g1: "IsSubscriptionInstalledCSVPresent got1 = (True, None)"
    and r1: "res = (case got1 of Inl _ \<Rightarrow> None | Inr ob \<Rightarrow> Some ob)"
    by (rule wait_in_state_ok [OF assms(1) 1])
  then obtain sub where sub: "res = Some sub" "installed_csv (o_body sub) \<notin> {[], ''<none>''}"
    by (cases got1) (auto simp: IsSubscriptionInstalledCSVPresent_def Let_def)
  obtain got2 tr where g2: "IsCSVSucceeded got2 = (True, None)"
    and t2: "io_trace s' = Got (csv_ref OperatorsNamespace (installed_csv (o_body sub))) got2 # tr"
    using wait_in_state_ok [OF assms(1) 2] by (metis option.case(2) sub(1))
  then show ?thesis using sub by (cases got2) (auto simp: IsCSVSucceeded_def)
qed

definition ready_wait :: "(kerror + kobj option) \<times> (unit, kbody) io" where
  "ready_wait = wait_operator_ready ready_server (rounds_poller 0) ''existing'' ready_start"

theorem subscription_wait_ready_witness:
  "\<exists>csv rest. io_trace (snd ready_wait) = Got (csv_ref OperatorsNamespace ''kueue.v1'') (Inr csv) # rest
     \<and> fst (csv_status (o_body csv)) = ''Succeeded''"
proof -
  have "fst ready_wait = Inr (Some ready_sub)"
    by (simp add: ready_wait_def wait_operator_ready_def WaitForSubscriptionState_def wait_in_state_def
        rounds_poller_def in_state_condition_def k_get_def ready_server_def ready_start_def
        subscription_ref_def csv_ref_def IsSubscriptionInstalledCSVPresent_def ready_sub_def plain_object_def
        last_state_def WaitForClusterServiceVersionState_def IsCSVSucceeded_def)
  then have "wait_operator_ready ready_server (rounds_poller 0) ''existing'' ready_start
      = (Inr (Some ready_sub), snd ready_wait)"
    unfolding ready_wait_def by (metis prod.collapse)
  from subscription_wait_ready [OF rounds_poller_contract this] show ?thesis
    by (auto simp: ready_sub_def plain_object_def)
qed

end
