(* ===== verification/OperatorConfig.thy ===== *)
theory OperatorConfig
  imports Effects
begin

text \<open>
  \<open>pkg/operator/tektonconfig.go\<close>: waiting for the operator's TektonConfig. \<open>Fail\<close> and a failed
  \<open>Expect\<close> end the test; they are the error \<open>KAbort\<close>, also when they happen inside a poll's
  condition. \<open>names.TektonConfig\<close> is an argument, and so is the reader \<open>conds\<close> of an object's status
  conditions: the bodies of objects are those of the caller.
\<close>

section \<open>Operations\<close>

definition tektonConfig_ref :: "string \<Rightarrow> ref" where
  "tektonConfig_ref name = Ref [] ''TektonConfig'' [] name"

text \<open>\<open>tcCR\<close>, which the poll's closure assigns, is the latest successful read.\<close>

definition exists_condition :: "('w, 'b) server \<Rightarrow> ref \<Rightarrow> (('w, 'b, 'm) io_scheme, kerror) cond" where
  "exists_condition sv r s =
     (case k_get sv r s of
        (Inl e, s1) \<Rightarrow> if e = NotFound then ((False, None), s1) else ((False, Some (KApi e)), s1)
      | (Inr _, s1) \<Rightarrow> ((True, None), s1))"

definition EnsureTektonConfigExists ::
    "('w, 'b) server \<Rightarrow> (('w, 'b, 'm) io_scheme, kerror) poller \<Rightarrow> string \<Rightarrow>
     ('w, 'b, 'm) io_scheme \<Rightarrow> (kerror + 'b kobject) \<times> ('w, 'b, 'm) io_scheme" where
  "EnsureTektonConfigExists sv poll name s =
     (let r = tektonConfig_ref name
      in (case k_get sv r s of
            (Inr tc, s1) \<Rightarrow> (Inr tc, s1)
          | (Inl _, s1) \<Rightarrow>
              (case poll 5 600 False (exists_condition sv r) s1 of
                 (Some e, s2) \<Rightarrow> (Inl (the (of_poll (Some e))), s2)
               | (None, s2) \<Rightarrow>
                   (case last_read r (io_trace s2) of
                      Some tc \<Rightarrow> (Inr tc, s2)
                    | None \<Rightarrow> (Inl (KMsg ''no TektonConfig read''), s2)))))"

text \<open>The loop over the conditions, with the test as the code has it.\<close>

fun conditions_settled :: "condition list \<Rightarrow> bool" where
  "conditions_settled [] = True"
| "conditions_settled (cc # ccs) =
     (if cd_type cc \<noteq> ''InstallSucceeded'' \<and> cd_status cc \<noteq> ''True'' then False
      else conditions_settled ccs)"

definition installed_condition ::
    "('b \<Rightarrow> condition list) \<Rightarrow> ('w, 'b) server \<Rightarrow> (('w, 'b, 'm) io_scheme, kerror) poller \<Rightarrow> string \<Rightarrow>
     (('w, 'b, 'm) io_scheme, kerror) cond" where
  "installed_condition conds sv poll name s =
     (case EnsureTektonConfigExists sv poll name s of
        (Inl e, s1) \<Rightarrow> ((False, Some (KAbort ''TektonConfig CR error'')), s1)
      | (Inr cr, s1) \<Rightarrow> ((conditions_settled (conds (o_body cr)), None), s1))"

definition EnsureTektonConfigStatusInstalled ::
    "('b \<Rightarrow> condition list) \<Rightarrow> ('w, 'b) server \<Rightarrow> (('w, 'b, 'm) io_scheme, kerror) poller \<Rightarrow> string \<Rightarrow>
     ('w, 'b, 'm) io_scheme step" where
  "EnsureTektonConfigStatusInstalled conds sv poll name s =
     (case poll 5 600 True (installed_condition conds sv poll name) s of
        (None, s') \<Rightarrow> (None, s')
      | (Some _, s') \<Rightarrow> (Some (KAbort ''TektonConfig failed to reach installed status''), s'))"

definition AssertTektonConfigCRReadyStatus ::
    "('b \<Rightarrow> condition list) \<Rightarrow> (condition list \<Rightarrow> bool) \<Rightarrow> ('w, 'b) server \<Rightarrow> (('w, 'b, 'm) io_scheme, kerror) poller \<Rightarrow> string \<Rightarrow>
     ('w, 'b, 'm) io_scheme step" where
  "AssertTektonConfigCRReadyStatus conds isReady sv poll name s =
     (case poll 5 600 True
        (\<lambda>s. case k_get sv (tektonConfig_ref name) s of
           (Inl e, s1) \<Rightarrow> ((isReady [], Some (KApi e)), s1)
         | (Inr tc, s1) \<Rightarrow> ((isReady (conds (o_body tc)), None), s1)) s of
        (None, s') \<Rightarrow> (None, s')
      | (Some _, s') \<Rightarrow> (Some (KAbort ''TektonConfigCR failed to get to the READY status''), s'))"

definition verifyNoTektonConfigCR :: "('w, 'b) server \<Rightarrow> ('w, 'b, 'm) io_scheme step" where
  "verifyNoTektonConfigCR sv s =
     (case k_list sv [] ''TektonConfig'' [] [] s of
        (Inl _, s1) \<Rightarrow> (Some (KAbort ''failed to list TektonConfig CRs''), s1)
      | (Inr items, s1) \<Rightarrow>
          if items = [] then (None, s1) else (Some (KAbort ''expected no TektonConfig CRs to exist''), s1))"

definition TektonConfigCRDelete ::
    "('w, 'b) server \<Rightarrow> (('w, 'b, 'm) io_scheme, kerror) poller \<Rightarrow> string \<Rightarrow>
     ('w, 'b, 'm) io_scheme step" where
  "TektonConfigCRDelete sv poll name s =
     (case k_delete sv (tektonConfig_ref name) s of
        (Some _, s1) \<Rightarrow> (Some (KAbort ''TektonConfigCR failed to delete''), s1)
      | (None, s1) \<Rightarrow>
          (case poll 5 600 True
             (\<lambda>s. case k_get sv (tektonConfig_ref name) s of
                (Inl e, s2) \<Rightarrow> if e = NotFound then ((True, None), s2) else ((False, Some (KApi e)), s2)
              | (Inr _, s2) \<Rightarrow> ((False, None), s2)) s1 of
             (None, s2) \<Rightarrow> verifyNoTektonConfigCR sv s2
           | (Some _, s2) \<Rightarrow> (Some (KAbort ''timed out waiting on TektonConfigCR to delete''), s2)))"

section \<open>Invariants\<close>

context call_invariant
begin

lemma keeps_EnsureTektonConfigExists:
  assumes "poll_contract poll"
  shows "keeps I (EnsureTektonConfigExists sv poll name)"
proof -
  have "keeps I (exists_condition sv r)" for r
    by (rule keepsI) (auto simp: exists_condition_def split: result_splits elim!: inv_calls)
  then show ?thesis
    by (intro keepsI) (auto simp: EnsureTektonConfigExists_def Let_def split: result_splits
        elim!: inv_get keeps_pollE [OF assms])
qed

lemma keeps_EnsureTektonConfigStatusInstalled:
  assumes "poll_contract poll"
  shows "keeps I (EnsureTektonConfigStatusInstalled conds sv poll name)"
proof -
  have "keeps I (installed_condition conds sv poll name)"
    by (rule keepsI) (auto simp: installed_condition_def split: result_splits
        elim!: keepsE [OF keeps_EnsureTektonConfigExists [OF assms]])
  then show ?thesis
    by (intro keepsI) (auto simp: EnsureTektonConfigStatusInstalled_def split: result_splits
        elim!: keeps_pollE [OF assms])
qed

end

section \<open>Properties\<close>

lemma conditions_settled_iff:
  "conditions_settled ccs \<longleftrightarrow>
     (\<forall>cc \<in> set ccs. cd_type cc = ''InstallSucceeded'' \<or> cd_status cc = ''True'')"
  by (induction ccs) auto

text \<open>
  deleting the TektonConfig succeeds only if the delete was accepted, the object was then
  read as gone, and the final list of TektonConfigs, the last thing read, is empty.
\<close>

theorem delete_leaves_none:
  assumes "poll_contract poll" and "TektonConfigCRDelete sv poll name s = (None, s')"
  shows "\<exists>rest. io_trace s' = Listed [] ''TektonConfig'' [] [] (Inr [])
     # Got (tektonConfig_ref name) (Inl NotFound) # rest"
proof -
  let ?c = "\<lambda>s. case k_get sv (tektonConfig_ref name) s of
      (Inl e, s2) \<Rightarrow> if e = NotFound then ((True, None), s2) else ((False, Some (KApi e)), s2)
    | (Inr _, s2) \<Rightarrow> ((False, None), s2)"
  from assms(2) obtain s1 s2 where p: "poll 5 600 True ?c s1 = (None, s2)"
    and l: "verifyNoTektonConfigCR sv s2 = (None, s')"
    by (auto simp: TektonConfigCRDelete_def split: prod.splits option.splits)
  obtain u where "?c u = ((True, None), s2)" by (rule poll_None [OF assms(1) p])
  then have "k_get sv (tektonConfig_ref name) u = (Inl NotFound, s2)"
    by (auto split: prod.splits sum.splits if_splits)
  then have "io_trace s2 = Got (tektonConfig_ref name) (Inl NotFound) # io_trace u"
    using call_frames(1) by blast
  moreover have "k_list sv [] ''TektonConfig'' [] [] s2 = (Inr [], s')"
    using l by (auto simp: verifyNoTektonConfigCR_def split: prod.splits sum.splits if_splits)
  then have "io_trace s' = Listed [] ''TektonConfig'' [] [] (Inr []) # io_trace s2"
    by (rule call_frames(5) [THEN conjunct1])
  ultimately show ?thesis by simp
qed

text \<open>A server whose TektonConfigs are gone.\<close>

definition gone_server :: "(unit, kbody) server" where
  "gone_server = \<lparr>sv_get = (\<lambda>r w. (Inl NotFound, w)), sv_create = (\<lambda>ob w. (Inr ob, w)),
     sv_update = (\<lambda>ob w. (Inr ob, w)), sv_delete = (\<lambda>r w. (None, w)), sv_list = (\<lambda>c k ns sel w. (Inr [], w))\<rparr>"

definition deleted_run :: "kerror option \<times> (unit, kbody) io" where
  "deleted_run = TektonConfigCRDelete gone_server (rounds_poller 0) ''config'' \<lparr>io_world = (), io_trace = []\<rparr>"

theorem delete_leaves_none_witness:
  "\<exists>rest. io_trace (snd deleted_run) = Listed [] ''TektonConfig'' [] [] (Inr [])
     # Got (tektonConfig_ref ''config'') (Inl NotFound) # rest"
proof -
  have "fst deleted_run = None" by code_simp
  then have "TektonConfigCRDelete gone_server (rounds_poller 0) ''config'' \<lparr>io_world = (), io_trace = []\<rparr>
      = (None, snd deleted_run)"
    unfolding deleted_run_def by (metis prod.collapse)
  from delete_leaves_none [OF rounds_poller_contract this] show ?thesis .
qed

text \<open>
  EnsureTektonConfigStatusInstalled does not look at the InstallSucceeded condition it waits
  for: a TektonConfig read with InstallSucceeded False passes at once when every other condition
  is True, and is waited for as long as some other condition is not.
\<close>

theorem installed_ignores_install_succeeded:
  assumes "poll_contract poll" and "k_get sv (tektonConfig_ref name) s = (Inr tc, s1)"
    and "\<forall>cc \<in> set (conds (o_body tc)). cd_type cc = ''InstallSucceeded'' \<or> cd_status cc = ''True''"
  shows "EnsureTektonConfigStatusInstalled conds sv poll name s = (None, s1)"
proof -
  have "installed_condition conds sv poll name s = ((True, None), s1)"
    using assms(2,3) by (simp add: installed_condition_def EnsureTektonConfigExists_def conditions_settled_iff)
  from poll_immediate_done [where f = "installed_condition conds sv poll name", OF assms(1) this] show ?thesis
    by (simp add: EnsureTektonConfigStatusInstalled_def)
qed

definition broken_config :: kobj where
  "broken_config = \<lparr>o_ref = tektonConfig_ref ''config'', o_labels = Map.empty, o_uid = [],
     o_body = ConfigBody zero_scheduler
       [\<lparr>cd_type = ''InstallSucceeded'', cd_status = ''False'', cd_reason = ''Error'', cd_message = []\<rparr>]\<rparr>"

theorem installed_ignores_install_succeeded_witness:
  "EnsureTektonConfigStatusInstalled status_conditions (gone_server\<lparr>sv_get := \<lambda>r w. (Inr broken_config, w)\<rparr>)
     (rounds_poller 0) ''config'' (\<lparr>io_world = (), io_trace = []\<rparr> :: (unit, kbody) io)
   = (None, \<lparr>io_world = (), io_trace = [Got (tektonConfig_ref ''config'') (Inr broken_config)]\<rparr>)"
  by (rule installed_ignores_install_succeeded [OF rounds_poller_contract])
    (auto simp: k_get_def broken_config_def)

end
