(* ===== verification/CmdLine.thy ===== *)
theory CmdLine
  imports Effects
begin

text \<open>
  \<open>pkg/cmd/cmd.go\<close>: running CLI commands. \<open>icmd.RunCmd\<close> is the parameter \<open>sh\<close> (a function of
  the command line and the world; its timeout is part of it); the connection flags of
  \<open>config.Flags\<close> are the record \<open>connection\<close>.
\<close>

section \<open>The command line\<close>

record connection =
  cn_Kubeconfig :: string
  cn_Context :: string
  cn_Cluster :: string

fun hasFlag :: "string list \<Rightarrow> string \<Rightarrow> bool" where
  "hasFlag [] name = False"
| "hasFlag (arg # args) name =
     (if arg = ''--'' then False
      else if arg = name \<or> has_prefix arg (name @ ''='') then True
      else hasFlag args name)"

definition connection_flags :: "connection \<Rightarrow> (string \<times> string) list" where
  "connection_flags cn =
     [(''--kubeconfig'', cn_Kubeconfig cn), (''--context'', cn_Context cn), (''--cluster'', cn_Cluster cn)]"

text \<open>The loop over the flags, appending to \<open>commandArgs\<close>.\<close>

fun add_flags :: "(string \<times> string) list \<Rightarrow> string list \<Rightarrow> string list \<Rightarrow> string list" where
  "add_flags [] rest commandArgs = commandArgs"
| "add_flags ((name, val) # fs) rest commandArgs =
     (if val \<noteq> [] \<and> \<not> hasFlag rest name then add_flags fs rest (commandArgs @ [name, val])
      else add_flags fs rest commandArgs)"

fun Command :: "connection \<Rightarrow> string list \<Rightarrow> string list" where
  "Command cn [] = []"
| "Command cn (prog # rest) =
     (if prog \<noteq> ''oc'' \<and> prog \<noteq> ''kubectl'' then prog # rest
      else add_flags (connection_flags cn) rest [prog] @ rest)"

section \<open>Running\<close>

type_synonym 'w shell = "string list \<Rightarrow> 'w \<Rightarrow> cmd_result \<times> 'w"

definition Run :: "'w shell \<Rightarrow> connection \<Rightarrow> string list \<Rightarrow> ('w, 'b, 'm) io_scheme \<Rightarrow>
    cmd_result \<times> ('w, 'b, 'm) io_scheme" where
  "Run sh cn args s = k_run sh (Command cn args) s"

text \<open>\<open>Assert\<close>: a failed \<open>Expect\<close> ends the test.\<close>

definition Assert :: "'w shell \<Rightarrow> connection \<Rightarrow> int \<Rightarrow> string list \<Rightarrow> ('w, 'b, 'm) io_scheme \<Rightarrow>
    (kerror + cmd_result) \<times> ('w, 'b, 'm) io_scheme" where
  "Assert sh cn code args s =
     (case Run sh cn args s of (res, s') \<Rightarrow>
        if ExitCode res = code then (Inr res, s')
        else (Inl (KAbort (''expected exit code '' @ show_int code @ '' but got '' @ show_int (ExitCode res)
          @ [CHR 10] @ ''stdout:'' @ [CHR 10] @ Stdout res @ [CHR 10] @ ''stderr:'' @ [CHR 10] @ Stderr res)), s'))"

definition MustSucceed :: "'w shell \<Rightarrow> connection \<Rightarrow> string list \<Rightarrow> ('w, 'b, 'm) io_scheme \<Rightarrow>
    (kerror + cmd_result) \<times> ('w, 'b, 'm) io_scheme" where
  "MustSucceed sh cn args s = Assert sh cn 0 args s"

text \<open>The variants with a timeout of their own, in seconds, which is then the first argument of \<open>sh\<close>.\<close>

definition RunIncreasedTimeout :: "(nat \<Rightarrow> 'w shell) \<Rightarrow> connection \<Rightarrow> nat \<Rightarrow> string list \<Rightarrow> ('w, 'b, 'm) io_scheme \<Rightarrow>
    cmd_result \<times> ('w, 'b, 'm) io_scheme" where
  "RunIncreasedTimeout sh cn timeout args s = k_run (sh timeout) (Command cn args) s"

definition AssertIncreasedTimeout :: "(nat \<Rightarrow> 'w shell) \<Rightarrow> connection \<Rightarrow> int \<Rightarrow> nat \<Rightarrow> string list \<Rightarrow>
    ('w, 'b, 'm) io_scheme \<Rightarrow> (kerror + cmd_result) \<times> ('w, 'b, 'm) io_scheme" where
  "AssertIncreasedTimeout sh cn code timeout args s = Assert (sh timeout) cn code args s"

definition MustSucceedIncreasedTimeout :: "(nat \<Rightarrow> 'w shell) \<Rightarrow> connection \<Rightarrow> nat \<Rightarrow> string list \<Rightarrow>
    ('w, 'b, 'm) io_scheme \<Rightarrow> (kerror + cmd_result) \<times> ('w, 'b, 'm) io_scheme" where
  "MustSucceedIncreasedTimeout sh cn timeout args s = AssertIncreasedTimeout sh cn 0 timeout args s"

text \<open>
  \<open>RunWithEnv\<close> adds variables to the environment of the command: it is recorded as run through
  \<open>env\<close>. With a standard input, \<open>sh\<close> is the shell that reads it.
\<close>

definition RunWithEnv :: "'w shell \<Rightarrow> connection \<Rightarrow> string list \<Rightarrow> string list \<Rightarrow> ('w, 'b, 'm) io_scheme \<Rightarrow>
    cmd_result \<times> ('w, 'b, 'm) io_scheme" where
  "RunWithEnv sh cn env args s = k_run sh (''env'' # env @ Command cn args) s"

definition MustSucceedWithEnv :: "'w shell \<Rightarrow> connection \<Rightarrow> string list \<Rightarrow> string list \<Rightarrow> ('w, 'b, 'm) io_scheme \<Rightarrow>
    (kerror + cmd_result) \<times> ('w, 'b, 'm) io_scheme" where
  "MustSucceedWithEnv sh cn env args s =
     (case RunWithEnv sh cn env args s of (res, s') \<Rightarrow>
        if ExitCode res = 0 then (Inr res, s') else (Inl (KAbort ''expected exit code 0''), s'))"

definition MustSucceedWithStdin :: "(string \<Rightarrow> 'w shell) \<Rightarrow> connection \<Rightarrow> string \<Rightarrow> string list \<Rightarrow>
    ('w, 'b, 'm) io_scheme \<Rightarrow> (kerror + cmd_result) \<times> ('w, 'b, 'm) io_scheme" where
  "MustSucceedWithStdin sh cn stdin args = MustSucceed (sh stdin) cn args"

section \<open>Facts\<close>

text \<open>The command lines of a trace, newest first.\<close>

fun ran_lines :: "'b event list \<Rightarrow> string list list" where
  "ran_lines [] = []"
| "ran_lines (Ran line _ # tr) = line # ran_lines tr"
| "ran_lines (_ # tr) = ran_lines tr"

lemma ran_lines_run:
  "Run sh cn args s = (res, s') \<Longrightarrow> ran_lines (io_trace s') = Command cn args # ran_lines (io_trace s)"
  by (auto simp: Run_def dest!: call_frames(6))

lemma run_frames:
  "Run sh cn args s = (res, s') \<Longrightarrow>
     io_trace s' = Ran (Command cn args) res # io_trace s \<and> io.more s' = io.more s"
  unfolding Run_def by (rule call_frames(6))

lemma add_flags_acc: "add_flags fs rest acc = acc @ add_flags fs rest []"
proof (induction fs arbitrary: acc)
  case (Cons f fs)
  obtain n v where f: "f = (n, v)" by (cases f)
  show ?case
    using Cons.IH [of "acc @ [n, v]"] Cons.IH [of "[n, v]"] Cons.IH [of acc] by (simp add: f)
qed simp

lemma hasFlag_iff:
  "hasFlag args name \<longleftrightarrow>
     (\<exists>arg \<in> set (takeWhile (\<lambda>a. a \<noteq> ''--'') args). arg = name \<or> has_prefix arg (name @ ''=''))"
  by (induction args) auto

lemma add_flags_pairs:
  "add_flags fs rest [] = concat (map (\<lambda>(n, v). [n, v]) (filter (\<lambda>(n, v). v \<noteq> [] \<and> \<not> hasFlag rest n) fs))"
proof (induction fs)
  case (Cons f fs)
  obtain n v where "f = (n, v)" by (cases f)
  with Cons add_flags_acc [of fs rest "[n, v]"] show ?case by simp
qed simp

lemma hasFlag_append:
  "''--'' \<notin> set xs \<Longrightarrow> hasFlag (xs @ ys) name \<longleftrightarrow> hasFlag xs name \<or> hasFlag ys name"
  by (induction xs) auto

lemma hasFlag_mem: "''--'' \<notin> set xs \<Longrightarrow> name \<in> set xs \<Longrightarrow> hasFlag xs name"
  by (induction xs) auto

section \<open>Properties\<close>

text \<open>
  what Command returns is the caller's command line with only connection flags put between
  the program and its arguments: each configured flag that the caller did not give itself, with
  its value, and nothing else; programs other than oc and kubectl get the line unchanged.
\<close>

theorem command_inserts_flags:
  "Command cn (prog # rest) =
     prog # (if prog \<in> {''oc'', ''kubectl''}
       then concat (map (\<lambda>(n, v). [n, v])
              (filter (\<lambda>(n, v). v \<noteq> [] \<and> \<not> hasFlag rest n) (connection_flags cn)))
       else []) @ rest"
  using add_flags_acc [of "connection_flags cn" rest "[prog]"] by (auto simp: add_flags_pairs)

text \<open>
  adding the connection flags is idempotent as long as no configured value is the terminator
  "--" itself: a command line that went through Command once is not changed by a second run.
\<close>

theorem command_idempotent:
  assumes "''--'' \<notin> {cn_Kubeconfig cn, cn_Context cn, cn_Cluster cn}"
  shows "Command cn (Command cn args) = Command cn args"
proof (cases args)
  case (Cons prog rest)
  define added where "added = concat (map (\<lambda>(n, v). [n, v])
      (filter (\<lambda>(n, v). v \<noteq> [] \<and> \<not> hasFlag rest n) (connection_flags cn)))"
  have a: "''--'' \<notin> set added" using assms by (auto simp: added_def connection_flags_def)
  have "hasFlag (added @ rest) n" if "(n, v) \<in> set (connection_flags cn)" and "v \<noteq> []" for n v
  proof (cases "hasFlag rest n")
    case False
    with that have "n \<in> set added" by (force simp: added_def)
    with a show ?thesis by (simp add: hasFlag_append hasFlag_mem)
  qed (simp add: hasFlag_append [OF a])
  then have "add_flags (connection_flags cn) (added @ rest) [] = []"
    by (auto simp: add_flags_pairs)
  then have "add_flags (connection_flags cn) (added @ rest) [prog] = [prog]"
    using add_flags_acc [of "connection_flags cn" "added @ rest" "[prog]"] by simp
  moreover have "add_flags (connection_flags cn) rest [prog] = prog # added"
    using add_flags_acc [of "connection_flags cn" rest "[prog]"] by (simp add: added_def add_flags_pairs)
  ultimately show ?thesis by (auto simp: Cons)
qed simp

theorem command_idempotent_witness:
  "Command \<lparr>cn_Kubeconfig = ''/kc'', cn_Context = ''ctx'', cn_Cluster = []\<rparr> [''oc'', ''--context=x'', ''get'']
     = [''oc'', ''--kubeconfig'', ''/kc'', ''--context=x'', ''get'']
   \<and> Command \<lparr>cn_Kubeconfig = ''/kc'', cn_Context = ''ctx'', cn_Cluster = []\<rparr>
       [''oc'', ''--kubeconfig'', ''/kc'', ''--context=x'', ''get'']
     = [''oc'', ''--kubeconfig'', ''/kc'', ''--context=x'', ''get'']"
proof -
  let ?cn = "\<lparr>cn_Kubeconfig = ''/kc'', cn_Context = ''ctx'', cn_Cluster = []\<rparr> :: connection"
  have c: "Command ?cn [''oc'', ''--context=x'', ''get'']
      = [''oc'', ''--kubeconfig'', ''/kc'', ''--context=x'', ''get'']" by code_simp
  with command_idempotent [of ?cn "[''oc'', ''--context=x'', ''get'']"] show ?thesis by simp
qed

end
