(* ===== verification/MultiCluster.thy ===== *)
theory MultiCluster
  imports CmdLine OlmBootstrap OperatorConfig
begin

text \<open>
  \<open>pkg/multicluster/multicluster.go\<close>: turning one cluster into a multi-cluster Hub that is its
  own worker. The environment's fields extend the client's \<open>io\<close> record; what the package takes
  from outside \<open>src/\<close> is the record \<open>mc_deps\<close>. This theory holds the ownership labels and the
  operations on the TektonConfig and its network policies.
\<close>

section \<open>The environment\<close>

record 'w mc_state = "('w, kbody) io" +
  e_prefix :: string
  e_workerName :: string
  e_secretUID :: string
  e_clusterUID :: string
  e_kueueUID :: string
  e_kueueOwned :: bool
  e_origScheduler :: "scheduler option"
  e_origNPJSON :: string
  e_origMAGExists :: bool
  e_origMAGDisabled :: string

text \<open>
  \<open>x_discovery\<close> is \<open>ServerResourcesForGroupVersion\<close>, \<open>x_newClient\<close> \<open>NewClientFromKubeconfig\<close>,
  \<open>x_nestedMap\<close> \<open>unstructured.NestedMap\<close> (None when the field is not there), \<open>x_marshal\<close>
  \<open>json.Marshal\<close>, \<open>x_nestedSlice\<close> and \<open>x_writeKubeconfig\<close> as in \<open>pkg/tektonkueue\<close>, and
  \<open>x_configName\<close> the name of the TektonConfig in \<open>store.GetCRNames()\<close>.
\<close>

record 'w mc_deps =
  x_server :: "('w, kbody) server"
  x_poll :: "('w mc_state, kerror) poller"
  x_retry :: "('w mc_state, kerror) attempt \<Rightarrow> 'w mc_state \<Rightarrow> kerror option \<times> 'w mc_state"
  x_shell :: "'w shell"
  x_connection :: connection
  x_flags :: operator_flags
  x_discovery :: "string \<Rightarrow> 'w \<Rightarrow> bool \<times> 'w"
  x_newClient :: "string + ('w, kbody) server"
  x_nestedMap :: "json \<Rightarrow> string list \<Rightarrow> string + (string \<times> json) list option"
  x_nestedSlice :: "json \<Rightarrow> string list \<Rightarrow> string + json list option"
  x_marshal :: "(string \<times> json) list \<Rightarrow> string + string"
  x_writeKubeconfig :: "string \<Rightarrow> string \<Rightarrow> string \<Rightarrow> string + string"
  x_configName :: string

definition mc_deps_ok :: "'w mc_deps \<Rightarrow> bool" where
  "mc_deps_ok d \<longleftrightarrow> poll_contract (x_poll d) \<and> retry_contract k_conflict (x_retry d)"

text \<open>\<open>NewEnvironment\<close> at the time \<open>nanos\<close>, printed with \<open>%x\<close>.\<close>

definition hex_char :: "nat \<Rightarrow> char" where
  "hex_char d = (if d < 10 then digit_char d else char_of (87 + d))"

fun show_hex :: "nat \<Rightarrow> string" where
  "show_hex n = (if n < 16 then [hex_char n] else show_hex (n div 16) @ [hex_char (n mod 16)])"

declare show_hex.simps [simp del]

definition NewEnvironment_mc :: "nat \<Rightarrow> ('w, kbody) io \<Rightarrow> 'w mc_state" where
  "NewEnvironment_mc nanos s =
     (let pfx = ''rtg-np-'' @ show_hex nanos
      in \<lparr>io_world = io_world s, io_trace = io_trace s, e_prefix = pfx, e_workerName = pfx @ ''-self'',
          e_secretUID = [], e_clusterUID = [], e_kueueUID = [], e_kueueOwned = False,
          e_origScheduler = None, e_origNPJSON = [], e_origMAGExists = False, e_origMAGDisabled = []\<rparr>)"

definition labels_mc :: "string \<Rightarrow> (string \<rightharpoonup> string)" where
  "labels_mc pfx =
     [''app.kubernetes.io/managed-by'' \<mapsto> ''release-tests-ginkgo'',
      ''app.kubernetes.io/instance'' \<mapsto> pfx]"

definition owns_mc :: "string \<Rightarrow> (string \<rightharpoonup> string) \<Rightarrow> bool" where
  "owns_mc pfx ls =
     (label_of ls ''app.kubernetes.io/managed-by'' = ''release-tests-ginkgo''
      \<and> label_of ls ''app.kubernetes.io/instance'' = pfx \<and> pfx \<noteq> [])"

interpretation mc_labels: ownership owns_mc labels_mc "\<lambda>p. p \<noteq> []"
  by unfold_locales (auto simp: owns_mc_def labels_mc_def label_of_def)

section \<open>Network policies\<close>

definition PoliciesByComponent :: "string \<rightharpoonup> string list" where
  "PoliciesByComponent =
     [''scheduler'' \<mapsto> [''scheduler-controller'', ''scheduler-controller-default-deny'',
         ''scheduler-webhook'', ''scheduler-webhook-default-deny''],
      ''proxy-aae'' \<mapsto> [''proxy-aae'', ''proxy-aae-default-deny''],
      ''syncer-service'' \<mapsto> [''syncer-service-controller'', ''syncer-service-default-deny'']]"

definition HubOnlyComponents :: "string list" where
  "HubOnlyComponents = [''proxy-aae'', ''syncer-service'']"

definition policy_ref :: "string \<Rightarrow> ref" where
  "policy_ref name = Ref [] ''NetworkPolicy'' ''openshift-pipelines'' name"

definition policy_condition :: "'w mc_deps \<Rightarrow> string \<Rightarrow> bool \<Rightarrow> ('w mc_state, kerror) cond" where
  "policy_condition d name shouldBePresent s =
     (case k_get (x_server d) (policy_ref name) s of
        (Inl e, s1) \<Rightarrow>
          if e = NotFound then ((\<not> shouldBePresent, None), s1) else ((False, Some (KApi e)), s1)
      | (Inr _, s1) \<Rightarrow> ((shouldBePresent, None), s1))"

definition assertPolicy :: "'w mc_deps \<Rightarrow> string \<Rightarrow> bool \<Rightarrow> 'w mc_state step" where
  "assertPolicy d name shouldBePresent s =
     (case x_poll d 5 600 True (policy_condition d name shouldBePresent) s of
        (err, s') \<Rightarrow> (of_poll err, s'))"

definition assert_component :: "'w mc_deps \<Rightarrow> bool \<Rightarrow> string \<Rightarrow> 'w mc_state step" where
  "assert_component d shouldBePresent component s =
     (case PoliciesByComponent component of
        None \<Rightarrow> (Some (KMsg (''unknown multicluster component '' @ component)), s)
      | Some policies \<Rightarrow> for_each (\<lambda>name. assertPolicy d name shouldBePresent) policies s)"

definition AssertPolicies :: "'w mc_deps \<Rightarrow> bool \<Rightarrow> string list \<Rightarrow> 'w mc_state step" where
  "AssertPolicies d shouldBePresent names = for_each (assert_component d shouldBePresent) names"

definition AssertCustomPolicyAbsent :: "'w mc_deps \<Rightarrow> string \<Rightarrow> 'w mc_state step" where
  "AssertCustomPolicyAbsent d name = assertPolicy d name False"

section \<open>Patching the TektonConfig\<close>

text \<open>
  The TektonConfig through the dynamic client: the same object as \<open>tektonConfig_ref\<close>, read
  untyped.
\<close>

definition dynConfig_ref :: ref where
  "dynConfig_ref = Ref [] ''tektonconfigs.operator.tekton.dev'' [] ''config''"

text \<open>\<open>cmd.Run\<close>, and the error when the exit code is not 0.\<close>

definition run_or :: "'w mc_deps \<Rightarrow> string list \<Rightarrow> string \<Rightarrow> 'w mc_state step" where
  "run_or d args msg s =
     (case Run (x_shell d) (x_connection d) args s of
        (res, s1) \<Rightarrow> if ExitCode res \<noteq> 0 then (Some (KMsg (msg @ '': '' @ Stderr res)), s1) else (None, s1))"

definition patch_config :: "string \<Rightarrow> string \<Rightarrow> string list" where
  "patch_config type patch = [''oc'', ''patch'', ''TektonConfig'', ''config'', ''--type='' @ type, ''-p'', patch]"

definition settle :: "'w mc_deps \<Rightarrow> 'w mc_state step" where
  "settle d = EnsureTektonConfigStatusInstalled status_conditions (x_server d) (x_poll d) (x_configName d)"

fun show_bool :: "bool \<Rightarrow> string" where
  "show_bool True = ''true''"
| "show_bool False = ''false''"

definition SetSchedulerMode :: "'w mc_deps \<Rightarrow> bool \<Rightarrow> bool \<Rightarrow> string \<Rightarrow> 'w mc_state step" where
  "SetSchedulerMode d disabled multiClusterDisabled role =
     (let patch = ''{\"spec\":{\"scheduler\":{\"disabled\":'' @ show_bool disabled
            @ '',\"multi-cluster-disabled\":'' @ show_bool multiClusterDisabled
            @ '',\"multi-cluster-role\":\"'' @ role @ ''\"}}}''
      in seq (run_or d (patch_config ''merge'' patch)
            (''patch scheduler mode disabled='' @ show_bool disabled @ '' multi-cluster-disabled=''
              @ show_bool multiClusterDisabled @ '' role='' @ role))
          (settle d))"

text \<open>\<open>policyMap\<close>: nil policies are an empty map.\<close>

definition policyMap :: "'w mc_deps \<Rightarrow> 'w mc_state \<Rightarrow> (kerror + (string \<times> json) list) \<times> 'w mc_state" where
  "policyMap d s =
     (case k_get (x_server d) dynConfig_ref s of
        (Inl e, s1) \<Rightarrow> (Inl (KContext ''read TektonConfig'' (KApi e)), s1)
      | (Inr ob, s1) \<Rightarrow>
          (case x_nestedMap d (dyn_content (o_body ob)) [''spec'', ''networkPolicy'', ''policies''] of
             Inl e \<Rightarrow> (Inl (KContext ''read TektonConfig policies'' (KMsg e)), s1)
           | Inr None \<Rightarrow> (Inr [], s1)
           | Inr (Some policies) \<Rightarrow> (Inr policies, s1)))"

definition networkPolicyJSON :: "'w mc_deps \<Rightarrow> 'w mc_state \<Rightarrow> (kerror + string) \<times> 'w mc_state" where
  "networkPolicyJSON d s =
     (case k_get (x_server d) dynConfig_ref s of
        (Inl e, s1) \<Rightarrow> (Inl (KContext ''read TektonConfig'' (KApi e)), s1)
      | (Inr ob, s1) \<Rightarrow>
          (case x_nestedMap d (dyn_content (o_body ob)) [''spec'', ''networkPolicy''] of
             Inl e \<Rightarrow> (Inl (KContext ''read TektonConfig networkPolicy'' (KMsg e)), s1)
           | Inr None \<Rightarrow> (Inr [], s1)
           | Inr (Some np) \<Rightarrow>
               if np = [] then (Inr [], s1)
               else (case x_marshal d np of
                   Inl e \<Rightarrow> (Inl (KContext ''encode TektonConfig networkPolicy'' (KMsg e)), s1)
                 | Inr raw \<Rightarrow> (Inr raw, s1))))"

definition restoreNetworkPolicyJSON :: "'w mc_deps \<Rightarrow> string \<Rightarrow> 'w mc_state step" where
  "restoreNetworkPolicyJSON d snapshot =
     (if snapshot = []
      then run_or d (patch_config ''json'' ''[{\"op\":\"remove\",\"path\":\"/spec/networkPolicy\"}]'')
             ''remove spec.networkPolicy''
      else run_or d (patch_config ''merge'' (''{\"spec\":{\"networkPolicy\":'' @ snapshot @ ''}}''))
             ''restore spec.networkPolicy'')"

section \<open>A custom policy and its removal\<close>

definition proxy_ref :: ref where
  "proxy_ref = Ref [] ''tektonmulticlusterproxyaaes.operator.tekton.dev'' [] ''multicluster-proxy-aae''"

definition propagated :: "'w mc_deps \<Rightarrow> string \<Rightarrow> ('w mc_state, kerror) cond" where
  "propagated d name s =
     (case k_get (x_server d) proxy_ref s of
        (Inl _, s1) \<Rightarrow> ((False, None), s1)
      | (Inr current, s1) \<Rightarrow>
          (((case x_nestedMap d (dyn_content (o_body current)) [''spec'', ''networkPolicy'', ''policies'', name] of
               Inr (Some entry) \<Rightarrow> entry \<noteq> []
             | _ \<Rightarrow> False), None), s1))"

definition add_custom_policy :: "'w mc_deps \<Rightarrow> string \<Rightarrow> 'w mc_state step" where
  "add_custom_policy d name =
     seq (run_or d (patch_config ''merge''
            (''{\"spec\":{\"networkPolicy\":{\"policies\":{\"'' @ name
             @ ''\":{\"podSelector\":{},\"policyTypes\":[\"Ingress\",\"Egress\"]}}}}}''))
            (''add custom policy '' @ name))
     (seq (settle d)
     (seq (wrap (''custom policy '' @ name @ '' never appeared'') (assertPolicy d name True))
     (seq (AssertPolicies d True [''scheduler'', ''proxy-aae'', ''syncer-service''])
       (\<lambda>s. case x_poll d 5 600 True (propagated d name) s of
          (err, s') \<Rightarrow> (wrap_error (''TektonConfig did not propagate custom policy '' @ name
                @ '' onto TektonMulticlusterProxyAAE'') (of_poll err), s')))))"

definition EnsureCustomPolicy :: "'w mc_deps \<Rightarrow> string \<Rightarrow> 'w mc_state \<Rightarrow> (kerror + string) \<times> 'w mc_state" where
  "EnsureCustomPolicy d name s =
     (case policyMap d s of
        (Inl e, s1) \<Rightarrow> (Inl e, s1)
      | (Inr policies, s1) \<Rightarrow>
          if name \<in> fst ` set policies
          then (Inl (KMsg (''custom policy '' @ name @ '' already exists, refusing to overwrite it'')), s1)
          else (case networkPolicyJSON d s1 of
              (Inl e, s2) \<Rightarrow> (Inl e, s2)
            | (Inr origNP, s2) \<Rightarrow>
                (case add_custom_policy d name s2 of
                   (Some e, s3) \<Rightarrow> (Inl e, s3)
                 | (None, s3) \<Rightarrow> (Inr origNP, s3))))"

definition RemoveCustomPolicyAndRestore :: "'w mc_deps \<Rightarrow> string \<Rightarrow> string \<Rightarrow> 'w mc_state step" where
  "RemoveCustomPolicyAndRestore d name origNP =
     seq (run_or d (patch_config ''merge'' ''{\"spec\":{\"networkPolicy\":{\"disabled\":true}}}'')
            ''disable NetworkPolicy'')
     (seq (settle d)
     (seq (AssertCustomPolicyAbsent d name)
     (seq (restoreNetworkPolicyJSON d origNP)
     (seq (settle d)
          (AssertCustomPolicyAbsent d name)))))"

end
