(* ===== verification/MultiClusterSetup.thy ===== *)
theory MultiClusterSetup
  imports MultiCluster
begin

text \<open>
  \<open>pkg/multicluster/multicluster.go\<close>, second part: the snapshot of the TektonConfig and its
  restoration, the Kueue object, the worker identity and its MultiKueueCluster, \<open>Setup\<close>, and the
  guarded deletes of \<open>Cleanup\<close>.
\<close>

section \<open>Snapshot and restoration\<close>

definition record_gate :: "'w mc_deps \<Rightarrow> 'w mc_state step" where
  "record_gate d s =
     (case Run (x_shell d) (x_connection d) [''oc'', ''get'', ''manualapprovalgate'', ''manual-approval-gate'',
             ''-o'', ''jsonpath={.spec.networkPolicy.disabled}''] s of
        (res, s1) \<Rightarrow>
          (None, if ExitCode res = 0 then s1\<lparr>e_origMAGExists := True, e_origMAGDisabled := Stdout res\<rparr> else s1))"

definition snapshotTektonConfig :: "'w mc_deps \<Rightarrow> 'w mc_state step" where
  "snapshotTektonConfig d s =
     (case k_get (x_server d) (tektonConfig_ref ''config'') s of
        (Inl e, s1) \<Rightarrow> (Some (KContext ''read TektonConfig for snapshot'' (KApi e)), s1)
      | (Inr tc, s1) \<Rightarrow>
          (case networkPolicyJSON d (s1\<lparr>e_origScheduler := Some (config_scheduler (o_body tc))\<rparr>) of
             (Inl e, s2) \<Rightarrow> (Some e, s2\<lparr>e_origNPJSON := []\<rparr>)
           | (Inr raw, s2) \<Rightarrow> record_gate d (s2\<lparr>e_origNPJSON := raw\<rparr>)))"

definition put_scheduler :: "scheduler \<Rightarrow> kbody \<Rightarrow> kbody" where
  "put_scheduler sc b = ConfigBody sc (status_conditions b)"

definition write_scheduler :: "'w mc_deps \<Rightarrow> scheduler \<Rightarrow> ('w mc_state, kerror) attempt" where
  "write_scheduler d orig s =
     (case k_get (x_server d) (tektonConfig_ref ''config'') s of
        (Inl e, s1) \<Rightarrow> (Some (KApi e), s1)
      | (Inr latest, s1) \<Rightarrow>
          (case k_update (x_server d) (latest\<lparr>o_body := put_scheduler orig (o_body latest)\<rparr>) s1 of
             (Inl e, s2) \<Rightarrow> (Some (KApi e), s2)
           | (Inr _, s2) \<Rightarrow> (None, s2)))"

definition restore_gate :: "'w mc_deps \<Rightarrow> 'w mc_state step" where
  "restore_gate d s =
     (if e_origMAGExists s
      then let disabled = (if e_origMAGDisabled s = [] then ''false'' else e_origMAGDisabled s)
           in run_or d [''oc'', ''patch'', ''manualapprovalgate'', ''manual-approval-gate'', ''--type=merge'', ''-p'',
                ''{\"spec\":{\"networkPolicy\":{\"disabled\":'' @ disabled @ ''}}}'']
                ''restore ManualApprovalGate networkPolicy'' s
      else (None, s))"

definition restoreTektonConfig :: "'w mc_deps \<Rightarrow> 'w mc_state step" where
  "restoreTektonConfig d s =
     (case e_origScheduler s of
        None \<Rightarrow> (Some (KMsg ''no TektonConfig snapshot to restore''), s)
      | Some orig \<Rightarrow>
          seq (wrap ''restore TektonConfig scheduler'' (x_retry d (write_scheduler d orig)))
         (seq (\<lambda>s. restoreNetworkPolicyJSON d (e_origNPJSON s) s)
         (seq (settle d) (restore_gate d))) s)"

section \<open>The Kueue object\<close>

definition kueueCR_ref :: ref where
  "kueueCR_ref = Ref [] ''kueues.kueue.openshift.io'' [] ''cluster''"

definition owned_object :: "'w mc_state \<Rightarrow> ref \<Rightarrow> kbody \<Rightarrow> kobj" where
  "owned_object s r b = \<lparr>o_ref = r, o_labels = labels_mc (e_prefix s), o_uid = [], o_body = b\<rparr>"

definition kueueCR :: json where
  "kueueCR = JObj [(''spec'', JObj
     [(''config'', JObj [(''integrations'', JObj [(''frameworks'', JArr [JStr ''Deployment''])])]),
      (''managementState'', JStr ''Managed'')])]"

text \<open>The loop over \<open>status.conditions\<close>, looking for one type with status True.\<close>

fun some_condition :: "string \<Rightarrow> json list \<Rightarrow> bool" where
  "some_condition type [] = False"
| "some_condition type (JObj kvs # items) =
     (if jget kvs ''type'' = JStr type \<and> jget kvs ''status'' = JStr ''True'' then True
      else some_condition type items)"
| "some_condition type (_ # items) = some_condition type items"

definition has_condition :: "'w mc_deps \<Rightarrow> ref \<Rightarrow> string \<Rightarrow> ('w mc_state, kerror) cond" where
  "has_condition d r type s =
     (case k_get (x_server d) r s of
        (Inl _, s1) \<Rightarrow> ((False, None), s1)
      | (Inr current, s1) \<Rightarrow>
          (((case x_nestedSlice d (dyn_content (o_body current)) [''status'', ''conditions''] of
               Inr (Some items) \<Rightarrow> some_condition type items
             | _ \<Rightarrow> False), None), s1))"

definition create_kueueCR :: "'w mc_deps \<Rightarrow> 'w mc_state step" where
  "create_kueueCR d s =
     (case k_create (x_server d) (owned_object s kueueCR_ref (Dyn kueueCR)) s of
        (Inl e, s1) \<Rightarrow> (Some (KContext ''create Kueue CR'' (KApi e)), s1)
      | (Inr created, s1) \<Rightarrow> (None, s1\<lparr>e_kueueUID := o_uid created, e_kueueOwned := True\<rparr>))"

definition ensureKueueCR :: "'w mc_deps \<Rightarrow> 'w mc_state step" where
  "ensureKueueCR d =
     seq (\<lambda>s. case k_get (x_server d) kueueCR_ref s of
            (Inr _, s1) \<Rightarrow> (None, s1)
          | (Inl e, s1) \<Rightarrow>
              if e \<noteq> NotFound then (Some (KContext ''read Kueue CR'' (KApi e)), s1) else create_kueueCR d s1)
     (seq (\<lambda>s. case x_poll d 5 600 True (has_condition d kueueCR_ref ''Available'') s of
            (err, s1) \<Rightarrow> (wrap_error ''kueue never became Available'' (of_poll err), s1))
          (\<lambda>s. case x_poll d 5 600 True
               (\<lambda>s. case k_list (x_server d) [] ''multikueueclusters.kueue.x-k8s.io'' [] [] s of
                  (res, s1) \<Rightarrow> ((is_ok res, None), s1)) s of
            (err, s1) \<Rightarrow> (of_poll err, s1)))"

section \<open>The worker identity\<close>

text \<open>
  Create, and when the object is already there require that this run owns it: \<open>creating\<close>,
  \<open>reading\<close> and \<open>what\<close> are the texts of the messages. \<open>Inl\<close> an error, \<open>Inr (True, ob)\<close> the created object, \<open>Inr (False, ob)\<close> the one
  found.
\<close>

definition create_or_owned :: "'w mc_deps \<Rightarrow> kobj \<Rightarrow> string \<Rightarrow> string \<Rightarrow> string \<Rightarrow> 'w mc_state \<Rightarrow>
    (kerror + bool \<times> kobj) \<times> 'w mc_state" where
  "create_or_owned d ob creating reading what s =
     (case k_create (x_server d) ob s of
        (Inr created, s1) \<Rightarrow> (Inr (True, created), s1)
      | (Inl e, s1) \<Rightarrow>
          if e \<noteq> AlreadyExists then (Inl (KContext creating (KApi e)), s1)
          else (case k_get (x_server d) (o_ref ob) s1 of
              (Inl e, s2) \<Rightarrow> (Inl (KContext reading (KApi e)), s2)
            | (Inr existing, s2) \<Rightarrow>
                if \<not> owns_mc (e_prefix s2) (o_labels existing)
                then (Inl (KMsg (what @ '' '' @ ref_name (o_ref ob)
                       @ '' already exists and was not created by this run'')), s2)
                else (Inr (False, existing), s2)))"

fun drop_object :: "(kerror + bool \<times> kobj) \<times> 's \<Rightarrow> kerror option \<times> 's" where
  "drop_object (Inl e, s) = (Some e, s)"
| "drop_object (Inr _, s) = (None, s)"

definition ensureWorkerNamespace :: "'w mc_deps \<Rightarrow> 'w mc_state step" where
  "ensureWorkerNamespace d s =
     drop_object (create_or_owned d (owned_object s (Ref [] ''Namespace'' [] (e_workerName s)) NamespaceBody)
       ''create worker namespace'' ''read the existing worker namespace'' ''namespace'' s)"

text \<open>A create that takes an existing object for its own without looking at it.\<close>

definition create_tolerant :: "'w mc_deps \<Rightarrow> string \<Rightarrow> string \<Rightarrow> kbody \<Rightarrow> 'w mc_state step" where
  "create_tolerant d kind ns b s =
     (case k_create (x_server d) (owned_object s (Ref [] kind ns (e_workerName s)) b) s of
        (Inl e, s1) \<Rightarrow>
          if e \<noteq> AlreadyExists then (Some (KContext (''create worker '' @ kind) (KApi e)), s1) else (None, s1)
      | (Inr _, s1) \<Rightarrow> (None, s1))"

definition read_rules :: "policy_rule list" where
  "read_rules =
     [\<lparr>pr_groups = [''kueue.x-k8s.io''], pr_resources = [''workloads''], pr_verbs = [''get'', ''list'', ''watch'']\<rparr>,
      \<lparr>pr_groups = [''tekton.dev''], pr_resources = [''pipelineruns''], pr_verbs = [''get'', ''list'', ''watch'']\<rparr>]"

definition write_rules :: "policy_rule list" where
  "write_rules =
     (let every = [''create'', ''delete'', ''get'', ''list'', ''patch'', ''update'', ''watch''];
          status = [''get'', ''patch'', ''update'']
      in [\<lparr>pr_groups = [''kueue.x-k8s.io''], pr_resources = [''workloads''], pr_verbs = every\<rparr>,
          \<lparr>pr_groups = [''kueue.x-k8s.io''], pr_resources = [''workloads/status''], pr_verbs = status\<rparr>,
          \<lparr>pr_groups = [''tekton.dev''], pr_resources = [''pipelineruns''], pr_verbs = every\<rparr>,
          \<lparr>pr_groups = [''tekton.dev''], pr_resources = [''pipelineruns/status''], pr_verbs = status\<rparr>])"

definition mint_worker_token :: "'w mc_deps \<Rightarrow> string \<Rightarrow> 'w mc_state \<Rightarrow> (kerror + string) \<times> 'w mc_state" where
  "mint_worker_token d ns s =
     (case k_create (x_server d) (plain_object (Ref [] ''ServiceAccount/token'' ns (e_workerName s)) (TokenBody [])) s of
        (Inl e, s1) \<Rightarrow> (Inl (KContext ''mint worker token'' (KApi e)), s1)
      | (Inr t, s1) \<Rightarrow>
          if token_of (o_body t) = [] then (Inl (KMsg ''worker token is empty''), s1)
          else (Inr (token_of (o_body t)), s1))"

definition worker_rbac :: "'w mc_deps \<Rightarrow> string \<Rightarrow> 'w mc_state step" where
  "worker_rbac d ns s =
     (let saName = e_workerName s; account = [\<lparr>sj_kind = ''ServiceAccount'', sj_name = saName, sj_ns = ns\<rparr>]
      in seq (\<lambda>s. drop_object (create_or_owned d
                (owned_object s (Ref [] ''ServiceAccount'' ns saName) ServiceAccountBody)
                ''create worker ServiceAccount'' ''read existing worker ServiceAccount'' ''ServiceAccount'' s))
        (seq (create_tolerant d ''ClusterRole'' [] (RoleBody read_rules))
        (seq (create_tolerant d ''ClusterRoleBinding'' [] (BindingBody ''ClusterRole'' saName account))
        (seq (create_tolerant d ''Role'' ns (RoleBody write_rules))
             (create_tolerant d ''RoleBinding'' ns (BindingBody ''Role'' saName account))))) s)"

definition ensureWorkerServiceAccount :: "'w mc_deps \<Rightarrow> string \<Rightarrow> 'w mc_state \<Rightarrow> (kerror + string) \<times> 'w mc_state" where
  "ensureWorkerServiceAccount d ns s =
     (case worker_rbac d ns s of
        (Some e, s1) \<Rightarrow> (Inl e, s1)
      | (None, s1) \<Rightarrow> mint_worker_token d ns s1)"

section \<open>The self worker cluster\<close>

definition inClusterEndpoint :: string where
  "inClusterEndpoint = ''https://kubernetes.default.svc:443''"

definition worker_secret_ref :: "'w mc_deps \<Rightarrow> 'w mc_state \<Rightarrow> ref" where
  "worker_secret_ref d s = Ref [] ''Secret'' (of_kueueNamespace (x_flags d)) (e_workerName s)"

definition worker_cluster_ref :: "'w mc_state \<Rightarrow> ref" where
  "worker_cluster_ref s = Ref [] ''multikueueclusters.kueue.x-k8s.io'' [] (e_workerName s)"

text \<open>A secret left over from an interrupted run is refreshed.\<close>

definition ensure_secret :: "'w mc_deps \<Rightarrow> string \<Rightarrow> 'w mc_state step" where
  "ensure_secret d kubeconfig s =
     (let body = SecretBody [(''kubeconfig'', kubeconfig)]
      in (case create_or_owned d (owned_object s (worker_secret_ref d s) body)
              ''create the self worker secret'' ''read the existing worker secret'' ''secret'' s of
            (Inl e, s1) \<Rightarrow> (Some e, s1)
          | (Inr (True, created), s1) \<Rightarrow> (None, s1\<lparr>e_secretUID := o_uid created\<rparr>)
          | (Inr (False, existing), s1) \<Rightarrow>
              (case k_update (x_server d) (existing\<lparr>o_body := body\<rparr>) s1 of
                 (Inl e, s2) \<Rightarrow> (Some (KContext ''refresh the worker secret'' (KApi e)), s2)
               | (Inr updated, s2) \<Rightarrow> (None, s2\<lparr>e_secretUID := o_uid updated\<rparr>))))"

definition worker_spec :: "string \<Rightarrow> json" where
  "worker_spec name = JObj [(''spec'', JObj [(''clusterSource'', JObj [(''kubeConfig'',
     JObj [(''locationType'', JStr ''Secret''), (''location'', JStr name)])])])]"

definition ensure_cluster :: "'w mc_deps \<Rightarrow> 'w mc_state step" where
  "ensure_cluster d s =
     (case create_or_owned d (owned_object s (worker_cluster_ref s) (Dyn (worker_spec (e_workerName s))))
             ''create the self MultiKueueCluster'' ''read the existing MultiKueueCluster'' ''MultiKueueCluster'' s of
        (Inl e, s1) \<Rightarrow> (Some e, s1)
      | (Inr (_, ob), s1) \<Rightarrow> (None, s1\<lparr>e_clusterUID := o_uid ob\<rparr>))"

definition register_worker :: "'w mc_deps \<Rightarrow> string \<Rightarrow> string \<Rightarrow> 'w mc_state step" where
  "register_worker d ca token s =
     (case x_writeKubeconfig d inClusterEndpoint token ca of
        Inl e \<Rightarrow> (Some (KContext ''serialize the self worker kubeconfig'' (KMsg e)), s)
      | Inr kubeconfig \<Rightarrow>
          seq (ensure_secret d kubeconfig)
         (seq (ensure_cluster d)
              (\<lambda>s. case x_poll d 5 600 True (has_condition d (worker_cluster_ref s) ''Active'') s of
                 (err, s1) \<Rightarrow> (of_poll err, s1))) s)"

definition ensureSelfWorkerCluster :: "'w mc_deps \<Rightarrow> 'w mc_state step" where
  "ensureSelfWorkerCluster d s =
     (case k_get (x_server d) (Ref [] ''ConfigMap'' (of_kueueNamespace (x_flags d)) ''kube-root-ca.crt'') s of
        (Inl e, s1) \<Rightarrow> (Some (KContext ''read kube-root-ca.crt'' (KApi e)), s1)
      | (Inr configMap, s1) \<Rightarrow>
          (let ca = label_of (configmap_data (o_body configMap)) ''ca.crt''
           in if ca = [] then (Some (KMsg ''kube-root-ca.crt has no ca.crt''), s1)
              else seq (ensureWorkerNamespace d)
                (\<lambda>s. case ensureWorkerServiceAccount d (e_workerName s) s of
                   (Inl e, s2) \<Rightarrow> (Some e, s2)
                 | (Inr token, s2) \<Rightarrow> register_worker d ca token s2) s1))"

section \<open>Setup\<close>

definition ErrOLMMissing :: kerror where
  "ErrOLMMissing = KMsg ''OLM API not available''"

definition Setup_mc :: "'w mc_deps \<Rightarrow> 'w mc_state step" where
  "Setup_mc d s =
     (case x_discovery d ''operators.coreos.com/v1alpha1'' (io_world s) of (served, w) \<Rightarrow>
        let s1 = s\<lparr>io_world := w\<rparr>
        in if \<not> served
           then (Some (KContext ''install prerequisites'' (KJoin [ErrOLMMissing, KMsg ''discovery''])), s1)
           else (case x_newClient d of
               Inl e \<Rightarrow> (Some (KContext ''create controller-runtime client'' (KMsg e)), s1)
             | Inr cl \<Rightarrow>
                 seq (wrap ''install multicluster prerequisites''
                       (EnsurePrerequisites (Some cl) (x_poll d) (Some (x_discovery d))
                          (MulticlusterPrerequisites (x_flags d))))
                (seq (snapshotTektonConfig d)
                (seq (ensureKueueCR d) (ensureSelfWorkerCluster d))) s1))"

section \<open>Cleanup\<close>

definition deleteOwned :: "'w mc_deps \<Rightarrow> ref \<Rightarrow> string \<Rightarrow> string \<Rightarrow> 'w mc_state step" where
  "deleteOwned d r wantUID kind s =
     (case k_get (x_server d) r s of
        (Inl e, s1) \<Rightarrow>
          if e = NotFound then (None, s1)
          else (Some (KContext (''read '' @ kind @ '' '' @ ref_name r) (KApi e)), s1)
      | (Inr current, s1) \<Rightarrow>
          if \<not> owns_mc (e_prefix s1) (o_labels current)
          then (Some (KMsg (''refusing to delete '' @ kind @ '' '' @ ref_name r @ '' not created by this run'')), s1)
          else if wantUID \<noteq> [] \<and> o_uid current \<noteq> wantUID
          then (Some (KMsg (''refusing to delete replacement '' @ kind @ '' '' @ ref_name r)), s1)
          else (case k_delete (x_server d) r s1 of
              (None, s2) \<Rightarrow> (None, s2)
            | (Some e, s2) \<Rightarrow>
                if e \<noteq> NotFound then (Some (KContext (''delete '' @ kind @ '' '' @ ref_name r) (KApi e)), s2)
                else (None, s2)))"

text \<open>Every object of the list is tried, dependents first; the errors are joined.\<close>

definition rbac_refs :: "string \<Rightarrow> ref list" where
  "rbac_refs name =
     [Ref [] ''ClusterRoleBinding'' [] name, Ref [] ''RoleBinding'' name name,
      Ref [] ''ClusterRole'' [] name, Ref [] ''Role'' name name, Ref [] ''ServiceAccount'' name name,
      Ref [] ''Namespace'' [] name]"

definition deleteOwnedRBAC :: "'w mc_deps \<Rightarrow> 'w mc_state step" where
  "deleteOwnedRBAC d s =
     join_all (map (\<lambda>r. deleteOwned d r [] (ref_kind r)) (rbac_refs (e_workerName s))) s"

definition deleteOwnedWorker :: "'w mc_deps \<Rightarrow> 'w mc_state step" where
  "deleteOwnedWorker d s =
     join_all ([\<lambda>s. deleteOwned d (worker_secret_ref d s) (e_secretUID s) ''Secret'' s,
                \<lambda>s. deleteOwned d (worker_cluster_ref s) (e_clusterUID s) ''MultiKueueCluster'' s]
        @ (if e_kueueOwned s then [\<lambda>s. deleteOwned d kueueCR_ref (e_kueueUID s) ''Kueue'' s] else [])) s"

definition deleteOwnedResources :: "'w mc_deps \<Rightarrow> 'w mc_state step" where
  "deleteOwnedResources d = join_all [deleteOwnedWorker d, deleteOwnedRBAC d]"

text \<open>
  \<open>errors.Join\<close> of the two; a failed assertion in the second ends the test before anything is
  joined.
\<close>

definition Cleanup_mc :: "'w mc_deps \<Rightarrow> 'w mc_state step" where
  "Cleanup_mc d s =
     (case deleteOwnedResources d s of (e1, s1) \<Rightarrow>
       (case restoreTektonConfig d s1 of
          (Some (KAbort msg), s2) \<Rightarrow> (Some (KAbort msg), s2)
        | (e2, s2) \<Rightarrow> (join_errors [e1, e2], s2)))"

end
