(* ===== verification/MultiClusterInvariants.thy ===== *)
theory MultiClusterInvariants
  imports MultiClusterSetup
begin

text \<open>
  Which predicates the operations of \<open>pkg/multicluster\<close> keep: those that survive every call but a
  delete, the assignments to the environment's fields, and the guarded delete. Proved once in a
  locale and used for the safety properties by interpretation.
\<close>

section \<open>The runs of an environment\<close>

text \<open>The states a test reaches by calling the exported methods in any order, whatever they return.\<close>

inductive mc_reach :: "'w mc_deps \<Rightarrow> 'w mc_state \<Rightarrow> 'w mc_state \<Rightarrow> bool" for d s0 where
  mc_start: "mc_reach d s0 s0"
| mc_setup: "mc_reach d s0 s \<Longrightarrow> Setup_mc d s = (err, t) \<Longrightarrow> mc_reach d s0 t"
| mc_cleanup: "mc_reach d s0 s \<Longrightarrow> Cleanup_mc d s = (err, t) \<Longrightarrow> mc_reach d s0 t"
| mc_mode: "mc_reach d s0 s \<Longrightarrow> SetSchedulerMode d b c role s = (err, t) \<Longrightarrow> mc_reach d s0 t"
| mc_assert: "mc_reach d s0 s \<Longrightarrow> AssertPolicies d b names s = (err, t) \<Longrightarrow> mc_reach d s0 t"
| mc_custom: "mc_reach d s0 s \<Longrightarrow> EnsureCustomPolicy d name s = (res, t) \<Longrightarrow> mc_reach d s0 t"
| mc_remove: "mc_reach d s0 s \<Longrightarrow> RemoveCustomPolicyAndRestore d name np s = (err, t) \<Longrightarrow> mc_reach d s0 t"
| mc_absent: "mc_reach d s0 s \<Longrightarrow> AssertCustomPolicyAbsent d name s = (err, t) \<Longrightarrow> mc_reach d s0 t"

section \<open>The interface\<close>

text \<open>
  An \<open>mc_invariant\<close> is kept by the calls, by the assignments to the fields of the environment and
  by the one step that takes possession of the Kueue object;
  \<open>Cleanup\<close> keeps it too when the guarded deletes do.
\<close>

locale mc_invariant = kbody_invariant I for I :: "'w mc_state \<Rightarrow> bool" +
  assumes inv_fields [simp]: "I (s\<lparr>e_secretUID := u\<rparr>) = I s" "I (s\<lparr>e_clusterUID := u\<rparr>) = I s"
      "I (s\<lparr>e_origScheduler := sc\<rparr>) = I s" "I (s\<lparr>e_origNPJSON := u\<rparr>) = I s"
      "I (s\<lparr>e_origMAGExists := b, e_origMAGDisabled := u\<rparr>) = I s"
    and inv_kueue: "create_kueueCR d s = (err, s') \<Longrightarrow> I s \<Longrightarrow> I s'"
begin

lemma poll_ok: "mc_deps_ok d \<Longrightarrow> poll_contract (x_poll d)"
  and retry_ok: "mc_deps_ok d \<Longrightarrow> retry_contract k_conflict (x_retry d)"
  by (simp_all add: mc_deps_ok_def)

lemma inv_Run: "Run sh cn args s = (cres, s') \<Longrightarrow> I s \<Longrightarrow> I s'"
  unfolding Run_def by (rule inv_run)

section \<open>Policies and patches\<close>

lemma keeps_run_or: "keeps I (run_or d args msg)"
  by (rule keepsI) (auto simp: run_or_def split: result_splits elim!: inv_Run)

lemma keeps_settle:
  assumes ok: "mc_deps_ok d"
  shows "keeps I (settle d)"
  unfolding settle_def by (rule keeps_EnsureTektonConfigStatusInstalled [OF poll_ok [OF ok]])

lemma keeps_policy_condition: "keeps I (policy_condition d name present)"
  by (rule keepsI) (auto simp: policy_condition_def split: result_splits elim!: inv_get)

lemma keeps_assertPolicy:
  assumes ok: "mc_deps_ok d"
  shows "keeps I (assertPolicy d name present)"
  by (rule keepsI) (auto simp: assertPolicy_def split: result_splits
      elim!: keeps_pollE [OF poll_ok [OF ok] _ keeps_policy_condition])

lemma keeps_AssertPolicies:
  assumes ok: "mc_deps_ok d"
  shows "keeps I (AssertPolicies d present names)"
proof -
  have "keeps I (assert_component d present c)" for c
    using keeps_for_each [of _ I "\<lambda>name. assertPolicy d name present"]
    by (auto simp: keeps_def assert_component_def keeps_assertPolicy [OF ok, unfolded keeps_def] split: option.splits)
  then show ?thesis unfolding AssertPolicies_def by (rule keeps_for_each)
qed

lemmas keeps_steps = keeps_seq keeps_wrap keeps_run_or keeps_settle keeps_assertPolicy keeps_AssertPolicies

lemma keeps_SetSchedulerMode:
  assumes ok: "mc_deps_ok d"
  shows "keeps I (SetSchedulerMode d b c role)"
  unfolding SetSchedulerMode_def Let_def by (intro ok keeps_steps)

lemma keeps_policyMap: "keeps I (policyMap d)"
  by (rule keepsI) (auto simp: policyMap_def split: result_splits elim!: inv_get)

lemma keeps_networkPolicyJSON: "keeps I (networkPolicyJSON d)"
  by (rule keepsI) (auto simp: networkPolicyJSON_def split: result_splits elim!: inv_get)

lemma keeps_restoreNetworkPolicyJSON: "keeps I (restoreNetworkPolicyJSON d snap)"
  unfolding restoreNetworkPolicyJSON_def by (simp add: keeps_run_or)

lemma keeps_add_custom_policy:
  assumes ok: "mc_deps_ok d"
  shows "keeps I (add_custom_policy d name)"
proof -
  have "keeps I (propagated d name)"
    by (rule keepsI) (auto simp: propagated_def split: result_splits elim!: inv_get)
  then have "keeps I (\<lambda>s. case x_poll d 5 600 True (propagated d name) s of
      (err, s') \<Rightarrow> (wrap_error msg (of_poll err), s'))" for msg
    by (intro keepsI) (auto split: prod.splits elim!: keeps_pollE [OF poll_ok [OF ok]])
  then show ?thesis unfolding add_custom_policy_def by (intro ok keeps_steps)
qed

lemma keeps_EnsureCustomPolicy:
  assumes ok: "mc_deps_ok d"
  shows "keeps I (EnsureCustomPolicy d name)"
  by (rule keepsI) (auto simp: EnsureCustomPolicy_def split: result_splits
      elim!: keepsE [OF keeps_policyMap] keepsE [OF keeps_networkPolicyJSON] keepsE [OF keeps_add_custom_policy [OF ok]])

lemma keeps_RemoveCustomPolicyAndRestore:
  assumes ok: "mc_deps_ok d"
  shows "keeps I (RemoveCustomPolicyAndRestore d name origNP)"
  unfolding RemoveCustomPolicyAndRestore_def AssertCustomPolicyAbsent_def
  by (intro ok keeps_steps keeps_restoreNetworkPolicyJSON)

section \<open>Setup\<close>

lemma keeps_snapshot: "keeps I (snapshotTektonConfig d)"
proof (rule keepsI)
  fix s err s'
  assume "I s" and "snapshotTektonConfig d s = (err, s')"
  then show "I s'"
    by (auto simp: snapshotTektonConfig_def record_gate_def split: result_splits
        elim!: keepsE [OF keeps_networkPolicyJSON] inv_Run inv_get)
qed

lemma keeps_has_condition: "keeps I (has_condition d r type)"
  by (rule keepsI) (auto simp: has_condition_def split: result_splits elim!: inv_get)

lemma keeps_create_kueueCR: "keeps I (create_kueueCR d)"
  by (rule keepsI) (rule inv_kueue)

lemma keeps_ensureKueueCR:
  assumes ok: "mc_deps_ok d"
  shows "keeps I (ensureKueueCR d)"
proof -
  have "keeps I (\<lambda>s. case k_list (x_server d) [] ''multikueueclusters.kueue.x-k8s.io'' [] [] s of
      (res, s1) \<Rightarrow> ((is_ok res, None :: kerror option), s1))"
    by (rule keepsI) (auto split: prod.splits elim!: inv_list)
  then show ?thesis
    unfolding ensureKueueCR_def
    by (intro keeps_seq keepsI) (auto split: result_splits
        elim!: keeps_pollE [OF poll_ok [OF ok]] keeps_pollE [OF poll_ok [OF ok] _ keeps_has_condition]
          keepsE [OF keeps_create_kueueCR] inv_get)
qed

lemma inv_create_or_owned: "create_or_owned d ob c r w s = (res, s') \<Longrightarrow> I s \<Longrightarrow> I s'"
  by (auto simp: create_or_owned_def split: result_splits elim!: inv_create inv_get)

lemma keeps_drop_create_or_owned: "keeps I (\<lambda>s. drop_object (create_or_owned d (ob s) c r w s))"
proof (rule keepsI)
  fix s err s'
  assume "I s" and "drop_object (create_or_owned d (ob s) c r w s) = (err, s')"
  then show "I s'"
    by (cases "create_or_owned d (ob s) c r w s" rule: drop_object.cases) (auto elim: inv_create_or_owned)
qed

lemma keeps_create_tolerant: "keeps I (create_tolerant d kind ns b)"
  by (rule keepsI) (auto simp: create_tolerant_def split: result_splits elim!: inv_create)

lemma keeps_ensureWorkerServiceAccount: "keeps I (ensureWorkerServiceAccount d ns)"
proof -
  have "keeps I (worker_rbac d ns)"
    by (rule keepsI) (unfold worker_rbac_def Let_def, erule keepsE [rotated],
        auto intro!: keeps_seq keeps_create_tolerant keeps_drop_create_or_owned)
  moreover have "keeps I (mint_worker_token d ns)"
    by (rule keepsI) (auto simp: mint_worker_token_def split: result_splits elim!: inv_create)
  moreover note k = calculation
  show ?thesis
    by (rule keepsI) (auto simp: ensureWorkerServiceAccount_def split: result_splits
        elim!: keepsE [OF k(1)] keepsE [OF k(2)])
qed

lemma keeps_register_worker:
  assumes ok: "mc_deps_ok d"
  shows "keeps I (register_worker d ca token)"
proof -
  have 1: "keeps I (ensure_secret d kc)" for kc
    by (rule keepsI) (auto simp: ensure_secret_def Let_def split: result_splits bool.splits
        elim!: inv_create_or_owned inv_update)
  have 2: "keeps I (ensure_cluster d)"
    by (rule keepsI) (auto simp: ensure_cluster_def split: result_splits elim!: inv_create_or_owned)
  have 3: "keeps I (\<lambda>s. case x_poll d 5 600 True (has_condition d (worker_cluster_ref s) ''Active'') s of
      (err, s1) \<Rightarrow> (of_poll err, s1))"
    by (rule keepsI) (auto split: prod.splits elim!: keeps_pollE [OF poll_ok [OF ok] _ keeps_has_condition])
  show ?thesis
    unfolding register_worker_def
    by (cases "x_writeKubeconfig d inClusterEndpoint token ca")
      (auto simp: keeps_def intro!: keeps_seq [OF 1 keeps_seq [OF 2 3], unfolded keeps_def, rule_format])
qed

lemma keeps_ensureSelfWorkerCluster:
  assumes ok: "mc_deps_ok d"
  shows "keeps I (ensureSelfWorkerCluster d)"
proof -
  have 1: "keeps I (ensureWorkerNamespace d)"
    unfolding ensureWorkerNamespace_def by (rule keeps_drop_create_or_owned)
  have 2: "keeps I (\<lambda>s. case ensureWorkerServiceAccount d (e_workerName s) s of
      (Inl e, s2) \<Rightarrow> (Some e, s2) | (Inr token, s2) \<Rightarrow> register_worker d ca token s2)" for ca
    by (rule keepsI) (auto split: result_splits
        elim!: keepsE [OF keeps_ensureWorkerServiceAccount] keepsE [OF keeps_register_worker [OF ok]])
  show ?thesis
    by (rule keepsI) (auto simp: ensureSelfWorkerCluster_def Let_def split: result_splits
        elim!: keepsE [OF keeps_seq [OF 1 2]] inv_get)
qed

lemma keeps_Setup_mc:
  assumes ok: "mc_deps_ok d"
  shows "keeps I (Setup_mc d)"
proof -
  have k: "keeps I (seq (wrap m (EnsurePrerequisites (Some cl) (x_poll d) (Some (x_discovery d)) ps))
      (seq (snapshotTektonConfig d) (seq (ensureKueueCR d) (ensureSelfWorkerCluster d))))" for m cl ps
    by (intro keeps_seq keeps_wrap keeps_EnsurePrerequisites [OF poll_ok [OF ok]] keeps_snapshot keeps_ensureKueueCR [OF ok]
        keeps_ensureSelfWorkerCluster [OF ok])
  show ?thesis
    by (rule keepsI) (auto simp: Setup_mc_def Let_def split: result_splits elim!: keepsE [OF k])
qed

section \<open>Restoration\<close>

lemma keeps_write_scheduler: "keeps I (write_scheduler d sc)"
  by (rule keepsI) (auto simp: write_scheduler_def split: result_splits elim!: inv_get inv_update)

lemma keeps_restore_gate: "keeps I (restore_gate d)"
  by (rule keepsI) (auto simp: restore_gate_def Let_def split: result_splits elim!: keepsE [OF keeps_run_or])

lemma keeps_restoreTektonConfig:
  assumes ok: "mc_deps_ok d"
  shows "keeps I (restoreTektonConfig d)"
proof -
  have "keeps I (\<lambda>s. restoreNetworkPolicyJSON d (e_origNPJSON s) s)"
    by (rule keepsI) (auto elim!: keepsE [OF keeps_restoreNetworkPolicyJSON])
  then have k: "keeps I (seq (wrap m (x_retry d (write_scheduler d orig)))
      (seq (\<lambda>s. restoreNetworkPolicyJSON d (e_origNPJSON s) s) (seq (settle d) (restore_gate d))))" for m orig
    by (intro ok keeps_steps keeps_retry [OF retry_ok [OF ok] keeps_write_scheduler] keeps_restore_gate)
  show ?thesis
    by (rule keepsI) (auto simp: restoreTektonConfig_def split: result_splits elim!: keepsE [OF k])
qed

lemma keeps_Cleanup_mc:
  assumes ok: "mc_deps_ok d" and del: "keeps I (deleteOwnedResources d)"
  shows "keeps I (Cleanup_mc d)"
  by (rule keepsI) (auto simp: Cleanup_mc_def split: result_splits kerror.splits
      elim!: keepsE [OF del] keepsE [OF keeps_restoreTektonConfig [OF ok]])

lemma mc_reach_invariant:
  assumes ok: "mc_deps_ok d" and del: "keeps I (deleteOwnedResources d)" and "mc_reach d s0 s" and "I s0"
  shows "I s"
  using assms(3,4)
proof (induction rule: mc_reach.induct)
  case (mc_setup s err t) then show ?case using keepsE [OF keeps_Setup_mc [OF ok]] by blast
next
  case (mc_cleanup s err t) then show ?case using keepsE [OF keeps_Cleanup_mc [OF ok del]] by blast
next
  case (mc_mode s b c role err t) then show ?case using keepsE [OF keeps_SetSchedulerMode [OF ok]] by blast
next
  case (mc_assert s b names err t) then show ?case using keepsE [OF keeps_AssertPolicies [OF ok]] by blast
next
  case (mc_custom s name res t) then show ?case using keepsE [OF keeps_EnsureCustomPolicy [OF ok]] by blast
next
  case (mc_remove s name np err t) then show ?case
    using keepsE [OF keeps_RemoveCustomPolicyAndRestore [OF ok]] by blast
next
  case (mc_absent s name err t) then show ?case
    using keepsE [OF keeps_assertPolicy [OF ok]] unfolding AssertCustomPolicyAbsent_def by blast
qed

end

end
