(* ===== verification/MultiClusterProperties.thy ===== *)
theory MultiClusterProperties
  imports MultiClusterInvariants
begin

text \<open>
  The properties of \<open>pkg/multicluster\<close>: what its deletes may touch, what a \<open>Cleanup\<close> has done
  when it returns nil and what it tries when it does not, and what the policy checks observe.
\<close>

section \<open>The invariants\<close>

definition mc_safe :: "string \<Rightarrow> 'w mc_state \<Rightarrow> bool" where
  "mc_safe p s \<longleftrightarrow> e_prefix s = p \<and> deletes_ok (\<lambda>r ob. owns_mc p (o_labels ob)) (io_trace s)"

text \<open>The Kueue object was created by a request that succeeded, and is deleted only after that.\<close>

fun creates_kueue :: "kbody event \<Rightarrow> bool" where
  "creates_kueue (Created ob (Inr _)) = (o_ref ob = kueueCR_ref)"
| "creates_kueue _ = False"

primrec kueue_guarded :: "kbody event list \<Rightarrow> bool" where
  "kueue_guarded [] = True"
| "kueue_guarded (e # tr) =
     (kueue_guarded tr \<and> (case e of Deleted r _ \<Rightarrow> r = kueueCR_ref \<longrightarrow> list_ex creates_kueue tr | _ \<Rightarrow> True))"

definition kueue_safe :: "'w mc_state \<Rightarrow> bool" where
  "kueue_safe s \<longleftrightarrow> kueue_guarded (io_trace s) \<and> (e_kueueOwned s \<longrightarrow> list_ex creates_kueue (io_trace s))"

lemma more_mc:
  fixes s s' :: "'w mc_state"
  assumes "io.more s' = io.more s"
  shows "e_prefix s' = e_prefix s" "e_workerName s' = e_workerName s" "e_kueueOwned s' = e_kueueOwned s"
    "e_secretUID s' = e_secretUID s" "e_clusterUID s' = e_clusterUID s" "e_kueueUID s' = e_kueueUID s"
    "e_origScheduler s' = e_origScheduler s"
  using assms by (cases s; cases s'; simp)+

interpretation mc_growing: mc_invariant "grows s0"
  by unfold_locales (auto simp: grows_def create_kueueCR_def split: result_splits dest!: call_frames)

interpretation mc_safety: mc_invariant "mc_safe p"
  by unfold_locales (auto simp: mc_safe_def create_kueueCR_def deletes_ok_calls split: result_splits
      dest!: call_frames more_mc(1))

interpretation mc_kueue: mc_invariant kueue_safe
  by unfold_locales (auto simp: kueue_safe_def create_kueueCR_def owned_object_def split: result_splits
      dest!: call_frames more_mc(3))

section \<open>Guarded deletes\<close>

text \<open>What a delete request of \<open>deleteOwned\<close> rests on, and what it leaves alone.\<close>

lemma deleteOwned_cases:
  assumes "deleteOwned d r uid kind s = (err, s')"
  obtains (kept) res where "io_trace s' = Got r res # io_trace s" and "io.more s' = io.more s"
      and "err = None \<Longrightarrow> res = Inl NotFound"
  | (deleted) ob res where "io_trace s' = Deleted r res # Got r (Inr ob) # io_trace s" and "io.more s' = io.more s"
      and "owns_mc (e_prefix s) (o_labels ob)" and "uid = [] \<or> o_uid ob = uid"
      and "err = None \<Longrightarrow> res = None \<or> res = Some NotFound"
proof -
  obtain got s1 where g: "k_get (x_server d) r s = (got, s1)" by (metis surj_pair)
  note f = call_frames(1) [OF g]
  note p = more_mc(1) [OF conjunct2 [OF f]]
  show thesis
  proof (cases "s' = s1")
    case True
    with assms g f show thesis
      by (intro kept [of got]) (auto simp: deleteOwned_def split: result_splits dest: call_frames(4))
  next
    case False
    with assms g obtain ob del where ob: "got = Inr ob" and del: "k_delete (x_server d) r s1 = (del, s')"
      and "owns_mc (e_prefix s1) (o_labels ob)" and "uid = [] \<or> o_uid ob = uid"
      and "err = None \<Longrightarrow> del = None \<or> del = Some NotFound"
      by (auto simp: deleteOwned_def split: result_splits)
    with f p call_frames(4) [OF del] show thesis by (intro deleted [of del ob]) auto
  qed
qed

text \<open>A delete that came back nil has settled its object.\<close>

fun settled_by :: "ref \<Rightarrow> kbody event \<Rightarrow> bool" where
  "settled_by r (Got r' res) = (r' = r \<and> res = Inl NotFound)"
| "settled_by r (Deleted r' res) = (r' = r \<and> (res = None \<or> res = Some NotFound))"
| "settled_by r _ = False"

fun reads_ref :: "ref \<Rightarrow> kbody event \<Rightarrow> bool" where
  "reads_ref r (Got r' _) = (r' = r)"
| "reads_ref r _ = False"

lemma deleteOwned_frame:
  assumes "deleteOwned d r uid kind s = (err, s')"
  shows "io.more s' = io.more s" and "grows s s'" and "saw (reads_ref r) s s'"
    and "err = None \<Longrightarrow> saw (settled_by r) s s'"
  using assms by (auto elim!: deleteOwned_cases simp: grows_def saw_def
      intro: exI [of _ "[_]"] exI [of _ "[_, _]"])

lemma deleteOwned_safe: "keeps (mc_safe p) (deleteOwned d r uid kind)"
  by (rule keepsI) (auto simp: mc_safe_def elim!: deleteOwned_cases dest!: more_mc(1))

lemma deleteOwned_kueue: "r \<noteq> kueueCR_ref \<Longrightarrow> keeps kueue_safe (deleteOwned d r uid kind)"
  by (rule keepsI) (auto simp: kueue_safe_def elim!: deleteOwned_cases dest!: more_mc(3))

section \<open>Cleanup\<close>

text \<open>Everything \<open>Cleanup\<close> is responsible for: the Kueue object only when this run created it.\<close>

definition worker_refs :: "'w mc_deps \<Rightarrow> 'w mc_state \<Rightarrow> ref list" where
  "worker_refs d s = [worker_secret_ref d s, worker_cluster_ref s] @ (if e_kueueOwned s then [kueueCR_ref] else [])
     @ rbac_refs (e_workerName s)"

text \<open>
  \<open>tidy s0 R m\<close>: run with the fields of \<open>s0\<close>, the step \<open>m\<close> leaves them alone, reads every object of
  \<open>R\<close> whatever happens, and has settled them all when it returns nil.
\<close>

definition tidy :: "'w mc_state \<Rightarrow> ref set \<Rightarrow> 'w mc_state step \<Rightarrow> bool" where
  "tidy s0 R m \<longleftrightarrow> (\<forall>s err t. m s = (err, t) \<longrightarrow> io.more s = io.more s0 \<longrightarrow>
     io.more t = io.more s0 \<and> grows s t \<and>
     (\<forall>r \<in> R. saw (reads_ref r) s t \<and> (err = None \<longrightarrow> saw (settled_by r) s t)))"

lemma tidy_deleteOwned: "tidy s0 {r} (deleteOwned d r uid kind)"
  by (auto simp: tidy_def dest: deleteOwned_frame)

lemma tidy_cong: "(\<And>s. io.more s = io.more s0 \<Longrightarrow> m s = m' s) \<Longrightarrow> tidy s0 R m' \<Longrightarrow> tidy s0 R m"
  unfolding tidy_def by metis

lemma tidy_run_all:
  assumes "list_all2 (tidy s0) Rs ms" and "run_all ms s = (errs, t)" and "io.more s = io.more s0"
  shows "io.more t = io.more s0 \<and> grows s t \<and>
     (\<forall>r \<in> \<Union>(set Rs). saw (reads_ref r) s t \<and> (set errs \<subseteq> {None} \<longrightarrow> saw (settled_by r) s t))"
  using assms
proof (induction arbitrary: s errs rule: list_all2_induct)
  case (Cons R Rs m ms)
  obtain err s1 where m: "m s = (err, s1)" by (metis surj_pair)
  obtain errs' where r: "run_all ms s1 = (errs', t)" and e: "errs = err # errs'"
    using Cons.prems(1) m by (auto split: prod.splits)
  have a: "io.more s1 = io.more s0 \<and> grows s s1 \<and>
      (\<forall>r \<in> R. saw (reads_ref r) s s1 \<and> (err = None \<longrightarrow> saw (settled_by r) s s1))"
    using Cons.hyps(1) m Cons.prems(2) unfolding tidy_def by blast
  with Cons.IH [OF r] show ?case by (auto simp: e intro: saw_grows grows_saw grows_trans)
qed simp

lemma tidy_join_all:
  assumes "list_all2 (tidy s0) Rs ms"
  shows "tidy s0 (\<Union>(set Rs)) (join_all ms)"
  unfolding tidy_def join_all_def using tidy_run_all [OF assms]
  by (auto split: prod.splits simp: join_errors_None)

lemma tidy_fields:
  "tidy s0 {worker_secret_ref d s0} (\<lambda>s. deleteOwned d (worker_secret_ref d s) (e_secretUID s) ''Secret'' s)"
  "tidy s0 {worker_cluster_ref s0} (\<lambda>s. deleteOwned d (worker_cluster_ref s) (e_clusterUID s) ''MultiKueueCluster'' s)"
  "tidy s0 {kueueCR_ref} (\<lambda>s. deleteOwned d kueueCR_ref (e_kueueUID s) ''Kueue'' s)"
  by (rule tidy_cong [OF _ tidy_deleteOwned], frule more_mc(2), frule more_mc(4), frule more_mc(5),
    drule more_mc(6), simp add: worker_secret_ref_def worker_cluster_ref_def)+

lemma tidy_deleteOwnedResources: "tidy s0 (set (worker_refs d s0)) (deleteOwnedResources d)"
proof -
  let ?worker = "map (\<lambda>r. {r}) ([worker_secret_ref d s0, worker_cluster_ref s0]
      @ (if e_kueueOwned s0 then [kueueCR_ref] else []))"
  have "tidy s0 (\<Union>(set ?worker)) (deleteOwnedWorker d)"
  proof (rule tidy_cong)
    show "tidy s0 (\<Union>(set ?worker)) (join_all
       ([\<lambda>s. deleteOwned d (worker_secret_ref d s) (e_secretUID s) ''Secret'' s,
         \<lambda>s. deleteOwned d (worker_cluster_ref s) (e_clusterUID s) ''MultiKueueCluster'' s]
        @ (if e_kueueOwned s0 then [\<lambda>s. deleteOwned d kueueCR_ref (e_kueueUID s) ''Kueue'' s] else [])))"
      by (rule tidy_join_all) (simp add: tidy_fields)
  qed (drule more_mc(3), simp only: deleteOwnedWorker_def)
  moreover have "tidy s0 (\<Union>(set (map (\<lambda>r. {r}) (rbac_refs (e_workerName s0))))) (deleteOwnedRBAC d)"
  proof (rule tidy_cong)
    show "tidy s0 (\<Union>(set (map (\<lambda>r. {r}) (rbac_refs (e_workerName s0)))))
      (join_all (map (\<lambda>r. deleteOwned d r [] (ref_kind r)) (rbac_refs (e_workerName s0))))"
      by (rule tidy_join_all) (simp add: list.rel_map list.rel_refl tidy_deleteOwned)
  qed (drule more_mc(2), simp only: deleteOwnedRBAC_def)
  ultimately have "tidy s0 (\<Union>(set [\<Union>(set ?worker), \<Union>(set (map (\<lambda>r. {r}) (rbac_refs (e_workerName s0))))]))
      (deleteOwnedResources d)"
    unfolding deleteOwnedResources_def by (intro tidy_join_all) simp
  moreover have "\<Union>(set [\<Union>(set ?worker), \<Union>(set (map (\<lambda>r. {r}) (rbac_refs (e_workerName s0))))])
      = set (worker_refs d s0)"
    by (auto simp: worker_refs_def)
  ultimately show ?thesis by simp
qed

text \<open>The TektonConfig, as read, was written back with the scheduler \<open>orig\<close>, somewhere from \<open>s\<close> to \<open>s'\<close>.\<close>

definition restored :: "scheduler \<Rightarrow> 'w mc_state \<Rightarrow> 'w mc_state \<Rightarrow> bool" where
  "restored orig s s' \<longleftrightarrow> (\<exists>latest made evs t. grows s t \<and>
     io_trace s' = evs @ Updated (latest\<lparr>o_body := put_scheduler orig (o_body latest)\<rparr>) (Inr made)
       # Got (tektonConfig_ref ''config'') (Inr latest) # io_trace t)"

lemma write_scheduler_done:
  assumes "write_scheduler d orig t = (None, s')" and "grows s t"
  shows "restored orig s s'"
  using assms by (fastforce simp: write_scheduler_def restored_def split: result_splits dest!: call_frames)

lemma restored_grows: "restored orig s t \<Longrightarrow> grows t u \<Longrightarrow> restored orig s u"
  by (fastforce simp: restored_def grows_def)

lemma grows_restored: "grows s t \<Longrightarrow> restored orig t u \<Longrightarrow> restored orig s u"
  unfolding restored_def by (blast intro: grows_trans)

lemma restoreTektonConfig_done:
  assumes "mc_deps_ok d" and "restoreTektonConfig d s = (None, s')"
  obtains orig where "e_origScheduler s = Some orig" and "restored orig s s'"
proof -
  obtain orig where o: "e_origScheduler s = Some orig"
    using assms(2) by (auto simp: restoreTektonConfig_def split: option.splits)
  then obtain s1 where w: "x_retry d (write_scheduler d orig) s = (None, s1)"
    and r: "seq (\<lambda>s. restoreNetworkPolicyJSON d (e_origNPJSON s) s) (seq (settle d) (restore_gate d)) s1 = (None, s')"
    using assms(2) by (auto simp: restoreTektonConfig_def seq_None wrap_def wrap_error_def split: prod.splits)
  obtain t where t: "grows s t" "write_scheduler d orig t = (None, s1)"
    using retry_None [where I = "grows s", OF mc_growing.retry_ok [OF assms(1)] w
        mc_growing.keeps_write_scheduler [unfolded keeps_def, rule_format] grows_refl] by blast
  have "keeps (grows s1) (seq (\<lambda>s. restoreNetworkPolicyJSON d (e_origNPJSON s) s) (seq (settle d) (restore_gate d)))"
    by (intro keeps_seq mc_growing.keeps_settle assms(1) mc_growing.keeps_restore_gate keepsI)
      (auto elim: keepsE [OF mc_growing.keeps_restoreNetworkPolicyJSON])
  with r have "grows s1 s'" using keepsD grows_refl by metis
  with o t write_scheduler_done restored_grows that show thesis by metis
qed

text \<open>
  C10: a Cleanup that returns nil has dealt with everything the run put on the cluster: each
  worker object, and the Kueue object when this run created it, was found gone or deleted, and
  the TektonConfig was written back with exactly the scheduler settings of the snapshot.
\<close>

theorem mc_cleanup_complete:
  assumes "mc_deps_ok d" and "Cleanup_mc d s = (None, s')"
  shows "(\<forall>r \<in> set (worker_refs d s). saw (settled_by r) s s')
    \<and> (\<exists>orig. e_origScheduler s = Some orig \<and> restored orig s s')"
proof -
  obtain s1 where d: "deleteOwnedResources d s = (None, s1)" and r: "restoreTektonConfig d s1 = (None, s')"
    using assms(2) by (auto simp: Cleanup_mc_def join_errors_None split: prod.splits option.splits kerror.splits)
  have t: "io.more s1 = io.more s" "grows s s1" "\<forall>r \<in> set (worker_refs d s). saw (settled_by r) s s1"
    using tidy_deleteOwnedResources [of s d] d unfolding tidy_def by blast+
  have "grows s1 s'" by (rule keepsE [OF mc_growing.keeps_restoreTektonConfig [OF assms(1)] r grows_refl])
  moreover obtain orig where "e_origScheduler s1 = Some orig" and "restored orig s1 s'"
    by (rule restoreTektonConfig_done [OF assms(1) r])
  ultimately show ?thesis
    using t more_mc(7) [OF t(1)] by (auto intro: saw_grows grows_restored)
qed

text \<open>
  C11: Cleanup tries everything whatever fails: it reads each of the run's objects, also after a
  refusal or an error on another one, and returns an error when there is no TektonConfig
  snapshot.
\<close>

theorem mc_cleanup_attempts_all:
  assumes "mc_deps_ok d" and "Cleanup_mc d s = (err, s')" and "r \<in> set (worker_refs d s)"
  shows "saw (reads_ref r) s s' \<and> (e_origScheduler s = None \<longrightarrow> err \<noteq> None)"
proof -
  obtain e1 s1 where d: "deleteOwnedResources d s = (e1, s1)" by (metis surj_pair)
  obtain e2 s2 where r: "restoreTektonConfig d s1 = (e2, s2)" by (metis surj_pair)
  have e: "s' = s2" "err = None \<Longrightarrow> e2 = None"
    using assms(2) d r by (auto simp: Cleanup_mc_def join_errors_None split: option.splits kerror.splits)
  have t: "io.more s1 = io.more s" "saw (reads_ref r) s s1"
    using tidy_deleteOwnedResources [of s d] d assms(3) unfolding tidy_def by blast+
  have "grows s1 s'"
    using keepsE [OF mc_growing.keeps_restoreTektonConfig [OF assms(1)] r grows_refl] e(1) by simp
  moreover have "e2 \<noteq> None" if "e_origScheduler s = None"
    using that r more_mc(7) [OF t(1)] by (auto simp: restoreTektonConfig_def)
  ultimately show ?thesis using t(2) e(2) by (auto intro: saw_grows)
qed

section \<open>Deletes\<close>

lemma keeps_deletes:
  assumes "\<And>r uid kind. r \<noteq> kueueCR_ref \<Longrightarrow> keeps I (deleteOwned d r uid kind)"
    and "keeps I (\<lambda>s. if e_kueueOwned s then deleteOwned d kueueCR_ref (e_kueueUID s) ''Kueue'' s else (None, s))"
  shows "keeps I (deleteOwnedResources d)"
proof -
  have ne: "worker_secret_ref d s \<noteq> kueueCR_ref" "worker_cluster_ref s \<noteq> kueueCR_ref"
    "r \<in> set (rbac_refs name) \<Longrightarrow> r \<noteq> kueueCR_ref" for s r name
    by (auto simp: worker_secret_ref_def worker_cluster_ref_def kueueCR_ref_def rbac_refs_def)
  have 1: "keeps I (\<lambda>s. deleteOwned d (worker_secret_ref d s) (e_secretUID s) ''Secret'' s)"
    "keeps I (\<lambda>s. deleteOwned d (worker_cluster_ref s) (e_clusterUID s) ''MultiKueueCluster'' s)"
    by (rule keepsI, auto elim: keepsE [OF assms(1) [OF ne(1)]] keepsE [OF assms(1) [OF ne(2)]])+
  have "keeps I (deleteOwnedWorker d)"
  proof (rule keepsI)
    fix s err s' assume "I s" and w: "deleteOwnedWorker d s = (err, s')"
    let ?one = "\<lambda>s. deleteOwned d (worker_secret_ref d s) (e_secretUID s) ''Secret'' s"
    let ?two = "\<lambda>s. deleteOwned d (worker_cluster_ref s) (e_clusterUID s) ''MultiKueueCluster'' s"
    let ?three = "\<lambda>s. if e_kueueOwned s then deleteOwned d kueueCR_ref (e_kueueUID s) ''Kueue'' s else (None, s)"
    have same: "e_kueueOwned t = e_kueueOwned s" if "?one s = (e1, s1)" and "?two s1 = (e2, t)" for e1 s1 e2 t
      using more_mc(3) [OF deleteOwned_frame(1) [OF that(1)]] more_mc(3) [OF deleteOwned_frame(1) [OF that(2)]]
      by simp
    obtain e1 s1 where s1: "?one s = (e1, s1)" by (metis surj_pair)
    obtain e2 s2 where s2: "?two s1 = (e2, s2)" by (metis surj_pair)
    obtain e3 s3 where s3: "?three s2 = (e3, s3)" by (metis surj_pair)
    have "I s3" by (rule keepsE [OF assms(2) s3 keepsE [OF 1(2) s2 keepsE [OF 1(1) s1 \<open>I s\<close>]]])
    moreover have "s' = s3" using w s1 s2 s3 same [OF s1 s2]
      by (auto simp: deleteOwnedWorker_def join_all_def split: if_splits prod.splits)
    ultimately show "I s'" by simp
  qed
  moreover have "keeps I (deleteOwnedRBAC d)"
    by (rule keepsI) (auto simp: deleteOwnedRBAC_def intro!: assms(1) ne(3)
        elim!: keepsE [OF keeps_join_all, rotated])
  ultimately show ?thesis unfolding deleteOwnedResources_def by (intro keeps_join_all) auto
qed

lemma mc_reach_safe:
  "mc_deps_ok d \<Longrightarrow> mc_reach d s0 s \<Longrightarrow> mc_safe p s0 \<Longrightarrow> mc_safe p s"
  by (rule mc_safety.mc_reach_invariant [OF _ keeps_deletes])
    (auto intro!: deleteOwned_safe keepsI elim: keepsE [OF deleteOwned_safe] split: if_splits)

lemma delete_owned_kueue:
  "keeps kueue_safe (\<lambda>s. if e_kueueOwned s then deleteOwned d kueueCR_ref (e_kueueUID s) ''Kueue'' s else (None, s))"
  by (rule keepsI) (auto simp: kueue_safe_def split: if_splits elim!: deleteOwned_cases dest!: more_mc(3))

lemma mc_reach_kueue:
  "mc_deps_ok d \<Longrightarrow> mc_reach d s0 s \<Longrightarrow> kueue_safe s0 \<Longrightarrow> kueue_safe s"
  by (rule mc_kueue.mc_reach_invariant [OF _ keeps_deletes [OF deleteOwned_kueue delete_owned_kueue]])

lemma kueue_guarded_append: "kueue_guarded (tr @ tr') \<Longrightarrow> kueue_guarded tr'"
  by (induction tr) auto

text \<open>
  C9: whatever a run calls and in whatever order, every delete request it makes goes to an object
  whose latest read showed the labels of this run.
\<close>

theorem mc_deletes_only_owned:
  assumes "mc_deps_ok d" and "io_trace s0 = []" and "mc_reach d (NewEnvironment_mc nanos s0) s"
    and "io_trace s = later @ Deleted r res # earlier"
  shows "\<exists>ob. last_read r earlier = Some ob
     \<and> label_of (o_labels ob) ''app.kubernetes.io/managed-by'' = ''release-tests-ginkgo''
     \<and> label_of (o_labels ob) ''app.kubernetes.io/instance'' = ''rtg-np-'' @ show_hex nanos"
proof -
  have "mc_safe (''rtg-np-'' @ show_hex nanos) s"
    by (rule mc_reach_safe [OF assms(1,3)]) (simp add: mc_safe_def NewEnvironment_mc_def assms(2))
  with assms(4) show ?thesis unfolding mc_safe_def by (metis mc_labels.guarded_not_foreign)
qed

text \<open>
  the cluster-wide Kueue object is deleted only by a run that created it itself: a delete
  request for it comes after a create request for it that was answered with the object.
\<close>

theorem kueue_deleted_only_if_created:
  assumes "mc_deps_ok d" and "io_trace s0 = []" and "mc_reach d (NewEnvironment_mc nanos s0) s"
    and "io_trace s = later @ Deleted kueueCR_ref res # earlier"
  shows "\<exists>ob made. Created ob (Inr made) \<in> set earlier \<and> o_ref ob = kueueCR_ref"
proof -
  have "kueue_safe s"
    by (rule mc_reach_kueue [OF assms(1,3)]) (simp add: kueue_safe_def NewEnvironment_mc_def assms(2))
  with assms(4) have "list_ex creates_kueue earlier"
    by (auto simp: kueue_safe_def dest: kueue_guarded_append)
  then obtain e where "e \<in> set earlier" and "creates_kueue e" by (auto simp: list_ex_iff)
  then show ?thesis by (cases e rule: creates_kueue.cases) auto
qed

end
