(* ===== verification/MultiClusterDemo.thy ===== *)
theory MultiClusterDemo
  imports MultiClusterProperties
begin

text \<open>
  A run of \<open>pkg/multicluster\<close> on a small cluster, used to apply the properties: both operators
  are subscribed, the Kueue object is not there until it is created (the world remembers that),
  every other object a run asks for exists with its labels, and all commands succeed.
\<close>

section \<open>The cluster\<close>

definition demo_prefix :: string where
  "demo_prefix = ''rtg-np-1''"

definition demo_sub :: "string \<Rightarrow> kobj" where
  "demo_sub pkg = plain_object (subscription_ref ''ops'' pkg) (SubscriptionBody
     (Some \<lparr>ss_package = pkg, ss_channel = [], ss_source = [], ss_sourceNamespace = [], ss_approval = []\<rparr>) ''op.v1'')"

definition demo_body :: "ref \<Rightarrow> kbody" where
  "demo_body r =
     (if ref_kind r = ''Subscription'' then o_body (demo_sub (ref_name r))
      else if ref_kind r = ''ClusterServiceVersion'' then CsvBody ''Succeeded'' [] []
      else if ref_kind r = ''ConfigMap'' then ConfigMapBody [''ca.crt'' \<mapsto> ''ca'']
      else if ref_kind r = ''ServiceAccount/token'' then TokenBody ''tok''
      else if ref_kind r = ''TektonConfig'' then ConfigBody zero_scheduler []
      else Dyn JNull)"

definition demo_object :: "ref \<Rightarrow> kobj" where
  "demo_object r = \<lparr>o_ref = r, o_labels = labels_mc demo_prefix, o_uid = ''u'', o_body = demo_body r\<rparr>"

definition demo_server :: "(bool, kbody) server" where
  "demo_server = \<lparr>sv_get = (\<lambda>r w. (if r = kueueCR_ref \<and> \<not> w then Inl NotFound else Inr (demo_object r), w)),
     sv_create = (\<lambda>ob w. (Inr (demo_object (o_ref ob)), w \<or> o_ref ob = kueueCR_ref)),
     sv_update = (\<lambda>ob w. (Inr ob, w)), sv_delete = (\<lambda>r w. (None, w)),
     sv_list = (\<lambda>c k ns sel w. (Inr [demo_sub ''openshift-cert-manager-operator'', demo_sub ''kueue-operator''], w))\<rparr>"

definition demo_flags :: operator_flags where
  "demo_flags = \<lparr>of_pipelineChannel = [], of_catalogSource = [], of_pipelinesNamespace = [],
     of_certManagerChannel = [], of_certManagerNamespace = ''cm'', of_kueueChannel = [], of_kueueNamespace = ''kq''\<rparr>"

definition demo_discovery :: "string \<Rightarrow> bool \<Rightarrow> bool \<times> bool" where
  "demo_discovery gv w = (True, w)"

definition demo_deps :: "bool mc_deps" where
  "demo_deps = \<lparr>x_server = demo_server, x_poll = rounds_poller 0, x_retry = retry_rounds k_conflict 1,
     x_shell = (\<lambda>args w. (\<lparr>ExitCode = 0, Stdout = [], Stderr = []\<rparr>, w)),
     x_connection = \<lparr>cn_Kubeconfig = [], cn_Context = [], cn_Cluster = []\<rparr>,
     x_flags = demo_flags,
     x_discovery = demo_discovery, x_newClient = Inr demo_server, x_nestedMap = (\<lambda>j p. Inr None),
     x_nestedSlice = (\<lambda>j p. Inr (Some [JObj [(''type'', JStr ''Available''), (''status'', JStr ''True'')],
       JObj [(''type'', JStr ''Active''), (''status'', JStr ''True'')]])),
     x_marshal = (\<lambda>m. Inr []), x_writeKubeconfig = (\<lambda>ep tok ca. Inr (ep @ tok @ ca)), x_configName = ''config''\<rparr>"

lemma demo_deps_ok: "mc_deps_ok demo_deps"
  by (simp add: mc_deps_ok_def demo_deps_def rounds_poller_contract retry_rounds_contract)

definition demo_start :: "(bool, kbody) io" where
  "demo_start = \<lparr>io_world = False, io_trace = []\<rparr>"

text \<open>
  The state after the run's own steps: the Kueue object is there and known to be this run's, the
  UIDs and the scheduler are recorded. The trace is left open.
\<close>

definition demo_state :: "bool \<Rightarrow> kbody event list \<Rightarrow> bool mc_state" where
  "demo_state ready tr =
     \<lparr>io_world = ready, io_trace = tr, e_prefix = demo_prefix, e_workerName = ''rtg-np-1-self'',
      e_secretUID = (if ready then ''u'' else []), e_clusterUID = (if ready then ''u'' else []),
      e_kueueUID = (if ready then ''u'' else []), e_kueueOwned = ready,
      e_origScheduler = (if ready then Some zero_scheduler else None), e_origNPJSON = [],
      e_origMAGExists = ready, e_origMAGDisabled = []\<rparr>"

lemmas demo_server_defs = demo_server_def demo_sub_def demo_body_def demo_object_def plain_object_def
  subscription_ref_def csv_ref_def k_get_def k_list_def k_create_def k_update_def k_delete_def k_run_def
  kueueCR_ref_def seq_def wrap_def wrap_error_def rounds_poller_def

lemma demo_start_state: "NewEnvironment_mc 1 demo_start = demo_state False []"
proof -
  have "show_hex 1 = ''1''" by code_simp
  then show ?thesis by (simp add: NewEnvironment_mc_def demo_start_def demo_state_def demo_prefix_def)
qed

lemma demo_prerequisites:
  "\<exists>tr'. EnsurePrerequisites (Some demo_server) (rounds_poller 0) (Some demo_discovery)
     (MulticlusterPrerequisites demo_flags) (demo_state False tr) = (None, demo_state False tr')"
  by (simp add: demo_server_defs EnsurePrerequisites_def MulticlusterPrerequisites_def demo_flags_def
    ensure_prerequisite_def EnsureOperator_def choose_subscription_def matching_subscriptions_def
    waitForOperator_def operator_condition_def csv_verdict_def WaitForAPI_def demo_discovery_def demo_state_def)

lemma demo_setup: "\<exists>tr'. Setup_mc demo_deps (demo_state False tr) = (None, demo_state True tr')"
proof -
  obtain tr1 where 1: "EnsurePrerequisites (Some demo_server) (rounds_poller 0) (Some demo_discovery)
      (MulticlusterPrerequisites demo_flags) (demo_state False tr) = (None, demo_state False tr1)"
    using demo_prerequisites by blast
  have "\<exists>tr'. seq (snapshotTektonConfig demo_deps) (seq (ensureKueueCR demo_deps) (ensureSelfWorkerCluster demo_deps))
      (demo_state False tr1) = (None, demo_state True tr')"
    by (simp add: demo_server_defs snapshotTektonConfig_def networkPolicyJSON_def record_gate_def Run_def
      ensureKueueCR_def has_condition_def create_kueueCR_def owned_object_def ensureSelfWorkerCluster_def
      ensureWorkerNamespace_def ensureWorkerServiceAccount_def worker_rbac_def mint_worker_token_def create_or_owned_def
      create_tolerant_def register_worker_def ensure_secret_def ensure_cluster_def worker_secret_ref_def worker_cluster_ref_def
      demo_deps_def demo_state_def tektonConfig_ref_def dynConfig_ref_def demo_flags_def Let_def some_condition.simps)
  with 1 show ?thesis
    by (simp add: Setup_mc_def demo_deps_def demo_discovery_def seq_def wrap_def wrap_error_def) 
qed

text \<open>\<open>demo_nil m tr P\<close>: run after the trace \<open>tr\<close>, the step returns nil and only adds to the trace.\<close>

definition demo_nil :: "bool mc_state step \<Rightarrow> bool" where
  "demo_nil m \<longleftrightarrow> (\<forall>tr. \<exists>tr'. m (demo_state True tr) = (None, demo_state True tr') \<and> suffix tr tr')"

lemma demo_worker:
  "\<exists>earlier. deleteOwnedWorker demo_deps (demo_state True tr)
     = (None, demo_state True (Deleted kueueCR_ref None # earlier))"
  by (simp add: deleteOwnedWorker_def join_all_None_Cons deleteOwned_def demo_server_defs demo_deps_def demo_state_def
      worker_secret_ref_def worker_cluster_ref_def demo_flags_def owns_mc_def labels_mc_def label_of_def demo_prefix_def)

lemma demo_rbac: "demo_nil (deleteOwnedRBAC demo_deps)"
  by (simp add: demo_nil_def deleteOwnedRBAC_def rbac_refs_def join_all_None_Cons deleteOwned_def demo_server_defs
      demo_deps_def demo_state_def owns_mc_def labels_mc_def label_of_def demo_prefix_def suffix_Cons)

lemma demo_restore: "demo_nil (restoreTektonConfig demo_deps)"
  by (simp add: demo_nil_def restoreTektonConfig_def write_scheduler_def restoreNetworkPolicyJSON_def run_or_def Run_def
      settle_def EnsureTektonConfigStatusInstalled_def installed_condition_def EnsureTektonConfigExists_def
      tektonConfig_ref_def restore_gate_def put_scheduler_def demo_server_defs demo_deps_def demo_state_def suffix_Cons
      Let_def)

definition demo_done :: "bool mc_state" where
  "demo_done = snd (Cleanup_mc demo_deps (snd (Setup_mc demo_deps (NewEnvironment_mc 1 demo_start))))"

lemma hub_demo_runs:
  obtains tr later earlier where "Setup_mc demo_deps (NewEnvironment_mc 1 demo_start) = (None, demo_state True tr)"
    and "Cleanup_mc demo_deps (demo_state True tr) = (None, demo_done)"
    and "io_trace demo_done = later @ Deleted kueueCR_ref None # earlier"
proof -
  obtain tr where 0: "Setup_mc demo_deps (NewEnvironment_mc 1 demo_start) = (None, demo_state True tr)"
    using demo_setup demo_start_state by metis
  obtain earlier where 1: "deleteOwnedWorker demo_deps (demo_state True tr)
      = (None, demo_state True (Deleted kueueCR_ref None # earlier))" using demo_worker by blast
  obtain tr2 where 2: "deleteOwnedRBAC demo_deps (demo_state True (Deleted kueueCR_ref None # earlier)) = (None, demo_state True tr2)"
    and s2: "suffix (Deleted kueueCR_ref None # earlier) tr2" using demo_rbac unfolding demo_nil_def by blast
  obtain tr3 where 3: "restoreTektonConfig demo_deps (demo_state True tr2) = (None, demo_state True tr3)"
    and s3: "suffix tr2 tr3" using demo_restore unfolding demo_nil_def by blast
  have d: "deleteOwnedResources demo_deps (demo_state True tr) = (None, demo_state True tr2)"
    using 1 2 by (simp add: deleteOwnedResources_def join_all_None_Cons)
  then have c: "Cleanup_mc demo_deps (demo_state True tr) = (None, demo_state True tr3)"
    using 3 by (simp add: Cleanup_mc_def join_errors_None)
  have e: "demo_done = demo_state True tr3" by (simp add: demo_done_def 0 c del: One_nat_def)
  obtain later where "tr3 = later @ Deleted kueueCR_ref None # earlier"
    using suffix_order.trans [OF s2 s3] by (auto simp: suffix_def)
  then have "io_trace demo_done = later @ Deleted kueueCR_ref None # earlier"
    unfolding e by (simp add: demo_state_def)
  with 0 c show thesis by (intro that [of tr later earlier]) (simp_all only: e)
qed

section \<open>Witnesses\<close>

lemma demo_reach: "mc_reach demo_deps (NewEnvironment_mc 1 demo_start) demo_done"
  by (rule hub_demo_runs) (rule mc_cleanup [OF mc_setup [OF mc_start]])

lemma demo_no_trace: "io_trace demo_start = []"
  by (simp add: demo_start_def)

theorem mc_deletes_only_owned_witness:
  "\<exists>later earlier ob. io_trace demo_done = later @ Deleted kueueCR_ref None # earlier
     \<and> last_read kueueCR_ref earlier = Some ob
     \<and> label_of (o_labels ob) ''app.kubernetes.io/instance'' = ''rtg-np-'' @ show_hex 1"
proof (rule hub_demo_runs)
  fix tr later earlier assume sp: "io_trace demo_done = later @ Deleted kueueCR_ref None # earlier"
  from mc_deletes_only_owned [OF demo_deps_ok demo_no_trace demo_reach sp] sp show ?thesis by blast
qed

theorem kueue_deleted_only_if_created_witness:
  "\<exists>later earlier ob made. io_trace demo_done = later @ Deleted kueueCR_ref None # earlier
     \<and> Created ob (Inr made) \<in> set earlier \<and> o_ref ob = kueueCR_ref"
proof (rule hub_demo_runs)
  fix tr later earlier assume sp: "io_trace demo_done = later @ Deleted kueueCR_ref None # earlier"
  from kueue_deleted_only_if_created [OF demo_deps_ok demo_no_trace demo_reach sp] sp show ?thesis by blast
qed

theorem mc_cleanup_complete_witness:
  "\<exists>tr. saw (settled_by kueueCR_ref) (demo_state True tr) demo_done
     \<and> restored zero_scheduler (demo_state True tr) demo_done"
proof (rule hub_demo_runs)
  fix tr assume c: "Cleanup_mc demo_deps (demo_state True tr) = (None, demo_done)"
  have "kueueCR_ref \<in> set (worker_refs demo_deps (demo_state True tr))"
    by (simp add: worker_refs_def demo_state_def)
  moreover have "e_origScheduler (demo_state True tr) = Some zero_scheduler" by (simp add: demo_state_def)
  ultimately show ?thesis using mc_cleanup_complete [OF demo_deps_ok c] by auto
qed

text \<open>Without a snapshot.\<close>

theorem mc_cleanup_attempts_all_witness:
  "saw (reads_ref (Ref [] ''Namespace'' [] ''rtg-np-1-self'')) (demo_state False [])
       (snd (Cleanup_mc demo_deps (demo_state False [])))
   \<and> fst (Cleanup_mc demo_deps (demo_state False [])) \<noteq> None"
proof -
  have "Ref [] ''Namespace'' [] ''rtg-np-1-self'' \<in> set (worker_refs demo_deps (demo_state False []))"
    by (simp add: worker_refs_def rbac_refs_def demo_state_def)
  from mc_cleanup_attempts_all [OF demo_deps_ok prod.collapse [symmetric] this]
  show ?thesis by (simp add: demo_state_def)
qed

end
