(* ===== verification/MultiClusterPolicies.thy ===== *)
theory MultiClusterPolicies
  imports MultiClusterDemo
begin

text \<open>
  What the policy operations of \<open>pkg/multicluster\<close> observe and run: the checks of
  \<open>AssertPolicies\<close>, the refusal and the snapshot of \<open>EnsureCustomPolicy\<close>, and the order of
  \<open>RemoveCustomPolicyAndRestore\<close>.
\<close>

section \<open>Observed policies\<close>

fun policy_seen :: "bool \<Rightarrow> string \<Rightarrow> kbody event \<Rightarrow> bool" where
  "policy_seen present name (Got r res) =
     (r = policy_ref name \<and> (if present then is_ok res else res = Inl NotFound))"
| "policy_seen present name _ = False"

lemma policy_condition_done:
  assumes "policy_condition d name present s = ((True, None), s')"
  obtains res where "io_trace s' = Got (policy_ref name) res # io_trace s"
    and "policy_seen present name (Got (policy_ref name) res)"
  using assms by (auto simp: policy_condition_def is_ok_iff split: result_splits dest!: call_frames(1))

lemma assertPolicy_seen:
  assumes "mc_deps_ok d" and "assertPolicy d name present s = (None, s')"
  obtains res evs where "io_trace s' = Got (policy_ref name) res # evs @ io_trace s"
    and "policy_seen present name (Got (policy_ref name) res)"
proof -
  obtain e where p: "x_poll d 5 600 True (policy_condition d name present) s = (e, s')" and e: "of_poll e = None"
    using assms(2) by (auto simp: assertPolicy_def split: prod.splits)
  from e have "e = None" by (cases e rule: of_poll.cases) auto
  with p obtain k u where pe: "pending (policy_condition d name present) k s u"
    and u: "policy_condition d name present u = ((True, None), s')"
    using poll_None [OF mc_growing.poll_ok [OF assms(1)]] by metis
  have "grows s u"
    by (rule pending_invariant [where I = "grows s", OF pe grows_refl])
      (rule keepsE [OF mc_growing.keeps_policy_condition])
  from u show thesis
    by (rule policy_condition_done) (use \<open>grows s u\<close> that in \<open>auto simp: grows_def\<close>)
qed

text \<open>
  AssertPolicies returns nil only if every component named is known and each of its network
  policies was read in the state asked for, present or not found, during this call.
\<close>

theorem assert_policies_observed:
  assumes "mc_deps_ok d" and "AssertPolicies d present names s = (None, s')"
  shows "\<forall>c \<in> set names. \<exists>policies. PoliciesByComponent c = Some policies
    \<and> (\<forall>name \<in> set policies. saw (policy_seen present name) s s')"
proof -
  have one: "grows s t \<and> saw (policy_seen present name) s t" if "assertPolicy d name present s = (None, t)" for name s t
    by (rule assertPolicy_seen [OF assms(1) that])
      (auto simp: grows_def saw_def intro: exI [of _ "Got _ _ # _"])
  let ?R = "\<lambda>c s t. \<exists>policies. PoliciesByComponent c = Some policies
      \<and> (\<forall>name \<in> set policies. saw (policy_seen present name) s t)"
  have two: "grows s t \<and> ?R c s t" if "assert_component d present c s = (None, t)" for c s t
    using that for_each_saw [where R = "\<lambda>name. saw (policy_seen present name)" and s = s and s' = t,
        OF _ one saw_grows grows_saw]
    by (auto simp: assert_component_def split: option.splits)
  have "?R c s u" if "?R c s t" and "grows t u" for c s t u using that by (blast intro: saw_grows)
  moreover have "?R c s u" if "grows s t" and "?R c t u" for c s t u using that by (blast intro: grows_saw)
  ultimately show ?thesis
    using for_each_saw [where R = ?R, OF assms(2) [unfolded AssertPolicies_def] two] by blast
qed

theorem assert_policies_observed_witness:
  "saw (policy_seen True ''syncer-service-controller'') (demo_state True [])
     (snd (AssertPolicies demo_deps True HubOnlyComponents (demo_state True [])))"
proof -
  have n: "fst (AssertPolicies demo_deps True HubOnlyComponents (demo_state True [])) = None" by code_simp
  have "AssertPolicies demo_deps True HubOnlyComponents (demo_state True [])
      = (None, snd (AssertPolicies demo_deps True HubOnlyComponents (demo_state True [])))"
    using n by (metis prod.collapse)
  from assert_policies_observed [OF demo_deps_ok this] show ?thesis
    by (auto simp: HubOnlyComponents_def PoliciesByComponent_def)
qed

section \<open>The custom policy\<close>

text \<open>What a successful \<open>run_or\<close> leaves in the trace.\<close>

lemma run_or_ran:
  assumes "run_or d args msg s = (None, s')"
  obtains res where "io_trace s' = Ran (Command (x_connection d) args) res # io_trace s" and "ExitCode res = 0"
proof -
  obtain res where r: "Run (x_shell d) (x_connection d) args s = (res, s')" and "ExitCode res = 0"
    using assms by (auto simp: run_or_def split: prod.splits if_splits)
  then show thesis using that run_frames [OF r] by simp
qed

text \<open>The two reads of the TektonConfig, and what their values are.\<close>

lemma policyMap_read:
  assumes "policyMap d s = (res, s')"
  obtains got where "io_trace s' = Got dynConfig_ref got # io_trace s"
    and "res = (case got of Inl e \<Rightarrow> Inl (KContext ''read TektonConfig'' (KApi e))
      | Inr ob \<Rightarrow> (case x_nestedMap d (dyn_content (o_body ob)) [''spec'', ''networkPolicy'', ''policies''] of
           Inl e \<Rightarrow> Inl (KContext ''read TektonConfig policies'' (KMsg e))
         | Inr None \<Rightarrow> Inr [] | Inr (Some m) \<Rightarrow> Inr m))"
  using assms by (auto simp: policyMap_def split: result_splits dest!: call_frames(1))

definition snapshot_of :: "'w mc_deps \<Rightarrow> kobj \<Rightarrow> string \<Rightarrow> bool" where
  "snapshot_of d ob orig \<longleftrightarrow>
     (case x_nestedMap d (dyn_content (o_body ob)) [''spec'', ''networkPolicy''] of
        Inl e \<Rightarrow> False
      | Inr None \<Rightarrow> orig = []
      | Inr (Some np) \<Rightarrow> if np = [] then orig = [] else x_marshal d np = Inr orig)"

lemma networkPolicyJSON_read:
  assumes "networkPolicyJSON d s = (Inr orig, s')"
  obtains ob where "io_trace s' = Got dynConfig_ref (Inr ob) # io_trace s" and "snapshot_of d ob orig"
  using assms by (auto simp: networkPolicyJSON_def snapshot_of_def split: result_splits if_splits dest!: call_frames(1))

definition custom_patch :: "string \<Rightarrow> string list" where
  "custom_patch name = patch_config ''merge''
     (''{\"spec\":{\"networkPolicy\":{\"policies\":{\"'' @ name
       @ ''\":{\"podSelector\":{},\"policyTypes\":[\"Ingress\",\"Egress\"]}}}}}'')"

lemma wrap_None: "wrap msg m s = (None, s') \<longleftrightarrow> m s = (None, s')"
  by (simp add: wrap_def wrap_error_def split: prod.split)

lemma add_custom_policy_done:
  assumes "mc_deps_ok d" and "add_custom_policy d name s = (None, s')"
  obtains out evs1 evs2 found cur entry where
    "io_trace s' = Got proxy_ref (Inr cur) # evs2 @ Got (policy_ref name) (Inr found) # evs1
       @ Ran (Command (x_connection d) (custom_patch name)) out # io_trace s"
    and "ExitCode out = 0" and "entry \<noteq> []"
    and "x_nestedMap d (dyn_content (o_body cur)) [''spec'', ''networkPolicy'', ''policies'', name] = Inr (Some entry)"
proof -
  let ?pol = "AssertPolicies d True [''scheduler'', ''proxy-aae'', ''syncer-service'']"
  from assms(2) [unfolded add_custom_policy_def seq_None wrap_None, folded custom_patch_def]
  obtain a b c e where 1: "run_or d (custom_patch name) (''add custom policy '' @ name) s = (None, a)"
    and 2: "settle d a = (None, b)" and 3: "assertPolicy d name True b = (None, c)" and 4: "?pol c = (None, e)"
    and final: "(case x_poll d 5 600 True (propagated d name) e of
      (err, s') \<Rightarrow> (wrap_error (''TektonConfig did not propagate custom policy '' @ name
         @ '' onto TektonMulticlusterProxyAAE'') (of_poll err), s')) = (None, s')" by blast
  then obtain po where 5: "x_poll d 5 600 True (propagated d name) e = (po, s')" "of_poll po = None"
    by (auto simp only: wrap_error_def prod.case map_option_is_None prod.inject split: prod.splits)
  obtain out where t1: "io_trace a = Ran (Command (x_connection d) (custom_patch name)) out # io_trace s" "ExitCode out = 0"
    by (rule run_or_ran [OF 1])
  obtain evs found where t3: "io_trace c = Got (policy_ref name) (Inr found) # evs @ io_trace b"
    by (rule assertPolicy_seen [OF assms(1) 3]) (auto simp: is_ok_iff)
  have "po = None" using 5(2) by (cases po rule: of_poll.cases) auto
  with 5(1) obtain k u where pe: "pending (propagated d name) k e u" and u: "propagated d name u = ((True, None), s')"
    using poll_None [OF mc_growing.poll_ok [OF assms(1)]] by metis
  have "grows e u"
    by (rule pending_invariant [where I = "grows e", OF pe grows_refl])
      (auto simp: propagated_def grows_def split: result_splits dest!: call_frames(1))
  moreover have "grows a b" "grows c e"
    using keepsE [OF mc_growing.keeps_settle [OF assms(1)] _ grows_refl] 2
      keepsE [OF mc_growing.keeps_AssertPolicies [OF assms(1)] _ grows_refl] 4 by metis+
  ultimately obtain x y z where g: "io_trace u = x @ io_trace e" "io_trace b = y @ io_trace a" "io_trace e = z @ io_trace c"
    by (auto simp: grows_def)
  obtain cur entry where "io_trace s' = Got proxy_ref (Inr cur) # io_trace u" "entry \<noteq> []"
    "x_nestedMap d (dyn_content (o_body cur)) [''spec'', ''networkPolicy'', ''policies'', name] = Inr (Some entry)"
    using u by (auto simp: propagated_def split: result_splits dest!: call_frames(1))
  with t1 t3 g show thesis by (intro that [of cur "x @ z" found "evs @ y" out entry]) simp_all
qed

lemma custom_policy_rest:
  assumes "mc_deps_ok d" and "EnsureCustomPolicy d name s = (res, s')" and "policyMap d s = (r1, s1)"
  shows "grows s1 s'"
proof (cases "\<exists>policies. r1 = Inr policies \<and> name \<notin> fst ` set policies")
  case True
  obtain r2 s2 where 2: "networkPolicyJSON d s1 = (r2, s2)" by (metis surj_pair)
  have g: "grows s1 s2" by (rule keepsE [OF mc_growing.keeps_networkPolicyJSON 2 grows_refl])
  show ?thesis
  proof (cases r2)
    case Inl
    with assms(2,3) True 2 g show ?thesis by (auto simp: EnsureCustomPolicy_def)
  next
    case (Inr orig)
    obtain e s3 where 3: "add_custom_policy d name s2 = (e, s3)" by (metis surj_pair)
    have "grows s1 s3" by (rule keepsE [OF mc_growing.keeps_add_custom_policy [OF assms(1)] 3 g])
    with assms(2,3) True 2 3 Inr show ?thesis by (auto simp: EnsureCustomPolicy_def split: option.splits)
  qed
next
  case False
  with assms(2,3) show ?thesis by (auto simp: EnsureCustomPolicy_def grows_refl split: sum.splits)
qed

text \<open>
  C29: EnsureCustomPolicy never overwrites: its first request reads the TektonConfig, and when
  spec.networkPolicy.policies of this read has an entry of the name it fails without another request.
  When it returns a text, the entry was not there; the text is spec.networkPolicy of a second read
  directly after the first, encoded, or empty when there is none; the next request is the successful
  patch that adds the entry; the network policy of that name was then read as present; and the last
  request is a read of the proxy component that has the entry.
\<close>

theorem custom_policy_guard:
  assumes "mc_deps_ok d" and "EnsureCustomPolicy d name s = (res, s')"
    and "config = Ref [] ''tektonconfigs.operator.tekton.dev'' [] ''config''"
  shows "(\<exists>got evs. io_trace s' = evs @ Got config got # io_trace s
       \<and> (\<forall>ob m. got = Inr ob
            \<longrightarrow> x_nestedMap d (dyn_content (o_body ob)) [''spec'', ''networkPolicy'', ''policies''] = Inr (Some m)
            \<longrightarrow> name \<in> fst ` set m \<longrightarrow> \<not> is_ok res \<and> evs = []))
    \<and> (\<forall>orig. res = Inr orig \<longrightarrow> (\<exists>ob ob' out evs1 found evs2 cur entry.
         io_trace s' = Got (Ref [] ''tektonmulticlusterproxyaaes.operator.tekton.dev'' [] ''multicluster-proxy-aae'') (Inr cur)
           # evs2 @ Got (Ref [] ''NetworkPolicy'' ''openshift-pipelines'' name) (Inr found)
           # evs1 @ Ran (Command (x_connection d)
               [''oc'', ''patch'', ''TektonConfig'', ''config'', ''--type=merge'', ''-p'',
                ''{\"spec\":{\"networkPolicy\":{\"policies\":{\"'' @ name
                  @ ''\":{\"podSelector\":{},\"policyTypes\":[\"Ingress\",\"Egress\"]}}}}}'']) out
           # Got config (Inr ob') # Got config (Inr ob) # io_trace s
         \<and> ExitCode out = 0 \<and> entry \<noteq> []
         \<and> x_nestedMap d (dyn_content (o_body cur)) [''spec'', ''networkPolicy'', ''policies'', name] = Inr (Some entry)
         \<and> (case x_nestedMap d (dyn_content (o_body ob)) [''spec'', ''networkPolicy'', ''policies''] of
              Inl e \<Rightarrow> False | Inr None \<Rightarrow> True | Inr (Some m) \<Rightarrow> name \<notin> fst ` set m)
         \<and> (case x_nestedMap d (dyn_content (o_body ob')) [''spec'', ''networkPolicy''] of
              Inl e \<Rightarrow> False | Inr None \<Rightarrow> orig = []
            | Inr (Some np) \<Rightarrow> if np = [] then orig = [] else x_marshal d np = Inr orig)))"
    (is "?first \<and> (\<forall>orig. res = Inr orig \<longrightarrow> (\<exists>ob ob' out evs1 found evs2 cur entry. ?R orig ob ob' out evs1 found evs2 cur entry))")
proof
  have config: "config = dynConfig_ref" using assms(3) by (simp add: dynConfig_ref_def)
  obtain r1 s1 where p: "policyMap d s = (r1, s1)" by (metis surj_pair)
  obtain got where got: "io_trace s1 = Got dynConfig_ref got # io_trace s"
    "r1 = (case got of Inl e \<Rightarrow> Inl (KContext ''read TektonConfig'' (KApi e))
      | Inr ob \<Rightarrow> (case x_nestedMap d (dyn_content (o_body ob)) [''spec'', ''networkPolicy'', ''policies''] of
           Inl e \<Rightarrow> Inl (KContext ''read TektonConfig policies'' (KMsg e))
         | Inr None \<Rightarrow> Inr [] | Inr (Some m) \<Rightarrow> Inr m))"
    by (rule policyMap_read [OF p])
  have "grows s1 s'" by (rule custom_policy_rest [OF assms(1,2) p])
  then obtain evs where evs: "io_trace s' = evs @ io_trace s1" by (auto simp: grows_def)
  have refused: "\<not> is_ok res \<and> s' = s1" if "r1 = Inr m" and "name \<in> fst ` set m" for m
    using assms(2) p that by (auto simp: EnsureCustomPolicy_def)
  have "\<not> is_ok res \<and> evs = []" if "got = Inr ob" and "name \<in> fst ` set m"
    and "x_nestedMap d (dyn_content (o_body ob)) [''spec'', ''networkPolicy'', ''policies''] = Inr (Some m)" for ob m
    using refused [of m] that got(2) evs by simp
  with got(1) evs config show ?first by (intro exI [of _ got] exI [of _ evs]) auto
  show "\<forall>orig. res = Inr orig \<longrightarrow> (\<exists>ob ob' out evs1 found evs2 cur entry. ?R orig ob ob' out evs1 found evs2 cur entry)"
  proof (intro allI impI)
    fix orig assume res: "res = Inr orig"
    with assms(2) p obtain policies s2 where "r1 = Inr policies" "name \<notin> fst ` set policies"
      and 2: "networkPolicyJSON d s1 = (Inr orig, s2)" and 3: "add_custom_policy d name s2 = (None, s')"
      by (auto simp: EnsureCustomPolicy_def split: result_splits if_splits)
    with got obtain ob where ob: "got = Inr ob"
      "case x_nestedMap d (dyn_content (o_body ob)) [''spec'', ''networkPolicy'', ''policies''] of
         Inl e \<Rightarrow> False | Inr None \<Rightarrow> True | Inr (Some m) \<Rightarrow> name \<notin> fst ` set m"
      by (auto split: sum.splits option.splits)
    obtain ob' where ob': "io_trace s2 = Got dynConfig_ref (Inr ob') # io_trace s1" "snapshot_of d ob' orig"
      by (rule networkPolicyJSON_read [OF 2])
    obtain out evs1 evs2 found cur entry where "ExitCode out = 0" "entry \<noteq> []"
      "io_trace s' = Got proxy_ref (Inr cur) # evs2 @ Got (policy_ref name) (Inr found) # evs1
         @ Ran (Command (x_connection d) (custom_patch name)) out # io_trace s2"
      "x_nestedMap d (dyn_content (o_body cur)) [''spec'', ''networkPolicy'', ''policies'', name] = Inr (Some entry)"
      by (rule add_custom_policy_done [OF assms(1) 3])
    with ob ob' got(1) config show "\<exists>ob ob' out evs1 found evs2 cur entry. ?R orig ob ob' out evs1 found evs2 cur entry"
      unfolding proxy_ref_def policy_ref_def custom_patch_def patch_config_def snapshot_of_def
      by (intro exI [of _ ob] exI [of _ ob'] exI [of _ out] exI [of _ evs1] exI [of _ found] exI [of _ evs2]
          exI [of _ cur] exI [of _ entry]) simp
  qed
qed

text \<open>A TektonConfig with one policy, and the path of the proxy's copy of a policy.\<close>

definition policy_deps :: "bool mc_deps" where
  "policy_deps = demo_deps\<lparr>x_nestedMap := (\<lambda>j p.
     if p = [''spec'', ''networkPolicy'', ''policies''] then Inr (Some [(''p'', JNull)])
     else if p = [''spec'', ''networkPolicy''] then Inr (Some [(''policies'', JNull)])
     else if p = [''spec'', ''networkPolicy'', ''policies'', ''q''] then Inr (Some [(''podSelector'', JNull)])
     else Inr None), x_marshal := (\<lambda>m. Inr ''text'')\<rparr>"

lemma policy_deps_ok: "mc_deps_ok policy_deps"
  using demo_deps_ok by (simp add: mc_deps_ok_def policy_deps_def)

lemma policy_runs:
  "\<exists>s'. EnsureCustomPolicy policy_deps ''q'' (demo_state True []) = (Inr ''text'', s')"
  "\<exists>e s'. EnsureCustomPolicy policy_deps ''p'' (demo_state True []) = (Inl e, s')
     \<and> io_trace s' = [Got dynConfig_ref (Inr (demo_object dynConfig_ref))]"
  by (simp_all add: demo_server_defs EnsureCustomPolicy_def policyMap_def networkPolicyJSON_def add_custom_policy_def
    policy_deps_def demo_deps_def run_or_def Run_def settle_def EnsureTektonConfigStatusInstalled_def installed_condition_def
    EnsureTektonConfigExists_def exists_condition_def Let_def dynConfig_ref_def patch_config_def policy_ref_def
    policy_condition_def assertPolicy_def AssertPolicies_def assert_component_def PoliciesByComponent_def
    demo_state_def tektonConfig_ref_def propagated_def proxy_ref_def)

theorem custom_policy_guard_witness:
  "(\<exists>got. io_trace (snd (EnsureCustomPolicy policy_deps ''p'' (demo_state True []))) = [Got dynConfig_ref got])
   \<and> (\<exists>ob ob' out cur evs. ExitCode out = 0
        \<and> io_trace (snd (EnsureCustomPolicy policy_deps ''q'' (demo_state True [])))
          = Got proxy_ref (Inr cur) # evs @ [Ran (Command (x_connection policy_deps) (custom_patch ''q'')) out,
             Got dynConfig_ref (Inr ob'), Got dynConfig_ref (Inr ob)])"
proof
  obtain e t where p: "EnsureCustomPolicy policy_deps ''p'' (demo_state True []) = (Inl e, t)"
    and t: "io_trace t = [Got dynConfig_ref (Inr (demo_object dynConfig_ref))]" using policy_runs(2) by blast
  from custom_policy_guard [OF policy_deps_ok p dynConfig_ref_def] t p
  show "\<exists>got. io_trace (snd (EnsureCustomPolicy policy_deps ''p'' (demo_state True []))) = [Got dynConfig_ref got]"
    by auto
  obtain u where q: "EnsureCustomPolicy policy_deps ''q'' (demo_state True []) = (Inr ''text'', u)" using policy_runs(1) by blast
  have tr: "io_trace (demo_state True []) = []" by (simp add: demo_state_def)
  obtain ob ob' out evs1 found evs2 cur where "ExitCode out = 0"
    "io_trace u = Got proxy_ref (Inr cur) # evs2 @ Got (policy_ref ''q'') (Inr found)
           # evs1 @ Ran (Command (x_connection policy_deps) (custom_patch ''q'')) out
           # Got dynConfig_ref (Inr ob') # Got dynConfig_ref (Inr ob) # []"
    using custom_policy_guard [OF policy_deps_ok q dynConfig_ref_def, THEN conjunct2, rule_format, OF refl]
    by (elim exE conjE) (rule that, assumption,
      simp only: tr proxy_ref_def policy_ref_def custom_patch_def patch_config_def append.simps)
  with q show "\<exists>ob ob' out cur evs. ExitCode out = 0
        \<and> io_trace (snd (EnsureCustomPolicy policy_deps ''q'' (demo_state True [])))
          = Got proxy_ref (Inr cur) # evs @ [Ran (Command (x_connection policy_deps) (custom_patch ''q'')) out,
             Got dynConfig_ref (Inr ob'), Got dynConfig_ref (Inr ob)]"
    by (intro exI [of _ ob] exI [of _ ob'] exI [of _ out] exI [of _ cur]
        exI [of _ "evs2 @ Got (policy_ref ''q'') (Inr found) # evs1"]) simp
qed

text \<open>The patch that undoes the custom policy for a snapshot.\<close>

definition restore_patch :: "string \<Rightarrow> string list" where
  "restore_patch snapshot =
     (if snapshot = [] then patch_config ''json'' ''[{\"op\":\"remove\",\"path\":\"/spec/networkPolicy\"}]''
      else patch_config ''merge'' (''{\"spec\":{\"networkPolicy\":'' @ snapshot @ ''}}''))"

lemma restore_ran:
  assumes "restoreNetworkPolicyJSON d snap s = (None, s')"
  obtains res where "io_trace s' = Ran (Command (x_connection d) (restore_patch snap)) res # io_trace s"
    and "ExitCode res = 0"
  using assms by (auto simp: restoreNetworkPolicyJSON_def restore_patch_def elim!: run_or_ran split: if_splits)

text \<open>
  C36: when RemoveCustomPolicyAndRestore returns nil the policy was seen to be gone before the
  configuration was restored: from the newest call back there are the read that finds no policy,
  the successful patch with the snapshot, directly before it another read that finds no policy,
  and before that the successful patch that disables the policies.
\<close>

theorem remove_then_restore:
  assumes "mc_deps_ok d" and "RemoveCustomPolicyAndRestore d name origNP s = (None, s')"
  shows "\<exists>evs1 evs2 res1 res2.
     io_trace s' = Got (policy_ref name) (Inl NotFound) # evs1
       @ Ran (Command (x_connection d) (restore_patch origNP)) res2
       # Got (policy_ref name) (Inl NotFound) # evs2
       @ Ran (Command (x_connection d) (patch_config ''merge'' ''{\"spec\":{\"networkPolicy\":{\"disabled\":true}}}'')) res1
       # io_trace s
     \<and> ExitCode res1 = 0 \<and> ExitCode res2 = 0"
proof -
  let ?off = "patch_config ''merge'' ''{\"spec\":{\"networkPolicy\":{\"disabled\":true}}}''"
  from assms(2) obtain a b c e g where 1: "run_or d ?off ''disable NetworkPolicy'' s = (None, a)"
    and 2: "settle d a = (None, b)" and 3: "assertPolicy d name False b = (None, c)"
    and 4: "restoreNetworkPolicyJSON d origNP c = (None, e)" and 5: "settle d e = (None, g)"
    and 6: "assertPolicy d name False g = (None, s')"
    by (auto simp: RemoveCustomPolicyAndRestore_def AssertCustomPolicyAbsent_def seq_None)
  obtain res1 where t1: "io_trace a = Ran (Command (x_connection d) ?off) res1 # io_trace s" "ExitCode res1 = 0"
    by (rule run_or_ran [OF 1])
  obtain res2 where t4: "io_trace e = Ran (Command (x_connection d) (restore_patch origNP)) res2 # io_trace c"
    "ExitCode res2 = 0" by (rule restore_ran [OF 4])
  have g: "grows a b" "grows e g"
    using keepsE [OF mc_growing.keeps_settle [OF assms(1)] _ grows_refl] 2 5 by metis+
  obtain evs where t3: "io_trace c = Got (policy_ref name) (Inl NotFound) # evs @ io_trace b"
    by (rule assertPolicy_seen [OF assms(1) 3]) auto
  obtain evs' where t6: "io_trace s' = Got (policy_ref name) (Inl NotFound) # evs' @ io_trace g"
    by (rule assertPolicy_seen [OF assms(1) 6]) auto
  obtain evs3 evs4 where "io_trace b = evs3 @ io_trace a" and "io_trace g = evs4 @ io_trace e"
    using g by (auto simp: grows_def)
  with t1 t3 t4 t6 show ?thesis
    by (intro exI [of _ "evs' @ evs4"] exI [of _ "evs @ evs3"] exI [of _ res1] exI [of _ res2]) simp
qed

definition demo_gone :: "bool mc_deps" where
  "demo_gone = demo_deps\<lparr>x_server := demo_server\<lparr>sv_get := \<lambda>r w.
     (if ref_kind r = ''NetworkPolicy'' then Inl NotFound else Inr (demo_object r), w)\<rparr>\<rparr>"

theorem remove_then_restore_witness:
  "\<exists>evs res. io_trace (snd (RemoveCustomPolicyAndRestore demo_gone ''p'' [] (demo_state True [])))
       = Got (policy_ref ''p'') (Inl NotFound) # evs
     \<and> Ran (restore_patch []) res \<in> set evs"
proof -
  have "fst (RemoveCustomPolicyAndRestore demo_gone ''p'' [] (demo_state True [])) = None" by code_simp
  then have "RemoveCustomPolicyAndRestore demo_gone ''p'' [] (demo_state True [])
      = (None, snd (RemoveCustomPolicyAndRestore demo_gone ''p'' [] (demo_state True [])))"
    by (metis prod.collapse)
  moreover have "mc_deps_ok demo_gone" using demo_deps_ok by (simp add: mc_deps_ok_def demo_gone_def)
  moreover have "Command (x_connection demo_gone) (restore_patch []) = restore_patch []" by code_simp
  ultimately show ?thesis using remove_then_restore by fastforce
qed

end
