(* ===== verification/ConfigEnv.thy ===== *)
theory ConfigEnv
  imports GoPrelude
begin

text \<open>
  \<open>pkg/config/envloader.go\<close> and the environment part of \<open>pkg/config/config.go\<close>: the two loaders of
  \<open>env/default/default.properties\<close> and the defaults of the command line flags, which come from
  the environment after loading. The process environment is a map; the file is what reading it
  gives.
\<close>

section \<open>The process environment\<close>

type_synonym env = "string \<rightharpoonup> string"

text \<open>\<open>os.Getenv\<close>: an unset variable reads as the empty string.\<close>

definition getenv :: "env \<Rightarrow> string \<Rightarrow> string" where
  "getenv env k = (case env k of None \<Rightarrow> [] | Some v \<Rightarrow> v)"

text \<open>\<open>os.Setenv\<close> refuses an empty key, a key with \<open>=\<close> and NUL bytes.\<close>

definition settable :: "string \<Rightarrow> string \<Rightarrow> bool" where
  "settable k v = (k \<noteq> [] \<and> CHR ''='' \<notin> set k \<and> CHR 0x00 \<notin> set k \<and> CHR 0x00 \<notin> set v)"

definition setenv :: "string \<Rightarrow> string \<Rightarrow> env \<Rightarrow> env option" where
  "setenv k v env = (if settable k v then Some (env(k \<mapsto> v)) else None)"

section \<open>The properties file\<close>

abbreviation LF :: char where "LF \<equiv> CHR 0x0A"

text \<open>One line: blank lines, comments and lines without \<open>=\<close> are skipped.\<close>

definition parse_line :: "string \<Rightarrow> (string \<times> string) option" where
  "parse_line raw =
     (let line = trim_space raw
      in if line = [] \<or> has_prefix line ''#'' then None
         else (case splitn_char 2 CHR ''='' line of
             [k, v] \<Rightarrow> Some (trim_space k, trim_space v)
           | _ \<Rightarrow> None))"

text \<open>The loop of \<open>LoadDefaultProperties\<close>: a variable that cannot be set is only logged.\<close>

fun default_lines :: "string list \<Rightarrow> env \<Rightarrow> env" where
  "default_lines [] env = env"
| "default_lines (raw # ls) env =
     (case parse_line raw of
        None \<Rightarrow> default_lines ls env
      | Some (k, v) \<Rightarrow>
          if getenv env k = []
          then (case setenv k v env of None \<Rightarrow> default_lines ls env | Some env' \<Rightarrow> default_lines ls env')
          else default_lines ls env)"

definition LoadDefaultProperties :: "string option \<Rightarrow> env \<Rightarrow> env" where
  "LoadDefaultProperties data env =
     (case data of None \<Rightarrow> env | Some text \<Rightarrow> default_lines (split_char LF text) env)"

text \<open>
  \<open>LoadEnvironmentFromProperties\<close> reads through a \<open>bufio.Scanner\<close>: lines without their
  terminator and one carriage return before it, no empty last line, and an error for a line
  that does not fit into its buffer of 65536 bytes.
\<close>

datatype props_file = Missing | Unreadable | Contents string

datatype load_error = OpenFailed | SetFailed string | ReadFailed

definition scan_text :: "string \<Rightarrow> string" where
  "scan_text line = (if line \<noteq> [] \<and> last line = CHR 0x0D then butlast line else line)"

definition scan_lines :: "string \<Rightarrow> string list" where
  "scan_lines text = (let ls = split_char LF text in if last ls = [] then butlast ls else ls)"

definition max_line :: nat where
  "max_line = 65535"

fun load_lines :: "string list \<Rightarrow> env \<Rightarrow> load_error option \<times> env" where
  "load_lines [] env = (None, env)"
| "load_lines (raw # ls) env =
     (if max_line < length raw then (Some ReadFailed, env)
      else (case parse_line (scan_text raw) of
          None \<Rightarrow> load_lines ls env
        | Some (k, v) \<Rightarrow>
            if getenv env k = []
            then (case setenv k v env of
                None \<Rightarrow> (Some (SetFailed k), env)
              | Some env' \<Rightarrow> load_lines ls env')
            else load_lines ls env))"

fun LoadEnvironmentFromProperties :: "props_file \<Rightarrow> env \<Rightarrow> load_error option \<times> env" where
  "LoadEnvironmentFromProperties Missing env = (None, env)"
| "LoadEnvironmentFromProperties Unreadable env = (Some OpenFailed, env)"
| "LoadEnvironmentFromProperties (Contents text) env = load_lines (scan_lines text) env"

section \<open>The two loaders\<close>

lemma trim_space_last:
  assumes "is_space c"
  shows "trim_space (s @ [c]) = trim_space s"
  using assms by (cases "list_all is_space s")
    (auto simp: trim_space_def trim_by_def trim_left_by_def trim_right_by_def dropWhile_append list_all_iff
      dropWhile_eq_Nil_conv dest: set_dropWhileD)

lemma parse_scan_text: "parse_line (scan_text raw) = parse_line raw"
proof (cases "raw \<noteq> [] \<and> last raw = CHR 0x0D")
  case True
  then have "raw = butlast raw @ [CHR 0x0D]" by (metis append_butlast_last_id)
  then have "trim_space raw = trim_space (butlast raw)"
    by (metis insertI1 insertI2 is_space_def trim_space_last)
  with True show ?thesis by (simp add: parse_line_def scan_text_def)
next
  case False
  then show ?thesis by (auto simp: scan_text_def)
qed

lemma parse_empty [simp]: "parse_line [] = None"
  by (simp add: parse_line_def trim_space_def)

text \<open>A line that stops the second loader and not the first.\<close>

definition bad_line :: "string \<Rightarrow> bool" where
  "bad_line raw =
     (max_line < length raw \<or> (case parse_line raw of None \<Rightarrow> False | Some (k, v) \<Rightarrow> \<not> settable k v))"

lemma load_lines_ok:
  "(load_lines ls env = (None, e) \<longrightarrow> default_lines ls env = e)
   \<and> (list_ex bad_line ls \<or> load_lines ls env = (None, default_lines ls env))"
proof (induction ls arbitrary: env)
  case (Cons raw ls)
  show ?case
    using Cons.IH by (auto simp: parse_scan_text bad_line_def setenv_def split: option.splits prod.splits)
qed simp

lemma default_lines_snoc: "default_lines (ls @ [[]]) env = default_lines ls env"
  by (induction ls env rule: default_lines.induct) (auto split: option.splits prod.splits)

lemma default_scan_lines: "default_lines (scan_lines text) env = default_lines (split_char LF text) env"
proof (cases "last (split_char LF text) = []")
  case True
  then have "split_char LF text = butlast (split_char LF text) @ [[]]"
    by (metis append_butlast_last_id split_char_ne)
  with True show ?thesis by (metis default_lines_snoc scan_lines_def)
next
  case False
  then show ?thesis by (simp add: scan_lines_def Let_def)
qed

text \<open>
  C12: the two loaders agree: whenever LoadEnvironmentFromProperties returns nil it leaves the
  environment LoadDefaultProperties leaves, and it does return nil unless the file has a line
  longer than the scanner's buffer or one whose name or value cannot be set.
\<close>

theorem loaders_agree:
  "(LoadEnvironmentFromProperties (Contents text) env = (None, e) \<longrightarrow> LoadDefaultProperties (Some text) env = e)
   \<and> (list_ex bad_line (scan_lines text)
      \<or> LoadEnvironmentFromProperties (Contents text) env = (None, LoadDefaultProperties (Some text) env))"
  using load_lines_ok [of "scan_lines text" env e] by (simp add: LoadDefaultProperties_def default_scan_lines)

theorem loaders_agree_witness:
  "LoadEnvironmentFromProperties (Contents (''K= v'' @ [LF] @ ''#'' @ [LF])) Map.empty
     = (None, LoadDefaultProperties (Some (''K= v'' @ [LF] @ ''#'' @ [LF])) Map.empty)"
proof -
  let ?text = "''K= v'' @ [LF] @ ''#'' @ [LF]"
  have "scan_lines ?text = [''K= v'', ''#'']" by code_simp
  moreover have "parse_line ''K= v'' = Some (''K'', ''v'')" and "parse_line ''#'' = None"
    and "settable ''K'' ''v''" by code_simp+
  ultimately have "\<not> list_ex bad_line (scan_lines ?text)" by (simp add: bad_line_def max_line_def)
  with loaders_agree [of ?text Map.empty Map.empty] show ?thesis by blast
qed

section \<open>Defaults of the flags\<close>

text \<open>\<open>cmp.Or\<close>: the first argument that is not empty.\<close>

fun cmp_or :: "string list \<Rightarrow> string" where
  "cmp_or [] = []"
| "cmp_or (v # vs) = (if v \<noteq> [] then v else cmp_or vs)"

text \<open>\<open>strconv.ParseBool\<close>.\<close>

definition parse_bool :: "string \<Rightarrow> bool option" where
  "parse_bool s =
     (if s \<in> {''1'', ''t'', ''T'', ''TRUE'', ''true'', ''True''} then Some True
      else if s \<in> {''0'', ''f'', ''F'', ''FALSE'', ''false'', ''False''} then Some False
      else None)"

text \<open>A flag that may be given several times, each time with values separated by commas.\<close>

type_synonym StringArray = "string list"

definition array_set :: "StringArray \<Rightarrow> string \<Rightarrow> StringArray" where
  "array_set s val = s @ split_char CHR '','' val"

definition array_string :: "StringArray \<Rightarrow> string" where
  "array_string s = join '', '' s"

record EnvironmentFlags =
  Cluster :: string
  Kubeconfig :: string
  Context :: string
  SpokeKubeconfigs :: StringArray
  SpokeContexts :: StringArray
  DockerRepo :: string
  CSV :: string
  Channel :: string
  CatalogSource :: string
  SubscriptionName :: string
  InstallPlan :: string
  OperatorVersion :: string
  TknVersion :: string
  ClusterArch :: string
  IsDisconnected :: bool
  KueueOperatorNamespace :: string
  PipelinesOperatorNamespace :: string
  CertManagerOperatorNamespace :: string
  PipelineOperatorChannel :: string
  CertManagerOperatorChannel :: string
  KueueOperatorChannel :: string

definition cluster_arch :: "string \<Rightarrow> string" where
  "cluster_arch arch = (if arch \<noteq> [] \<and> contains arch ''/'' then split_char CHR ''/'' arch ! 1 else arch)"

text \<open>The values of \<open>Flags\<close> before the command line is parsed, from the loaded environment.\<close>

definition flag_defaults :: "env \<Rightarrow> EnvironmentFlags" where
  "flag_defaults env =
     \<lparr>Cluster = [], Kubeconfig = [], Context = [], SpokeKubeconfigs = [], SpokeContexts = [],
      DockerRepo = getenv env ''KO_DOCKER_REPO'',
      CSV = getenv env ''CSV'' @ getenv env ''CSV_VERSION'',
      Channel = (let c = getenv env ''CHANNEL'' in if c = [] then ''latest'' else c),
      CatalogSource = (let c = getenv env ''CATALOG_SOURCE'' in if c = [] then ''redhat-operators'' else c),
      SubscriptionName = (let n = getenv env ''SUBSCRIPTION_NAME''
         in if n = [] then ''openshift-pipelines-operator-rh'' else n),
      InstallPlan = getenv env ''INSTALL_PLAN'',
      OperatorVersion = getenv env ''CSV_VERSION'',
      TknVersion = getenv env ''TKN_VERSION'',
      ClusterArch = cluster_arch (getenv env ''ARCH''),
      IsDisconnected = (case parse_bool (getenv env ''IS_DISCONNECTED'') of None \<Rightarrow> False | Some b \<Rightarrow> b),
      KueueOperatorNamespace = cmp_or [getenv env ''KUEUE_NAMESPACE'', ''openshift-kueue-operator''],
      PipelinesOperatorNamespace = cmp_or [getenv env ''PIPELINE_NAMESPACE'', ''openshift-operators''],
      CertManagerOperatorNamespace = cmp_or [getenv env ''CERTMANAGER_NAMESPACE'', ''cert-manager-operator''],
      PipelineOperatorChannel = cmp_or [getenv env ''CHANNEL_PIPELINE'', ''latest''],
      CertManagerOperatorChannel = cmp_or [getenv env ''CHANNEL_CERTMANAGER'', ''stable-v1''],
      KueueOperatorChannel = cmp_or [getenv env ''CHANNEL_KUEUE'', ''stable-v1.4'']\<rparr>"

definition initializeFlags :: "string option \<Rightarrow> env \<Rightarrow> EnvironmentFlags" where
  "initializeFlags data env = flag_defaults (LoadDefaultProperties data env)"

section \<open>Precedence\<close>

text \<open>What the file gives for a variable: its first non-empty value.\<close>

fun file_value :: "string \<Rightarrow> string list \<Rightarrow> string" where
  "file_value k [] = []"
| "file_value k (raw # ls) =
     (case parse_line raw of
        None \<Rightarrow> file_value k ls
      | Some (k', v) \<Rightarrow> if k' = k \<and> v \<noteq> [] \<and> CHR 0x00 \<notin> set v then v else file_value k ls)"

definition prop_value :: "string option \<Rightarrow> string \<Rightarrow> string" where
  "prop_value data k = (case data of None \<Rightarrow> [] | Some text \<Rightarrow> file_value k (split_char LF text))"

lemma cmp_or_nest: "cmp_or [cmp_or [a, b], c] = cmp_or [a, b, c]"
  by simp

lemma cmp_or_default: "(if x = [] then y else x) = cmp_or [x, y]"
  by simp

lemma getenv_upd: "getenv (env(k' \<mapsto> v)) k = (if k' = k then v else getenv env k)"
  by (simp add: getenv_def)

lemma getenv_default_lines:
  assumes "k \<noteq> []" and "CHR ''='' \<notin> set k" and "CHR 0x00 \<notin> set k"
  shows "getenv (default_lines ls env) k = (if getenv env k \<noteq> [] then getenv env k else file_value k ls)"
proof (induction ls arbitrary: env)
  case (Cons raw ls)
  show ?case
  proof (cases "parse_line raw")
    case (Some kv)
    obtain k' v where kv: "kv = (k', v)" by (cases kv)
    show ?thesis
    proof (cases "getenv env k' = [] \<and> settable k' v")
      case True
      then obtain u where u: "setenv k' v env = Some u" "getenv u k = (if k' = k then v else getenv env k)"
        by (simp add: setenv_def getenv_upd)
      with True Some kv Cons.IH [of u] Cons.IH [of env] show ?thesis by (auto simp: settable_def)
    next
      case False
      with Some kv Cons.IH [of env] assms show ?thesis by (auto simp: setenv_def settable_def)
    qed
  qed (use Cons.IH in simp)
qed simp

lemma getenv_loaded:
  assumes "k \<noteq> []" and "CHR ''='' \<notin> set k" and "CHR 0x00 \<notin> set k"
  shows "getenv (LoadDefaultProperties data env) k = cmp_or [getenv env k, prop_value data k]"
  using getenv_default_lines [OF assms]
  by (cases data) (auto simp: LoadDefaultProperties_def prop_value_def)

text \<open>
  C13: a default flag value is the process environment's, else the first non-empty one of the
  properties file, else the built-in one: for the channel, the catalog source, the subscription
  and the six operator settings.
\<close>

theorem flag_precedence:
  "let f = initializeFlags data env; pick = (\<lambda>k d. cmp_or [getenv env k, prop_value data k, d]) in
     Channel f = pick ''CHANNEL'' ''latest''
   \<and> CatalogSource f = pick ''CATALOG_SOURCE'' ''redhat-operators''
   \<and> SubscriptionName f = pick ''SUBSCRIPTION_NAME'' ''openshift-pipelines-operator-rh''
   \<and> KueueOperatorNamespace f = pick ''KUEUE_NAMESPACE'' ''openshift-kueue-operator''
   \<and> PipelinesOperatorNamespace f = pick ''PIPELINE_NAMESPACE'' ''openshift-operators''
   \<and> CertManagerOperatorNamespace f = pick ''CERTMANAGER_NAMESPACE'' ''cert-manager-operator''
   \<and> PipelineOperatorChannel f = pick ''CHANNEL_PIPELINE'' ''latest''
   \<and> CertManagerOperatorChannel f = pick ''CHANNEL_CERTMANAGER'' ''stable-v1''
   \<and> KueueOperatorChannel f = pick ''CHANNEL_KUEUE'' ''stable-v1.4''"
  by (simp add: initializeFlags_def flag_defaults_def getenv_loaded cmp_or_default cmp_or_nest
      del: cmp_or.simps)

lemma split_char_append:
  "split_char c (u @ c # w) = split_char c u @ split_char c w"
  by (induction u) (auto simp: hd_append)

lemma array_set_append: "array_set s (u @ CHR '','' # w) = array_set (array_set s u) w"
  by (simp add: array_set_def split_char_append)

text \<open>
  a list flag does not care how its values are spread over the command line: setting it to
  several values one after the other is setting it once to their comma separated list.
\<close>

theorem array_set_spread:
  assumes "vals \<noteq> []"
  shows "array_set s (join '','' vals) = fold (\<lambda>v s. array_set s v) vals s"
  using assms
proof (induction vals arbitrary: s rule: list_nonempty_induct)
  case (cons v vals)
  then show ?case by (simp add: join_Cons array_set_append)
qed simp

theorem array_set_spread_witness:
  "array_set [] ''a,b,c'' = array_set (array_set [] ''a,b'') ''c''"
  using array_set_spread [of "[''a,b'', ''c'']" "[]"] by simp

end
