(* ===== verification/SkipRange.thy ===== *)
theory SkipRange
  imports CmdLine ConfigEnv "HOL-Library.Monad_Syntax" "HOL-Library.AList" "HOL-Library.Multiset"
begin

text \<open>
  \<open>pkg/oc/olm_skiprange.go\<close>: fetching the OLM skip ranges of the operator's channels and the
  three validations of them. The regular expressions are written out as parsers (they are
  anchored runs of digits and separators, so greedy matching never backtracks); \<open>json.Unmarshal\<close>
  and the file of recorded ranges are parameters and JSON values. A Go map is an association
  list, in the order a loop happens to visit it: section "Order" shows that it does not matter.
\<close>

section \<open>The patterns\<close>

text \<open>\<open>\d+\<close>, one character, and \<open>\d+\.\d+\.\d+\<close>: the matched text and what follows it.\<close>

definition match_num :: "string \<Rightarrow> (string \<times> string) option" where
  "match_num s = (if takeWhile is_digit s = [] then None else Some (takeWhile is_digit s, dropWhile is_digit s))"

fun match_char :: "char \<Rightarrow> string \<Rightarrow> string option" where
  "match_char c [] = None"
| "match_char c (x # s) = (if x = c then Some s else None)"

definition match_pair :: "string \<Rightarrow> ((string \<times> string) \<times> string) option" where
  "match_pair s = do {
     (a, s) \<leftarrow> match_num s;
     s \<leftarrow> match_char CHR ''.'' s;
     (b, s) \<leftarrow> match_num s;
     Some ((a, b), s)
   }"

definition match_triple :: "string \<Rightarrow> ((string \<times> string \<times> string) \<times> string) option" where
  "match_triple s = do {
     ((a, b), s) \<leftarrow> match_pair s;
     s \<leftarrow> match_char CHR ''.'' s;
     (c, s) \<leftarrow> match_num s;
     Some ((a, b, c), s)
   }"

fun dotted :: "string \<times> string \<times> string \<Rightarrow> string" where
  "dotted (a, b, c) = a @ ''.'' @ b @ ''.'' @ c"

text \<open>\<open>\s\<close> of Go's regular expressions.\<close>

definition is_re_space :: "char \<Rightarrow> bool" where
  "is_re_space c = (c \<in> {CHR 0x09, CHR 0x0A, CHR 0x0C, CHR 0x0D, CHR '' ''})"

text \<open>\<open>>=(\d+\.\d+\.\d+)\s*<(\d+\.\d+\.\d+)\<close> at the start of the text, then anywhere in it.\<close>

type_synonym version = "string \<times> string \<times> string"

definition match_range :: "string \<Rightarrow> (version \<times> version) option" where
  "match_range s = do {
     s \<leftarrow> match_char CHR ''>'' s;
     s \<leftarrow> match_char CHR ''='' s;
     (low, s) \<leftarrow> match_triple s;
     s \<leftarrow> match_char CHR ''<'' (dropWhile is_re_space s);
     (up, s) \<leftarrow> match_triple s;
     Some (low, up)
   }"

fun find_range :: "string \<Rightarrow> (version \<times> version) option" where
  "find_range [] = None"
| "find_range (c # s) = (case match_range (c # s) of None \<Rightarrow> find_range s | Some r \<Rightarrow> Some r)"

text \<open>\<open>pipelines-(\d+)\.(\d+)\<close>.\<close>

fun find_channel :: "string \<Rightarrow> (string \<times> string) option" where
  "find_channel [] = None"
| "find_channel (c # s) =
     (case (if has_prefix (c # s) ''pipelines-'' then match_pair (drop 10 (c # s)) else None) of
        None \<Rightarrow> find_channel s
      | Some (p, _) \<Rightarrow> Some p)"

text \<open>\<open>^(\d+\.\d+)\.?\d*\<close>, the version itself when it does not match.\<close>

definition extractMajorMinor :: "string \<Rightarrow> string" where
  "extractMajorMinor ver =
     (case match_pair ver of None \<Rightarrow> ver | Some ((a, b), _) \<Rightarrow> a @ ''.'' @ b)"

definition skipRangeContainsVersion :: "string \<Rightarrow> string \<Rightarrow> bool" where
  "skipRangeContainsVersion skipRange ver = contains skipRange ver"

section \<open>Fetching\<close>

record pkg_channel =
  ch_name :: string
  ch_annotations :: "string \<rightharpoonup> string"

record package_manifest =
  pm_name :: string
  pm_channels :: "pkg_channel list"

definition choose_catalog :: "env \<Rightarrow> string" where
  "choose_catalog env =
     (let operatorEnv = getenv env ''OPERATOR_ENVIRONMENT''; catalogSource = getenv env ''CATALOG_SOURCE''
      in if operatorEnv \<noteq> []
         then (if operatorEnv = ''pre-stage'' \<or> operatorEnv = ''stage'' then ''custom-operators''
               else ''redhat-operators'')
         else if catalogSource \<noteq> [] then catalogSource
         else ''redhat-operators'')"

type_synonym ranges = "(string \<times> string) list"

text \<open>The loop over the channels of the package; a later channel of the same name overwrites.\<close>

fun collect_ranges :: "pkg_channel list \<Rightarrow> ranges \<Rightarrow> ranges" where
  "collect_ranges [] result = result"
| "collect_ranges (ch # chs) result =
     (case ch_annotations ch ''olm.skipRange'' of
        Some sr \<Rightarrow> if sr \<noteq> [] then collect_ranges chs (AList.update (ch_name ch) sr result)
                   else collect_ranges chs result
      | None \<Rightarrow> collect_ranges chs result)"

definition select_ranges :: "string \<Rightarrow> package_manifest list \<Rightarrow> kerror + ranges" where
  "select_ranges catalog items =
     (case find (\<lambda>p. pm_name p = ''openshift-pipelines-operator-rh'') items of
        None \<Rightarrow> Inl (KMsg (''package openshift-pipelines-operator-rh not found in catalog '' @ catalog))
      | Some target \<Rightarrow>
          (let result = collect_ranges (pm_channels target) []
           in if result = [] then Inl (KMsg (''no valid OLM skip ranges found in catalog '' @ catalog))
              else Inr result))"

definition FetchOlmSkipRange ::
    "'w shell \<Rightarrow> connection \<Rightarrow> (string \<Rightarrow> string + package_manifest list) \<Rightarrow> env \<Rightarrow>
     ('w, 'b, 'm) io_scheme \<Rightarrow> (kerror + ranges) \<times> ('w, 'b, 'm) io_scheme" where
  "FetchOlmSkipRange sh cn unmarshal env s =
     (let catalog = choose_catalog env
      in (case MustSucceed sh cn [''oc'', ''get'', ''packagemanifest'', ''-n'', ''openshift-marketplace'',
                 ''--selector=catalog='' @ catalog, ''-o'', ''json''] s of
            (Inl e, s1) \<Rightarrow> (Inl e, s1)
          | (Inr res, s1) \<Rightarrow>
              (case unmarshal (Stdout res) of
                 Inl e \<Rightarrow> (Inl (KContext ''failed to parse package manifest list JSON'' (KMsg e)), s1)
               | Inr items \<Rightarrow> (select_ranges catalog items, s1))))"

section \<open>Validations\<close>

datatype verdict = Passed | Failed_test string | Skipped string

definition osp_channel :: "string \<Rightarrow> string \<times> string \<Rightarrow> bool" where
  "osp_channel ospVersion = (\<lambda>(channel, skipRange).
     if channel = ''latest'' then False
     else if ospVersion = ''5.0.5'' then contains skipRange ospVersion
     else contains channel (extractMajorMinor ospVersion) \<and> contains skipRange ospVersion)"

definition check_osp :: "env \<Rightarrow> ranges \<Rightarrow> verdict" where
  "check_osp env m =
     (let ospVersion = getenv env ''OSP_VERSION''
      in if ospVersion = [] then Skipped ''OSP_VERSION not set -- skipping OLM skip range validation''
         else if list_ex (osp_channel ospVersion) m then Passed
         else Failed_test (''OSP_VERSION '' @ ospVersion @ '' not found in any non-latest channel's skipRange''))"

text \<open>\<open>fmt.Sscanf\<close> into a variable that stays 0 when the number does not fit.\<close>

definition scan_or_zero :: "string \<Rightarrow> nat" where
  "scan_or_zero s = (case scan_decimal s of None \<Rightarrow> 0 | Some n \<Rightarrow> n)"

text \<open>The messages that one channel adds to \<open>errs\<close>.\<close>

definition channel_bounds :: "string \<times> string \<Rightarrow> string list" where
  "channel_bounds = (\<lambda>(channel, skipRange).
     if channel = ''latest'' then []
     else (case find_channel channel of
         None \<Rightarrow> []
       | Some (ma, mi) \<Rightarrow>
           (let channelVersion = show_nat (scan_or_zero ma) @ ''.'' @ show_nat (scan_or_zero mi)
            in (case find_range skipRange of
                  None \<Rightarrow> [''channel '' @ channel @ '' has invalid skipRange format: '' @ skipRange]
                | Some (low, up) \<Rightarrow>
                    (let upperMajorMinor = extractMajorMinor (dotted up);
                         lowerMajor = scan_or_zero (hd (splitn_char 2 CHR ''.'' (extractMajorMinor (dotted low))))
                     in (if lowerMajor \<noteq> scan_or_zero ma
                         then [''channel '' @ channel @ '' lower bound '' @ dotted low @ '' has unexpected major version'']
                         else [])
                      @ (if upperMajorMinor \<noteq> channelVersion
                         then [''channel '' @ channel @ '' upper bound '' @ dotted up @ '' (major.minor '' @ upperMajorMinor
                                @ '') doesn't match channel version '' @ channelVersion]
                         else []))))))"

definition check_bounds :: "ranges \<Rightarrow> verdict" where
  "check_bounds m =
     (let errs = concat (map channel_bounds m)
      in if errs \<noteq> [] then Failed_test (''channel skipRange bounds validation failed:'' @ [LF] @ join [LF] errs)
         else Passed)"

text \<open>The patch update of one range.\<close>

definition isValidOspVersionPatchUpdate :: "env \<Rightarrow> string \<Rightarrow> string \<Rightarrow> bool" where
  "isValidOspVersionPatchUpdate env preSkipRange postSkipRange =
     (let ospVersion = getenv env ''OSP_VERSION''
      in if ospVersion = [] then False
         else if \<not> skipRangeContainsVersion postSkipRange ospVersion then False
         else (case (find_range preSkipRange, find_range postSkipRange) of
             (Some (preL, _, _, preP), Some (postL, _, _, postP)) \<Rightarrow>
               if preL \<noteq> postL then False
               else (case (scan_decimal preP, scan_decimal postP) of
                   (Some p, Some q) \<Rightarrow> p < q
                 | _ \<Rightarrow> False)
           | _ \<Rightarrow> False))"

section \<open>The recorded ranges\<close>

text \<open>\<open>existing[fieldKey] = skipRangeMap\<close>, as the encoder then writes it.\<close>

definition field_key :: "string \<Rightarrow> string" where
  "field_key upgradeType = upgradeType @ ''-olm-skip-range''"

definition ranges_json :: "ranges \<Rightarrow> json" where
  "ranges_json m = JObj (map (\<lambda>(c, sr). (c, JStr sr)) m)"

definition save_ranges :: "string \<Rightarrow> ranges \<Rightarrow> (string \<times> json) list \<Rightarrow> (string \<times> json) list" where
  "save_ranges upgradeType m existing = AList.update (field_key upgradeType) (ranges_json m) existing"

text \<open>A type assertion to string whose failure is the empty string.\<close>

fun as_string :: "json \<Rightarrow> string" where
  "as_string (JStr s) = s"
| "as_string _ = []"

definition matches_osp :: "env \<Rightarrow> string \<Rightarrow> bool" where
  "matches_osp env channel =
     (let ospVersion = getenv env ''OSP_VERSION''
      in ospVersion \<noteq> [] \<and> contains channel (extractMajorMinor ospVersion))"

text \<open>One pass of the first loop: the errors of a channel of the old data.\<close>

definition changed_channel :: "env \<Rightarrow> (string \<times> json) list \<Rightarrow> string \<times> json \<Rightarrow> string list" where
  "changed_channel env postMap = (\<lambda>(channel, preV).
     if channel = ''latest'' then []
     else (case map_of postMap channel of
         None \<Rightarrow> [''channel '' @ channel @ '' missing in post-upgrade data'']
       | Some postV \<Rightarrow>
           (let pre = as_string preV; post = as_string postV
            in if pre = post
               then (if matches_osp env channel
                     then [''channel '' @ channel @ '' skipRange unchanged; expected upper bound update''] else [])
               else (case (find_range pre, find_range post) of
                   (Some (preL, _), Some (postL, _)) \<Rightarrow>
                     if matches_osp env channel
                     then (if preL \<noteq> postL then [''channel '' @ channel @ '' lower bound changed'']
                           else if isValidOspVersionPatchUpdate env pre post then []
                           else [''channel '' @ channel @ '' has invalid patch update''])
                     else [''channel '' @ channel @ '' skipRange changed unexpectedly'']
                 | _ \<Rightarrow> [''channel '' @ channel @ '' has invalid skipRange format'']))))"

text \<open>One pass of the second loop: the errors of a channel of the new data.\<close>

definition new_channel :: "env \<Rightarrow> (string \<times> json) list \<Rightarrow> string \<times> json \<Rightarrow> string list" where
  "new_channel env preMap = (\<lambda>(channel, postV).
     if channel = ''latest'' then []
     else if channel \<in> fst ` set preMap then []
     else if \<not> matches_osp env channel then []
     else (case find_range (as_string postV) of
         None \<Rightarrow> [''new channel '' @ channel @ '' has invalid skipRange format'']
       | Some (_, up) \<Rightarrow>
           if extractMajorMinor (dotted up) \<noteq> extractMajorMinor (getenv env ''OSP_VERSION'')
           then [''new channel '' @ channel @ '' upper bound doesn't match OSP_VERSION'']
           else if \<not> skipRangeContainsVersion (as_string postV) (getenv env ''OSP_VERSION'')
           then [''new channel '' @ channel @ '' skipRange does not contain OSP_VERSION'']
           else []))"

definition diff_errors :: "env \<Rightarrow> (string \<times> json) list \<Rightarrow> (string \<times> json) list \<Rightarrow> string list" where
  "diff_errors env preMap postMap =
     concat (map (changed_channel env postMap) preMap) @ concat (map (new_channel env preMap) postMap)"

definition ValidateOlmSkipRangeDiff ::
    "env \<Rightarrow> (string \<times> json) list \<Rightarrow> string \<Rightarrow> string \<Rightarrow> verdict" where
  "ValidateOlmSkipRangeDiff env data preField postField =
     (case (map_of data preField, map_of data postField) of
        (Some (JObj preMap), Some (JObj postMap)) \<Rightarrow>
          (let errs = diff_errors env preMap postMap
           in if errs \<noteq> []
              then Failed_test (''OLM skip range diff validation failed:'' @ [LF] @ join [LF] errs)
              else Passed)
      | (Some _, Some _) \<Rightarrow> Failed_test ''skiprange data fields are not in expected map format''
      | _ \<Rightarrow> Failed_test ''skiprange file missing fields'')"

section \<open>The exported operations\<close>

text \<open>\<open>Fail\<close> and \<open>Skip\<close> end the test: they are the verdict.\<close>

definition with_ranges ::
    "'w shell \<Rightarrow> connection \<Rightarrow> (string \<Rightarrow> string + package_manifest list) \<Rightarrow> env \<Rightarrow> (ranges \<Rightarrow> verdict) \<Rightarrow>
     ('w, 'b, 'm) io_scheme \<Rightarrow> verdict \<times> ('w, 'b, 'm) io_scheme" where
  "with_ranges sh cn unmarshal env check s =
     (case FetchOlmSkipRange sh cn unmarshal env s of
        (Inl _, s1) \<Rightarrow> (Failed_test ''failed to fetch OLM skip range'', s1)
      | (Inr m, s1) \<Rightarrow> (check m, s1))"

definition ValidateOlmSkipRange ::
    "'w shell \<Rightarrow> connection \<Rightarrow> (string \<Rightarrow> string + package_manifest list) \<Rightarrow> env \<Rightarrow>
     ('w, 'b, 'm) io_scheme \<Rightarrow> verdict \<times> ('w, 'b, 'm) io_scheme" where
  "ValidateOlmSkipRange sh cn unmarshal env = with_ranges sh cn unmarshal env (check_osp env)"

definition ValidateChannelSkipRangeBounds ::
    "'w shell \<Rightarrow> connection \<Rightarrow> (string \<Rightarrow> string + package_manifest list) \<Rightarrow> env \<Rightarrow>
     ('w, 'b, 'm) io_scheme \<Rightarrow> verdict \<times> ('w, 'b, 'm) io_scheme" where
  "ValidateChannelSkipRangeBounds sh cn unmarshal env = with_ranges sh cn unmarshal env check_bounds"

text \<open>
  \<open>GetOlmSkipRange\<close> on the decoded content of the file (None when it cannot be opened or decoded):
  the verdict and what the file holds afterwards.
\<close>

definition GetOlmSkipRange ::
    "'w shell \<Rightarrow> connection \<Rightarrow> (string \<Rightarrow> string + package_manifest list) \<Rightarrow> env \<Rightarrow> string \<Rightarrow>
     (string \<times> json) list option \<Rightarrow> ('w, 'b, 'm) io_scheme \<Rightarrow>
     (verdict \<times> (string \<times> json) list option) \<times> ('w, 'b, 'm) io_scheme" where
  "GetOlmSkipRange sh cn unmarshal env upgradeType file s =
     (case FetchOlmSkipRange sh cn unmarshal env s of
        (Inl _, s1) \<Rightarrow> ((Failed_test ''failed to fetch OLM skip range'', file), s1)
      | (Inr m, s1) \<Rightarrow>
          (case file of
             None \<Rightarrow> ((Failed_test ''failed to open or decode'', None), s1)
           | Some existing \<Rightarrow> ((Passed, Some (save_ranges upgradeType m existing)), s1)))"

section \<open>What the patterns match\<close>

lemma match_num_run:
  assumes "list_all is_digit ds" and "ds \<noteq> []" and "rest = [] \<or> \<not> is_digit (hd rest)"
  shows "match_num (ds @ rest) = Some (ds, rest)"
proof -
  have "takeWhile is_digit (ds @ rest) = ds" "dropWhile is_digit (ds @ rest) = rest"
    using assms(1,3) by (induction ds) (auto, (cases rest; auto)+)
  with assms(2) show ?thesis by (simp add: match_num_def)
qed

fun is_version :: "version \<Rightarrow> bool" where
  "is_version (a, b, c) = (\<forall>d \<in> {a, b, c}. d \<noteq> [] \<and> list_all is_digit d)"

lemma dot_no_digit: "\<not> is_digit CHR ''.''" "\<not> is_digit CHR '' ''"
  by code_simp+

lemma match_triple_run:
  assumes "is_version v" and "rest = [] \<or> \<not> is_digit (hd rest)"
  shows "match_triple (dotted v @ rest) = Some (v, rest)"
proof -
  obtain a b c where v: "v = (a, b, c)" by (cases v)
  have "match_pair (a @ ''.'' @ b @ ''.'' @ c @ rest) = Some ((a, b), ''.'' @ c @ rest)"
    using assms(1) by (simp add: v match_pair_def match_num_run dot_no_digit)
  with assms show ?thesis by (simp add: v match_triple_def match_num_run)
qed

definition render_range :: "version \<Rightarrow> version \<Rightarrow> string" where
  "render_range low up = ''>='' @ dotted low @ '' <'' @ dotted up"

lemma find_range_render:
  assumes "is_version low" and "is_version up"
  shows "find_range (render_range low up) = Some (low, up)"
proof -
  have "match_triple (dotted low @ '' <'' @ dotted up) = Some (low, '' <'' @ dotted up)"
    by (rule match_triple_run [OF assms(1)]) (simp add: dot_no_digit)
  moreover have "match_triple (dotted up @ []) = Some (up, [])"
    by (rule match_triple_run [OF assms(2)]) simp
  moreover have "is_re_space CHR '' ''" and "\<not> is_re_space CHR ''<''" by code_simp+
  ultimately have "match_range (render_range low up) = Some (low, up)"
    by (simp add: render_range_def match_range_def)
  then show ?thesis by (simp add: render_range_def)
qed

definition numeric :: "nat \<times> nat \<times> nat \<Rightarrow> version" where
  "numeric = (\<lambda>(a, b, c). (show_nat a, show_nat b, show_nat c))"

lemma numeric_version: "is_version (numeric v)"
  by (cases v) (auto simp: numeric_def list_all_iff show_nat_digits)

lemma numeric_inj: "numeric v = numeric w \<longleftrightarrow> v = w"
  by (cases v; cases w) (simp add: numeric_def show_nat_inj)

lemma scan_show: "scan_decimal (show_nat n) = (if n \<le> max_int64 then Some n else None)"
  by (auto simp: scan_show_nat scan_decimal_def decimal_show_nat list_all_iff show_nat_digits)

section \<open>Properties\<close>

text \<open>
  C15: on ranges written with numbers the patch check accepts exactly: the version under test
  occurs in the new range, the lower bounds are the same, and the patch number of the upper
  bound grows and still fits an int64. The major and minor numbers of the upper bounds do not
  matter, and the increase may be more than one.
\<close>

theorem patch_update_numeric:
  "isValidOspVersionPatchUpdate env (render_range (numeric l) (numeric (a, b, p)))
       (render_range (numeric l') (numeric (a', b', q)))
   \<longleftrightarrow> getenv env ''OSP_VERSION'' \<noteq> []
     \<and> contains (render_range (numeric l') (numeric (a', b', q))) (getenv env ''OSP_VERSION'')
     \<and> l = l' \<and> p < q \<and> q \<le> max_int64"
proof -
  have "find_range (render_range (numeric v) (numeric (x, y, z))) = Some (numeric v, show_nat x, show_nat y, show_nat z)"
    for v x y z
    by (simp only: find_range_render numeric_version) (simp add: numeric_def)
  then show ?thesis
    by (auto simp: isValidOspVersionPatchUpdate_def skipRangeContainsVersion_def numeric_inj scan_show Let_def)
qed

text \<open>
  the verdicts do not depend on the order in which Go visits the map of ranges: two visits of
  the same channels give the same answer of the version check, and both or neither pass the
  bounds check.
\<close>

theorem verdicts_order_independent:
  assumes "mset m = mset m'"
  shows "check_osp env m = check_osp env m' \<and> (check_bounds m = Passed \<longleftrightarrow> check_bounds m' = Passed)"
proof -
  have "set m = set m'" using assms by (rule mset_eq_setD)
  then show ?thesis by (auto simp: check_osp_def check_bounds_def list_ex_iff Let_def)
qed

text \<open>
  C14: the diff passes exactly when every old channel is still there, a channel of the version
  under test has had a valid patch update and every other one is unchanged, and each new
  channel of that version has a range that ends in it.
\<close>

theorem diff_passes_iff:
  "diff_errors env preMap postMap = [] \<longleftrightarrow>
     (\<forall>(c, v) \<in> set preMap. c \<noteq> ''latest'' \<longrightarrow> (\<exists>w. map_of postMap c = Some w
        \<and> (if matches_osp env c
           then as_string v \<noteq> as_string w \<and> isValidOspVersionPatchUpdate env (as_string v) (as_string w)
           else as_string v = as_string w)))
   \<and> (\<forall>(c, w) \<in> set postMap. c \<noteq> ''latest'' \<and> c \<notin> fst ` set preMap \<and> matches_osp env c \<longrightarrow>
        (\<exists>low up. find_range (as_string w) = Some (low, up)
           \<and> extractMajorMinor (dotted up) = extractMajorMinor (getenv env ''OSP_VERSION'')
           \<and> contains (as_string w) (getenv env ''OSP_VERSION'')))"
proof -
  have valid: "\<exists>l p l' p'. find_range v = Some (l, p) \<and> find_range w = Some (l', p') \<and> l = l'"
    if "isValidOspVersionPatchUpdate env v w" for v w
    using that by (cases "find_range v"; cases "find_range w")
      (auto simp: isValidOspVersionPatchUpdate_def Let_def split: if_splits option.splits)
  have 1: "changed_channel env postMap (c, v) = [] \<longleftrightarrow> (c \<noteq> ''latest'' \<longrightarrow> (\<exists>w. map_of postMap c = Some w
        \<and> (if matches_osp env c
           then as_string v \<noteq> as_string w \<and> isValidOspVersionPatchUpdate env (as_string v) (as_string w)
           else as_string v = as_string w)))" for c v
    using valid by (force simp: changed_channel_def Let_def split: option.splits prod.splits if_splits)
  have 2: "new_channel env preMap (c, w) = [] \<longleftrightarrow>
      (c \<noteq> ''latest'' \<and> c \<notin> fst ` set preMap \<and> matches_osp env c \<longrightarrow>
        (\<exists>low up. find_range (as_string w) = Some (low, up)
           \<and> extractMajorMinor (dotted up) = extractMajorMinor (getenv env ''OSP_VERSION'')
           \<and> contains (as_string w) (getenv env ''OSP_VERSION'')))" for c w
    by (auto simp: new_channel_def skipRangeContainsVersion_def split: option.splits)
  have "diff_errors env preMap postMap = [] \<longleftrightarrow>
      (\<forall>(c, v) \<in> set preMap. changed_channel env postMap (c, v) = [])
      \<and> (\<forall>(c, w) \<in> set postMap. new_channel env preMap (c, w) = [])"
    by (auto simp: diff_errors_def)
  then show ?thesis unfolding 1 2 .
qed

theorem diff_passes_iff_witness:
  "diff_errors [''OSP_VERSION'' \<mapsto> ''1.2.4''] [(''pipelines-1.1'', JStr ''>=1.0.0 <1.1.3''), (''latest'', JStr [])]
     [(''pipelines-1.1'', JStr ''>=1.0.0 <1.1.3''), (''pipelines-1.2'', JStr ''>=1.1.0 <1.2.4'')] = []"
proof -
  let ?env = "[''OSP_VERSION'' \<mapsto> ''1.2.4''] :: env"
  have "\<not> matches_osp ?env ''pipelines-1.1''"
    and "find_range ''>=1.1.0 <1.2.4'' = Some ((''1'', ''1'', ''0''), (''1'', ''2'', ''4''))"
    and "extractMajorMinor (dotted (''1'', ''2'', ''4'')) = extractMajorMinor (getenv ?env ''OSP_VERSION'')"
    and "contains ''>=1.1.0 <1.2.4'' (getenv ?env ''OSP_VERSION'')" by code_simp+
  then show ?thesis by (simp add: diff_passes_iff [of ?env])
qed

theorem verdicts_order_independent_witness:
  "check_osp [''OSP_VERSION'' \<mapsto> ''1.2.3''] [(''pipelines-1.2'', ''>=1.1.0 <1.2.3''), (''latest'', [])]
     = check_osp [''OSP_VERSION'' \<mapsto> ''1.2.3''] [(''latest'', []), (''pipelines-1.2'', ''>=1.1.0 <1.2.3'')]"
proof -
  have "mset [(''pipelines-1.2'', ''>=1.1.0 <1.2.3''), (''latest'', [])]
      = mset [(''latest'', []), (''pipelines-1.2'', ''>=1.1.0 <1.2.3'')]" by simp
  from verdicts_order_independent [OF this] show ?thesis by blast
qed

end
