(* ===== verification/OcCli.thy ===== *)
theory OcCli
  imports CmdLine "HOL-Library.AList"
begin

text \<open>
  \<open>pkg/oc/oc.go\<close>: the wrappers around the oc command. Each operation is the command line it runs
  (through \<open>pkg/cmd\<close>) and what it does with the result; a failed command or a panic ends the test
  (\<open>KAbort\<close>). \<open>oc.Context\<close>, \<open>config.Path\<close> and \<open>store.Namespace()\<close> are arguments, as is
  \<open>json.Unmarshal\<close>. The JSON patches are strings, as the code builds them.
\<close>

section \<open>Running oc\<close>

record 'w oc_env =
  oc_shell :: "'w shell"
  oc_connection :: connection
  oc_Context :: string
  oc_path :: "string \<Rightarrow> string"
  oc_namespace :: string

definition getOcCommand :: "'w oc_env \<Rightarrow> string list \<Rightarrow> string list" where
  "getOcCommand oc args = [''oc''] @ (if oc_Context oc \<noteq> [] then [''--context'', oc_Context oc] else []) @ args"

definition oc_result :: "'w oc_env \<Rightarrow> string list \<Rightarrow> ('w, 'b, 'm) io_scheme \<Rightarrow>
    (kerror + cmd_result) \<times> ('w, 'b, 'm) io_scheme" where
  "oc_result oc args = MustSucceed (oc_shell oc) (oc_connection oc) (getOcCommand oc args)"

text \<open>\<open>run\<close> and \<open>runWithLog\<close>, when the output is only logged.\<close>

definition oc_run :: "'w oc_env \<Rightarrow> string list \<Rightarrow> ('w, 'b, 'm) io_scheme step" where
  "oc_run oc args s =
     (case oc_result oc args s of (Inl e, s') \<Rightarrow> (Some e, s') | (Inr _, s') \<Rightarrow> (None, s'))"

definition runIgnoreErrors :: "'w oc_env \<Rightarrow> string list \<Rightarrow> ('w, 'b, 'm) io_scheme \<Rightarrow>
    cmd_result \<times> ('w, 'b, 'm) io_scheme" where
  "runIgnoreErrors oc args = Run (oc_shell oc) (oc_connection oc) (getOcCommand oc args)"

definition ignore :: "('s \<Rightarrow> 'r \<times> 's) \<Rightarrow> 's step" where
  "ignore m s = (None, snd (m s))"

section \<open>Resources and projects\<close>

text \<open>The namespace of \<open>Create\<close>, \<open>CreateRemote\<close> and \<open>Apply\<close>: the argument, else the stored one.\<close>

definition with_namespace :: "'w oc_env \<Rightarrow> string \<Rightarrow> string list \<Rightarrow> (string \<Rightarrow> 's step) \<Rightarrow> 's step" where
  "with_namespace oc caller nsArgs m s =
     (case nsArgs of
        ns # _ \<Rightarrow> m ns s
      | [] \<Rightarrow>
          if oc_namespace oc = []
          then (Some (KAbort (caller @ '': namespace not provided and store.Namespace() is empty'')), s)
          else m (oc_namespace oc) s)"

definition Create :: "'w oc_env \<Rightarrow> string \<Rightarrow> string list \<Rightarrow> ('w, 'b, 'm) io_scheme step" where
  "Create oc pathDir nsArgs =
     with_namespace oc ''oc.Create'' nsArgs (\<lambda>ns. oc_run oc [''create'', ''-f'', oc_path oc pathDir, ''-n'', ns])"

definition CreateRemote :: "'w oc_env \<Rightarrow> string \<Rightarrow> string list \<Rightarrow> ('w, 'b, 'm) io_scheme step" where
  "CreateRemote oc remotePath nsArgs =
     with_namespace oc ''oc.CreateRemote'' nsArgs (\<lambda>ns. oc_run oc [''create'', ''-f'', remotePath, ''-n'', ns])"

definition Apply :: "'w oc_env \<Rightarrow> string \<Rightarrow> string list \<Rightarrow> ('w, 'b, 'm) io_scheme step" where
  "Apply oc pathDir nsArgs =
     with_namespace oc ''oc.Apply'' nsArgs (\<lambda>ns. oc_run oc [''apply'', ''-f'', oc_path oc pathDir, ''-n'', ns])"

definition Delete :: "'w oc_env \<Rightarrow> string \<Rightarrow> string \<Rightarrow> ('w, 'b, 'm) io_scheme step" where
  "Delete oc pathDir namespace = oc_run oc [''delete'', ''-f'', oc_path oc pathDir, ''-n'', namespace]"

definition CreateNewProject :: "'w oc_env \<Rightarrow> string \<Rightarrow> ('w, 'b, 'm) io_scheme step" where
  "CreateNewProject oc ns = oc_run oc [''new-project'', ns]"

definition CreateNewProjectIgnoreErrors :: "'w oc_env \<Rightarrow> string \<Rightarrow> ('w, 'b, 'm) io_scheme step" where
  "CreateNewProjectIgnoreErrors oc ns = ignore (runIgnoreErrors oc [''new-project'', ns])"

definition CreateNewNamespace :: "'w oc_env \<Rightarrow> string \<Rightarrow> ('w, 'b, 'm) io_scheme step" where
  "CreateNewNamespace oc ns = oc_run oc [''create'', ''ns'', ns]"

definition DeleteProject :: "'w oc_env \<Rightarrow> string \<Rightarrow> ('w, 'b, 'm) io_scheme step" where
  "DeleteProject oc ns = oc_run oc [''delete'', ''project'', ns]"

definition DeleteProjectIgnoreErrors :: "'w oc_env \<Rightarrow> string \<Rightarrow> ('w, 'b, 'm) io_scheme step" where
  "DeleteProjectIgnoreErrors oc ns = ignore (runIgnoreErrors oc [''delete'', ''project'', ns])"

definition DeleteResource :: "'w oc_env \<Rightarrow> string \<Rightarrow> string \<Rightarrow> ('w, 'b, 'm) io_scheme step" where
  "DeleteResource oc resourceType name = oc_run oc [''delete'', resourceType, name, ''-n'', oc_namespace oc]"

definition DeleteResourceInNamespace :: "'w oc_env \<Rightarrow> string \<Rightarrow> string \<Rightarrow> string \<Rightarrow> ('w, 'b, 'm) io_scheme step" where
  "DeleteResourceInNamespace oc resourceType name namespace =
     oc_run oc [''delete'', resourceType, name, ''-n'', namespace]"

section \<open>Permissions, labels, secrets\<close>

definition LinkSecretToSA :: "'w oc_env \<Rightarrow> string \<Rightarrow> string \<Rightarrow> string \<Rightarrow> ('w, 'b, 'm) io_scheme step" where
  "LinkSecretToSA oc secretname sa namespace =
     oc_run oc [''secret'', ''link'', ''serviceaccount/'' @ sa, ''secrets/'' @ secretname, ''-n'', namespace]"

definition AddSCCToServiceAccount :: "'w oc_env \<Rightarrow> string \<Rightarrow> string \<Rightarrow> string \<Rightarrow> ('w, 'b, 'm) io_scheme step" where
  "AddSCCToServiceAccount oc scc sa namespace =
     oc_run oc [''adm'', ''policy'', ''add-scc-to-user'', scc, ''-z'', sa, ''-n'', namespace]"

definition AddRoleToServiceAccount :: "'w oc_env \<Rightarrow> string \<Rightarrow> string \<Rightarrow> string \<Rightarrow> ('w, 'b, 'm) io_scheme step" where
  "AddRoleToServiceAccount oc role sa namespace =
     oc_run oc [''adm'', ''policy'', ''add-role-to-user'', role, ''-z'', sa, ''-n'', namespace]"

definition CreateSecretWithSecretToken :: "'w oc_env \<Rightarrow> string \<Rightarrow> string \<Rightarrow> ('w, 'b, 'm) io_scheme step" where
  "CreateSecretWithSecretToken oc secretname namespace =
     oc_run oc [''create'', ''secret'', ''generic'', secretname, ''--from-literal=secretToken=1234567'', ''-n'', namespace]"

definition EnableTLSConfigForEventlisteners :: "'w oc_env \<Rightarrow> string \<Rightarrow> ('w, 'b, 'm) io_scheme step" where
  "EnableTLSConfigForEventlisteners oc namespace =
     oc_run oc [''label'', ''namespace'', namespace, ''operator.tekton.dev/enable-annotation=enabled'']"

text \<open>\<open>result.String()\<close> quotes the output; the model looks for the events in the output.\<close>

definition VerifyKubernetesEventsForEventListener :: "'w oc_env \<Rightarrow> string \<Rightarrow> ('w, 'b, 'm) io_scheme step" where
  "VerifyKubernetesEventsForEventListener oc namespace s =
     (case oc_result oc [''-n'', namespace, ''get'', ''events''] s of
        (Inl e, s') \<Rightarrow> (Some e, s')
      | (Inr res, s') \<Rightarrow>
          if list_all (contains (Stdout res)) [''dev.tekton.event.triggers.started.v1'',
               ''dev.tekton.event.triggers.successful.v1'', ''dev.tekton.event.triggers.done.v1'']
          then (None, s') else (Some (KAbort ''No events for successful, done and started''), s'))"

definition AnnotateNamespace :: "'w oc_env \<Rightarrow> string \<Rightarrow> string \<Rightarrow> ('w, 'b, 'm) io_scheme step" where
  "AnnotateNamespace oc namespace annotation = oc_run oc [''annotate'', ''namespace'', namespace, annotation]"

definition AnnotateNamespaceIgnoreErrors :: "'w oc_env \<Rightarrow> string \<Rightarrow> string \<Rightarrow> ('w, 'b, 'm) io_scheme step" where
  "AnnotateNamespaceIgnoreErrors oc namespace annotation =
     oc_run oc [''annotate'', ''namespace'', namespace, annotation]"

definition LabelNamespace :: "'w oc_env \<Rightarrow> string \<Rightarrow> string \<Rightarrow> ('w, 'b, 'm) io_scheme step" where
  "LabelNamespace oc namespace label = oc_run oc [''label'', ''namespace'', namespace, label]"

definition CheckProjectExists :: "'w oc_env \<Rightarrow> string \<Rightarrow> ('w, 'b, 'm) io_scheme \<Rightarrow>
    (kerror + bool) \<times> ('w, 'b, 'm) io_scheme" where
  "CheckProjectExists oc projectName s =
     (case oc_result oc [''project'', projectName] s of
        (Inl e, s') \<Rightarrow> (Inl e, s')
      | (Inr res, s') \<Rightarrow> (Inr (ExitCode res = 0 \<and> \<not> contains (Stdout res @ Stderr res) ''error''), s'))"

definition SecretExists :: "'w oc_env \<Rightarrow> string \<Rightarrow> string \<Rightarrow> ('w, 'b, 'm) io_scheme \<Rightarrow>
    bool \<times> ('w, 'b, 'm) io_scheme" where
  "SecretExists oc secretName namespace s =
     (case runIgnoreErrors oc [''get'', ''secret'', secretName, ''-n'', namespace] s of
        (res, s') \<Rightarrow> (ExitCode res = 0, s'))"

definition CreateSecretForGitResolver :: "'w oc_env \<Rightarrow> string \<Rightarrow> ('w, 'b, 'm) io_scheme step" where
  "CreateSecretForGitResolver oc secretData =
     oc_run oc [''create'', ''secret'', ''generic'', ''github-auth-secret'', ''--from-literal'',
       ''github-auth-key='' @ secretData, ''-n'', ''openshift-pipelines'']"

definition CreateSecretForWebhook :: "'w oc_env \<Rightarrow> string \<Rightarrow> string \<Rightarrow> string \<Rightarrow> ('w, 'b, 'm) io_scheme step" where
  "CreateSecretForWebhook oc tokenSecretData webhookSecretData namespace =
     oc_run oc [''create'', ''secret'', ''generic'', ''gitlab-webhook-config'', ''--from-literal'',
       ''provider.token='' @ tokenSecretData, ''--from-literal'', ''webhook.secret='' @ webhookSecretData,
       ''-n'', namespace]"

definition GetSecretsData :: "'w oc_env \<Rightarrow> string \<Rightarrow> string \<Rightarrow> ('w, 'b, 'm) io_scheme \<Rightarrow>
    (kerror + string) \<times> ('w, 'b, 'm) io_scheme" where
  "GetSecretsData oc secretName namespace s =
     (case oc_result oc [''get'', ''secrets'', secretName, ''-n'', namespace, ''-o'', ''jsonpath=\"{.data}\"''] s of
        (Inl e, s') \<Rightarrow> (Inl e, s')
      | (Inr res, s') \<Rightarrow> (Inr (Stdout res), s'))"

definition registry_secret :: "string \<Rightarrow> string \<Rightarrow> string \<Rightarrow> string list" where
  "registry_secret name dockerConfig ns =
     [''create'', ''secret'', ''generic'', name, ''--from-literal=.dockerconfigjson='' @ dockerConfig,
      ''--from-literal=config.json='' @ dockerConfig, ''--type=kubernetes.io/dockerconfigjson'', ''-n'', ns]"

definition CreateChainsImageRegistrySecret :: "'w oc_env \<Rightarrow> string \<Rightarrow> ('w, 'b, 'm) io_scheme step" where
  "CreateChainsImageRegistrySecret oc dockerConfig s =
     (if oc_namespace oc = []
      then (Some (KAbort ''CreateChainsImageRegistrySecret: store.Namespace() is empty''), s)
      else oc_run oc (registry_secret ''chains-image-registry-credentials'' dockerConfig (oc_namespace oc)) s)"

text \<open>\<open>Skip\<close> ends the test too.\<close>

definition ValidateAndCreateJibMavenSecret ::
    "'w oc_env \<Rightarrow> (string \<Rightarrow> string) \<Rightarrow> string \<Rightarrow> ('w, 'b, 'm) io_scheme \<Rightarrow>
     (kerror + string) \<times> ('w, 'b, 'm) io_scheme" where
  "ValidateAndCreateJibMavenSecret oc getenv namespace s =
     (let repo = getenv ''JIB_MAVEN_REPOSITORY''; dockerConfig = getenv ''JIB_MAVEN_DOCKER_CONFIG_JSON''
      in if repo = [] then (Inl (KAbort ''JIB_MAVEN_REPOSITORY not set''), s)
         else if dockerConfig = [] then (Inl (KAbort ''JIB_MAVEN_DOCKER_CONFIG_JSON not set''), s)
         else (case seq (oc_run oc (registry_secret ''jib-maven-image-registry-credentials'' dockerConfig namespace))
                 (LinkSecretToSA oc ''jib-maven-image-registry-credentials'' ''pipeline'' namespace) s of
             (Some e, s') \<Rightarrow> (Inl e, s')
           | (None, s') \<Rightarrow> (Inr repo, s')))"

text \<open>
  The package-level functions run oc without the context of an \<open>OC\<close> value; two of them share
  their names with methods.
\<close>

definition must_run :: "'w oc_env \<Rightarrow> string list \<Rightarrow> ('w, 'b, 'm) io_scheme step" where
  "must_run oc args s =
     (case MustSucceed (oc_shell oc) (oc_connection oc) args s of (Inl e, s') \<Rightarrow> (Some e, s') | (Inr _, s') \<Rightarrow> (None, s'))"

definition CreateNewProject_pkg :: "'w oc_env \<Rightarrow> string \<Rightarrow> ('w, 'b, 'm) io_scheme step" where
  "CreateNewProject_pkg oc ns = must_run oc [''oc'', ''new-project'', ns]"

definition DeleteProject_pkg :: "'w oc_env \<Rightarrow> string \<Rightarrow> ('w, 'b, 'm) io_scheme step" where
  "DeleteProject_pkg oc ns =
     ignore (Run (oc_shell oc) (oc_connection oc) [''oc'', ''delete'', ''project'', ns, ''--ignore-not-found=true''])"

definition AddClusterRoleToUser :: "'w oc_env \<Rightarrow> string \<Rightarrow> string \<Rightarrow> ('w, 'b, 'm) io_scheme step" where
  "AddClusterRoleToUser oc role userRef =
     must_run oc [''oc'', ''adm'', ''policy'', ''add-cluster-role-to-user'', role, userRef]"

definition RemoveClusterRoleFromUser :: "'w oc_env \<Rightarrow> string \<Rightarrow> string \<Rightarrow> ('w, 'b, 'm) io_scheme step" where
  "RemoveClusterRoleFromUser oc role userRef =
     ignore (Run (oc_shell oc) (oc_connection oc)
       [''oc'', ''adm'', ''policy'', ''remove-cluster-role-from-user'', role, userRef])"

definition AddSCCToUser :: "'w oc_env \<Rightarrow> string \<Rightarrow> string \<Rightarrow> ('w, 'b, 'm) io_scheme step" where
  "AddSCCToUser oc scc userRef = must_run oc [''oc'', ''adm'', ''policy'', ''add-scc-to-user'', scc, userRef]"

definition RemoveSCCFromUser :: "'w oc_env \<Rightarrow> string \<Rightarrow> string \<Rightarrow> ('w, 'b, 'm) io_scheme step" where
  "RemoveSCCFromUser oc scc userRef =
     ignore (Run (oc_shell oc) (oc_connection oc)
       [''oc'', ''adm'', ''policy'', ''remove-scc-from-user'', scc, userRef])"

end
