(* ===== verification/OcPatches.thy ===== *)
theory OcPatches
  imports OcCli
begin

text \<open>
  \<open>pkg/oc/oc.go\<close>, second part: the operations that build JSON, as text or as values. \<open>render\<close> is
  the reference the text is compared with: what a JSON encoder prints, without spaces, for the
  value the patch means.
\<close>

section \<open>The reference printer\<close>

abbreviation dquote :: char where "dquote \<equiv> CHR 0x22"
abbreviation backslash :: char where "backslash \<equiv> CHR 0x5C"

definition quoted :: "string \<Rightarrow> string" where
  "quoted s = [dquote] @ s @ [dquote]"

text \<open>
  The characters of a string literal: quotation marks, backslashes and control characters are escaped
  (RFC 8259), the common ones by a letter. Go's \<open>%q\<close> prints the same for these and for printable text.
\<close>

definition control :: "char \<Rightarrow> bool" where
  "control c \<longleftrightarrow> (of_char c :: nat) < 32"

definition hex_char :: "nat \<Rightarrow> char" where
  "hex_char n = (if n < 10 then digit_char n else char_of (87 + n))"

definition escape_char :: "char \<Rightarrow> string" where
  "escape_char c =
     (if c = dquote \<or> c = backslash then [backslash, c]
      else if c = CHR 0x08 then [backslash, CHR ''b'']
      else if c = CHR 0x09 then [backslash, CHR ''t'']
      else if c = CHR 0x0A then [backslash, CHR ''n'']
      else if c = CHR 0x0C then [backslash, CHR ''f'']
      else if c = CHR 0x0D then [backslash, CHR ''r'']
      else if control c then backslash # ''u00'' @ [hex_char (of_char c div 16), hex_char (of_char c mod 16)]
      else [c])"

definition escape :: "string \<Rightarrow> string" where
  "escape s = concat (map escape_char s)"

definition render_members :: "(string \<times> string) list \<Rightarrow> string" where
  "render_members ms = ''{'' @ join '','' (map (\<lambda>(k, v). quoted (escape k) @ '':'' @ v) ms) @ ''}''"

primrec render :: "json \<Rightarrow> string" where
  "render JNull = ''null''"
| "render (JBool b) = (if b then ''true'' else ''false'')"
| "render (JNum i) = show_int i"
| "render (JStr s) = quoted (escape s)"
| "render (JArr xs) = ''['' @ join '','' (map render xs) @ '']''"
| "render (JObj kvs) = render_members (map (map_prod id render) kvs)"

text \<open>Strings that are printed as they are, and what their literals cannot contain.\<close>

definition plain :: "string \<Rightarrow> bool" where
  "plain s = list_all (\<lambda>c. c \<noteq> dquote \<and> c \<noteq> backslash \<and> \<not> control c) s"

lemma control_chars: "control (CHR 0x08)" "control (CHR 0x09)" "control (CHR 0x0A)" "control (CHR 0x0C)" "control (CHR 0x0D)"
  by (simp_all add: control_def)

lemma escape_plain_char: "c \<noteq> dquote \<Longrightarrow> c \<noteq> backslash \<Longrightarrow> \<not> control c \<Longrightarrow> escape_char c = [c]"
  using control_chars by (auto simp: escape_char_def)

lemma escape_plain [simp]: "plain s \<Longrightarrow> escape s = s"
  by (induction s) (simp_all add: plain_def escape_def escape_plain_char)

lemma plain_subset: "plain t \<Longrightarrow> set s \<subseteq> set t \<Longrightarrow> plain s"
  by (auto simp: plain_def list_all_iff)

text \<open>A literal has no control character, so a text with one inside quotation marks is not JSON.\<close>

lemma escape_no_control: "c \<in> set (escape s) \<Longrightarrow> \<not> control c"
proof (induction s)
  case (Cons x s)
  have hex: "\<not> control (hex_char n)" if "n < 16" for n
    using that by (auto simp: hex_char_def control_def digit_char_def)
  have low: "\<not> control (hex_char (of_char x mod 16))" by (rule hex) simp
  have high: "\<not> control (hex_char (of_char x div 16))" if "control x"
    by (rule hex) (use that in \<open>simp add: control_def\<close>)
  have "c \<in> set (escape_char x) \<Longrightarrow> \<not> control c"
    using low high by (auto simp: escape_char_def split: if_splits) (auto simp: control_def)
  with Cons show ?case by (auto simp: escape_def)
qed (simp add: escape_def)

section \<open>Patching the TektonConfig\<close>

definition UpdateTektonConfig :: "'w oc_env \<Rightarrow> string \<Rightarrow> ('w, 'b, 'm) io_scheme step" where
  "UpdateTektonConfig oc patchData =
     oc_run oc [''patch'', ''tektonconfig'', ''config'', ''-p'', patchData, ''--type=merge'']"

definition UpdateTektonConfigwithInvalidData :: "'w oc_env \<Rightarrow> string \<Rightarrow> string \<Rightarrow> ('w, 'b, 'm) io_scheme step" where
  "UpdateTektonConfigwithInvalidData oc patchData errorMessage s =
     (case runIgnoreErrors oc [''patch'', ''tektonconfig'', ''config'', ''-p'', patchData, ''--type=merge''] s of
        (res, s') \<Rightarrow>
          if ExitCode res \<noteq> 1 then (Some (KAbort ''Expected exit code 1''), s')
          else if \<not> contains (Stderr res) errorMessage then (Some (KAbort ''unexpected error text''), s')
          else (None, s'))"

text \<open>A patch that must be accepted, or be rejected with the expected message.\<close>

definition patch_expecting :: "'w oc_env \<Rightarrow> string \<Rightarrow> string \<Rightarrow> ('w, 'b, 'm) io_scheme step" where
  "patch_expecting oc patchData expectedMessage =
     (if expectedMessage = [] then UpdateTektonConfig oc patchData
      else UpdateTektonConfigwithInvalidData oc patchData expectedMessage)"

definition RemovePrunerConfig :: "'w oc_env \<Rightarrow> ('w, 'b, 'm) io_scheme step" where
  "RemovePrunerConfig oc = oc_run oc [''patch'', ''tektonconfig'', ''config'', ''-p'',
     ''[{ \"op\": \"remove\", \"path\": \"/spec/pruner\" }]'', ''--type=json'']"

definition addon_patch :: "string \<Rightarrow> string \<Rightarrow> string" where
  "addon_patch resolverTasks pipelineTemplates =
     ''{\"spec\":{\"addon\":{\"params\":[{\"name\":\"resolverTasks\",\"value\":\"'' @ resolverTasks
     @ ''\"},{\"name\":\"pipelineTemplates\",\"value\":\"'' @ pipelineTemplates @ ''\"}]}}}''"

definition UpdateAddonConfig :: "'w oc_env \<Rightarrow> string \<Rightarrow> string \<Rightarrow> string \<Rightarrow> ('w, 'b, 'm) io_scheme step" where
  "UpdateAddonConfig oc resolverTasks pipelineTemplates expectedMessage =
     patch_expecting oc (addon_patch resolverTasks pipelineTemplates) expectedMessage"

definition param_patch :: "string \<Rightarrow> string \<Rightarrow> string" where
  "param_patch paramName val =
     ''{\"spec\":{\"params\":[{\"name\":\"'' @ paramName @ ''\",\"value\":\"'' @ val @ ''\"}]}}''"

definition UpdateTektonConfigParam :: "'w oc_env \<Rightarrow> string \<Rightarrow> string \<Rightarrow> ('w, 'b, 'm) io_scheme step" where
  "UpdateTektonConfigParam oc paramName val = UpdateTektonConfig oc (param_patch paramName val)"

definition buildPrunerPatch :: "string \<Rightarrow> string \<Rightarrow> string \<Rightarrow> string \<Rightarrow> bool \<Rightarrow> bool \<Rightarrow> string" where
  "buildPrunerPatch keep schedule resources keepSince withKeep withKeepSince =
     (let resJSON = map (\<lambda>r. quoted (trim_space r)) (split_char CHR '','' resources);
          fields =
            [''\"schedule\":\"'' @ schedule @ ''\"''] @
            [''\"resources\":['' @ join '','' resJSON @ '']''] @
            (if withKeep then [''\"keep\":'' @ keep] else [''\"keep\":null'']) @
            (if withKeepSince then [''\"keep-since\":'' @ keepSince] else [''\"keep-since\":null''])
      in ''{\"spec\":{\"pruner\":{'' @ join '','' fields @ ''}}}'')"

definition UpdatePrunerConfig ::
    "'w oc_env \<Rightarrow> string \<Rightarrow> string \<Rightarrow> string \<Rightarrow> string \<Rightarrow> bool \<Rightarrow> bool \<Rightarrow> ('w, 'b, 'm) io_scheme step" where
  "UpdatePrunerConfig oc keep schedule resources keepSince withKeep withKeepSince =
     UpdateTektonConfig oc (buildPrunerPatch keep schedule resources keepSince withKeep withKeepSince)"

definition UpdatePrunerConfigExpectError ::
    "'w oc_env \<Rightarrow> string \<Rightarrow> string \<Rightarrow> string \<Rightarrow> string \<Rightarrow> bool \<Rightarrow> bool \<Rightarrow>
     ('w, 'b, 'm) io_scheme \<Rightarrow> string \<times> ('w, 'b, 'm) io_scheme" where
  "UpdatePrunerConfigExpectError oc keep schedule resources keepSince withKeep withKeepSince s =
     (case runIgnoreErrors oc [''patch'', ''tektonconfig'', ''config'', ''-p'',
             buildPrunerPatch keep schedule resources keepSince withKeep withKeepSince, ''--type=merge''] s of
        (res, s') \<Rightarrow> (Stderr res, s'))"

definition set_disabled :: "'w oc_env \<Rightarrow> string \<Rightarrow> bool \<Rightarrow> ('w, 'b, 'm) io_scheme step" where
  "set_disabled oc pruner b =
     UpdateTektonConfig oc (''{\"spec\":{\"'' @ pruner @ ''\":{\"disabled\":'' @ (if b then ''true'' else ''false'') @ ''}}}'')"

definition EnableLegacyPruner :: "'w oc_env \<Rightarrow> ('w, 'b, 'm) io_scheme step" where
  "EnableLegacyPruner oc = set_disabled oc ''pruner'' False"

definition DisableLegacyPruner :: "'w oc_env \<Rightarrow> ('w, 'b, 'm) io_scheme step" where
  "DisableLegacyPruner oc = set_disabled oc ''pruner'' True"

definition EnableTektonPruner :: "'w oc_env \<Rightarrow> ('w, 'b, 'm) io_scheme step" where
  "EnableTektonPruner oc = set_disabled oc ''tektonpruner'' False"

definition DisableTektonPruner :: "'w oc_env \<Rightarrow> ('w, 'b, 'm) io_scheme step" where
  "DisableTektonPruner oc = set_disabled oc ''tektonpruner'' True"

section \<open>The pruner's global configuration\<close>

text \<open>\<open>strconv.Atoi\<close>: an optional sign, digits, and a value that fits a 64-bit int.\<close>

definition atoi :: "string \<Rightarrow> int option" where
  "atoi s =
     (let (neg, ds) = (case s of c # r \<Rightarrow> if c = CHR ''-'' then (True, r) else if c = CHR ''+'' then (False, r)
            else (False, s) | [] \<Rightarrow> (False, []))
      in if ds = [] \<or> \<not> list_all is_digit ds then None
         else if neg then (if decimal ds \<le> Suc max_int64 then Some (- int (decimal ds)) else None)
         else (if decimal ds \<le> max_int64 then Some (int (decimal ds)) else None))"

definition value_part :: "string \<Rightarrow> string" where
  "value_part raw =
     (let val = trim_space raw
      in if val = [] \<or> to_lower val = ''null'' then ''null''
         else if atoi val \<noteq> None then val
         else quoted (replace_char dquote [backslash, dquote] val))"

text \<open>The loop from the last but one part to the first.\<close>

definition nested_config :: "string list \<Rightarrow> string \<Rightarrow> string" where
  "nested_config parts valuePart =
     foldr (\<lambda>p inner. quoted p @ '':{'' @ inner @ ''}'') (butlast parts) (quoted (last parts) @ '':'' @ valuePart)"

definition global_config_patch :: "string \<Rightarrow> string \<Rightarrow> string" where
  "global_config_patch param val =
     (let valuePart = value_part val;
          globalConfigJSON =
            (if contains param ''.'' then nested_config (split_char CHR ''.'' param) valuePart
             else quoted param @ '':'' @ valuePart)
      in ''{\"spec\":{\"tektonpruner\":{\"global-config\":{'' @ globalConfigJSON @ ''}}}}'')"

definition SetTektonPrunerGlobalConfig :: "'w oc_env \<Rightarrow> string \<Rightarrow> string \<Rightarrow> string \<Rightarrow> ('w, 'b, 'm) io_scheme step" where
  "SetTektonPrunerGlobalConfig oc param val expectedMessage =
     patch_expecting oc (global_config_patch param val) expectedMessage"

section \<open>The console plugin\<close>

definition ConsolePluginDeployment :: string where
  "ConsolePluginDeployment = ''pipelines-console-plugin''"

definition plugins_patch :: "string list \<Rightarrow> string" where
  "plugins_patch plugins =
     ''{\"spec\":{\"plugins\":[\"'' @ join ''\",\"'' plugins @ ''\"]}}''"

definition EnableConsolePlugin ::
    "'w oc_env \<Rightarrow> (string \<Rightarrow> string list option) \<Rightarrow> ('w, 'b, 'm) io_scheme step" where
  "EnableConsolePlugin oc unmarshal s =
     (case oc_result oc [''get'', ''consoles.operator.openshift.io'', ''cluster'', ''-o'', ''jsonpath={.spec.plugins}''] s of
        (Inl e, s1) \<Rightarrow> (Some e, s1)
      | (Inr res, s1) \<Rightarrow>
          (case (if Stdout res = [] then Some [] else unmarshal (Stdout res)) of
             None \<Rightarrow> (Some (KAbort ''Could not parse consoles.operator.openshift.io CR''), s1)
           | Some plugins \<Rightarrow>
               if ConsolePluginDeployment \<in> set plugins then (None, s1)
               else oc_run oc [''patch'', ''consoles.operator.openshift.io'', ''cluster'', ''-p'',
                      plugins_patch (plugins @ [ConsolePluginDeployment]), ''--type=merge''] s1))"

section \<open>Copying a secret\<close>

definition dropped_metadata :: "string list" where
  "dropped_metadata = [''namespace'', ''creationTimestamp'', ''resourceVersion'', ''selfLink'', ''uid'', ''annotations'']"

definition clean_metadata :: "(string \<times> json) list \<Rightarrow> (string \<times> json) list" where
  "clean_metadata secret =
     (case map_of secret ''metadata'' of
        Some (JObj meta) \<Rightarrow> AList.update ''metadata'' (JObj (fold AList.delete dropped_metadata meta)) secret
      | _ \<Rightarrow> secret)"

definition rename_token :: "(string \<times> json) list \<Rightarrow> (string \<times> json) list" where
  "rename_token secret =
     (case map_of secret ''data'' of
        Some (JObj dat) \<Rightarrow>
          (case map_of dat ''github-auth-key'' of
             Some val \<Rightarrow> AList.update ''data''
               (JObj (AList.delete ''github-auth-key'' (AList.update ''token'' val dat))) secret
           | None \<Rightarrow> secret)
      | _ \<Rightarrow> secret)"

definition clean_secret :: "(string \<times> json) list \<Rightarrow> (string \<times> json) list" where
  "clean_secret secret = rename_token (clean_metadata secret)"

text \<open>
  \<open>write\<close> is marshalling to a temporary file and gives its name: the file system is outside the
  model.
\<close>

definition CopySecret ::
    "'w oc_env \<Rightarrow> (string \<Rightarrow> (string \<times> json) list option) \<Rightarrow> ((string \<times> json) list \<Rightarrow> string option) \<Rightarrow>
     string \<Rightarrow> string \<Rightarrow> string \<Rightarrow> ('w, 'b, 'm) io_scheme step" where
  "CopySecret oc unmarshal write secretName sourceNamespace destNamespace s =
     (case oc_result oc [''get'', ''secret'', secretName, ''-n'', sourceNamespace, ''-o'', ''json''] s of
        (Inl e, s1) \<Rightarrow> (Some e, s1)
      | (Inr res, s1) \<Rightarrow>
          (case unmarshal (Stdout res) of
             None \<Rightarrow> (Some (KAbort ''failed to parse secret JSON''), s1)
           | Some secret \<Rightarrow>
               (case write (clean_secret secret) of
                  None \<Rightarrow> (Some (KAbort ''failed to write secret to temp file''), s1)
                | Some file \<Rightarrow> oc_run oc [''apply'', ''-n'', destNamespace, ''-f'', file] s1)))"

section \<open>The text and the value\<close>

text \<open>The value at the end of a path of keys, and what the text of a value means.\<close>

fun nest :: "string list \<Rightarrow> json \<Rightarrow> json" where
  "nest [] v = v"
| "nest (k # ks) v = JObj [(k, nest ks v)]"

definition value_json :: "string \<Rightarrow> json" where
  "value_json raw =
     (let val = trim_space raw
      in if val = [] \<or> to_lower val = ''null'' then JNull
         else (case atoi val of Some i \<Rightarrow> JNum i | None \<Rightarrow> JStr val))"

lemma escape_dquotes:
  "list_all (\<lambda>c. c \<noteq> backslash \<and> \<not> control c) s \<Longrightarrow> escape s = replace_char dquote [backslash, dquote] s"
proof (induction s)
  case (Cons c s)
  moreover have "escape_char c = (if c = dquote then [backslash, dquote] else [c])"
    using Cons.prems escape_plain_char [of c] by (auto simp: escape_char_def)
  ultimately show ?case by (simp add: escape_def replace_char_def)
qed (simp add: escape_def replace_char_def)

lemma nested_config_renders:
  assumes "parts \<noteq> []" and "\<forall>p \<in> set parts. plain p"
  shows "''{'' @ nested_config parts (render v) @ ''}'' = render (nest parts v)"
  using assms
proof (induction parts rule: list_nonempty_induct)
  case (single p)
  then show ?case by (simp add: nested_config_def render_members_def)
next
  case (cons p ps)
  then have "nested_config (p # ps) (render v) = quoted p @ '':'' @ ''{'' @ nested_config ps (render v) @ ''}''"
    by (simp add: nested_config_def)
  with cons show ?case by (simp add: render_members_def)
qed

lemma plain_keys: "plain ''spec''" "plain ''tektonpruner''" "plain ''global-config''" "plain ''pruner''"
  "plain ''schedule''" "plain ''resources''" "plain ''keep''" "plain ''keep-since''"
  by code_simp+

lemma value_part_renders:
  assumes "list_all (\<lambda>c. c \<noteq> backslash \<and> \<not> control c) (trim_space val)"
    and "\<And>i. atoi (trim_space val) = Some i \<Longrightarrow> show_int i = trim_space val"
  shows "value_part val = render (value_json val)"
  using assms by (auto simp: value_part_def value_json_def Let_def escape_dquotes split: option.splits)

lemma join_superset: "w \<in> set ws \<Longrightarrow> set w \<subseteq> set (join sep ws)"
proof (induction ws)
  case (Cons v vs)
  then show ?case by (cases vs) (auto simp: join_Cons)
qed simp

lemma split_char_subset: "p \<in> set (split_char c s) \<Longrightarrow> set p \<subseteq> set s"
  using join_superset [of p "split_char c s" "[c]"] by (simp add: join_split_char)

section \<open>Properties\<close>

text \<open>
  C34: the patch text of SetTektonPrunerGlobalConfig is what a JSON encoder prints for the value it
  means, the nested objects along the dotted path with null, the number or the string at the end: for
  paths without quotation marks, backslashes and control characters, values without backslashes and
  control characters once they are trimmed, and numbers written the way JSON writes them (not +5, 007).
\<close>

theorem global_config_patch_renders:
  assumes "plain param" and "list_all (\<lambda>c. c \<noteq> backslash \<and> \<not> control c) (trim_space val)"
    and "\<And>i. atoi (trim_space val) = Some i \<Longrightarrow> show_int i = trim_space val"
  shows "global_config_patch param val =
    render (nest ([''spec'', ''tektonpruner'', ''global-config''] @ split_char CHR ''.'' param) (value_json val))"
proof -
  let ?parts = "split_char CHR ''.'' param"
  have parts: "\<forall>p \<in> set ?parts. plain p"
    using assms(1) split_char_subset plain_subset by metis
  have "(if contains param ''.'' then nested_config ?parts (value_part val)
      else quoted param @ '':'' @ value_part val) = nested_config ?parts (value_part val)"
  proof (cases "CHR ''.'' \<in> set param")
    case False
    then show ?thesis by (simp add: split_char_atom nested_config_def)
  next
    case True
    then have "contains param ''.''" by (metis append_Cons append_Nil contains_iff split_list)
    then show ?thesis by simp
  qed
  moreover have "''{'' @ nested_config ?parts (value_part val) @ ''}'' = render (nest ?parts (value_json val))"
    using nested_config_renders [OF _ parts] value_part_renders [OF assms(2,3)] by simp
  ultimately show ?thesis
    by (simp add: global_config_patch_def Let_def render_members_def plain_keys quoted_def)
qed

theorem global_config_patch_renders_witness:
  "global_config_patch ''namespaces.dev.ttl'' '' 60 '' =
     render (nest [''spec'', ''tektonpruner'', ''global-config'', ''namespaces'', ''dev'', ''ttl''] (JNum 60))"
proof -
  have t: "trim_space '' 60 '' = ''60''" by code_simp
  have "decimal ''60'' = 60" and "list_all is_digit ''60''" by code_simp+
  then have i: "atoi ''60'' = Some 60" by (simp add: atoi_def max_int64_def)
  have v: "value_json '' 60 '' = JNum 60" using i t by (simp add: value_json_def to_lower_def)
  have "show_nat 60 = ''60''" by code_simp
  then have e: "show_int j = trim_space '' 60 ''" if "atoi (trim_space '' 60 '') = Some j" for j
    using that t i by (simp add: show_int_def)
  have p: "plain ''namespaces.dev.ttl''" and b: "list_all (\<lambda>c. c \<noteq> backslash \<and> \<not> control c) (trim_space '' 60 '')"
    by code_simp+
  have "split_char CHR ''.'' ''namespaces.dev.ttl'' = [''namespaces'', ''dev'', ''ttl'']" by code_simp
  with global_config_patch_renders [OF p b e] show ?thesis by (simp only: v append.simps)
qed

text \<open>
  numbers that strconv.Atoi accepts are put into the patch as they are written, so a value
  with a plus sign or a leading zero gives a text that is no JSON value at all.
\<close>

theorem noncanonical_number_is_no_json:
  "value_part ''+5'' = ''+5'' \<and> value_part ''007'' = ''007'' \<and> (\<forall>j. render j \<noteq> ''+5'' \<and> render j \<noteq> ''007'')"
proof -
  have head: "show_nat n \<noteq> CHR ''+'' # r" for n r
    using show_nat_digits [of "CHR ''+''" n] by (auto simp: is_digit_def less_eq_char_def)
  have "show_nat n \<noteq> ''007''" for n
  proof
    assume n: "show_nat n = ''007''"
    then have "n = decimal ''007''" by (metis decimal_show_nat)
    moreover have "decimal ''007'' = 7" "show_nat 7 = ''7''" by code_simp+
    ultimately show False using n by simp
  qed
  then have "render j \<noteq> ''+5'' \<and> render j \<noteq> ''007''" for j
    using head by (cases j) (auto simp: show_int_def render_members_def quoted_def)
  moreover have "value_part ''+5'' = ''+5'' \<and> value_part ''007'' = ''007''"
  proof -
    have "trim_space ''+5'' = ''+5''" "trim_space ''007'' = ''007''" "decimal ''5'' = 5" "decimal ''007'' = 7"
      "list_all is_digit ''5''" "list_all is_digit ''007''" "to_lower ''+5'' = ''+5''" "to_lower ''007'' = ''007''"
      by code_simp+
    then show ?thesis by (simp add: value_part_def atoi_def max_int64_def)
  qed
  ultimately show ?thesis by blast
qed

end
