(* ===== verification/NamespaceHooks.thy ===== *)
theory NamespaceHooks
  imports OcCli
begin

text \<open>
  \<open>pkg/hooks/hooks.go\<close>: one namespace per Describe container, created before its first spec,
  deleted when the run leaves the container unless a spec failed in it. Ginkgo's report of the
  current spec is an argument; the random names of \<open>RestrictLengthWithRandomSuffix\<close> are the
  sequence \<open>hd_fresh\<close>, of which nothing is assumed here.
\<close>

section \<open>The manager\<close>

record spec_report =
  sp_texts :: "string list"
  sp_attempts :: nat
  sp_labels :: "string list list"
  sp_failed :: bool

text \<open>
  The namespaces of the containers (a Go map, in some order), their failure flags, the last
  container; the test's namespace variable, the stored namespace and the one the clients are
  scoped to. \<open>h_used\<close> counts the generated names; \<open>h_lost\<close> is a ghost that no hook touches: the
  namespaces that were their container's when Ginkgo reported a failed spec of it.
\<close>

record 'w hook_state = "('w, kbody) io" +
  h_containerToNS :: "(string \<times> string) list"
  h_containerFailed :: "string \<rightharpoonup> bool"
  h_last :: string
  h_namespace :: string
  h_stored :: string
  h_clients :: string
  h_used :: nat
  h_lost :: "string list"

record 'w hook_deps =
  hd_oc :: "'w oc_env"
  hd_server :: "('w, kbody) server"
  hd_poll :: "('w hook_state, kerror) poller"
  hd_hasClients :: bool
  hd_fresh :: "nat \<Rightarrow> string"

definition container_path :: "spec_report \<Rightarrow> string" where
  "container_path spec =
     (let base = join '' > '' (sp_texts spec)
      in if 1 < sp_attempts spec then base @ '' [attempt-'' @ show_nat (sp_attempts spec) @ '']'' else base)"

definition failed_flag :: "'w hook_state \<Rightarrow> string \<Rightarrow> bool" where
  "failed_flag s path = (h_containerFailed s path = Some True)"

text \<open>Moving to another container: the previous one's namespace is deleted unless it failed.\<close>

definition leave_container :: "'w hook_deps \<Rightarrow> string \<Rightarrow> 'w hook_state \<Rightarrow> 'w hook_state" where
  "leave_container d path s =
     (if h_last s \<noteq> [] \<and> h_last s \<noteq> path
      then (case map_of (h_containerToNS s) (h_last s) of
          None \<Rightarrow> s
        | Some prevNS \<Rightarrow>
            (let s1 = (if failed_flag s (h_last s) then s else snd (DeleteProjectIgnoreErrors (hd_oc d) prevNS s))
             in s1\<lparr>h_containerToNS := AList.delete (h_last s) (h_containerToNS s1),
                   h_containerFailed := (h_containerFailed s1)(h_last s := None)\<rparr>))
      else s)"

definition opts_out :: "string list list \<Rightarrow> bool" where
  "opts_out labels = list_ex (list_ex (\<lambda>l. l = ''no-auto-namespace'')) labels"

definition waitForPipelineServiceAccount :: "'w hook_deps \<Rightarrow> string \<Rightarrow> string \<Rightarrow> 'w hook_state \<Rightarrow> bool \<times> 'w hook_state" where
  "waitForPipelineServiceAccount d ns targetSA s =
     (case hd_poll d 1 30 False
        (\<lambda>s. case k_list (hd_server d) [] ''ServiceAccount'' ns [] s of
           (Inl e, s1) \<Rightarrow> ((False, Some (KApi e)), s1)
         | (Inr items, s1) \<Rightarrow> ((list_ex (\<lambda>sa. ref_name (o_ref sa) = targetSA) items, None), s1)) s of
        (None, s') \<Rightarrow> (True, s')
      | (Some _, s') \<Rightarrow> (False, s'))"

text \<open>The first spec of a container gets a fresh namespace; creating it may end the spec.\<close>

definition enter_container :: "'w hook_deps \<Rightarrow> string \<Rightarrow> 'w hook_state step" where
  "enter_container d path s =
     (case map_of (h_containerToNS s) path of
        Some _ \<Rightarrow> (None, s)
      | None \<Rightarrow>
          if \<not> hd_hasClients d
          then (Some (KAbort ''clients not initialized - ensure SynchronizedBeforeSuite has run''), s)
          else (let ns = hd_fresh d (h_used s);
                    s1 = s\<lparr>h_containerToNS := (path, ns) # h_containerToNS s,
                           h_containerFailed := (h_containerFailed s)(path \<mapsto> False),
                           h_used := Suc (h_used s)\<rparr>
                in (case CreateNewProject (hd_oc d) ns s1 of
                      (Some e, s2) \<Rightarrow> (Some e, s2)
                    | (None, s2) \<Rightarrow> (None, snd (waitForPipelineServiceAccount d ns ''pipeline'' s2)))))"

definition publish :: "'w hook_deps \<Rightarrow> string \<Rightarrow> 'w hook_state \<Rightarrow> 'w hook_state" where
  "publish d path s =
     (case map_of (h_containerToNS s) path of
        None \<Rightarrow> s
      | Some ns \<Rightarrow> s\<lparr>h_namespace := ns, h_stored := ns, h_clients := (if hd_hasClients d then ns else h_clients s)\<rparr>)"

definition BeforeEach :: "'w hook_deps \<Rightarrow> spec_report \<Rightarrow> 'w hook_state step" where
  "BeforeEach d spec s =
     (let path = container_path spec; s1 = leave_container d path s
      in if opts_out (sp_labels spec) then (None, s1\<lparr>h_last := path\<rparr>)
         else (case enter_container d path s1 of
             (Some e, s2) \<Rightarrow> (Some e, s2)
           | (None, s2) \<Rightarrow> (None, publish d path (s2\<lparr>h_last := path\<rparr>))))"

definition AfterEach :: "spec_report \<Rightarrow> 'w hook_state \<Rightarrow> 'w hook_state" where
  "AfterEach spec s =
     (if sp_failed spec
      then let path = container_path spec
           in s\<lparr>h_containerFailed := (h_containerFailed s)(path \<mapsto> True)\<rparr>
      else s)"

text \<open>\<open>CleanupNamespaces\<close>, the loop over the map.\<close>

fun cleanup_all :: "'w hook_deps \<Rightarrow> (string \<times> string) list \<Rightarrow> 'w hook_state \<Rightarrow> 'w hook_state" where
  "cleanup_all d [] s = s"
| "cleanup_all d ((path, ns) # rest) s =
     (if failed_flag s path then cleanup_all d rest s
      else cleanup_all d rest (snd (DeleteProjectIgnoreErrors (hd_oc d) ns s)))"

definition CleanupNamespaces :: "'w hook_deps \<Rightarrow> 'w hook_state \<Rightarrow> 'w hook_state" where
  "CleanupNamespaces d s = cleanup_all d (h_containerToNS s) s"

section \<open>The suite\<close>

text \<open>
  Any sequence of specs, some of which may have been ended by a failed \<open>BeforeEach\<close>. When a spec has
  failed, the ghost notes the namespace of its container, whatever the hook then does.
\<close>

definition note_failure :: "spec_report \<Rightarrow> 'w hook_state \<Rightarrow> 'w hook_state" where
  "note_failure spec s =
     (if sp_failed spec
      then (case map_of (h_containerToNS s) (container_path spec) of
          None \<Rightarrow> s
        | Some ns \<Rightarrow> s\<lparr>h_lost := ns # h_lost s\<rparr>)
      else s)"

inductive suite :: "'w hook_deps \<Rightarrow> 'w hook_state \<Rightarrow> bool" for d where
  suite_start: "h_containerToNS s = [] \<Longrightarrow> h_used s = 0 \<Longrightarrow> h_lost s = [] \<Longrightarrow> io_trace s = [] \<Longrightarrow> suite d s"
| suite_before: "suite d s \<Longrightarrow> BeforeEach d spec s = (err, s') \<Longrightarrow> suite d s'"
| suite_after: "suite d s \<Longrightarrow> suite d (AfterEach spec (note_failure spec s))"

text \<open>The two command lines of a namespace, and a deleted namespace.\<close>

definition create_line :: "'w hook_deps \<Rightarrow> string \<Rightarrow> string list" where
  "create_line d ns = Command (oc_connection (hd_oc d)) (getOcCommand (hd_oc d) [''new-project'', ns])"

definition delete_line :: "'w hook_deps \<Rightarrow> string \<Rightarrow> string list" where
  "delete_line d ns = Command (oc_connection (hd_oc d)) (getOcCommand (hd_oc d) [''delete'', ''project'', ns])"

definition deleted_ns :: "'w hook_deps \<Rightarrow> string \<Rightarrow> 'w hook_state \<Rightarrow> bool" where
  "deleted_ns d ns s = (delete_line d ns \<in> set (ran_lines (io_trace s)))"

end
