(* ===== verification/NamespaceSafety.thy ===== *)
theory NamespaceSafety
  imports NamespaceHooks
begin

text \<open>
  What the namespace hooks keep over a whole suite: a namespace is deleted only when its container
  is left or at the end, never after a spec of that container failed, and every generated
  namespace is deleted or kept for a failure in the end.
\<close>

section \<open>The command lines\<close>

lemma line_end:
  obtains front where "Command cn (getOcCommand oc (arg # args)) = front @ arg # args"
  by (auto simp: getOcCommand_def)

lemma delete_line_inj: "delete_line d ns = delete_line d ns' \<longleftrightarrow> ns = ns'"
proof
  obtain f f' where "delete_line d ns = f @ [''delete'', ''project'', ns]"
    and "delete_line d ns' = f' @ [''delete'', ''project'', ns']"
    unfolding delete_line_def by (metis line_end)
  then show "delete_line d ns = delete_line d ns' \<Longrightarrow> ns = ns'" by simp
qed simp

lemma create_not_delete: "create_line d ns \<noteq> delete_line d ns'"
proof -
  obtain f where "create_line d ns = f @ [''new-project'', ns]"
    unfolding create_line_def by (rule line_end)
  moreover obtain f' where "delete_line d ns' = f' @ [''delete'', ''project'', ns']"
    unfolding delete_line_def by (rule line_end)
  then have "delete_line d ns' = (f' @ [''delete'']) @ [''project'', ns']" by simp
  ultimately show ?thesis by simp
qed

section \<open>The invariant\<close>

text \<open>On the map, the flags, the number of names used, the lost namespaces and the command lines.\<close>

definition fresh_names :: "'w hook_deps \<Rightarrow> nat \<Rightarrow> string set" where
  "fresh_names d n = hd_fresh d ` {..<n}"

definition hooks_ok ::
    "'w hook_deps \<Rightarrow> (string \<times> string) list \<Rightarrow> (string \<rightharpoonup> bool) \<Rightarrow> nat \<Rightarrow> string list \<Rightarrow> string list list \<Rightarrow> bool" where
  "hooks_ok d M F n lost lines \<longleftrightarrow>
     distinct (map fst M) \<and> distinct (map snd M)
     \<and> snd ` set M \<subseteq> fresh_names d n \<and> set lost \<subseteq> fresh_names d n
     \<and> (\<forall>path ns. (path, ns) \<in> set M \<longrightarrow> (F path = Some True \<longleftrightarrow> ns \<in> set lost))
     \<and> (\<forall>ns. delete_line d ns \<in> set lines \<longrightarrow> ns \<notin> snd ` set M \<and> ns \<notin> set lost)
     \<and> set lines \<subseteq> create_line d ` fresh_names d n \<union> delete_line d ` fresh_names d n
     \<and> (\<forall>ns \<in> fresh_names d n. ns \<in> snd ` set M \<or> ns \<in> set lost \<or> delete_line d ns \<in> set lines)"

abbreviation hooks_good :: "'w hook_deps \<Rightarrow> 'w hook_state \<Rightarrow> bool" where
  "hooks_good d s \<equiv>
     hooks_ok d (h_containerToNS s) (h_containerFailed s) (h_used s) (h_lost s) (ran_lines (io_trace s))"

lemma fresh_names_Suc: "fresh_names d (Suc n) = insert (hd_fresh d n) (fresh_names d n)"
  by (simp add: fresh_names_def lessThan_Suc)

text \<open>The names drawn up to a point of the run are distinct.\<close>

definition distinct_names :: "'w hook_deps \<Rightarrow> nat \<Rightarrow> bool" where
  "distinct_names d n \<longleftrightarrow> distinct (map (hd_fresh d) [0..<n])"

lemma distinct_names_less: "distinct_names d n \<Longrightarrow> m \<le> n \<Longrightarrow> distinct_names d m"
  unfolding distinct_names_def by (auto simp: distinct_map inj_on_def)

lemma fresh_names_new: "distinct_names d (Suc n) \<Longrightarrow> hd_fresh d n \<notin> fresh_names d n"
  by (auto simp: distinct_names_def fresh_names_def)

lemma hooks_okD:
  assumes "hooks_ok d M F n lost lines"
  shows "distinct (map fst M)" "distinct (map snd M)"
    and "snd ` set M \<subseteq> fresh_names d n" "set lost \<subseteq> fresh_names d n"
    and "(path, ns) \<in> set M \<Longrightarrow> F path = Some True \<longleftrightarrow> ns \<in> set lost"
    and "delete_line d ns \<in> set lines \<Longrightarrow> ns \<notin> snd ` set M \<and> ns \<notin> set lost"
    and "set lines \<subseteq> create_line d ` fresh_names d n \<union> delete_line d ` fresh_names d n"
    and "ns \<in> fresh_names d n \<Longrightarrow> ns \<in> snd ` set M \<or> ns \<in> set lost \<or> delete_line d ns \<in> set lines"
  using assms unfolding hooks_ok_def by auto

lemma same_key:
  "distinct (map fst M) \<Longrightarrow> distinct (map snd M) \<Longrightarrow> (p, v) \<in> set M \<Longrightarrow> (q, w) \<in> set M \<Longrightarrow> p = q \<longleftrightarrow> v = w"
  by (force simp: distinct_map inj_on_def)

lemma ok_leave:
  assumes ok: "hooks_ok d M F n lost lines" and last: "map_of M path = Some ns"
  shows "hooks_ok d (AList.delete path M) (F(path := None)) n lost
    (if F path = Some True then lines else delete_line d ns # lines)"
proof -
  have mem: "(path, ns) \<in> set M" using last by (rule map_of_SomeD)
  note ok' = hooks_okD [OF ok]
  have rest: "(p, v) \<in> set (AList.delete path M) \<longleftrightarrow> (p, v) \<in> set M \<and> v \<noteq> ns" for p v
    using same_key [OF ok'(1,2) mem, of p v] by (auto simp: AList.delete_eq)
  have snds: "snd ` set (AList.delete path M) = snd ` set M - {ns}"
    using rest by force
  have dist: "distinct (map fst (AList.delete path M))" "distinct (map snd (AList.delete path M))"
    using ok'(1,2) by (auto simp: AList.delete_eq distinct_map inj_on_def)
  have keys: "v \<noteq> ns \<Longrightarrow> (path, v) \<notin> set M" for v
    using same_key [OF ok'(1,2) mem] by blast
  show ?thesis
    unfolding hooks_ok_def snds rest
  proof (intro conjI allI impI ballI)
    fix v assume "delete_line d v \<in> set (if F path = Some True then lines else delete_line d ns # lines)"
    then have "delete_line d v \<in> set lines \<or> v = ns \<and> F path \<noteq> Some True"
      by (auto simp: delete_line_inj split: if_splits)
    then show "v \<notin> snd ` set M - {ns}" and "v \<notin> set lost" using ok'(5) [OF mem] ok'(6) by auto
  next
    fix v assume "v \<in> fresh_names d n"
    then show "v \<in> snd ` set M - {ns} \<or> v \<in> set lost
        \<or> delete_line d v \<in> set (if F path = Some True then lines else delete_line d ns # lines)"
      using ok'(5) [OF mem] ok'(8) by auto
  next
    show "set (if F path = Some True then lines else delete_line d ns # lines)
        \<subseteq> create_line d ` fresh_names d n \<union> delete_line d ` fresh_names d n"
      using ok'(3,7) mem by auto
  qed (use ok' dist keys in auto)
qed

lemma ok_enter:
  assumes ok: "hooks_ok d M F n lost lines" and new: "map_of M path = None" and inj: "distinct_names d (Suc n)"
  shows "hooks_ok d ((path, hd_fresh d n) # M) (F(path \<mapsto> False)) (Suc n) lost (create_line d (hd_fresh d n) # lines)"
proof -
  note ok' = hooks_okD [OF ok]
  have path: "path \<notin> fst ` set M" using new by (simp add: map_of_eq_None_iff)
  then have keys: "(path, v) \<notin> set M" for v by force
  have new: "hd_fresh d n \<notin> fresh_names d n" by (rule fresh_names_new [OF inj])
  then have gone: "delete_line d (hd_fresh d n) \<notin> set lines" 
    using ok'(7) by (auto simp: delete_line_inj create_not_delete [symmetric])
  show ?thesis
    unfolding hooks_ok_def fresh_names_Suc
  proof (intro conjI allI impI ballI)
    fix v assume "delete_line d v \<in> set (create_line d (hd_fresh d n) # lines)"
    then have "delete_line d v \<in> set lines" by (simp add: create_not_delete [symmetric])
    then show "v \<notin> snd ` set ((path, hd_fresh d n) # M)" and "v \<notin> set lost" using ok'(6) gone by auto
  next
    fix p v assume "(p, v) \<in> set ((path, hd_fresh d n) # M)"
    then show "((F(path \<mapsto> False)) p = Some True) = (v \<in> set lost)"
      using ok'(4,5) new keys by auto
  next
    fix v assume "v \<in> insert (hd_fresh d n) (fresh_names d n)"
    then show "v \<in> snd ` set ((path, hd_fresh d n) # M) \<or> v \<in> set lost
        \<or> delete_line d v \<in> set (create_line d (hd_fresh d n) # lines)"
      using ok'(8) [of v] by auto
  qed (use ok'(1-4,7) path new in auto)
qed

lemma ok_failed:
  assumes ok: "hooks_ok d M F n lost lines"
  shows "hooks_ok d M (F(path \<mapsto> True)) n (case map_of M path of None \<Rightarrow> lost | Some ns \<Rightarrow> ns # lost) lines"
proof (cases "map_of M path")
  case None
  then have "(path, v) \<notin> set M" for v by (force simp: map_of_eq_None_iff)
  with None ok show ?thesis unfolding hooks_ok_def by simp
next
  case (Some ns)
  then have mem: "(path, ns) \<in> set M" by (rule map_of_SomeD)
  note ok' = hooks_okD [OF ok]
  show ?thesis
    unfolding hooks_ok_def Some option.case
  proof (intro conjI allI impI ballI)
    fix p v assume "(p, v) \<in> set M"
    then show "((F(path \<mapsto> True)) p = Some True) = (v \<in> set (ns # lost))"
      using same_key [OF ok'(1,2) mem] ok'(5) by auto
  next
    fix v assume "delete_line d v \<in> set lines"
    then show "v \<notin> snd ` set M" and "v \<notin> set (ns # lost)" using ok'(6) mem by force+
  next
    fix v assume "v \<in> fresh_names d n"
    then show "v \<in> snd ` set M \<or> v \<in> set (ns # lost) \<or> delete_line d v \<in> set lines"
      using ok'(8) by auto
  next
    show "set (ns # lost) \<subseteq> fresh_names d n" using ok'(3,4) mem by auto
  qed (use ok'(1-3,7) in auto)
qed

section \<open>The hooks keep it\<close>

text \<open>What the commands and reads leave alone.\<close>

definition same_hooks :: "'w hook_state \<Rightarrow> 'w hook_state \<Rightarrow> bool" where
  "same_hooks s s' \<longleftrightarrow>
     h_containerToNS s' = h_containerToNS s \<and> h_containerFailed s' = h_containerFailed s
     \<and> h_last s' = h_last s \<and> h_used s' = h_used s \<and> h_lost s' = h_lost s"

lemma same_hooks_more: "io.more s' = io.more s \<Longrightarrow> same_hooks s s'"
  by (cases s; cases s') (simp add: same_hooks_def)

lemma delete_project:
  "ran_lines (io_trace (snd (DeleteProjectIgnoreErrors (hd_oc d) ns s))) = delete_line d ns # ran_lines (io_trace s)
   \<and> same_hooks s (snd (DeleteProjectIgnoreErrors (hd_oc d) ns s))"
proof -
  obtain res s' where r: "Run (oc_shell (hd_oc d)) (oc_connection (hd_oc d))
      (getOcCommand (hd_oc d) [''delete'', ''project'', ns]) s = (res, s')" by (metis surj_pair)
  from run_frames [OF r] same_hooks_more [of s' s] r show ?thesis
    by (simp add: DeleteProjectIgnoreErrors_def ignore_def runIgnoreErrors_def delete_line_def)
qed

lemma create_project:
  assumes "CreateNewProject (hd_oc d) ns s = (err, s')"
  shows "ran_lines (io_trace s') = create_line d ns # ran_lines (io_trace s) \<and> same_hooks s s'"
proof -
  obtain res s1 where r: "Run (oc_shell (hd_oc d)) (oc_connection (hd_oc d))
      (getOcCommand (hd_oc d) [''new-project'', ns]) s = (res, s1)" by (metis surj_pair)
  moreover have "s' = s1"
    using assms r by (auto simp: CreateNewProject_def oc_run_def oc_result_def MustSucceed_def Assert_def
        split: if_splits)
  ultimately show ?thesis using run_frames [OF r] same_hooks_more [of s1 s] by (simp add: create_line_def)
qed

lemma wait_account:
  assumes "poll_contract (hd_poll d)" and "waitForPipelineServiceAccount d ns sa s = (b, s')"
  shows "ran_lines (io_trace s') = ran_lines (io_trace s) \<and> same_hooks s s'"
proof -
  let ?I = "\<lambda>t. ran_lines (io_trace t) = ran_lines (io_trace s) \<and> io.more t = io.more s"
  let ?f = "\<lambda>s. case k_list (hd_server d) [] ''ServiceAccount'' ns [] s of
           (Inl e, s1) \<Rightarrow> ((False, Some (KApi e)), s1)
         | (Inr items, s1) \<Rightarrow> ((list_ex (\<lambda>x. ref_name (o_ref x) = sa) items, None), s1)"
  have "keeps ?I ?f"
    by (rule keepsI) (auto dest: call_frames split: prod.splits sum.splits)
  moreover obtain e where "hd_poll d 1 30 False ?f s = (e, s')"
    using assms(2) by (auto simp: waitForPipelineServiceAccount_def split: prod.splits option.splits)
  ultimately have "?I s'" using keeps_pollE [OF assms(1), where I = ?I] by blast
  then show ?thesis using same_hooks_more by blast
qed

lemma good_leave: "hooks_good d s \<Longrightarrow> hooks_good d (leave_container d path s)"
  using ok_leave [of d "h_containerToNS s" "h_containerFailed s" "h_used s" "h_lost s" "ran_lines (io_trace s)" "h_last s"]
    delete_project [of d _ s]
  by (auto simp: leave_container_def failed_flag_def same_hooks_def split: option.splits if_splits)

lemma good_enter:
  assumes good: "hooks_good d s" and poll: "poll_contract (hd_poll d)"
    and run: "enter_container d path s = (err, s')" and inj: "distinct_names d (h_used s')"
  shows "hooks_good d s'"
proof (cases "map_of (h_containerToNS s) path = None \<and> hd_hasClients d")
  case False
  with good run show ?thesis by (auto simp: enter_container_def split: option.splits if_splits)
next
  case True
  let ?ns = "hd_fresh d (h_used s)"
  let ?s1 = "s\<lparr>h_containerToNS := (path, ?ns) # h_containerToNS s,
                h_containerFailed := (h_containerFailed s)(path \<mapsto> False), h_used := Suc (h_used s)\<rparr>"
  obtain err2 s2 where c: "CreateNewProject (hd_oc d) ?ns ?s1 = (err2, s2)" by (metis surj_pair)
  obtain b s3 where w: "waitForPipelineServiceAccount d ?ns ''pipeline'' s2 = (b, s3)" by (metis surj_pair)
  have "h_used s3 = Suc (h_used s)" and "h_used s2 = Suc (h_used s)"
    using create_project [OF c] wait_account [OF poll w] by (simp_all add: same_hooks_def)
  moreover have "s' = s2 \<or> s' = s3"
    using run True c w by (auto simp: enter_container_def Let_def split: option.splits)
  ultimately have "distinct_names d (Suc (h_used s))" using inj by auto
  then have "hooks_good d s2"
    using ok_enter [OF good, of path] True create_project [OF c] by (simp add: same_hooks_def)
  moreover from this have "hooks_good d s3"
    using wait_account [OF poll w] by (simp add: same_hooks_def)
  ultimately show ?thesis
    using run True c w by (auto simp: enter_container_def Let_def split: option.splits)
qed

lemma used_leave: "h_used (leave_container d path s) = h_used s"
  using delete_project [of d _ s] by (auto simp: leave_container_def same_hooks_def Let_def split: option.splits)

lemma used_enter:
  assumes "poll_contract (hd_poll d)" and "enter_container d path s = (err, s')"
  shows "h_used s \<le> h_used s'"
proof (cases "map_of (h_containerToNS s) path = None \<and> hd_hasClients d")
  case False
  with assms(2) show ?thesis by (auto simp: enter_container_def split: option.splits if_splits)
next
  case True
  let ?ns = "hd_fresh d (h_used s)"
  let ?s1 = "s\<lparr>h_containerToNS := (path, ?ns) # h_containerToNS s,
                h_containerFailed := (h_containerFailed s)(path \<mapsto> False), h_used := Suc (h_used s)\<rparr>"
  obtain err2 s2 where c: "CreateNewProject (hd_oc d) ?ns ?s1 = (err2, s2)" by (metis surj_pair)
  obtain b s3 where w: "waitForPipelineServiceAccount d ?ns ''pipeline'' s2 = (b, s3)" by (metis surj_pair)
  have "s' = s2 \<or> s' = s3"
    using assms(2) True c w by (auto simp: enter_container_def Let_def split: option.splits)
  with create_project [OF c] wait_account [OF assms(1) w] show ?thesis by (auto simp: same_hooks_def)
qed

lemma used_BeforeEach:
  assumes "poll_contract (hd_poll d)" and "BeforeEach d spec s = (err, s')"
  obtains err2 s2 where "enter_container d (container_path spec) (leave_container d (container_path spec) s) = (err2, s2)"
    and "h_used s \<le> h_used s'" and "\<not> opts_out (sp_labels spec) \<Longrightarrow> h_used s2 = h_used s'"
proof -
  obtain err2 s2 where e: "enter_container d (container_path spec) (leave_container d (container_path spec) s) = (err2, s2)"
    by (metis surj_pair)
  with assms(2) have "h_used s' = (if opts_out (sp_labels spec) then h_used s else h_used s2)"
    by (auto simp: BeforeEach_def Let_def publish_def used_leave split: option.splits if_splits)
  with used_enter [OF assms(1) e] e show thesis by (intro that [of err2 s2]) (auto simp: used_leave split: if_splits)
qed

lemma good_BeforeEach:
  assumes "hooks_good d s" and "poll_contract (hd_poll d)"
    and "BeforeEach d spec s = (err, s')" and "distinct_names d (h_used s')"
  shows "hooks_good d s'"
proof (rule used_BeforeEach [OF assms(2,3)])
  let ?path = "container_path spec" let ?s1 = "leave_container d ?path s"
  fix err2 s2
  assume e: "enter_container d ?path ?s1 = (err2, s2)" and used: "\<not> opts_out (sp_labels spec) \<Longrightarrow> h_used s2 = h_used s'"
  have s1: "hooks_good d ?s1" using assms(1) by (rule good_leave)
  show ?thesis
  proof (cases "opts_out (sp_labels spec)")
    case True
    with assms(3) s1 show ?thesis by (auto simp: BeforeEach_def Let_def)
  next
    case False
    from good_enter [OF s1 assms(2) e] used [OF False] assms(4) have "hooks_good d s2" by simp
    with assms(3) e False show ?thesis
      by (auto simp: BeforeEach_def Let_def publish_def split: option.splits if_splits)
  qed
qed

lemma good_AfterEach: "hooks_good d s \<Longrightarrow> hooks_good d (AfterEach spec (note_failure spec s))"
  using ok_failed [of d "h_containerToNS s" "h_containerFailed s" "h_used s" "h_lost s" "ran_lines (io_trace s)" "container_path spec"]
  by (auto simp: AfterEach_def note_failure_def Let_def split: option.splits)

lemma used_AfterEach: "h_used (AfterEach spec (note_failure spec s)) = h_used s"
  by (simp add: AfterEach_def note_failure_def Let_def split: option.split)

lemma suite_good:
  assumes "suite d s" and "distinct_names d (h_used s)" and "poll_contract (hd_poll d)"
  shows "hooks_good d s"
  using assms(1,2)
proof induction
  case (suite_start s)
  then show ?case by (simp add: hooks_ok_def fresh_names_def)
next
  case (suite_before s spec err s')
  have "h_used s \<le> h_used s'" by (rule used_BeforeEach [OF assms(3) suite_before.hyps(2)])
  with suite_before show ?case
    using good_BeforeEach [OF _ assms(3)] distinct_names_less by blast
next
  case (suite_after s spec)
  then show ?case using good_AfterEach by (simp add: used_AfterEach)
qed

text \<open>The final loop deletes the namespaces that no failure keeps.\<close>

lemma cleanup_all_lines:
  "set (ran_lines (io_trace (cleanup_all d M s))) =
     set (ran_lines (io_trace s)) \<union> {delete_line d ns | path ns. (path, ns) \<in> set M \<and> \<not> failed_flag s path}"
proof (induction M arbitrary: s)
  case (Cons m M)
  obtain path ns where m: "m = (path, ns)" by (cases m)
  have "failed_flag (snd (DeleteProjectIgnoreErrors (hd_oc d) ns s)) = failed_flag s"
    using delete_project [of d ns s] by (auto simp: failed_flag_def same_hooks_def)
  then show ?case using delete_project [of d ns s] by (auto simp: m Cons.IH)
qed simp

lemma deleted_after_cleanup:
  "hooks_good d s \<Longrightarrow> deleted_ns d ns (CleanupNamespaces d s) \<longleftrightarrow>
     deleted_ns d ns s \<or> ns \<in> snd ` set (h_containerToNS s) - set (h_lost s)"
  by (force simp: CleanupNamespaces_def deleted_ns_def cleanup_all_lines delete_line_inj failed_flag_def
      dest: hooks_okD(5))

section \<open>A small suite\<close>

definition hook_server :: "(unit, kbody) server" where
  "hook_server =
     \<lparr>sv_get = \<lambda>r w. (Inl NotFound, w), sv_create = \<lambda>ob w. (Inl AlreadyExists, w), sv_update = \<lambda>ob w. (Inl Conflict, w),
      sv_delete = \<lambda>r w. (None, w), sv_list = \<lambda>c k ns sel w. (Inr [], w)\<rparr>"

definition hook_deps :: "unit hook_deps" where
  "hook_deps =
     \<lparr>hd_oc = \<lparr>oc_shell = \<lambda>args w. (\<lparr>ExitCode = 0, Stdout = [], Stderr = []\<rparr>, w),
        oc_connection = \<lparr>cn_Kubeconfig = [], cn_Context = [], cn_Cluster = []\<rparr>,
        oc_Context = [], oc_path = id, oc_namespace = []\<rparr>,
      hd_server = hook_server, hd_poll = rounds_poller 0, hd_hasClients = True,
      hd_fresh = (\<lambda>n. ''releasetest-'' @ (if even n then ''kq7xd'' else ''w2m9p''))\<rparr>"

definition hook_start :: "unit hook_state" where
  "hook_start =
     \<lparr>io_world = (), io_trace = [], h_containerToNS = [], h_containerFailed = Map.empty, h_last = [],
      h_namespace = [], h_stored = [], h_clients = [], h_used = 0, h_lost = []\<rparr>"

definition hook_spec :: "string \<Rightarrow> bool \<Rightarrow> spec_report" where
  "hook_spec name failed = \<lparr>sp_texts = [name], sp_attempts = 1, sp_labels = [[]], sp_failed = failed\<rparr>"

text \<open>A container whose spec fails, then one whose spec passes.\<close>

definition hook_run :: "unit hook_state" where
  "hook_run =
     (let after = (\<lambda>spec s. AfterEach spec (note_failure spec s));
          A = hook_spec ''A'' True; B = hook_spec ''B'' False
      in after B (snd (BeforeEach hook_deps B (after A (snd (BeforeEach hook_deps A hook_start))))))"

lemma hook_run_suite: "suite hook_deps hook_run"
proof -
  have "suite hook_deps hook_start" by (rule suite_start) (simp_all add: hook_start_def)
  then show ?thesis unfolding hook_run_def Let_def by (metis suite_after suite_before surj_pair snd_conv)
qed

lemma hook_run_state: "h_used hook_run = 2 \<and> h_lost hook_run = [''releasetest-kq7xd'']"
  by code_simp

text \<open>The names have a bounded length, so they cannot all differ: those of this run do.\<close>

lemma hook_deps_ok: "distinct_names hook_deps (h_used hook_run)" "poll_contract (hd_poll hook_deps)"
proof -
  have "[0..<2] = [0, 1 :: nat]" by (simp add: upt_rec)
  then show "distinct_names hook_deps (h_used hook_run)"
    using hook_run_state by (simp add: distinct_names_def hook_deps_def)
qed (simp add: hook_deps_def rounds_poller_contract)

section \<open>Properties\<close>

text \<open>
  C32: in every suite whose generated names are distinct, whatever the answers of the cluster and the
  order of the specs, all commands create or delete a namespace the suite generated, and the
  namespace of a container is never deleted once a spec of the container failed, by the hooks or by
  the final cleanup. The names are random; that those drawn in the run differ is assumed.
\<close>

theorem failed_namespaces_kept:
  assumes "suite d s" and "distinct (map (hd_fresh d) [0..<h_used s])" and "poll_contract (hd_poll d)"
  shows "(\<forall>ns \<in> set (h_lost s). \<not> deleted_ns d ns s \<and> \<not> deleted_ns d ns (CleanupNamespaces d s))
    \<and> set (ran_lines (io_trace s)) \<subseteq> (\<Union>i < h_used s. {create_line d (hd_fresh d i), delete_line d (hd_fresh d i)})"
proof -
  have good: "hooks_good d s" by (rule suite_good [OF assms(1) _ assms(3)]) (simp add: distinct_names_def assms(2))
  have "ns \<in> set (h_lost s) \<Longrightarrow> \<not> deleted_ns d ns s" for ns
    using hooks_okD(6) [OF good] unfolding deleted_ns_def by blast
  moreover have "set (ran_lines (io_trace s)) \<subseteq> (\<Union>i < h_used s. {create_line d (hd_fresh d i), delete_line d (hd_fresh d i)})"
    using hooks_okD(7) [OF good] by (auto simp: fresh_names_def)
  ultimately show ?thesis by (simp add: deleted_after_cleanup [OF good])
qed

theorem failed_namespaces_kept_witness:
  "\<not> deleted_ns hook_deps ''releasetest-kq7xd'' (CleanupNamespaces hook_deps hook_run)"
  using failed_namespaces_kept [OF hook_run_suite hook_deps_ok(1) [unfolded distinct_names_def] hook_deps_ok(2)] hook_run_state by simp

text \<open>
  C33: nothing is left behind: in every suite whose generated names are distinct, after the final cleanup
  the delete of every namespace the suite generated has been issued, unless a spec failed in it;
  namespaces whose creation failed, or whose container was entered again and again, included.
\<close>

theorem all_namespaces_settled:
  assumes "suite d s" and "distinct (map (hd_fresh d) [0..<h_used s])" and "poll_contract (hd_poll d)" and "i < h_used s"
  shows "deleted_ns d (hd_fresh d i) (CleanupNamespaces d s) \<longleftrightarrow> hd_fresh d i \<notin> set (h_lost s)"
proof -
  have good: "hooks_good d s" by (rule suite_good [OF assms(1) _ assms(3)]) (simp add: distinct_names_def assms(2))
  have "hd_fresh d i \<in> fresh_names d (h_used s)" using assms(4) by (simp add: fresh_names_def)
  from hooks_okD(8) [OF good this] hooks_okD(6) [OF good] show ?thesis
    unfolding deleted_after_cleanup [OF good] unfolding deleted_ns_def by blast
qed

theorem all_namespaces_settled_witness:
  "deleted_ns hook_deps ''releasetest-w2m9p'' (CleanupNamespaces hook_deps hook_run)"
proof -
  have "hd_fresh hook_deps 1 = ''releasetest-w2m9p''" by (simp add: hook_deps_def)
  with all_namespaces_settled [OF hook_run_suite hook_deps_ok(1) [unfolded distinct_names_def] hook_deps_ok(2), of 1] hook_run_state show ?thesis by simp
qed

end
