(* ===== verification/GoPath.thy ===== *)
theory GoPath
  imports GoPrelude
begin

text \<open>
  What \<open>path/filepath\<close> does with slash separated paths: \<open>Clean\<close>, \<open>Dir\<close>, \<open>Join\<close> and \<open>Rel\<close>, and why going
  to the parent directory ends.
\<close>

section \<open>Paths\<close>

definition is_rooted :: "string \<Rightarrow> bool" where
  "is_rooted p = has_prefix p ''/''"

text \<open>The elements of a path; empty ones and \<open>.\<close> mean nothing.\<close>

definition elements :: "string \<Rightarrow> string list" where
  "elements p = filter (\<lambda>w. w \<noteq> [] \<and> w \<noteq> ''.'') (split_char CHR ''/'' p)"

text \<open>Each \<open>..\<close> takes away the element before it; \<open>out\<close> holds the elements so far, the last one first.\<close>

fun resolve :: "bool \<Rightarrow> string list \<Rightarrow> string list \<Rightarrow> string list" where
  "resolve rooted out [] = rev out"
| "resolve rooted out (w # ws) =
     (if w = ''..''
      then (case out of
          [] \<Rightarrow> resolve rooted (if rooted then [] else [w]) ws
        | v # vs \<Rightarrow> if v = ''..'' then resolve rooted (w # out) ws else resolve rooted vs ws)
      else resolve rooted (w # out) ws)"

definition Clean :: "string \<Rightarrow> string" where
  "Clean p =
     (let out = resolve (is_rooted p) [] (elements p)
      in if is_rooted p then CHR ''/'' # join ''/'' out
         else if out = [] then ''.'' else join ''/'' out)"

text \<open>\<open>Dir\<close>: everything up to the last slash, cleaned.\<close>

definition Dir :: "string \<Rightarrow> string" where
  "Dir p = Clean (rev (dropWhile (\<lambda>c. c \<noteq> CHR ''/'') (rev p)))"

definition Join :: "string list \<Rightarrow> string" where
  "Join ws = (let ws' = filter (\<lambda>w. w \<noteq> []) ws in if ws' = [] then [] else Clean (join ''/'' ws'))"

text \<open>
  \<open>Rel\<close> fails when only one of the paths is rooted, and when the way up from the base is not
  known because it starts with \<open>..\<close>.
\<close>

definition parts :: "string \<Rightarrow> string list" where
  "parts p = filter (\<lambda>w. w \<noteq> []) (split_char CHR ''/'' p)"

fun strip_common :: "string list \<Rightarrow> string list \<Rightarrow> string list \<times> string list" where
  "strip_common (b # bs) (t # ts) = (if b = t then strip_common bs ts else (b # bs, t # ts))"
| "strip_common bs ts = (bs, ts)"

definition Rel :: "string \<Rightarrow> string \<Rightarrow> string option" where
  "Rel basepath targpath =
     (let base = Clean basepath; targ = Clean targpath
      in if base = targ then Some ''.''
         else if is_rooted base \<noteq> is_rooted targ then None
         else (case strip_common (if base = ''.'' then [] else parts base) (parts targ) of
             (bs, ts) \<Rightarrow>
               if bs \<noteq> [] \<and> hd bs = ''..'' then None
               else Some (join ''/'' (map (\<lambda>_. ''..'') bs @ ts))))"

section \<open>The way to the root\<close>

text \<open>The length of a list of elements joined by slashes, plus one.\<close>

definition weight :: "string list \<Rightarrow> nat" where
  "weight ws = sum_list (map (\<lambda>w. Suc (length w)) ws)"

lemma weight_simps [simp]:
  "weight [] = 0" "weight (w # ws) = Suc (length w) + weight ws" "weight (vs @ ws) = weight vs + weight ws"
  by (simp_all add: weight_def)

lemma weight_rev [simp]: "weight (rev ws) = weight ws"
  by (simp add: weight_def rev_map [symmetric] sum_list_rev)

lemma length_join: "ws \<noteq> [] \<Longrightarrow> Suc (length (join [c] ws)) = weight ws"
  by (induction "[c]" ws rule: join.induct) auto

lemma weight_split: "weight (split_char c p) = Suc (length p)"
  using length_join [of "split_char c p" c] by (simp add: join_split_char)

lemma weight_resolve: "weight (resolve rooted out ws) \<le> weight out + weight ws"
proof (induction rooted out ws rule: resolve.induct)
  case (2 rooted out w ws)
  then show ?case by (cases out) (auto split: if_splits)
qed simp

lemma weight_filter: "weight (filter P ws) \<le> weight ws"
  by (induction ws) auto

lemma split_last_sep: "split_char c (p @ [c]) = split_char c p @ [[]]"
  by (induction p) (auto simp: hd_append)

lemma elements_slash [simp]: "elements (CHR ''/'' # p) = elements p" "elements (p @ ''/'') = elements p"
  by (simp_all add: elements_def split_last_sep)

lemma weight_elements: "weight (elements p) \<le> Suc (length p)"
  unfolding elements_def by (metis weight_filter weight_split)

lemma Clean_shorter: "Clean (q @ ''/'') = ''.'' \<or> length (Clean (q @ ''/'')) \<le> max 1 (length q)"
proof -
  let ?out = "resolve (is_rooted (q @ ''/'')) [] (elements q)"
  have "weight ?out \<le> weight (elements q)" using weight_resolve [of _ "[]"] by simp
  moreover have "weight (elements q) \<le> (if q = [] then 0 else if is_rooted q then length q else Suc (length q))"
  proof (cases q)
    case (Cons c l)
    then show ?thesis using weight_elements [of q] weight_elements [of l] by (auto simp: is_rooted_def has_prefix_def)
  qed (simp add: elements_def)
  moreover have "is_rooted (q @ ''/'') = (q = [] \<or> is_rooted q)"
    by (cases q) (auto simp: is_rooted_def has_prefix_def)
  ultimately show ?thesis
    using length_join [of ?out "CHR ''/''"] by (cases "?out = []") (auto simp: Clean_def Let_def split: if_splits)
qed

definition dir_measure :: "string \<Rightarrow> nat" where
  "dir_measure p = (if p = ''.'' then 0 else Suc (length p))"

lemma Dir_decreases:
  assumes "Dir p \<noteq> p"
  shows "dir_measure (Dir p) < dir_measure p"
proof (cases "CHR ''/'' \<in> set p")
  case False
  then have "dropWhile (\<lambda>c. c \<noteq> CHR ''/'') (rev p) = []" by (auto simp: dropWhile_eq_Nil_conv)
  note d = this
  have "Dir p = ''.''" unfolding Dir_def d by code_simp
  with assms show ?thesis by (auto simp: dir_measure_def)
next
  case True
  then obtain q r where p: "p = q @ CHR ''/'' # r" and r: "CHR ''/'' \<notin> set r" by (metis split_list_last)
  then have d: "Dir p = Clean (q @ ''/'')" by (simp add: Dir_def dropWhile_append)
  show ?thesis
  proof (cases "q = [] \<and> r = []")
    case True
    then have "Dir p = p" by (simp add: d p) code_simp
    with assms show ?thesis by simp
  next
    case False
    then have "p \<noteq> ''.''" and "max 1 (length q) < length p" using p by (cases q; cases r; force)+
    with Clean_shorter [of q] show ?thesis by (auto simp: d dir_measure_def)
  qed
qed

text \<open>The directories from a path to the root.\<close>

function ancestors :: "string \<Rightarrow> string list" where
  "ancestors p = p # (if Dir p = p then [] else ancestors (Dir p))"
  by pat_completeness auto
termination
  by (relation "measure dir_measure") (auto simp: Dir_decreases)

declare ancestors.simps [simp del]

end
