(* ===== verification/TestCaseIds.thy ===== *)
theory TestCaseIds
  imports GoPath
begin

text \<open>
  \<open>pkg/testcase/tcvalidation.go\<close>: finding \<open>tc_spec_map.json\<close> in a directory above, and checking the
  test case ids of a file against it. The file system and \<open>json.Unmarshal\<close> are the record \<open>files\<close>;
  the two regular expressions are matchers. The error texts are the constructors of \<open>tc_error\<close>.
\<close>

section \<open>The specification map\<close>

type_synonym spec_map = "(string \<times> string) list"

record files =
  fs_getwd :: "string option"
  fs_stat :: "string \<Rightarrow> bool"
  fs_read :: "string \<Rightarrow> string option"
  fs_unmarshal :: "string \<Rightarrow> spec_map option"

datatype tc_error =
    GetwdFailed
  | MapUnreadable
  | MapUnparsable
  | MapNotFound
  | NotRegistered string
  | FileUnreadable string
  | NoIds string
  | IdUnknown string
  | IdElsewhere string string
  | IdUnused string

definition map_path :: "string \<Rightarrow> string" where
  "map_path wd = Join [wd, ''tc_spec_map.json'']"

definition load_map :: "files \<Rightarrow> string \<Rightarrow> tc_error + (spec_map \<times> string)" where
  "load_map fs wd =
     (case fs_read fs (map_path wd) of
        None \<Rightarrow> Inl MapUnreadable
      | Some text \<Rightarrow> (case fs_unmarshal fs text of None \<Rightarrow> Inl MapUnparsable | Some m \<Rightarrow> Inr (m, wd)))"

text \<open>The search up the directory tree: None is a loop that does not end.\<close>

partial_function (option) search_up :: "files \<Rightarrow> string \<Rightarrow> (tc_error + (spec_map \<times> string)) option" where
  "search_up fs wd =
     (if fs_stat fs (map_path wd) then Some (load_map fs wd)
      else let parent = Dir wd
           in if parent = wd then Some (Inl MapNotFound) else search_up fs parent)"

definition LoadTCSpecMap :: "files \<Rightarrow> (tc_error + (spec_map \<times> string)) option" where
  "LoadTCSpecMap fs = (case fs_getwd fs of None \<Rightarrow> Some (Inl GetwdFailed) | Some wd \<Rightarrow> search_up fs wd)"

section \<open>Paths of test files\<close>

definition slashes :: "string \<Rightarrow> string" where
  "slashes p = replace_char CHR 0x5C ''/'' p"

text \<open>The part of a path after the last \<open>/tests/\<close>, with \<open>tests/\<close>: \<open>strings.LastIndex\<close>.\<close>

fun last_tests :: "string \<Rightarrow> string option" where
  "last_tests [] = None"
| "last_tests (c # cs) =
     (case last_tests cs of
        Some r \<Rightarrow> Some r
      | None \<Rightarrow> if has_prefix (c # cs) ''/tests/'' then Some cs else None)"

definition normalizeFilePath :: "string \<Rightarrow> string" where
  "normalizeFilePath p =
     (let path = slashes (trim_space p) in (case last_tests path of Some r \<Rightarrow> r | None \<Rightarrow> path))"

definition normalizeFilePathWithRoot :: "string \<Rightarrow> string \<Rightarrow> string" where
  "normalizeFilePathWithRoot absPath repoRoot =
     (let p = slashes (trim_space absPath); root = slashes (trim_space repoRoot)
      in (case Rel root p of Some r \<Rightarrow> slashes r | None \<Rightarrow> normalizeFilePath p))"

section \<open>Test case ids in a file\<close>

text \<open>\<open>\s\<close> of RE2 and the characters of \<open>\b\<close>.\<close>

definition re_space :: "char \<Rightarrow> bool" where
  "re_space c = (c \<in> {CHR 0x09, CHR 0x0A, CHR 0x0C, CHR 0x0D, CHR '' ''})"

definition word_char :: "char \<Rightarrow> bool" where
  "word_char c = (is_digit c \<or> is_upper c \<or> is_lower c \<or> c = CHR ''_'')"

text \<open>A match of \<open>Describe\s*\(\s*"([^"]*)"\<close> at the start of the text: the description and the rest.\<close>

definition match_describe :: "string \<Rightarrow> (string \<times> string) option" where
  "match_describe s =
     (if \<not> has_prefix s ''Describe'' then None
      else (case dropWhile re_space (drop 8 s) of
          [] \<Rightarrow> None
        | c # s1 \<Rightarrow>
            if c \<noteq> CHR ''('' then None
            else (case dropWhile re_space s1 of
                [] \<Rightarrow> None
              | q # s2 \<Rightarrow>
                  if q \<noteq> CHR 0x22 then None
                  else (case dropWhile (\<lambda>x. x \<noteq> CHR 0x22) s2 of
                      [] \<Rightarrow> None
                    | _ # rest \<Rightarrow> Some (takeWhile (\<lambda>x. x \<noteq> CHR 0x22) s2, rest)))))"

text \<open>A match of \<open>\bPIPELINES-\d+\b\<close> at the start of the text, after the character \<open>prev\<close>.\<close>

definition match_id :: "char option \<Rightarrow> string \<Rightarrow> (string \<times> string) option" where
  "match_id prev s =
     (if (case prev of None \<Rightarrow> True | Some c \<Rightarrow> \<not> word_char c) \<and> has_prefix s ''PIPELINES-''
      then (let ds = takeWhile is_digit (drop 10 s); rest = dropWhile is_digit (drop 10 s)
            in if ds \<noteq> [] \<and> (rest = [] \<or> \<not> word_char (hd rest)) then Some (''PIPELINES-'' @ ds, rest) else None)
      else None)"

text \<open>
  \<open>FindAllStringSubmatch\<close>, from left to right; \<open>skip\<close> is what is left of the match before.
\<close>

fun describe_texts :: "nat \<Rightarrow> string \<Rightarrow> string list" where
  "describe_texts skip [] = []"
| "describe_texts (Suc n) (c # cs) = describe_texts n cs"
| "describe_texts 0 (c # cs) =
     (case match_describe (c # cs) of
        None \<Rightarrow> describe_texts 0 cs
      | Some (d, rest) \<Rightarrow> d # describe_texts (length cs - length rest) cs)"

fun ids_in :: "char option \<Rightarrow> nat \<Rightarrow> string \<Rightarrow> string list" where
  "ids_in prev skip [] = []"
| "ids_in prev (Suc n) (c # cs) = ids_in (Some c) n cs"
| "ids_in prev 0 (c # cs) =
     (case match_id prev (c # cs) of
        None \<Rightarrow> ids_in (Some c) 0 cs
      | Some (tcID, rest) \<Rightarrow> tcID # ids_in (Some c) (length cs - length rest) cs)"

text \<open>The keys of the Go map \<open>found\<close>, in the order they are found.\<close>

definition extractAllTCIDsFromContent :: "string \<Rightarrow> string list" where
  "extractAllTCIDsFromContent content = remdups (concat (map (ids_in None 0) (describe_texts 0 content)))"

section \<open>The validation\<close>

definition mapped_to :: "string \<Rightarrow> string \<Rightarrow> string" where
  "mapped_to repoRoot filePath = normalizeFilePathWithRoot (Join [repoRoot, filePath]) repoRoot"

text \<open>The loop over the ids found: each is registered, for this file.\<close>

fun check_found :: "spec_map \<Rightarrow> string \<Rightarrow> string \<Rightarrow> string list \<Rightarrow> tc_error option" where
  "check_found specs root this [] = None"
| "check_found specs root this (tcID # ids) =
     (case map_of specs tcID of
        None \<Rightarrow> Some (IdUnknown tcID)
      | Some mappedFile \<Rightarrow>
          if mapped_to root mappedFile \<noteq> this then Some (IdElsewhere tcID (mapped_to root mappedFile))
          else check_found specs root this ids)"

fun check_used :: "string list \<Rightarrow> string list \<Rightarrow> tc_error option" where
  "check_used found [] = None"
| "check_used found (tcID # ids) = (if tcID \<notin> set found then Some (IdUnused tcID) else check_used found ids)"

definition registered_ids :: "spec_map \<Rightarrow> string \<Rightarrow> string \<Rightarrow> string list" where
  "registered_ids specs root this = map fst (filter (\<lambda>(tcID, filePath). mapped_to root filePath = this) specs)"

definition validate_against :: "files \<Rightarrow> spec_map \<Rightarrow> string \<Rightarrow> string \<Rightarrow> tc_error option" where
  "validate_against fs specs repoRoot testFilePath =
     (let this = normalizeFilePathWithRoot testFilePath repoRoot; registered = registered_ids specs repoRoot this
      in if registered = [] then Some (NotRegistered testFilePath)
         else (case fs_read fs testFilePath of
             None \<Rightarrow> Some (FileUnreadable testFilePath)
           | Some content \<Rightarrow>
               (let found = extractAllTCIDsFromContent content
                in if found = [] then Some (NoIds testFilePath)
                   else (case check_found specs repoRoot this found of
                       Some e \<Rightarrow> Some e
                     | None \<Rightarrow> check_used found registered))))"

definition ValidateTestFileAgainstSpecMap :: "files \<Rightarrow> string \<Rightarrow> tc_error option option" where
  "ValidateTestFileAgainstSpecMap fs testFilePath =
     (case LoadTCSpecMap fs of
        None \<Rightarrow> None
      | Some (Inl e) \<Rightarrow> Some (Some e)
      | Some (Inr (specs, repoRoot)) \<Rightarrow> Some (validate_against fs specs repoRoot testFilePath))"

section \<open>Facts\<close>

text \<open>The search written over the list of directories it visits.\<close>

lemma search_up_ancestors:
  "search_up fs wd =
     Some (case find (\<lambda>dir. fs_stat fs (map_path dir)) (ancestors wd) of
        None \<Rightarrow> Inl MapNotFound | Some dir \<Rightarrow> load_map fs dir)"
proof (induction wd rule: ancestors.induct)
  case (1 wd)
  then show ?case
    by (subst search_up.simps, subst ancestors.simps) (simp add: Let_def)
qed

lemma check_found_None:
  "check_found specs root this ids = None \<longleftrightarrow>
     (\<forall>tcID \<in> set ids. \<exists>f. map_of specs tcID = Some f \<and> mapped_to root f = this)"
  by (induction ids) (auto split: option.splits)

lemma check_used_None: "check_used found ids = None \<longleftrightarrow> set ids \<subseteq> set found"
  by (induction ids) auto

lemma registered_ids_set: "set (registered_ids specs root this) = {tcID. \<exists>f. (tcID, f) \<in> set specs \<and> mapped_to root f = this}"
  by (force simp: registered_ids_def)

section \<open>Properties\<close>

text \<open>
  C16: looking for the specification map always ends, from every working directory and whatever the
  file system holds: the map of the nearest directory above that has the file, or the error that
  there is none.
\<close>

theorem load_map_terminates:
  "LoadTCSpecMap fs =
     Some (case fs_getwd fs of
         None \<Rightarrow> Inl GetwdFailed
       | Some wd \<Rightarrow> (case find (\<lambda>dir. fs_stat fs (map_path dir)) (ancestors wd) of
             None \<Rightarrow> Inl MapNotFound
           | Some dir \<Rightarrow> load_map fs dir))"
  by (simp add: LoadTCSpecMap_def search_up_ancestors split: option.splits)

text \<open>
  C17: a test file is accepted exactly when the map can be loaded, the file read, and the ids in its
  Describe texts are the ids the map gives to this file, at least one: the errors are complete and
  none of the checks is redundant. The map has each id once, as Go's maps do.
\<close>

theorem validation_passes_iff:
  assumes "\<And>text m. fs_unmarshal fs text = Some m \<Longrightarrow> distinct (map fst m)"
  shows "ValidateTestFileAgainstSpecMap fs file = Some None \<longleftrightarrow>
    (\<exists>specs root content. LoadTCSpecMap fs = Some (Inr (specs, root)) \<and> fs_read fs file = Some content
      \<and> set (extractAllTCIDsFromContent content) \<noteq> {}
      \<and> set (extractAllTCIDsFromContent content) =
          {tcID. \<exists>f. (tcID, f) \<in> set specs \<and> mapped_to root f = normalizeFilePathWithRoot file root})"
proof -
  have key: "map_of specs k = Some f \<longleftrightarrow> (k, f) \<in> set specs" if "LoadTCSpecMap fs = Some (Inr (specs, root))" for specs root k f
  proof -
    have "distinct (map fst specs)"
      using that assms by (auto simp: LoadTCSpecMap_def search_up_ancestors load_map_def split: option.splits)
    then show ?thesis by (rule map_of_eq_Some_iff)
  qed
  have "validate_against fs specs root file = None \<longleftrightarrow>
      (\<exists>content. fs_read fs file = Some content \<and> set (extractAllTCIDsFromContent content) \<noteq> {}
      \<and> set (extractAllTCIDsFromContent content) =
          {tcID. \<exists>f. (tcID, f) \<in> set specs \<and> mapped_to root f = normalizeFilePathWithRoot file root})"
    if "LoadTCSpecMap fs = Some (Inr (specs, root))" for specs root
  proof -
    let ?this = "normalizeFilePathWithRoot file root"
    have found: "check_found specs root ?this ids = None \<longleftrightarrow> set ids \<subseteq> set (registered_ids specs root ?this)" for ids
      by (auto simp: check_found_None registered_ids_set key [OF that])
    then show ?thesis
      unfolding registered_ids_set [symmetric]
      by (cases "fs_read fs file") (auto simp: validate_against_def Let_def check_used_None split: option.splits,
          metis found option.distinct(1) order_refl)
  qed
  then show ?thesis
    by (auto simp: ValidateTestFileAgainstSpecMap_def split: option.splits sum.splits)
qed

definition demo_files :: files where
  "demo_files =
     \<lparr>fs_getwd = Some ''/r/t'', fs_stat = (\<lambda>p. p = ''/r/tc_spec_map.json''),
      fs_read = [''/r/tc_spec_map.json'' \<mapsto> ''{}'',
                 ''/r/t/a.go'' \<mapsto> ''// PIPELINES-9 Describe('' @ [CHR 0x22] @ ''A: PIPELINES-1'' @ [CHR 0x22] @ '', x)''],
      fs_unmarshal = (\<lambda>text. if text = ''{}'' then Some [(''PIPELINES-1'', ''t/a.go''), (''PIPELINES-2'', ''t/b.go'')] else None)\<rparr>"

theorem validation_passes_iff_witness:
  "ValidateTestFileAgainstSpecMap demo_files ''/r/t/a.go'' = Some None"
proof -
  have keys: "fs_unmarshal demo_files c = Some m \<Longrightarrow> distinct (map fst m)" for c m
    by (auto simp: demo_files_def split: if_splits)
  have "ancestors ''/r/t'' = [''/r/t'', ''/r'', ''/'']"
  proof -
    have "Dir ''/r/t'' = ''/r''" and "Dir ''/r'' = ''/''" and "Dir ''/'' = ''/''" by code_simp+
    then show ?thesis by (simp add: ancestors.simps)
  qed
  moreover have "\<not> fs_stat demo_files (map_path ''/r/t'')" and "fs_stat demo_files (map_path ''/r'')"
    and "fs_getwd demo_files = Some ''/r/t''"
    and "load_map demo_files ''/r'' = Inr ([(''PIPELINES-1'', ''t/a.go''), (''PIPELINES-2'', ''t/b.go'')], ''/r'')"
    by code_simp+
  ultimately have "LoadTCSpecMap demo_files =
      Some (Inr ([(''PIPELINES-1'', ''t/a.go''), (''PIPELINES-2'', ''t/b.go'')], ''/r''))"
    by (simp add: LoadTCSpecMap_def search_up_ancestors)
  moreover have "map_option extractAllTCIDsFromContent (fs_read demo_files ''/r/t/a.go'') = Some [''PIPELINES-1'']"
    by code_simp
  moreover have "mapped_to ''/r'' ''t/a.go'' = ''t/a.go''" and "mapped_to ''/r'' ''t/b.go'' = ''t/b.go''"
    and "normalizeFilePathWithRoot ''/r/t/a.go'' ''/r'' = ''t/a.go''" by code_simp+
  ultimately show ?thesis using validation_passes_iff [of demo_files, OF keys] by auto
qed

end
