(* ===== verification/ApprovalTasks.thy ===== *)
theory ApprovalTasks
  imports CmdLine "HOL-Library.Multiset"
begin

text \<open>
  \<open>pkg/manualapprovalgate/manualapprovalgate.go\<close>, first part: the approval tasks as the API gives
  them, the counters computed from them, and the waits. \<open>DefaultedApproverType\<close> of the approval
  gate's own package is the parameter \<open>defaulted\<close>.
\<close>

section \<open>Approval tasks\<close>

record group_member =
  gm_Name :: string
  gm_Response :: string
  gm_Message :: string

record approver_response =
  ar_Name :: string
  ar_Type :: string
  ar_Response :: string
  ar_Message :: string
  ar_GroupMembers :: "group_member list"

text \<open>Of \<open>Spec.Approvers\<close> only the messages are read.\<close>

record approval_task =
  at_NumberOfApprovalsRequired :: int
  at_approverMessages :: "string list"
  at_ApproversResponse :: "approver_response list"
  at_State :: string
  at_CreationTimestamp :: nat

datatype gate_body = GateBody | TaskBody approval_task

record ApprovalTaskInfo =
  ti_Name :: string
  ti_Status :: string

text \<open>The zero value of a typed read of something else.\<close>

fun task_of :: "gate_body \<Rightarrow> approval_task" where
  "task_of (TaskBody at) = at"
| "task_of GateBody = \<lparr>at_NumberOfApprovalsRequired = 0, at_approverMessages = [], at_ApproversResponse = [],
     at_State = [], at_CreationTimestamp = 0\<rparr>"

definition checkApprovalTaskStatus :: "ApprovalTaskInfo \<Rightarrow> string" where
  "checkApprovalTaskStatus task =
     (if ti_Status task = ''pending'' then ''Pending''
      else if ti_Status task = ''rejected'' then ''Rejected''
      else if ti_Status task = ''approved'' then ''Approved''
      else ''Unknown Error: Check Details'')"

definition stateHuman :: "approval_task \<Rightarrow> string" where
  "stateHuman at =
     (if at_State at = ''approved'' then ''Approved''
      else if at_State at = ''rejected'' then ''Rejected''
      else if at_State at = ''pending'' then ''Pending''
      else at_State at)"

definition approvalTaskMessageContains :: "approval_task option \<Rightarrow> string \<Rightarrow> bool" where
  "approvalTaskMessageContains at needle =
     (case at of
        None \<Rightarrow> False
      | Some at \<Rightarrow>
          needle \<noteq> [] \<and>
          (list_ex (\<lambda>m. contains m needle) (at_approverMessages at)
           \<or> list_ex (\<lambda>r. contains (ar_Message r) needle
                \<or> list_ex (\<lambda>m. contains (gm_Message m) needle) (ar_GroupMembers r)) (at_ApproversResponse at)))"

section \<open>Counters\<close>

text \<open>The set \<open>respondedUsers\<close>, built along the responses.\<close>

definition respond :: "(string \<Rightarrow> string) \<Rightarrow> approver_response \<Rightarrow> string set \<Rightarrow> string set" where
  "respond defaulted ap users =
     (if defaulted (ar_Type ap) = ''User'' then insert (ar_Name ap) users
      else if defaulted (ar_Type ap) = ''Group''
      then fold (\<lambda>m us. if gm_Response m = ''approved'' \<or> gm_Response m = ''rejected'' then insert (gm_Name m) us else us)
             (ar_GroupMembers ap) users
      else users)"

definition pendingApprovals :: "(string \<Rightarrow> string) \<Rightarrow> approval_task \<Rightarrow> int" where
  "pendingApprovals defaulted at =
     at_NumberOfApprovalsRequired at - int (card (fold (respond defaulted) (at_ApproversResponse at) {}))"

text \<open>\<open>rejectedCount\<close>: the counter and the set of users already counted.\<close>

definition reject :: "string \<Rightarrow> int \<times> string set \<Rightarrow> int \<times> string set" where
  "reject user = (\<lambda>(count, rejected). if user \<in> rejected then (count, rejected) else (count + 1, insert user rejected))"

definition count_rejected :: "(string \<Rightarrow> string) \<Rightarrow> approver_response \<Rightarrow> int \<times> string set \<Rightarrow> int \<times> string set" where
  "count_rejected defaulted ap acc =
     (if defaulted (ar_Type ap) = ''User'' \<and> ar_Response ap = ''rejected'' then reject (ar_Name ap) acc
      else if defaulted (ar_Type ap) = ''Group''
      then fold (\<lambda>m acc. if gm_Response m = ''rejected'' then reject (gm_Name m) acc else acc) (ar_GroupMembers ap) acc
      else acc)"

definition rejectedCount :: "(string \<Rightarrow> string) \<Rightarrow> approval_task \<Rightarrow> int" where
  "rejectedCount defaulted at = fst (fold (count_rejected defaulted) (at_ApproversResponse at) (0, {}))"

section \<open>What the counters count\<close>

text \<open>The users with a response, and with a rejection, read off the whole task at once.\<close>

definition answers :: "(string \<Rightarrow> string) \<Rightarrow> string set \<Rightarrow> approval_task \<Rightarrow> string set" where
  "answers defaulted verdicts at =
     {u. \<exists>ap \<in> set (at_ApproversResponse at). \<exists>m \<in> set (ar_GroupMembers ap).
        defaulted (ar_Type ap) = ''Group'' \<and> gm_Response m \<in> verdicts \<and> u = gm_Name m}"

definition responders :: "(string \<Rightarrow> string) \<Rightarrow> approval_task \<Rightarrow> string set" where
  "responders defaulted at =
     {u. \<exists>ap \<in> set (at_ApproversResponse at). defaulted (ar_Type ap) = ''User'' \<and> u = ar_Name ap}
     \<union> answers defaulted {''approved'', ''rejected''} at"

definition rejecters :: "(string \<Rightarrow> string) \<Rightarrow> approval_task \<Rightarrow> string set" where
  "rejecters defaulted at =
     {u. \<exists>ap \<in> set (at_ApproversResponse at).
        defaulted (ar_Type ap) = ''User'' \<and> ar_Response ap = ''rejected'' \<and> u = ar_Name ap}
     \<union> answers defaulted {''rejected''} at"

lemma fold_insert_if: "fold (\<lambda>x acc. if P x then insert (f x) acc else acc) xs A = A \<union> f ` {x \<in> set xs. P x}"
  by (induction xs arbitrary: A) auto

lemma fold_union:
  assumes "\<And>x A. g x A = A \<union> h x"
  shows "fold g xs A = A \<union> (\<Union>x \<in> set xs. h x)"
  by (induction xs arbitrary: A) (auto simp: assms)

lemma fold_respond: "fold (respond defaulted) (at_ApproversResponse at) {} = responders defaulted at"
proof -
  let ?h = "\<lambda>ap. {u. defaulted (ar_Type ap) = ''User'' \<and> u = ar_Name ap}
    \<union> gm_Name ` {m \<in> set (ar_GroupMembers ap). defaulted (ar_Type ap) = ''Group''
        \<and> (gm_Response m = ''approved'' \<or> gm_Response m = ''rejected'')}"
  have "respond defaulted ap A = A \<union> ?h ap" for ap A
    by (auto simp: respond_def fold_insert_if)
  then have "fold (respond defaulted) (at_ApproversResponse at) {} = {} \<union> (\<Union>ap \<in> set (at_ApproversResponse at). ?h ap)"
    by (rule fold_union)
  also have "\<dots> = responders defaulted at"
    unfolding responders_def answers_def by blast
  finally show ?thesis .
qed

text \<open>A counter of rejections holds the size of its set.\<close>

definition counted :: "int \<times> string set \<Rightarrow> bool" where
  "counted acc = (finite (snd acc) \<and> fst acc = int (card (snd acc)))"

lemma reject_counted: "counted acc \<Longrightarrow> counted (reject u acc)"
  and reject_set: "snd (reject u acc) = insert u (snd acc)"
  by (cases acc; auto simp: counted_def reject_def)+

lemma fold_reject:
  "counted acc \<Longrightarrow> counted (fold (\<lambda>m acc. if P m then reject (f m) acc else acc) ms acc)
     \<and> snd (fold (\<lambda>m acc. if P m then reject (f m) acc else acc) ms acc) = snd acc \<union> f ` {m \<in> set ms. P m}"
  by (induction ms arbitrary: acc) (auto simp: reject_counted reject_set)

lemma count_rejected_step:
  assumes "counted acc"
  shows "counted (count_rejected defaulted ap acc)
    \<and> snd (count_rejected defaulted ap acc) = snd acc \<union>
       (if defaulted (ar_Type ap) = ''User'' \<and> ar_Response ap = ''rejected'' then {ar_Name ap}
        else if defaulted (ar_Type ap) = ''Group'' then gm_Name ` {m \<in> set (ar_GroupMembers ap). gm_Response m = ''rejected''}
        else {})"
  using fold_reject [OF assms, where P = "\<lambda>m. gm_Response m = ''rejected''" and f = gm_Name and ms = "ar_GroupMembers ap"] assms
  by (simp add: count_rejected_def reject_counted reject_set)

lemma fold_count_rejected:
  assumes "counted acc"
  shows "counted (fold (count_rejected defaulted) aps acc)
    \<and> snd (fold (count_rejected defaulted) aps acc) = snd acc \<union>
       (\<Union>ap \<in> set aps. if defaulted (ar_Type ap) = ''User'' \<and> ar_Response ap = ''rejected'' then {ar_Name ap}
        else if defaulted (ar_Type ap) = ''Group'' then gm_Name ` {m \<in> set (ar_GroupMembers ap). gm_Response m = ''rejected''}
        else {})"
  using assms
proof (induction aps arbitrary: acc)
  case (Cons ap aps)
  from count_rejected_step [OF Cons.prems, of defaulted ap] Cons.IH [of "count_rejected defaulted ap acc"]
  show ?case by auto
qed simp

text \<open>
  C18: both counters count users, not responses: the number of rejections is the number of distinct
  users who rejected, alone or in a group; what is pending is the required number less the distinct
  users who answered, so it may be negative but never, with the rejections, exceeds what is
  required.
\<close>

theorem counters_count_users:
  "rejectedCount defaulted at = int (card (rejecters defaulted at))
   \<and> pendingApprovals defaulted at = at_NumberOfApprovalsRequired at - int (card (responders defaulted at))
   \<and> rejectedCount defaulted at + pendingApprovals defaulted at \<le> at_NumberOfApprovalsRequired at"
proof -
  let ?acc = "fold (count_rejected defaulted) (at_ApproversResponse at) (0, {})"
  have "counted (0, {})" by (simp add: counted_def)
  note f = fold_count_rejected [OF this, of defaulted "at_ApproversResponse at"]
  have "snd ?acc = rejecters defaulted at"
    using f by (auto simp: rejecters_def answers_def split: if_splits)
  then have r: "rejectedCount defaulted at = int (card (rejecters defaulted at))"
    using f by (simp add: counted_def rejectedCount_def)
  have "finite A \<Longrightarrow> finite (fold (respond defaulted) aps A)" for aps A
    by (induction aps arbitrary: A) (simp_all add: respond_def fold_insert_if)
  then have "finite (responders defaulted at)" by (metis finite.emptyI fold_respond)
  moreover have "rejecters defaulted at \<subseteq> responders defaulted at"
    by (auto simp: rejecters_def responders_def answers_def)
  ultimately have "card (rejecters defaulted at) \<le> card (responders defaulted at)" by (rule card_mono)
  with r show ?thesis by (simp add: pendingApprovals_def fold_respond)
qed

end
