(* ===== verification/ApprovalGate.thy ===== *)
theory ApprovalGate
  imports ApprovalTasks ConfigEnv "HOL-Library.List_Lexorder"
begin

text \<open>
  \<open>pkg/manualapprovalgate/manualapprovalgate.go\<close>, second part: the state of the package, the waits
  on the API, the names and the members of OpenShift groups.
\<close>

section \<open>State and dependencies\<close>

text \<open>A \<open>sync.Once\<close> counts as done even when its function panics; then the results are the zero values.\<close>

datatype 'a once = NotRun | Once 'a

text \<open>
  The variables the poll closures assign, then the package variables: \<open>magUserKubeconfigs\<close>,
  \<open>magUserAuthDirty\<close>, the API server and the impersonation choice (each behind a \<open>sync.Once\<close>).
  \<open>m_temp\<close> counts the temporary files made, \<open>m_files\<close> are those that exist. \<open>m_log\<close> is a ghost: the
  users and kubeconfigs of the logins that succeeded, newest first.
\<close>

record 'w mag_state = "('w, gate_body) io" +
  m_cr :: "gate_body kobject option"
  m_tasks :: "ApprovalTaskInfo list"
  m_picked :: "gate_body kobject option"
  m_last :: "approval_task option"
  m_kubeconfigs :: "string \<rightharpoonup> string"
  m_dirty :: "string \<Rightarrow> bool"
  m_apiServer :: "(kerror option \<times> string) once"
  m_impersonation :: "(kerror option \<times> bool) once"
  m_temp :: nat
  m_files :: "string set"
  m_log :: "(string \<times> string) list"

record auth_info =
  au_Impersonate :: string
  au_ImpersonateGroups :: "string list"
  au_rest :: string

text \<open>A loaded kubeconfig: its contexts name a cluster and credentials.\<close>

record kube_config =
  kc_CurrentContext :: string
  kc_Contexts :: "string \<rightharpoonup> string \<times> string"
  kc_AuthInfos :: "string \<rightharpoonup> auth_info"

record 'w mag_deps =
  g_server :: "('w, gate_body) server"
  g_namespace :: string
  g_poll :: "('w mag_state, kerror) poller"
  g_shell :: "'w shell"
  g_stdin :: "string \<Rightarrow> 'w shell"
  g_connection :: connection
  g_env :: env
  g_defaulted :: "string \<Rightarrow> string"
  g_createTemp :: "string \<Rightarrow> nat \<Rightarrow> string option"
  g_unmarshalGroups :: "string \<Rightarrow> (string \<times> string list) list option"
  g_loadConfig :: "string \<Rightarrow> kube_config option"
  g_minify :: "kube_config \<Rightarrow> kube_config option"
  g_flatten :: "kube_config \<Rightarrow> kube_config option"
  g_writeConfig :: "kube_config \<Rightarrow> string \<Rightarrow> bool"

definition g_run :: "'w mag_deps \<Rightarrow> string list \<Rightarrow> 'w mag_state \<Rightarrow> cmd_result \<times> 'w mag_state" where
  "g_run d args = Run (g_shell d) (g_connection d) args"

definition g_must :: "'w mag_deps \<Rightarrow> string list \<Rightarrow> 'w mag_state \<Rightarrow> (kerror + cmd_result) \<times> 'w mag_state" where
  "g_must d args = MustSucceed (g_shell d) (g_connection d) args"

text \<open>\<open>Expect\<close>: a failed assertion ends the test.\<close>

definition expect :: "bool \<Rightarrow> string \<Rightarrow> 's step" where
  "expect b msg s = (if b then None else Some (KAbort msg), s)"

section \<open>Waiting for the gate and its tasks\<close>

definition gate_ref :: "string \<Rightarrow> ref" where
  "gate_ref name = Ref [] ''ManualApprovalGate'' [] name"

definition gate_condition :: "'w mag_deps \<Rightarrow> string \<Rightarrow> ('w mag_state, kerror) cond" where
  "gate_condition d name s =
     (case k_get (g_server d) (gate_ref name) s of
        (Inl e, s1) \<Rightarrow> if e = NotFound then ((False, None), s1) else ((False, Some (KApi e)), s1)
      | (Inr cr, s1) \<Rightarrow> ((True, None), s1\<lparr>m_cr := Some cr\<rparr>))"

definition EnsureManualApprovalGateExists ::
    "'w mag_deps \<Rightarrow> string \<Rightarrow> 'w mag_state \<Rightarrow> (gate_body kobject option \<times> kerror option) \<times> 'w mag_state" where
  "EnsureManualApprovalGateExists d name s =
     (case g_poll d 5 600 False (gate_condition d name) (s\<lparr>m_cr := None\<rparr>) of
        (err, s') \<Rightarrow> ((m_cr s', of_poll err), s'))"

definition ValidateMAGDeployment :: "'w mag_deps \<Rightarrow> 'w mag_state step" where
  "ValidateMAGDeployment d s =
     (case EnsureManualApprovalGateExists d ''manual-approval-gate'' s of
        ((_, err), s') \<Rightarrow> expect (err = None) ''ManualApprovalGate CR not ready'' s')"

definition list_tasks :: "'w mag_deps \<Rightarrow> 'w mag_state \<Rightarrow> (api_error + gate_body kobject list) \<times> 'w mag_state" where
  "list_tasks d = k_list (g_server d) [] ''ApprovalTask'' (g_namespace d) []"

definition list_condition :: "'w mag_deps \<Rightarrow> ('w mag_state, kerror) cond" where
  "list_condition d s =
     (case list_tasks d s of
        (Inl e, s1) \<Rightarrow> ((False, None), s1)
      | (Inr items, s1) \<Rightarrow>
          if items = [] then ((False, None), s1)
          else ((True, None), s1\<lparr>m_tasks :=
            map (\<lambda>ob. \<lparr>ti_Name = ref_name (o_ref ob), ti_Status = at_State (task_of (o_body ob))\<rparr>) items\<rparr>))"

definition ListApprovalTask :: "'w mag_deps \<Rightarrow> 'w mag_state \<Rightarrow> (kerror + ApprovalTaskInfo list) \<times> 'w mag_state" where
  "ListApprovalTask d s =
     (case g_poll d 5 600 False (list_condition d) (s\<lparr>m_tasks := []\<rparr>) of
        (None, s') \<Rightarrow> (Inr (m_tasks s'), s')
      | (Some e, s') \<Rightarrow> (Inl (the (of_poll (Some e))), s'))"

definition ValidateApprovalGatePipeline ::
    "'w mag_deps \<Rightarrow> string \<Rightarrow> 'w mag_state \<Rightarrow> (bool \<times> kerror option) \<times> 'w mag_state" where
  "ValidateApprovalGatePipeline d expectedStatus s =
     (case ListApprovalTask d s of
        (Inl e, s') \<Rightarrow> ((False, Some (KContext ''error fetching approval tasks'' e)), s')
      | (Inr tasks, s') \<Rightarrow>
          if list_ex (\<lambda>task. checkApprovalTaskStatus task = expectedStatus) tasks then ((True, None), s')
          else ((False, Some (KMsg ''no approval tasks were found in the specified state'')), s'))"

definition ApproveApprovalGatePipeline :: "'w mag_deps \<Rightarrow> string \<Rightarrow> 'w mag_state step" where
  "ApproveApprovalGatePipeline d taskname s =
     (case g_must d [''opc'', ''approvaltask'', ''approve'', taskname] s of
        (Inl e, s') \<Rightarrow> (Some e, s') | (Inr _, s') \<Rightarrow> (None, s'))"

definition RejectApprovalGatePipeline :: "'w mag_deps \<Rightarrow> string \<Rightarrow> 'w mag_state step" where
  "RejectApprovalGatePipeline d taskname s =
     (case g_must d [''opc'', ''approvaltask'', ''reject'', taskname] s of
        (Inl e, s') \<Rightarrow> (Some e, s') | (Inr _, s') \<Rightarrow> (None, s'))"

text \<open>
  \<open>sort.SliceStable\<close> with \<open>After\<close>, then the first item: the newest task, the first listed among
  equals. \<open>prName\<close> is used in messages only.
\<close>

definition newest_first :: "gate_body kobject list \<Rightarrow> gate_body kobject list" where
  "newest_first items = sort_key (\<lambda>ob. - int (at_CreationTimestamp (task_of (o_body ob)))) items"

definition pick_condition :: "'w mag_deps \<Rightarrow> ('w mag_state, kerror) cond" where
  "pick_condition d s =
     (case list_tasks d s of
        (Inl e, s1) \<Rightarrow> ((False, Some (KApi e)), s1)
      | (Inr items, s1) \<Rightarrow>
          (case newest_first items of
             [] \<Rightarrow> ((False, None), s1)
           | ob # _ \<Rightarrow> ((True, None), s1\<lparr>m_picked := Some ob\<rparr>)))"

definition WaitForSingleApprovalTaskName ::
    "'w mag_deps \<Rightarrow> string \<Rightarrow> string \<Rightarrow> nat \<Rightarrow> 'w mag_state \<Rightarrow> (kerror + string) \<times> 'w mag_state" where
  "WaitForSingleApprovalTaskName d prName namespace timeout s =
     (case g_poll d 1 timeout True (pick_condition d) (s\<lparr>m_picked := None\<rparr>) of
        (Some e, s') \<Rightarrow> (Inl (KAbort (''timed out waiting for ApprovalTask for pipelinerun '' @ prName
            @ '' in namespace '' @ namespace)), s')
      | (None, s') \<Rightarrow>
          (case m_picked s' of
             None \<Rightarrow> (Inl (KAbort (''no ApprovalTask found for pipelinerun '' @ prName)), s')
           | Some ob \<Rightarrow> (Inr (ref_name (o_ref ob)), s')))"

definition task_ref :: "'w mag_deps \<Rightarrow> string \<Rightarrow> ref" where
  "task_ref d task = Ref [] ''ApprovalTask'' (g_namespace d) task"

text \<open>The three waits on one task differ in what they look for.\<close>

definition task_condition :: "'w mag_deps \<Rightarrow> string \<Rightarrow> (approval_task \<Rightarrow> bool) \<Rightarrow> ('w mag_state, kerror) cond" where
  "task_condition d task P s =
     (case k_get (g_server d) (task_ref d task) s of
        (Inl e, s1) \<Rightarrow> ((False, Some (KApi e)), s1)
      | (Inr ob, s1) \<Rightarrow> ((P (task_of (o_body ob)), None), s1\<lparr>m_last := Some (task_of (o_body ob))\<rparr>))"

definition WaitForApprovalTaskState :: "'w mag_deps \<Rightarrow> string \<Rightarrow> string \<Rightarrow> nat \<Rightarrow> 'w mag_state step" where
  "WaitForApprovalTaskState d task expectedState timeout s =
     (case g_poll d 1 timeout True
        (task_condition d task (\<lambda>at. to_lower (at_State at) = to_lower expectedState)) s of
        (err, s') \<Rightarrow> expect (err = None) (''timed out waiting for ApprovalTask '' @ task) s')"

definition WaitForApprovalTaskMessageContains :: "'w mag_deps \<Rightarrow> string \<Rightarrow> string \<Rightarrow> nat \<Rightarrow> 'w mag_state step" where
  "WaitForApprovalTaskMessageContains d task needle timeout s =
     (let needle' = trim_space needle
      in if needle' = [] then (Some (KAbort ''message text must not be empty''), s)
         else (case g_poll d 1 timeout True
             (task_condition d task (\<lambda>at. approvalTaskMessageContains (Some at) needle')) (s\<lparr>m_last := None\<rparr>) of
             (err, s') \<Rightarrow>
               expect (err = None) (''timed out waiting for ApprovalTask '' @ task @ '' to contain message '' @ needle'
                 @ ''; last status='' @ (case m_last s' of None \<Rightarrow> [] | Some at \<Rightarrow> at_State at)) s'))"

definition WaitForAndAssertApprovalTaskListState ::
    "'w mag_deps \<Rightarrow> string \<Rightarrow> int \<Rightarrow> int \<Rightarrow> int \<Rightarrow> string \<Rightarrow> nat \<Rightarrow> 'w mag_state step" where
  "WaitForAndAssertApprovalTaskListState d task expectedNum expectedPending expectedRejected expectedStatus timeout s =
     (case g_poll d 1 timeout True
        (task_condition d task (\<lambda>at. at_NumberOfApprovalsRequired at = expectedNum
            \<and> pendingApprovals (g_defaulted d) at = expectedPending
            \<and> rejectedCount (g_defaulted d) at = expectedRejected
            \<and> stateHuman at = expectedStatus)) (s\<lparr>m_last := None\<rparr>) of
        (err, s') \<Rightarrow>
          expect (err = None)
            (if err \<noteq> None \<and> m_last s' \<noteq> None then ''approvaltask '' @ task @ '' list-state mismatch''
             else ''failed to read ApprovalTask '' @ task @ '' for state assertion'') s')"

section \<open>Group names\<close>

text \<open>The loop over the alias: letters and digits stay, every other run becomes one dash.\<close>

fun slug :: "bool \<Rightarrow> string \<Rightarrow> string" where
  "slug lastDash [] = []"
| "slug lastDash (c # cs) =
     (if is_lower c \<or> is_digit c then c # slug False cs
      else if lastDash then slug lastDash cs
      else CHR ''-'' # slug True cs)"

definition safe_alias :: "string \<Rightarrow> string" where
  "safe_alias a =
     (let a1 = replace_char CHR '' '' ''-'' (replace_char CHR ''_'' ''-'' (to_lower a));
          safe = trim_set (slug False a1) ''-''
      in if safe = [] then ''group'' else safe)"

definition MAGGroupName :: "string \<Rightarrow> string \<Rightarrow> string" where
  "MAGGroupName namespace alias =
     (let a = trim_space alias
      in if a = [] then []
         else if contains a '':'' then a
         else ''mag-'' @ namespace @ ''-'' @ safe_alias a)"

section \<open>Role bindings and group members\<close>

definition magApproverUsers :: "string list" where
  "magApproverUsers = [''user1'', ''user2'', ''user3'', ''user4'', ''user5'']"

definition already_exists :: "string \<Rightarrow> bool" where
  "already_exists stderr =
     (let e = to_lower stderr in contains e ''already exists'' \<or> contains e ''alreadyexists'')"

definition bind_approver :: "'w mag_deps \<Rightarrow> string \<Rightarrow> string \<Rightarrow> 'w mag_state step" where
  "bind_approver d namespace user s =
     (case g_run d [''oc'', ''create'', ''rolebinding'', ''mag-approver-'' @ user,
             ''--clusterrole=manual-approval-gate-approver'', ''--user='' @ user, ''-n'', namespace] s of
        (res, s') \<Rightarrow>
          if ExitCode res = 0 then (None, s')
          else expect (already_exists (Stderr res)) (''failed to create RoleBinding mag-approver-'' @ user) s')"

definition EnsureApproverRoleBindings :: "'w mag_deps \<Rightarrow> string \<Rightarrow> 'w mag_state step" where
  "EnsureApproverRoleBindings d namespace =
     seq (expect (namespace \<noteq> []) ''namespace must not be empty for MAG approver RoleBindings'')
         (for_each (bind_approver d namespace) magApproverUsers)"

text \<open>\<open>json.Marshal\<close> of a string: quotation marks, backslashes, control characters and the HTML ones.\<close>

definition hex_digit :: "nat \<Rightarrow> char" where
  "hex_digit n = (if n < 10 then digit_char n else char_of (87 + n))"

definition marshal_char :: "char \<Rightarrow> string" where
  "marshal_char c =
     (if c = CHR 0x22 \<or> c = CHR 0x5C then [CHR 0x5C, c]
      else if c = CHR 0x08 then [CHR 0x5C, CHR ''b'']
      else if c = CHR 0x0C then [CHR 0x5C, CHR ''f'']
      else if c = CHR 0x0A then [CHR 0x5C, CHR ''n'']
      else if c = CHR 0x0D then [CHR 0x5C, CHR ''r'']
      else if c = CHR 0x09 then [CHR 0x5C, CHR ''t'']
      else if of_char c < (32 :: nat) \<or> c \<in> {CHR ''<'', CHR ''>'', CHR ''&''}
      then CHR 0x5C # ''u00'' @ [hex_digit (of_char c div 16), hex_digit (of_char c mod 16)]
      else [c])"

definition marshal_string :: "string \<Rightarrow> string" where
  "marshal_string s = CHR 0x22 # concat (map marshal_char s) @ [CHR 0x22]"

definition marshal_strings :: "string list \<Rightarrow> string" where
  "marshal_strings ss = ''['' @ join '','' (map marshal_string ss) @ '']''"

text \<open>\<open>strings.Fields\<close> of the trimmed output of a jsonpath over users.\<close>

definition user_list :: "string \<Rightarrow> string list" where
  "user_list out = (let o' = trim_space out in if o' = [] then [] else GoPrelude.fields o')"

definition members_patch :: "string list \<Rightarrow> string" where
  "members_patch users = ''{\"users\":'' @ marshal_strings users @ ''}''"

definition markUsersAuthDirty :: "string list \<Rightarrow> 'w mag_state \<Rightarrow> 'w mag_state" where
  "markUsersAuthDirty users s =
     s\<lparr>m_dirty := fold (\<lambda>u dirty. let u' = trim_space u in if u' = [] then dirty else dirty(u' := True)) users (m_dirty s)\<rparr>"

definition create_group :: "'w mag_deps \<Rightarrow> string \<Rightarrow> 'w mag_state step" where
  "create_group d grp s =
     (case g_run d [''oc'', ''adm'', ''groups'', ''new'', grp] s of
        (res, s') \<Rightarrow>
          if ExitCode res = 0 then (None, s')
          else expect (already_exists (Stderr res)) (''failed to create group '' @ grp) s')"

text \<open>The members after the patch are compared with the wanted ones as sorted lists joined by commas.\<close>

definition same_members :: "string list \<Rightarrow> string list \<Rightarrow> bool" where
  "same_members us vs = (join '','' (sort us) = join '','' (sort vs))"

definition EnsureGroupMembers :: "'w mag_deps \<Rightarrow> string \<Rightarrow> string list \<Rightarrow> 'w mag_state step" where
  "EnsureGroupMembers d grp users s =
     (if grp = [] then (Some (KAbort ''group name must not be empty''), s)
      else (case g_run d [''oc'', ''get'', ''group'', grp, ''-o'', ''jsonpath={.users[*]}''] s of
        (got, s1) \<Rightarrow>
          (let groupExists = (ExitCode got = 0);
               oldUsers = (if groupExists then user_list (Stdout got) else [])
           in (case create_group d grp s1 of
                 (Some e, s2) \<Rightarrow> (Some e, s2)
               | (None, s2) \<Rightarrow>
                   (case g_must d [''oc'', ''patch'', ''group'', grp, ''--type=merge'', ''-p'', members_patch users,
                            ''-o'', ''jsonpath={.users[*]}''] s2 of
                      (Inl e, s3) \<Rightarrow> (Some e, s3)
                    | (Inr res, s3) \<Rightarrow>
                        (let actual = user_list (Stdout res)
                         in if \<not> same_members actual users
                            then (Some (KAbort (''group '' @ grp @ '' membership mismatch'')), s3)
                            else if \<not> groupExists \<or> \<not> same_members oldUsers actual
                            then (None, markUsersAuthDirty (oldUsers @ actual) s3)
                            else (None, s3)))))))"

definition DeleteGroup :: "'w mag_deps \<Rightarrow> string \<Rightarrow> 'w mag_state step" where
  "DeleteGroup d grp s = (case g_run d [''oc'', ''delete'', ''group'', grp, ''--ignore-not-found''] s of (_, s') \<Rightarrow> (None, s'))"

end
