(* ===== verification/ApprovalSessions.thy ===== *)
theory ApprovalSessions
  imports ApprovalGate
begin

text \<open>
  \<open>pkg/manualapprovalgate/manualapprovalgate.go\<close>, third part: acting on a task as a test user, with
  a cached login or by impersonation, and the pipeline runs with an approval task. What
  \<open>clientcmd\<close> does to a kubeconfig is a parameter, as is the file system (\<open>os.CreateTemp\<close> gives a
  name or fails).
\<close>

section \<open>Sessions of the test users\<close>

definition popUserAuthDirty :: "string \<Rightarrow> 'w mag_state \<Rightarrow> bool \<times> 'w mag_state" where
  "popUserAuthDirty user s =
     (m_dirty s user, if m_dirty s user then s\<lparr>m_dirty := (m_dirty s)(user := False)\<rparr> else s)"

definition userPassword :: "env \<Rightarrow> string \<Rightarrow> string" where
  "userPassword e user =
     (let v = trim_space (getenv e (to_upper user @ ''_PASS'')) in if v \<noteq> [] then v else user)"

text \<open>\<open>IsHostedCluster\<close> of \<open>pkg/openshift\<close>.\<close>

definition IsHostedCluster :: "'w mag_deps \<Rightarrow> 'w mag_state \<Rightarrow> bool \<times> 'w mag_state" where
  "IsHostedCluster d s =
     (case g_run d [''oc'', ''get'', ''infrastructure'', ''cluster'', ''-o'', ''jsonpath={.status.controlPlaneTopology}''] s of
        (res, s') \<Rightarrow> (ExitCode res = 0 \<and> trim_space (Stdout res) = ''External'', s'))"

definition decide_impersonation :: "'w mag_deps \<Rightarrow> 'w mag_state \<Rightarrow> (kerror option \<times> bool) \<times> 'w mag_state" where
  "decide_impersonation d s =
     (let v = trim_space (getenv (g_env d) ''MAG_USE_IMPERSONATION'')
      in if v \<noteq> []
         then (case parse_bool v of
             None \<Rightarrow> ((Some (KMsg (''invalid MAG_USE_IMPERSONATION='' @ v)), False), s)
           | Some b \<Rightarrow> ((None, b), s))
         else (case IsHostedCluster d s of (b, s') \<Rightarrow> ((None, b), s')))"

definition useImpersonation :: "'w mag_deps \<Rightarrow> 'w mag_state \<Rightarrow> (kerror + bool) \<times> 'w mag_state" where
  "useImpersonation d s =
     (case m_impersonation s of
        Once (None, b) \<Rightarrow> (Inr b, s)
      | Once (Some e, b) \<Rightarrow> (Inl (KAbort ''impersonation''), s)
      | NotRun \<Rightarrow>
          (case decide_impersonation d s of
             ((err, b), s') \<Rightarrow>
               (if err = None then Inr b else Inl (KAbort ''impersonation''), s'\<lparr>m_impersonation := Once (err, b)\<rparr>)))"

definition userGroups :: "'w mag_deps \<Rightarrow> string \<Rightarrow> 'w mag_state \<Rightarrow> (kerror + string list) \<times> 'w mag_state" where
  "userGroups d user s =
     (case g_must d [''oc'', ''get'', ''groups'', ''-o'', ''json''] s of
        (Inl e, s') \<Rightarrow> (Inl e, s')
      | (Inr res, s') \<Rightarrow>
          (case g_unmarshalGroups d (Stdout res) of
             None \<Rightarrow> (Inl (KAbort ''failed to parse `oc get groups` output''), s')
           | Some items \<Rightarrow> (Inr (sort (map fst (filter (\<lambda>(name, users). user \<in> set users) items))), s')))"

text \<open>\<open>os.CreateTemp\<close> and \<open>os.Remove\<close>.\<close>

definition create_temp :: "'w mag_deps \<Rightarrow> string \<Rightarrow> 'w mag_state \<Rightarrow> string option \<times> 'w mag_state" where
  "create_temp d pattern s =
     (case g_createTemp d pattern (m_temp s) of
        None \<Rightarrow> (None, s)
      | Some path \<Rightarrow> (Some path, s\<lparr>m_temp := Suc (m_temp s), m_files := insert path (m_files s)\<rparr>))"

definition remove_file :: "string \<Rightarrow> 'w mag_state \<Rightarrow> 'w mag_state" where
  "remove_file path s = s\<lparr>m_files := m_files s - {path}\<rparr>"

text \<open>The runner's kubeconfig reduced to one context, with the user and its groups to impersonate.\<close>

definition reduced_config :: "'w mag_deps \<Rightarrow> kerror + (kube_config \<times> string)" where
  "reduced_config d =
     (let cn = g_connection d
      in (case g_loadConfig d (cn_Kubeconfig cn) of
            None \<Rightarrow> Inl (KAbort ''failed to load the test runner kubeconfig'')
          | Some raw0 \<Rightarrow>
              (let raw1 = (if cn_Context cn \<noteq> [] then raw0\<lparr>kc_CurrentContext := cn_Context cn\<rparr> else raw0);
                   cur = kc_CurrentContext raw1
               in (case kc_Contexts raw1 cur of
                     None \<Rightarrow> Inl (KAbort (''context '' @ cur @ '' not found in the test runner kubeconfig''))
                   | Some (cl, auth) \<Rightarrow>
                       (let raw2 = (if cn_Cluster cn \<noteq> []
                              then raw1\<lparr>kc_Contexts := (kc_Contexts raw1)(cur \<mapsto> (cn_Cluster cn, auth))\<rparr> else raw1)
                        in (case g_minify d raw2 of
                              None \<Rightarrow> Inl (KAbort ''failed to reduce the kubeconfig'')
                            | Some raw3 \<Rightarrow>
                                (case g_flatten d raw3 of
                                   None \<Rightarrow> Inl (KAbort ''failed to embed the kubeconfig credentials'')
                                 | Some raw \<Rightarrow> Inr (raw, auth))))))))"

definition impersonationKubeconfig :: "'w mag_deps \<Rightarrow> string \<Rightarrow> 'w mag_state \<Rightarrow> (kerror + string) \<times> 'w mag_state" where
  "impersonationKubeconfig d user s =
     (case reduced_config d of
        Inl e \<Rightarrow> (Inl e, s)
      | Inr (raw, authName) \<Rightarrow>
          (case kc_AuthInfos raw authName of
             None \<Rightarrow> (Inl (KAbort (''no credentials to impersonate '' @ user @ '' with'')), s)
           | Some auth \<Rightarrow>
               (case userGroups d user s of
                  (Inl e, s1) \<Rightarrow> (Inl e, s1)
                | (Inr groups, s1) \<Rightarrow>
                    (let raw' = raw\<lparr>kc_AuthInfos := (kc_AuthInfos raw)(authName \<mapsto>
                           auth\<lparr>au_Impersonate := user, au_ImpersonateGroups := groups\<rparr>)\<rparr>
                     in (case create_temp d (''mag-impersonate-'' @ user @ ''-'') s1 of
                           (None, s2) \<Rightarrow> (Inl (KAbort (''failed to create temp kubeconfig for '' @ user)), s2)
                         | (Some kcPath, s2) \<Rightarrow>
                             if g_writeConfig d raw' kcPath then (Inr kcPath, s2)
                             else (Inl (KAbort (''failed to write impersonation kubeconfig for '' @ user)), s2))))))"

text \<open>The API server is asked for once, even when asking panicked.\<close>

definition ensureMAGAPIServer :: "'w mag_deps \<Rightarrow> 'w mag_state \<Rightarrow> (kerror + string) \<times> 'w mag_state" where
  "ensureMAGAPIServer d s =
     (case m_apiServer s of
        Once (None, api) \<Rightarrow> (Inr api, s)
      | Once (Some e, api) \<Rightarrow> (Inl (KAbort ''could not detect cluster API server''), s)
      | NotRun \<Rightarrow>
          (case g_must d [''oc'', ''whoami'', ''--show-server''] s of
             (Inl e, s1) \<Rightarrow> (Inl e, s1\<lparr>m_apiServer := Once (None, [])\<rparr>)
           | (Inr res, s1) \<Rightarrow>
               (let api = trim_space (Stdout res)
                in if api = []
                   then (Inl (KAbort ''could not detect cluster API server''),
                         s1\<lparr>m_apiServer := Once (Some (KMsg ''failed to detect cluster API server''), [])\<rparr>)
                   else (Inr api, s1\<lparr>m_apiServer := Once (None, api)\<rparr>))))"

definition login_args :: "string \<Rightarrow> string \<Rightarrow> string \<Rightarrow> string \<Rightarrow> string list" where
  "login_args api user pass kcPath =
     [''oc'', ''login'', api, ''-u'', user, ''-p'', pass, ''--kubeconfig'', kcPath, ''--insecure-skip-tls-verify=true'']"

definition login :: "'w mag_deps \<Rightarrow> string \<Rightarrow> string \<Rightarrow> string \<Rightarrow> 'w mag_state step" where
  "login d api user kcPath s =
     (case g_must d (login_args api user (userPassword (g_env d) user) kcPath) s of
        (Inl e, s') \<Rightarrow> (Some e, s')
      | (Inr _, s') \<Rightarrow> (None, s'\<lparr>m_log := (user, kcPath) # m_log s'\<rparr>))"

definition session_path :: "'w mag_state \<Rightarrow> string \<Rightarrow> string option" where
  "session_path s user =
     (case m_kubeconfigs s user of Some v \<Rightarrow> if trim_space v \<noteq> [] then Some v else None | None \<Rightarrow> None)"

definition login_again :: "'w mag_deps \<Rightarrow> string \<Rightarrow> string \<Rightarrow> 'w mag_state \<Rightarrow> (kerror + string) \<times> 'w mag_state" where
  "login_again d user v s =
     (case popUserAuthDirty user s of
        (False, s1) \<Rightarrow> (Inr v, s1)
      | (True, s1) \<Rightarrow>
          (case ensureMAGAPIServer d s1 of
             (Inl e, s2) \<Rightarrow> (Inl e, s2)
           | (Inr api, s2) \<Rightarrow>
               (case login d api user v s2 of (Some e, s3) \<Rightarrow> (Inl e, s3) | (None, s3) \<Rightarrow> (Inr v, s3))))"

definition login_first :: "'w mag_deps \<Rightarrow> string \<Rightarrow> 'w mag_state \<Rightarrow> (kerror + string) \<times> 'w mag_state" where
  "login_first d user s =
     (case ensureMAGAPIServer d s of
        (Inl e, s1) \<Rightarrow> (Inl e, s1)
      | (Inr api, s1) \<Rightarrow>
          (case create_temp d (''mag-kubeconfig-'' @ user @ ''-'') s1 of
             (None, s2) \<Rightarrow> (Inl (KAbort (''failed to create temp kubeconfig for '' @ user)), s2)
           | (Some kcPath, s2) \<Rightarrow>
               (case login d api user kcPath s2 of
                  (Some e, s3) \<Rightarrow> (Inl e, s3)
                | (None, s3) \<Rightarrow>
                    (Inr kcPath, snd (popUserAuthDirty user (s3\<lparr>m_kubeconfigs := (m_kubeconfigs s3)(user \<mapsto> kcPath)\<rparr>))))))"

definition ensureUserKubeconfig :: "'w mag_deps \<Rightarrow> string \<Rightarrow> 'w mag_state \<Rightarrow> (kerror + string) \<times> 'w mag_state" where
  "ensureUserKubeconfig d user s =
     (case session_path s user of Some v \<Rightarrow> login_again d user v s | None \<Rightarrow> login_first d user s)"

definition CleanupUserKubeconfigs :: "'w mag_state \<Rightarrow> 'w mag_state" where
  "CleanupUserKubeconfigs s =
     s\<lparr>m_files := m_files s - {path \<in> ran (m_kubeconfigs s). trim_space path \<noteq> []},
       m_kubeconfigs := Map.empty, m_dirty := (\<lambda>_. False)\<rparr>"

section \<open>Acting as a user\<close>

text \<open>The kubeconfig to act with, and the file to remove once the command has run.\<close>

definition userEnv :: "'w mag_deps \<Rightarrow> string \<Rightarrow> 'w mag_state \<Rightarrow> (kerror + (string \<times> string option)) \<times> 'w mag_state" where
  "userEnv d user s =
     (case useImpersonation d s of
        (Inl e, s1) \<Rightarrow> (Inl e, s1)
      | (Inr True, s1) \<Rightarrow>
          (case impersonationKubeconfig d user s1 of (Inl e, s2) \<Rightarrow> (Inl e, s2) | (Inr kc, s2) \<Rightarrow> (Inr (kc, Some kc), s2))
      | (Inr False, s1) \<Rightarrow>
          (case ensureUserKubeconfig d user s1 of (Inl e, s2) \<Rightarrow> (Inl e, s2) | (Inr kc, s2) \<Rightarrow> (Inr (kc, None), s2)))"

definition action_args :: "string \<Rightarrow> string \<Rightarrow> string \<Rightarrow> string \<Rightarrow> string list" where
  "action_args verb task namespace message =
     [''opc'', ''approvaltask'', verb, task, ''-n'', namespace] @ (if trim_space message \<noteq> [] then [''-m'', message] else [])"

text \<open>The deferred cleanup runs whatever \<open>judge\<close> makes of the result.\<close>

definition act_as :: "'w mag_deps \<Rightarrow> string \<Rightarrow> string list \<Rightarrow> (cmd_result \<Rightarrow> kerror option) \<Rightarrow> 'w mag_state step" where
  "act_as d user args judge s =
     (case userEnv d user s of
        (Inl e, s1) \<Rightarrow> (Some e, s1)
      | (Inr (kc, tmp), s1) \<Rightarrow>
          (case RunWithEnv (g_shell d) (g_connection d) [''KUBECONFIG='' @ kc] args s1 of
             (res, s2) \<Rightarrow>
               (judge res, (case tmp of None \<Rightarrow> \<lambda>s. s | Some path \<Rightarrow> remove_file path) s2)))"

definition must_zero :: "cmd_result \<Rightarrow> kerror option" where
  "must_zero res = (if ExitCode res = 0 then None else Some (KAbort ''expected exit code 0''))"

definition ApproveApprovalTaskAsUser :: "'w mag_deps \<Rightarrow> string \<Rightarrow> string \<Rightarrow> string \<Rightarrow> string \<Rightarrow> 'w mag_state step" where
  "ApproveApprovalTaskAsUser d user task namespace message =
     act_as d user (action_args ''approve'' task namespace message) must_zero"

definition RejectApprovalTaskAsUser :: "'w mag_deps \<Rightarrow> string \<Rightarrow> string \<Rightarrow> string \<Rightarrow> string \<Rightarrow> 'w mag_state step" where
  "RejectApprovalTaskAsUser d user task namespace message =
     act_as d user (action_args ''reject'' task namespace message) must_zero"

definition ApproveApprovalTaskExpectFailAsUser ::
    "'w mag_deps \<Rightarrow> string \<Rightarrow> string \<Rightarrow> string \<Rightarrow> string \<Rightarrow> 'w mag_state step" where
  "ApproveApprovalTaskExpectFailAsUser d user task namespace message =
     act_as d user (action_args ''approve'' task namespace message)
       (\<lambda>res. if ExitCode res = 0 then Some (KAbort ''expected approval to fail, but it succeeded'') else None)"

definition ApproveApprovalTaskAllowFinalStateAsUser ::
    "'w mag_deps \<Rightarrow> string \<Rightarrow> string \<Rightarrow> string \<Rightarrow> string \<Rightarrow> 'w mag_state step" where
  "ApproveApprovalTaskAllowFinalStateAsUser d user task namespace message =
     act_as d user (action_args ''approve'' task namespace message)
       (\<lambda>res. if ExitCode res = 0 then None
          else (let out = to_lower (Stdout res @ LF # Stderr res)
                in if contains out ''already reached'' \<and> contains out ''final state'' then None
                   else Some (KAbort ''unexpected approval failure'')))"

definition action_dispatch ::
    "'w mag_deps \<Rightarrow> (string \<times> (string \<Rightarrow> string \<Rightarrow> string \<Rightarrow> string \<Rightarrow> 'w mag_state step)) list" where
  "action_dispatch d =
     [(''approve'', ApproveApprovalTaskAsUser d), (''reject'', RejectApprovalTaskAsUser d),
      (''approve-expect-fail'', ApproveApprovalTaskExpectFailAsUser d),
      (''approve-allow-final-state'', ApproveApprovalTaskAllowFinalStateAsUser d)]"

definition PerformApprovalTaskActionAsUser ::
    "'w mag_deps \<Rightarrow> string \<Rightarrow> string \<Rightarrow> string \<Rightarrow> string \<Rightarrow> string \<Rightarrow> 'w mag_state step" where
  "PerformApprovalTaskActionAsUser d user action task namespace message s =
     (let a = to_lower (trim_space action)
      in if a = [] then (Some (KAbort ''approval task action must not be empty''), s)
         else (case map_of (action_dispatch d) a of
             None \<Rightarrow> (Some (KAbort (''unsupported approval gate action: '' @ action)), s)
           | Some fn \<Rightarrow> fn user task namespace message s))"

section \<open>Pipeline runs with an approval task\<close>

definition approver_lines :: "string list \<Rightarrow> string" where
  "approver_lines approvers =
     concat (map (\<lambda>a. let a' = trim_space a in if a' = [] then [] else ''- '' @ a' @ [LF]) approvers)"

definition approvers_yaml :: "string list \<Rightarrow> string" where
  "approvers_yaml approvers =
     replace_char LF (LF # replicate 14 CHR '' '') (trim_suffix (approver_lines approvers) [LF])"

definition run_prefix :: "string \<Rightarrow> string" where
  "run_prefix ident =
     ''approva-grp-plr-'' @ replace_char CHR ''_'' ''-'' (to_lower (replace_char CHR '' '' ''-'' (trim_space ident))) @ ''-''"

definition run_yaml :: "string \<Rightarrow> string \<Rightarrow> string \<Rightarrow> string list \<Rightarrow> int \<Rightarrow> string \<Rightarrow> string" where
  "run_yaml genName namespace timeout approvers required description =
     join [LF]
      [''apiVersion: tekton.dev/v1'', ''kind: PipelineRun'', ''metadata:'', ''  generateName: '' @ genName,
       ''  namespace: '' @ namespace, ''spec:'', ''  pipelineSpec:'', ''    tasks:'', ''      - name: wait'',
       ''        timeout: '' @ timeout, ''        taskRef:'', ''          apiVersion: openshift-pipelines.org/v1alpha1'',
       ''          kind: ApprovalTask'', ''        params:'', ''          - name: approvers'', ''            value:'',
       replicate 14 CHR '' '' @ approvers_yaml approvers, ''          - name: numberOfApprovalsRequired'',
       ''            value: \"'' @ show_int required @ ''\"'', ''          - name: description'',
       ''            value: \"'' @ description @ ''\"'', []]"

definition CreateApprovalPipelineRun ::
    "'w mag_deps \<Rightarrow> string \<Rightarrow> string \<Rightarrow> string list \<Rightarrow> int \<Rightarrow> string \<Rightarrow> string \<Rightarrow> 'w mag_state \<Rightarrow>
     (kerror + (string \<times> string)) \<times> 'w mag_state" where
  "CreateApprovalPipelineRun d ident description approvers required timeout namespace s =
     (if approvers = [] then (Inl (KAbort ''approvers list must not be empty''), s)
      else if required \<le> 0 then (Inl (KAbort ''numberOfApprovalsRequired must be > 0''), s)
      else if trim_space (trim_suffix (approver_lines approvers) [LF]) = []
      then (Inl (KAbort ''approvers list is empty after trimming''), s)
      else (case MustSucceedWithStdin (g_stdin d) (g_connection d)
               (run_yaml (run_prefix ident) namespace timeout approvers required description)
               [''oc'', ''create'', ''-n'', namespace, ''-f'', ''-'', ''-o'', ''jsonpath={.metadata.name}''] s of
             (Inl e, s1) \<Rightarrow> (Inl e, s1)
           | (Inr res, s1) \<Rightarrow>
               (let prName = trim_space (Stdout res)
                in if prName = [] then (Inl (KAbort ''failed to create PipelineRun: got empty name''), s1)
                   else (case WaitForSingleApprovalTaskName d prName namespace 120 s1 of
                       (Inl e, s2) \<Rightarrow> (Inl e, s2)
                     | (Inr taskName, s2) \<Rightarrow> (Inr (prName, taskName), s2)))))"

end
