(* ===== verification/ApprovalSafety.thy ===== *)
theory ApprovalSafety
  imports ApprovalSessions
begin

text \<open>
  What the helpers of the approval gate promise: the names and members of groups, and the sessions
  of the test users as the refinement of a small automaton.
\<close>

section \<open>Group names\<close>

text \<open>A DNS label part: lower case letters, digits and single dashes, no dash at either end.\<close>

definition label_chars :: "char \<Rightarrow> bool" where
  "label_chars c = (is_lower c \<or> is_digit c \<or> c = CHR ''-'')"

definition dns_part :: "string \<Rightarrow> bool" where
  "dns_part s = (s \<noteq> [] \<and> list_all label_chars s \<and> hd s \<noteq> CHR ''-'' \<and> last s \<noteq> CHR ''-''
     \<and> successively (\<lambda>a b. \<not> (a = CHR ''-'' \<and> b = CHR ''-'')) s)"

lemma slug_chars: "c \<in> set (slug l s) \<Longrightarrow> label_chars c"
  by (induction l s rule: slug.induct) (auto simp: label_chars_def split: if_splits)

lemma slug_single:
  "successively (\<lambda>a b. \<not> (a = CHR ''-'' \<and> b = CHR ''-'')) (slug l s)
   \<and> (l \<longrightarrow> slug l s \<noteq> [] \<longrightarrow> hd (slug l s) \<noteq> CHR ''-'')"
  by (induction l s rule: slug.induct)
    (auto simp: successively_Cons is_lower_def is_digit_def less_eq_char_def)

lemma trim_by_middle: "\<exists>a b. s = a @ trim_by P s @ b"
  unfolding trim_by_def trim_left_by_def trim_right_by_def
  by (metis append.assoc rev_append rev_rev_ident takeWhile_dropWhile_id)

lemma safe_alias_part: "dns_part (safe_alias a)"
proof -
  define b where "b = slug False (replace_char CHR '' '' ''-'' (replace_char CHR ''_'' ''-'' (to_lower a)))"
  obtain x y where b: "b = x @ trim_set b ''-'' @ y" using trim_by_middle unfolding trim_set_def by blast
  have "dns_part (trim_set b ''-'')" if ne: "trim_set b ''-'' \<noteq> []"
  proof -
    have "list_all label_chars (trim_set b ''-'')"
      using slug_chars b unfolding b_def list_all_iff by (metis Un_iff set_append)
    moreover have "successively (\<lambda>a b. \<not> (a = CHR ''-'' \<and> b = CHR ''-'')) (trim_set b ''-'')"
      using slug_single b unfolding b_def by (metis successively_append_iff)
    moreover have "hd (trim_set b ''-'') \<noteq> CHR ''-''" and "last (trim_set b ''-'') \<noteq> CHR ''-''"
      using trim_by_hd [of "\<lambda>c. c \<in> set ''-''" b] trim_by_last [of "\<lambda>c. c \<in> set ''-''" b] ne by (auto simp: trim_set_def)
    ultimately show ?thesis using ne by (simp add: dns_part_def)
  qed
  moreover have "dns_part ''group''" by code_simp
  ultimately show ?thesis unfolding safe_alias_def Let_def b_def [symmetric] by simp
qed

text \<open>
  C19: a group name is well formed: for a blank alias it is empty, an alias with a colon is kept, and
  every other alias gives a name of this run's namespace that ends in lower case letters, digits
  and single dashes, whatever characters the alias has.
\<close>

theorem group_name_well_formed:
  "MAGGroupName namespace alias =
     (let a = trim_space alias in if a = [] \<or> CHR '':'' \<in> set a then a else ''mag-'' @ namespace @ ''-'' @ safe_alias a)
   \<and> dns_part (safe_alias (trim_space alias))"
proof -
  have "contains a '':'' \<longleftrightarrow> CHR '':'' \<in> set a" for a
    unfolding contains_iff by (metis append_Cons append_Nil in_set_conv_decomp)
  then show ?thesis by (simp add: MAGGroupName_def Let_def safe_alias_part)
qed

section \<open>Members of a group\<close>

lemma mag_more:
  assumes "io.more s' = io.more s"
  shows "m_cr s' = m_cr s \<and> m_kubeconfigs s' = m_kubeconfigs s \<and> m_dirty s' = m_dirty s \<and> m_apiServer s' = m_apiServer s
    \<and> m_impersonation s' = m_impersonation s \<and> m_temp s' = m_temp s \<and> m_files s' = m_files s \<and> m_log s' = m_log s"
  using assms by (cases s; cases s') simp

text \<open>A command changes nothing of the package's state.\<close>

definition same_vars :: "'w mag_state \<Rightarrow> 'w mag_state \<Rightarrow> bool" where
  "same_vars s s' \<longleftrightarrow>
     m_kubeconfigs s' = m_kubeconfigs s \<and> m_dirty s' = m_dirty s \<and> m_apiServer s' = m_apiServer s
     \<and> m_impersonation s' = m_impersonation s \<and> m_log s' = m_log s"

lemma same_vars_refl [simp]: "same_vars s s"
  by (simp add: same_vars_def)

lemma g_run_frame:
  "g_run d args s = (res, s') \<Longrightarrow> same_vars s s' \<and> io_trace s' = Ran (Command (g_connection d) args) res # io_trace s"
  unfolding g_run_def same_vars_def using mag_more [of s' s] run_frames by blast

lemma g_must_frame:
  assumes "g_must d args s = (r, s')"
  obtains res where "same_vars s s'" and "io_trace s' = Ran (Command (g_connection d) args) res # io_trace s"
    and "r = Inr res \<and> ExitCode res = 0 \<or> (\<exists>e. r = Inl e)"
proof -
  obtain res t where r: "g_run d args s = (res, t)" by (metis surj_pair)
  moreover from this have "s' = t \<and> (r = Inr res \<and> ExitCode res = 0 \<or> (\<exists>e. r = Inl e))"
    using assms by (auto simp: g_must_def MustSucceed_def Assert_def g_run_def split: if_splits)
  ultimately show thesis using that g_run_frame [OF r] by blast
qed

lemma create_group_frame:
  assumes "create_group d grp s = (err, s')"
  obtains res where "same_vars s s'" and "io_trace s' = Ran (Command (g_connection d) [''oc'', ''adm'', ''groups'', ''new'', grp]) res # io_trace s"
  using assms by (auto simp: create_group_def expect_def split: prod.splits if_splits dest!: g_run_frame)

text \<open>What \<open>EnsureGroupMembers\<close> has done when it returns: its three commands, and whom it has marked.\<close>

abbreviation get_line :: "'w mag_deps \<Rightarrow> string \<Rightarrow> string list" where
  "get_line d grp \<equiv> Command (g_connection d) [''oc'', ''get'', ''group'', grp, ''-o'', ''jsonpath={.users[*]}'']"

abbreviation patch_line :: "'w mag_deps \<Rightarrow> string \<Rightarrow> string list \<Rightarrow> string list" where
  "patch_line d grp users \<equiv> Command (g_connection d)
     [''oc'', ''patch'', ''group'', grp, ''--type=merge'', ''-p'', members_patch users, ''-o'', ''jsonpath={.users[*]}'']"

definition members_of_answer :: "cmd_result \<Rightarrow> string list" where
  "members_of_answer got = (if ExitCode got = 0 then user_list (Stdout got) else [])"

lemma EnsureGroupMembers_done:
  assumes "EnsureGroupMembers d grp users s = (None, s')"
  obtains t got new res where "same_vars s t"
    and "io_trace t = [Ran (patch_line d grp users) res,
           Ran (Command (g_connection d) [''oc'', ''adm'', ''groups'', ''new'', grp]) new, Ran (get_line d grp) got] @ io_trace s"
    and "ExitCode res = 0" and "same_members (user_list (Stdout res)) users"
    and "s' = (if ExitCode got \<noteq> 0 \<or> \<not> same_members (members_of_answer got) (user_list (Stdout res))
           then markUsersAuthDirty (members_of_answer got @ user_list (Stdout res)) t else t)"
proof -
  obtain got s1 where 1: "g_run d [''oc'', ''get'', ''group'', grp, ''-o'', ''jsonpath={.users[*]}''] s = (got, s1)"
    by (metis surj_pair)
  obtain err s2 where 2: "create_group d grp s1 = (err, s2)" by (metis surj_pair)
  obtain r t where 3: "g_must d [''oc'', ''patch'', ''group'', grp, ''--type=merge'', ''-p'', members_patch users,
      ''-o'', ''jsonpath={.users[*]}''] s2 = (r, t)" by (metis surj_pair)
  obtain new where c: "same_vars s1 s2"
    "io_trace s2 = Ran (Command (g_connection d) [''oc'', ''adm'', ''groups'', ''new'', grp]) new # io_trace s1"
    by (rule create_group_frame [OF 2])
  have e: "err = None" and r: "\<exists>res. r = Inr res"
    using assms 1 2 3 by (auto simp: EnsureGroupMembers_def Let_def split: if_splits option.splits sum.splits)
  then obtain res where res: "r = Inr res" by blast
  obtain res' where f: "same_vars s2 t" "io_trace t = Ran (patch_line d grp users) res' # io_trace s2"
    "res' = res \<and> ExitCode res = 0"
    using g_must_frame [OF 3] res by (metis sum.inject(2) sum.distinct(1))
  have "same_vars s t"
    using g_run_frame [OF 1] c(1) f(1) by (simp add: same_vars_def)
  moreover have "same_members (user_list (Stdout res)) users"
    "s' = (if ExitCode got \<noteq> 0 \<or> \<not> same_members (members_of_answer got) (user_list (Stdout res))
           then markUsersAuthDirty (members_of_answer got @ user_list (Stdout res)) t else t)"
    using assms 1 2 3 e res
    by (auto simp: EnsureGroupMembers_def members_of_answer_def Let_def split: if_splits option.splits sum.splits)
  ultimately show thesis using that [of t res new got] f c g_run_frame [OF 1] by simp
qed

lemma same_members_mset:
  assumes "same_members us vs" and "\<And>u. u \<in> set us \<union> set vs \<Longrightarrow> u \<noteq> [] \<and> CHR '','' \<notin> set u"
  shows "mset us = mset vs"
proof -
  have ws: "split_char CHR '','' (join '','' (sort ws)) = sort ws" if "ws \<noteq> []" and "set ws \<subseteq> set us \<union> set vs" for ws
    using that assms(2) by (intro split_char_join) (metis set_empty set_sort, auto)
  have ne: "join '','' (sort ws) \<noteq> []" if "ws \<noteq> []" and "set ws \<subseteq> set us \<union> set vs" for ws
  proof
    assume "join '','' (sort ws) = []"
    with ws [OF that] have "sort ws = [[]]" by simp
    then have "[] \<in> set ws" by (metis list.set_intros(1) set_sort)
    with that(2) assms(2) show False by blast
  qed
  have "sort us = sort vs"
  proof (cases "us = [] \<or> vs = []")
    case True
    have "us = [] \<longleftrightarrow> vs = []"
    proof
      assume "us = []"
      with assms(1) have "join '','' (sort vs) = []" by (simp add: same_members_def)
      with ne [of vs] show "vs = []" by blast
    next
      assume "vs = []"
      with assms(1) have "join '','' (sort us) = []" by (simp add: same_members_def)
      with ne [of us] show "us = []" by blast
    qed
    with True show ?thesis by auto
  next
    case False
    then have "split_char CHR '','' (join '','' (sort us)) = sort us" and "split_char CHR '','' (join '','' (sort vs)) = sort vs"
      by (auto intro!: ws)
    with assms(1) show ?thesis unfolding same_members_def by metis
  qed
  then show ?thesis by (metis mset_sort)
qed

text \<open>
  C35: when EnsureGroupMembers returns, its last command was the patch of this group's users with the
  wanted ones, and it succeeded. If no wanted name and no name the cluster answered is blank or has
  a comma, the answered members are the wanted ones, each as often as wanted; with a comma in a name
  other members could pass.
\<close>

theorem group_members_exact:
  assumes "EnsureGroupMembers d grp users s = (None, s')"
    and "\<And>u. u \<in> set users \<Longrightarrow> u \<noteq> [] \<and> CHR '','' \<notin> set u"
  shows "\<exists>res earlier. io_trace s' = Ran (Command (g_connection d) [''oc'', ''patch'', ''group'', grp, ''--type=merge'', ''-p'',
        ''{\"users\":'' @ marshal_strings users @ ''}'', ''-o'', ''jsonpath={.users[*]}'']) res # earlier
    \<and> ExitCode res = 0
    \<and> (list_all (\<lambda>u. u \<noteq> [] \<and> CHR '','' \<notin> set u) (user_list (Stdout res)) \<longrightarrow> mset (user_list (Stdout res)) = mset users)"
proof (rule EnsureGroupMembers_done [OF assms(1)])
  fix t got new res
  assume t: "io_trace t = [Ran (patch_line d grp users) res,
           Ran (Command (g_connection d) [''oc'', ''adm'', ''groups'', ''new'', grp]) new, Ran (get_line d grp) got] @ io_trace s"
    and res: "ExitCode res = 0" "same_members (user_list (Stdout res)) users"
    and s': "s' = (if ExitCode got \<noteq> 0 \<or> \<not> same_members (members_of_answer got) (user_list (Stdout res))
           then markUsersAuthDirty (members_of_answer got @ user_list (Stdout res)) t else t)"
  have "io_trace s' = io_trace t" using s' by (simp add: markUsersAuthDirty_def)
  with t res show ?thesis
    using same_members_mset [of "user_list (Stdout res)" users] assms(2) unfolding list_all_iff members_patch_def by auto
qed

section \<open>Sessions\<close>

text \<open>
  The abstract automaton, per user: no session, a session of a kubeconfig, or one that is out of
  date because the user's groups changed since the login.
\<close>

datatype session = NoSession | Fresh string | Stale string

definition path_at :: "(string \<rightharpoonup> string) \<Rightarrow> string \<Rightarrow> string option" where
  "path_at K user = (case K user of Some v \<Rightarrow> if trim_space v \<noteq> [] then Some v else None | None \<Rightarrow> None)"

definition session_at :: "(string \<rightharpoonup> string) \<Rightarrow> (string \<Rightarrow> bool) \<Rightarrow> string \<Rightarrow> session" where
  "session_at K dirty user =
     (case path_at K user of None \<Rightarrow> NoSession | Some v \<Rightarrow> if dirty user then Stale v else Fresh v)"

definition session_of :: "'w mag_state \<Rightarrow> string \<Rightarrow> session" where
  "session_of s = session_at (m_kubeconfigs s) (m_dirty s)"

fun outdated :: "session \<Rightarrow> session" where
  "outdated (Fresh v) = Stale v"
| "outdated x = x"

definition regroup :: "string list \<Rightarrow> (string \<Rightarrow> session) \<Rightarrow> string \<Rightarrow> session" where
  "regroup users ss u = (if u \<in> trim_space ` set users - {[]} then outdated (ss u) else ss u)"

definition temp_ok :: "'w mag_deps \<Rightarrow> bool" where
  "temp_ok d \<longleftrightarrow> (\<forall>p n q. g_createTemp d p n = Some q \<longrightarrow> trim_space q \<noteq> [])"

lemma session_path_at: "session_path s user = path_at (m_kubeconfigs s) user"
  by (simp add: session_path_def path_at_def)

lemma session_of_same: "same_vars s s' \<Longrightarrow> session_of s' = session_of s"
  by (simp add: same_vars_def session_of_def)

lemma session_cleared: "path_at K user = Some v \<Longrightarrow> session_at K (D(user := False)) = (session_at K D)(user := Fresh v)"
  by (auto simp: session_at_def fun_eq_iff split: option.split)

lemma session_new:
  "trim_space v \<noteq> [] \<Longrightarrow> session_at (K(user \<mapsto> v)) (D(user := False)) = (session_at K D)(user := Fresh v)"
  by (auto simp: session_at_def path_at_def fun_eq_iff split: option.split)

lemma mark_dirty:
  "fold (\<lambda>u dirty. let u' = trim_space u in if u' = [] then dirty else dirty(u' := True)) users D
     = (\<lambda>u. u \<in> trim_space ` set users - {[]} \<or> D u)"
  by (induction users arbitrary: D) (auto simp: Let_def fun_eq_iff)

lemma session_of_marked: "session_of (markUsersAuthDirty users s) = regroup users (session_of s)"
  by (auto simp: markUsersAuthDirty_def mark_dirty session_of_def session_at_def regroup_def fun_eq_iff split: option.splits)

subsection \<open>What the commands of a call say\<close>

text \<open>
  The events of the automaton are read off the commands, apart from the variables of the package:
  a successful \<open>oc login\<close> of a user into a kubeconfig, a command run with a \<open>KUBECONFIG\<close> on behalf of
  the user of the call, and a change of the members of a group.
\<close>

datatype session_event = LoggedIn string string | Regrouped "string list" | Acted string string | Cleared

text \<open>The words of a command line after the connection flags that \<open>Command\<close> has put in.\<close>

fun drop_flags :: "string list \<Rightarrow> string list" where
  "drop_flags (f # v # words) =
     (if f = ''--kubeconfig'' \<or> f = ''--context'' \<or> f = ''--cluster'' then drop_flags words else f # v # words)"
| "drop_flags words = words"

definition login_words :: "string list \<Rightarrow> (string \<times> string) option" where
  "login_words words =
     (case words of
        verb # api # uf # u # pf # p # k # kc # _ \<Rightarrow>
          if verb = ''login'' \<and> uf = ''-u'' \<and> pf = ''-p'' \<and> k = ''--kubeconfig'' then Some (u, kc) else None
      | _ \<Rightarrow> None)"

definition login_target :: "string list \<Rightarrow> (string \<times> string) option" where
  "login_target line = (case line of [] \<Rightarrow> None | _ # words \<Rightarrow> login_words (drop_flags words))"

definition acted_with :: "string list \<Rightarrow> string option" where
  "acted_with line =
     (case line of
        e # v # _ \<Rightarrow> if e = ''env'' \<and> has_prefix v ''KUBECONFIG='' then Some (trim_prefix v ''KUBECONFIG='') else None
      | _ \<Rightarrow> None)"

fun event_of :: "string \<Rightarrow> 'b event \<Rightarrow> session_event list" where
  "event_of user (Ran line res) =
     (case acted_with line of
        Some kc \<Rightarrow> [Acted user kc]
      | None \<Rightarrow> (case login_target line of
            Some (u, kc) \<Rightarrow> if ExitCode res = 0 then [LoggedIn u kc] else []
          | None \<Rightarrow> []))"
| "event_of user _ = []"

definition events_of :: "string \<Rightarrow> 'b event list \<Rightarrow> session_event list" where
  "events_of user evs = concat (map (event_of user) evs)"

lemma events_of_simps [simp]: "events_of user [] = []" "events_of user (e # evs) = event_of user e @ events_of user evs"
  "events_of user (evs @ evs') = events_of user evs @ events_of user evs'"
  by (simp_all add: events_of_def)

abbreviation told :: "string \<Rightarrow> 'w mag_state \<Rightarrow> session_event list" where
  "told user s \<equiv> events_of user (io_trace s)"

lemma drop_added: "drop_flags (add_flags (connection_flags cn) rest [] @ words) = drop_flags words"
proof -
  have "fst ` set fs \<subseteq> {''--kubeconfig'', ''--context'', ''--cluster''}
      \<Longrightarrow> drop_flags (add_flags fs rest [] @ words) = drop_flags words" for fs
  proof (induction fs)
    case (Cons p fs)
    obtain n v where p: "p = (n, v)" by (cases p)
    with Cons show ?case using add_flags_acc [of fs rest "[n, v]"] by auto
  qed simp
  then show ?thesis by (simp add: connection_flags_def)
qed

lemma oc_line:
  "event_of u (Ran (Command cn (''oc'' # rest)) res) =
     (case login_words (drop_flags rest) of Some (user, kc) \<Rightarrow> if ExitCode res = 0 then [LoggedIn user kc] else [] | None \<Rightarrow> [])"
proof -
  have line: "Command cn (''oc'' # rest) = ''oc'' # add_flags (connection_flags cn) rest [] @ rest"
    using add_flags_acc [of "connection_flags cn" rest "[''oc'']"] by simp
  have "acted_with (Command cn (''oc'' # rest)) = None"
    unfolding line by (simp add: acted_with_def split: list.split)
  moreover have "login_target (Command cn (''oc'' # rest)) = login_words (drop_flags rest)"
    unfolding line login_target_def list.case drop_added ..
  ultimately show ?thesis by simp
qed

lemma other_lines:
  "event_of u (Ran (Command cn [''oc'', ''whoami'', ''--show-server'']) res) = []"
  "event_of u (Ran (Command cn [''oc'', ''get'', ''groups'', ''-o'', ''json'']) res) = []"
  "event_of u (Ran (Command cn [''oc'', ''get'', ''infrastructure'', ''cluster'', ''-o'', ''jsonpath={.status.controlPlaneTopology}'']) res) = []"
  unfolding oc_line by (simp_all add: login_words_def)

lemma login_line:
  "event_of u (Ran (Command cn (login_args api user pass v)) res) = (if ExitCode res = 0 then [LoggedIn user v] else [])"
  unfolding login_args_def oc_line by (simp add: login_words_def)

lemma action_line: "event_of u (Ran (''env'' # [''KUBECONFIG='' @ kc] @ line) res) = [Acted u kc]"
  by (simp add: acted_with_def has_prefix_iff trim_prefix_def)

lemma api_frame:
  assumes "ensureMAGAPIServer d s = (r, s')"
  shows "session_of s' = session_of s \<and> m_log s' = m_log s \<and> m_impersonation s' = m_impersonation s
    \<and> m_dirty s' = m_dirty s \<and> m_kubeconfigs s' = m_kubeconfigs s \<and> told u s' = told u s"
proof -
  obtain q t where q: "g_must d [''oc'', ''whoami'', ''--show-server''] s = (q, t)" by (metis surj_pair)
  obtain res where t: "same_vars s t" "io_trace t = Ran (Command (g_connection d) [''oc'', ''whoami'', ''--show-server'']) res # io_trace s"
    by (rule g_must_frame [OF q])
  have "told u t = told u s" unfolding t(2) events_of_simps other_lines by simp
  with t(1) show ?thesis
    using assms q session_of_same [of s t]
    by (auto simp: ensureMAGAPIServer_def same_vars_def session_of_def Let_def
        split: once.splits prod.splits option.splits sum.splits if_splits)
qed

lemma login_done:
  assumes "login d api user v s = (err, s')"
  shows "session_of s' = session_of s \<and> m_log s' = (if err = None then (user, v) # m_log s else m_log s)
    \<and> m_impersonation s' = m_impersonation s \<and> m_dirty s' = m_dirty s \<and> m_kubeconfigs s' = m_kubeconfigs s
    \<and> (err = None \<longrightarrow> told u s' = LoggedIn user v # told u s)"
proof -
  let ?args = "login_args api user (userPassword (g_env d) user) v"
  obtain q t where q: "g_must d ?args s = (q, t)" by (metis surj_pair)
  obtain res where t: "same_vars s t" "io_trace t = Ran (Command (g_connection d) ?args) res # io_trace s"
    "q = Inr res \<and> ExitCode res = 0 \<or> (\<exists>e. q = Inl e)"
    by (rule g_must_frame [OF q])
  have "told u t = (if ExitCode res = 0 then [LoggedIn user v] else []) @ told u s"
    unfolding t(2) events_of_simps login_line ..
  with t(1,3) show ?thesis
    using assms q session_of_same [of s t]
    by (auto simp: login_def same_vars_def session_of_def split: sum.splits)
qed

lemma temp_frame:
  "create_temp d p s = (q, s') \<Longrightarrow> session_of s' = session_of s \<and> m_log s' = m_log s
     \<and> m_impersonation s' = m_impersonation s \<and> m_dirty s' = m_dirty s \<and> m_kubeconfigs s' = m_kubeconfigs s
     \<and> io_trace s' = io_trace s"
  by (auto simp: create_temp_def session_of_def split: option.splits)

text \<open>A user's session after getting its kubeconfig, case by case.\<close>

lemma ensure_stale:
  assumes "session_of s user = Stale v" and "ensureUserKubeconfig d user s = (r, s')"
  shows "session_of s' = (session_of s)(user := Fresh v) \<and> m_impersonation s' = m_impersonation s
    \<and> (r = Inr v \<and> m_log s' = (user, v) # m_log s \<and> told u s' = LoggedIn user v # told u s
       \<or> (\<exists>e. r = Inl e) \<and> m_log s' = m_log s)"
proof -
  have p: "path_at (m_kubeconfigs s) user = Some v" and dirty: "m_dirty s user"
    using assms(1) by (auto simp: session_of_def session_at_def split: option.splits if_splits)
  let ?s1 = "s\<lparr>m_dirty := (m_dirty s)(user := False)\<rparr>"
  have s1: "session_of ?s1 = (session_of s)(user := Fresh v)"
    by (simp add: session_of_def session_cleared [OF p])
  obtain a s2 where a: "ensureMAGAPIServer d ?s1 = (a, s2)" by (metis surj_pair)
  have again: "login_again d user v s = (r, s')" using assms(2) p by (simp add: ensureUserKubeconfig_def session_path_at)
  note frame = api_frame [OF a, of u]
  show ?thesis
  proof (cases a)
    case (Inl e)
    then show ?thesis using again a dirty frame s1 by (auto simp: login_again_def popUserAuthDirty_def)
  next
    case (Inr api)
    obtain err s3 where l: "login d api user v s2 = (err, s3)" by (metis surj_pair)
    note logged = login_done [OF l, of u]
    have "r = (case err of None \<Rightarrow> Inr v | Some e \<Rightarrow> Inl e) \<and> s' = s3"
      using again a dirty Inr l by (auto simp: login_again_def popUserAuthDirty_def split: option.splits)
    then show ?thesis using frame s1 logged by (cases err) simp_all
  qed
qed

lemma ensure_fresh:
  "session_of s user = Fresh v \<Longrightarrow> ensureUserKubeconfig d user s = (Inr v, s)"
  by (auto simp: session_of_def session_at_def session_path_at ensureUserKubeconfig_def login_again_def
      popUserAuthDirty_def split: option.splits if_splits)

lemma ensure_new:
  assumes "session_of s user = NoSession" and "ensureUserKubeconfig d user s = (Inr v, s')" and "temp_ok d"
  shows "session_of s' = (session_of s)(user := Fresh v) \<and> m_impersonation s' = m_impersonation s
    \<and> told u s' = LoggedIn user v # told u s"
proof -
  have "login_first d user s = (Inr v, s')"
    using assms(1,2) by (auto simp: session_of_def session_at_def session_path_at ensureUserKubeconfig_def split: option.splits if_splits)
  then obtain api s1 s2 s3 where a: "ensureMAGAPIServer d s = (Inr api, s1)"
    and c: "create_temp d (''mag-kubeconfig-'' @ user @ ''-'') s1 = (Some v, s2)"
    and l: "login d api user v s2 = (None, s3)"
    and s': "s' = snd (popUserAuthDirty user (s3\<lparr>m_kubeconfigs := (m_kubeconfigs s3)(user \<mapsto> v)\<rparr>))"
    by (auto simp: login_first_def split: prod.splits sum.splits option.splits)
  have "trim_space v \<noteq> []" using c assms(3) by (auto simp: create_temp_def temp_ok_def split: option.splits)
  moreover have "m_dirty s' = (m_dirty s3)(user := False)" and "m_kubeconfigs s' = (m_kubeconfigs s3)(user \<mapsto> v)"
    by (auto simp: s' popUserAuthDirty_def fun_eq_iff)
  ultimately have "session_of s' = (session_of s3)(user := Fresh v)" by (simp add: session_of_def session_new)
  then show ?thesis
    using api_frame [OF a, of u] temp_frame [OF c] login_done [OF l, of u] by (simp add: s' popUserAuthDirty_def)
qed

end
