(* ===== verification/ApprovalProperties.thy ===== *)
theory ApprovalProperties
  imports ApprovalSafety
begin

text \<open>
  The sessions of the test users over whole runs: what the package caches is what the commands it ran
  say about logins and changes of group members, as long as no operation fails; and what happens
  when one does.
\<close>

section \<open>The automaton over the log\<close>

primrec sessions_spec :: "session_event list \<Rightarrow> string \<Rightarrow> session" where
  "sessions_spec [] = (\<lambda>_. NoSession)"
| "sessions_spec (e # l) =
     (case e of
        LoggedIn user v \<Rightarrow> (sessions_spec l)(user := Fresh v)
      | Regrouped users \<Rightarrow> regroup users (sessions_spec l)
      | Acted user v \<Rightarrow> sessions_spec l
      | Cleared \<Rightarrow> (\<lambda>_. NoSession))"

primrec acted_fresh :: "session_event list \<Rightarrow> bool" where
  "acted_fresh [] = True"
| "acted_fresh (e # l) =
     (acted_fresh l \<and> (case e of Acted user v \<Rightarrow> sessions_spec l user = Fresh v | _ \<Rightarrow> True))"

lemma acted_fresh_split: "acted_fresh (later @ Acted user v # earlier) \<Longrightarrow> sessions_spec earlier user = Fresh v"
  by (induction later) auto

section \<open>Runs without failures\<close>

text \<open>
  The members of a group before and after a call of \<open>EnsureGroupMembers\<close>, as the cluster answered the
  commands of the call, and the event when they differ. What the call then marks plays no part in it.
\<close>

fun answer :: "string list \<Rightarrow> 'b event list \<Rightarrow> cmd_result option" where
  "answer line [] = None"
| "answer line (e # evs) =
     (case e of Ran l res \<Rightarrow> if l = line then Some res else answer line evs | _ \<Rightarrow> answer line evs)"

definition members_before :: "'w mag_deps \<Rightarrow> string \<Rightarrow> gate_body event list \<Rightarrow> string list option" where
  "members_before d grp evs =
     (case answer (get_line d grp) evs of
        Some got \<Rightarrow> if ExitCode got = 0 then Some (user_list (Stdout got)) else None
      | None \<Rightarrow> None)"

definition members_after :: "'w mag_deps \<Rightarrow> string \<Rightarrow> string list \<Rightarrow> gate_body event list \<Rightarrow> string list" where
  "members_after d grp users evs =
     (case answer (patch_line d grp users) evs of Some res \<Rightarrow> user_list (Stdout res) | None \<Rightarrow> [])"

definition group_change :: "'w mag_deps \<Rightarrow> string \<Rightarrow> string list \<Rightarrow> gate_body event list \<Rightarrow> session_event list" where
  "group_change d grp users evs =
     (let after = members_after d grp users evs
      in case members_before d grp evs of
           None \<Rightarrow> [Regrouped after]
         | Some before \<Rightarrow> if mset before = mset after then [] else [Regrouped (before @ after)])"

definition plain_members :: "'w mag_deps \<Rightarrow> string \<Rightarrow> string list \<Rightarrow> gate_body event list \<Rightarrow> bool" where
  "plain_members d grp users evs =
     list_all (\<lambda>u. u \<noteq> [] \<and> CHR '','' \<notin> set u)
       ((case members_before d grp evs of None \<Rightarrow> [] | Some before \<Rightarrow> before) @ members_after d grp users evs)"

text \<open>
  Any sequence of membership changes, actions, group deletions, cleanups and operations that leave
  the session variables alone, none of which failed, with the events of their commands, newest
  first. The names the cluster answers are not blank and have no comma. A deleted group is no event.
\<close>

definition new_events :: "'w mag_state \<Rightarrow> 'w mag_state \<Rightarrow> gate_body event list" where
  "new_events s s' = take (length (io_trace s') - length (io_trace s)) (io_trace s')"

inductive mag_run :: "'w mag_deps \<Rightarrow> 'w mag_state \<Rightarrow> session_event list \<Rightarrow> bool" for d where
  run_start: "m_kubeconfigs s = Map.empty \<Longrightarrow> m_dirty s = (\<lambda>_. False) \<Longrightarrow> m_impersonation s = NotRun \<Longrightarrow> mag_run d s []"
| run_group: "mag_run d s l \<Longrightarrow> EnsureGroupMembers d grp users s = (None, s')
     \<Longrightarrow> plain_members d grp users (new_events s s') \<Longrightarrow> mag_run d s' (group_change d grp users (new_events s s') @ l)"
| run_act: "mag_run d s l \<Longrightarrow> PerformApprovalTaskActionAsUser d user action task namespace message s = (None, s')
     \<Longrightarrow> mag_run d s' (events_of user (new_events s s') @ l)"
| run_delete: "mag_run d s l \<Longrightarrow> DeleteGroup d grp s = (err, s') \<Longrightarrow> mag_run d s' l"
| run_quiet: "mag_run d s l \<Longrightarrow> same_vars s s' \<Longrightarrow> mag_run d s' l"
| run_cleanup: "mag_run d s l \<Longrightarrow> mag_run d (CleanupUserKubeconfigs s) (Cleared # l)"

definition in_step :: "'w mag_state \<Rightarrow> session_event list \<Rightarrow> bool" where
  "in_step s l \<longleftrightarrow> session_of s = sessions_spec l
     \<and> (m_impersonation s \<noteq> Once (None, True) \<longrightarrow> acted_fresh l)"

lemma in_step_same: "same_vars s s' \<Longrightarrow> in_step s' l = in_step s l"
  using session_of_same [of s s'] by (simp add: in_step_def same_vars_def)

lemma DeleteGroup_quiet: "DeleteGroup d grp s = (err, s') \<Longrightarrow> same_vars s s'"
  by (auto simp: DeleteGroup_def split: prod.splits dest!: g_run_frame)

lemma hosted_frame:
  assumes "IsHostedCluster d s = (b, s')"
  shows "same_vars s s' \<and> told u s' = told u s"
proof -
  let ?line = "[''oc'', ''get'', ''infrastructure'', ''cluster'', ''-o'', ''jsonpath={.status.controlPlaneTopology}'']"
  obtain res t where r: "g_run d ?line s = (res, t)" by (metis surj_pair)
  note t = g_run_frame [OF r]
  have "told u t = told u s" unfolding t [THEN conjunct2] events_of_simps other_lines by simp
  moreover have "s' = t" using assms r by (simp add: IsHostedCluster_def)
  ultimately show ?thesis using t by blast
qed

lemma decide_frame: "decide_impersonation d s = (r, s') \<Longrightarrow> same_vars s s' \<and> told u s' = told u s"
  by (auto simp: decide_impersonation_def Let_def split: prod.splits if_splits option.splits dest: hosted_frame)

lemma useImpersonation_done:
  assumes "useImpersonation d s = (Inr b, s')"
  shows "session_of s' = session_of s \<and> told u s' = told u s \<and> m_impersonation s' = Once (None, b)
    \<and> (m_impersonation s = NotRun \<or> m_impersonation s = Once (None, b))"
proof (cases "m_impersonation s")
  case NotRun
  obtain err v t where r: "decide_impersonation d s = ((err, v), t)" by (metis surj_pair)
  from decide_frame [OF r, of u] NotRun r assms show ?thesis
    by (auto simp: useImpersonation_def same_vars_def session_of_def split: if_splits)
next
  case (Once x)
  with assms show ?thesis by (cases x; cases "fst x") (auto simp: useImpersonation_def)
qed

lemma userGroups_frame:
  assumes "userGroups d user s = (r, s')"
  shows "same_vars s s' \<and> told u s' = told u s"
proof -
  obtain q t where q: "g_must d [''oc'', ''get'', ''groups'', ''-o'', ''json''] s = (q, t)" by (metis surj_pair)
  obtain res where t: "same_vars s t"
    "io_trace t = Ran (Command (g_connection d) [''oc'', ''get'', ''groups'', ''-o'', ''json'']) res # io_trace s"
    by (rule g_must_frame [OF q])
  have "told u t = told u s" unfolding t(2) events_of_simps other_lines by simp
  with assms q t(1) show ?thesis by (auto simp: userGroups_def split: sum.splits option.splits)
qed

lemma impersonation_frame:
  assumes "impersonationKubeconfig d user s = (r, s')"
  shows "session_of s' = session_of s \<and> told u s' = told u s \<and> m_impersonation s' = m_impersonation s"
proof -
  obtain g s1 where g: "userGroups d user s = (g, s1)" by (metis surj_pair)
  obtain q s2 where q: "create_temp d (''mag-impersonate-'' @ user @ ''-'') s1 = (q, s2)" by (metis surj_pair)
  from userGroups_frame [OF g, of u] temp_frame [OF q] session_of_same [of s s1] show ?thesis
    using assms g q
    by (auto simp: impersonationKubeconfig_def Let_def same_vars_def split: sum.splits option.splits prod.splits if_splits)
qed

text \<open>Every call only adds to the trace.\<close>

lemma new_events_grows: "grows s s' \<Longrightarrow> io_trace s' = new_events s s' @ io_trace s"
  by (auto simp: grows_def new_events_def)

lemma grows_g_run: "g_run d args s = (res, s') \<Longrightarrow> grows s s'"
  by (auto simp: grows_def dest!: g_run_frame)

lemma grows_g_must: "g_must d args s = (r, s') \<Longrightarrow> grows s s'"
  by (erule g_must_frame) (auto simp: grows_def)

lemma grows_fields [simp]: "grows s (t\<lparr>m_impersonation := i\<rparr>) = grows s t" "grows s (t\<lparr>m_apiServer := a\<rparr>) = grows s t"
  "grows s (t\<lparr>m_log := lg\<rparr>) = grows s t" "grows s (t\<lparr>m_dirty := di\<rparr>) = grows s t" "grows s (t\<lparr>m_files := fi\<rparr>) = grows s t"
  "grows s (t\<lparr>m_kubeconfigs := k\<rparr>) = grows s t" "grows s (t\<lparr>m_temp := n\<rparr>) = grows s t"
  "grows (s\<lparr>m_dirty := di\<rparr>) t = grows s t"
  by (simp_all add: grows_def)

lemma grows_useImpersonation: "useImpersonation d s = (r, s') \<Longrightarrow> grows s s'"
  by (auto simp: useImpersonation_def decide_impersonation_def IsHostedCluster_def Let_def grows_refl
      split: once.splits prod.splits option.splits if_splits dest: grows_g_run)

lemma grows_api: "ensureMAGAPIServer d s = (r, s') \<Longrightarrow> grows s s'"
  by (auto simp: ensureMAGAPIServer_def Let_def grows_refl
      split: once.splits prod.splits option.splits sum.splits if_splits dest: grows_g_must)

lemma grows_login: "login d api user v s = (err, s') \<Longrightarrow> grows s s'"
  by (auto simp: login_def split: prod.splits sum.splits dest: grows_g_must)

lemma grows_temp: "create_temp d p s = (q, s') \<Longrightarrow> grows s s'"
  by (auto simp: create_temp_def grows_refl split: option.splits)

lemma grows_impersonation: "impersonationKubeconfig d user s = (r, s') \<Longrightarrow> grows s s'"
  by (auto simp: impersonationKubeconfig_def userGroups_def Let_def grows_refl
      split: prod.splits sum.splits option.splits if_splits dest!: grows_g_must grows_temp intro: grows_trans)

lemma grows_ensure: "ensureUserKubeconfig d user s = (r, s') \<Longrightarrow> grows s s'"
  by (auto simp: ensureUserKubeconfig_def login_again_def login_first_def popUserAuthDirty_def grows_refl
      split: prod.splits sum.splits option.splits if_splits dest!: grows_api grows_temp grows_login intro: grows_trans)

lemma grows_userEnv: "userEnv d user s = (r, s') \<Longrightarrow> grows s s'"
  by (auto simp: userEnv_def split: prod.splits sum.splits bool.splits
      dest!: grows_useImpersonation grows_impersonation grows_ensure intro: grows_trans)

lemma grows_act:
  assumes "act_as d user args judge s = (err, s')"
  shows "grows s s'"
proof -
  obtain r s1 where u: "userEnv d user s = (r, s1)" by (metis surj_pair)
  note g = grows_userEnv [OF u]
  show ?thesis
  proof (cases r)
    case (Inl e)
    with assms u g show ?thesis by (simp add: act_as_def)
  next
    case (Inr p)
    obtain kc tmp where p: "p = (kc, tmp)" by (cases p)
    obtain res s2 where run: "RunWithEnv (g_shell d) (g_connection d) [''KUBECONFIG='' @ kc] args s1 = (res, s2)"
      by (metis surj_pair)
    then have "grows s1 s2" unfolding RunWithEnv_def by (auto simp: grows_def dest!: call_frames(6))
    with g have "grows s s2" by (rule grows_trans)
    with assms u Inr p run show ?thesis by (auto simp: act_as_def remove_file_def split: option.splits)
  qed
qed

text \<open>Getting a kubeconfig by login is the transition of the automaton.\<close>

lemma ensure_done:
  assumes "ensureUserKubeconfig d user s = (Inr v, s')" and "temp_ok d"
  shows "session_of s' = (session_of s)(user := Fresh v) \<and> m_impersonation s' = m_impersonation s
    \<and> (session_of s user = Fresh v \<and> s' = s \<or> told u s' = LoggedIn user v # told u s)"
proof (cases "session_of s user")
  case NoSession
  with ensure_new [OF _ assms] show ?thesis by simp
next
  case (Fresh w)
  with ensure_fresh [OF Fresh, of d] assms show ?thesis by auto
next
  case (Stale w)
  with ensure_stale [OF Stale assms(1), of u] show ?thesis by auto
qed

text \<open>An action, in the automaton: at most one login of the user, then the action with that session.\<close>

lemma act_events:
  assumes "temp_ok d" and act: "act_as d user args judge s = (None, s')"
  obtains b kc where "m_impersonation s' = Once (None, b)" and "m_impersonation s = NotRun \<or> m_impersonation s = Once (None, b)"
    and "b \<Longrightarrow> session_of s' = session_of s \<and> told user s' = Acted user kc # told user s"
    and "\<not> b \<Longrightarrow> session_of s' = (session_of s)(user := Fresh kc)
      \<and> (told user s' = Acted user kc # told user s \<and> session_of s user = Fresh kc
         \<or> told user s' = Acted user kc # LoggedIn user kc # told user s)"
proof -
  obtain b s1 where i: "useImpersonation d s = (Inr b, s1)"
    using act by (auto simp: act_as_def userEnv_def split: prod.splits sum.splits bool.splits)
  note i' = useImpersonation_done [OF i, of user]
  obtain kc tmp s2 where u: "userEnv d user s = (Inr (kc, tmp), s2)"
    using act by (auto simp: act_as_def split: prod.splits sum.splits)
  obtain res s3 where r: "RunWithEnv (g_shell d) (g_connection d) [''KUBECONFIG='' @ kc] args s2 = (res, s3)"
    by (metis surj_pair)
  then have tr: "io_trace s3 = Ran (''env'' # [''KUBECONFIG='' @ kc] @ Command (g_connection d) args) res # io_trace s2"
    and more: "io.more s3 = io.more s2"
    unfolding RunWithEnv_def using call_frames(6) by blast+
  have told: "told user s3 = Acted user kc # told user s2"
    unfolding tr events_of_simps action_line by simp
  have f: "session_of s3 = session_of s2" "m_impersonation s3 = m_impersonation s2"
    using mag_more [OF more] by (simp_all add: session_of_def)
  have "s' = (case tmp of None \<Rightarrow> s3 | Some path \<Rightarrow> remove_file path s3)"
    using act u r by (auto simp: act_as_def split: option.splits)
  then have s': "session_of s' = session_of s2" "told user s' = Acted user kc # told user s2"
    "m_impersonation s' = m_impersonation s2"
    using f told by (auto simp: remove_file_def session_of_def split: option.splits)
  show thesis
  proof (cases b)
    case True
    then have "session_of s2 = session_of s1 \<and> told user s2 = told user s1 \<and> m_impersonation s2 = m_impersonation s1"
      using u i impersonation_frame [of d user s1 _ _ user]
      by (auto simp: userEnv_def split: prod.splits sum.splits)
    with s' i' True show thesis by (intro that [of True kc]) simp_all
  next
    case False
    then have "ensureUserKubeconfig d user s1 = (Inr kc, s2)"
      using u i by (auto simp: userEnv_def split: prod.splits sum.splits)
    from ensure_done [OF this assms(1), of user] i' False s' show thesis
      by (intro that [of False kc]) auto
  qed
qed

lemma act_in_step:
  assumes "in_step s l" and "temp_ok d" and act: "act_as d user args judge s = (None, s')"
  shows "in_step s' (events_of user (new_events s s') @ l)"
proof (rule act_events [OF assms(2,3)])
  fix b kc
  assume b: "m_impersonation s' = Once (None, b)" "m_impersonation s = NotRun \<or> m_impersonation s = Once (None, b)"
    "b \<Longrightarrow> session_of s' = session_of s \<and> told user s' = Acted user kc # told user s"
    "\<not> b \<Longrightarrow> session_of s' = (session_of s)(user := Fresh kc)
      \<and> (told user s' = Acted user kc # told user s \<and> session_of s user = Fresh kc
         \<or> told user s' = Acted user kc # LoggedIn user kc # told user s)"
  let ?evs = "new_events s s'"
  have "told user s' = events_of user ?evs @ told user s"
    using new_events_grows [OF grows_act [OF act]] by (metis events_of_simps(3))
  then have new: "told user s' = xs @ told user s \<Longrightarrow> events_of user ?evs = xs" for xs by simp
  show ?thesis
  proof (cases b)
    case True
    with b(3) new [of "[Acted user kc]"] have "events_of user ?evs = [Acted user kc]" by simp
    with assms(1) b(1,3) True show ?thesis by (simp add: in_step_def)
  next
    case False
    then consider "events_of user ?evs = [Acted user kc]" "session_of s user = Fresh kc"
      | "events_of user ?evs = [Acted user kc, LoggedIn user kc]"
      using b(4) new [of "[Acted user kc]"] new [of "[Acted user kc, LoggedIn user kc]"] by auto
    then show ?thesis
      using assms(1) b(1,2,4) False by cases (auto simp: in_step_def)
  qed
qed

text \<open>The lines of a call are told apart by their ends.\<close>

lemma group_lines:
  "get_line d grp \<noteq> patch_line d grp users"
  "get_line d grp \<noteq> Command (g_connection d) [''oc'', ''adm'', ''groups'', ''new'', grp]"
  "patch_line d grp users \<noteq> Command (g_connection d) [''oc'', ''adm'', ''groups'', ''new'', grp]"
proof -
  have oc: "\<exists>front. Command cn (''oc'' # rest) = front @ rest" for cn and rest :: "string list"
    using add_flags_acc [of "connection_flags cn" rest "[''oc'']"] by auto
  have rev: "\<exists>back. rev (Command cn (''oc'' # rest)) = rev rest @ back" for cn and rest :: "string list"
    using oc [of cn rest] by (metis rev_append)
  obtain x y z where "rev (get_line d grp) = rev [''get'', ''group'', grp, ''-o'', ''jsonpath={.users[*]}''] @ x"
    and "rev (patch_line d grp users)
      = rev [''patch'', ''group'', grp, ''--type=merge'', ''-p'', members_patch users, ''-o'', ''jsonpath={.users[*]}''] @ y"
    and "rev (Command (g_connection d) [''oc'', ''adm'', ''groups'', ''new'', grp]) = rev [''adm'', ''groups'', ''new'', grp] @ z"
    using rev by metis
  then have "rev (get_line d grp) \<noteq> rev (patch_line d grp users)"
    "rev (get_line d grp) \<noteq> rev (Command (g_connection d) [''oc'', ''adm'', ''groups'', ''new'', grp])"
    "rev (patch_line d grp users) \<noteq> rev (Command (g_connection d) [''oc'', ''adm'', ''groups'', ''new'', grp])"
    by simp_all
  then show "get_line d grp \<noteq> patch_line d grp users"
    "get_line d grp \<noteq> Command (g_connection d) [''oc'', ''adm'', ''groups'', ''new'', grp]"
    "patch_line d grp users \<noteq> Command (g_connection d) [''oc'', ''adm'', ''groups'', ''new'', grp]"
    by (metis rev_rev_ident)+
qed

lemma same_members_iff:
  assumes "list_all (\<lambda>u. u \<noteq> [] \<and> CHR '','' \<notin> set u) (us @ vs)"
  shows "same_members us vs \<longleftrightarrow> mset us = mset vs"
proof
  assume "same_members us vs"
  then show "mset us = mset vs"
    by (rule same_members_mset) (use assms in \<open>auto simp: list_all_iff\<close>)
next
  assume "mset us = mset vs"
  then have "sort us = sort vs" by (metis mset_sort properties_for_sort sorted_sort)
  then show "same_members us vs" by (simp add: same_members_def)
qed

lemma group_in_step:
  assumes "in_step s l" and "EnsureGroupMembers d grp users s = (None, s')"
    and plain: "plain_members d grp users (new_events s s')"
  shows "in_step s' (group_change d grp users (new_events s s') @ l)"
proof (rule EnsureGroupMembers_done [OF assms(2)])
  fix t got new and res :: cmd_result
  let ?create = "Command (g_connection d) [''oc'', ''adm'', ''groups'', ''new'', grp]"
  let ?before = "members_of_answer got" and ?after = "user_list (Stdout res)"
  assume t: "same_vars s t" "io_trace t = [Ran (patch_line d grp users) res, Ran ?create new, Ran (get_line d grp) got] @ io_trace s"
    and s': "s' = (if ExitCode got \<noteq> 0 \<or> \<not> same_members ?before ?after then markUsersAuthDirty (?before @ ?after) t else t)"
  have tr: "io_trace s' = io_trace t" using s' by (simp add: markUsersAuthDirty_def)
  let ?evs = "new_events s s'"
  have evs': "?evs = [Ran (patch_line d grp users) res, Ran ?create new, Ran (get_line d grp) got]"
    using t(2) tr by (simp add: new_events_def)
  have seen: "members_before d grp ?evs = (if ExitCode got = 0 then Some ?before else None)"
    "members_after d grp users ?evs = ?after"
    using group_lines(1) [of d grp users, symmetric] group_lines(2) [of d grp, symmetric]
    by (simp_all add: members_before_def members_after_def members_of_answer_def evs' del: Command.simps)
  have same: "same_members ?before ?after \<longleftrightarrow> mset ?before = mset ?after" if "ExitCode got = 0"
    by (rule same_members_iff) (use plain that in \<open>simp add: plain_members_def seen\<close>)
  have "group_change d grp users ?evs = (if ExitCode got \<noteq> 0 \<or> \<not> same_members ?before ?after
      then [Regrouped (?before @ ?after)] else [])"
    using same by (auto simp: group_change_def seen Let_def members_of_answer_def)
  moreover have "in_step t l" using assms(1) in_step_same [OF t(1)] by simp
  ultimately show ?thesis
    by (auto simp: s' in_step_def session_of_marked) (simp_all add: markUsersAuthDirty_def)
qed

lemma perform_acts:
  "PerformApprovalTaskActionAsUser d user action task namespace message s = (None, s') \<Longrightarrow>
     \<exists>args judge. act_as d user args judge s = (None, s')"
  by (auto simp: PerformApprovalTaskActionAsUser_def action_dispatch_def Let_def ApproveApprovalTaskAsUser_def
      RejectApprovalTaskAsUser_def ApproveApprovalTaskExpectFailAsUser_def ApproveApprovalTaskAllowFinalStateAsUser_def
      split: if_splits option.splits)

lemma run_in_step:
  assumes "mag_run d s l" and "temp_ok d"
  shows "in_step s l"
  using assms(1)
proof induction
  case (run_start s)
  then show ?case by (auto simp: in_step_def session_of_def session_at_def path_at_def)
next
  case (run_group s l grp users s')
  then show ?case using group_in_step by blast
next
  case (run_act s l user action task namespace message s')
  then show ?case using perform_acts act_in_step assms(2) by metis
next
  case (run_delete s l grp err s')
  then show ?case using in_step_same [OF DeleteGroup_quiet] by blast
next
  case (run_quiet s l s')
  then show ?case using in_step_same by blast
next
  case (run_cleanup s l)
  then show ?case by (auto simp: in_step_def CleanupUserKubeconfigs_def session_of_def session_at_def path_at_def)
qed

section \<open>A small run\<close>

text \<open>A cluster whose commands succeed; the group is new, and has one member after the patch.\<close>

definition gate_shell :: "unit shell" where
  "gate_shell args w =
     (if ''group'' \<in> set args \<and> ''get'' \<in> set args then (\<lparr>ExitCode = 1, Stdout = [], Stderr = []\<rparr>, w)
      else if ''whoami'' \<in> set args then (\<lparr>ExitCode = 0, Stdout = ''https://api'', Stderr = []\<rparr>, w)
      else if ''patch'' \<in> set args then (\<lparr>ExitCode = 0, Stdout = ''user1'', Stderr = []\<rparr>, w)
      else (\<lparr>ExitCode = 0, Stdout = [], Stderr = []\<rparr>, w))"

definition gate_deps :: "unit mag_deps" where
  "gate_deps =
     \<lparr>g_server = \<lparr>sv_get = \<lambda>r w. (Inl NotFound, w), sv_create = \<lambda>ob w. (Inl AlreadyExists, w),
        sv_update = \<lambda>ob w. (Inl Conflict, w), sv_delete = \<lambda>r w. (None, w), sv_list = \<lambda>c k ns sel w. (Inr [], w)\<rparr>,
      g_namespace = ''ns'', g_poll = rounds_poller 0, g_shell = gate_shell, g_stdin = (\<lambda>_. gate_shell),
      g_connection = \<lparr>cn_Kubeconfig = [], cn_Context = [], cn_Cluster = []\<rparr>,
      g_env = [''MAG_USE_IMPERSONATION'' \<mapsto> ''false''], g_defaulted = id,
      g_createTemp = (\<lambda>p n. Some ''/tmp/kubeconfig''), g_unmarshalGroups = (\<lambda>_. None), g_loadConfig = (\<lambda>_. None),
      g_minify = Some, g_flatten = Some, g_writeConfig = (\<lambda>_ _. True)\<rparr>"

definition gate_start :: "unit mag_state" where
  "gate_start =
     \<lparr>io_world = (), io_trace = [], m_cr = None, m_tasks = [], m_picked = None, m_last = None,
      m_kubeconfigs = Map.empty, m_dirty = (\<lambda>_. False), m_apiServer = NotRun, m_impersonation = NotRun,
      m_temp = 0, m_files = {}, m_log = []\<rparr>"

definition gate_act :: "unit mag_state \<Rightarrow> kerror option \<times> unit mag_state" where
  "gate_act = PerformApprovalTaskActionAsUser gate_deps ''user1'' ''Approve'' ''task'' ''ns'' []"

definition gate_regroup :: "unit mag_state \<Rightarrow> kerror option \<times> unit mag_state" where
  "gate_regroup = EnsureGroupMembers gate_deps ''mag-ns-devs'' [''user1'']"

definition gate_acted :: "unit mag_state" where "gate_acted = snd (gate_act gate_start)"
definition gate_regrouped :: "unit mag_state" where "gate_regrouped = snd (gate_regroup gate_acted)"
definition gate_again :: "unit mag_state" where "gate_again = snd (gate_act gate_regrouped)"

lemma gate_temp_ok: "temp_ok gate_deps"
proof -
  have "trim_space ''/tmp/kubeconfig'' \<noteq> []" by code_simp
  then show ?thesis by (simp add: temp_ok_def gate_deps_def)
qed

lemma gate_runs:
  "fst (gate_act gate_start) = None" "fst (gate_regroup gate_acted) = None" "fst (gate_act gate_regrouped) = None"
  by code_simp+

lemma gate_events:
  "events_of ''user1'' (new_events gate_start gate_acted) = [Acted ''user1'' ''/tmp/kubeconfig'', LoggedIn ''user1'' ''/tmp/kubeconfig'']"
  "group_change gate_deps ''mag-ns-devs'' [''user1''] (new_events gate_acted gate_regrouped) = [Regrouped [''user1'']]"
  "plain_members gate_deps ''mag-ns-devs'' [''user1''] (new_events gate_acted gate_regrouped)"
  "events_of ''user1'' (new_events gate_regrouped gate_again) = [Acted ''user1'' ''/tmp/kubeconfig'', LoggedIn ''user1'' ''/tmp/kubeconfig'']"
  by code_simp+

lemma gate_impersonation: "m_impersonation gate_again = Once (None, False)"
  by code_simp

lemma gate_mag_run:
  "mag_run gate_deps gate_again
     [Acted ''user1'' ''/tmp/kubeconfig'', LoggedIn ''user1'' ''/tmp/kubeconfig'', Regrouped [''user1''],
      Acted ''user1'' ''/tmp/kubeconfig'', LoggedIn ''user1'' ''/tmp/kubeconfig'']"
proof -
  have "mag_run gate_deps gate_start []" by (rule run_start) (simp_all add: gate_start_def)
  from run_act [OF this] gate_runs(1)
  have 1: "mag_run gate_deps gate_acted [Acted ''user1'' ''/tmp/kubeconfig'', LoggedIn ''user1'' ''/tmp/kubeconfig'']"
    by (metis append_Nil2 gate_acted_def gate_act_def gate_events(1) prod.collapse)
  from run_group [OF 1 _ gate_events(3)] gate_runs(2)
  have 2: "mag_run gate_deps gate_regrouped
      [Regrouped [''user1''], Acted ''user1'' ''/tmp/kubeconfig'', LoggedIn ''user1'' ''/tmp/kubeconfig'']"
    by (metis append_Cons append_Nil gate_regrouped_def gate_regroup_def gate_events(2) prod.collapse)
  from run_act [OF 2] gate_runs(3) show ?thesis
    by (metis append_Cons append_Nil gate_again_def gate_act_def gate_events(4) prod.collapse)
qed

section \<open>Properties\<close>

text \<open>
  C30: the cached kubeconfigs and the dirty marks refine the automaton of sessions: in every run without
  a failed operation each user's session is what the successful logins, the changes of group members
  that EnsureGroupMembers saw in the answers of the cluster and the cleanups so far make of it, so
  users are marked exactly when their session is out of date. Deleted groups are no change here, and
  the names of members are assumed not to be blank or to have commas, the paths of temporary files not to be blank.
\<close>

theorem sessions_refine:
  assumes "mag_run d s l" and "temp_ok d"
  shows "session_of s = sessions_spec l"
  using run_in_step [OF assms] by (simp add: in_step_def)

theorem sessions_refine_witness: "session_of gate_again ''user1'' = Fresh ''/tmp/kubeconfig''"
  using sessions_refine [OF gate_mag_run gate_temp_ok] by simp

text \<open>
  C31: in every run without a failed operation and without impersonation, the command of a test user's
  action runs with the kubeconfig of a login that came after the last change of the user's groups
  that EnsureGroupMembers made. DeleteGroup marks nobody, so its former members are not covered, and
  the names of members are assumed not to be blank or to have commas, the paths of temporary files not to be blank.
\<close>

theorem actions_use_fresh_sessions:
  assumes "mag_run d s l" and "temp_ok d" and "m_impersonation s = Once (None, False)"
    and "l = later @ Acted user kubeconfig # earlier"
  shows "sessions_spec earlier user = Fresh kubeconfig"
  using run_in_step [OF assms(1,2)] assms(3,4) by (auto simp: in_step_def intro: acted_fresh_split)

theorem actions_use_fresh_sessions_witness:
  "sessions_spec [LoggedIn ''user1'' ''/tmp/kubeconfig'', Regrouped [''user1''],
      Acted ''user1'' ''/tmp/kubeconfig'', LoggedIn ''user1'' ''/tmp/kubeconfig''] ''user1'' = Fresh ''/tmp/kubeconfig''"
  by (rule actions_use_fresh_sessions [OF gate_mag_run gate_temp_ok gate_impersonation, of "[]"]) simp

text \<open>
  C20: the mark of an outdated session is taken away before the new login, so when that login fails the
  session counts as up to date: the next attempt returns the old kubeconfig without a login.
\<close>

theorem failed_login_forgets:
  assumes "session_of s user = Stale v" and "ensureUserKubeconfig d user s = (Inl e, s')"
  shows "session_of s' user = Fresh v \<and> ensureUserKubeconfig d user s' = (Inr v, s') \<and> m_log s' = m_log s"
proof -
  from ensure_stale [OF assms] have "session_of s' user = Fresh v" and "m_log s' = m_log s" by auto
  with ensure_fresh show ?thesis by blast
qed

theorem failed_login_forgets_witness:
  "\<exists>e s'. ensureUserKubeconfig (gate_deps\<lparr>g_shell := (\<lambda>_ w. (\<lparr>ExitCode = 1, Stdout = [], Stderr = []\<rparr>, w))\<rparr>)
       ''user1'' gate_regrouped = (Inl e, s') \<and> session_of s' ''user1'' = Fresh ''/tmp/kubeconfig''"
proof -
  let ?d = "gate_deps\<lparr>g_shell := (\<lambda>_ w. (\<lparr>ExitCode = 1, Stdout = [], Stderr = []\<rparr>, w))\<rparr>"
  obtain r s' where r: "ensureUserKubeconfig ?d ''user1'' gate_regrouped = (r, s')" by (metis surj_pair)
  have "session_of gate_regrouped ''user1'' = Stale ''/tmp/kubeconfig''" by code_simp
  moreover have "case fst (ensureUserKubeconfig ?d ''user1'' gate_regrouped) of Inl _ \<Rightarrow> True | Inr _ \<Rightarrow> False" by code_simp
  then obtain e where "r = Inl e" using r by (cases r) auto
  ultimately show ?thesis using failed_login_forgets [of gate_regrouped "''user1''" _ ?d] r by blast
qed

theorem group_members_exact_witness:
  "\<exists>line res earlier. io_trace gate_regrouped = Ran line res # earlier \<and> ''mag-ns-devs'' \<in> set line
     \<and> ExitCode res = 0 \<and> mset (user_list (Stdout res)) = mset [''user1'']"
proof -
  have "EnsureGroupMembers gate_deps ''mag-ns-devs'' [''user1''] gate_acted = (None, gate_regrouped)"
    using gate_runs(2) by (simp add: gate_regrouped_def gate_regroup_def prod_eq_iff)
  from group_members_exact [OF this] obtain res earlier where
    r: "io_trace gate_regrouped = Ran (Command (g_connection gate_deps) [''oc'', ''patch'', ''group'', ''mag-ns-devs'', ''--type=merge'', ''-p'',
        ''{\"users\":'' @ marshal_strings [''user1''] @ ''}'', ''-o'', ''jsonpath={.users[*]}'']) res # earlier" "ExitCode res = 0"
    and m: "list_all (\<lambda>u. u \<noteq> [] \<and> CHR '','' \<notin> set u) (user_list (Stdout res)) \<longrightarrow> mset (user_list (Stdout res)) = mset [''user1'']"
    by auto
  have "(case hd (io_trace gate_regrouped) of Ran _ r \<Rightarrow> user_list (Stdout r) | _ \<Rightarrow> []) = [''user1'']" by code_simp
  then have "user_list (Stdout res) = [''user1'']" unfolding r(1) list.sel event.case .
  with m have "mset (user_list (Stdout res)) = mset [''user1'']" by simp
  moreover have "''mag-ns-devs'' \<in> set (Command (g_connection gate_deps) [''oc'', ''patch'', ''group'', ''mag-ns-devs'', ''--type=merge'', ''-p'',
        ''{\"users\":'' @ marshal_strings [''user1''] @ ''}'', ''-o'', ''jsonpath={.users[*]}''])" by simp
  ultimately show ?thesis by (intro exI conjI) (rule r(1), assumption, rule r(2), assumption)
qed

text \<open>A failed \<open>oc whoami\<close> is never repeated: the next call gives an empty server without an error.\<close>

lemma failed_detection_gives_empty_server:
  assumes "m_apiServer s = NotRun" and "fst (g_must d [''oc'', ''whoami'', ''--show-server''] s) = Inl e"
  shows "\<exists>s'. ensureMAGAPIServer d s = (Inl e, s') \<and> ensureMAGAPIServer d s' = (Inr [], s')"
  using assms by (auto simp: ensureMAGAPIServer_def split: prod.splits)

end
