(* ===== verification/MetricsMtls.thy ===== *)
theory MetricsMtls
  imports OcPatches
begin

text \<open>
  \<open>pkg/monitoring/mtls.go\<close>: the checks on the mTLS configuration of the metrics endpoints. Each
  check is one function from the state to an error, and \<open>pollUntilNoError\<close> repeats it. The JSON
  codec, the printer of label selectors and the file system calls are the parameters of
  \<open>mon_deps\<close>.
\<close>

section \<open>State and dependencies\<close>

record MTLSComponentConfig =
  mc_ComponentName :: string
  mc_ServiceName :: string
  mc_ServiceMonitorName :: string
  mc_Namespace :: string
  mc_HTTPPortName :: string
  mc_HTTPSPortName :: string
  mc_PrometheusJob :: string

text \<open>A volume names its Secret or ConfigMap source, None when the pointer is nil.\<close>

record volume =
  vo_Name :: string
  vo_Secret :: "string option"
  vo_ConfigMap :: "string option"

record pod_spec =
  po_Phase :: string
  po_Containers :: "(string \<times> string list) list"
  po_Volumes :: "volume list"

record service_spec =
  sp_Ports :: "(string \<times> int) list"
  sp_Annotations :: "string \<rightharpoonup> string"
  sp_Selector :: "(string \<times> string) list"

datatype mon_body =
    ServiceBody service_spec
  | CertBody "(string \<times> string) list"
  | MonPodBody pod_spec
  | DataBody "string \<rightharpoonup> string"
  | RouteBody string

text \<open>A read decodes into a struct: what is absent has the zero value.\<close>

fun service_of :: "mon_body \<Rightarrow> service_spec" where
  "service_of (ServiceBody sp) = sp"
| "service_of _ = \<lparr>sp_Ports = [], sp_Annotations = Map.empty, sp_Selector = []\<rparr>"

fun secret_data :: "mon_body \<Rightarrow> (string \<times> string) list" where
  "secret_data (CertBody m) = m"
| "secret_data _ = []"

fun pod_of :: "mon_body \<Rightarrow> pod_spec" where
  "pod_of (MonPodBody po) = po"
| "pod_of _ = \<lparr>po_Phase = [], po_Containers = [], po_Volumes = []\<rparr>"

text \<open>
  \<open>t_lastErr\<close> is the variable the poll closure assigns; \<open>t_temp\<close> counts the temporary files made
  and \<open>t_files\<close> are those that exist.
\<close>

record 'w mon_state = "('w, mon_body) io" +
  t_lastErr :: "kerror option"
  t_temp :: nat
  t_files :: "string set"

record 'w mon_deps =
  t_server :: "('w, mon_body) server"
  t_poll :: "('w mon_state, kerror) poller"
  t_shell :: "'w shell"
  t_connection :: connection
  t_unmarshal :: "string \<Rightarrow> (string \<times> json) list option"
  t_marshal :: "(string \<times> json) list \<Rightarrow> string option"
  t_formatSelector :: "(string \<times> string) list \<Rightarrow> string"
  t_createTemp :: "nat \<Rightarrow> string option"
  t_write :: "string \<Rightarrow> string \<Rightarrow> bool"
  t_close :: "string \<Rightarrow> bool"

definition t_run :: "'w mon_deps \<Rightarrow> string list \<Rightarrow> 'w mon_state \<Rightarrow> cmd_result \<times> 'w mon_state" where
  "t_run d args = Run (t_shell d) (t_connection d) args"

definition service_ref :: "string \<Rightarrow> string \<Rightarrow> ref" where
  "service_ref ns name = Ref [] ''Service'' ns name"

definition secret_ref :: "string \<Rightarrow> string \<Rightarrow> ref" where
  "secret_ref ns name = Ref [] ''Secret'' ns name"

definition ServingCertAnnotation :: string where
  "ServingCertAnnotation = ''service.beta.openshift.io/serving-cert-secret-name''"

text \<open>\<open>%q\<close> of a printable text.\<close>

definition go_quote :: "string \<Rightarrow> string" where
  "go_quote t = quoted (escape t)"

section \<open>Repeating a check\<close>

definition no_error_condition :: "'w mon_state step \<Rightarrow> ('w mon_state, kerror) cond" where
  "no_error_condition check s =
     (case check s of
        (Some e, s1) \<Rightarrow> ((False, None), s1\<lparr>t_lastErr := Some e\<rparr>)
      | (None, s1) \<Rightarrow> ((True, None), s1))"

definition pollUntilNoError :: "'w mon_deps \<Rightarrow> 'w mon_state step \<Rightarrow> 'w mon_state step" where
  "pollUntilNoError d check s =
     (case t_poll d 5 600 True (no_error_condition check) (s\<lparr>t_lastErr := None\<rparr>) of
        (None, s') \<Rightarrow> (None, s')
      | (err, s') \<Rightarrow> (if t_lastErr s' \<noteq> None then t_lastErr s' else of_poll err, s'))"

section \<open>Services\<close>

definition formatPortNames :: "(string \<times> int) list \<Rightarrow> string" where
  "formatPortNames ports = join '', '' (map (\<lambda>(name, port). name @ ''('' @ show_int port @ '')'') ports)"

definition service_error :: "MTLSComponentConfig \<Rightarrow> string \<Rightarrow> kerror" where
  "service_error cfg msg = KMsg (''service '' @ mc_Namespace cfg @ ''/'' @ mc_ServiceName cfg @ msg)"

definition get_service :: "'w mon_deps \<Rightarrow> MTLSComponentConfig \<Rightarrow> 'w mon_state \<Rightarrow>
    (kerror + service_spec) \<times> 'w mon_state" where
  "get_service d cfg s =
     (case k_get (t_server d) (service_ref (mc_Namespace cfg) (mc_ServiceName cfg)) s of
        (Inl e, s1) \<Rightarrow>
          (Inl (KContext (''failed to get Service '' @ mc_Namespace cfg @ ''/'' @ mc_ServiceName cfg) (KApi e)), s1)
      | (Inr svc, s1) \<Rightarrow> (Inr (service_of (o_body svc)), s1))"

text \<open>A missing port name, with the ports there are.\<close>

definition port_error :: "MTLSComponentConfig \<Rightarrow> string \<Rightarrow> service_spec \<Rightarrow> kerror" where
  "port_error cfg name svc = service_error cfg
     ('': expected port named '' @ go_quote name @ '', got ports: '' @ formatPortNames (sp_Ports svc))"

definition checkServiceMTLSEnabled :: "'w mon_deps \<Rightarrow> MTLSComponentConfig \<Rightarrow> 'w mon_state step" where
  "checkServiceMTLSEnabled d cfg s =
     (case get_service d cfg s of
        (Inl e, s1) \<Rightarrow> (Some e, s1)
      | (Inr svc, s1) \<Rightarrow>
          if \<not> list_ex (\<lambda>(name, port). name = mc_HTTPSPortName cfg) (sp_Ports svc)
          then (Some (port_error cfg (mc_HTTPSPortName cfg) svc), s1)
          else
            let secretName = label_of (sp_Annotations svc) ServingCertAnnotation in
            if secretName = []
            then (Some (service_error cfg ('': missing annotation '' @ go_quote ServingCertAnnotation)), s1)
            else
              let shown = ''serving-cert Secret '' @ mc_Namespace cfg @ ''/'' @ secretName in
              (case k_get (t_server d) (secret_ref (mc_Namespace cfg) secretName) s1 of
                 (Inl e, s2) \<Rightarrow> (Some (KContext (shown @ '' not found'') (KApi e)), s2)
               | (Inr secret, s2) \<Rightarrow>
                   if secret_data (o_body secret) = [] then (Some (KMsg (shown @ '' exists but has no data'')), s2)
                   else (None, s2)))"

definition checkServiceMTLSDisabled :: "'w mon_deps \<Rightarrow> MTLSComponentConfig \<Rightarrow> 'w mon_state step" where
  "checkServiceMTLSDisabled d cfg s =
     (case get_service d cfg s of
        (Inl e, s1) \<Rightarrow> (Some e, s1)
      | (Inr svc, s1) \<Rightarrow>
          if \<not> list_ex (\<lambda>(name, port). name = mc_HTTPPortName cfg) (sp_Ports svc)
          then (Some (port_error cfg (mc_HTTPPortName cfg) svc), s1)
          else
            let secretName = label_of (sp_Annotations svc) ServingCertAnnotation in
            if secretName \<noteq> []
            then (Some (service_error cfg ('': unexpected annotation '' @ go_quote ServingCertAnnotation @ ''=''
                    @ go_quote secretName @ '' (should be absent when mTLS disabled)'')), s1)
            else (None, s1))"

definition AssertServiceMTLSEnabled :: "'w mon_deps \<Rightarrow> MTLSComponentConfig \<Rightarrow> 'w mon_state step" where
  "AssertServiceMTLSEnabled d cfg = pollUntilNoError d (checkServiceMTLSEnabled d cfg)"

definition AssertServiceMTLSDisabled :: "'w mon_deps \<Rightarrow> MTLSComponentConfig \<Rightarrow> 'w mon_state step" where
  "AssertServiceMTLSDisabled d cfg = pollUntilNoError d (checkServiceMTLSDisabled d cfg)"

section \<open>ServiceMonitors\<close>

text \<open>\<open>jsonPath\<close>: the errors name the key.\<close>

fun jsonPath :: "json \<Rightarrow> string list \<Rightarrow> kerror + json" where
  "jsonPath current [] = Inr current"
| "jsonPath current (key # keys) =
     (case current of
        JObj m \<Rightarrow>
          (case map_of m key of
             Some val \<Rightarrow> jsonPath val keys
           | None \<Rightarrow> Inl (KMsg (''key '' @ go_quote key @ '' not found'')))
      | _ \<Rightarrow> Inl (KMsg (''key '' @ go_quote key @ '': parent is not an object'')))"

definition monitor_error :: "MTLSComponentConfig \<Rightarrow> string \<Rightarrow> kerror" where
  "monitor_error cfg msg = KMsg (''servicemonitor '' @ mc_Namespace cfg @ ''/'' @ mc_ServiceMonitorName cfg @ msg)"

definition first_endpoint :: "MTLSComponentConfig \<Rightarrow> (string \<times> json) list \<Rightarrow> kerror + (string \<times> json) list" where
  "first_endpoint cfg sm =
     (case jsonPath (JObj sm) [''spec'', ''endpoints''] of
        Inl e \<Rightarrow> Inl (KContext (''servicemonitor '' @ mc_Namespace cfg @ ''/'' @ mc_ServiceMonitorName cfg) e)
      | Inr (JArr (ep # eps)) \<Rightarrow>
          (case ep of JObj m \<Rightarrow> Inr m | _ \<Rightarrow> Inl (monitor_error cfg '': first endpoint is not an object''))
      | Inr _ \<Rightarrow> Inl (monitor_error cfg '': no endpoints found''))"

definition getServiceMonitorFirstEndpoint :: "'w mon_deps \<Rightarrow> MTLSComponentConfig \<Rightarrow> 'w mon_state \<Rightarrow>
    (kerror + (string \<times> json) list) \<times> 'w mon_state" where
  "getServiceMonitorFirstEndpoint d cfg s =
     (case t_run d [''oc'', ''get'', ''servicemonitor'', mc_ServiceMonitorName cfg, ''-n'', mc_Namespace cfg,
             ''-o'', ''json''] s of
        (res, s1) \<Rightarrow>
          if ExitCode res \<noteq> 0
          then (Inl (KMsg (''failed to get ServiceMonitor '' @ mc_Namespace cfg @ ''/'' @ mc_ServiceMonitorName cfg
                  @ '': '' @ Stderr res)), s1)
          else
            (case t_unmarshal d (Stdout res) of
               None \<Rightarrow> (Inl (KMsg ''failed to parse ServiceMonitor JSON''), s1)
             | Some sm \<Rightarrow> (first_endpoint cfg sm, s1)))"

text \<open>\<open>v, _ := x.(string)\<close>\<close>

fun as_string :: "json \<Rightarrow> string" where
  "as_string (JStr t) = t"
| "as_string _ = []"

definition endpoint_enabled :: "MTLSComponentConfig \<Rightarrow> (string \<times> json) list \<Rightarrow> kerror option" where
  "endpoint_enabled cfg ep =
     (let scheme = as_string (jget ep ''scheme'') in
      if scheme \<noteq> ''https'' then Some (monitor_error cfg ('': expected scheme=https, got '' @ go_quote scheme))
      else
        (case jget ep ''tlsConfig'' of
           JObj tlsConfig \<Rightarrow>
             let expected = mc_ServiceName cfg @ ''.'' @ mc_Namespace cfg @ ''.svc'';
                 serverName = as_string (jget tlsConfig ''serverName'') in
             if serverName \<noteq> expected
             then Some (monitor_error cfg ('': expected tlsConfig.serverName='' @ go_quote expected
                    @ '', got '' @ go_quote serverName))
             else None
         | _ \<Rightarrow> Some (monitor_error cfg '': tlsConfig missing'')))"

definition endpoint_disabled :: "MTLSComponentConfig \<Rightarrow> (string \<times> json) list \<Rightarrow> kerror option" where
  "endpoint_disabled cfg ep =
     (let scheme = as_string (jget ep ''scheme'') in
      if scheme = ''https''
      then Some (monitor_error cfg ('': expected scheme=http or empty, got '' @ go_quote scheme))
      else if map_of ep ''tlsConfig'' \<noteq> None
      then Some (monitor_error cfg '': tlsConfig should be absent when mTLS is disabled'')
      else None)"

definition checkServiceMonitorMTLSEnabled :: "'w mon_deps \<Rightarrow> MTLSComponentConfig \<Rightarrow> 'w mon_state step" where
  "checkServiceMonitorMTLSEnabled d cfg s =
     (case getServiceMonitorFirstEndpoint d cfg s of
        (Inl e, s1) \<Rightarrow> (Some e, s1)
      | (Inr ep, s1) \<Rightarrow> (endpoint_enabled cfg ep, s1))"

definition checkServiceMonitorMTLSDisabled :: "'w mon_deps \<Rightarrow> MTLSComponentConfig \<Rightarrow> 'w mon_state step" where
  "checkServiceMonitorMTLSDisabled d cfg s =
     (case getServiceMonitorFirstEndpoint d cfg s of
        (Inl e, s1) \<Rightarrow> (Some e, s1)
      | (Inr ep, s1) \<Rightarrow> (endpoint_disabled cfg ep, s1))"

definition AssertServiceMonitorMTLSEnabled :: "'w mon_deps \<Rightarrow> MTLSComponentConfig \<Rightarrow> 'w mon_state step" where
  "AssertServiceMonitorMTLSEnabled d cfg = pollUntilNoError d (checkServiceMonitorMTLSEnabled d cfg)"

definition AssertServiceMonitorMTLSDisabled :: "'w mon_deps \<Rightarrow> MTLSComponentConfig \<Rightarrow> 'w mon_state step" where
  "AssertServiceMonitorMTLSDisabled d cfg = pollUntilNoError d (checkServiceMonitorMTLSDisabled d cfg)"

section \<open>Pods\<close>

definition findPodsForService :: "'w mon_deps \<Rightarrow> MTLSComponentConfig \<Rightarrow> 'w mon_state \<Rightarrow>
    (kerror + mon_body kobject list) \<times> 'w mon_state" where
  "findPodsForService d cfg s =
     (case get_service d cfg s of
        (Inl e, s1) \<Rightarrow> (Inl e, s1)
      | (Inr svc, s1) \<Rightarrow>
          if sp_Selector svc = [] then (Inl (service_error cfg '' has no selector''), s1)
          else
            (case k_list (t_server d) [] ''Pod'' (mc_Namespace cfg) (t_formatSelector d (sp_Selector svc)) s1 of
               (Inl e, s2) \<Rightarrow> (Inl (KContext (''failed to list pods for Service '' @ mc_Namespace cfg @ ''/''
                     @ mc_ServiceName cfg) (KApi e)), s2)
             | (Inr pods, s2) \<Rightarrow>
                 (Inr (filter (\<lambda>pod. po_Phase (pod_of (o_body pod)) = ''Running'') pods), s2)))"

definition volumeNames :: "volume list \<Rightarrow> string list" where
  "volumeNames volumes = map vo_Name volumes"

definition tls_env :: "string \<Rightarrow> bool" where
  "tls_env name = has_prefix name ''METRICS_PROMETHEUS_TLS_''"

definition is_cert_volume :: "volume \<Rightarrow> bool" where
  "is_cert_volume vol = (case vo_Secret vol of None \<Rightarrow> False | Some name \<Rightarrow> contains name ''metrics'')"

definition is_ca_volume :: "volume \<Rightarrow> bool" where
  "is_ca_volume vol = (vo_ConfigMap vol = Some ''metrics-client-ca'')"

definition show_volumes :: "volume list \<Rightarrow> string" where
  "show_volumes vols = '' (volumes: ['' @ join '' '' (volumeNames vols) @ ''])''"

text \<open>The body of the loop over the pods, for one pod.\<close>

definition pod_enabled :: "MTLSComponentConfig \<Rightarrow> mon_body kobject \<Rightarrow> kerror option" where
  "pod_enabled cfg pod =
     (let po = pod_of (o_body pod); shown = ''pod '' @ mc_Namespace cfg @ ''/'' @ ref_name (o_ref pod) in
      (case po_Containers po of
         [] \<Rightarrow> None
       | (container, envs) # _ \<Rightarrow>
           if \<not> list_ex tls_env envs
           then Some (KMsg (shown @ '' container '' @ container @ '': missing METRICS_PROMETHEUS_TLS_* env vars''))
           else if \<not> list_ex is_cert_volume (po_Volumes po)
           then Some (KMsg (shown @ '': no metrics cert Secret volume found'' @ show_volumes (po_Volumes po)))
           else if \<not> list_ex is_ca_volume (po_Volumes po)
           then Some (KMsg (shown @ '': no metrics-client-ca ConfigMap volume found'' @ show_volumes (po_Volumes po)))
           else None))"

definition pod_disabled :: "MTLSComponentConfig \<Rightarrow> mon_body kobject \<Rightarrow> kerror option" where
  "pod_disabled cfg pod =
     (case po_Containers (pod_of (o_body pod)) of
        [] \<Rightarrow> None
      | (container, envs) # _ \<Rightarrow>
          (case List.find tls_env envs of
             Some name \<Rightarrow> Some (KMsg (''pod '' @ mc_Namespace cfg @ ''/'' @ ref_name (o_ref pod) @ '' container ''
               @ container @ '': unexpected env var '' @ name @ '' (should be absent when mTLS disabled)''))
           | None \<Rightarrow> None))"

text \<open>The first error of a loop that only looks.\<close>

fun first_error :: "('a \<Rightarrow> kerror option) \<Rightarrow> 'a list \<Rightarrow> kerror option" where
  "first_error f [] = None"
| "first_error f (x # xs) = (case f x of Some e \<Rightarrow> Some e | None \<Rightarrow> first_error f xs)"

definition check_pods :: "(mon_body kobject \<Rightarrow> kerror option) \<Rightarrow> 'w mon_deps \<Rightarrow> MTLSComponentConfig \<Rightarrow> 'w mon_state step" where
  "check_pods look d cfg s =
     (case findPodsForService d cfg s of
        (Inl e, s1) \<Rightarrow> (Some e, s1)
      | (Inr pods, s1) \<Rightarrow>
          if pods = []
          then (Some (KMsg (''no pods found for Service '' @ mc_Namespace cfg @ ''/'' @ mc_ServiceName cfg)), s1)
          else (first_error look pods, s1))"

definition checkPodMTLSEnabled :: "'w mon_deps \<Rightarrow> MTLSComponentConfig \<Rightarrow> 'w mon_state step" where
  "checkPodMTLSEnabled d cfg = check_pods (pod_enabled cfg) d cfg"

definition checkPodMTLSDisabled :: "'w mon_deps \<Rightarrow> MTLSComponentConfig \<Rightarrow> 'w mon_state step" where
  "checkPodMTLSDisabled d cfg = check_pods (pod_disabled cfg) d cfg"

definition AssertPodMTLSEnabled :: "'w mon_deps \<Rightarrow> MTLSComponentConfig \<Rightarrow> 'w mon_state step" where
  "AssertPodMTLSEnabled d cfg = pollUntilNoError d (checkPodMTLSEnabled d cfg)"

definition AssertPodMTLSDisabled :: "'w mon_deps \<Rightarrow> MTLSComponentConfig \<Rightarrow> 'w mon_state step" where
  "AssertPodMTLSDisabled d cfg = pollUntilNoError d (checkPodMTLSDisabled d cfg)"

end
