(* ===== verification/MetricsToggle.thy ===== *)
theory MetricsToggle
  imports MetricsMtls
begin

text \<open>
  \<open>pkg/monitoring/mtls.go\<close>, second part: the handshakes from inside the cluster, and reading and
  patching the switches of the TektonConfig.
\<close>

section \<open>Handshakes\<close>

text \<open>The first port of the name, 0 when there is none (or its number is 0).\<close>

definition named_port :: "string \<Rightarrow> service_spec \<Rightarrow> int" where
  "named_port name svc = (case List.find (\<lambda>(n, port). n = name) (sp_Ports svc) of Some (n, port) \<Rightarrow> port | None \<Rightarrow> 0)"

definition metrics_url :: "string \<Rightarrow> MTLSComponentConfig \<Rightarrow> int \<Rightarrow> string" where
  "metrics_url scheme cfg port =
     scheme @ ''://'' @ mc_ServiceName cfg @ ''.'' @ mc_Namespace cfg @ ''.svc:'' @ show_int port @ ''/metrics''"

definition copied_metadata :: "string list" where
  "copied_metadata = [''creationTimestamp'', ''resourceVersion'', ''selfLink'', ''uid'', ''annotations'',
     ''ownerReferences'', ''managedFields'']"

definition cleaned_secret :: "string \<Rightarrow> (string \<times> json) list \<Rightarrow> (string \<times> json) list" where
  "cleaned_secret ns secretObj =
     (case map_of secretObj ''metadata'' of
        Some (JObj meta) \<Rightarrow>
          AList.update ''metadata''
            (JObj (fold AList.delete copied_metadata (AList.update ''namespace'' (JStr ns) meta))) secretObj
      | _ \<Rightarrow> secretObj)"

definition curl_image :: string where
  "curl_image = ''registry.access.redhat.com/ubi9/ubi-minimal:latest''"

text \<open>The flags of a pod that runs one command, and the pod that mounts the certificates.\<close>

definition oc_run_pod :: "string \<Rightarrow> MTLSComponentConfig \<Rightarrow> string list \<Rightarrow> string list" where
  "oc_run_pod name cfg rest =
     [''oc'', ''run'', name, ''-n'', mc_Namespace cfg, ''--image='' @ curl_image, ''--restart=Never'', ''--rm'', ''-i''] @ rest"

definition indent :: "nat \<Rightarrow> string \<Rightarrow> string" where
  "indent n line = replicate n (CHR 9) @ line"

definition curl_overrides :: "string \<Rightarrow> string" where
  "curl_overrides url = join [CHR 10]
     [''{'',
      indent 3 ''\"spec\": {'',
      indent 4 ''\"containers\": [{'',
      indent 5 ''\"name\": \"curl\",'',
      indent 5 (''\"image\": \"'' @ curl_image @ ''\",''),
      indent 5 (''\"command\": [\"curl\", \"-sf\", \"--cert\", \"/certs/tls.crt\", \"--key\", \"/certs/tls.key\", \"-k\", \"-o\", \"/dev/null\", \"-w\", \"%{http_code}\", \"''
        @ url @ ''\"],''),
      indent 5 ''\"volumeMounts\": [{\"name\": \"certs\", \"mountPath\": \"/certs\", \"readOnly\": true}]'',
      indent 4 ''}],'',
      indent 4 ''\"volumes\": [{'',
      indent 5 ''\"name\": \"certs\",'',
      indent 5 ''\"secret\": {\"secretName\": \"metrics-client-certs\"}'',
      indent 4 ''}],'',
      indent 4 ''\"restartPolicy\": \"Never\"'',
      indent 3 ''}'',
      indent 2 ''}'']"

definition with_cert_line :: "MTLSComponentConfig \<Rightarrow> string \<Rightarrow> string list" where
  "with_cert_line cfg url = oc_run_pod ''mtls-curl-test-with-cert'' cfg [''--overrides'', curl_overrides url]"

definition without_cert_line :: "MTLSComponentConfig \<Rightarrow> string \<Rightarrow> string list" where
  "without_cert_line cfg url = oc_run_pod ''mtls-curl-test-no-cert'' cfg
     [''--command'', ''--'', ''curl'', ''-sf'', ''-k'', ''-o'', ''/dev/null'', ''-w'', ''%{http_code}'', url]"

definition plain_http_line :: "MTLSComponentConfig \<Rightarrow> string \<Rightarrow> string list" where
  "plain_http_line cfg url = oc_run_pod ''http-check'' cfg
     [''--command'', ''--'', ''curl'', ''-sf'', ''-o'', ''/dev/null'', ''-w'', ''%{http_code}'', url]"

text \<open>After the copy was attempted: the two connections.\<close>

definition try_handshakes :: "'w mon_deps \<Rightarrow> MTLSComponentConfig \<Rightarrow> string \<Rightarrow> 'w mon_state step" where
  "try_handshakes d cfg url s =
     (case t_run d (with_cert_line cfg url) s of
        (res, s1) \<Rightarrow>
          if ExitCode res \<noteq> 0
          then (Some (KMsg (''tls handshake with client cert failed for '' @ url @ '': '' @ Stderr res)), s1)
          else
            (case t_run d (without_cert_line cfg url) s1 of
               (res2, s2) \<Rightarrow>
                 if ExitCode res2 = 0
                 then (Some (KMsg (''tls handshake without client cert should have failed for '' @ url
                         @ '' but succeeded'')), s2)
                 else (None, s2)))"

definition remove_temp :: "string \<Rightarrow> 'w mon_state \<Rightarrow> 'w mon_state" where
  "remove_temp file s = s\<lparr>t_files := t_files s - {file}\<rparr>"

text \<open>The temporary file: the deferred removal runs on every way out.\<close>

definition apply_and_try :: "'w mon_deps \<Rightarrow> MTLSComponentConfig \<Rightarrow> string \<Rightarrow> string \<Rightarrow> 'w mon_state step" where
  "apply_and_try d cfg content url s =
     (case t_createTemp d (t_temp s) of
        None \<Rightarrow> (Some (KMsg ''failed to create temp file for secret''), s)
      | Some file \<Rightarrow>
          let s1 = s\<lparr>t_temp := Suc (t_temp s), t_files := insert file (t_files s)\<rparr> in
          if \<not> t_write d file content
          then (Some (KMsg ''failed to write secret to temp file''), remove_temp file s1)
          else if \<not> t_close d file
          then (Some (KMsg ''failed to close temp file''), remove_temp file s1)
          else
            (case t_run d [''oc'', ''apply'', ''-n'', mc_Namespace cfg, ''-f'', file] s1 of
               (_, s2) \<Rightarrow>
                 (case try_handshakes d cfg url s2 of (err, s3) \<Rightarrow> (err, remove_temp file s3))))"

definition AssertTLSHandshake :: "'w mon_deps \<Rightarrow> MTLSComponentConfig \<Rightarrow> 'w mon_state step" where
  "AssertTLSHandshake d cfg s =
     (case get_service d cfg s of
        (Inl e, s1) \<Rightarrow> (Some e, s1)
      | (Inr svc, s1) \<Rightarrow>
          let metricsPort = named_port (mc_HTTPSPortName cfg) svc in
          if metricsPort = 0
          then (Some (service_error cfg ('': no port named '' @ go_quote (mc_HTTPSPortName cfg) @ '' found'')), s1)
          else
            (case t_run d [''oc'', ''get'', ''secret'', ''metrics-client-certs'', ''-n'', ''openshift-monitoring'',
                    ''-o'', ''json''] s1 of
               (res, s2) \<Rightarrow>
                 if ExitCode res \<noteq> 0
                 then (Some (KMsg (''failed to get metrics-client-certs from openshift-monitoring: '' @ Stderr res)), s2)
                 else
                   (case t_unmarshal d (Stdout res) of
                      None \<Rightarrow> (Some (KMsg ''failed to parse metrics-client-certs JSON''), s2)
                    | Some secretObj \<Rightarrow>
                        (case t_marshal d (cleaned_secret (mc_Namespace cfg) secretObj) of
                           None \<Rightarrow> (Some (KMsg ''failed to marshal cleaned secret''), s2)
                         | Some content \<Rightarrow>
                             apply_and_try d cfg content (metrics_url ''https'' cfg metricsPort) s2))))"

definition AssertPlainHTTPHandshake :: "'w mon_deps \<Rightarrow> MTLSComponentConfig \<Rightarrow> 'w mon_state step" where
  "AssertPlainHTTPHandshake d cfg s =
     (case get_service d cfg s of
        (Inl e, s1) \<Rightarrow> (Some e, s1)
      | (Inr svc, s1) \<Rightarrow>
          if named_port (mc_HTTPPortName cfg) svc = 0 \<and> sp_Ports svc = []
          then (Some (service_error cfg '': no ports found''), s1)
          else
            let named = named_port (mc_HTTPPortName cfg) svc;
                metricsPort = (if named = 0 then snd (hd (sp_Ports svc)) else named);
                url = metrics_url ''http'' cfg metricsPort in
            (case t_run d (plain_http_line cfg url) s1 of
               (res, s2) \<Rightarrow>
                 if ExitCode res \<noteq> 0
                 then (Some (KMsg (''plain HTTP check failed for '' @ url @ '': '' @ Stderr res)), s2)
                 else (None, s2)))"

section \<open>Switches of the TektonConfig\<close>

definition config_path :: "string \<Rightarrow> string list" where
  "config_path path = [''oc'', ''get'', ''tektonconfig'', ''config'', ''-o'', ''jsonpath={'' @ path @ ''}'']"

definition ready_condition :: "'w mon_deps \<Rightarrow> ('w mon_state, kerror) cond" where
  "ready_condition d s =
     (case t_run d (config_path ''.status.conditions[?(@.type==\"Ready\")].status'') s of
        (res, s1) \<Rightarrow>
          if ExitCode res \<noteq> 0 then ((False, None), s1)
          else ((trim_space (Stdout res) = ''True'', None), s1))"

definition WaitForTektonConfigReady :: "'w mon_deps \<Rightarrow> 'w mon_state step" where
  "WaitForTektonConfigReady d s =
     (case t_poll d 5 600 True (ready_condition d) s of (err, s') \<Rightarrow> (of_poll err, s'))"

definition show_bool :: "bool \<Rightarrow> string" where
  "show_bool b = (if b then ''true'' else ''false'')"

definition patch_config :: "'w mon_deps \<Rightarrow> string \<Rightarrow> string \<Rightarrow> 'w mon_state step" where
  "patch_config d patchData failed s =
     (case t_run d [''oc'', ''patch'', ''tektonconfig'', ''config'', ''-p'', patchData, ''--type=merge''] s of
        (res, s1) \<Rightarrow>
          if ExitCode res \<noteq> 0
          then (Some (KMsg (''failed to patch TektonConfig '' @ failed @ '': '' @ Stderr res)), s1)
          else (None, s1))"

definition metrics_patch :: "bool \<Rightarrow> string" where
  "metrics_patch enabled =
     ''{\"spec\":{\"platforms\":{\"openshift\":{\"enableMetricsMTLS\":'' @ show_bool enabled @ ''}}}}''"

definition SetEnableMetricsMTLS :: "'w mon_deps \<Rightarrow> bool \<Rightarrow> 'w mon_state step" where
  "SetEnableMetricsMTLS d enabled = patch_config d (metrics_patch enabled) (''enableMetricsMTLS='' @ show_bool enabled)"

definition GetEnableMetricsMTLS :: "'w mon_deps \<Rightarrow> 'w mon_state \<Rightarrow> bool option \<times> 'w mon_state" where
  "GetEnableMetricsMTLS d s =
     (case t_run d (config_path ''.spec.platforms.openshift.enableMetricsMTLS'') s of
        (res, s1) \<Rightarrow>
          (if ExitCode res \<noteq> 0 \<or> trim_space (Stdout res) = [] then None
           else Some (trim_space (Stdout res) = ''true''), s1))"

definition pruner_patch :: "bool \<Rightarrow> string" where
  "pruner_patch enabled =
     (let controllerDisabled = \<not> enabled; cronJobDisabled = enabled in
      ''{\"spec\":{\"tektonpruner\":{\"disabled\":'' @ show_bool controllerDisabled
        @ ''},\"pruner\":{\"disabled\":'' @ show_bool cronJobDisabled @ ''}}}'')"

definition SetTektonPrunerEnabled :: "'w mon_deps \<Rightarrow> bool \<Rightarrow> 'w mon_state step" where
  "SetTektonPrunerEnabled d enabled =
     patch_config d (pruner_patch enabled) (''tektonpruner.disabled='' @ show_bool (\<not> enabled))"

definition GetTektonPrunerEnabled :: "'w mon_deps \<Rightarrow> 'w mon_state \<Rightarrow> bool option \<times> 'w mon_state" where
  "GetTektonPrunerEnabled d s =
     (case t_run d (config_path ''.spec.tektonpruner.disabled'') s of
        (res, s1) \<Rightarrow>
          (if ExitCode res \<noteq> 0 \<or> trim_space (Stdout res) = [] then None
           else Some (trim_space (Stdout res) \<noteq> ''true''), s1))"

definition RestoreOriginalPrunerState :: "'w mon_deps \<Rightarrow> bool option \<Rightarrow> 'w mon_state step" where
  "RestoreOriginalPrunerState d originalEnabled =
     SetTektonPrunerEnabled d (case originalEnabled of None \<Rightarrow> False | Some b \<Rightarrow> b)"

section \<open>Installer sets\<close>

definition sets_line :: "string list" where
  "sets_line = [''oc'', ''get'', ''tektoninstallersets'', ''-o'',
     ''jsonpath={range .items[*]}{.metadata.name}={.status.conditions[?(@.type==\"Ready\")].status}{\"'' @ [backslash] @ ''n\"}{end}'']"

text \<open>One line of the listing: the name and the status of a set that is not ready.\<close>

definition stuck_line :: "string \<Rightarrow> (string \<times> string) option" where
  "stuck_line line =
     (if line = [] then None
      else (case splitn_char 2 CHR ''='' line of
              [name, status] \<Rightarrow> if status \<noteq> ''True'' then Some (name, status) else None
            | _ \<Rightarrow> None))"

definition stuck_sets :: "string \<Rightarrow> (string \<times> string) list" where
  "stuck_sets out = List.map_filter stuck_line (split_char (CHR 10) (trim_space out))"

definition checkNoStuckInstallerSets :: "'w mon_deps \<Rightarrow> 'w mon_state step" where
  "checkNoStuckInstallerSets d s =
     (case t_run d sets_line s of
        (res, s1) \<Rightarrow>
          if ExitCode res \<noteq> 0 then (Some (KMsg (''failed to list TektonInstallerSets: '' @ Stderr res)), s1)
          else
            (case stuck_sets (Stdout res) of
               [] \<Rightarrow> (None, s1)
             | stuck \<Rightarrow> (Some (KMsg (''stuck InstallerSets: ''
                 @ join '', '' (map (\<lambda>(name, status). name @ ''('' @ status @ '')'') stuck))), s1)))"

definition AssertNoStuckInstallerSets :: "'w mon_deps \<Rightarrow> 'w mon_state step" where
  "AssertNoStuckInstallerSets d = pollUntilNoError d (checkNoStuckInstallerSets d)"

end
