(* ===== verification/MetricsProperties.thy ===== *)
theory MetricsProperties
  imports MetricsToggle
begin

text \<open>
  What the mTLS checks decide: repeating a check until it passes, the two sides of a switch against
  each other, and the parser of the installer set listing against the printer of that listing.
\<close>

section \<open>Polls that run out\<close>

lemma poll_rounds_Timeout_iff:
  "poll_rounds n f s = (Some PollTimeout, s') \<longleftrightarrow> pending f n s s'"
  by (induction n arbitrary: s) (auto simp: pending_Suc_iff split: prod.splits option.splits)

lemma pending_last:
  "pending f (Suc k) s u \<Longrightarrow> \<exists>t. pending f k s t \<and> f t = ((False, None), u)"
proof (induction k arbitrary: s)
  case 0
  then show ?case by (auto simp: pending_Suc_iff)
next
  case (Suc k)
  then obtain s' where "f s = ((False, None), s')" and "pending f (Suc k) s' u"
    by (auto simp: pending_Suc_iff)
  with Suc.IH [of s'] show ?case by (auto intro: pending_Suc)
qed

lemma no_error_decided:
  "no_error_condition check s = ((b, e), s') \<Longrightarrow> e = None"
  "no_error_condition check s = ((True, None), s') \<Longrightarrow> check s = (None, s')"
  "no_error_condition check s = ((False, None), s') \<Longrightarrow>
     \<exists>err u. check s = (Some err, u) \<and> s' = u\<lparr>t_lastErr := Some err\<rparr>"
  by (auto simp: no_error_condition_def split: prod.splits option.splits)

text \<open>
  C21: pollUntilNoError ends right after an attempt of the check: with nil when that attempt passed,
  and otherwise with the very error of that last attempt, never with the poller's own timeout; all
  attempts before it failed.
\<close>

theorem poll_reports_last_error:
  assumes "poll_contract (t_poll d)" and "pollUntilNoError d check s = (err, s')"
  shows "\<exists>k t u. pending (no_error_condition check) k (s\<lparr>t_lastErr := None\<rparr>) t \<and> check t = (err, u)
    \<and> s' = (case err of None \<Rightarrow> u | Some e \<Rightarrow> u\<lparr>t_lastErr := Some e\<rparr>)"
proof -
  let ?f = "no_error_condition check"
  let ?s = "s\<lparr>t_lastErr := None\<rparr>"
  obtain n where n: "0 < n" and p: "t_poll d 5 600 True ?f ?s = poll_rounds n ?f ?s"
    using assms(1) by (metis poll_contractE)
  obtain r t' where r: "poll_rounds n ?f ?s = (r, t')" by (metis surj_pair)
  show ?thesis
  proof (cases r)
    case None
    with r obtain k t where "pending ?f k ?s t" and "?f t = ((True, None), t')"
      by (auto simp: poll_rounds_None_iff)
    with no_error_decided(2) have "pending ?f k ?s t \<and> check t = (None, t')" by blast
    moreover have "err = None" "s' = t'"
      using assms(2) p r None by (simp_all add: pollUntilNoError_def)
    ultimately show ?thesis by auto
  next
    case (Some pe)
    have "pe = PollTimeout"
    proof (cases pe)
      case (CondError e)
      with r Some obtain k t b where "?f t = ((b, Some e), t')"
        by (auto simp: poll_rounds_Error_iff)
      with no_error_decided(1) show ?thesis by blast
    qed simp
    with r Some have "pending ?f n ?s t'" by (simp add: poll_rounds_Timeout_iff)
    with n obtain k t where "pending ?f k ?s t" and "?f t = ((False, None), t')"
      using pending_last by (metis gr0_implies_Suc)
    with no_error_decided(3) obtain e u where c: "pending ?f k ?s t" "check t = (Some e, u)"
        "t' = u\<lparr>t_lastErr := Some e\<rparr>" by blast
    have e: "err = Some e" and s': "s' = t'"
      using assms(2) p r Some c by (auto simp: pollUntilNoError_def)
    show ?thesis
      by (rule exI [of _ k], rule exI [of _ t], rule exI [of _ u]) (simp add: e s' c)
  qed
qed

section \<open>Enabled and disabled\<close>

lemma first_error_None: "first_error f xs = None \<longleftrightarrow> list_all (\<lambda>x. f x = None) xs"
  by (induction xs) (auto split: option.splits)

lemma find_list_ex: "List.find P xs = None \<longleftrightarrow> \<not> list_ex P xs"
  by (auto simp: find_None_iff list_ex_iff)

lemma pod_both:
  "pod_enabled cfg pod = None \<and> pod_disabled cfg pod = None \<longleftrightarrow> po_Containers (pod_of (o_body pod)) = []"
  by (auto simp: pod_enabled_def pod_disabled_def Let_def find_list_ex split: list.splits option.splits)

lemma pods_both:
  "list_all (\<lambda>x. pod_enabled cfg x = None) pods \<and> list_all (\<lambda>x. pod_disabled cfg x = None) pods \<longleftrightarrow>
     list_all (\<lambda>pod. po_Containers (pod_of (o_body pod)) = []) pods"
  by (auto simp: list_all_iff simp flip: pod_both [of cfg])

text \<open>
  C22: no state of the cluster passes both the enabled and the disabled check of a Service or of a
  ServiceMonitor; for Pods both pass exactly when the Service has running pods and none of them
  lists a container, since such pods are skipped by both checks.
\<close>

theorem mtls_checks_exclusive:
  "\<not> (fst (checkServiceMTLSEnabled d cfg s) = None \<and> fst (checkServiceMTLSDisabled d cfg s) = None)
   \<and> \<not> (fst (checkServiceMonitorMTLSEnabled d cfg s) = None \<and> fst (checkServiceMonitorMTLSDisabled d cfg s) = None)
   \<and> ((fst (checkPodMTLSEnabled d cfg s) = None \<and> fst (checkPodMTLSDisabled d cfg s) = None) =
      (case fst (findPodsForService d cfg s) of
         Inl e \<Rightarrow> False
       | Inr pods \<Rightarrow> pods \<noteq> [] \<and> list_all (\<lambda>pod. po_Containers (pod_of (o_body pod)) = []) pods))"
proof (intro conjI)
  show "\<not> (fst (checkServiceMTLSEnabled d cfg s) = None \<and> fst (checkServiceMTLSDisabled d cfg s) = None)"
    by (auto simp: checkServiceMTLSEnabled_def checkServiceMTLSDisabled_def Let_def split: prod.splits sum.splits)
next
  show "\<not> (fst (checkServiceMonitorMTLSEnabled d cfg s) = None
      \<and> fst (checkServiceMonitorMTLSDisabled d cfg s) = None)"
    by (auto simp: checkServiceMonitorMTLSEnabled_def checkServiceMonitorMTLSDisabled_def endpoint_enabled_def
        endpoint_disabled_def Let_def split: prod.splits sum.splits if_splits)
next
  show "(fst (checkPodMTLSEnabled d cfg s) = None \<and> fst (checkPodMTLSDisabled d cfg s) = None) =
      (case fst (findPodsForService d cfg s) of
         Inl e \<Rightarrow> False
       | Inr pods \<Rightarrow> pods \<noteq> [] \<and> list_all (\<lambda>pod. po_Containers (pod_of (o_body pod)) = []) pods)"
    using pods_both [of cfg]
    by (auto simp: checkPodMTLSEnabled_def checkPodMTLSDisabled_def check_pods_def first_error_None
        split: prod.splits sum.splits)
qed

section \<open>The listing of the installer sets\<close>

text \<open>What the jsonpath of the command prints for sets with these names and statuses.\<close>

definition set_line :: "string \<times> string \<Rightarrow> string" where
  "set_line = (\<lambda>(name, status). name @ ''='' @ status)"

definition sets_listing :: "(string \<times> string) list \<Rightarrow> string" where
  "sets_listing sets = printed_lines (map set_line sets)"

text \<open>Object names and condition statuses hold no white space, names no equals sign.\<close>

definition listed_set :: "string \<times> string \<Rightarrow> bool" where
  "listed_set = (\<lambda>(name, status). name \<noteq> [] \<and> CHR ''='' \<notin> set name \<and> list_all (\<lambda>c. \<not> is_space c) (name @ status))"

lemma set_line_clean: "listed_set x \<Longrightarrow> c \<in> set (set_line x) \<Longrightarrow> \<not> is_space c"
  by (auto simp: listed_set_def set_line_def list_all_iff is_space_def split: prod.splits)

lemma set_line_ne: "listed_set x \<Longrightarrow> set_line x \<noteq> []"
  by (auto simp: set_line_def split: prod.splits)

lemma stuck_set_line:
  "listed_set x \<Longrightarrow> stuck_line (set_line x) = (if snd x = ''True'' then None else Some x)"
  by (auto simp: listed_set_def set_line_def stuck_line_def splitn_two_sep split: prod.splits)

lemma stuck_lines:
  "list_all listed_set sets \<Longrightarrow>
     List.map_filter stuck_line (map set_line sets) = filter (\<lambda>(name, status). status \<noteq> ''True'') sets"
  by (induction sets) (auto simp: List.map_filter_simps stuck_set_line)

lemma stuck_sets_listing:
  assumes "list_all listed_set sets"
  shows "stuck_sets (sets_listing sets) = filter (\<lambda>(name, status). status \<noteq> ''True'') sets"
proof (cases "sets = []")
  case True
  then show ?thesis by (simp add: sets_listing_def printed_lines_def stuck_sets_def stuck_line_def List.map_filter_simps trim_space_def)
next
  case False
  have "split_char (CHR 10) (trim_space (sets_listing sets)) = map set_line sets"
    unfolding sets_listing_def
    by (rule split_printed_lines) (use False assms set_line_clean set_line_ne in \<open>auto simp: list_all_iff\<close>)
  with stuck_lines [OF assms] show ?thesis by (simp add: stuck_sets_def)
qed

text \<open>
  the check of the installer sets reads the listing back as it was printed: it passes exactly when
  every set of the cluster has status True, and otherwise names the others in their order, also those
  that have no Ready condition yet.
\<close>

theorem stuck_sets_reported:
  assumes "t_run d sets_line s = (res, s1)" and "ExitCode res = 0"
    and "Stdout res = sets_listing sets" and "list_all listed_set sets"
  shows "checkNoStuckInstallerSets d s =
    (let stuck = filter (\<lambda>(name, status). status \<noteq> ''True'') sets
     in (if stuck = [] then None
         else Some (KMsg (''stuck InstallerSets: ''
           @ join '', '' (map (\<lambda>(name, status). name @ ''('' @ status @ '')'') stuck))), s1))"
  using assms(1,2) stuck_sets_listing [OF assms(4)]
  by (simp add: checkNoStuckInstallerSets_def assms(3) Let_def split: list.splits)

definition demo_sets :: "(string \<times> string) list" where
  "demo_sets = [(''pipeline-main-x7'', ''True''), (''trigger-main-q2'', ''False''), (''addon-custom-k9'', [])]"

definition demo_mon :: "unit mon_deps" where
  "demo_mon = \<lparr>t_server = \<lparr>sv_get = \<lambda>r w. (Inl NotFound, w), sv_create = \<lambda>ob w. (Inr ob, w),
       sv_update = \<lambda>ob w. (Inr ob, w), sv_delete = \<lambda>r w. (None, w), sv_list = \<lambda>c k ns sel w. (Inr [], w)\<rparr>,
     t_poll = rounds_poller 2,
     t_shell = (\<lambda>args w. (\<lparr>ExitCode = 0, Stdout = sets_listing demo_sets, Stderr = []\<rparr>, w)),
     t_connection = \<lparr>cn_Kubeconfig = [], cn_Context = [], cn_Cluster = []\<rparr>,
     t_unmarshal = (\<lambda>t. None), t_marshal = (\<lambda>j. None), t_formatSelector = (\<lambda>l. []),
     t_createTemp = (\<lambda>n. None), t_write = (\<lambda>f t. True), t_close = (\<lambda>f. True)\<rparr>"

definition mon_start :: "unit mon_state" where
  "mon_start = \<lparr>io_world = (), io_trace = [], t_lastErr = None, t_temp = 0, t_files = {}\<rparr>"

definition stuck_message :: kerror where
  "stuck_message = KMsg ''stuck InstallerSets: trigger-main-q2(False), addon-custom-k9()''"

theorem stuck_sets_reported_witness:
  "fst (checkNoStuckInstallerSets demo_mon mon_start) = Some stuck_message"
proof -
  have l: "list_all listed_set demo_sets" by code_simp
  obtain res s1 where r: "t_run demo_mon sets_line mon_start = (res, s1)" by (metis surj_pair)
  then have "ExitCode res = 0" "Stdout res = sets_listing demo_sets"
    by (auto simp: t_run_def Run_def k_run_def demo_mon_def)
  moreover have "(let stuck = filter (\<lambda>(name, status). status \<noteq> ''True'') demo_sets
      in if stuck = [] then None
         else Some (KMsg (''stuck InstallerSets: ''
           @ join '', '' (map (\<lambda>(name, status). name @ ''('' @ status @ '')'') stuck)))) = Some stuck_message"
    by code_simp
  ultimately show ?thesis using stuck_sets_reported [OF r _ _ l] by (simp only: Let_def fst_conv)
qed

lemma demo_check: "fst (checkNoStuckInstallerSets demo_mon s) = Some stuck_message"
proof -
  have "list_all listed_set demo_sets" by code_simp
  note l = stuck_sets_listing [OF this]
  have "KMsg (''stuck InstallerSets: '' @ join '', '' (map (\<lambda>(name, status). name @ ''('' @ status @ '')'')
      (filter (\<lambda>(name, status). status \<noteq> ''True'') demo_sets))) = stuck_message"
    and "filter (\<lambda>(name, status). status \<noteq> ''True'') demo_sets \<noteq> []"
    by code_simp+
  with l show ?thesis
    by (auto simp: checkNoStuckInstallerSets_def t_run_def Run_def k_run_def demo_mon_def split: list.splits)
qed

theorem poll_reports_last_error_witness:
  "fst (pollUntilNoError demo_mon (checkNoStuckInstallerSets demo_mon) mon_start) = Some stuck_message"
proof -
  have c: "poll_contract (t_poll demo_mon)" by (simp add: demo_mon_def rounds_poller_contract)
  obtain err s' where p: "pollUntilNoError demo_mon (checkNoStuckInstallerSets demo_mon) mon_start = (err, s')"
    by (metis surj_pair)
  from poll_reports_last_error [OF c this] obtain t u where "checkNoStuckInstallerSets demo_mon t = (err, u)" by blast
  with demo_check [of t] p show ?thesis by simp
qed

end
