(* ===== verification/Prometheus.thy ===== *)
theory Prometheus
  imports MetricsProperties
begin

text \<open>
  \<open>pkg/monitoring/prometheus.go\<close> and \<open>configmap.go\<close>: reading metrics through the Prometheus API. The
  client library is a parameter: \<open>u_newClient\<close> makes a client from an address and an authorization
  header (or fails), and \<open>u_query\<close> is its query, which answers with a vector of sample values, with
  another kind of value, or with an error.
\<close>

section \<open>The client\<close>

record TargetService =
  ts_Job :: string
  ts_ExpectedValue :: string

datatype prom_value = PromVector "string list" | PromOther

record ('w, 'c) prom_deps =
  u_mon :: "'w mon_deps"
  u_newClient :: "string \<Rightarrow> string \<Rightarrow> string + 'c"
  u_query :: "'c \<Rightarrow> string \<Rightarrow> 'w \<Rightarrow> (string + prom_value) \<times> 'w"

fun route_host :: "mon_body \<Rightarrow> string" where
  "route_host (RouteBody host) = host"
| "route_host _ = []"

definition getPrometheusRoute :: "'w mon_deps \<Rightarrow> 'w mon_state \<Rightarrow> (kerror + mon_body kobject) \<times> 'w mon_state" where
  "getPrometheusRoute d s =
     (case k_get (t_server d) (Ref [] ''Route'' ''openshift-monitoring'' ''prometheus-k8s'') s of
        (Inl e, s1) \<Rightarrow> (Inl (KContext ''error getting Prometheus route'' (KApi e)), s1)
      | (Inr r, s1) \<Rightarrow> (Inr r, s1))"

definition getPrometheusSecretNameForToken :: "mon_body kobject list \<Rightarrow> string" where
  "getPrometheusSecretNameForToken secrets =
     (case List.find (\<lambda>sec. contains (ref_name (o_ref sec)) ''prometheus-k8s'' \<and> contains (ref_name (o_ref sec)) ''token'')
             secrets of
        Some sec \<Rightarrow> ref_name (o_ref sec)
      | None \<Rightarrow> [])"

definition list_secrets :: "'w mon_deps \<Rightarrow> 'w mon_state \<Rightarrow> (kerror + mon_body kobject list) \<times> 'w mon_state" where
  "list_secrets d s =
     (case k_list (t_server d) [] ''Secret'' ''openshift-monitoring'' [] s of
        (Inl e, s1) \<Rightarrow> (Inl (KContext ''error getting secrets from namespace openshift-monitoring'' (KApi e)), s1)
      | (Inr secrets, s1) \<Rightarrow> (Inr secrets, s1))"

text \<open>The name of the token Secret, which is generated once when there is none.\<close>

definition find_token_secret :: "'w mon_deps \<Rightarrow> 'w mon_state \<Rightarrow> (kerror + string) \<times> 'w mon_state" where
  "find_token_secret d s =
     (case list_secrets d s of
        (Inl e, s1) \<Rightarrow> (Inl e, s1)
      | (Inr secrets, s1) \<Rightarrow>
          if getPrometheusSecretNameForToken secrets \<noteq> []
          then (Inr (getPrometheusSecretNameForToken secrets), s1)
          else
            (case t_run d [''oc'', ''sa'', ''new-token'', ''prometheus-k8s'', ''-n'', ''openshift-monitoring''] s1 of
               (res, s2) \<Rightarrow>
                 if ExitCode res \<noteq> 0
                 then (Inl (KMsg (''error creating token for the service account prometheus-k8s: '' @ Stderr res)), s2)
                 else
                   (case list_secrets d s2 of
                      (Inl e, s3) \<Rightarrow> (Inl e, s3)
                    | (Inr again, s3) \<Rightarrow>
                        if getPrometheusSecretNameForToken again = []
                        then (Inl (KMsg ''could not find a service account token for service account \"prometheus-k8s\"''), s3)
                        else (Inr (getPrometheusSecretNameForToken again), s3))))"

definition getBearerTokenForPrometheusAccount :: "'w mon_deps \<Rightarrow> 'w mon_state \<Rightarrow> (kerror + string) \<times> 'w mon_state" where
  "getBearerTokenForPrometheusAccount d s =
     (case find_token_secret d s of
        (Inl e, s1) \<Rightarrow> (Inl e, s1)
      | (Inr tokenSecret, s1) \<Rightarrow>
          (case k_get (t_server d) (secret_ref ''openshift-monitoring'' tokenSecret) s1 of
             (Inl e, s2) \<Rightarrow> (Inl (KContext (''error getting secret '' @ tokenSecret) (KApi e)), s2)
           | (Inr sec, s2) \<Rightarrow>
               let tokenContents = label_of (map_of (secret_data (o_body sec))) ''token'' in
               if tokenContents = [] then (Inl (KMsg (''token data is missing for token '' @ tokenSecret)), s2)
               else (Inr tokenContents, s2)))"

definition newPrometheusClient :: "('w, 'c) prom_deps \<Rightarrow> 'w mon_state \<Rightarrow> (kerror + 'c) \<times> 'w mon_state" where
  "newPrometheusClient u s =
     (case getPrometheusRoute (u_mon u) s of
        (Inl e, s1) \<Rightarrow> (Inl e, s1)
      | (Inr route, s1) \<Rightarrow>
          (case getBearerTokenForPrometheusAccount (u_mon u) s1 of
             (Inl e, s2) \<Rightarrow> (Inl e, s2)
           | (Inr bToken, s2) \<Rightarrow>
               (case u_newClient u (''https://'' @ route_host (o_body route)) (''Bearer '' @ bToken) of
                  Inl e \<Rightarrow> (Inl (KMsg e), s2)
                | Inr pc \<Rightarrow> (Inr pc, s2))))"

section \<open>Metrics\<close>

definition prom_query :: "('w, 'c) prom_deps \<Rightarrow> 'c \<Rightarrow> string \<Rightarrow> 'w mon_state \<Rightarrow> (string + prom_value) \<times> 'w mon_state" where
  "prom_query u pc q s = (case u_query u pc q (io_world s) of (r, w) \<Rightarrow> (r, s\<lparr>io_world := w\<rparr>))"

text \<open>A poll over one query; an error of the query ends it.\<close>

definition query_condition ::
    "('w, 'c) prom_deps \<Rightarrow> 'c \<Rightarrow> string \<Rightarrow> (prom_value \<Rightarrow> bool) \<Rightarrow> ('w mon_state, kerror) cond" where
  "query_condition u pc q good s =
     (case prom_query u pc q s of
        (Inl e, s1) \<Rightarrow> ((False, Some (KMsg e)), s1)
      | (Inr v, s1) \<Rightarrow> ((good v, None), s1))"

definition wait_metric :: "('w, 'c) prom_deps \<Rightarrow> string \<Rightarrow> string \<Rightarrow> string \<Rightarrow> (prom_value \<Rightarrow> bool) \<Rightarrow> 'w mon_state step" where
  "wait_metric u noClient q failed good s =
     (case newPrometheusClient u s of
        (Inl e, s1) \<Rightarrow> (Some (if noClient = [] then e else KContext noClient e), s1)
      | (Inr pc, s1) \<Rightarrow>
          (case t_poll (u_mon u) 5 600 True (query_condition u pc q good) s1 of
             (None, s2) \<Rightarrow> (None, s2)
           | (Some e, s2) \<Rightarrow> (Some (KContext failed (the (of_poll (Some e)))), s2)))"

fun first_value :: "prom_value \<Rightarrow> string option" where
  "first_value (PromVector (v # _)) = Some v"
| "first_value _ = None"

definition VerifyHealthStatusMetric :: "('w, 'c) prom_deps \<Rightarrow> TargetService \<Rightarrow> 'w mon_state step" where
  "VerifyHealthStatusMetric u targetService =
     wait_metric u [] (''max(up{job=\"'' @ ts_Job targetService @ ''\"})'')
       ''failed to access the Prometheus API endpoint and get the metric value expected''
       (\<lambda>v. first_value v = Some (ts_ExpectedValue targetService))"

definition VerifyMetricExists :: "('w, 'c) prom_deps \<Rightarrow> string \<Rightarrow> 'w mon_state step" where
  "VerifyMetricExists u metricName =
     wait_metric u [] metricName (''metric '' @ go_quote metricName @ '' not found in Prometheus'')
       (\<lambda>v. first_value v \<noteq> None)"

definition VerifyMetricAbsent :: "('w, 'c) prom_deps \<Rightarrow> string \<Rightarrow> 'w mon_state step" where
  "VerifyMetricAbsent u metricName =
     wait_metric u (''failed to create Prometheus client while checking absence of '' @ go_quote metricName) metricName
       (''metric '' @ go_quote metricName @ '' should not exist but is still present after timeout'')
       (\<lambda>v. first_value v = None)"

definition pipelineMetrics :: "string list" where
  "pipelineMetrics =
     [''tekton_pipelines_controller_running_pipelineruns'',
      ''tekton_pipelines_controller_running_taskruns'',
      ''tekton_pipelines_controller_running_pipelineruns_waiting_on_pipeline_resolution'',
      ''tekton_pipelines_controller_running_pipelineruns_waiting_on_task_resolution'']"

definition VerifyPipelinesControlPlaneMetrics :: "('w, 'c) prom_deps \<Rightarrow> 'w mon_state step" where
  "VerifyPipelinesControlPlaneMetrics u = for_each (VerifyMetricExists u) pipelineMetrics"

section \<open>ConfigMap keys\<close>

fun map_data :: "mon_body \<Rightarrow> (string \<rightharpoonup> string)" where
  "map_data (DataBody m) = m"
| "map_data _ = Map.empty"

definition verify_key :: "bool \<Rightarrow> 'w mon_deps \<Rightarrow> string \<Rightarrow> string \<Rightarrow> string \<Rightarrow> 'w mon_state step" where
  "verify_key wanted d namespace cmName key s =
     (let shown = namespace @ ''/'' @ cmName in
      (case k_get (t_server d) (Ref [] ''ConfigMap'' namespace cmName) s of
         (Inl e, s1) \<Rightarrow> (Some (KContext (''failed to get ConfigMap '' @ shown) (KApi e)), s1)
       | (Inr cm, s1) \<Rightarrow>
           if (map_data (o_body cm) key \<noteq> None) = wanted then (None, s1)
           else (Some (KMsg (if wanted then ''key '' @ go_quote key @ '' not found in ConfigMap '' @ shown
             else ''key '' @ go_quote key @ '' should not exist in ConfigMap '' @ shown @ '' but was found'')), s1)))"

definition VerifyConfigMapKeyExists :: "'w mon_deps \<Rightarrow> string \<Rightarrow> string \<Rightarrow> string \<Rightarrow> 'w mon_state step" where
  "VerifyConfigMapKeyExists = verify_key True"

definition VerifyConfigMapKeyAbsent :: "'w mon_deps \<Rightarrow> string \<Rightarrow> string \<Rightarrow> string \<Rightarrow> 'w mon_state step" where
  "VerifyConfigMapKeyAbsent = verify_key False"

section \<open>The token\<close>

text \<open>
  A bearer token is the content of a Secret of the monitoring namespace that was listed there, whose
  name says it is a token of the Prometheus account; it is never empty.
\<close>

lemma token_secret_named:
  "getPrometheusSecretNameForToken secrets = name \<Longrightarrow> name \<noteq> [] \<Longrightarrow>
     name \<in> (\<lambda>sec. ref_name (o_ref sec)) ` set secrets \<and> contains name ''prometheus-k8s'' \<and> contains name ''token''"
  by (auto simp: getPrometheusSecretNameForToken_def find_Some_iff split: option.splits)

lemma bearer_token_nonempty:
  "getBearerTokenForPrometheusAccount d s = (Inr token, s') \<Longrightarrow> token \<noteq> []"
  by (auto simp: getBearerTokenForPrometheusAccount_def Let_def split: prod.splits sum.splits if_splits)

lemma find_token_secret_named:
  "find_token_secret d s = (Inr name, s') \<Longrightarrow>
     name \<noteq> [] \<and> contains name ''prometheus-k8s'' \<and> contains name ''token''"
  by (auto simp: find_token_secret_def token_secret_named split: prod.splits sum.splits if_splits)

section \<open>Waiting for metrics\<close>

lemma wait_metric_ok:
  assumes "poll_contract (t_poll (u_mon u))" and "wait_metric u noClient q failed good s = (None, s')"
  obtains pc v w where "u_query u pc q w = (Inr v, io_world s')" and "good v"
proof -
  from assms(2) obtain pc s1 where
      p: "t_poll (u_mon u) 5 600 True (query_condition u pc q good) s1 = (None, s')"
    by (auto simp: wait_metric_def split: prod.splits sum.splits option.splits)
  from poll_None [OF assms(1) p] obtain t where "query_condition u pc q good t = ((True, None), s')" by blast
  then have "\<exists>v. u_query u pc q (io_world t) = (Inr v, io_world s') \<and> good v"
    by (auto simp: query_condition_def prom_query_def split: prod.splits sum.splits)
  with that show ?thesis by blast
qed

text \<open>
  Presence and absence are decided by the last query, whose answer is a vector with a sample for the
  one and anything else for the other.
\<close>

lemma metric_verified:
  assumes "poll_contract (t_poll (u_mon u))"
  shows "VerifyMetricExists u m s = (None, s') \<Longrightarrow>
      \<exists>pc w x xs. u_query u pc m w = (Inr (PromVector (x # xs)), io_world s')"
    and "VerifyMetricAbsent u m s = (None, s') \<Longrightarrow>
      \<exists>pc w v. u_query u pc m w = (Inr v, io_world s') \<and> (v = PromVector [] \<or> v = PromOther)"
proof -
  have v: "first_value v = None \<longleftrightarrow> v = PromVector [] \<or> v = PromOther"
      "first_value v \<noteq> None \<longleftrightarrow> (\<exists>x xs. v = PromVector (x # xs))" for v
    by (cases v rule: first_value.cases; simp)+
  show "\<exists>pc w x xs. u_query u pc m w = (Inr (PromVector (x # xs)), io_world s')"
    if "VerifyMetricExists u m s = (None, s')"
    using wait_metric_ok [OF assms that [unfolded VerifyMetricExists_def]] v(2) by metis
  show "\<exists>pc w v. u_query u pc m w = (Inr v, io_world s') \<and> (v = PromVector [] \<or> v = PromOther)"
    if "VerifyMetricAbsent u m s = (None, s')"
    using wait_metric_ok [OF assms that [unfolded VerifyMetricAbsent_def]] v(1) by metis
qed

end
