(* ===== verification/ScanResults.thy ===== *)
theory ScanResults
  imports OcPatches
begin

text \<open>
  \<open>pkg/tlsscanner/results.go\<close>: the results of the TLS scanner and the assertions about one
  component. Reading the file and decoding its JSON are parameters. An assertion ends in a
  \<open>verdict\<close>: a failed \<open>Expect\<close> and \<open>Skip\<close> both end the test. Messages are cut after their first
  clause, so those of the strict and the lenient assertion are the same here.
\<close>

section \<open>The results\<close>

record APIServerCompliance =
  ac_ConfiguredProfile :: string
  ac_Version :: bool
  ac_Ciphers :: bool

record TLSReadiness =
  tr_TLS13Offered :: bool
  tr_TLS12Only :: bool
  tr_PQCCapable :: bool
  tr_Notes :: string

record PortResult =
  pt_Port :: int
  pt_Status :: string
  pt_TLS13Supported :: bool
  pt_MLKemSupported :: bool
  pt_APIServerCompliance :: "APIServerCompliance option"
  pt_TLSReadiness :: TLSReadiness

record IPResult =
  ip_IP :: string
  ip_Status :: string
  ip_OpenPorts :: "int list"
  ip_PortResults :: "PortResult list"
  ip_Component :: string
  ip_PodName :: string

record ScanResults =
  sr_TotalIPs :: int
  sr_ScannedIPs :: int
  sr_IPResults :: "IPResult list"
  sr_APIServerType :: string
  sr_MinTLSVersion :: string

datatype verdict = Passed | Skipped string | Failed string

text \<open>\<open>Expect(b).To(BeTrue(), msg)\<close> before the rest of the function.\<close>

definition check :: "bool \<Rightarrow> string \<Rightarrow> verdict \<Rightarrow> verdict" where
  "check b msg rest = (if b then rest else Failed msg)"

definition ParseResultsJSON ::
    "(string \<Rightarrow> string option) \<Rightarrow> (string \<Rightarrow> ScanResults option) \<Rightarrow> string \<Rightarrow> verdict + ScanResults" where
  "ParseResultsJSON readFile unmarshal path =
     (case readFile path of
        None \<Rightarrow> Inl (Failed (''failed to read scanner results from '' @ path))
      | Some dat \<Rightarrow>
          (case unmarshal dat of
             None \<Rightarrow> Inl (Failed (''failed to parse scanner results JSON from '' @ path))
           | Some results \<Rightarrow> Inr results))"

section \<open>Looking up\<close>

definition go_list :: "string list \<Rightarrow> string" where
  "go_list xs = ''['' @ join '' '' xs @ '']''"

definition findIPResultByPodPrefix :: "ScanResults \<Rightarrow> string \<Rightarrow> string + IPResult" where
  "findIPResultByPodPrefix results deploymentName =
     (case List.find (\<lambda>ip. has_prefix (ip_PodName ip) deploymentName) (sr_IPResults results) of
        Some ip \<Rightarrow> Inr ip
      | None \<Rightarrow> Inl (''no pod with prefix '' @ quoted (escape deploymentName) @ '' found; scanned pods: ''
          @ go_list (map ip_PodName (sr_IPResults results))))"

definition findTLSServingPort :: "IPResult \<Rightarrow> string + PortResult" where
  "findTLSServingPort ip =
     (case List.find (\<lambda>pr. pt_Status pr = ''OK'') (ip_PortResults ip) of
        Some pr \<Rightarrow> Inr pr
      | None \<Rightarrow> Inl (''no OK port found; port statuses: ''
          @ go_list (map (\<lambda>pr. ''port='' @ show_int (pt_Port pr) @ '' status='' @ pt_Status pr) (ip_PortResults ip))))"

section \<open>Assertions\<close>

definition AssertClusterTLSSecurityConfig :: "ScanResults \<Rightarrow> string list \<Rightarrow> verdict" where
  "AssertClusterTLSSecurityConfig results acceptableProfiles =
     check (sr_APIServerType results \<in> set acceptableProfiles)
       (''cluster APIServer TLS profile '' @ quoted (escape (sr_APIServerType results))
         @ '' is not in the accepted PQC-capable profiles '' @ go_list acceptableProfiles) Passed"

definition port_prefix :: "string \<Rightarrow> IPResult \<Rightarrow> PortResult \<Rightarrow> string" where
  "port_prefix deploymentName ip port = ''component '' @ quoted (escape deploymentName) @ '' pod ''
     @ quoted (escape (ip_PodName ip)) @ '' port '' @ show_int (pt_Port port)"

text \<open>The two blocks under the compliance pointer: the earlier \<open>Expect\<close> has excluded nil.\<close>

definition honors :: "(APIServerCompliance \<Rightarrow> bool) \<Rightarrow> PortResult \<Rightarrow> bool" where
  "honors f port = (case pt_APIServerCompliance port of None \<Rightarrow> False | Some ac \<Rightarrow> f ac)"

definition assert_port :: "string \<Rightarrow> IPResult \<Rightarrow> PortResult \<Rightarrow> verdict" where
  "assert_port deploymentName ip port =
     (let prefix = port_prefix deploymentName ip port in
      check (pt_TLS13Supported port) (prefix @ '': TLS 1.3 not offered'')
     (check (pt_MLKemSupported port) (prefix @ '': ML-KEM not supported'')
     (check (pt_APIServerCompliance port \<noteq> None) (prefix @ '': api_server_tls_config_compliance block missing'')
     (check (honors ac_Version port) (prefix @ '': does not honor cluster min TLS version'')
     (check (honors ac_Ciphers port) (prefix @ '': does not honor cluster cipher suite'')
     (check (\<not> tr_TLS12Only (pt_TLSReadiness port)) (prefix @ '': serves TLS 1.2 only'') Passed))))))"

definition not_scanned :: "string \<Rightarrow> string" where
  "not_scanned deploymentName = ''component '' @ quoted (escape deploymentName) @ '' not found in scan results''"

definition no_tls_port :: "string \<Rightarrow> IPResult \<Rightarrow> string" where
  "no_tls_port deploymentName ip = ''no TLS-serving port (status=OK) found for component ''
     @ quoted (escape deploymentName) @ '' (pod '' @ quoted (escape (ip_PodName ip)) @ '', open ports: ''
     @ go_list (map show_int (ip_OpenPorts ip)) @ '')''"

definition AssertComponentPQCCompliant :: "ScanResults \<Rightarrow> string \<Rightarrow> verdict" where
  "AssertComponentPQCCompliant results deploymentName =
     (case findIPResultByPodPrefix results deploymentName of
        Inl e \<Rightarrow> Failed (not_scanned deploymentName)
      | Inr ip \<Rightarrow>
          (case findTLSServingPort ip of
             Inl e \<Rightarrow> Failed (no_tls_port deploymentName ip)
           | Inr port \<Rightarrow> assert_port deploymentName ip port))"

fun assert_no_tls :: "string \<Rightarrow> IPResult \<Rightarrow> PortResult list \<Rightarrow> verdict" where
  "assert_no_tls deploymentName ip [] = Passed"
| "assert_no_tls deploymentName ip (pr # prs) =
     check (pt_Status pr = ''NO_TLS'')
       (port_prefix deploymentName ip pr @ '': expected NO_TLS (edge termination) but got '' @ pt_Status pr)
       (assert_no_tls deploymentName ip prs)"

definition AssertComponentEdgeTerminated :: "ScanResults \<Rightarrow> string \<Rightarrow> verdict" where
  "AssertComponentEdgeTerminated results deploymentName =
     (case findIPResultByPodPrefix results deploymentName of
        Inl e \<Rightarrow> Failed (not_scanned deploymentName)
      | Inr ip \<Rightarrow> assert_no_tls deploymentName ip (ip_PortResults ip))"

definition AssertComponentPQCCompliantOrNoPort :: "ScanResults \<Rightarrow> string \<Rightarrow> verdict" where
  "AssertComponentPQCCompliantOrNoPort results deploymentName =
     (case findIPResultByPodPrefix results deploymentName of
        Inl e \<Rightarrow> Failed (not_scanned deploymentName)
      | Inr ip \<Rightarrow>
          if (case ip_PortResults ip of [pr] \<Rightarrow> pt_Status pr = ''NO_PORTS'' | _ \<Rightarrow> False)
          then Skipped (''component '' @ quoted (escape deploymentName)
            @ '': scanner found NO_PORTS (pod declares no container ports); manually verify TLS on service port'')
          else
            (case findTLSServingPort ip of
               Inl e \<Rightarrow> Failed (no_tls_port deploymentName ip)
             | Inr port \<Rightarrow> assert_port deploymentName ip port))"

section \<open>What passes\<close>

text \<open>The first element that satisfies a predicate.\<close>

definition first_with :: "('a \<Rightarrow> bool) \<Rightarrow> 'a list \<Rightarrow> 'a \<Rightarrow> bool" where
  "first_with P xs x \<longleftrightarrow> (\<exists>before after. xs = before @ x # after \<and> P x \<and> list_all (\<lambda>y. \<not> P y) before)"

lemma find_first_with: "List.find P xs = Some x \<longleftrightarrow> first_with P xs x"
proof (induction xs)
  case (Cons y ys)
  have "first_with P (y # ys) x \<longleftrightarrow> (if P y then x = y else first_with P ys x)" (is "?l \<longleftrightarrow> ?r")
  proof
    assume ?r
    show ?l
    proof (cases "P y")
      case True
      with \<open>?r\<close> show ?thesis unfolding first_with_def by (intro exI [of _ "[]"] exI [of _ ys]) simp
    next
      case False
      with \<open>?r\<close> obtain before after where "ys = before @ x # after" "P x" "list_all (\<lambda>y. \<not> P y) before"
        by (auto simp: first_with_def)
      with False show ?thesis unfolding first_with_def
        by (intro exI [of _ "y # before"] exI [of _ after]) simp
    qed
  qed (auto simp: first_with_def Cons_eq_append_conv)
  with Cons show ?case by auto
qed (simp add: first_with_def)

text \<open>The five dimensions of compliance.\<close>

definition pqc_port :: "PortResult \<Rightarrow> bool" where
  "pqc_port port =
     (pt_TLS13Supported port \<and> pt_MLKemSupported port \<and> \<not> tr_TLS12Only (pt_TLSReadiness port)
      \<and> (case pt_APIServerCompliance port of None \<Rightarrow> False | Some ac \<Rightarrow> ac_Version ac \<and> ac_Ciphers ac))"

lemma check_Passed [simp]: "check b msg rest = Passed \<longleftrightarrow> b \<and> rest = Passed"
  by (simp add: check_def)

lemma assert_port_Passed: "assert_port n ip port = Passed \<longleftrightarrow> pqc_port port"
  by (auto simp: assert_port_def Let_def pqc_port_def honors_def split: option.splits)

lemma assert_no_tls_Passed: "assert_no_tls n ip prs = Passed \<longleftrightarrow> list_all (\<lambda>pr. pt_Status pr = ''NO_TLS'') prs"
  by (induction prs) auto

lemma findIP_Inr:
  "findIPResultByPodPrefix results n = Inr ip \<longleftrightarrow> first_with (\<lambda>ip. has_prefix (ip_PodName ip) n) (sr_IPResults results) ip"
  by (simp add: findIPResultByPodPrefix_def flip: find_first_with split: option.splits)

lemma findPort_Inr:
  "findTLSServingPort ip = Inr pr \<longleftrightarrow> first_with (\<lambda>pr. pt_Status pr = ''OK'') (ip_PortResults ip) pr"
  by (simp add: findTLSServingPort_def flip: find_first_with split: option.splits)

text \<open>
  C23: AssertComponentPQCCompliant passes exactly when the first scanned pod whose name starts with the
  deployment's name has a port with status OK and the first such port meets all five dimensions; and
  no component passes both as PQC compliant and as edge terminated.
\<close>

theorem pqc_compliant_iff:
  "(AssertComponentPQCCompliant results n = Passed) =
     (\<exists>ip port. first_with (\<lambda>ip. has_prefix (ip_PodName ip) n) (sr_IPResults results) ip
        \<and> first_with (\<lambda>pr. pt_Status pr = ''OK'') (ip_PortResults ip) port \<and> pqc_port port)
   \<and> \<not> (AssertComponentPQCCompliant results n = Passed \<and> AssertComponentEdgeTerminated results n = Passed)"
proof
  show "(AssertComponentPQCCompliant results n = Passed) =
     (\<exists>ip port. first_with (\<lambda>ip. has_prefix (ip_PodName ip) n) (sr_IPResults results) ip
        \<and> first_with (\<lambda>pr. pt_Status pr = ''OK'') (ip_PortResults ip) port \<and> pqc_port port)"
    by (auto simp: AssertComponentPQCCompliant_def assert_port_Passed simp flip: findIP_Inr findPort_Inr
        split: sum.splits)
next
  have "list_all (\<lambda>pr. pt_Status pr = ''NO_TLS'') prs \<Longrightarrow> first_with (\<lambda>pr. pt_Status pr = ''OK'') prs pr \<Longrightarrow> False"
    for prs pr by (auto simp: first_with_def)
  then show "\<not> (AssertComponentPQCCompliant results n = Passed \<and> AssertComponentEdgeTerminated results n = Passed)"
    by (auto simp: AssertComponentPQCCompliant_def AssertComponentEdgeTerminated_def assert_no_tls_Passed findPort_Inr
        split: sum.splits)
qed

text \<open>
  The lenient assertion differs from the strict one only where the scanner saw no ports: it skips
  the test there, and the strict one fails.
\<close>

lemma or_no_port_verdict:
  "AssertComponentPQCCompliantOrNoPort results n =
     (case findIPResultByPodPrefix results n of
        Inr ip \<Rightarrow>
          if map pt_Status (ip_PortResults ip) = [''NO_PORTS'']
          then AssertComponentPQCCompliantOrNoPort results n else AssertComponentPQCCompliant results n
      | Inl e \<Rightarrow> AssertComponentPQCCompliant results n)"
  by (auto simp: AssertComponentPQCCompliantOrNoPort_def AssertComponentPQCCompliant_def
      split: sum.splits list.splits)

text \<open>A pod without port results passes as edge terminated, although nothing was seen of its ports.\<close>

lemma edge_terminated_without_ports:
  "findIPResultByPodPrefix results n = Inr ip \<Longrightarrow> ip_PortResults ip = [] \<Longrightarrow>
     AssertComponentEdgeTerminated results n = Passed"
  by (simp add: AssertComponentEdgeTerminated_def)

end
