(* ===== verification/ScannerJob.thy ===== *)
theory ScannerJob
  imports OcCli
begin

text \<open>
  \<open>pkg/tlsscanner/rbac.go\<close>, \<open>networkpolicy.go\<close> and \<open>job.go\<close>: the scanner's namespace, its
  permissions, and the Job that runs it. Pauses leave no trace in the model.
\<close>

section \<open>Names\<close>

definition ScannerNamespace :: string where "ScannerNamespace = ''tls-scanner''"
definition ScannerImage :: string where "ScannerImage = ''quay.io/jkhelil/tls-scanner:latest''"
definition ScannerJobName :: string where "ScannerJobName = ''tls-scanner-pipelines''"
definition scannerSA :: string where "scannerSA = ''default''"
definition crossNSRole :: string where "crossNSRole = ''tls-scanner-cross-namespace''"
definition crossNSBinding :: string where "crossNSBinding = ''tls-scanner-cross-namespace''"
definition artifactWaitSecs :: string where "artifactWaitSecs = ''300''"
definition ScanCompleteMarker :: string where "ScanCompleteMarker = ''Pausing for artifact collection''"
definition resultsDir :: string where "resultsDir = ''/artifacts''"

section \<open>Objects and state\<close>

record job_spec =
  jb_BackoffLimit :: int
  jb_ServiceAccountName :: string
  jb_RestartPolicy :: string
  jb_ContainerName :: string
  jb_Image :: string
  jb_Command :: "string list"
  jb_Args :: "string list"
  jb_Privileged :: bool
  jb_VolumeMounts :: "(string \<times> string) list"
  jb_EmptyDirs :: "string list"

datatype scan_body = JobBody job_spec | ScanPod string

fun pod_phase :: "scan_body \<Rightarrow> string" where
  "pod_phase (ScanPod ph) = ph"
| "pod_phase (JobBody _) = []"

text \<open>\<open>n_podName\<close> is the variable the poll closure of \<open>waitForScannerPod\<close> assigns.\<close>

record 'w scan_state = "('w, scan_body) io" +
  n_podName :: string

record 'w scan_deps =
  n_server :: "('w, scan_body) server"
  n_poll :: "('w scan_state, kerror) poller"
  n_oc :: "'w oc_env"
  n_stdin :: "string \<Rightarrow> 'w shell"

definition n_run :: "'w scan_deps \<Rightarrow> string list \<Rightarrow> 'w scan_state \<Rightarrow> cmd_result \<times> 'w scan_state" where
  "n_run d args = Run (oc_shell (n_oc d)) (oc_connection (n_oc d)) args"

definition ignored :: "'w scan_deps \<Rightarrow> string list \<Rightarrow> 'w scan_state step" where
  "ignored d args = ignore (n_run d args)"

definition expect_nil :: "string \<Rightarrow> kerror option \<Rightarrow> 's step" where
  "expect_nil msg err s = ((case err of None \<Rightarrow> None | Some _ \<Rightarrow> Some (KAbort msg)), s)"

section \<open>Namespace and permissions\<close>

definition phase_line :: "string list" where
  "phase_line = [''oc'', ''get'', ''namespace'', ScannerNamespace, ''-o'', ''jsonpath={.status.phase}'']"

definition finalizer_line :: "string list" where
  "finalizer_line = [''oc'', ''patch'', ''namespace'', ScannerNamespace, ''--type=merge'',
     ''-p={\"spec\":{\"finalizers\":[]}}'']"

text \<open>The loop from \<open>retry\<close> on, with \<open>n\<close> rounds left; it tells whether the function returned in it.\<close>

fun namespace_loop :: "'w scan_deps \<Rightarrow> nat \<Rightarrow> nat \<Rightarrow> 'w scan_state \<Rightarrow> bool \<times> 'w scan_state" where
  "namespace_loop d retry 0 s = (False, s)"
| "namespace_loop d retry (Suc n) s =
     (case n_run d phase_line s of
        (res, s1) \<Rightarrow>
          if ExitCode res \<noteq> 0 then (False, s1)
          else if trim_space (Stdout res) = ''Active'' then (True, s1)
          else namespace_loop d (Suc retry) n (if retry = 0 then snd (n_run d finalizer_line s1) else s1))"

definition SetupScannerNamespace :: "'w scan_deps \<Rightarrow> 'w scan_state step" where
  "SetupScannerNamespace d s =
     (case namespace_loop d 0 30 s of
        (True, s1) \<Rightarrow> (None, s1)
      | (False, s1) \<Rightarrow> CreateNewProject_pkg (n_oc d) ScannerNamespace s1)"

definition saRef :: string where
  "saRef = ''system:serviceaccount:'' @ ScannerNamespace @ '':'' @ scannerSA"

definition SetupScannerRBAC :: "'w scan_deps \<Rightarrow> 'w scan_state step" where
  "SetupScannerRBAC d =
     seq (AddClusterRoleToUser (n_oc d) ''cluster-reader'' saRef)
    (seq (AddSCCToUser (n_oc d) ''privileged'' saRef)
    (seq (ignored d [''oc'', ''delete'', ''clusterrole'', crossNSRole, ''--ignore-not-found=true''])
    (seq (must_run (n_oc d) [''oc'', ''create'', ''clusterrole'', crossNSRole, ''--verb=get,list,watch'',
            ''--resource=pods,services,endpoints,namespaces,nodes,secrets''])
    (seq (ignored d [''oc'', ''delete'', ''clusterrolebinding'', crossNSBinding, ''--ignore-not-found=true''])
         (must_run (n_oc d) [''oc'', ''create'', ''clusterrolebinding'', crossNSBinding,
            ''--clusterrole='' @ crossNSRole, ''--serviceaccount='' @ ScannerNamespace @ '':'' @ scannerSA])))))"

definition TeardownScannerRBAC :: "'w scan_deps \<Rightarrow> 'w scan_state step" where
  "TeardownScannerRBAC d =
     seq (RemoveClusterRoleFromUser (n_oc d) ''cluster-reader'' saRef)
    (seq (RemoveSCCFromUser (n_oc d) ''privileged'' saRef)
    (seq (ignored d [''oc'', ''delete'', ''clusterrolebinding'', crossNSBinding, ''--ignore-not-found=true''])
    (seq (ignored d [''oc'', ''delete'', ''clusterrole'', crossNSRole, ''--ignore-not-found=true''])
         (DeleteProject_pkg (n_oc d) ScannerNamespace))))"

section \<open>The network policy\<close>

definition consolePluginAllowPolicy :: string where
  "consolePluginAllowPolicy = ''tls-scanner-console-plugin-allow''"

definition TargetNamespace :: string where
  "TargetNamespace = ''openshift-pipelines''"

definition allow_policy_yaml :: "string \<Rightarrow> string" where
  "allow_policy_yaml plugin = concat (map (\<lambda>line. line @ [CHR 10])
     [''apiVersion: networking.k8s.io/v1'',
      ''kind: NetworkPolicy'',
      ''metadata:'',
      ''  name: '' @ consolePluginAllowPolicy,
      ''  namespace: '' @ TargetNamespace,
      ''  labels:'',
      ''    app.kubernetes.io/part-of: tls-scanner'',
      ''spec:'',
      ''  podSelector:'',
      ''    matchLabels:'',
      ''      app: '' @ plugin,
      ''  policyTypes:'',
      ''  - Ingress'',
      ''  ingress:'',
      ''  - from:'',
      ''    - namespaceSelector:'',
      ''        matchLabels:'',
      ''          kubernetes.io/metadata.name: '' @ ScannerNamespace,
      ''    ports:'',
      ''    - protocol: TCP'',
      ''      port: 8443''])"

definition AllowScannerIngressToConsolePlugin :: "'w scan_deps \<Rightarrow> 'w scan_state step" where
  "AllowScannerIngressToConsolePlugin d s =
     (case MustSucceedWithStdin (n_stdin d) (oc_connection (n_oc d)) (allow_policy_yaml ''pipelines-console-plugin'')
             [''oc'', ''apply'', ''-f'', ''-''] s of
        (Inl e, s') \<Rightarrow> (Some e, s')
      | (Inr _, s') \<Rightarrow> (None, s'))"

definition TeardownScannerIngressToConsolePlugin :: "'w scan_deps \<Rightarrow> 'w scan_state step" where
  "TeardownScannerIngressToConsolePlugin d =
     ignored d [''oc'', ''delete'', ''networkpolicy'', consolePluginAllowPolicy, ''-n'', TargetNamespace,
       ''--ignore-not-found=true'']"

section \<open>The Job\<close>

definition scanner_script :: "string \<Rightarrow> string" where
  "scanner_script nsFilter = concat (map (\<lambda>line. line @ [CHR 10])
     [[],
      ''/usr/local/bin/tls-scanner --all-pods -j 4 '' @ [CHR 0x5C],
      ''  --artifact-dir '' @ resultsDir @ '' '' @ [CHR 0x5C],
      ''  --json-file '' @ resultsDir @ ''/results.json '' @ [CHR 0x5C],
      ''  --csv-file '' @ resultsDir @ ''/results.csv '' @ [CHR 0x5C],
      ''  --timing-file timing.txt '' @ [CHR 0x5C],
      ''  --log-file '' @ resultsDir @ ''/scan.log '' @ [CHR 0x5C],
      ''  --namespace-filter '' @ nsFilter @ '' &'',
      [],
      ''SCANNER_PID=$!'',
      ''tail -f --retry '' @ resultsDir @ ''/scan.log &'',
      ''TAIL_PID=$!'',
      [],
      ''wait $SCANNER_PID'',
      ''exit_code=$?'',
      [],
      ''kill $TAIL_PID 2>/dev/null || true'',
      ''sleep 2'',
      [],
      ''echo \"\"'',
      ''echo \"==========================================\"'',
      ''echo \"Scanner finished with exit code: $exit_code\"'',
      ''echo \"==========================================\"'',
      [],
      ''echo \"'' @ ScanCompleteMarker @ ''\"'',
      ''sleep '' @ artifactWaitSecs,
      ''exit 0''])"

definition job_ref :: ref where
  "job_ref = Ref [] ''Job'' ScannerNamespace ScannerJobName"

definition buildScannerJob :: "string \<Rightarrow> scan_body kobject" where
  "buildScannerJob nsFilter = \<lparr>o_ref = job_ref, o_labels = Map.empty, o_uid = [],
     o_body = JobBody \<lparr>jb_BackoffLimit = 2, jb_ServiceAccountName = scannerSA, jb_RestartPolicy = ''Never'',
       jb_ContainerName = ''tls-scanner'', jb_Image = ScannerImage, jb_Command = [''/bin/sh'', ''-c''],
       jb_Args = [scanner_script nsFilter], jb_Privileged = True,
       jb_VolumeMounts = [(''artifacts'', resultsDir)], jb_EmptyDirs = [''artifacts'']\<rparr>\<rparr>"

definition deleteExistingJob :: "'w scan_deps \<Rightarrow> 'w scan_state step" where
  "deleteExistingJob d s = (None, snd (k_delete (n_server d) job_ref s))"

definition scanner_pod_condition :: "'w scan_deps \<Rightarrow> ('w scan_state, kerror) cond" where
  "scanner_pod_condition d s =
     (case k_list (n_server d) [] ''Pod'' ScannerNamespace (''job-name='' @ ScannerJobName) s of
        (Inl e, s1) \<Rightarrow> ((False, None), s1)
      | (Inr [], s1) \<Rightarrow> ((False, None), s1)
      | (Inr (pod # _), s1) \<Rightarrow>
          let phase = pod_phase (o_body pod) in
          if phase = ''Pending'' then ((False, None), s1)
          else if phase = ''Failed''
          then ((False, Some (KMsg (''scanner pod '' @ ref_name (o_ref pod) @ '' entered Failed phase''))), s1)
          else ((True, None), s1\<lparr>n_podName := ref_name (o_ref pod)\<rparr>))"

definition waitForScannerPod :: "'w scan_deps \<Rightarrow> 'w scan_state \<Rightarrow> (kerror + string) \<times> 'w scan_state" where
  "waitForScannerPod d s =
     (case n_poll d 5 600 True (scanner_pod_condition d) (s\<lparr>n_podName := []\<rparr>) of
        (None, s') \<Rightarrow> (Inr (n_podName s'), s')
      | (Some _, s') \<Rightarrow> (Inl (KAbort ''scanner pod did not start''), s'))"

definition logs_line :: "string \<Rightarrow> string list" where
  "logs_line podName = [''oc'', ''logs'', ''-n'', ScannerNamespace, podName]"

definition scan_complete_condition :: "'w scan_deps \<Rightarrow> string \<Rightarrow> ('w scan_state, kerror) cond" where
  "scan_complete_condition d podName s =
     (case n_run d (logs_line podName) s of
        (res, s1) \<Rightarrow> ((ExitCode res = 0 \<and> contains (Stdout res) ScanCompleteMarker, None), s1))"

definition waitForScanComplete :: "'w scan_deps \<Rightarrow> string \<Rightarrow> 'w scan_state step" where
  "waitForScanComplete d podName s =
     (case n_poll d 15 1200 False (scan_complete_condition d podName) s of
        (err, s') \<Rightarrow> expect_nil ''tls-scanner did not complete within the allowed window'' (of_poll err) s')"

definition RunScannerJob :: "'w scan_deps \<Rightarrow> string \<Rightarrow> 'w scan_state \<Rightarrow> (kerror + string) \<times> 'w scan_state" where
  "RunScannerJob d nsFilter s =
     (case k_create (n_server d) (buildScannerJob nsFilter) (snd (deleteExistingJob d s)) of
        (Inl e, s1) \<Rightarrow> (Inl (KAbort ''failed to create tls-scanner Job''), s1)
      | (Inr _, s1) \<Rightarrow>
          (case waitForScannerPod d s1 of
             (Inl e, s2) \<Rightarrow> (Inl e, s2)
           | (Inr podName, s2) \<Rightarrow>
               (case waitForScanComplete d podName s2 of
                  (Some e, s3) \<Rightarrow> (Inl e, s3)
                | (None, s3) \<Rightarrow> (Inr podName, s3))))"

definition results_path :: "string \<Rightarrow> string" where
  "results_path podName = ScannerNamespace @ ''/'' @ podName @ '':'' @ resultsDir @ ''/results.json''"

definition ExtractResults :: "'w scan_deps \<Rightarrow> string \<Rightarrow> string \<Rightarrow> 'w scan_state step" where
  "ExtractResults d podName destPath = must_run (n_oc d) [''oc'', ''cp'', results_path podName, destPath]"

end
