(* ===== verification/ScannerProperties.thy ===== *)
theory ScannerProperties
  imports ScannerJob
begin

text \<open>
  What running the scanner guarantees: the commands of setup and teardown, and what was seen when
  \<open>RunScannerJob\<close> returns a pod.
\<close>

section \<open>Commands of setup and teardown\<close>

lemma n_run_lines:
  "n_run d args s = (res, s') \<Longrightarrow>
     ran_lines (io_trace s') = Command (oc_connection (n_oc d)) args # ran_lines (io_trace s)"
  unfolding n_run_def by (rule ran_lines_run)

lemma ignored_lines:
  "fst (ignored d args s) = None"
  "ran_lines (io_trace (snd (ignored d args s))) = Command (oc_connection (n_oc d)) args # ran_lines (io_trace s)"
  using n_run_lines [of d args s "fst (n_run d args s)" "snd (n_run d args s)"]
  by (simp_all add: ignored_def ignore_def)

lemma must_run_lines:
  "must_run oc args s = (err, s') \<Longrightarrow>
     ran_lines (io_trace s') = Command (oc_connection oc) args # ran_lines (io_trace s)"
  by (auto simp: must_run_def MustSucceed_def Assert_def split: prod.splits sum.splits if_splits dest!: ran_lines_run)

text \<open>The package functions of teardown are ignored commands.\<close>

lemma teardown_steps:
  "RemoveClusterRoleFromUser (n_oc d) role u = ignored d [''oc'', ''adm'', ''policy'', ''remove-cluster-role-from-user'', role, u]"
  "RemoveSCCFromUser (n_oc d) role u = ignored d [''oc'', ''adm'', ''policy'', ''remove-scc-from-user'', role, u]"
  "DeleteProject_pkg (n_oc d) ns = ignored d [''oc'', ''delete'', ''project'', ns, ''--ignore-not-found=true'']"
  by (simp_all add: RemoveClusterRoleFromUser_def RemoveSCCFromUser_def DeleteProject_pkg_def ignored_def n_run_def)

lemma seq_ignored: "seq (ignored d args) m s = m (snd (ignored d args s))"
  by (simp add: seq_def ignored_def ignore_def)

definition teardown_lines :: "string list list" where
  "teardown_lines =
     [[''oc'', ''adm'', ''policy'', ''remove-cluster-role-from-user'', ''cluster-reader'', saRef],
      [''oc'', ''adm'', ''policy'', ''remove-scc-from-user'', ''privileged'', saRef],
      [''oc'', ''delete'', ''clusterrolebinding'', crossNSBinding, ''--ignore-not-found=true''],
      [''oc'', ''delete'', ''clusterrole'', crossNSRole, ''--ignore-not-found=true''],
      [''oc'', ''delete'', ''project'', ScannerNamespace, ''--ignore-not-found=true'']]"

text \<open>Teardown never fails and runs its five commands in order, whatever they answer.\<close>

lemma teardown_runs_all:
  "fst (TeardownScannerRBAC d s) = None
   \<and> ran_lines (io_trace (snd (TeardownScannerRBAC d s)))
     = rev (map (Command (oc_connection (n_oc d))) teardown_lines) @ ran_lines (io_trace s)"
  unfolding TeardownScannerRBAC_def teardown_steps seq_ignored
  by (simp add: ignored_lines teardown_lines_def)

text \<open>The loop reads the phase at most \<open>n\<close> times and patches only in the round \<open>retry = 0\<close>.\<close>

lemma loop_lines:
  assumes "namespace_loop d retry n s = (b, s')"
  shows "\<exists>k \<le> n. \<exists>fin. length fin \<le> 1 \<and> set fin \<subseteq> {finalizer_line} \<and> (retry \<noteq> 0 \<longrightarrow> fin = [])
    \<and> ran_lines (io_trace s') = rev (map (Command (oc_connection (n_oc d)))
        (if k = 0 then [] else phase_line # fin @ replicate (k - 1) phase_line)) @ ran_lines (io_trace s)"
    (is "\<exists>k \<le> n. \<exists>fin. ?P retry s s' k fin")
  using assms
proof (induction n arbitrary: retry s)
  case 0
  then show ?case by (auto intro!: exI [of _ "[]"])
next
  case (Suc n)
  obtain res s1 where r: "n_run d phase_line s = (res, s1)" by (metis surj_pair)
  note l = n_run_lines [OF r]
  show ?case
  proof (cases "ExitCode res \<noteq> 0 \<or> trim_space (Stdout res) = ''Active''")
    case True
    with Suc.prems r have "s' = s1" by (auto split: if_splits)
    with l have "?P retry s s' 1 []" by simp
    moreover have "1 \<le> Suc n" by simp
    ultimately show ?thesis by blast
  next
    case False
    let ?s2 = "if retry = 0 then snd (n_run d finalizer_line s1) else s1"
    let ?fin = "if retry = 0 then [finalizer_line] else []"
    from False Suc.prems r have "namespace_loop d (Suc retry) n ?s2 = (b, s')" by auto
    from Suc.IH [OF this] obtain k where k: "k \<le> n" and "?P (Suc retry) ?s2 s' k []" by auto
    then have "ran_lines (io_trace s') = rev (map (Command (oc_connection (n_oc d)))
        (replicate k phase_line)) @ ran_lines (io_trace ?s2)"
      by (cases k) auto
    moreover have "ran_lines (io_trace ?s2) = rev (map (Command (oc_connection (n_oc d))) ?fin) @ ran_lines (io_trace s1)"
      using n_run_lines [of d finalizer_line s1] by (cases "n_run d finalizer_line s1") simp
    ultimately have "?P retry s s' (Suc k) ?fin" using l by auto
    moreover from k have "Suc k \<le> Suc n" by simp
    ultimately show ?thesis by blast
  qed
qed

text \<open>
  SetupScannerNamespace always ends, after at most thirty reads of the namespace's phase, with at
  most one patch that drops the finalizers, and that directly after the first read; the last command
  may create the project.
\<close>

theorem setup_namespace_bounded:
  "\<exists>k fin create. k \<le> 30 \<and> length fin \<le> 1 \<and> set fin \<subseteq> {finalizer_line}
     \<and> create \<in> {[], [[''oc'', ''new-project'', ScannerNamespace]]}
     \<and> ran_lines (io_trace (snd (SetupScannerNamespace d s)))
       = rev (map (Command (oc_connection (n_oc d)))
           ((if k = 0 then [] else phase_line # fin @ replicate (k - 1) phase_line) @ create)) @ ran_lines (io_trace s)"
proof -
  obtain b s1 where l: "namespace_loop d 0 30 s = (b, s1)" by (metis surj_pair)
  then obtain k fin where k: "k \<le> 30" "length fin \<le> 1" "set fin \<subseteq> {finalizer_line}"
    and r: "ran_lines (io_trace s1) = rev (map (Command (oc_connection (n_oc d)))
        (if k = 0 then [] else phase_line # fin @ replicate (k - 1) phase_line)) @ ran_lines (io_trace s)"
    using loop_lines by blast
  obtain err s2 where m: "must_run (n_oc d) [''oc'', ''new-project'', ScannerNamespace] s1 = (err, s2)"
    by (metis surj_pair)
  have "ran_lines (io_trace (snd (SetupScannerNamespace d s))) =
      rev (map (Command (oc_connection (n_oc d))) (if b then [] else [[''oc'', ''new-project'', ScannerNamespace]]))
      @ ran_lines (io_trace s1)"
    using l m must_run_lines [OF m] by (simp add: SetupScannerNamespace_def CreateNewProject_pkg_def)
  with r k show ?thesis
    by (intro exI [of _ k] exI [of _ fin] exI [of _ "if b then [] else [[''oc'', ''new-project'', ScannerNamespace]]"])
      simp
qed

section \<open>A finished scan\<close>

text \<open>A listing whose first pod has the name and is neither pending nor failed.\<close>

fun pod_listed :: "string \<Rightarrow> scan_body event \<Rightarrow> bool" where
  "pod_listed name (Listed c k ns sel (Inr (pod # _))) =
     (k = ''Pod'' \<and> ns = ScannerNamespace \<and> sel = ''job-name='' @ ScannerJobName \<and> ref_name (o_ref pod) = name
      \<and> pod_phase (o_body pod) \<notin> {''Pending'', ''Failed''})"
| "pod_listed name _ = False"

lemma pod_condition_saw:
  assumes "scanner_pod_condition d s = ((True, None), s')"
  shows "grows s s' \<and> saw (pod_listed (n_podName s')) s s'"
proof -
  obtain q s1 where l: "k_list (n_server d) [] ''Pod'' ScannerNamespace (''job-name='' @ ScannerJobName) s = (q, s1)"
    by (metis surj_pair)
  from call_frames(5) [OF l] assms l show ?thesis
    by (auto simp: scanner_pod_condition_def Let_def grows_def saw_def split: sum.splits list.splits if_splits)
qed

lemma pod_condition_grows: "grows s0 s \<Longrightarrow> grows s0 (snd (scanner_pod_condition d s))"
proof -
  assume g: "grows s0 s"
  obtain q s1 where l: "k_list (n_server d) [] ''Pod'' ScannerNamespace (''job-name='' @ ScannerJobName) s = (q, s1)"
    by (metis surj_pair)
  from call_frames(5) [OF l] g l show ?thesis
    by (auto simp: scanner_pod_condition_def Let_def grows_def split: sum.splits list.splits)
qed

lemma pod_wait_saw:
  assumes "poll_contract (n_poll d)" and "waitForScannerPod d s = (Inr podName, s')"
  shows "saw (pod_listed podName) s s'"
proof -
  let ?s = "s\<lparr>n_podName := []\<rparr>"
  from assms(2) have p: "n_poll d 5 600 True (scanner_pod_condition d) ?s = (None, s')" and n: "podName = n_podName s'"
    by (auto simp: waitForScannerPod_def split: prod.splits option.splits)
  from poll_None [OF assms(1) p] obtain k u where k: "pending (scanner_pod_condition d) k ?s u"
    and u: "scanner_pod_condition d u = ((True, None), s')" .
  have "grows s u"
  proof (rule pending_invariant [OF k])
    show "grows s t'" if "grows s t" and "scanner_pod_condition d t = ((False, None), t')" for t t'
      using pod_condition_grows [OF that(1), of d] that(2) by simp
  qed (simp add: grows_def)
  with pod_condition_saw [OF u] n show ?thesis by (auto intro: grows_saw)
qed

text \<open>
  C24: when RunScannerJob returns a pod name, the Job was created, a pod of the Job with that name was
  then listed first and was neither pending nor failed, and the last command read the logs of that
  very pod and found the completion marker in them.
\<close>

theorem scan_result_observed:
  assumes "poll_contract (n_poll d)" and "RunScannerJob d nsFilter s = (Inr podName, s')"
  shows "\<exists>s1 s2 made res earlier.
     k_create (n_server d) (buildScannerJob nsFilter) (snd (deleteExistingJob d s)) = (Inr made, s1)
     \<and> saw (pod_listed podName) s1 s2 \<and> grows s2 s'
     \<and> io_trace s' = Ran (Command (oc_connection (n_oc d)) (logs_line podName)) res # earlier
     \<and> ExitCode res = 0 \<and> contains (Stdout res) ScanCompleteMarker"
proof -
  from assms(2) obtain made s1 s2 where c:
      "k_create (n_server d) (buildScannerJob nsFilter) (snd (deleteExistingJob d s)) = (Inr made, s1)"
    and w: "waitForScannerPod d s1 = (Inr podName, s2)" and f: "waitForScanComplete d podName s2 = (None, s')"
    by (auto simp: RunScannerJob_def split: prod.splits sum.splits option.splits)
  let ?f = "scan_complete_condition d podName"
  obtain err where "n_poll d 15 1200 False ?f s2 = (err, s')" "of_poll err = None"
    using f by (auto simp: waitForScanComplete_def expect_nil_def split: prod.splits option.splits)
  then have "n_poll d 15 1200 False ?f s2 = (None, s')"
    by (metis of_poll.simps(2,3) option.distinct(1) not_None_eq poll_error.exhaust)
  from poll_None [OF assms(1) this] obtain k u where k: "pending ?f k s2 u" and u: "?f u = ((True, None), s')" .
  have "grows s2 u"
    by (rule pending_invariant [OF k, where I = "grows s2"])
      (auto simp: grows_def scan_complete_condition_def n_run_def split: prod.splits dest!: run_frames)
  moreover obtain res where r: "n_run d (logs_line podName) u = (res, s')" "ExitCode res = 0"
      "contains (Stdout res) ScanCompleteMarker"
    using u by (auto simp: scan_complete_condition_def split: prod.splits)
  from r(1) have "io_trace s' = Ran (Command (oc_connection (n_oc d)) (logs_line podName)) res # io_trace u"
    unfolding n_run_def by (simp add: run_frames)
  moreover from this have "grows u s'" by (simp add: grows_def)
  ultimately show ?thesis using c pod_wait_saw [OF assms(1) w] r(2,3) grows_trans by metis
qed

definition scan_pod :: "scan_body kobject" where
  "scan_pod = \<lparr>o_ref = Ref [] ''Pod'' ScannerNamespace ''tls-scanner-pipelines-x'', o_labels = Map.empty,
     o_uid = ''u'', o_body = ScanPod ''Running''\<rparr>"

text \<open>A cluster where the pod runs at once and the logs have the marker from the third command on.\<close>

definition demo_scan :: "nat scan_deps" where
  "demo_scan = \<lparr>n_server = \<lparr>sv_get = \<lambda>r w. (Inl NotFound, w), sv_create = \<lambda>ob w. (Inr ob, w),
       sv_update = \<lambda>ob w. (Inr ob, w), sv_delete = \<lambda>r w. (Some NotFound, w),
       sv_list = \<lambda>c k ns sel w. (Inr [scan_pod], w)\<rparr>,
     n_poll = rounds_poller 4,
     n_oc = \<lparr>oc_shell = (\<lambda>args w. (\<lparr>ExitCode = 0,
         Stdout = (if w < 2 then ''scanning'' else ''done'' @ [CHR 10] @ ScanCompleteMarker), Stderr = []\<rparr>, Suc w)),
       oc_connection = \<lparr>cn_Kubeconfig = [], cn_Context = [], cn_Cluster = []\<rparr>,
       oc_Context = [], oc_path = id, oc_namespace = []\<rparr>,
     n_stdin = (\<lambda>t args w. (\<lparr>ExitCode = 0, Stdout = [], Stderr = []\<rparr>, w))\<rparr>"

definition scan_start :: "nat scan_state" where
  "scan_start = \<lparr>io_world = 0, io_trace = [], n_podName = []\<rparr>"

lemma demo_scan_runs: "fst (RunScannerJob demo_scan ''openshift-pipelines'' scan_start) = Inr ''tls-scanner-pipelines-x''"
  by code_simp

theorem scan_result_observed_witness:
  "\<exists>s2 s' res earlier. saw (pod_listed ''tls-scanner-pipelines-x'') scan_start s2
     \<and> RunScannerJob demo_scan ''openshift-pipelines'' scan_start = (Inr ''tls-scanner-pipelines-x'', s')
     \<and> io_trace s' = Ran [''oc'', ''logs'', ''-n'', ''tls-scanner'', ''tls-scanner-pipelines-x''] res # earlier
     \<and> contains (Stdout res) ScanCompleteMarker"
proof -
  have c: "poll_contract (n_poll demo_scan)" by (simp add: demo_scan_def rounds_poller_contract)
  obtain s' where r: "RunScannerJob demo_scan ''openshift-pipelines'' scan_start = (Inr ''tls-scanner-pipelines-x'', s')"
    using demo_scan_runs by (metis prod.collapse)
  have l: "Command (oc_connection (n_oc demo_scan)) (logs_line ''tls-scanner-pipelines-x'')
      = [''oc'', ''logs'', ''-n'', ''tls-scanner'', ''tls-scanner-pipelines-x'']" by code_simp
  from scan_result_observed [OF c r] obtain s1 s2 made res earlier where
      k: "k_create (n_server demo_scan) (buildScannerJob ''openshift-pipelines'') (snd (deleteExistingJob demo_scan scan_start)) = (Inr made, s1)"
      and s: "saw (pod_listed ''tls-scanner-pipelines-x'') s1 s2"
      and t: "io_trace s' = Ran [''oc'', ''logs'', ''-n'', ''tls-scanner'', ''tls-scanner-pipelines-x''] res # earlier"
        "contains (Stdout res) ScanCompleteMarker"
    unfolding l by blast
  have "grows scan_start s1"
    using call_frames(2) [OF k] by (simp add: grows_def deleteExistingJob_def k_delete_def scan_start_def split: prod.splits)
  from grows_saw [OF this s] have "saw (pod_listed ''tls-scanner-pipelines-x'') scan_start s2" .
  with r t show ?thesis by blast
qed

end
