(* ===== verification/KubeHelpers.thy ===== *)
theory KubeHelpers
  imports Wait OcPatches ConfigEnv
begin

text \<open>
  \<open>pkg/k8s/k8s.go\<close>: reading versions, events and API groups, deployments, cron jobs and service
  accounts. This theory also declares the state and the dependencies that the packages \<open>k8s\<close>,
  \<open>opc\<close>, \<open>pipelines\<close> and \<open>pac\<close> share.
\<close>

section \<open>Objects\<close>

record cluster_version =
  cv_Desired :: string
  cv_History :: "(string \<times> string) list"
  cv_Capabilities :: "string list"

record container_spec =
  ct_Name :: string
  ct_Image :: string
  ct_Command :: "string list"
  ct_Args :: "string list"
  ct_Env :: "(string \<times> string) list"

text \<open>\<open>dp_\<close>: a Deployment's status counters and its pod template; times are instants.\<close>

record deployment =
  dp_Replicas :: int
  dp_AvailableReplicas :: int
  dp_UnavailableReplicas :: int
  dp_Containers :: "container_spec list"

record run_info =
  ri_accessor :: accessor
  ri_CreationTimestamp :: nat
  ri_StartTime :: "nat option"
  ri_Annotations :: "(string \<rightharpoonup> string) option"

record repository_spec =
  rs_URL :: string
  rs_ProviderURL :: string
  rs_Secret :: "string \<times> string"
  rs_WebhookSecret :: "string \<times> string"
  rs_Provenance :: string

text \<open>
  \<open>HookSecret\<close>: a Secret's \<open>Data\<close> and the write-only \<open>StringData\<close>. \<open>StatusBody\<close> is an object of which
  only the status conditions matter, \<open>StatefulSetBody\<close> the wanted and the ready replicas,
  \<open>ConfigBodyMap\<close> the entries of a ConfigMap in the order of a \<open>range\<close>, \<open>NodeBody\<close> the architecture,
  \<open>ServicePorts\<close> the names of a Service's ports, \<open>ProfileBody\<close> the type of the TLS profile of an
  APIServer, \<open>ImageStreamBody\<close> the names of the tags.
\<close>

datatype kube_body =
    VersionBody cluster_version
  | DeploymentBody deployment
  | EventBody string
  | AccountBody
  | CronJobBody string container_spec
  | RunInfoBody run_info
  | RepositoryBody repository_spec
  | HookSecret "(string \<times> string) list" "(string \<times> string) list"
  | StatusBody "condition list"
  | StatefulSetBody "int option" int
  | ConfigBodyMap "(string \<times> string) list"
  | NodeBody string
  | ServicePorts "string list"
  | ProfileBody "string option"
  | ImageStreamBody "string list"

fun version_of :: "kube_body \<Rightarrow> cluster_version" where
  "version_of (VersionBody cv) = cv"
| "version_of _ = \<lparr>cv_Desired = [], cv_History = [], cv_Capabilities = []\<rparr>"

fun deployment_of :: "kube_body \<Rightarrow> deployment" where
  "deployment_of (DeploymentBody dp) = dp"
| "deployment_of _ = \<lparr>dp_Replicas = 0, dp_AvailableReplicas = 0, dp_UnavailableReplicas = 0, dp_Containers = []\<rparr>"

fun event_message :: "kube_body \<Rightarrow> string" where
  "event_message (EventBody m) = m"
| "event_message _ = []"

fun run_of :: "kube_body \<Rightarrow> run_info" where
  "run_of (RunInfoBody ri) = ri"
| "run_of _ = \<lparr>ri_accessor = (\<lambda>_. None), ri_CreationTimestamp = 0, ri_StartTime = None, ri_Annotations = None\<rparr>"

fun conditions_of :: "kube_body \<Rightarrow> condition list" where
  "conditions_of (StatusBody ccs) = ccs"
| "conditions_of _ = []"

section \<open>State and dependencies\<close>

text \<open>
  A request to a hosting service (GitLab or GitHub) is its name and its arguments, its answer a
  list of fields; an error has the HTTP status of the response when there was one.
\<close>

record hub_error =
  he_status :: "nat option"
  he_text :: string

type_synonym hub_request = "string \<times> string list"
type_synonym hub_answer = "(string \<times> string) list"
type_synonym hub_result = "hub_error + hub_answer list"

text \<open>
  Variables the poll closures assign (\<open>v_sa\<close>, \<open>v_run\<close>, \<open>v_name\<close>, \<open>v_signed\<close>, \<open>v_signature\<close>, \<open>v_attempt\<close>,
  \<open>v_triggered\<close>), the package variable
  \<open>projectURL\<close>, whether the \<open>sync.Once\<close> of the Results CLI was used (\<open>v_once\<close>), the files of the temporary directory, the environment of the process, and how often
  the clock or the random generator was asked. \<open>v_hub\<close> and \<open>v_slept\<close> are ghosts: the requests made,
  newest first, and the pauses in seconds.
\<close>

record 'w tool_state = "('w, kube_body) io" +
  v_sa :: "kube_body kobject option"
  v_run :: "kube_body kobject option"
  v_name :: string
  v_projectURL :: string
  v_files :: "string \<rightharpoonup> string"
  v_env :: env
  v_stamps :: nat
  v_ghClient :: bool
  v_signed :: string
  v_signature :: string
  v_attempt :: nat
  v_triggered :: bool
  v_once :: bool
  v_hub :: "(hub_request \<times> hub_result) list"
  v_slept :: "nat list"

text \<open>
  The clients for PipelineRuns and TaskRuns are bound to one namespace, \<open>w_namespace\<close>. \<open>w_watch\<close> is a
  watch observed for a while: whether it starts after a listing, the namespace, and then the type and
  the name of each event (None when the object does not convert). \<open>w_stamp n\<close> is the text made of the
  clock at its \<open>n\<close>th reading and \<open>w_random\<close> the random texts; \<open>w_generate\<close> is the generator of
  Pipelines-as-Code (event type, branch, project), \<open>w_parseYaml\<close> and \<open>w_printYaml\<close> the YAML codec,
  \<open>w_urlPath\<close> the path of a URL that parses. \<open>w_schedule\<close> is the order in which
  concurrent waits end. The two reasons are constants of Tekton's package.
\<close>

record 'w tool_deps =
  w_server :: "('w, kube_body) server"
  w_poll :: "('w tool_state, kerror) poller"
  w_waitPoll :: "('w tool_state, wait_error) poller"
  w_ctx :: "'w tool_state \<Rightarrow> string option"
  w_oc :: "'w oc_env"
  w_hub :: "hub_request \<Rightarrow> 'w \<Rightarrow> hub_result \<times> 'w"
  w_stamp :: "nat \<Rightarrow> string"
  w_random :: "nat \<Rightarrow> string option"
  w_process :: nat
  w_tempDir :: string
  w_writable :: "string \<Rightarrow> bool"
  w_parseYaml :: "string \<Rightarrow> (string \<times> json) list option"
  w_printYaml :: "(string \<times> json) list \<Rightarrow> string option"
  w_generate :: "string \<Rightarrow> string \<Rightarrow> string \<Rightarrow> string option"
  w_urlPath :: "string \<Rightarrow> string option"
  w_apiGroups :: "'w \<Rightarrow> string list option"
  w_namespace :: string
  w_watch :: "bool \<Rightarrow> string \<Rightarrow> 'w \<Rightarrow> (string + (string \<times> string option) list) \<times> 'w"
  w_reasonTimedOut :: string
  w_reasonTaskCancelled :: string
  w_lookPath :: "string \<Rightarrow> bool"
  w_schedule :: "string list \<Rightarrow> string list"

definition w_run :: "'w tool_deps \<Rightarrow> string list \<Rightarrow> 'w tool_state \<Rightarrow> cmd_result \<times> 'w tool_state" where
  "w_run d args = Run (oc_shell (w_oc d)) (oc_connection (w_oc d)) args"

definition w_must :: "'w tool_deps \<Rightarrow> string list \<Rightarrow> 'w tool_state \<Rightarrow> (kerror + cmd_result) \<times> 'w tool_state" where
  "w_must d args = MustSucceed (oc_shell (w_oc d)) (oc_connection (w_oc d)) args"

definition fail :: "string \<Rightarrow> 's step" where
  "fail msg s = (Some (KAbort msg), s)"

section \<open>Versions\<close>

definition parseMinor :: "string \<Rightarrow> int" where
  "parseMinor version =
     (let parts = splitn_char 3 CHR ''.'' version in
      if 2 \<le> length parts then (case atoi (parts ! 1) of Some minor \<Rightarrow> minor | None \<Rightarrow> -1) else -1)"

text \<open>The first Completed entry of the history that parses.\<close>

fun completed_minor :: "(string \<times> string) list \<Rightarrow> int" where
  "completed_minor [] = -1"
| "completed_minor ((state, version) # hs) =
     (if state = ''Completed'' \<and> parseMinor version \<noteq> -1 then parseMinor version else completed_minor hs)"

definition GetOCPMinorVersion :: "'w tool_deps \<Rightarrow> 'w tool_state \<Rightarrow> int \<times> 'w tool_state" where
  "GetOCPMinorVersion d s =
     (case k_get (w_server d) (Ref [] ''ClusterVersion'' [] ''version'') s of
        (Inl e, s1) \<Rightarrow> (-1, s1)
      | (Inr ob, s1) \<Rightarrow>
          let cv = version_of (o_body ob) in
          (if cv_Desired cv \<noteq> [] \<and> parseMinor (cv_Desired cv) \<noteq> -1 then parseMinor (cv_Desired cv)
           else completed_minor (cv_History cv), s1))"

definition SkipBug :: "string \<Rightarrow> string \<Rightarrow> string option" where
  "SkipBug bugID reason = Some (''[KNOWN BUG: '' @ bugID @ ''] '' @ reason)"

text \<open>The message of the \<open>Skip\<close> that ends the test, None when it goes on.\<close>

definition SkipIfOCPVersionGTE ::
    "'w tool_deps \<Rightarrow> int \<Rightarrow> string \<Rightarrow> string \<Rightarrow> 'w tool_state \<Rightarrow> string option \<times> 'w tool_state" where
  "SkipIfOCPVersionGTE d minMinor bugID reason s =
     (case GetOCPMinorVersion d s of
        (minor, s1) \<Rightarrow>
          (if minor = -1
           then Some (''[KNOWN BUG: '' @ bugID @ ''] skipped: OCP version could not be determined (assuming >= 4.''
             @ show_int minMinor @ ''): '' @ reason)
           else if minMinor \<le> minor
           then Some (''[KNOWN BUG: '' @ bugID @ ''] skipped on OCP 4.'' @ show_int minMinor @ ''+ (cluster is 4.''
             @ show_int minor @ ''): '' @ reason)
           else None, s1))"

section \<open>Events and API groups\<close>

definition GetWarningEvents :: "'w tool_deps \<Rightarrow> string \<Rightarrow> 'w tool_state \<Rightarrow> (api_error + string) \<times> 'w tool_state" where
  "GetWarningEvents d namespace s =
     (case k_list (w_server d) [] ''Event'' namespace ''type=Warning'' s of
        (Inl e, s1) \<Rightarrow> (Inl e, s1)
      | (Inr items, s1) \<Rightarrow> (Inr (join [CHR 10] (map (\<lambda>ob. event_message (o_body ob)) items)), s1))"

definition IsAPIGroupAvailable :: "'w tool_deps \<Rightarrow> string \<Rightarrow> 'w tool_state \<Rightarrow> bool" where
  "IsAPIGroupAvailable d apiGroup s =
     (case w_apiGroups d (io_world s) of None \<Rightarrow> False | Some names \<Rightarrow> list_ex (\<lambda>g. g = apiGroup) names)"

section \<open>Deployments\<close>

definition deployment_ref :: "string \<Rightarrow> string \<Rightarrow> ref" where
  "deployment_ref ns name = Ref [] ''Deployment'' ns name"

definition available_condition :: "'w tool_deps \<Rightarrow> string \<Rightarrow> string \<Rightarrow> int \<Rightarrow> ('w tool_state, kerror) cond" where
  "available_condition d namespace name replicas s =
     (case k_get (w_server d) (deployment_ref namespace name) s of
        (Inl e, s1) \<Rightarrow> if e = NotFound then ((False, None), s1) else ((False, Some (KApi e)), s1)
      | (Inr ob, s1) \<Rightarrow>
          let dp = deployment_of (o_body ob) in
          ((dp_AvailableReplicas dp = replicas \<and> dp_UnavailableReplicas dp = 0, None), s1))"

definition WaitForDeployment :: "'w tool_deps \<Rightarrow> string \<Rightarrow> string \<Rightarrow> int \<Rightarrow> nat \<Rightarrow> nat \<Rightarrow> 'w tool_state step" where
  "WaitForDeployment d namespace name replicas retryInterval timeout s =
     (case w_poll d retryInterval timeout False (available_condition d namespace name replicas) s of
        (err, s') \<Rightarrow> (of_poll err, s'))"

definition deleted_condition :: "'w tool_deps \<Rightarrow> string \<Rightarrow> string \<Rightarrow> ('w tool_state, kerror) cond" where
  "deleted_condition d namespace name s =
     (case k_get (w_server d) (deployment_ref namespace name) s of
        (Inl e, s1) \<Rightarrow> if e = Gone \<or> e = NotFound then ((True, None), s1) else ((False, Some (KApi e)), s1)
      | (Inr ob, s1) \<Rightarrow> ((False, None), s1))"

definition WaitForDeploymentDeletion :: "'w tool_deps \<Rightarrow> string \<Rightarrow> string \<Rightarrow> 'w tool_state step" where
  "WaitForDeploymentDeletion d namespace name s =
     (case w_poll d 5 600 False (deleted_condition d namespace name) s of (err, s') \<Rightarrow> (of_poll err, s'))"

text \<open>Errors of \<open>ValidateDeployments\<close> are only logged.\<close>

fun ValidateDeployments :: "'w tool_deps \<Rightarrow> string \<Rightarrow> string list \<Rightarrow> 'w tool_state \<Rightarrow> 'w tool_state" where
  "ValidateDeployments d namespace [] s = s"
| "ValidateDeployments d namespace (dep # deps) s =
     ValidateDeployments d namespace deps (snd (WaitForDeployment d namespace dep 1 5 600 s))"

definition DeleteDeployment :: "'w tool_deps \<Rightarrow> string \<Rightarrow> string \<Rightarrow> 'w tool_state step" where
  "DeleteDeployment d namespace name s =
     (case k_delete (w_server d) (deployment_ref namespace name) s of
        (Some e, s1) \<Rightarrow>
          (if e = NotFound then None
           else Some (KContext (''failed to delete deployment '' @ name @ '' in namespace '' @ namespace) (KApi e)), s1)
      | (None, s1) \<Rightarrow>
          (case WaitForDeploymentDeletion d namespace name s1 of
             (Some e, s2) \<Rightarrow> (Some (KContext (''deployment '' @ name @ '' not fully deleted'') e), s2)
           | (None, s2) \<Rightarrow> (None, s2)))"

section \<open>Cron jobs and service accounts\<close>

definition cronjob_object :: "string \<Rightarrow> string \<Rightarrow> string \<Rightarrow> kube_body kobject" where
  "cronjob_object routeURL schedule namespace =
     \<lparr>o_ref = Ref [] ''CronJob'' namespace ''hello'', o_labels = Map.empty, o_uid = [],
      o_body = CronJobBody schedule \<lparr>ct_Name = ''hello'',
        ct_Image = ''image-registry.openshift-image-registry.svc:5000/openshift/golang'', ct_Command = [],
        ct_Args = [''curl'', ''-X'', ''POST'', ''--data'', ''{}'', routeURL], ct_Env = []\<rparr>\<rparr>"

definition CreateCronJob :: "'w tool_deps \<Rightarrow> string \<Rightarrow> string \<Rightarrow> string \<Rightarrow> 'w tool_state \<Rightarrow>
    (kerror + string) \<times> 'w tool_state" where
  "CreateCronJob d routeURL schedule namespace s =
     (case k_create (w_server d) (cronjob_object routeURL schedule namespace) s of
        (Inl e, s1) \<Rightarrow> (Inl (KAbort (''failed to create cron job in namespace '' @ namespace)), s1)
      | (Inr cj, s1) \<Rightarrow> (Inr (ref_name (o_ref cj)), s1))"

definition DeleteCronJob :: "'w tool_deps \<Rightarrow> string \<Rightarrow> string \<Rightarrow> 'w tool_state \<Rightarrow> 'w tool_state" where
  "DeleteCronJob d name namespace s = snd (k_delete (w_server d) (Ref [] ''CronJob'' namespace name) s)"

definition account_condition :: "'w tool_deps \<Rightarrow> string \<Rightarrow> string \<Rightarrow> ('w tool_state, kerror) cond" where
  "account_condition d ns targetSA s =
     (case k_list (w_server d) [] ''ServiceAccount'' ns [] s of
        (Inl e, s1) \<Rightarrow> ((False, Some (KApi e)), s1)
      | (Inr items, s1) \<Rightarrow>
          (case List.find (\<lambda>sa. ref_name (o_ref sa) = targetSA) items of
             Some sa \<Rightarrow> ((True, None), s1\<lparr>v_sa := Some sa\<rparr>)
           | None \<Rightarrow> ((False, None), s1)))"

definition WaitForServiceAccount ::
    "'w tool_deps \<Rightarrow> string \<Rightarrow> string \<Rightarrow> 'w tool_state \<Rightarrow> kube_body kobject option \<times> 'w tool_state" where
  "WaitForServiceAccount d ns targetSA s =
     (case w_poll d 5 600 False (account_condition d ns targetSA) (s\<lparr>v_sa := None\<rparr>) of
        (None, s') \<Rightarrow> (v_sa s', s')
      | (Some _, s') \<Rightarrow> (None, s'))"

section \<open>What the helpers decide\<close>

lemma splitn_three: "CHR ''.'' \<notin> set a \<Longrightarrow> CHR ''.'' \<notin> set b \<Longrightarrow>
    splitn_char 3 CHR ''.'' (a @ CHR ''.'' # b @ CHR ''.'' # c) = [a, b, c]"
proof (induction a)
  case Nil
  then show ?case using splitn_two_sep [of "CHR ''.''" b c] by (simp add: numeral_3_eq_3 numeral_2_eq_2)
next
  case (Cons x a)
  then show ?case by (auto simp: numeral_3_eq_3)
qed

lemma atoi_show_nat: "n \<le> max_int64 \<Longrightarrow> atoi (show_nat n) = Some (int n)"
proof -
  assume "n \<le> max_int64"
  moreover have "list_all is_digit (show_nat n)" by (auto simp: list_all_iff show_nat_digits)
  moreover obtain c r where r: "show_nat n = c # r" using show_nat_ne [of n] by (cases "show_nat n") auto
  moreover from r show_nat_digits [of c n] have "c \<noteq> CHR ''-''" "c \<noteq> CHR ''+''" by (auto simp: is_digit_def less_eq_char_def)
  ultimately show ?thesis using decimal_show_nat [of n] by (simp add: atoi_def)
qed

lemma parse_minor_version:
  assumes "n \<le> max_int64" and "CHR ''.'' \<notin> set major"
  shows "parseMinor (major @ CHR ''.'' # show_nat n @ CHR ''.'' # patch) = int n"
proof -
  have "CHR ''.'' \<notin> set (show_nat n)"
    using show_nat_digits [of "CHR ''.''" n] by (auto simp: is_digit_def less_eq_char_def)
  with assms show ?thesis by (simp add: parseMinor_def splitn_three atoi_show_nat)
qed

text \<open>
  A deployment that \<open>DeleteDeployment\<close> reports as deleted was seen to be absent after the request.
\<close>

lemma delete_deployment_gone:
  assumes "poll_contract (w_poll d)" and "DeleteDeployment d ns name s = (None, s')"
  shows "(\<exists>t. k_delete (w_server d) (deployment_ref ns name) s = (Some NotFound, t) \<and> s' = t)
    \<or> (\<exists>t e. k_get (w_server d) (deployment_ref ns name) t = (Inl e, s') \<and> e \<in> {NotFound, Gone})"
proof (cases "fst (k_delete (w_server d) (deployment_ref ns name) s)")
  case None
  with assms(2) obtain s1 where "WaitForDeploymentDeletion d ns name s1 = (None, s')"
    by (auto simp: DeleteDeployment_def split: prod.splits option.splits)
  then obtain err where "w_poll d 5 600 False (deleted_condition d ns name) s1 = (err, s')" "of_poll err = None"
    by (auto simp: WaitForDeploymentDeletion_def split: prod.splits)
  then have "w_poll d 5 600 False (deleted_condition d ns name) s1 = (None, s')"
    by (metis of_poll.simps(2,3) option.distinct(1) not_None_eq poll_error.exhaust)
  from poll_None [OF assms(1) this] obtain t where "deleted_condition d ns name t = ((True, None), s')" by blast
  then show ?thesis by (auto simp: deleted_condition_def split: prod.splits sum.splits if_splits)
next
  case (Some e)
  with assms(2) show ?thesis by (auto simp: DeleteDeployment_def split: prod.splits if_splits)
qed

end
