(* ===== verification/PipelineRuns.thy ===== *)
theory PipelineRuns
  imports KubeHelpers
begin

text \<open>
  \<open>pkg/pipelines/pipelines.go\<close>: validating and counting runs. The waits are those of \<open>pkg/wait\<close>; the
  error they return is left out of the failure messages. Waits that run in goroutines are made one
  after the other in the order in which they end.
\<close>

section \<open>Reading runs\<close>

definition get_run :: "'w tool_deps \<Rightarrow> string \<Rightarrow> string \<Rightarrow> 'w tool_state \<Rightarrow> (api_error + accessor) \<times> 'w tool_state" where
  "get_run d kind name s =
     (case k_get (w_server d) (Ref [] kind (w_namespace d) name) s of
        (Inl e, s1) \<Rightarrow> (Inl e, s1)
      | (Inr ob, s1) \<Rightarrow> (Inr (ri_accessor (run_of (o_body ob))), s1))"

definition wait_run :: "'w tool_deps \<Rightarrow> string \<Rightarrow> verdict \<Rightarrow> 'w tool_state \<Rightarrow> wait_error poll_error option \<times> 'w tool_state" where
  "wait_run d name v = WaitForPipelineRunState (w_waitPoll d) (w_ctx d) (get_run d ''PipelineRun'') name v"

definition wait_task :: "'w tool_deps \<Rightarrow> verdict \<Rightarrow> string \<Rightarrow> 'w tool_state \<Rightarrow> wait_error poll_error option \<times> 'w tool_state" where
  "wait_task d v name = WaitForTaskRunState (w_waitPoll d) (w_ctx d) (get_run d ''TaskRun'') name v"

definition getPipelinerunLogs :: "'w tool_deps \<Rightarrow> string \<Rightarrow> string \<Rightarrow> 'w tool_state \<Rightarrow> string \<times> 'w tool_state" where
  "getPipelinerunLogs d prname namespace s =
     (case w_run d [''oc'', ''logs'', ''--selector=tekton.dev/pipelineRun='' @ prname, ''-n'', namespace,
             ''--all-containers'', ''--ignore-errors=true''] s of
        (res, s') \<Rightarrow> (Stdout res, s'))"

section \<open>Validating one run\<close>

text \<open>The diagnostics of a run that did not end as expected.\<close>

definition fail_unfinished :: "'w tool_deps \<Rightarrow> string \<Rightarrow> string \<Rightarrow> 'w tool_state step" where
  "fail_unfinished d prname namespace s =
     (case getPipelinerunLogs d prname namespace s of
        (logs, s1) \<Rightarrow>
          (case GetWarningEvents d namespace s1 of
             (events, s2) \<Rightarrow>
               fail (''error waiting for pipeline run '' @ prname @ '' to finish '' @ [CHR 10] @ ''pipelinerun logs: ''
                 @ [CHR 10] @ logs @ (case events of Inl e \<Rightarrow> '' events error'' | Inr evs \<Rightarrow>
                   [CHR 10] @ ''pipelinerun events: '' @ [CHR 10] @ evs)) s2))"

definition validate_finished :: "'w tool_deps \<Rightarrow> string \<Rightarrow> string \<Rightarrow> verdict \<Rightarrow> 'w tool_state step" where
  "validate_finished d prname namespace v s =
     (case wait_run d prname v s of
        (Some _, s1) \<Rightarrow> fail_unfinished d prname namespace s1
      | (None, s1) \<Rightarrow> (None, s1))"

definition validatePipelineRunForSuccessStatus :: "'w tool_deps \<Rightarrow> string \<Rightarrow> string \<Rightarrow> 'w tool_state step" where
  "validatePipelineRunForSuccessStatus d prname namespace = validate_finished d prname namespace (PipelineRunSucceed prname)"

definition validatePipelineRunForFailedStatus :: "'w tool_deps \<Rightarrow> string \<Rightarrow> string \<Rightarrow> 'w tool_state step" where
  "validatePipelineRunForFailedStatus d prname namespace = validate_finished d prname namespace (PipelineRunFailed prname)"

text \<open>A wait that must succeed, and a read that must succeed.\<close>

definition must_reach :: "'w tool_deps \<Rightarrow> string \<Rightarrow> verdict \<Rightarrow> string \<Rightarrow> 'w tool_state step" where
  "must_reach d name v what s =
     (case wait_run d name v s of
        (Some _, s1) \<Rightarrow> fail (''Error waiting for PipelineRun '' @ name @ '' to be '' @ what) s1
      | (None, s1) \<Rightarrow> (None, s1))"

definition must_get :: "'w tool_deps \<Rightarrow> string \<Rightarrow> 'w tool_state step" where
  "must_get d name s =
     (case get_run d ''PipelineRun'' name s of
        (Inl e, s1) \<Rightarrow> fail (''failed to get pipeline run '' @ name) s1
      | (Inr _, s1) \<Rightarrow> (None, s1))"

definition list_tasks_of :: "'w tool_deps \<Rightarrow> string \<Rightarrow> 'w tool_state \<Rightarrow> (api_error + string list) \<times> 'w tool_state" where
  "list_tasks_of d name s =
     (case k_list (w_server d) [] ''TaskRun'' (w_namespace d) (''tekton.dev/pipelineRun='' @ name) s of
        (Inl e, s1) \<Rightarrow> (Inl e, s1)
      | (Inr items, s1) \<Rightarrow> (Inr (map (\<lambda>ob. ref_name (o_ref ob)) items), s1))"

text \<open>All waits, with the errors in the order in which they arrive on the channel.\<close>

fun wait_tasks :: "'w tool_deps \<Rightarrow> (string \<Rightarrow> verdict) \<Rightarrow> string list \<Rightarrow> 'w tool_state \<Rightarrow>
    wait_error poll_error option list \<times> 'w tool_state" where
  "wait_tasks d v [] s = ([], s)"
| "wait_tasks d v (name # names) s =
     (case wait_task d (v name) name s of
        (err, s1) \<Rightarrow> (case wait_tasks d v names s1 of (errs, s2) \<Rightarrow> (err # errs, s2)))"

text \<open>
  The receiving loop: the error of round \<open>i\<close> is reported with the name of item \<open>i\<close>, whichever
  TaskRun sent it.
\<close>

fun reported_task :: "string list \<Rightarrow> 'e option list \<Rightarrow> string option" where
  "reported_task (name # names) (err # errs) = (if err \<noteq> None then Some name else reported_task names errs)"
| "reported_task _ _ = None"

definition tasks_running :: "'w tool_deps \<Rightarrow> string list \<Rightarrow> 'w tool_state step" where
  "tasks_running d names s =
     (case wait_tasks d Running (w_schedule d names) s of
        (errs, s1) \<Rightarrow>
          (case reported_task names errs of
             Some name \<Rightarrow> fail (''Error waiting for TaskRun '' @ name @ '' to be running: <nil>'') s1
           | None \<Rightarrow> (None, s1)))"

text \<open>The goroutines that call \<open>Fail\<close> themselves: the first to fail ends the test.\<close>

definition tasks_cancelled :: "'w tool_deps \<Rightarrow> string list \<Rightarrow> 'w tool_state step" where
  "tasks_cancelled d names s =
     (case wait_tasks d (FailedWithReason (w_reasonTaskCancelled d)) (w_schedule d names) s of
        (errs, s1) \<Rightarrow>
          (case reported_task (w_schedule d names) errs of
             Some name \<Rightarrow> fail (''error waiting for task run '' @ name @ '' to be canceled'') s1
           | None \<Rightarrow> (None, s1)))"

definition validatePipelineRunTimeoutFailure :: "'w tool_deps \<Rightarrow> string \<Rightarrow> 'w tool_state step" where
  "validatePipelineRunTimeoutFailure d prname =
     seq (must_get d prname)
    (seq (must_reach d prname (Running prname) ''running'')
         (\<lambda>s. case list_tasks_of d prname s of
            (Inl e, s1) \<Rightarrow> fail (''Error listing TaskRuns for PipelineRun '' @ prname) s1
          | (Inr names, s1) \<Rightarrow>
              seq (tasks_running d names)
             (seq (must_get d prname)
             (seq (must_reach d prname (FailedWithReason (w_reasonTimedOut d) prname) ''timed out'')
             (seq (tasks_cancelled d names)
                  (must_get d prname)))) s1))"

definition validatePipelineRunCancel :: "'w tool_deps \<Rightarrow> string \<Rightarrow> string \<Rightarrow> 'w tool_state step" where
  "validatePipelineRunCancel d prname namespace =
     seq (must_reach d prname (Running prname) ''running'')
         (\<lambda>s. case list_tasks_of d prname s of
            (Inl e, s1) \<Rightarrow> fail (''Error listing TaskRuns for PipelineRun '' @ prname) s1
          | (Inr names, s1) \<Rightarrow>
              (case w_must d [''opc'', ''pipelinerun'', ''cancel'', prname, ''-n'', namespace] s1 of
                 (Inl e, s2) \<Rightarrow> (Some e, s2)
               | (Inr _, s2) \<Rightarrow>
                   seq (must_reach d prname (FailedWithReason ''Cancelled'' prname) ''finished'')
                       (tasks_cancelled d names) s2))"

definition WaitForPipelineRunCancelled :: "'w tool_deps \<Rightarrow> string \<Rightarrow> 'w tool_state step" where
  "WaitForPipelineRunCancelled d prname = must_reach d prname (FailedWithReason ''Cancelled'' prname) ''cancelled''"

definition created_condition :: "'w tool_deps \<Rightarrow> string \<Rightarrow> ('w tool_state, kerror) cond" where
  "created_condition d prname s =
     (case k_get (w_server d) (Ref [] ''PipelineRun'' (w_namespace d) prname) s of
        (Inl e, s1) \<Rightarrow> ((False, None), s1)
      | (Inr pr, s1) \<Rightarrow> ((True, None), s1\<lparr>v_run := Some pr\<rparr>))"

text \<open>The dispatch on the words of the expected status, in the order of the cases.\<close>

definition validate_as :: "'w tool_deps \<Rightarrow> string \<Rightarrow> string \<Rightarrow> string \<Rightarrow> 'w tool_state step" where
  "validate_as d status prname namespace =
     (if contains (to_lower status) ''success'' then validatePipelineRunForSuccessStatus d prname namespace
      else if contains (to_lower status) ''fail'' then validatePipelineRunForFailedStatus d prname namespace
      else if contains (to_lower status) ''timeout'' then validatePipelineRunTimeoutFailure d prname
      else if contains (to_lower status) ''cancel'' then validatePipelineRunCancel d prname namespace
      else fail (''Not valid status input: '' @ status))"

definition ValidatePipelineRun :: "'w tool_deps \<Rightarrow> string \<Rightarrow> string \<Rightarrow> string \<Rightarrow> 'w tool_state step" where
  "ValidatePipelineRun d prname status namespace s =
     (case w_poll d 5 120 False (created_condition d prname) (s\<lparr>v_run := None\<rparr>) of
        (err, s1) \<Rightarrow>
          (case (err, v_run s1) of
             (None, Some pr) \<Rightarrow> validate_as d status (ref_name (o_ref pr)) namespace s1
           | _ \<Rightarrow> fail (''timed out waiting for pipeline run '' @ prname @ '' to be created in namespace '' @ namespace) s1))"

section \<open>Watching\<close>

definition observe :: "'w tool_deps \<Rightarrow> bool \<Rightarrow> string \<Rightarrow> 'w tool_state \<Rightarrow>
    (string + (string \<times> string option) list) \<times> 'w tool_state" where
  "observe d afterList namespace s =
     (case w_watch d afterList namespace (io_world s) of (r, w) \<Rightarrow> (r, s\<lparr>io_world := w\<rparr>))"

definition WatchForPipelineRun :: "'w tool_deps \<Rightarrow> string \<Rightarrow> 'w tool_state \<Rightarrow> (kerror + nat) \<times> 'w tool_state" where
  "WatchForPipelineRun d namespace s =
     (case observe d False namespace s of
        (Inl e, s1) \<Rightarrow> (Inl (KAbort (''failed to watch pipeline runs in namespace '' @ namespace)), s1)
      | (Inr events, s1) \<Rightarrow> (Inr (length (filter (\<lambda>(ty, name). name \<noteq> None \<and> ty = ''ADDED'') events)), s1))"

definition AssertForNoNewPipelineRunCreation :: "'w tool_deps \<Rightarrow> string \<Rightarrow> 'w tool_state step" where
  "AssertForNoNewPipelineRunCreation d namespace s =
     (case k_list (w_server d) [] ''PipelineRun'' (w_namespace d) [] s of
        (Inl e, s1) \<Rightarrow> fail (''failed to list pipeline runs in namespace '' @ namespace) s1
      | (Inr _, s1) \<Rightarrow>
          (case observe d True namespace s1 of
             (Inl e, s2) \<Rightarrow> fail (''failed to watch pipeline runs in namespace '' @ namespace) s2
           | (Inr events, s2) \<Rightarrow>
               let count = length (filter (\<lambda>(ty, name). ty = ''ADDED'') events) in
               if count = 0 then (None, s2)
               else fail (''Expected no new PipelineRuns in namespace '' @ namespace @ '', but '' @ show_nat count
                 @ '' were created'') s2))"

section \<open>Counting\<close>

definition runOC :: "'w tool_deps \<Rightarrow> string list \<Rightarrow> 'w tool_state \<Rightarrow> (kerror + string) \<times> 'w tool_state" where
  "runOC d args s =
     (case w_run d (''oc'' # args) s of
        (res, s1) \<Rightarrow>
          if ExitCode res \<noteq> 0
          then
            let details = (if trim_space (Stderr res) = [] then trim_space (Stdout res) else trim_space (Stderr res)) in
            (Inl (KMsg (''oc '' @ join '' '' args @ '' failed with exit code '' @ show_int (ExitCode res) @ '': '' @ details)), s1)
          else (Inr (Stdout res), s1))"

definition output_lines :: "string \<Rightarrow> string list" where
  "output_lines out = split_char (CHR 10) (trim_space out)"

definition count_names :: "string \<Rightarrow> nat" where
  "count_names out = length (filter (\<lambda>line. trim_space line \<noteq> []) (output_lines out))"

definition count_status :: "string \<Rightarrow> string \<Rightarrow> nat" where
  "count_status status out = length (filter (\<lambda>line. trim_space line = status) (output_lines out))"

text \<open>\<open>Eventually\<close> with a timeout and the polling interval, over one command.\<close>

definition count_condition :: "'w tool_deps \<Rightarrow> string list \<Rightarrow> (string \<Rightarrow> nat) \<Rightarrow> int \<Rightarrow> ('w tool_state, kerror) cond" where
  "count_condition d args count expectedCount s =
     (case runOC d args s of
        (Inl e, s1) \<Rightarrow> ((False, None), s1)
      | (Inr out, s1) \<Rightarrow> ((int (count out) = expectedCount, None), s1))"

definition eventually_count :: "'w tool_deps \<Rightarrow> string list \<Rightarrow> (string \<Rightarrow> nat) \<Rightarrow> int \<Rightarrow> nat \<Rightarrow> 'w tool_state step" where
  "eventually_count d args count expectedCount timeoutSeconds s =
     (case w_poll d 5 timeoutSeconds True (count_condition d args count expectedCount) s of
        (None, s1) \<Rightarrow> (None, s1)
      | (Some _, s1) \<Rightarrow> fail (''expected '' @ show_int expectedCount @ '' run(s)'') s1)"

definition names_args :: "string \<Rightarrow> string \<Rightarrow> string list" where
  "names_args kind namespace = [''get'', kind, ''-n'', namespace, ''-o'', ''name'']"

definition reasons_args :: "string \<Rightarrow> string \<Rightarrow> string list" where
  "reasons_args kind namespace = [''get'', kind, ''-n'', namespace, ''-o'',
     ''jsonpath={range .items[*]}{.status.conditions[0].reason}{\"'' @ [backslash] @ ''n\"}{end}'']"

definition AssertNumberOfPipelineruns :: "'w tool_deps \<Rightarrow> string \<Rightarrow> int \<Rightarrow> nat \<Rightarrow> 'w tool_state step" where
  "AssertNumberOfPipelineruns d namespace = eventually_count d (names_args ''pipelinerun'' namespace) count_names"

definition AssertNumberOfPipelinerunsWithStatus ::
    "'w tool_deps \<Rightarrow> string \<Rightarrow> string \<Rightarrow> int \<Rightarrow> nat \<Rightarrow> 'w tool_state step" where
  "AssertNumberOfPipelinerunsWithStatus d namespace status =
     eventually_count d (reasons_args ''pipelinerun'' namespace) (count_status status)"

definition AssertNumberOfTaskruns :: "'w tool_deps \<Rightarrow> string \<Rightarrow> int \<Rightarrow> nat \<Rightarrow> 'w tool_state step" where
  "AssertNumberOfTaskruns d namespace = eventually_count d (names_args ''taskrun'' namespace) count_names"

definition AssertNumberOfTaskrunsWithStatus ::
    "'w tool_deps \<Rightarrow> string \<Rightarrow> string \<Rightarrow> int \<Rightarrow> nat \<Rightarrow> 'w tool_state step" where
  "AssertNumberOfTaskrunsWithStatus d namespace status =
     eventually_count d (reasons_args ''taskrun'' namespace) (count_status status)"

section \<open>The latest run\<close>

definition created_at :: "kube_body kobject \<Rightarrow> nat" where
  "created_at pr = ri_CreationTimestamp (run_of (o_body pr))"

definition later_run :: "kube_body kobject \<Rightarrow> kube_body kobject \<Rightarrow> kube_body kobject" where
  "later_run pr latest = (if created_at latest < created_at pr then pr else latest)"

definition GetLatestPipelinerun :: "'w tool_deps \<Rightarrow> string \<Rightarrow> 'w tool_state \<Rightarrow> (kerror + string) \<times> 'w tool_state" where
  "GetLatestPipelinerun d namespace s =
     (case k_list (w_server d) [] ''PipelineRun'' (w_namespace d) [] s of
        (Inl e, s1) \<Rightarrow> (Inl (KApi e), s1)
      | (Inr [], s1) \<Rightarrow> (Inl (KMsg (''no pipelineruns found in the namespace '' @ namespace)), s1)
      | (Inr (pr # prs), s1) \<Rightarrow> (Inr (ref_name (o_ref (fold later_run prs pr))), s1))"

definition CheckLogVersion :: "'w tool_deps \<Rightarrow> string \<Rightarrow> string \<Rightarrow> 'w tool_state step" where
  "CheckLogVersion d binary namespace s =
     (case GetLatestPipelinerun d namespace s of
        (Inl e, s1) \<Rightarrow> fail ''failed to get latest PipelineRun'' s1
      | (Inr prname, s1) \<Rightarrow>
          (case getPipelinerunLogs d prname namespace s1 of
             (logs, s2) \<Rightarrow>
               if binary = ''tkn-pac'' then
                 (if contains logs (getenv (v_env s2) ''PAC_VERSION'') then (None, s2)
                  else fail ''tkn-pac version not found in pipelinerun logs'' s2)
               else if binary = ''tkn'' then
                 (if \<not> contains logs ''Client version:'' then fail ''tkn client version header not found in pipelinerun logs'' s2
                  else if contains logs (getenv (v_env s2) ''TKN_CLIENT_VERSION'') then (None, s2)
                  else fail ''tkn version not found in pipelinerun logs'' s2)
               else fail (''unknown binary for log version check: '' @ binary) s2))"

end
