(* ===== verification/PipelineRunFacts.thy ===== *)
theory PipelineRunFacts
  imports PipelineRuns
begin

text \<open>
  What the validation and the counting of runs have seen when they return: the facts about the waits
  come from the contracts of the verdicts in \<open>Wait\<close>.
\<close>

section \<open>Waits that returned\<close>

text \<open>\<open>seen d name st rs s\<close>: a read that led to \<open>s\<close> showed the run finished with that status and reason.\<close>

definition seen :: "'w tool_deps \<Rightarrow> string \<Rightarrow> string \<Rightarrow> (string \<Rightarrow> bool) \<Rightarrow> 'w tool_state \<Rightarrow> bool" where
  "seen d name status reason s \<longleftrightarrow>
     (\<exists>t acc c. get_run d ''PipelineRun'' name t = (Inr acc, s) \<and> acc ''Succeeded'' = Some c
        \<and> cd_status c = status \<and> reason (cd_reason c))"

lemma wait_run_seen:
  assumes c: "poll_contract (w_waitPoll d)"
  shows "wait_run d name (PipelineRunSucceed name) s = (None, s') \<Longrightarrow> seen d name ''True'' (\<lambda>_. True) s'"
    and "wait_run d name (PipelineRunFailed name) s = (None, s') \<Longrightarrow> seen d name ''False'' (\<lambda>_. True) s'"
    and "wait_run d name (FailedWithReason r name) s = (None, s') \<Longrightarrow> seen d name ''False'' (\<lambda>x. x = r) s'"
proof -
  assume "wait_run d name (PipelineRunSucceed name) s = (None, s')"
  then obtain t acc cd where "get_run d ''PipelineRun'' name t = (Inr acc, s')" "acc ''Succeeded'' = Some cd"
    and "Succeed name acc = (True, None)"
    unfolding wait_run_def PipelineRunSucceed_def by (rule succeed_v.wait_ok_finished [OF c])
  then show "seen d name ''True'' (\<lambda>_. True) s'"
    unfolding seen_def by (intro exI [of _ t] exI [of _ acc] exI [of _ cd]) (auto simp: Succeed_def split: if_splits)
next
  assume "wait_run d name (PipelineRunFailed name) s = (None, s')"
  then obtain t acc cd where "get_run d ''PipelineRun'' name t = (Inr acc, s')" "acc ''Succeeded'' = Some cd"
    and "Failed name acc = (True, None)"
    unfolding wait_run_def PipelineRunFailed_def by (rule failed_v.wait_ok_finished [OF c])
  then show "seen d name ''False'' (\<lambda>_. True) s'"
    unfolding seen_def by (intro exI [of _ t] exI [of _ acc] exI [of _ cd]) (auto simp: Failed_def split: if_splits)
next
  assume "wait_run d name (FailedWithReason r name) s = (None, s')"
  then obtain t acc cd where "get_run d ''PipelineRun'' name t = (Inr acc, s')" "acc ''Succeeded'' = Some cd"
    and "FailedWithReason r name acc = (True, None)"
    unfolding wait_run_def by (rule reason_v.wait_ok_finished [OF c])
  then show "seen d name ''False'' (\<lambda>x. x = r) s'"
    unfolding seen_def by (intro exI [of _ t] exI [of _ acc] exI [of _ cd]) (auto simp: FailedWithReason_def split: if_splits)
qed

lemma must_reach_seen:
  assumes "poll_contract (w_waitPoll d)" and "must_reach d name (FailedWithReason r name) what s = (None, s')"
  shows "seen d name ''False'' (\<lambda>x. x = r) s'"
  using assms(2) by (auto simp: must_reach_def fail_def split: prod.splits option.splits
      intro: wait_run_seen(3) [OF assms(1)])

lemma validate_finished_ok:
  "validate_finished d prname ns v s = (None, s') \<Longrightarrow> wait_run d prname v s = (None, s')"
  by (auto simp: validate_finished_def fail_unfinished_def fail_def split: prod.splits option.splits)

lemma timeout_seen:
  assumes "poll_contract (w_waitPoll d)" and "validatePipelineRunTimeoutFailure d name s = (None, s')"
  shows "\<exists>t. seen d name ''False'' (\<lambda>x. x = w_reasonTimedOut d) t"
proof -
  from assms(2) obtain s1 where
      "(case list_tasks_of d name s1 of
          (Inl e, s1) \<Rightarrow> fail (''Error listing TaskRuns for PipelineRun '' @ name) s1
        | (Inr names, s1) \<Rightarrow> seq (tasks_running d names) (seq (must_get d name)
            (seq (must_reach d name (FailedWithReason (w_reasonTimedOut d) name) ''timed out'')
            (seq (tasks_cancelled d names) (must_get d name)))) s1) = (None, s')"
    unfolding validatePipelineRunTimeoutFailure_def seq_None by blast
  then obtain t u where "must_reach d name (FailedWithReason (w_reasonTimedOut d) name) ''timed out'' t = (None, u)"
    by (auto simp: seq_None fail_def split: prod.splits sum.splits)
  from must_reach_seen [OF assms(1) this] show ?thesis ..
qed

lemma cancel_seen:
  assumes "poll_contract (w_waitPoll d)" and "validatePipelineRunCancel d name ns s = (None, s')"
  shows "\<exists>t. seen d name ''False'' (\<lambda>x. x = ''Cancelled'') t"
proof -
  from assms(2) obtain s1 where
      "(case list_tasks_of d name s1 of
          (Inl e, s1) \<Rightarrow> fail (''Error listing TaskRuns for PipelineRun '' @ name) s1
        | (Inr names, s1) \<Rightarrow>
            (case w_must d [''opc'', ''pipelinerun'', ''cancel'', name, ''-n'', ns] s1 of
               (Inl e, s2) \<Rightarrow> (Some e, s2)
             | (Inr _, s2) \<Rightarrow> seq (must_reach d name (FailedWithReason ''Cancelled'' name) ''finished'')
                   (tasks_cancelled d names) s2)) = (None, s')"
    unfolding validatePipelineRunCancel_def seq_None by blast
  then obtain t u where "must_reach d name (FailedWithReason ''Cancelled'' name) ''finished'' t = (None, u)"
    by (auto simp: seq_None fail_def split: prod.splits sum.splits)
  from must_reach_seen [OF assms(1) this] show ?thesis ..
qed

text \<open>What the words of the expected status ask for.\<close>

definition expected_end :: "'w tool_deps \<Rightarrow> string \<Rightarrow> (string \<times> (string \<Rightarrow> bool)) option" where
  "expected_end d status =
     (if contains (to_lower status) ''success'' then Some (''True'', \<lambda>_. True)
      else if contains (to_lower status) ''fail'' then Some (''False'', \<lambda>_. True)
      else if contains (to_lower status) ''timeout'' then Some (''False'', \<lambda>r. r = w_reasonTimedOut d)
      else if contains (to_lower status) ''cancel'' then Some (''False'', \<lambda>r. r = ''Cancelled'')
      else None)"

text \<open>
  ValidatePipelineRun returns normally only when the expected status is one of the four words, and
  then only after a read of the created run showed it finished the way the first matching word says:
  True for success, False for failure, and False with the reason of a timeout or a cancellation.
\<close>

theorem validated_run_seen:
  assumes "poll_contract (w_waitPoll d)" and "ValidatePipelineRun d prname status namespace s = (None, s')"
  shows "\<exists>name st reason t. expected_end d status = Some (st, reason) \<and> seen d name st reason t"
proof -
  from assms(2) obtain name s1 where v: "validate_as d status name namespace s1 = (None, s')"
    by (auto simp: ValidatePipelineRun_def fail_def split: prod.splits option.splits)
  consider "contains (to_lower status) ''success''"
    | "\<not> contains (to_lower status) ''success''" "contains (to_lower status) ''fail''"
    | "\<not> contains (to_lower status) ''success''" "\<not> contains (to_lower status) ''fail''"
      "contains (to_lower status) ''timeout''"
    | "\<not> contains (to_lower status) ''success''" "\<not> contains (to_lower status) ''fail''"
      "\<not> contains (to_lower status) ''timeout''" "contains (to_lower status) ''cancel''"
    using v by (auto simp: validate_as_def fail_def split: if_splits)
  then show ?thesis
  proof cases
    case 1
    with v have "seen d name ''True'' (\<lambda>_. True) s'"
      by (auto simp: validate_as_def validatePipelineRunForSuccessStatus_def
          intro: wait_run_seen [OF assms(1)] dest!: validate_finished_ok)
    with 1 show ?thesis by (auto simp: expected_end_def)
  next
    case 2
    with v have "seen d name ''False'' (\<lambda>_. True) s'"
      by (auto simp: validate_as_def validatePipelineRunForFailedStatus_def
          intro: wait_run_seen [OF assms(1)] dest!: validate_finished_ok)
    with 2 show ?thesis by (auto simp: expected_end_def)
  next
    case 3
    with v timeout_seen [OF assms(1)] show ?thesis by (simp add: validate_as_def expected_end_def) blast
  next
    case 4
    with v cancel_seen [OF assms(1)] show ?thesis by (simp add: validate_as_def expected_end_def) blast
  qed
qed

section \<open>Concurrent waits\<close>

text \<open>
  When the second of two TaskRuns fails first, the message names the first one, whose own wait
  succeeded.
\<close>

lemma other_task_reported:
  assumes "w_schedule d [a, b] = [b, a]"
    and "wait_task d (Running b) b s = (Some e, s1)" and "wait_task d (Running a) a s1 = (None, s2)"
  shows "tasks_running d [a, b] s = fail (''Error waiting for TaskRun '' @ a @ '' to be running: <nil>'') s2"
  using assms by (simp add: tasks_running_def)

section \<open>Counting what was printed\<close>

lemma trim_space_clean: "(\<And>c. c \<in> set w \<Longrightarrow> \<not> is_space c) \<Longrightarrow> trim_space w = w"
  unfolding trim_space_def by (rule trim_by_id) auto

text \<open>
  counting reads a printed listing back: the number of lines of a listing of names is the number of
  names, none included, and the number of lines with a status is the number of entries that have it.
\<close>

theorem counts_read_back:
  assumes "\<forall>l \<in> set ls. l \<noteq> [] \<and> list_all (\<lambda>c. \<not> is_space c) l" and "status \<noteq> []"
  shows "count_names (printed_lines ls) = length ls
    \<and> count_status status (printed_lines ls) = length (filter (\<lambda>l. l = status) ls)"
proof (cases "ls = []")
  case True
  with assms(2) show ?thesis
    by (simp add: count_names_def count_status_def output_lines_def printed_lines_def trim_space_def)
next
  case False
  with assms(1) have o: "output_lines (printed_lines ls) = ls"
    unfolding output_lines_def by (intro split_printed_lines) (auto simp: list_all_iff)
  have t: "trim_space l = l" if "l \<in> set ls" for l
    using that assms(1) by (intro trim_space_clean) (auto simp: list_all_iff)
  have "filter (\<lambda>l. trim_space l \<noteq> []) ls = ls" and "filter (\<lambda>l. trim_space l = status) ls = filter (\<lambda>l. l = status) ls"
    using t assms(1) by (auto intro: filter_cong)
  then show ?thesis by (simp add: count_names_def count_status_def o)
qed

theorem counts_read_back_witness:
  "count_names (printed_lines [''pipelinerun/a'', ''pipelinerun/b'']) = 2
   \<and> count_status ''Failed'' (printed_lines [''Succeeded'', ''Failed'', ''Failed'']) = 2"
proof -
  have "\<forall>l \<in> set [''pipelinerun/a'', ''pipelinerun/b'']. l \<noteq> [] \<and> list_all (\<lambda>c. \<not> is_space c) l"
    and "\<forall>l \<in> set [''Succeeded'', ''Failed'', ''Failed'']. l \<noteq> [] \<and> list_all (\<lambda>c. \<not> is_space c) l"
    by code_simp+
  from counts_read_back [OF this(1), of "''x''"] counts_read_back [OF this(2), of "''Failed''"]
  show ?thesis by simp
qed

section \<open>The latest run\<close>

lemma later_run_max:
  "created_at pr \<le> created_at (fold later_run prs pr) \<and>
     (\<forall>q \<in> set prs. created_at q \<le> created_at (fold later_run prs pr)) \<and> fold later_run prs pr \<in> set (pr # prs)"
proof (induction prs arbitrary: pr)
  case (Cons q prs)
  have "created_at pr \<le> created_at (later_run q pr)" "created_at q \<le> created_at (later_run q pr)"
    "later_run q pr \<in> {q, pr}" by (auto simp: later_run_def)
  with Cons [of "later_run q pr"] show ?case by auto
qed simp

lemma latest_is_newest:
  assumes "GetLatestPipelinerun d namespace s = (Inr name, s')"
  obtains items pr where "k_list (w_server d) [] ''PipelineRun'' (w_namespace d) [] s = (Inr items, s')"
    and "pr \<in> set items" and "ref_name (o_ref pr) = name" and "\<forall>q \<in> set items. created_at q \<le> created_at pr"
proof -
  from assms obtain pr prs where l: "k_list (w_server d) [] ''PipelineRun'' (w_namespace d) [] s = (Inr (pr # prs), s')"
    and n: "name = ref_name (o_ref (fold later_run prs pr))"
    by (auto simp: GetLatestPipelinerun_def split: prod.splits sum.splits list.splits)
  from later_run_max [of pr prs] n show ?thesis by (intro that [OF l, of "fold later_run prs pr"]) auto
qed

section \<open>A run that was cancelled\<close>

definition cancelled_run :: "kube_body kobject" where
  "cancelled_run = \<lparr>o_ref = Ref [] ''PipelineRun'' ''ns'' ''run-1'', o_labels = Map.empty, o_uid = ''u'',
     o_body = RunInfoBody \<lparr>ri_accessor = (\<lambda>_. Some \<lparr>cd_type = ''Succeeded'', cd_status = ''False'',
         cd_reason = ''Cancelled'', cd_message = []\<rparr>), ri_CreationTimestamp = 3, ri_StartTime = None, ri_Annotations = None\<rparr>\<rparr>"

definition demo_tools :: "unit tool_deps" where
  "demo_tools = \<lparr>w_server = \<lparr>sv_get = \<lambda>r w. (if ref_kind r = ''PipelineRun'' then Inr cancelled_run else Inl NotFound, w),
       sv_create = \<lambda>ob w. (Inr ob, w), sv_update = \<lambda>ob w. (Inr ob, w), sv_delete = \<lambda>r w. (None, w),
       sv_list = \<lambda>c k ns sel w. (Inr [], w)\<rparr>,
     w_poll = rounds_poller 2, w_waitPoll = rounds_poller 2, w_ctx = (\<lambda>s. None),
     w_oc = \<lparr>oc_shell = (\<lambda>args w. (\<lparr>ExitCode = 0, Stdout = [], Stderr = []\<rparr>, w)),
       oc_connection = \<lparr>cn_Kubeconfig = [], cn_Context = [], cn_Cluster = []\<rparr>,
       oc_Context = [], oc_path = id, oc_namespace = []\<rparr>,
     w_hub = (\<lambda>q w. (Inr [], w)), w_stamp = (\<lambda>n. ''00000001''),
     w_random = (\<lambda>n. Some ''abcd1234''), w_process = 1, w_tempDir = ''/tmp'', w_writable = (\<lambda>f. True),
     w_parseYaml = (\<lambda>t. None), w_printYaml = (\<lambda>c. None), w_generate = (\<lambda>e b u. None), w_urlPath = Some, w_apiGroups = (\<lambda>w. None), w_namespace = ''ns'',
     w_watch = (\<lambda>b ns w. (Inr [], w)), w_reasonTimedOut = ''PipelineRunTimeout'', w_reasonTaskCancelled = ''TaskRunCancelled'',
     w_lookPath = (\<lambda>n. True), w_schedule = id\<rparr>"

definition tools_start :: "unit tool_state" where
  "tools_start = \<lparr>io_world = (), io_trace = [], v_sa = None, v_run = None, v_name = [], v_projectURL = [],
     v_files = Map.empty, v_env = Map.empty, v_stamps = 0, v_ghClient = True, v_signed = [], v_signature = [], v_attempt = 0, v_triggered = False, v_once = False, v_hub = [], v_slept = []\<rparr>"

lemma demo_validated: "fst (ValidatePipelineRun demo_tools ''run-1'' ''Failed'' ''ns'' tools_start) = None"
  by code_simp

theorem validated_run_seen_witness:
  "\<exists>name t. seen demo_tools name ''False'' (\<lambda>_. True) t"
proof -
  obtain s' where r: "ValidatePipelineRun demo_tools ''run-1'' ''Failed'' ''ns'' tools_start = (None, s')"
    using demo_validated by (metis prod.collapse)
  have c: "poll_contract (w_waitPoll demo_tools)" by (simp add: demo_tools_def rounds_poller_contract)
  have "to_lower ''Failed'' = ''failed''" by code_simp
  moreover have "\<not> contains ''failed'' ''success''" "contains ''failed'' ''fail''" by code_simp+
  ultimately have "expected_end demo_tools ''Failed'' = Some (''False'', \<lambda>_. True)" by (simp add: expected_end_def)
  with validated_run_seen [OF c r] show ?thesis by auto
qed

end
