(* ===== verification/OpcCli.thy ===== *)
theory OpcCli
  imports KubeHelpers
begin

text \<open>
  \<open>pkg/opc/opc.go\<close>: the opc CLI. Each operation is its command lines and the parser of their
  output. A Go map is the list of its entries in the order the \<open>range\<close> loop meets them; an index
  out of range is a panic, which ends the test like a failed assertion.
\<close>

section \<open>Results\<close>

record PipelineRunList =
  pl_Name :: string
  pl_Status :: string

record PacInfoInstall =
  pi_InstallVersion :: string
  pi_InstallNamespace :: string

definition split_lines :: "string \<Rightarrow> string list" where
  "split_lines t = split_char (CHR 10) t"

text \<open>The output of a command that must succeed.\<close>

definition output_of :: "'w tool_deps \<Rightarrow> string list \<Rightarrow> 'w tool_state \<Rightarrow> (kerror + string) \<times> 'w tool_state" where
  "output_of d args s = (case w_must d args s of (Inl e, s') \<Rightarrow> (Inl e, s') | (Inr res, s') \<Rightarrow> (Inr (Stdout res), s'))"

section \<open>Versions of the server\<close>

definition title_component :: "string \<Rightarrow> string" where
  "title_component component = to_upper (take 1 component) @ drop 1 component"

definition version_line :: "string \<Rightarrow> string list \<Rightarrow> string" where
  "version_line title lines =
     (case List.find (\<lambda>line. has_prefix line title) lines of
        Some line \<Rightarrow> trim_space (trim_prefix line title)
      | None \<Rightarrow> [])"

definition GetOPCServerVersion :: "'w tool_deps \<Rightarrow> string \<Rightarrow> 'w tool_state \<Rightarrow> (kerror + string) \<times> 'w tool_state" where
  "GetOPCServerVersion d component s =
     (case output_of d [''opc'', ''version'', ''-s''] s of
        (Inl e, s1) \<Rightarrow> (Inl e, s1)
      | (Inr out, s1) \<Rightarrow>
          let titleComp = title_component component;
              version = version_line (titleComp @ '' version:'') (split_lines out) in
          if contains version ''unknown'' then (Inl (KAbort (titleComp @ '' is not installed'')), s1)
          else (Inr version, s1))"

text \<open>The resource whose status has the version of a component, for those the CLI does not know.\<close>

fun version_resource :: "string \<Rightarrow> (string \<times> string) option" where
  "version_resource component =
     (if component = ''OSP'' then Some (''tektonconfig'', ''config'')
      else if component = ''pac'' then Some (''pac'', ''pipelines-as-code'')
      else if component = ''hub'' then Some (''tektonhub'', ''hub'')
      else if component = ''results'' then Some (''tektonresult'', ''result'')
      else if component = ''manual-approval-gate'' then Some (''manualapprovalgate'', ''manual-approval-gate'')
      else if component = ''pruner'' then Some (''tektonpruner'', ''pruner'')
      else None)"

definition actual_version :: "'w tool_deps \<Rightarrow> string \<Rightarrow> 'w tool_state \<Rightarrow> (kerror + string) \<times> 'w tool_state" where
  "actual_version d component s =
     (if component \<in> {''pipeline'', ''triggers'', ''operator'', ''chains''} then GetOPCServerVersion d component s
      else
        (case version_resource component of
           Some (kind, name) \<Rightarrow> output_of d [''oc'', ''get'', kind, name, ''-o'', ''jsonpath={.status.version}''] s
         | None \<Rightarrow> (Inl (KAbort ''Unknown component''), s)))"

definition AssertComponentVersion :: "'w tool_deps \<Rightarrow> string \<Rightarrow> string \<Rightarrow> 'w tool_state step" where
  "AssertComponentVersion d version component s =
     (case actual_version d component s of
        (Inl e, s1) \<Rightarrow> (Some e, s1)
      | (Inr out, s1) \<Rightarrow>
          let actual = trim_set out [CHR 10] in
          if contains actual version then (None, s1)
          else (Some (KAbort (''The '' @ component @ '' has an unexpected version: '' @ actual @ '', expected: '' @ version)), s1))"

section \<open>Versions of the clients\<close>

text \<open>
  The numbered loop over components and lines: line \<open>i\<close> is looked at for component \<open>i\<close> only.
\<close>

fun check_numbered :: "(string \<times> string) list \<Rightarrow> string list \<Rightarrow> kerror option" where
  "check_numbered [] lines = None"
| "check_numbered (_ # _) [] = Some (KAbort ''index out of range'')"
| "check_numbered ((component, expected) # rest) (line # lines) =
     (if contains line component \<and> \<not> contains line expected
      then Some (KAbort (component @ '' has an unexpected version: '' @ line @ ''. Expected: '' @ expected))
      else check_numbered rest lines)"

definition v_getenv :: "'w tool_state \<Rightarrow> string \<Rightarrow> string" where
  "v_getenv s key = getenv (v_env s) key"

definition check_output :: "'w tool_deps \<Rightarrow> string list \<Rightarrow> ('w tool_state \<Rightarrow> string \<Rightarrow> kerror option) \<Rightarrow> 'w tool_state step" where
  "check_output d args verdict s =
     (case output_of d args s of (Inl e, s1) \<Rightarrow> (Some e, s1) | (Inr out, s1) \<Rightarrow> (verdict s1 out, s1))"

definition AssertClientVersion :: "'w tool_deps \<Rightarrow> string \<Rightarrow> 'w tool_state step" where
  "AssertClientVersion d binary =
     (if binary = ''tkn-pac'' then
        check_output d [''tkn-pac'', ''version''] (\<lambda>s out.
          if contains out (v_getenv s ''PAC_VERSION'') then None
          else Some (KAbort (''tkn-pac has an unexpected version: '' @ out @ ''. Expected: '' @ v_getenv s ''PAC_VERSION'')))
      else if binary = ''tkn'' then
        check_output d [''tkn'', ''version''] (\<lambda>s out.
          case List.find (\<lambda>line. contains line ''Client'' \<and> \<not> contains line (v_getenv s ''TKN_CLIENT_VERSION''))
                 (split_lines out) of
            Some line \<Rightarrow> Some (KAbort (''tkn client has an unexpected version: '' @ line))
          | None \<Rightarrow> None)
      else if binary = ''opc'' then
        check_output d [''opc'', ''version''] (\<lambda>s out.
          check_numbered
            [(''OpenShift Pipelines Client'', v_getenv s ''OSP_VERSION''), (''Tekton CLI'', v_getenv s ''TKN_CLIENT_VERSION''),
             (''Pipelines as Code CLI'', v_getenv s ''PAC_VERSION'')] (split_lines out))
      else fail ''unknown binary or client'')"

definition AssertServerVersion :: "'w tool_deps \<Rightarrow> string \<Rightarrow> 'w tool_state step" where
  "AssertServerVersion d binary =
     (if binary = ''opc'' then
        check_output d [''opc'', ''version'', ''--server''] (\<lambda>s out.
          check_numbered
            [(''Chains version'', v_getenv s ''CHAINS_VERSION''), (''Pipeline version'', v_getenv s ''PIPELINE_VERSION''),
             (''Triggers version'', v_getenv s ''TRIGGERS_VERSION''), (''Operator version'', v_getenv s ''OPERATOR_VERSION'')]
            (split_lines out))
      else fail ''unknown binary or client'')"

section \<open>The download\<close>

definition link_path :: "string \<Rightarrow> string" where
  "link_path architecture =
     ''jsonpath={.spec.links[?(@.text==\"Download tkn and tkn-pac for '' @ architecture @ ''\")].href}''"

definition DownloadCLIFromCluster :: "'w tool_deps \<Rightarrow> 'w tool_state step" where
  "DownloadCLIFromCluster d s =
     (if w_lookPath d ''opc'' then (None, s)
      else
        (case output_of d [''uname''] s of
           (Inl e, s1) \<Rightarrow> (Some e, s1)
         | (Inr os, s1) \<Rightarrow>
        (case output_of d [''uname'', ''-m''] s1 of
           (Inl e, s2) \<Rightarrow> (Some e, s2)
         | (Inr machine, s2) \<Rightarrow>
        (case output_of d [''oc'', ''get'', ''consoleclidownloads'', ''tkn'', ''-o'',
                link_path (trim_set os [CHR 10] @ '' '' @ trim_set machine [CHR 10])] s2 of
           (Inl e, s3) \<Rightarrow> (Some e, s3)
         | (Inr url, s3) \<Rightarrow>
        (case output_of d [''curl'', ''-o'', ''/tmp/tkn-binary.tar.gz'', ''-k'', url] s3 of
           (Inl e, s4) \<Rightarrow> (Some e, s4)
         | (Inr _, s4) \<Rightarrow>
        (case output_of d [''tar'', ''-xf'', ''/tmp/tkn-binary.tar.gz'', ''-C'', ''/tmp'', ''--strip-components=1''] s4 of
           (Inl e, s5) \<Rightarrow> (Some e, s5)
         | (Inr _, s5) \<Rightarrow>
             (case setenv ''PATH'' (''/tmp:'' @ v_getenv s5 ''PATH'') (v_env s5) of
                None \<Rightarrow> (Some (KAbort ''failed to prepend /tmp to PATH''), s5)
              | Some env' \<Rightarrow> (None, s5\<lparr>v_env := env'\<rparr>))))))))"

definition ValidateQuickstarts :: "'w tool_deps \<Rightarrow> 'w tool_state step" where
  "ValidateQuickstarts d =
     for_each (\<lambda>name. check_output d [''oc'', ''get'', ''consolequickstart'', name] (\<lambda>s out. None))
       [''install-app-and-associate-pipeline'', ''configure-pipeline-metrics'']"

section \<open>Running opc\<close>

text \<open>The methods of \<open>Cmd\<close>; \<open>icmd.Success\<close> is exit code 0.\<close>

definition Cmd_Assert :: "'w tool_deps \<Rightarrow> string \<Rightarrow> int \<Rightarrow> string list \<Rightarrow> 'w tool_state \<Rightarrow> (kerror + string) \<times> 'w tool_state" where
  "Cmd_Assert d path code args s =
     (case Assert (oc_shell (w_oc d)) (oc_connection (w_oc d)) code (path # args) s of
        (Inl e, s') \<Rightarrow> (Inl e, s')
      | (Inr res, s') \<Rightarrow> (Inr (Stdout res), s'))"

definition Cmd_MustSucceed :: "'w tool_deps \<Rightarrow> string \<Rightarrow> string list \<Rightarrow> 'w tool_state \<Rightarrow> (kerror + string) \<times> 'w tool_state" where
  "Cmd_MustSucceed d path = Cmd_Assert d path 0"

definition start_args :: "string \<Rightarrow> (string \<times> string) list \<Rightarrow> (string \<times> string) list \<Rightarrow> string \<Rightarrow> string list \<Rightarrow> string list" where
  "start_args pipelineName params workspaces namespace args =
     [''opc'', ''pipeline'', ''start'', pipelineName, ''-o'', ''name'', ''-n'', namespace]
     @ map (\<lambda>(k, v). ''-p '' @ k @ ''='' @ v) params
     @ map (\<lambda>(k, v). ''-w '' @ k @ '','' @ v) workspaces @ args"

definition flat_args :: "string list \<Rightarrow> string list" where
  "flat_args commandArgs = concat (map GoPrelude.fields commandArgs)"

definition StartPipeline ::
    "'w tool_deps \<Rightarrow> string \<Rightarrow> (string \<times> string) list \<Rightarrow> (string \<times> string) list \<Rightarrow> string \<Rightarrow> string list \<Rightarrow>
     'w tool_state \<Rightarrow> (kerror + string) \<times> 'w tool_state" where
  "StartPipeline d pipelineName params workspaces namespace args s =
     (case output_of d (flat_args (start_args pipelineName params workspaces namespace args)) s of
        (Inl e, s1) \<Rightarrow> (Inl e, s1)
      | (Inr out, s1) \<Rightarrow> (Inr (trim_set out [CHR 10]), s1))"

section \<open>Parsing its output\<close>

text \<open>One line of the install information: the section flag and what was read so far.\<close>

fun pac_line :: "bool \<times> PacInfoInstall \<Rightarrow> string \<Rightarrow> bool \<times> PacInfoInstall" where
  "pac_line (inSection, pacInfo) rawLine =
     (let line = trim_space rawLine in
      if line = [] then (inSection, pacInfo)
      else if line = ''Pipelines as Code:'' then (True, pacInfo)
      else if inSection \<and> has_prefix line ''Install Version:''
      then (inSection, pacInfo\<lparr>pi_InstallVersion := trim_space (trim_prefix line ''Install Version:'')\<rparr>)
      else if inSection \<and> has_prefix line ''Install Namespace:''
      then (inSection, pacInfo\<lparr>pi_InstallNamespace := trim_space (trim_prefix line ''Install Namespace:'')\<rparr>)
      else (inSection, pacInfo))"

definition parse_pac_info :: "string \<Rightarrow> PacInfoInstall" where
  "parse_pac_info out =
     snd (foldl pac_line (False, \<lparr>pi_InstallVersion = [], pi_InstallNamespace = []\<rparr>) (split_lines out))"

definition GetOpcPacInfoInstall :: "'w tool_deps \<Rightarrow> 'w tool_state \<Rightarrow> (kerror + PacInfoInstall) \<times> 'w tool_state" where
  "GetOpcPacInfoInstall d s =
     (case output_of d [''opc'', ''pac'', ''info'', ''install''] s of
        (Inl e, s1) \<Rightarrow> (Inl e, s1)
      | (Inr out, s1) \<Rightarrow>
          if pi_InstallVersion (parse_pac_info out) = []
          then (Inl (KMsg ''output of opc pac info install is empty or missing Pipelines as Code information''), s1)
          else (Inr (parse_pac_info out), s1))"

definition HubSearch :: "'w tool_deps \<Rightarrow> string \<Rightarrow> 'w tool_state step" where
  "HubSearch d resource =
     check_output d [''opc'', ''hub'', ''search'', resource] (\<lambda>s out.
       if contains out resource then None else Some (KMsg (''hub search failed for '' @ resource)))"

definition resourceExists :: "string \<Rightarrow> string \<Rightarrow> bool" where
  "resourceExists out resourceName =
     (let trimmed = trim_space out in
      \<not> has_prefix trimmed ''No''
      \<and> list_ex (\<lambda>line. case GoPrelude.fields (trim_space line) of [] \<Rightarrow> False | w # _ \<Rightarrow> w = resourceName)
           (tl (split_lines trimmed)))"

definition VerifyResourceListMatchesName ::
    "'w tool_deps \<Rightarrow> string \<Rightarrow> string \<Rightarrow> string \<Rightarrow> 'w tool_state \<Rightarrow> (kerror + string) \<times> 'w tool_state" where
  "VerifyResourceListMatchesName d resourceType name namespace s =
     (case output_of d [''opc'', resourceType, ''list'', ''-n'', namespace] s of
        (Inl e, s1) \<Rightarrow> (Inl e, s1)
      | (Inr out, s1) \<Rightarrow>
          if resourceExists out name then (Inr out, s1)
          else (Inl (KMsg (resourceType @ '' '' @ quoted name @ '' not found in namespace '' @ quoted namespace)), s1))"

definition parse_row :: "string \<Rightarrow> PipelineRunList option" where
  "parse_row line =
     (let ws = GoPrelude.fields (trim_space line) in
      if length ws < 2 then None else Some \<lparr>pl_Name = hd ws, pl_Status = last ws\<rparr>)"

definition GetOpcPrList :: "'w tool_deps \<Rightarrow> string \<Rightarrow> string \<Rightarrow> 'w tool_state \<Rightarrow>
    (kerror + PipelineRunList list) \<times> 'w tool_state" where
  "GetOpcPrList d pipelineRunName namespace s =
     (case VerifyResourceListMatchesName d ''pipelinerun'' pipelineRunName namespace s of
        (Inl (KAbort msg), s1) \<Rightarrow> (Inl (KAbort msg), s1)
      | (Inl _, s1) \<Rightarrow> (Inl (KAbort ''Failed to get pipelinerun list''), s1)
      | (Inr result, s1) \<Rightarrow>
          let lines = split_lines (trim_space result) in
          if length lines < 2 then (Inl (KMsg (''unexpected pipelinerun output '' @ trim_space result)), s1)
          else (Inr (List.map_filter parse_row (tl lines)), s1))"

section \<open>What the parsers find\<close>

lemma fields_from_append_space:
  "is_space c \<Longrightarrow> fields_from w (a @ c # b) = fields_from w a @ GoPrelude.fields b"
  by (induction w a rule: fields_from.induct) (auto simp: GoPrelude.fields_def)

lemma fields_blank: "GoPrelude.fields [] = []"
  by (simp add: GoPrelude.fields_def)

text \<open>
  taking the fields of every argument gives the same command as joining the arguments with
  blanks and splitting the line again: an argument with white space, such as the value of a
  parameter, is split into several.
\<close>

theorem flat_args_is_join_split: "flat_args args = GoPrelude.fields (join '' '' args)"
proof (induction "'' ''" args rule: join.induct)
  case (3 w v ws)
  have "GoPrelude.fields (w @ '' '' @ join '' '' (v # ws)) = GoPrelude.fields w @ GoPrelude.fields (join '' '' (v # ws))"
    using fields_from_append_space [of "CHR '' ''" "[]" w] by (simp add: GoPrelude.fields_def is_space_def)
  with 3 show ?case by (simp add: flat_args_def)
qed (simp_all add: flat_args_def fields_blank)

lemma parameter_split:
  "flat_args (start_args ''p'' [(''msg'', ''hello world'')] [] ''ns'' []) =
     [''opc'', ''pipeline'', ''start'', ''p'', ''-o'', ''name'', ''-n'', ''ns'', ''-p'', ''msg=hello'', ''world'']"
  by code_simp

text \<open>
  The numbered check passes whatever the versions are as soon as no line stands at the place of its
  component.
\<close>

lemma numbered_check_vacuous:
  "length checks \<le> length lines \<Longrightarrow> list_all2 (\<lambda>(component, expected) line. \<not> contains line component) checks (take (length checks) lines)
     \<Longrightarrow> check_numbered checks lines = None"
  by (induction checks lines rule: check_numbered.induct) auto

text \<open>A listing whose first row starts with "No" counts as empty, also when that is the header's name.\<close>

lemma resource_hidden_by_header:
  "\<not> resourceExists (''NodeName STATUS'' @ [CHR 10] @ ''run-1 Succeeded'') ''run-1''"
  by code_simp

end
