(* ===== verification/PacGitLab.thy ===== *)
theory PacGitLab
  imports PipelineRuns OpcCli GoPath
begin

text \<open>
  \<open>pkg/pac/pac.go\<close>: Pipelines-as-Code against GitLab. The hosting service is the parameter
  \<open>w_hub\<close>; a project id is a text that the code only passes on. Pauses are recorded in \<open>v_slept\<close>.
\<close>

section \<open>Requests and results\<close>

definition hub_call :: "'w tool_deps \<Rightarrow> string \<Rightarrow> string list \<Rightarrow> 'w tool_state \<Rightarrow> hub_result \<times> 'w tool_state" where
  "hub_call d op args s =
     (case w_hub d (op, args) (io_world s) of
        (r, w) \<Rightarrow> (r, s\<lparr>io_world := w, v_hub := ((op, args), r) # v_hub s\<rparr>))"

definition hub_kerror :: "hub_error \<Rightarrow> kerror" where
  "hub_kerror e = KMsg (he_text e)"

text \<open>A call whose answer is not used, with the text that wraps its error.\<close>

definition hub_do :: "'w tool_deps \<Rightarrow> string \<Rightarrow> string \<Rightarrow> string list \<Rightarrow> 'w tool_state step" where
  "hub_do d msg op args s =
     (case hub_call d op args s of
        (Inl e, s1) \<Rightarrow> (Some (KContext msg (hub_kerror e)), s1)
      | (Inr _, s1) \<Rightarrow> (None, s1))"

text \<open>The only (or latest) object of an answer, and a field of it.\<close>

definition field :: "string \<Rightarrow> hub_answer list \<Rightarrow> string" where
  "field key answers = (case answers of [] \<Rightarrow> [] | a # _ \<Rightarrow> label_of (map_of a) key)"

definition pause :: "nat \<Rightarrow> 'w tool_state \<Rightarrow> 'w tool_state" where
  "pause n s = s\<lparr>v_slept := n # v_slept s\<rparr>"

definition stamp :: "'w tool_deps \<Rightarrow> 'w tool_state \<Rightarrow> string \<times> 'w tool_state" where
  "stamp d s = (w_stamp d (v_stamps s), s\<lparr>v_stamps := Suc (v_stamps s)\<rparr>)"

section \<open>Files\<close>

definition pullRequestFile :: "'w tool_deps \<Rightarrow> string" where
  "pullRequestFile d = Join [w_tempDir d, ''pac_pull_request_'' @ show_nat (w_process d) @ ''.yaml'']"

definition pushFile :: "'w tool_deps \<Rightarrow> string" where
  "pushFile d = Join [w_tempDir d, ''pac_push_'' @ show_nat (w_process d) @ ''.yaml'']"

definition read_file :: "string \<Rightarrow> string \<Rightarrow> 'w tool_state \<Rightarrow> kerror + string" where
  "read_file msg file s = (case v_files s file of None \<Rightarrow> Inl (KMsg msg) | Some t \<Rightarrow> Inr t)"

definition write_file :: "'w tool_deps \<Rightarrow> string \<Rightarrow> string \<Rightarrow> string \<Rightarrow> 'w tool_state step" where
  "write_file d msg file content s =
     (if w_writable d file then (None, s\<lparr>v_files := (v_files s)(file \<mapsto> content)\<rparr>) else (Some (KMsg msg), s))"

definition remove_file :: "string \<Rightarrow> 'w tool_state \<Rightarrow> 'w tool_state" where
  "remove_file file s = s\<lparr>v_files := (v_files s)(file := None)\<rparr>"

definition validateYAML :: "'w tool_deps \<Rightarrow> string \<Rightarrow> 's step" where
  "validateYAML d content s = ((if w_parseYaml d content = None then Some (KMsg ''invalid YAML format'') else None), s)"

section \<open>The client and the webhook relay\<close>

definition webhookConfigName :: string where
  "webhookConfigName = ''gitlab-webhook-config''"

definition targetURL :: string where
  "targetURL = ''http://pipelines-as-code-controller.openshift-pipelines:8080''"

text \<open>The client of \<open>gitlab.NewClient\<close> is not kept in the model; \<open>newClient\<close> tells whether it is made.\<close>

definition InitGitLabClient :: "'w tool_deps \<Rightarrow> (string \<Rightarrow> bool) \<Rightarrow> string \<Rightarrow> 'w tool_state step" where
  "InitGitLabClient d newClient namespace s =
     (let token = v_getenv s ''GITLAB_TOKEN''; webhook = v_getenv s ''GITLAB_WEBHOOK_TOKEN'' in
      if token = [] \<or> webhook = []
      then fail ''token for authorization to the GitLab repository was not exported as a system variable'' s
      else
        (case SecretExists (w_oc d) webhookConfigName namespace s of
           (found, s1) \<Rightarrow>
             (case (if found then (None, s1) else CreateSecretForWebhook (w_oc d) token webhook namespace s1) of
                (Some e, s2) \<Rightarrow> (Some e, s2)
              | (None, s2) \<Rightarrow>
                  if newClient token then (None, s2) else fail ''failed to initialize GitLab client'' s2)))"

definition smee_command :: "string list" where
  "smee_command = [''sh'', ''-c'', ''curl -Ls -o /dev/null -w %{url_effective} https://smee.io/new'']"

definition getNewSmeeURL :: "'w tool_deps \<Rightarrow> 'w tool_state \<Rightarrow> (kerror + string) \<times> 'w tool_state" where
  "getNewSmeeURL d s =
     (case k_run (oc_shell (w_oc d)) smee_command s of
        (res, s1) \<Rightarrow>
          if ExitCode res \<noteq> 0 then (Inl (KMsg ''failed to create SmeeURL''), s1)
          else if trim_space (Stdout res) = [] then (Inl (KMsg ''failed to retrieve Smee URL: no URL found''), s1)
          else (Inr (trim_space (Stdout res)), s1))"

definition smee_deployment :: "string \<Rightarrow> string \<Rightarrow> kube_body kobject" where
  "smee_deployment namespace smeeURL =
     \<lparr>o_ref = deployment_ref namespace ''gosmee-client'', o_labels = [''app'' \<mapsto> ''gosmee-client''], o_uid = [],
      o_body = DeploymentBody \<lparr>dp_Replicas = 1, dp_AvailableReplicas = 0, dp_UnavailableReplicas = 0,
        dp_Containers = [\<lparr>ct_Name = ''gosmee-client'', ct_Image = ''ghcr.io/chmouel/gosmee:latest'',
          ct_Command = [''gosmee'', ''client'', smeeURL, targetURL], ct_Args = [],
          ct_Env = [(''SMEE_URL'', smeeURL), (''TARGET_URL'', targetURL)]\<rparr>]\<rparr>\<rparr>"

definition createSmeeDeployment :: "'w tool_deps \<Rightarrow> string \<Rightarrow> string \<Rightarrow> 'w tool_state step" where
  "createSmeeDeployment d namespace smeeURL s =
     (case k_get (w_server d) (deployment_ref namespace ''gosmee-client'') s of
        (Inr _, s1) \<Rightarrow> (None, s1)
      | (Inl _, s1) \<Rightarrow>
          (case k_create (w_server d) (smee_deployment namespace smeeURL) s1 of
             (Inl e, s2) \<Rightarrow> (Some (KContext ''failed to create deployment'' (KApi e)), s2)
           | (Inr _, s2) \<Rightarrow> (None, s2)))"

definition SetupSmeeDeployment :: "'w tool_deps \<Rightarrow> string \<Rightarrow> 'w tool_state \<Rightarrow> (kerror + string) \<times> 'w tool_state" where
  "SetupSmeeDeployment d namespace s =
     (case getNewSmeeURL d s of
        (Inl e, s1) \<Rightarrow> (Inl (KContext ''failed to get a new Smee URL'' e), s1)
      | (Inr smeeURL, s1) \<Rightarrow>
          (case createSmeeDeployment d namespace smeeURL s1 of
             (Some e, s2) \<Rightarrow> (Inl (KContext ''failed to create deployment'' e), s2)
           | (None, s2) \<Rightarrow> (Inr smeeURL, s2)))"

section \<open>The forked project\<close>

record project =
  pj_ID :: string
  pj_Name :: string
  pj_WebURL :: string

definition project_of :: "hub_answer list \<Rightarrow> project" where
  "project_of a = \<lparr>pj_ID = field ''ID'' a, pj_Name = field ''Name'' a, pj_WebURL = field ''WebURL'' a\<rparr>"

definition maxRetriesForkProject :: nat where
  "maxRetriesForkProject = 5"

text \<open>The loop from attempt \<open>i\<close> on, with \<open>n\<close> attempts left.\<close>

fun fork_loop :: "'w tool_deps \<Rightarrow> string \<Rightarrow> string \<Rightarrow> nat \<Rightarrow> nat \<Rightarrow> 'w tool_state \<Rightarrow> (kerror + project) \<times> 'w tool_state" where
  "fork_loop d projectID targetNamespace i 0 s =
     (Inl (KMsg (''failed to fork project after '' @ show_nat maxRetriesForkProject @ '' attempts'')), s)"
| "fork_loop d projectID targetNamespace i (Suc n) s =
     (case stamp d s of
        (t, s1) \<Rightarrow>
          (case hub_call d ''ForkProject'' [projectID, targetNamespace, ''release-tests-fork-'' @ t] s1 of
             (Inr a, s2) \<Rightarrow> (Inr (project_of a), s2\<lparr>v_projectURL := pj_WebURL (project_of a)\<rparr>)
           | (Inl _, s2) \<Rightarrow> fork_loop d projectID targetNamespace (Suc i) n (pause (Suc i) s2)))"

definition forkProject :: "'w tool_deps \<Rightarrow> string \<Rightarrow> string \<Rightarrow> 'w tool_state \<Rightarrow> (kerror + project) \<times> 'w tool_state" where
  "forkProject d projectID targetNamespace = fork_loop d projectID targetNamespace 0 maxRetriesForkProject"

definition addWebhook :: "'w tool_deps \<Rightarrow> string \<Rightarrow> string \<Rightarrow> string \<Rightarrow> 'w tool_state step" where
  "addWebhook d projectID webhookURL token =
     hub_do d ''failed to add webhook'' ''AddProjectHook''
       [projectID, webhookURL, ''push'', ''merge_requests'', ''note'', ''tag_push'', token]"

definition repository_object :: "string \<Rightarrow> string \<Rightarrow> string \<Rightarrow> kube_body kobject" where
  "repository_object projectName targetGroupNamespace namespace =
     \<lparr>o_ref = Ref [] ''Repository'' namespace projectName, o_labels = Map.empty, o_uid = [],
      o_body = RepositoryBody \<lparr>rs_URL = ''https://gitlab.com/'' @ targetGroupNamespace @ ''/'' @ projectName,
        rs_ProviderURL = ''https://gitlab.com'', rs_Secret = (webhookConfigName, ''provider.token''),
        rs_WebhookSecret = (webhookConfigName, ''webhook.secret''), rs_Provenance = []\<rparr>\<rparr>"

definition createNewRepository :: "'w tool_deps \<Rightarrow> string \<Rightarrow> string \<Rightarrow> string \<Rightarrow> 'w tool_state step" where
  "createNewRepository d projectName targetGroupNamespace namespace s =
     (case k_create (w_server d) (repository_object projectName targetGroupNamespace namespace) s of
        (Inl e, s1) \<Rightarrow> (Some (KContext ''failed to create repository'' (KApi e)), s1)
      | (Inr _, s1) \<Rightarrow> (None, s1))"

definition SetupGitLabProject :: "'w tool_deps \<Rightarrow> string \<Rightarrow> string \<Rightarrow> 'w tool_state \<Rightarrow> (kerror + project) \<times> 'w tool_state" where
  "SetupGitLabProject d namespace smeeURL s =
     (let groupNamespace = v_getenv s ''GITLAB_GROUP_NAMESPACE''; projectIDOrPath = v_getenv s ''GITLAB_PROJECT_ID'' in
      if groupNamespace = [] \<or> projectIDOrPath = []
      then (Inl (KMsg ''GITLAB_GROUP_NAMESPACE and GITLAB_PROJECT_ID must be set''), s)
      else
        (case forkProject d projectIDOrPath groupNamespace s of
           (Inl e, s1) \<Rightarrow> (Inl (KContext ''error during project forking'' e), s1)
         | (Inr project, s1) \<Rightarrow>
             (case addWebhook d (pj_ID project) smeeURL (v_getenv s ''GITLAB_WEBHOOK_TOKEN'') s1 of
                (Some e, s2) \<Rightarrow> (Inl (KContext ''failed to add webhook'' e), s2)
              | (None, s2) \<Rightarrow>
                  (case createNewRepository d (pj_Name project) groupNamespace namespace s2 of
                     (Some e, s3) \<Rightarrow> (Inl (KContext ''failed to create repository'' e), s3)
                   | (None, s3) \<Rightarrow> (Inr project, s3)))))"

section \<open>Labels and comments\<close>

definition addLabelToProject :: "'w tool_deps \<Rightarrow> string \<Rightarrow> string \<Rightarrow> string \<Rightarrow> string \<Rightarrow> 'w tool_state step" where
  "addLabelToProject d projectID labelName color description s =
     (case hub_call d ''ListLabels'' [projectID] s of
        (Inl e, s1) \<Rightarrow> (Some (KContext ''failed to fetch project labels'' (hub_kerror e)), s1)
      | (Inr labels, s1) \<Rightarrow>
          if list_ex (\<lambda>l. label_of (map_of l) ''Name'' = labelName) labels then (None, s1)
          else hub_do d (''failed to create label '' @ quoted labelName) ''CreateLabel''
                 [projectID, labelName, color, description] s1)"

definition AddComment :: "'w tool_deps \<Rightarrow> string \<Rightarrow> int \<Rightarrow> string \<Rightarrow> 'w tool_state step" where
  "AddComment d projectID mrID comment =
     hub_do d (''failed to add comment to MR '' @ show_int mrID @ '' in project '' @ projectID)
       ''CreateMergeRequestNote'' [projectID, show_int mrID, comment]"

definition AddLabel :: "'w tool_deps \<Rightarrow> string \<Rightarrow> int \<Rightarrow> string \<Rightarrow> string \<Rightarrow> string \<Rightarrow> 'w tool_state step" where
  "AddLabel d projectID mrID label color description =
     seq (wrap ''failed to add label to project'' (addLabelToProject d projectID label color description))
         (hub_do d (''failed to update merge request with label '' @ quoted label) ''UpdateMergeRequest''
            [projectID, show_int mrID, label])"

section \<open>Generated files\<close>

definition generatePipelineRun :: "'w tool_deps \<Rightarrow> string \<Rightarrow> string \<Rightarrow> string \<Rightarrow> 'w tool_state step" where
  "generatePipelineRun d eventType branch fileName s =
     (let s1 = remove_file fileName s in
      (case w_generate d eventType branch (v_projectURL s) of
         None \<Rightarrow> (Some (KMsg ''failed to generate PipelineRun''), s1)
       | Some content \<Rightarrow> (None, s1\<lparr>v_files := (v_files s1)(fileName \<mapsto> content)\<rparr>)))"

definition event_file :: "'w tool_deps \<Rightarrow> string \<Rightarrow> string option" where
  "event_file d eventType =
     (if eventType = ''pull_request'' then Some (pullRequestFile d)
      else if eventType = ''push'' then Some (pushFile d) else None)"

definition GeneratePipelineRunYaml :: "'w tool_deps \<Rightarrow> string \<Rightarrow> string \<Rightarrow> 'w tool_state step" where
  "GeneratePipelineRunYaml d eventType branch s =
     (case event_file d eventType of
        None \<Rightarrow> (Some (KMsg (''unknown eventType: '' @ eventType)), s)
      | Some fileName \<Rightarrow>
          (case generatePipelineRun d eventType branch fileName s of
             (Some e, s1) \<Rightarrow> (Some (KContext ''failed to generate pipelinerun'' e), s1)
           | (None, s1) \<Rightarrow>
               (case read_file (''could not read file '' @ fileName) (Clean fileName) s1 of
                  Inl e \<Rightarrow> (Some e, s1)
                | Inr content \<Rightarrow> wrap ''invalid YAML content'' (validateYAML d content) s1)))"

text \<open>Printing the content, writing it and validating what was written.\<close>

definition save_yaml :: "'w tool_deps \<Rightarrow> string \<Rightarrow> (string \<times> json) list \<Rightarrow> 'w tool_state \<Rightarrow> (kerror + string) \<times> 'w tool_state" where
  "save_yaml d fileName content s =
     (case w_printYaml d content of
        None \<Rightarrow> (Inl (KMsg ''failed to marshal YAML''), s)
      | Some out \<Rightarrow>
          (case write_file d ''failed to write YAML file'' fileName out s of
             (Some e, s1) \<Rightarrow> (Inl e, s1)
           | (None, s1) \<Rightarrow>
               (case wrap ''invalid YAML content'' (validateYAML d out) s1 of
                  (Some e, s2) \<Rightarrow> (Inl e, s2)
                | (None, s2) \<Rightarrow> (Inr out, s2))))"

definition set_member :: "string \<Rightarrow> json \<Rightarrow> (string \<times> json) list \<Rightarrow> (string \<times> json) list" where
  "set_member k v kvs = AList.update k v kvs"

text \<open>An existing text gets the new value appended; the two type assertions panic when they fail.\<close>

definition appended :: "string \<Rightarrow> string \<Rightarrow> (string \<times> json) list \<Rightarrow> string" where
  "appended key val anns = (case jget anns key of JStr cur \<Rightarrow> cur @ '' '' @ val | _ \<Rightarrow> val)"

definition UpdateAnnotation :: "'w tool_deps \<Rightarrow> string \<Rightarrow> string \<Rightarrow> 'w tool_state \<Rightarrow> (kerror + string) \<times> 'w tool_state" where
  "UpdateAnnotation d annotationKey annotationValue s =
     (let fileName = pullRequestFile d in
      (case read_file ''failed to read YAML file'' (Clean fileName) s of
         Inl e \<Rightarrow> (Inl e, s)
       | Inr dat \<Rightarrow>
           (case w_parseYaml d dat of
              None \<Rightarrow> (Inl (KMsg ''failed to unmarshal YAML''), s)
            | Some content \<Rightarrow>
                (case jget content ''metadata'' of
                   JObj meta \<Rightarrow>
                     (case jget meta ''annotations'' of
                        JObj anns \<Rightarrow>
                          save_yaml d fileName
                            (set_member ''metadata'' (JObj (set_member ''annotations''
                               (JObj (set_member annotationKey (JStr (appended annotationKey annotationValue anns)) anns)) meta))
                             content) s
                      | _ \<Rightarrow> (Inl (KAbort ''interface conversion''), s))
                 | _ \<Rightarrow> (Inl (KAbort ''interface conversion''), s)))))"

definition on_target_branch :: string where
  "on_target_branch = ''pipelinesascode.tekton.dev/on-target-branch''"

text \<open>Here missing annotations are made.\<close>

definition retarget :: "string \<Rightarrow> (string \<times> json) list \<Rightarrow> (string \<times> json) list \<Rightarrow> (string \<times> json) list" where
  "retarget target meta content =
     (let anns = (case jget meta ''annotations'' of JObj anns \<Rightarrow> anns | _ \<Rightarrow> [])
      in set_member ''metadata''
           (JObj (set_member ''annotations'' (JObj (set_member on_target_branch (JStr target) anns)) meta)) content)"

definition UpdatePushOnTargetBranch :: "'w tool_deps \<Rightarrow> string \<Rightarrow> 'w tool_state step" where
  "UpdatePushOnTargetBranch d target s =
     (let fileName = pushFile d in
      (case read_file (''failed to read push YAML file '' @ fileName) fileName s of
         Inl e \<Rightarrow> (Some e, s)
       | Inr dat \<Rightarrow>
           (case w_parseYaml d dat of
              None \<Rightarrow> (Some (KMsg ''failed to unmarshal push YAML''), s)
            | Some content \<Rightarrow>
                (case jget content ''metadata'' of
                   JObj meta \<Rightarrow>
                     (case save_yaml d fileName (retarget target meta content) s of
                        (Inl e, s1) \<Rightarrow> (Some e, s1)
                      | (Inr _, s1) \<Rightarrow> (None, s1))
                 | _ \<Rightarrow> (Some (KMsg ''push YAML missing metadata section''), s)))))"

definition getPipelineRunNameFromPushYAML :: "'w tool_deps \<Rightarrow> 'w tool_state \<Rightarrow> kerror + string" where
  "getPipelineRunNameFromPushYAML d s =
     (case read_file (''failed to read push YAML file '' @ pushFile d) (pushFile d) s of
        Inl e \<Rightarrow> Inl e
      | Inr dat \<Rightarrow>
          (case w_parseYaml d dat of
             None \<Rightarrow> Inl (KMsg ''failed to unmarshal push YAML'')
           | Some content \<Rightarrow>
               (case jget content ''metadata'' of
                  JObj meta \<Rightarrow>
                    (case jget meta ''name'' of
                       JStr name \<Rightarrow> if name = [] then Inl (KMsg ''push YAML missing or invalid metadata.name'') else Inr name
                     | _ \<Rightarrow> Inl (KMsg ''push YAML missing or invalid metadata.name''))
                | _ \<Rightarrow> Inl (KMsg ''push YAML missing metadata section''))))"

end
