(* ===== verification/PacMergeRequests.thy ===== *)
theory PacMergeRequests
  imports PacGitLab
begin

text \<open>
  \<open>pkg/pac/pac.go\<close>, second part: branches, commits, merge requests and tags on GitLab, waiting for
  pipelines, and the cleanup. The wait on the pipelines of a merge request has no bound of its own:
  it is a partial function whose value is None when it never returns.
\<close>

section \<open>Branches and commits\<close>

definition createBranch :: "'w tool_deps \<Rightarrow> string \<Rightarrow> string \<Rightarrow> 'w tool_state step" where
  "createBranch d projectID branchName s =
     (case hub_call d ''CreateBranch'' [projectID, branchName, ''main''] s of
        (Inl e, s1) \<Rightarrow> (Some (hub_kerror e), s1) | (Inr _, s1) \<Rightarrow> (None, s1))"

text \<open>The files of a commit: action, path and content.\<close>

type_synonym commit_file = "string \<times> string \<times> string"

definition commit_args :: "string \<Rightarrow> string \<Rightarrow> string \<Rightarrow> commit_file list \<Rightarrow> string list" where
  "commit_args projectID branch message files =
     [projectID, branch, message] @ concat (map (\<lambda>(action, path, content). [action, path, content]) files)"

definition commit :: "'w tool_deps \<Rightarrow> string \<Rightarrow> string \<Rightarrow> string \<Rightarrow> string \<Rightarrow> commit_file list \<Rightarrow> 'w tool_state step" where
  "commit d failed projectID branch message files =
     hub_do d failed ''CreateCommit'' (commit_args projectID branch message files)"

definition pr_path :: string where "pr_path = ''.tekton/pull-request.yaml''"
definition push_path :: string where "push_path = ''.tekton/push.yaml''"

definition createCommit :: "'w tool_deps \<Rightarrow> string \<Rightarrow> string \<Rightarrow> string \<Rightarrow> string \<Rightarrow> 'w tool_state step" where
  "createCommit d projectID branch commitMessage eventType s =
     (if eventType = ''pull_request'' then
        (case read_file ''read PR file'' (pullRequestFile d) s of
           Inl e \<Rightarrow> (Some e, s)
         | Inr dat \<Rightarrow> commit d ''failed to create commit'' projectID branch commitMessage [(''create'', pr_path, dat)] s)
      else if eventType = ''push'' then
        (case read_file ''read push file'' (pushFile d) s of
           Inl e \<Rightarrow> (Some e, s)
         | Inr dat \<Rightarrow> commit d ''failed to create commit'' projectID branch commitMessage [(''create'', push_path, dat)] s)
      else (Some (KMsg (''unknown eventType '' @ quoted eventType)), s))"

definition createMergeRequest :: "'w tool_deps \<Rightarrow> string \<Rightarrow> string \<Rightarrow> string \<Rightarrow> string \<Rightarrow> 'w tool_state \<Rightarrow>
    (kerror + string) \<times> 'w tool_state" where
  "createMergeRequest d projectID sourceBranch targetBranch title s =
     (case hub_call d ''CreateMergeRequest'' [projectID, sourceBranch, targetBranch, title] s of
        (Inl e, s1) \<Rightarrow> (Inl (hub_kerror e), s1)
      | (Inr mr, s1) \<Rightarrow> (Inr (field ''WebURL'' mr), s1))"

definition extractMergeRequestID :: "'w tool_deps \<Rightarrow> string \<Rightarrow> kerror + int" where
  "extractMergeRequestID d mrURL =
     (case w_urlPath d mrURL of
        None \<Rightarrow> Inl (KMsg ''failed to parse merge request URL'')
      | Some path \<Rightarrow>
          (case atoi (last (split_char CHR ''/'' path)) of
             None \<Rightarrow> Inl (KMsg ''failed to convert MR ID to integer'')
           | Some n \<Rightarrow> Inr n))"

section \<open>Waiting for a pipeline\<close>

definition isTerminalStatus :: "string \<Rightarrow> bool" where
  "isTerminalStatus status = (status = ''success'' \<or> status = ''failed'' \<or> status = ''canceled'')"

definition maxRetriesPipelineStatus :: nat where
  "maxRetriesPipelineStatus = 10"

definition list_pipelines :: "'w tool_deps \<Rightarrow> string \<Rightarrow> int \<Rightarrow> 'w tool_state \<Rightarrow> hub_result \<times> 'w tool_state" where
  "list_pipelines d projectID mrID = hub_call d ''ListMergeRequestPipelines'' [projectID, show_int mrID]"

text \<open>The loop with its retry counter and its delay in seconds.\<close>

partial_function (option) check_loop ::
    "'w tool_deps \<Rightarrow> string \<Rightarrow> int \<Rightarrow> nat \<Rightarrow> nat \<Rightarrow> 'w tool_state \<Rightarrow> (kerror option \<times> 'w tool_state) option" where
  "check_loop d projectID mrID retryCount delay s =
     (case list_pipelines d projectID mrID s of
        (Inl e, s1) \<Rightarrow> Some (Some (KContext ''failed to list merge request pipelines'' (hub_kerror e)), s1)
      | (Inr pipelines, s1) \<Rightarrow>
          if pipelines = [] then
            (if maxRetriesPipelineStatus \<le> retryCount then Some (None, s1)
             else check_loop d projectID mrID (Suc retryCount) (min (2 * delay) 60) (pause delay s1))
          else if isTerminalStatus (field ''Status'' pipelines) then Some (None, s1)
          else check_loop d projectID mrID retryCount delay (pause 10 s1))"

definition checkPipelineStatus :: "'w tool_deps \<Rightarrow> string \<Rightarrow> int \<Rightarrow> 'w tool_state \<Rightarrow> (kerror option \<times> 'w tool_state) option" where
  "checkPipelineStatus d projectID mrID = check_loop d projectID mrID 0 5"

definition latest_name :: "'w tool_deps \<Rightarrow> string \<Rightarrow> 'w tool_state \<Rightarrow> (kerror + string) \<times> 'w tool_state" where
  "latest_name d namespace s =
     (case GetLatestPipelinerun d namespace s of
        (Inl e, s1) \<Rightarrow> (Inl (KContext ''failed to get the latest Pipelinerun'' e), s1)
      | (Inr name, s1) \<Rightarrow> (Inr name, s1))"

definition GetPipelineNameFromMR :: "'w tool_deps \<Rightarrow> string \<Rightarrow> string \<Rightarrow> int \<Rightarrow> 'w tool_state \<Rightarrow>
    ((kerror + string) \<times> 'w tool_state) option" where
  "GetPipelineNameFromMR d namespace projectID mrID s =
     (case checkPipelineStatus d projectID mrID s of
        None \<Rightarrow> None
      | Some (Some e, s1) \<Rightarrow> Some (Inl (KContext ''failed to check pipeline status'' e), s1)
      | Some (None, s1) \<Rightarrow> Some (latest_name d namespace s1))"

definition GetPushPipelineNameFromMain :: "'w tool_deps \<Rightarrow> string \<Rightarrow> 'w tool_state \<Rightarrow> (kerror + string) \<times> 'w tool_state" where
  "GetPushPipelineNameFromMain d namespace s = latest_name d namespace (pause 10 s)"

section \<open>Preview changes\<close>

text \<open>\<open>branchExists\<close>: 404 means no, any other error fails the test.\<close>

definition branchExists :: "'w tool_deps \<Rightarrow> string \<Rightarrow> string \<Rightarrow> 'w tool_state \<Rightarrow> (kerror + bool) \<times> 'w tool_state" where
  "branchExists d projectID name s =
     (case hub_call d ''GetBranch'' [projectID, name] s of
        (Inl e, s1) \<Rightarrow> (if he_status e = Some 404 then Inr False else Inl (KAbort (''GetBranch('' @ quoted name @ '')'')), s1)
      | (Inr _, s1) \<Rightarrow> (Inr True, s1))"

text \<open>Up to \<open>n\<close> random names until one is free; the empty name when none was.\<close>

fun free_branch :: "'w tool_deps \<Rightarrow> string \<Rightarrow> nat \<Rightarrow> 'w tool_state \<Rightarrow> (kerror + string) \<times> 'w tool_state" where
  "free_branch d projectID 0 s = (Inr [], s)"
| "free_branch d projectID (Suc n) s =
     (case w_random d (v_stamps s) of
        None \<Rightarrow> (Inl (KMsg ''failed to generate branch suffix''), s)
      | Some suf \<Rightarrow>
          (case branchExists d projectID (''preview-'' @ suf) (s\<lparr>v_stamps := Suc (v_stamps s)\<rparr>) of
             (Inl e, s1) \<Rightarrow> (Inl e, s1)
           | (Inr True, s1) \<Rightarrow> free_branch d projectID n s1
           | (Inr False, s1) \<Rightarrow> (Inr (''preview-'' @ suf), s1)))"

definition choose_branch :: "'w tool_deps \<Rightarrow> string \<Rightarrow> 'w tool_state \<Rightarrow> (kerror + string) \<times> 'w tool_state" where
  "choose_branch d projectID s =
     (case free_branch d projectID 10 s of
        (Inl e, s1) \<Rightarrow> (Inl e, s1)
      | (Inr name, s1) \<Rightarrow>
          if name \<noteq> [] then (Inr name, s1)
          else (case stamp d s1 of (t, s2) \<Rightarrow> (Inr (''preview-branch-'' @ take 8 (to_lower t)), s2)))"

text \<open>The files that exist are committed: both, or the one there is.\<close>

definition commit_generated :: "'w tool_deps \<Rightarrow> string \<Rightarrow> string \<Rightarrow> 'w tool_state step" where
  "commit_generated d projectID branchName s =
     (case (v_files s (pullRequestFile d), v_files s (pushFile d)) of
        (Some prData, Some pushData) \<Rightarrow>
          commit d ''commit both'' projectID branchName ''ci(pac): add push & pull_request files''
            [(''create'', pr_path, prData), (''create'', push_path, pushData)] s
      | (Some _, None) \<Rightarrow>
          wrap ''commit pull_request'' (createCommit d projectID branchName ''ci(pac): add pull_request file'' ''pull_request'') s
      | (None, Some _) \<Rightarrow> wrap ''commit push'' (createCommit d projectID branchName ''ci(pac): add push file'' ''push'') s
      | (None, None) \<Rightarrow> (Some (KMsg ''no pipeline files found to commit in /tmp''), s))"

definition ConfigurePreviewChanges :: "'w tool_deps \<Rightarrow> string \<Rightarrow> 'w tool_state \<Rightarrow> (kerror + int) \<times> 'w tool_state" where
  "ConfigurePreviewChanges d projectID s =
     (case choose_branch d projectID s of
        (Inl e, s1) \<Rightarrow> (Inl e, s1)
      | (Inr branchName, s1) \<Rightarrow>
          (case seq (wrap (''createBranch '' @ quoted branchName) (createBranch d projectID branchName))
                    (commit_generated d projectID branchName) s1 of
             (Some e, s2) \<Rightarrow> (Inl e, s2)
           | (None, s2) \<Rightarrow>
               (case createMergeRequest d projectID branchName ''main'' ''Add preview changes for feature'' s2 of
                  (Inl e, s3) \<Rightarrow> (Inl (KContext ''createMergeRequest'' e), s3)
                | (Inr mrURL, s3) \<Rightarrow>
                    (case extractMergeRequestID d mrURL of
                       Inl e \<Rightarrow> (Inl (KContext ''extract MR ID'' e), s3)
                     | Inr mrID \<Rightarrow> (Inr mrID, s3)))))"

section \<open>Pushes and tags\<close>

definition repoFileExists :: "'w tool_deps \<Rightarrow> string \<Rightarrow> string \<Rightarrow> string \<Rightarrow> 'w tool_state \<Rightarrow> (kerror + bool) \<times> 'w tool_state" where
  "repoFileExists d projectID branch path s =
     (case hub_call d ''GetFile'' [projectID, path, branch] s of
        (Inl e, s1) \<Rightarrow>
          (if he_status e = Some 404 then Inr False
           else Inl (KContext (''GetFile failed for '' @ path @ '' on '' @ branch) (hub_kerror e)), s1)
      | (Inr f, s1) \<Rightarrow> (Inr (f \<noteq> []), s1))"

definition TriggerPushOnForkMain :: "'w tool_deps \<Rightarrow> string \<Rightarrow> 'w tool_state step" where
  "TriggerPushOnForkMain d projectID s =
     (case read_file (''failed to read '' @ pushFile d) (pushFile d) s of
        Inl e \<Rightarrow> (Some e, s)
      | Inr content \<Rightarrow>
          (case stamp d s of
             (t, s1) \<Rightarrow>
               (case repoFileExists d projectID ''main'' push_path s1 of
                  (Inl e, s2) \<Rightarrow> (Some e, s2)
                | (Inr found, s2) \<Rightarrow>
                    commit d ''failed to commit push.yaml+trigger to main'' projectID ''main''
                      ''ci(pac): add push.yaml on main and trigger push pipeline''
                      [(if found then ''update'' else ''create'', push_path, content),
                       (''create'', ''ci/push-trigger-'' @ t @ ''.txt'', ''push-trigger'')] s2)))"

definition CreateTagOnBranch :: "'w tool_deps \<Rightarrow> string \<Rightarrow> string \<Rightarrow> string \<Rightarrow> 'w tool_state step" where
  "CreateTagOnBranch d projectID tagName branch =
     hub_do d (''failed to create tag '' @ quoted tagName @ '' on branch '' @ quoted branch) ''CreateTag''
       [projectID, tagName, branch]"

definition getCommitSHAForTag :: "'w tool_deps \<Rightarrow> string \<Rightarrow> string \<Rightarrow> 'w tool_state \<Rightarrow> (kerror + string) \<times> 'w tool_state" where
  "getCommitSHAForTag d projectID tag s =
     (case hub_call d ''GetTag'' [projectID, tag] s of
        (Inl e, s1) \<Rightarrow> (Inl (KContext (''failed to get tag '' @ quoted tag) (hub_kerror e)), s1)
      | (Inr t, s1) \<Rightarrow>
          if field ''CommitID'' t = [] then (Inl (KMsg (''tag '' @ quoted tag @ '' has no associated commit'')), s1)
          else (Inr (field ''CommitID'' t), s1))"

definition AddCommitCommentOnTag :: "'w tool_deps \<Rightarrow> string \<Rightarrow> string \<Rightarrow> string \<Rightarrow> 'w tool_state step" where
  "AddCommitCommentOnTag d projectID comment tag s =
     (case getCommitSHAForTag d projectID tag s of
        (Inl e, s1) \<Rightarrow> (Some (KContext (''failed to resolve tag '' @ quoted tag @ '' to commit'') e), s1)
      | (Inr sha, s1) \<Rightarrow>
          hub_do d (''failed to add comment '' @ quoted comment @ '' on tag '' @ quoted tag @ '' (commit '' @ sha @ '')'')
            ''PostCommitComment'' [projectID, sha, comment] s1)"

definition comment_on_tag :: "string \<Rightarrow> 'w tool_deps \<Rightarrow> string \<Rightarrow> string \<Rightarrow> 'w tool_state step" where
  "comment_on_tag command d projectID tag s =
     (case getPipelineRunNameFromPushYAML d s of
        Inl e \<Rightarrow> (Some (KContext ''failed to get PipelineRun name'' e), s)
      | Inr prName \<Rightarrow> AddCommitCommentOnTag d projectID (command @ '' '' @ prName @ '' tag:'' @ tag) tag s)"

definition AddTestCommentForLatestPipelineRunOnTag :: "'w tool_deps \<Rightarrow> string \<Rightarrow> string \<Rightarrow> 'w tool_state step" where
  "AddTestCommentForLatestPipelineRunOnTag = comment_on_tag ''/test''"

definition AddCancelCommentForLatestPipelineRunOnTag :: "'w tool_deps \<Rightarrow> string \<Rightarrow> string \<Rightarrow> 'w tool_state step" where
  "AddCancelCommentForLatestPipelineRunOnTag = comment_on_tag ''/cancel''"

section \<open>Assertions and cleanup\<close>

definition AssertPACInfoInstall :: "'w tool_deps \<Rightarrow> 'w tool_state step" where
  "AssertPACInfoInstall d s =
     (case GetOpcPacInfoInstall d s of
        (Inl (KAbort m), s1) \<Rightarrow> (Some (KAbort m), s1)
      | (Inl e, s1) \<Rightarrow> (Some (KContext ''failed to get pac info'' e), s1)
      | (Inr pacInfo, s1) \<Rightarrow>
          if \<not> contains (pi_InstallVersion pacInfo) (v_getenv s1 ''PAC_VERSION'')
             \<or> pi_InstallNamespace pacInfo \<noteq> ''openshift-pipelines''
          then (Some (KMsg (''PAC version '' @ pi_InstallVersion pacInfo @ '' or namespace is wrong'')), s1)
          else (None, s1))"

definition deleteGitlabProject :: "'w tool_deps \<Rightarrow> string \<Rightarrow> 'w tool_state step" where
  "deleteGitlabProject d projectID = hub_do d ''failed to delete project'' ''DeleteProject'' [projectID]"

definition remove_generated :: "'w tool_deps \<Rightarrow> 'w tool_state \<Rightarrow> 'w tool_state" where
  "remove_generated d s = remove_file (pushFile d) (remove_file (pullRequestFile d) s)"

definition CleanupPAC :: "'w tool_deps \<Rightarrow> string \<Rightarrow> string \<Rightarrow> string \<Rightarrow> 'w tool_state step" where
  "CleanupPAC d namespace projectID smeeDeploymentName s =
     seq (wrap ''cleanup failed'' (deleteGitlabProject d projectID))
         (wrap ''failed to Delete Smee Deployment'' (DeleteDeployment d namespace smeeDeploymentName)) (remove_generated d s)"

text \<open>
  The ticker loop of the package's own \<open>AssertNumberOfPipelineruns\<close>: a listing at every tick until
  the deadline, and one more for the message.
\<close>

definition number_condition :: "'w tool_deps \<Rightarrow> int \<Rightarrow> ('w tool_state, kerror) cond" where
  "number_condition d expectedCount s =
     (case k_list (w_server d) [] ''PipelineRun'' (w_namespace d) [] s of
        (Inl e, s1) \<Rightarrow> ((False, None), s1)
      | (Inr items, s1) \<Rightarrow> ((int (length items) = expectedCount, None), s1))"

definition AssertNumberOfPipelineruns_pac :: "'w tool_deps \<Rightarrow> int \<Rightarrow> nat \<Rightarrow> 'w tool_state step" where
  "AssertNumberOfPipelineruns_pac d expectedCount timeoutSeconds s =
     (case w_poll d 5 timeoutSeconds False (number_condition d expectedCount) s of
        (None, s1) \<Rightarrow> (None, s1)
      | (Some _, s1) \<Rightarrow>
          (case k_list (w_server d) [] ''PipelineRun'' (w_namespace d) [] s1 of
             (r, s2) \<Rightarrow>
               (Some (KMsg (''expected '' @ show_int expectedCount @ '' pipelineruns but found ''
                  @ show_nat (case r of Inl _ \<Rightarrow> 0 | Inr items \<Rightarrow> length items) @ '' (timeout after ''
                  @ show_nat timeoutSeconds @ ''s)'')), s2)))"

end
