(* ===== verification/PacGitLabFacts.thy ===== *)
theory PacGitLabFacts
  imports PacMergeRequests PipelineRunFacts
begin

text \<open>
  GitLab: when the wait for a pipeline ends and with what, and what the edits of the generated YAML
  keep.
\<close>

section \<open>The wait for a pipeline\<close>

text \<open>Calls and pauses, as far as the world of the service is concerned.\<close>

lemma hub_call_world:
  "hub_call d op args s = (r, s') \<Longrightarrow> w_hub d (op, args) (io_world s) = (r, io_world s') \<and> v_slept s' = v_slept s"
  by (auto simp: hub_call_def split: prod.splits)

lemma pause_fields [simp]: "io_world (pause n s) = io_world s" "v_slept (pause n s) = n # v_slept s"
  by (simp_all add: pause_def)

text \<open>The pauses made so far, newest first, never exceed a minute.\<close>

definition pauses_ok :: "'w tool_state \<Rightarrow> 'w tool_state \<Rightarrow> bool" where
  "pauses_ok s s' \<longleftrightarrow> (\<exists>ps. v_slept s' = ps @ v_slept s \<and> list_all (\<lambda>p. p \<le> 60) ps)"

lemma pauses_ok_step: "pauses_ok (pause n s1) s' \<Longrightarrow> v_slept s1 = v_slept s \<Longrightarrow> n \<le> 60 \<Longrightarrow> pauses_ok s s'"
  unfolding pauses_ok_def by auto

text \<open>What the last listing of a wait says about its result.\<close>

definition last_listing :: "'w tool_deps \<Rightarrow> string \<Rightarrow> int \<Rightarrow> kerror option \<Rightarrow> 'w tool_state \<Rightarrow> bool" where
  "last_listing d p m err s' \<longleftrightarrow> (\<exists>t r. list_pipelines d p m t = (r, s') \<and>
    (case r of
       Inl e \<Rightarrow> err = Some (KContext ''failed to list merge request pipelines'' (hub_kerror e))
     | Inr ps \<Rightarrow> err = None \<and> (ps = [] \<or> isTerminalStatus (field ''Status'' ps))))"

definition loop_result :: "'w tool_deps \<Rightarrow> string \<Rightarrow> int \<Rightarrow> nat \<Rightarrow> nat \<Rightarrow> 'w tool_state \<Rightarrow> kerror option \<times> 'w tool_state \<Rightarrow> bool" where
  "loop_result d p m retry delay s res \<longleftrightarrow>
     (delay \<le> 60 \<longrightarrow> pauses_ok s (snd res) \<and> last_listing d p m (fst res) (snd res))"

lemma check_loop_result:
  assumes "check_loop d p m retry delay s = Some res"
  shows "loop_result d p m retry delay s res"
proof (rule check_loop.raw_induct [where P = loop_result, OF _ assms])
  fix f :: "'a tool_deps \<Rightarrow> string \<Rightarrow> int \<Rightarrow> nat \<Rightarrow> nat \<Rightarrow> 'a tool_state \<Rightarrow> (kerror option \<times> 'a tool_state) option"
  fix d p m retry delay s res
  assume IH: "\<And>d p m retry delay s res. f d p m retry delay s = Some res \<Longrightarrow> loop_result d p m retry delay s res"
    and body: "(case list_pipelines d p m s of
      (Inl e, s1) \<Rightarrow> Some (Some (KContext ''failed to list merge request pipelines'' (hub_kerror e)), s1)
    | (Inr pipelines, s1) \<Rightarrow>
        if pipelines = [] then
          (if maxRetriesPipelineStatus \<le> retry then Some (None, s1)
           else f d p m (Suc retry) (min (2 * delay) 60) (pause delay s1))
        else if isTerminalStatus (field ''Status'' pipelines) then Some (None, s1)
        else f d p m retry delay (pause 10 s1)) = Some res"
  obtain r s1 where l: "list_pipelines d p m s = (r, s1)" by (metis surj_pair)
  have w: "v_slept s1 = v_slept s" using l hub_call_world unfolding list_pipelines_def by blast
  have stop: "loop_result d p m retry delay s (err, s1)" if "case r of
       Inl e \<Rightarrow> err = Some (KContext ''failed to list merge request pipelines'' (hub_kerror e))
     | Inr ps \<Rightarrow> err = None \<and> (ps = [] \<or> isTerminalStatus (field ''Status'' ps))" for err
    using that l w by (auto simp: loop_result_def last_listing_def pauses_ok_def)
  have go: "loop_result d p m retry delay s res"
    if "f d p m retry' delay' (pause n s1) = Some res" and "delay \<le> 60 \<Longrightarrow> delay' \<le> 60 \<and> n \<le> 60" for retry' delay' n
    using IH [OF that(1)] that(2) w by (auto simp: loop_result_def intro: pauses_ok_step)
  show "loop_result d p m retry delay s res"
  proof (cases r)
    case (Inl e)
    with body l stop show ?thesis by auto
  next
    case (Inr ps)
    with body l stop [of None] go [of "Suc retry" "min (2 * delay) 60" delay] go [of retry delay 10]
    show ?thesis by (auto split: if_splits)
  qed
qed

text \<open>
  A bound for the number of further unfinished observations, which the world decreases with each of
  them.
\<close>

definition runs_out :: "'w tool_deps \<Rightarrow> string \<Rightarrow> int \<Rightarrow> ('w \<Rightarrow> nat) \<Rightarrow> bool" where
  "runs_out d p m bound \<longleftrightarrow>
     (\<forall>w ps w'. w_hub d (''ListMergeRequestPipelines'', [p, show_int m]) w = (Inr ps, w') \<longrightarrow>
        (if ps = [] then bound w' \<le> bound w
         else isTerminalStatus (field ''Status'' ps) \<or> bound w' < bound w))"

definition always_unfinished :: "'w tool_deps \<Rightarrow> string \<Rightarrow> int \<Rightarrow> bool" where
  "always_unfinished d p m \<longleftrightarrow>
     (\<forall>w. \<exists>ps w'. w_hub d (''ListMergeRequestPipelines'', [p, show_int m]) w = (Inr ps, w')
        \<and> ps \<noteq> [] \<and> \<not> isTerminalStatus (field ''Status'' ps))"

lemma check_loop_returns:
  assumes "runs_out d p m bound"
  shows "check_loop d p m retry delay s \<noteq> None"
proof (induction "12 * bound (io_world s) + (11 - retry)" arbitrary: retry delay s rule: less_induct)
  case less
  obtain r s1 where l: "list_pipelines d p m s = (r, s1)" by (metis surj_pair)
  then have w: "w_hub d (''ListMergeRequestPipelines'', [p, show_int m]) (io_world s) = (r, io_world s1)"
    using hub_call_world unfolding list_pipelines_def by blast
  show ?case
  proof (cases r)
    case (Inl e)
    with l show ?thesis by (subst check_loop.simps) simp
  next
    case (Inr ps)
    show ?thesis
    proof (cases "ps = []")
      case True
      with w Inr assms have b: "bound (io_world s1) \<le> bound (io_world s)" by (fastforce simp: runs_out_def)
      show ?thesis
      proof (cases "maxRetriesPipelineStatus \<le> retry")
        case True
        with l Inr \<open>ps = []\<close> show ?thesis by (subst check_loop.simps) simp
      next
        case False
        with b have "12 * bound (io_world (pause delay s1)) + (11 - Suc retry) < 12 * bound (io_world s) + (11 - retry)"
          by (simp add: maxRetriesPipelineStatus_def)
        from less [OF this] False l Inr \<open>ps = []\<close> show ?thesis by (subst check_loop.simps) simp
      qed
    next
      case False
      show ?thesis
      proof (cases "isTerminalStatus (field ''Status'' ps)")
        case True
        with l Inr False show ?thesis by (subst check_loop.simps) simp
      next
        case f: False
        with w Inr assms False have "bound (io_world s1) < bound (io_world s)" by (fastforce simp: runs_out_def)
        then have "12 * bound (io_world (pause 10 s1)) + (11 - retry) < 12 * bound (io_world s) + (11 - retry)" by simp
        from less [OF this] f l Inr False show ?thesis by (subst check_loop.simps) simp
      qed
    qed
  qed
qed

lemma check_loop_diverges:
  assumes "always_unfinished d p m"
  shows "check_loop d p m retry delay s = None"
proof -
  have "\<not> always_unfinished d p m" if l: "check_loop d p m retry delay s = Some res" for res
  proof (rule check_loop.raw_induct [where P = "\<lambda>d p m retry delay s res. \<not> always_unfinished d p m", OF _ l])
    fix f :: "'a tool_deps \<Rightarrow> string \<Rightarrow> int \<Rightarrow> nat \<Rightarrow> nat \<Rightarrow> 'a tool_state \<Rightarrow> (kerror option \<times> 'a tool_state) option"
    fix d p m retry delay s res
    assume IH: "\<And>d p m retry delay s res. f d p m retry delay s = Some res \<Longrightarrow> \<not> always_unfinished d p m"
      and body: "(case list_pipelines d p m s of
        (Inl e, s1) \<Rightarrow> Some (Some (KContext ''failed to list merge request pipelines'' (hub_kerror e)), s1)
      | (Inr pipelines, s1) \<Rightarrow>
          if pipelines = [] then
            (if maxRetriesPipelineStatus \<le> retry then Some (None, s1)
             else f d p m (Suc retry) (min (2 * delay) 60) (pause delay s1))
          else if isTerminalStatus (field ''Status'' pipelines) then Some (None, s1)
          else f d p m retry delay (pause 10 s1)) = Some res"
    obtain r s1 where l: "list_pipelines d p m s = (r, s1)" by (metis surj_pair)
    then have w: "w_hub d (''ListMergeRequestPipelines'', [p, show_int m]) (io_world s) = (r, io_world s1)"
      using hub_call_world unfolding list_pipelines_def by blast
    show "\<not> always_unfinished d p m"
    proof
      assume a: "always_unfinished d p m"
      then obtain ps where "r = Inr ps" "ps \<noteq> []" "\<not> isTerminalStatus (field ''Status'' ps)"
        using w unfolding always_unfinished_def by (metis prod.inject)
      with body l have "f d p m retry delay (pause 10 s1) = Some res" by simp
      from IH [OF this] a show False by simp
    qed
  qed
  then show ?thesis using assms by (cases "check_loop d p m retry delay s") auto
qed

text \<open>
  C25: waiting for the pipeline of a merge request ends whenever only finitely many listings show a
  pipeline that is not finished, and does not end when all of them do, as with a pipeline that was
  skipped. What it returns comes from its last listing: an error, or nil with a final status or with
  no pipeline at all; no pause is longer than a minute.
\<close>

theorem pipeline_wait:
  "(runs_out d p m bound \<longrightarrow> checkPipelineStatus d p m s \<noteq> None)
   \<and> (always_unfinished d p m \<longrightarrow> checkPipelineStatus d p m s = None)
   \<and> (checkPipelineStatus d p m s = Some (err, s') \<longrightarrow> pauses_ok s s' \<and> last_listing d p m err s')"
  using check_loop_returns [of d p m bound 0 5 s] check_loop_diverges [of d p m 0 5 s]
    check_loop_result [of d p m 0 5 s "(err, s')"]
  by (simp add: checkPipelineStatus_def loop_result_def)

text \<open>A service whose pipeline runs for a while, and one whose pipeline was skipped.\<close>

definition lab_tools :: "(nat \<Rightarrow> string) \<Rightarrow> nat tool_deps" where
  "lab_tools status = \<lparr>w_server = \<lparr>sv_get = \<lambda>r w. (Inl NotFound, w),
       sv_create = \<lambda>ob w. (Inr ob, w), sv_update = \<lambda>ob w. (Inr ob, w), sv_delete = \<lambda>r w. (None, w),
       sv_list = \<lambda>c k ns sel w. (Inr [], w)\<rparr>,
     w_poll = rounds_poller 2, w_waitPoll = rounds_poller 2, w_ctx = (\<lambda>s. None),
     w_oc = \<lparr>oc_shell = (\<lambda>args w. (\<lparr>ExitCode = 0, Stdout = [], Stderr = []\<rparr>, w)),
       oc_connection = \<lparr>cn_Kubeconfig = [], cn_Context = [], cn_Cluster = []\<rparr>,
       oc_Context = [], oc_path = id, oc_namespace = []\<rparr>,
     w_hub = (\<lambda>q w. (Inr [[(''Status'', status w)]], w - 1)), w_stamp = (\<lambda>n. ''00000001''),
     w_random = (\<lambda>n. Some ''abcd1234''), w_process = 1, w_tempDir = ''/tmp'', w_writable = (\<lambda>f. True),
     w_parseYaml = (\<lambda>t. if t = ''old'' then Some [(''metadata'', JObj [(''name'', JStr ''push'')])]
       else if t = ''new'' then Some [(''metadata'', JObj [(''name'', JStr ''push''),
         (''annotations'', JObj [(''pipelinesascode.tekton.dev/on-target-branch'', JStr ''main'')])])] else None),
     w_printYaml = (\<lambda>c. if c = [(''metadata'', JObj [(''name'', JStr ''push''),
         (''annotations'', JObj [(''pipelinesascode.tekton.dev/on-target-branch'', JStr ''main'')])])] then Some ''new'' else None),
     w_generate = (\<lambda>e b u. None), w_urlPath = Some, w_apiGroups = (\<lambda>w. None), w_namespace = ''ns'',
     w_watch = (\<lambda>b ns w. (Inr [], w)), w_reasonTimedOut = ''PipelineRunTimeout'', w_reasonTaskCancelled = ''TaskRunCancelled'',
     w_lookPath = (\<lambda>n. True), w_schedule = id\<rparr>"

definition lab_start :: "nat \<Rightarrow> nat tool_state" where
  "lab_start n = \<lparr>io_world = n, io_trace = [], v_sa = None, v_run = None, v_name = [], v_projectURL = [],
     v_files = [''/tmp/pac_push_1.yaml'' \<mapsto> ''old''], v_env = Map.empty, v_stamps = 0, v_ghClient = True, v_signed = [], v_signature = [], v_attempt = 0, v_triggered = False, v_once = False, v_hub = [], v_slept = []\<rparr>"

theorem pipeline_wait_witness:
  "(\<exists>err s'. checkPipelineStatus (lab_tools (\<lambda>n. if n = 0 then ''failed'' else ''running'')) ''7'' 1 (lab_start 3) = Some (err, s')
      \<and> err = None \<and> pauses_ok (lab_start 3) s')
   \<and> checkPipelineStatus (lab_tools (\<lambda>n. ''skipped'')) ''7'' 1 (lab_start 3) = None"
proof
  let ?d = "lab_tools (\<lambda>n. if n = 0 then ''failed'' else ''running'')"
  have "runs_out ?d ''7'' 1 (\<lambda>w. w)"
    by (auto simp: runs_out_def lab_tools_def field_def isTerminalStatus_def)
  with pipeline_wait [of ?d "''7''" 1 "\<lambda>w. w" "lab_start 3"]
  have "checkPipelineStatus ?d ''7'' 1 (lab_start 3) \<noteq> None" by blast
  then obtain err s' where r: "checkPipelineStatus ?d ''7'' 1 (lab_start 3) = Some (err, s')" by fastforce
  from pipeline_wait [of ?d "''7''" 1 "\<lambda>w. w" "lab_start 3" err s'] r
  have l: "last_listing ?d ''7'' 1 err s'" and p: "pauses_ok (lab_start 3) s'" by blast+
  from l obtain t r where q: "list_pipelines ?d ''7'' 1 t = (r, s')"
      and c: "case r of Inl e \<Rightarrow> err = Some (KContext ''failed to list merge request pipelines'' (hub_kerror e))
        | Inr ps \<Rightarrow> err = None \<and> (ps = [] \<or> isTerminalStatus (field ''Status'' ps))"
    unfolding last_listing_def by blast
  from q obtain ps where "r = Inr ps" by (auto simp: list_pipelines_def hub_call_def lab_tools_def)
  with c have "err = None" by simp
  with r p show "\<exists>err s'. checkPipelineStatus ?d ''7'' 1 (lab_start 3) = Some (err, s') \<and> err = None \<and> pauses_ok (lab_start 3) s'"
    by blast
next
  have "always_unfinished (lab_tools (\<lambda>n. ''skipped'')) ''7'' 1"
    by (auto simp: always_unfinished_def lab_tools_def field_def isTerminalStatus_def)
  with pipeline_wait [of "lab_tools (\<lambda>n. ''skipped'')" "''7''" 1 "\<lambda>w. w" "lab_start 3"]
  show "checkPipelineStatus (lab_tools (\<lambda>n. ''skipped'')) ''7'' 1 (lab_start 3) = None" by blast
qed

section \<open>Editing the push file\<close>

definition codec_ok :: "'w tool_deps \<Rightarrow> bool" where
  "codec_ok d \<longleftrightarrow> (\<forall>c t. w_printYaml d c = Some t \<longrightarrow> w_parseYaml d t = Some c)"

lemma jget_set_member: "jget (set_member k v kvs) k' = (if k' = k then v else jget kvs k')"
  by (simp add: set_member_def update_conv')

lemma save_yaml_ok:
  "save_yaml d file content s = (Inr out, s') \<Longrightarrow> w_printYaml d content = Some out \<and> s' = s\<lparr>v_files := (v_files s)(file \<mapsto> out)\<rparr>"
  by (auto simp: save_yaml_def write_file_def wrap_def wrap_error_def validateYAML_def split: option.splits prod.splits if_splits)

text \<open>
  UpdatePushOnTargetBranch, when it returns nil, has rewritten the push file so that it reads back as
  the old content with the annotation set to the target: every other member of the metadata and of
  the annotations is as before, and so is the PipelineRun name taken from the file.
\<close>

theorem retarget_reads_back:
  assumes "codec_ok d" and "UpdatePushOnTargetBranch d target s = (None, s')"
  shows "\<exists>old content meta new anns. v_files s (pushFile d) = Some old \<and> w_parseYaml d old = Some content
     \<and> jget content ''metadata'' = JObj meta
     \<and> v_files s' (pushFile d) = Some new \<and> w_parseYaml d new = Some (retarget target meta content)
     \<and> jget (retarget target meta content) ''metadata'' = JObj (set_member ''annotations'' (JObj anns) meta)
     \<and> jget anns on_target_branch = JStr target
     \<and> (\<forall>k. k \<noteq> on_target_branch \<longrightarrow>
          jget anns k = (case jget meta ''annotations'' of JObj old \<Rightarrow> jget old k | _ \<Rightarrow> JNull))
     \<and> getPipelineRunNameFromPushYAML d s' = getPipelineRunNameFromPushYAML d s"
proof -
  from assms(2) obtain old content meta out where f: "v_files s (pushFile d) = Some old" "w_parseYaml d old = Some content"
      "jget content ''metadata'' = JObj meta" and y: "save_yaml d (pushFile d) (retarget target meta content) s = (Inr out, s')"
    by (auto simp: UpdatePushOnTargetBranch_def Let_def read_file_def split: option.splits sum.splits json.splits prod.splits)
  from save_yaml_ok [OF y] assms(1) have n: "v_files s' (pushFile d) = Some out" "w_parseYaml d out = Some (retarget target meta content)"
    by (auto simp: codec_ok_def)
  let ?anns = "set_member on_target_branch (JStr target) (case jget meta ''annotations'' of JObj anns \<Rightarrow> anns | _ \<Rightarrow> [])"
  have r: "jget (retarget target meta content) ''metadata'' = JObj (set_member ''annotations'' (JObj ?anns) meta)"
    by (simp add: retarget_def jget_set_member del: jget.simps)
  moreover have "jget ?anns on_target_branch = JStr target" by (simp add: jget_set_member del: jget.simps)
  moreover have "jget ?anns k = (case jget meta ''annotations'' of JObj old \<Rightarrow> jget old k | _ \<Rightarrow> JNull)"
    if "k \<noteq> on_target_branch" for k
  proof (cases "jget meta ''annotations''")
    case (JObj old)
    with that show ?thesis by (simp add: jget_set_member del: jget.simps)
  qed (use that in \<open>simp_all add: set_member_def\<close>)
  moreover have "getPipelineRunNameFromPushYAML d s' = getPipelineRunNameFromPushYAML d s"
    using f n r by (simp add: getPipelineRunNameFromPushYAML_def read_file_def jget_set_member del: jget.simps)
  ultimately show ?thesis using f n by blast
qed

theorem retarget_reads_back_witness:
  "\<exists>s'. UpdatePushOnTargetBranch (lab_tools (\<lambda>n. [])) ''main'' (lab_start 0) = (None, s')
     \<and> getPipelineRunNameFromPushYAML (lab_tools (\<lambda>n. [])) s' = Inr ''push''"
proof -
  let ?d = "lab_tools (\<lambda>n. [])"
  have c: "codec_ok ?d" by (auto simp: codec_ok_def lab_tools_def)
  have "fst (UpdatePushOnTargetBranch ?d ''main'' (lab_start 0)) = None"
    and n: "getPipelineRunNameFromPushYAML ?d (lab_start 0) = Inr ''push''" by code_simp+
  then obtain s' where r: "UpdatePushOnTargetBranch ?d ''main'' (lab_start 0) = (None, s')" by (metis prod.collapse)
  from retarget_reads_back [OF c r] n r show ?thesis by auto
qed

section \<open>The id of a merge request\<close>

lemma merge_request_id_reads_back:
  assumes "n \<le> max_int64" and "w_urlPath d url = Some (path @ CHR ''/'' # show_nat n)"
  shows "extractMergeRequestID d url = Inr (int n)"
proof -
  have s: "CHR ''/'' \<notin> set (show_nat n)"
    using show_nat_digits [of "CHR ''/''" n] by (auto simp: is_digit_def less_eq_char_def)
  have "last (split_char CHR ''/'' (path @ CHR ''/'' # show_nat n)) = show_nat n"
  proof (induction path)
    case Nil
    with s show ?case by (simp add: split_char_atom)
  next
    case (Cons x path)
    have "tl (split_char CHR ''/'' (path @ CHR ''/'' # show_nat n)) \<noteq> []" by (induction path) auto
    with Cons show ?case by (cases "split_char CHR ''/'' (path @ CHR ''/'' # show_nat n)") auto
  qed
  with assms show ?thesis by (simp add: extractMergeRequestID_def atoi_show_nat)
qed

text \<open>
  When adding the webhook fails, the fork stays: the error gives the caller no project to delete, and no
  request of the function deletes it.
\<close>

lemma failed_webhook_leaves_fork:
  assumes "v_getenv s ''GITLAB_GROUP_NAMESPACE'' \<noteq> []" and "v_getenv s ''GITLAB_PROJECT_ID'' \<noteq> []"
    and "forkProject d (v_getenv s ''GITLAB_PROJECT_ID'') (v_getenv s ''GITLAB_GROUP_NAMESPACE'') s = (Inr project, s1)"
    and "addWebhook d (pj_ID project) url (v_getenv s ''GITLAB_WEBHOOK_TOKEN'') s1 = (Some e, s2)"
  shows "SetupGitLabProject d ns url s = (Inl (KContext ''failed to add webhook'' e), s2)
    \<and> (\<exists>args r. v_hub s2 = ((''AddProjectHook'', args), r) # v_hub s1)"
  using assms(3,4) assms(1,2)
  by (auto simp: SetupGitLabProject_def Let_def addWebhook_def hub_do_def hub_call_def split: prod.splits sum.splits)

end
