(* ===== verification/PacGitHub.thy ===== *)
theory PacGitHub
  imports PacMergeRequests
begin

text \<open>
  \<open>pkg/pac/pac-github.go\<close>: Pipelines-as-Code against GitHub. Setting up the project registers its
  rollback as it goes: \<open>rollback\<close> is the deferred function, with what it knows at each way out.
\<close>

section \<open>The client and the credentials\<close>

text \<open>\<open>InitGitHubClient\<close> skips the test without a token.\<close>

definition InitGitHubClient :: "'w tool_state \<Rightarrow> string option" where
  "InitGitHubClient s =
     (if v_getenv s ''PAC_GITHUB_TOKEN'' = [] then Some ''PAC_GITHUB_TOKEN not set - skipping GitHub PAC tests'' else None)"

definition githubWebhookConfigName :: string where
  "githubWebhookConfigName = ''github-webhook-config''"

definition hook_secret_ref :: "string \<Rightarrow> ref" where
  "hook_secret_ref namespace = Ref [] ''Secret'' namespace githubWebhookConfigName"

fun hook_secret :: "kube_body \<Rightarrow> (string \<times> string) list \<times> (string \<times> string) list" where
  "hook_secret (HookSecret dat stringData) = (dat, stringData)"
| "hook_secret _ = ([], [])"

definition wanted_data :: "string \<Rightarrow> string \<Rightarrow> (string \<times> string) list" where
  "wanted_data token webhookSecret = [(''provider.token'', token), (''webhook.secret'', webhookSecret)]"

text \<open>What undoes the change to the Secret: writing the original back, or deleting the new one.\<close>

datatype secret_rollback = RestoreSecret "kube_body kobject" | DeleteSecret

definition update_secret :: "(string \<times> string) list \<Rightarrow> kube_body kobject \<Rightarrow> kube_body kobject" where
  "update_secret want existing =
     existing\<lparr>o_body := HookSecret (fst (hook_secret (o_body existing)))
       (fold (\<lambda>(k, v). AList.update k v) want (snd (hook_secret (o_body existing))))\<rparr>"

definition ensureWebhookSecret ::
    "'w tool_deps \<Rightarrow> string \<Rightarrow> string \<Rightarrow> string \<Rightarrow> 'w tool_state \<Rightarrow> (kerror + secret_rollback) \<times> 'w tool_state" where
  "ensureWebhookSecret d namespace token webhookSecret s =
     (case k_get (w_server d) (hook_secret_ref namespace) s of
        (Inr existing, s1) \<Rightarrow>
          (case k_update (w_server d) (update_secret (wanted_data token webhookSecret) existing) s1 of
             (Inl e, s2) \<Rightarrow> (Inl (KApi e), s2)
           | (Inr _, s2) \<Rightarrow> (Inr (RestoreSecret existing), s2))
      | (Inl e, s1) \<Rightarrow>
          if e \<noteq> NotFound then (Inl (KApi e), s1)
          else
            (case k_create (w_server d) \<lparr>o_ref = hook_secret_ref namespace, o_labels = Map.empty, o_uid = [],
                    o_body = HookSecret [] (wanted_data token webhookSecret)\<rparr> s1 of
               (Inl e, s2) \<Rightarrow> (Inl (KApi e), s2)
             | (Inr _, s2) \<Rightarrow> (Inr DeleteSecret, s2)))"

text \<open>The resource version of the original is set before it is written; versions are not modelled.\<close>

definition secretRollback :: "'w tool_deps \<Rightarrow> string \<Rightarrow> secret_rollback \<Rightarrow> 'w tool_state step" where
  "secretRollback d namespace rb s =
     (case rb of
        RestoreSecret original \<Rightarrow>
          (case k_get (w_server d) (hook_secret_ref namespace) s of
             (Inl e, s1) \<Rightarrow>
               if e = NotFound then
                 (case k_create (w_server d) original s1 of
                    (Inl e, s2) \<Rightarrow> (Some (KApi e), s2) | (Inr _, s2) \<Rightarrow> (None, s2))
               else (Some (KApi e), s1)
           | (Inr current, s1) \<Rightarrow>
               (case k_update (w_server d) original s1 of
                  (Inl e, s2) \<Rightarrow> (Some (KApi e), s2) | (Inr _, s2) \<Rightarrow> (None, s2)))
      | DeleteSecret \<Rightarrow>
          (case k_delete (w_server d) (hook_secret_ref namespace) s of
             (Some e, s1) \<Rightarrow> (if e = NotFound then None else Some (KApi e), s1)
           | (None, s1) \<Rightarrow> (None, s1)))"

section \<open>Cluster resources\<close>

text \<open>Bytes outside the alphabet become dashes; names of GitHub repositories are ASCII.\<close>

definition label_char :: "char \<Rightarrow> bool" where
  "label_char c = (is_lower c \<or> is_digit c \<or> c = CHR ''-'')"

definition sanitizeGitHubK8sName :: "string \<Rightarrow> string" where
  "sanitizeGitHubK8sName inp =
     (let res = trim_set (map (\<lambda>c. if label_char c then c else CHR ''-'') (to_lower inp)) ''-'' in
      if res = [] then ''pac-repo'' else if 63 < length res then take 63 res else res)"

definition repository_ref :: "string \<Rightarrow> string \<Rightarrow> ref" where
  "repository_ref namespace name = Ref [] ''Repository'' namespace name"

definition github_repository :: "string \<Rightarrow> string \<Rightarrow> string \<Rightarrow> kube_body kobject" where
  "github_repository repoName repoURL namespace =
     \<lparr>o_ref = repository_ref namespace repoName, o_labels = Map.empty, o_uid = [],
      o_body = RepositoryBody \<lparr>rs_URL = repoURL, rs_ProviderURL = [],
        rs_Secret = (githubWebhookConfigName, ''provider.token''),
        rs_WebhookSecret = (githubWebhookConfigName, ''webhook.secret''), rs_Provenance = ''source''\<rparr>\<rparr>"

definition createGitHubRepositoryCR :: "'w tool_deps \<Rightarrow> string \<Rightarrow> string \<Rightarrow> string \<Rightarrow> 'w tool_state step" where
  "createGitHubRepositoryCR d repoName repoURL namespace s =
     (case k_create (w_server d) (github_repository repoName repoURL namespace) s of
        (Inl e, s1) \<Rightarrow> (Some (KApi e), s1) | (Inr _, s1) \<Rightarrow> (None, s1))"

definition delete_tolerant :: "'w tool_deps \<Rightarrow> ref \<Rightarrow> 'w tool_state step" where
  "delete_tolerant d r s =
     (case k_delete (w_server d) r s of
        (Some e, s1) \<Rightarrow> (if e = NotFound then None else Some (KApi e), s1) | (None, s1) \<Rightarrow> (None, s1))"

definition deleteGitHubRepositoryCR :: "'w tool_deps \<Rightarrow> string \<Rightarrow> string \<Rightarrow> 'w tool_state step" where
  "deleteGitHubRepositoryCR d namespace repoName s =
     (if repoName = [] then (None, s) else delete_tolerant d (repository_ref namespace (sanitizeGitHubK8sName repoName)) s)"

definition deleteGitHubWebhookSecret :: "'w tool_deps \<Rightarrow> string \<Rightarrow> 'w tool_state step" where
  "deleteGitHubWebhookSecret d namespace = delete_tolerant d (hook_secret_ref namespace)"

definition deleteGitHubK8sResources :: "'w tool_deps \<Rightarrow> string \<Rightarrow> string \<Rightarrow> 'w tool_state step" where
  "deleteGitHubK8sResources d namespace repoName =
     join_all [deleteGitHubRepositoryCR d namespace repoName, deleteGitHubWebhookSecret d namespace]"

section \<open>The repository on GitHub\<close>

definition repo_condition :: "'w tool_deps \<Rightarrow> string \<Rightarrow> string \<Rightarrow> ('w tool_state, kerror) cond" where
  "repo_condition d owner repo s =
     (case hub_call d ''GetRepository'' [owner, repo] s of
        (Inr _, s1) \<Rightarrow> ((True, None), s1)
      | (Inl e, s1) \<Rightarrow> if he_status e = Some 404 then ((False, None), s1) else ((False, Some (hub_kerror e)), s1))"

text \<open>The loops on a deadline of 60 seconds look at once and then every two seconds.\<close>

definition waitForGitHubRepoReady :: "'w tool_deps \<Rightarrow> string \<Rightarrow> string \<Rightarrow> 'w tool_state step" where
  "waitForGitHubRepoReady d owner repo s =
     (case w_poll d 2 60 True (repo_condition d owner repo) s of
        (None, s1) \<Rightarrow> (None, s1)
      | (Some (CondError e), s1) \<Rightarrow> (Some e, s1)
      | (Some PollTimeout, s1) \<Rightarrow>
          (Some (KMsg (''timed out waiting for github repo '' @ owner @ ''/'' @ repo @ '' to be ready'')), s1))"

definition hub_plain :: "'w tool_deps \<Rightarrow> string \<Rightarrow> string list \<Rightarrow> 'w tool_state step" where
  "hub_plain d op args s =
     (case hub_call d op args s of (Inl e, s1) \<Rightarrow> (Some (hub_kerror e), s1) | (Inr _, s1) \<Rightarrow> (None, s1))"

definition ensureDefaultBranchMain :: "'w tool_deps \<Rightarrow> string \<Rightarrow> string \<Rightarrow> string \<Rightarrow> 'w tool_state step" where
  "ensureDefaultBranchMain d owner repo defaultBranch s =
     (if defaultBranch = [] \<or> defaultBranch = ''main'' then (None, s)
      else hub_plain d ''RenameBranch'' [owner, repo, defaultBranch, ''main''] s)"

definition addGitHubWebhook :: "'w tool_deps \<Rightarrow> string \<Rightarrow> string \<Rightarrow> string \<Rightarrow> string \<Rightarrow> 'w tool_state step" where
  "addGitHubWebhook d owner repo smeeURL webhookSecret =
     hub_plain d ''CreateHook'' [owner, repo, smeeURL, ''json'', webhookSecret, ''0'',
       ''commit_comment'', ''issue_comment'', ''pull_request'', ''push'']"

text \<open>A Git object is read or made and its SHA used, which must not be empty.\<close>

definition hub_sha :: "'w tool_deps \<Rightarrow> string \<Rightarrow> string list \<Rightarrow> string \<Rightarrow> string \<Rightarrow> 'w tool_state \<Rightarrow>
    (kerror + string) \<times> 'w tool_state" where
  "hub_sha d op args key noSHA s =
     (case hub_call d op args s of
        (Inl e, s1) \<Rightarrow> (Inl (hub_kerror e), s1)
      | (Inr a, s1) \<Rightarrow> (if field key a = [] \<and> noSHA \<noteq> [] then Inl (KMsg noSHA) else Inr (field key a), s1))"

definition bind :: "('s \<Rightarrow> ('e + 'a) \<times> 's) \<Rightarrow> ('a \<Rightarrow> 's \<Rightarrow> ('e option) \<times> 's) \<Rightarrow> 's \<Rightarrow> ('e option) \<times> 's" where
  "bind m f s = (case m s of (Inl e, s1) \<Rightarrow> (Some e, s1) | (Inr a, s1) \<Rightarrow> f a s1)"

definition tree_args :: "(string \<times> string) list \<Rightarrow> string list" where
  "tree_args files = concat (map (\<lambda>(path, content). [path, ''100644'', ''blob'', content]) files)"

definition createBranchWithGitHub ::
    "'w tool_deps \<Rightarrow> string \<Rightarrow> string \<Rightarrow> string \<Rightarrow> string \<Rightarrow> string \<Rightarrow> (string \<times> string) list \<Rightarrow> 'w tool_state step" where
  "createBranchWithGitHub d owner repo baseBranch newBranch message files =
     bind (hub_sha d ''GetRef'' [owner, repo, ''refs/heads/'' @ baseBranch] ''SHA''
             (''base branch '' @ quoted baseBranch @ '' has empty SHA'')) (\<lambda>baseCommit.
     bind (hub_sha d ''GetCommit'' [owner, repo, baseCommit] ''TreeSHA''
             (''base commit '' @ baseCommit @ '' has empty tree SHA'')) (\<lambda>baseTree.
     bind (hub_sha d ''CreateTree'' ([owner, repo, baseTree] @ tree_args files) ''SHA'' []) (\<lambda>newTree.
     bind (hub_sha d ''CreateCommit'' [owner, repo, message, newTree, baseCommit] ''SHA''
             ''created commit has empty SHA'') (\<lambda>newCommit.
     hub_plain d ''CreateRef'' [owner, repo, ''refs/heads/'' @ newBranch, newCommit]))))"

section \<open>Setting up, with rollback\<close>

text \<open>
  What the deferred function sees: whether the Repository resource was created, the rollback of the
  Secret when there is one, and the owner and name of the repository. Its errors are only logged.
\<close>

record undo =
  un_repositoryCreated :: bool
  un_secret :: "secret_rollback option"
  un_owner :: string
  un_repo :: string

definition rollback :: "'w tool_deps \<Rightarrow> string \<Rightarrow> undo \<Rightarrow> 'w tool_state \<Rightarrow> 'w tool_state" where
  "rollback d namespace u s =
     (let s1 = (if un_repositoryCreated u then snd (deleteGitHubRepositoryCR d namespace (un_repo u) s) else s);
          s2 = (case un_secret u of None \<Rightarrow> s1 | Some rb \<Rightarrow> snd (secretRollback d namespace rb s1))
      in if un_owner u \<noteq> [] then snd (hub_call d ''DeleteRepository'' [un_owner u, un_repo u] s2) else s2)"

type_synonym 'w setup_result = "(kerror + string \<times> string) \<times> 'w tool_state"

definition abandon :: "'w tool_deps \<Rightarrow> string \<Rightarrow> undo \<Rightarrow> kerror \<Rightarrow> 'w tool_state \<Rightarrow> 'w setup_result" where
  "abandon d namespace u e s = (Inl e, rollback d namespace u s)"

text \<open>The steps after the owner is known.\<close>

definition connect_repository ::
    "'w tool_deps \<Rightarrow> string \<Rightarrow> string \<Rightarrow> string \<Rightarrow> string \<Rightarrow> string \<Rightarrow> string \<Rightarrow> undo \<Rightarrow> 'w tool_state \<Rightarrow> 'w setup_result" where
  "connect_repository d namespace smeeURL owner repoName repoURL webhookSecret u s =
     (case ensureWebhookSecret d namespace (v_getenv s ''PAC_GITHUB_TOKEN'') webhookSecret s of
        (Inl e, s1) \<Rightarrow> abandon d namespace u (KContext ''failed to ensure github webhook secret'' e) s1
      | (Inr rb, s1) \<Rightarrow>
          let u1 = u\<lparr>un_secret := Some rb\<rparr> in
          (case createGitHubRepositoryCR d (sanitizeGitHubK8sName repoName) repoURL namespace s1 of
             (Some e, s2) \<Rightarrow> abandon d namespace u1 (KContext ''failed to create PAC Repository CR'' e) s2
           | (None, s2) \<Rightarrow>
               let u2 = u1\<lparr>un_repositoryCreated := True\<rparr> in
               (case addGitHubWebhook d owner repoName smeeURL webhookSecret s2 of
                  (Some e, s3) \<Rightarrow> abandon d namespace u2 (KContext ''failed to add github webhook'' e) s3
                | (None, s3) \<Rightarrow> (Inr (owner, repoName), s3\<lparr>v_projectURL := repoURL\<rparr>))))"

definition prepare_repository ::
    "'w tool_deps \<Rightarrow> string \<Rightarrow> string \<Rightarrow> string \<Rightarrow> string \<Rightarrow> hub_answer list \<Rightarrow> string \<Rightarrow> undo \<Rightarrow> 'w tool_state \<Rightarrow> 'w setup_result" where
  "prepare_repository d namespace smeeURL owner repoName created webhookSecret u s =
     (case waitForGitHubRepoReady d owner repoName s of
        (Some e, s1) \<Rightarrow> abandon d namespace u e s1
      | (None, s1) \<Rightarrow>
          (case ensureDefaultBranchMain d owner repoName (field ''DefaultBranch'' created) s1 of
             (Some e, s2) \<Rightarrow> abandon d namespace u (KContext ''failed to rename default branch to main'' e) s2
           | (None, s2) \<Rightarrow>
               let repoURL = (if field ''HTMLURL'' created \<noteq> [] then field ''HTMLURL'' created
                 else ''https://github.com/'' @ owner @ ''/'' @ repoName) in
               connect_repository d namespace smeeURL owner repoName repoURL webhookSecret u s2))"

text \<open>The owner: the organisation, the one in the answer, or the user of the token.\<close>

definition own_repository ::
    "'w tool_deps \<Rightarrow> string \<Rightarrow> string \<Rightarrow> string \<Rightarrow> string \<Rightarrow> hub_answer list \<Rightarrow> string \<Rightarrow> 'w tool_state \<Rightarrow> 'w setup_result" where
  "own_repository d namespace smeeURL org repoName created webhookSecret s =
     (let u = \<lparr>un_repositoryCreated = False, un_secret = None,
            un_owner = (if org = [] then field ''OwnerLogin'' created else org), un_repo = repoName\<rparr> in
      if org \<noteq> [] then prepare_repository d namespace smeeURL org repoName created webhookSecret u s
      else if (case created of [] \<Rightarrow> None | a # _ \<Rightarrow> map_of a ''OwnerLogin'') \<noteq> None
      then prepare_repository d namespace smeeURL (field ''OwnerLogin'' created) repoName created webhookSecret u s
      else
        (case hub_call d ''GetUser'' [] s of
           (Inl e, s1) \<Rightarrow> abandon d namespace u (KContext ''failed to determine github username'' (hub_kerror e)) s1
         | (Inr usr, s1) \<Rightarrow>
             prepare_repository d namespace smeeURL (field ''Login'' usr) repoName created webhookSecret
               (u\<lparr>un_owner := field ''Login'' usr\<rparr>) s1))"

definition webhook_secret :: "'w tool_deps \<Rightarrow> 'w tool_state \<Rightarrow> (kerror + string) \<times> 'w tool_state" where
  "webhook_secret d s =
     (if v_getenv s ''PAC_GITHUB_WEBHOOK_TOKEN'' \<noteq> [] then (Inr (v_getenv s ''PAC_GITHUB_WEBHOOK_TOKEN''), s)
      else
        (case w_random d (v_stamps s) of
           None \<Rightarrow> (Inl (KMsg ''failed generating github webhook secret''), s)
         | Some sec \<Rightarrow> (Inr sec, s\<lparr>v_stamps := Suc (v_stamps s)\<rparr>)))"

definition SetupGitHubProject :: "'w tool_deps \<Rightarrow> string \<Rightarrow> string \<Rightarrow> 'w tool_state \<Rightarrow> 'w setup_result" where
  "SetupGitHubProject d namespace smeeURL s =
     (if \<not> v_ghClient s
      then (Inl (KMsg ''github client not initialized; call InitGitHubClient/SetGitHubClient first''), s)
      else
        (case webhook_secret d s of
           (Inl e, s1) \<Rightarrow> (Inl e, s1)
         | (Inr webhookSecret, s1) \<Rightarrow>
             (case stamp d s1 of
                (t, s2) \<Rightarrow>
                  let org = v_getenv s ''PAC_GITHUB_ORG''; repoName = ''release-tests-pac-'' @ t in
                  (case hub_call d ''CreateRepository'' [org, repoName, ''public''] s2 of
                     (Inl e, s3) \<Rightarrow> (Inl (KContext ''failed to create github repository'' (hub_kerror e)), s3)
                   | (Inr created, s3) \<Rightarrow>
                       own_repository d namespace smeeURL org repoName created webhookSecret s3))))"

end
