(* ===== verification/PacGitHubRuns.thy ===== *)
theory PacGitHubRuns
  imports PacGitHub
begin

text \<open>
  \<open>pkg/pac/pac-github.go\<close>, second part: pull requests, new PipelineRuns and the cleanup.
\<close>

section \<open>Pull requests\<close>

definition mergeable_condition :: "'w tool_deps \<Rightarrow> string \<Rightarrow> string \<Rightarrow> int \<Rightarrow> ('w tool_state, kerror) cond" where
  "mergeable_condition d owner repo number s =
     (case hub_call d ''GetPullRequest'' [owner, repo, show_int number] s of
        (Inl e, s1) \<Rightarrow> ((False, Some (hub_kerror e)), s1)
      | (Inr pr, s1) \<Rightarrow> ((field ''Mergeable'' pr = ''true'', None), s1))"

definition waitForPRMergeable :: "'w tool_deps \<Rightarrow> string \<Rightarrow> string \<Rightarrow> int \<Rightarrow> 'w tool_state step" where
  "waitForPRMergeable d owner repo number s =
     (case w_poll d 2 60 True (mergeable_condition d owner repo number) s of
        (None, s1) \<Rightarrow> (None, s1)
      | (Some (CondError e), s1) \<Rightarrow> (Some e, s1)
      | (Some PollTimeout, s1) \<Rightarrow>
          (Some (KMsg (''timed out waiting for PR #'' @ show_int number @ '' to become mergeable'')), s1))"

text \<open>The number of the pull request is a field of the answer, read as a decimal.\<close>

definition number_of :: "hub_answer list \<Rightarrow> int" where
  "number_of pr = (case atoi (field ''Number'' pr) of None \<Rightarrow> 0 | Some n \<Rightarrow> n)"

definition ConfigurePreviewChangesGitHub :: "'w tool_deps \<Rightarrow> string \<Rightarrow> string \<Rightarrow> 'w tool_state \<Rightarrow>
    (kerror + string \<times> int) \<times> 'w tool_state" where
  "ConfigurePreviewChangesGitHub d owner repo s =
     (case read_file (''read '' @ pullRequestFile d) (Clean (pullRequestFile d)) s of
        Inl e \<Rightarrow> (Inl e, s)
      | Inr prData \<Rightarrow>
          (case stamp d s of
             (t, s1) \<Rightarrow>
               let branchName = ''preview-'' @ t;
                   files = (pr_path, prData) #
                     (case v_files s (Clean (pushFile d)) of None \<Rightarrow> [] | Some pushData \<Rightarrow> [(push_path, pushData)]) in
               (case createBranchWithGitHub d owner repo ''main'' branchName
                       ''ci(pac): add pipelines-as-code definitions'' files s1 of
                  (Some e, s2) \<Rightarrow> (Inl (KContext (''failed to create branch '' @ quoted branchName) e), s2)
                | (None, s2) \<Rightarrow>
                    (case hub_call d ''CreatePullRequest''
                            [owner, repo, ''Add preview changes for feature'', owner @ '':'' @ branchName, ''main''] s2 of
                       (Inl e, s3) \<Rightarrow> (Inl (KContext ''failed to create PR'' (hub_kerror e)), s3)
                     | (Inr pr, s3) \<Rightarrow> (Inr (field ''HTMLURL'' pr, number_of pr), s3)))))"

definition TriggerPushOnGitHubMain :: "'w tool_deps \<Rightarrow> string \<Rightarrow> string \<Rightarrow> int \<Rightarrow> 'w tool_state step" where
  "TriggerPushOnGitHubMain d owner repo prNum =
     seq (waitForPRMergeable d owner repo prNum)
         (hub_do d (''failed to merge PR #'' @ show_int prNum) ''MergePullRequest'' [owner, repo, show_int prNum, ''squash''])"

section \<open>New PipelineRuns\<close>

definition new_name_condition :: "'w tool_deps \<Rightarrow> string \<Rightarrow> string \<Rightarrow> ('w tool_state, kerror) cond" where
  "new_name_condition d namespace previousName s =
     (case GetLatestPipelinerun d namespace s of
        (Inl e, s1) \<Rightarrow> ((False, None), s1)
      | (Inr name, s1) \<Rightarrow>
          if previousName = [] \<or> name \<noteq> previousName then ((True, None), s1\<lparr>v_name := name\<rparr>) else ((False, None), s1))"

definition wait_name :: "'w tool_deps \<Rightarrow> ('w tool_state, kerror) cond \<Rightarrow> string \<Rightarrow> 'w tool_state \<Rightarrow>
    (kerror + string) \<times> 'w tool_state" where
  "wait_name d f timedOut s =
     (case w_poll d 5 600 True f (s\<lparr>v_name := []\<rparr>) of
        (None, s1) \<Rightarrow> (Inr (v_name s1), s1)
      | (Some _, s1) \<Rightarrow> (Inl (KMsg timedOut), s1))"

definition WaitForNewPipelineRunName :: "'w tool_deps \<Rightarrow> string \<Rightarrow> string \<Rightarrow> 'w tool_state \<Rightarrow>
    (kerror + string) \<times> 'w tool_state" where
  "WaitForNewPipelineRunName d namespace previousName =
     wait_name d (new_name_condition d namespace previousName)
       (if previousName = []
        then ''timed out waiting for a PipelineRun to be created in namespace '' @ quoted namespace
        else ''timed out waiting for a new PipelineRun in namespace '' @ quoted namespace
          @ '' (previous='' @ quoted previousName @ '')'')"

definition pacEventTypeAnnotationKey :: string where
  "pacEventTypeAnnotationKey = ''pipelinesascode.tekton.dev/event-type''"

definition run_start :: "kube_body kobject \<Rightarrow> nat" where
  "run_start pr =
     (case ri_StartTime (run_of (o_body pr)) of Some t \<Rightarrow> t | None \<Rightarrow> ri_CreationTimestamp (run_of (o_body pr)))"

definition is_candidate :: "string \<Rightarrow> string \<Rightarrow> kube_body kobject \<Rightarrow> bool" where
  "is_candidate previousName eventType pr =
     (case ri_Annotations (run_of (o_body pr)) of
        None \<Rightarrow> False
      | Some anns \<Rightarrow>
          label_of anns pacEventTypeAnnotationKey = eventType
          \<and> \<not> (previousName \<noteq> [] \<and> ref_name (o_ref pr) = previousName))"

text \<open>One item of the loop: the best run so far.\<close>

definition better_run :: "string \<Rightarrow> string \<Rightarrow> kube_body kobject \<Rightarrow> kube_body kobject option \<Rightarrow> kube_body kobject option" where
  "better_run previousName eventType pr best =
     (if \<not> is_candidate previousName eventType pr then best
      else
        (case best of
           None \<Rightarrow> Some pr
         | Some b \<Rightarrow> if run_start b < run_start pr then Some pr else Some b))"

definition event_condition :: "'w tool_deps \<Rightarrow> string \<Rightarrow> string \<Rightarrow> ('w tool_state, kerror) cond" where
  "event_condition d previousName eventType s =
     (case k_list (w_server d) [] ''PipelineRun'' (w_namespace d) [] s of
        (Inl e, s1) \<Rightarrow> ((False, None), s1)
      | (Inr prs, s1) \<Rightarrow>
          (case fold (better_run previousName eventType) prs None of
             Some best \<Rightarrow> ((True, None), s1\<lparr>v_name := ref_name (o_ref best)\<rparr>)
           | None \<Rightarrow> ((False, None), s1)))"

definition WaitForNewPipelineRunNameByEventType ::
    "'w tool_deps \<Rightarrow> string \<Rightarrow> string \<Rightarrow> string \<Rightarrow> 'w tool_state \<Rightarrow> (kerror + string) \<times> 'w tool_state" where
  "WaitForNewPipelineRunNameByEventType d namespace previousName eventType =
     wait_name d (event_condition d previousName eventType)
       (''timed out waiting for a new PipelineRun with event-type='' @ quoted eventType @ '' in namespace ''
         @ quoted namespace @ '' (previous='' @ quoted previousName @ '')'')"

section \<open>Cleanup\<close>

definition delete_repository :: "'w tool_deps \<Rightarrow> string \<Rightarrow> string \<Rightarrow> 'w tool_state step" where
  "delete_repository d owner repo s =
     (if owner \<noteq> [] \<and> repo \<noteq> [] \<and> v_ghClient s
      then hub_do d (''failed to delete github repository '' @ owner @ ''/'' @ repo) ''DeleteRepository'' [owner, repo] s
      else (None, s))"

definition CleanupPACGitHub :: "'w tool_deps \<Rightarrow> string \<Rightarrow> string \<Rightarrow> string \<Rightarrow> string \<Rightarrow> 'w tool_state step" where
  "CleanupPACGitHub d namespace smeeDeploymentName owner repo s =
     join_all [deleteGitHubK8sResources d namespace repo, delete_repository d owner repo,
       wrap ''failed to delete smee deployment'' (DeleteDeployment d namespace smeeDeploymentName)] (remove_generated d s)"

end
