(* ===== verification/PacGitHubFacts.thy ===== *)
theory PacGitHubFacts
  imports PacGitHubRuns PipelineRunFacts
begin

text \<open>
  GitHub: a setup that fails takes back what it did to the cluster, the cleanup tries everything, the
  names made for the cluster are valid but for one flaw, and the waits return the latest run.
\<close>

section \<open>A cluster that nobody else changes\<close>

text \<open>
  \<open>look\<close> is the part of the world that holds the objects. The server stores what it accepts in its
  normal form (for a Secret, \<open>stringData\<close> is merged into the data) and leaves the objects alone when it
  refuses; reads and requests to GitHub change none.
\<close>

type_synonym store = "ref \<Rightarrow> kube_body kobject option"

definition quiet_server :: "('w, kube_body) server \<Rightarrow> ('w \<Rightarrow> store) \<Rightarrow> (kube_body kobject \<Rightarrow> kube_body kobject) \<Rightarrow> bool" where
  "quiet_server sv look norm \<longleftrightarrow>
     (\<forall>w r ob. look w r = Some ob \<longrightarrow> norm ob = ob \<and> o_ref ob = r)
     \<and> (\<forall>w r res w'. sv_get sv r w = (res, w') \<longrightarrow> look w' = look w \<and>
          (case res of Inr ob \<Rightarrow> look w r = Some ob | Inl e \<Rightarrow> e = NotFound \<longrightarrow> look w r = None))
     \<and> (\<forall>w ob res w'. sv_create sv ob w = (res, w') \<longrightarrow>
          (case res of Inr _ \<Rightarrow> look w (o_ref ob) = None \<and> look w' = (look w)(o_ref ob \<mapsto> norm ob) | Inl _ \<Rightarrow> look w' = look w))
     \<and> (\<forall>w ob res w'. sv_update sv ob w = (res, w') \<longrightarrow>
          (case res of Inr _ \<Rightarrow> look w' = (look w)(o_ref ob \<mapsto> norm ob) | Inl _ \<Rightarrow> look w' = look w))
     \<and> (\<forall>w r err w'. sv_delete sv r w = (err, w') \<longrightarrow>
          (case err of None \<Rightarrow> look w' = (look w)(r := None)
           | Some e \<Rightarrow> look w' = look w \<and> (e = NotFound \<longrightarrow> look w r = None)))"

definition quiet_hub :: "'w tool_deps \<Rightarrow> ('w \<Rightarrow> store) \<Rightarrow> bool" where
  "quiet_hub d look \<longleftrightarrow> (\<forall>q w r w'. w_hub d q w = (r, w') \<longrightarrow> look w' = look w)"

text \<open>The requests that a rollback makes are not refused: reads, deletes, and writing an original back.\<close>

definition accepts_undo :: "('w, kube_body) server \<Rightarrow> store \<Rightarrow> bool" where
  "accepts_undo sv L \<longleftrightarrow>
     (\<forall>w r. fst (sv_delete sv r w) \<in> {None, Some NotFound})
     \<and> (\<forall>w r e. fst (sv_get sv r w) = Inl e \<longrightarrow> e = NotFound)
     \<and> (\<forall>w ob. L (o_ref ob) = Some ob \<longrightarrow> \<not> isl (fst (sv_update sv ob w)))"

definition objects :: "('w \<Rightarrow> store) \<Rightarrow> 'w tool_state \<Rightarrow> store" where
  "objects look s = look (io_world s)"

lemma objects_upd [simp]:
  "objects look (s\<lparr>v_projectURL := u\<rparr>) = objects look s" "objects look (s\<lparr>v_stamps := n\<rparr>) = objects look s"
  by (simp_all add: objects_def)

lemma quiet_normal: "quiet_server sv look norm \<Longrightarrow> objects look s r = Some ob \<Longrightarrow> norm ob = ob \<and> o_ref ob = r"
  by (auto simp: quiet_server_def objects_def)

lemma quiet_get:
  assumes "quiet_server sv look norm" "k_get sv r s = (res, s')"
  shows "objects look s' = objects look s"
    and "res = Inr ob \<Longrightarrow> objects look s r = Some ob" and "res = Inl NotFound \<Longrightarrow> objects look s r = None"
proof -
  obtain w' where q: "sv_get sv r (io_world s) = (res, w')" and s: "io_world s' = w'"
    using assms(2) by (auto simp: k_get_def split: prod.splits)
  with assms(1) have "look w' = look (io_world s) \<and>
      (case res of Inr ob \<Rightarrow> look (io_world s) r = Some ob | Inl e \<Rightarrow> e = NotFound \<longrightarrow> look (io_world s) r = None)"
    unfolding quiet_server_def by blast
  with s show "objects look s' = objects look s"
    and "res = Inr ob \<Longrightarrow> objects look s r = Some ob" and "res = Inl NotFound \<Longrightarrow> objects look s r = None"
    by (auto simp: objects_def)
qed

lemma quiet_create:
  assumes "quiet_server sv look norm" "k_create sv ob s = (res, s')"
  shows "case res of Inr _ \<Rightarrow> objects look s (o_ref ob) = None \<and> objects look s' = (objects look s)(o_ref ob \<mapsto> norm ob)
    | Inl _ \<Rightarrow> objects look s' = objects look s"
proof -
  obtain w' where "sv_create sv ob (io_world s) = (res, w')" and "io_world s' = w'"
    using assms(2) by (auto simp: k_create_def split: prod.splits)
  with assms(1) show ?thesis unfolding quiet_server_def objects_def by blast
qed

lemma quiet_update:
  assumes "quiet_server sv look norm" "k_update sv ob s = (res, s')"
  shows "case res of Inr _ \<Rightarrow> objects look s' = (objects look s)(o_ref ob \<mapsto> norm ob) | Inl _ \<Rightarrow> objects look s' = objects look s"
proof -
  obtain w' where "sv_update sv ob (io_world s) = (res, w')" and "io_world s' = w'"
    using assms(2) by (auto simp: k_update_def split: prod.splits)
  with assms(1) show ?thesis unfolding quiet_server_def objects_def by blast
qed

lemma quiet_delete:
  assumes "quiet_server sv look norm" "k_delete sv r s = (err, s')"
  shows "case err of None \<Rightarrow> objects look s' = (objects look s)(r := None)
    | Some e \<Rightarrow> objects look s' = objects look s \<and> (e = NotFound \<longrightarrow> objects look s r = None)"
proof -
  obtain w' where "sv_delete sv r (io_world s) = (err, w')" and "io_world s' = w'"
    using assms(2) by (auto simp: k_delete_def split: prod.splits)
  with assms(1) show ?thesis unfolding quiet_server_def objects_def by blast
qed

lemma quiet_hub_call: "quiet_hub d look \<Longrightarrow> hub_call d op args s = (r, s') \<Longrightarrow> objects look s' = objects look s"
  by (auto simp: hub_call_def quiet_hub_def objects_def split: prod.splits)

section \<open>A failed setup is undone\<close>

text \<open>
  What the steps recorded in \<open>u\<close> made of the objects \<open>L\<close> there were at the start: the Secret may have
  any new value, which its rollback can take back, and the Repository resource is new.
\<close>

definition undo_state :: "('w \<Rightarrow> store) \<Rightarrow> string \<Rightarrow> store \<Rightarrow> undo \<Rightarrow> 'w tool_state \<Rightarrow> bool" where
  "undo_state look ns L u t \<longleftrightarrow>
     un_repo u \<noteq> []
     \<and> (\<exists>x y. objects look t =
          (let L1 = (case un_secret u of None \<Rightarrow> L | Some _ \<Rightarrow> L(hook_secret_ref ns \<mapsto> x)) in
           if un_repositoryCreated u then L1(repository_ref ns (sanitizeGitHubK8sName (un_repo u)) \<mapsto> y) else L1))
     \<and> (un_repositoryCreated u \<longrightarrow> L (repository_ref ns (sanitizeGitHubK8sName (un_repo u))) = None)
     \<and> (case un_secret u of
          None \<Rightarrow> True
        | Some DeleteSecret \<Rightarrow> L (hook_secret_ref ns) = None
        | Some (RestoreSecret ob) \<Rightarrow> L (hook_secret_ref ns) = Some ob)"

lemma refs_differ [simp]: "repository_ref ns name \<noteq> hook_secret_ref ns'" "hook_secret_ref ns' \<noteq> repository_ref ns name"
  by (simp_all add: repository_ref_def hook_secret_ref_def)

lemma accepts_undoD:
  assumes "accepts_undo sv L"
  shows "fst (sv_delete sv r w) \<in> {None, Some NotFound}"
    and "fst (sv_get sv r w) = Inl e \<Longrightarrow> e = NotFound"
    and "L (o_ref ob) = Some ob \<Longrightarrow> \<not> isl (fst (sv_update sv ob w))"
  using assms by (simp_all add: accepts_undo_def)

lemma delete_tolerant_quiet:
  assumes "quiet_server (w_server d) look norm" "accepts_undo (w_server d) L" "delete_tolerant d r s = (e, s')"
  shows "objects look s' = (objects look s)(r := None)"
proof -
  obtain err where k: "k_delete (w_server d) r s = (err, s')"
    using assms(3) by (auto simp: delete_tolerant_def split: prod.splits option.splits)
  then have "err = fst (sv_delete (w_server d) r (io_world s))" by (auto simp: k_delete_def split: prod.splits)
  with accepts_undoD(1) [OF assms(2)] have "err \<in> {None, Some NotFound}" by simp
  with quiet_delete [OF assms(1) k] show ?thesis by (auto simp: fun_upd_idem)
qed

lemma secretRollback_quiet:
  assumes q: "quiet_server (w_server d) look norm" and a: "accepts_undo (w_server d) L"
    and s: "objects look s = L(hook_secret_ref ns \<mapsto> x)" and r: "secretRollback d ns rb s = (e, s')"
    and ok: "case rb of DeleteSecret \<Rightarrow> L (hook_secret_ref ns) = None | RestoreSecret ob \<Rightarrow> L (hook_secret_ref ns) = Some ob"
    and n: "\<And>ob. L (hook_secret_ref ns) = Some ob \<Longrightarrow> norm ob = ob \<and> o_ref ob = hook_secret_ref ns"
  shows "objects look s' = L"
proof (cases rb)
  case DeleteSecret
  with r have "delete_tolerant d (hook_secret_ref ns) s = (e, s')" by (simp add: secretRollback_def delete_tolerant_def)
  from delete_tolerant_quiet [OF q a this] s DeleteSecret ok show ?thesis by (simp add: fun_upd_idem)
next
  case (RestoreSecret ob)
  with ok n have ob: "L (hook_secret_ref ns) = Some ob" "norm ob = ob" "o_ref ob = hook_secret_ref ns" by auto
  obtain res s1 where g: "k_get (w_server d) (hook_secret_ref ns) s = (res, s1)" by (metis surj_pair)
  from quiet_get(1) [OF q g] s have s1: "objects look s1 = L(hook_secret_ref ns \<mapsto> x)" by simp
  have "res = fst (sv_get (w_server d) (hook_secret_ref ns) (io_world s))" using g by (auto simp: k_get_def split: prod.splits)
  then have "res \<noteq> Inl e" for e
    using accepts_undoD(2) [OF a, of _ _ e] quiet_get(3) [OF q g] s by fastforce
  then obtain current where "res = Inr current" by (cases res) auto
  with r g RestoreSecret obtain upd where u: "k_update (w_server d) ob s1 = (upd, s')"
    by (auto simp: secretRollback_def split: prod.splits sum.splits)
  then have "upd = fst (sv_update (w_server d) ob (io_world s1))" by (auto simp: k_update_def split: prod.splits)
  with accepts_undoD(3) [OF a] ob have "\<not> isl upd" by simp
  with quiet_update [OF q u] ob s1 show ?thesis by (auto simp: fun_upd_idem split: sum.splits)
qed

lemma rollback_quiet:
  assumes q: "quiet_server (w_server d) look norm" and h: "quiet_hub d look" and a: "accepts_undo (w_server d) L"
    and u: "undo_state look ns L u t"
    and n: "\<And>ob. L (hook_secret_ref ns) = Some ob \<Longrightarrow> norm ob = ob \<and> o_ref ob = hook_secret_ref ns"
  shows "objects look (rollback d ns u t) = L"
proof -
  let ?R = "repository_ref ns (sanitizeGitHubK8sName (un_repo u))"
  define s1 where "s1 = (if un_repositoryCreated u then snd (deleteGitHubRepositoryCR d ns (un_repo u) t) else t)"
  define s2 where "s2 = (case un_secret u of None \<Rightarrow> s1 | Some rb \<Rightarrow> snd (secretRollback d ns rb s1))"
  obtain x where s1: "objects look s1 = (case un_secret u of None \<Rightarrow> L | Some _ \<Rightarrow> L(hook_secret_ref ns \<mapsto> x))"
  proof (cases "un_repositoryCreated u")
    case True
    then have "objects look s1 = (objects look t)(?R := None)"
      using delete_tolerant_quiet [OF q a, of ?R t] u
      by (simp add: s1_def deleteGitHubRepositoryCR_def undo_state_def) (metis prod.collapse)
    with True u that show ?thesis
      by (auto simp: undo_state_def Let_def fun_upd_idem fun_upd_twist split: option.splits)
  next
    case False
    with u that show ?thesis by (auto simp: undo_state_def s1_def)
  qed
  have "objects look s2 = L"
  proof (cases "un_secret u")
    case None
    with s1 show ?thesis by (simp add: s2_def)
  next
    case (Some rb)
    with u have "case rb of DeleteSecret \<Rightarrow> L (hook_secret_ref ns) = None | RestoreSecret ob \<Rightarrow> L (hook_secret_ref ns) = Some ob"
      by (auto simp: undo_state_def split: secret_rollback.splits)
    from secretRollback_quiet [OF q a _ _ this n] s1 Some show ?thesis
      by (simp add: s2_def) (metis prod.collapse)
  qed
  moreover have "rollback d ns u t = (if un_owner u \<noteq> [] then snd (hub_call d ''DeleteRepository'' [un_owner u, un_repo u] s2) else s2)"
    unfolding rollback_def Let_def s2_def s1_def by (rule refl)
  ultimately show ?thesis using quiet_hub_call [OF h] by (auto simp: prod_eq_iff)
qed

lemma ensureWebhookSecret_quiet:
  assumes q: "quiet_server (w_server d) look norm" and e: "ensureWebhookSecret d ns token sec s = (r, s')"
  shows "case r of Inl _ \<Rightarrow> objects look s' = objects look s
    | Inr rb \<Rightarrow> (\<exists>x. objects look s' = (objects look s)(hook_secret_ref ns \<mapsto> x)) \<and>
        (case rb of DeleteSecret \<Rightarrow> objects look s (hook_secret_ref ns) = None
         | RestoreSecret ob \<Rightarrow> objects look s (hook_secret_ref ns) = Some ob)"
proof -
  obtain res s1 where g: "k_get (w_server d) (hook_secret_ref ns) s = (res, s1)" by (metis surj_pair)
  have s1: "objects look s1 = objects look s" by (rule quiet_get(1) [OF q g])
  show ?thesis
  proof (cases res)
    case (Inr ob)
    then have "objects look s (hook_secret_ref ns) = Some ob" using quiet_get(2) [OF q g] by blast
    moreover from quiet_normal [OF q this] have "o_ref ob = hook_secret_ref ns" by simp
    moreover obtain u s2 where "k_update (w_server d) (update_secret (wanted_data token sec) ob) s1 = (u, s2)"
      by (metis surj_pair)
    moreover note quiet_update [OF q this]
    ultimately show ?thesis using e g Inr s1
      by (auto simp: ensureWebhookSecret_def update_secret_def split: sum.splits)
  next
    case (Inl err)
    let ?new = "\<lparr>o_ref = hook_secret_ref ns, o_labels = Map.empty, o_uid = [], o_body = HookSecret [] (wanted_data token sec)\<rparr>"
    obtain c s2 where c: "k_create (w_server d) ?new s1 = (c, s2)" by (metis surj_pair)
    from quiet_create [OF q this] e g Inl s1 c show ?thesis
      by (auto simp: ensureWebhookSecret_def split: sum.splits if_splits)
  qed
qed

lemma createGitHubRepositoryCR_quiet:
  assumes q: "quiet_server (w_server d) look norm" and e: "createGitHubRepositoryCR d name url ns s = (r, s')"
  shows "case r of Some _ \<Rightarrow> objects look s' = objects look s
    | None \<Rightarrow> objects look s (repository_ref ns name) = None \<and>
        (\<exists>y. objects look s' = (objects look s)(repository_ref ns name \<mapsto> y))"
proof -
  obtain c s1 where c: "k_create (w_server d) (github_repository name url ns) s = (c, s1)" by (metis surj_pair)
  from quiet_create [OF q this] e c show ?thesis
    by (auto simp: createGitHubRepositoryCR_def github_repository_def split: sum.splits)
qed

text \<open>
  The outcome of a failed setup: the objects are those of the start, and the last request to GitHub
  deleted the repository.
\<close>

definition taken_back :: "('w \<Rightarrow> store) \<Rightarrow> store \<Rightarrow> string \<Rightarrow> string \<Rightarrow> 'w tool_state \<Rightarrow> bool" where
  "taken_back look L owner repo s' \<longleftrightarrow> objects look s' = L
     \<and> (owner \<noteq> [] \<longrightarrow> (\<exists>r hub. v_hub s' = ((''DeleteRepository'', [owner, repo]), r) # hub))"

definition undoable :: "'w tool_deps \<Rightarrow> ('w \<Rightarrow> store) \<Rightarrow> (kube_body kobject \<Rightarrow> kube_body kobject) \<Rightarrow> store \<Rightarrow> bool" where
  "undoable d look norm L \<longleftrightarrow> quiet_server (w_server d) look norm \<and> quiet_hub d look \<and> accepts_undo (w_server d) L
     \<and> (\<forall>r ob. L r = Some ob \<longrightarrow> norm ob = ob \<and> o_ref ob = r)"

lemma abandon_taken_back:
  assumes c: "undoable d look norm L" and u: "undo_state look ns L u t" and o: "org \<noteq> [] \<longrightarrow> un_owner u = org"
    and r: "abandon d ns u e t = (Inl e', s')"
  shows "taken_back look L org (un_repo u) s'"
proof -
  from r have s: "s' = rollback d ns u t" by (simp add: abandon_def)
  from c have "objects look s' = L" unfolding s undoable_def by (intro rollback_quiet [OF _ _ _ u, where norm = norm]) auto
  moreover have "\<exists>r hub. v_hub s' = ((''DeleteRepository'', [org, un_repo u]), r) # hub" if "org \<noteq> []"
    using that o by (auto simp: s rollback_def Let_def hub_call_def split: prod.splits option.splits)
  ultimately show ?thesis by (simp add: taken_back_def)
qed

lemma connect_taken_back:
  assumes c: "undoable d look norm L" and o: "org \<noteq> [] \<longrightarrow> un_owner u = org" and s: "objects look s = L"
    and u: "un_secret u = None" "\<not> un_repositoryCreated u" "un_repo u = repoName" "repoName \<noteq> []"
    and r: "connect_repository d ns url owner repoName repoURL sec u s = (Inl e, s')"
  shows "taken_back look L org repoName s'"
proof -
  from c have q: "quiet_server (w_server d) look norm" and h: "quiet_hub d look" by (simp_all add: undoable_def)
  obtain res s1 where w: "ensureWebhookSecret d ns (v_getenv s ''PAC_GITHUB_TOKEN'') sec s = (res, s1)" by (metis surj_pair)
  note w1 = ensureWebhookSecret_quiet [OF q w]
  note fails = abandon_taken_back [OF c, of ns _ _ org]
  show ?thesis
  proof (cases res)
    case (Inl err)
    with w1 s u have "undo_state look ns L u s1" by (simp add: undo_state_def)
    from fails [OF this o] r w Inl u show ?thesis by (simp add: connect_repository_def)
  next
    case (Inr rb)
    let ?u1 = "u\<lparr>un_secret := Some rb\<rparr>"
    obtain err s2 where k: "createGitHubRepositoryCR d (sanitizeGitHubK8sName repoName) repoURL ns s1 = (err, s2)"
      by (metis surj_pair)
    note k1 = createGitHubRepositoryCR_quiet [OF q k]
    show ?thesis
    proof (cases err)
      case (Some e2)
      with w1 k1 s u Inr have "undo_state look ns L ?u1 s2" by (auto simp: undo_state_def split: secret_rollback.splits)
      from fails [OF this] o r w k Inr Some u show ?thesis by (simp add: connect_repository_def Let_def)
    next
      case None
      obtain herr s3 where a: "addGitHubWebhook d owner repoName url sec s2 = (herr, s3)" by (metis surj_pair)
      then have s3: "objects look s3 = objects look s2"
        by (auto simp: addGitHubWebhook_def hub_plain_def dest: quiet_hub_call [OF h] split: prod.splits sum.splits)
      from w1 k1 s3 s u Inr None have "undo_state look ns L (?u1\<lparr>un_repositoryCreated := True\<rparr>) s3"
        by (auto simp: undo_state_def split: secret_rollback.splits; blast)
      from fails [OF this] o r w k a Inr None u show ?thesis
        by (auto simp: connect_repository_def Let_def split: option.splits)
    qed
  qed
qed

lemma repo_condition_quiet: "quiet_hub d look \<Longrightarrow> keeps (\<lambda>s. objects look s = L) (repo_condition d owner repo)"
  by (rule keepsI) (auto simp: repo_condition_def dest: quiet_hub_call split: prod.splits sum.splits if_splits)

lemma waitForGitHubRepoReady_quiet:
  assumes "quiet_hub d look" "poll_contract (w_poll d)" "waitForGitHubRepoReady d owner repo s = (r, s')"
  shows "objects look s' = objects look s"
proof -
  obtain e where "w_poll d 2 60 True (repo_condition d owner repo) s = (e, s')"
    using assms(3) by (auto simp: waitForGitHubRepoReady_def split: prod.splits option.splits poll_error.splits)
  from keeps_pollE [OF assms(2) this repo_condition_quiet [OF assms(1)]] show ?thesis by simp
qed

lemma prepare_taken_back:
  assumes c: "undoable d look norm L" and p: "poll_contract (w_poll d)"
    and o: "org \<noteq> [] \<longrightarrow> un_owner u = org" and s: "objects look s = L"
    and u: "un_secret u = None" "\<not> un_repositoryCreated u" "un_repo u = repoName" "repoName \<noteq> []"
    and r: "prepare_repository d ns url owner repoName created sec u s = (Inl e, s')"
  shows "taken_back look L org repoName s'"
proof -
  from c have h: "quiet_hub d look" by (simp add: undoable_def)
  obtain werr s1 where w: "waitForGitHubRepoReady d owner repoName s = (werr, s1)" by (metis surj_pair)
  have s1: "objects look s1 = L" using waitForGitHubRepoReady_quiet [OF h p w] s by simp
  obtain berr s2 where b: "ensureDefaultBranchMain d owner repoName (field ''DefaultBranch'' created) s1 = (berr, s2)"
    by (metis surj_pair)
  then have s2: "objects look s2 = L" using s1
    by (auto simp: ensureDefaultBranchMain_def hub_plain_def dest: quiet_hub_call [OF h] split: prod.splits sum.splits if_splits)
  have "undo_state look ns L u t" if "objects look t = L" for t using that u by (simp add: undo_state_def)
  note fails = abandon_taken_back [OF c this o]
  from r w b u(3) fails [OF s1] fails [OF s2] connect_taken_back [OF c o s2 u] show ?thesis
    by (auto simp: prepare_repository_def Let_def split: option.splits)
qed

lemma own_taken_back:
  assumes c: "undoable d look norm L" and p: "poll_contract (w_poll d)" and s: "objects look s = L" and u: "repoName \<noteq> []"
    and r: "own_repository d ns url org repoName created sec s = (Inl e, s')"
  shows "taken_back look L org repoName s'"
proof -
  from c have h: "quiet_hub d look" by (simp add: undoable_def)
  obtain res s1 where g: "hub_call d ''GetUser'' [] s = (res, s1)" by (metis surj_pair)
  have s1: "objects look s1 = L" using quiet_hub_call [OF h g] s by simp
  let ?u = "\<lambda>owner. \<lparr>un_repositoryCreated = False, un_secret = None, un_owner = owner, un_repo = repoName\<rparr>"
  have fail: "taken_back look L org repoName s'" if "abandon d ns (?u (field ''OwnerLogin'' created)) e0 s1 = (Inl e, s')"
      and "org = []" for e0
    using abandon_taken_back [OF c _ _ that(1), where org = org] s1 u that(2) by (simp add: undo_state_def)
  have go: "taken_back look L org repoName s'"
    if "prepare_repository d ns url owner repoName created sec (?u owner) t = (Inl e, s')"
      "objects look t = L" "org \<noteq> [] \<longrightarrow> owner = org" for owner t
    using prepare_taken_back [OF c p _ that(2) _ _ _ u that(1)] that(3) by simp
  show ?thesis
  proof (cases "org = []")
    case True
    show ?thesis
    proof (cases "(case created of [] \<Rightarrow> None | a # _ \<Rightarrow> map_of a ''OwnerLogin'') = None")
      case False
      with r True go [OF _ s] show ?thesis by (simp add: own_repository_def Let_def)
    next
      case none: True
      show ?thesis
      proof (cases res)
        case (Inl e0)
        with r True none g fail show ?thesis by (simp add: own_repository_def Let_def)
      next
        case (Inr usr)
        with r True none g go [OF _ s1] show ?thesis by (simp add: own_repository_def Let_def)
      qed
    qed
  next
    case False
    with r go [OF _ s] show ?thesis by (simp add: own_repository_def Let_def)
  qed
qed

text \<open>The name of the repository that a setup makes.\<close>

definition setup_name :: "'w tool_deps \<Rightarrow> 'w tool_state \<Rightarrow> string" where
  "setup_name d s = ''release-tests-pac-'' @ w_stamp d (v_stamps s + (if v_getenv s ''PAC_GITHUB_WEBHOOK_TOKEN'' = [] then 1 else 0))"

text \<open>
  a setup of a GitHub project that fails leaves the objects of the cluster as they were at its
  start, the webhook Secret and the Repository resource included, provided that nobody else changes
  them and that the requests of the rollback are accepted. When the repository was created under an
  organisation, the last request to GitHub deletes it.
\<close>

theorem failed_setup_undone:
  assumes "undoable d look norm (objects look s)" and "poll_contract (w_poll d)"
    and "SetupGitHubProject d ns url s = (Inl e, s')"
  shows "objects look s' = objects look s
    \<and> (v_getenv s ''PAC_GITHUB_ORG'' \<noteq> [] \<longrightarrow>
         v_hub s' = v_hub s
         \<or> (\<exists>q err. v_hub s' = ((''CreateRepository'', q), Inl err) # v_hub s)
         \<or> (\<exists>r hub. v_hub s' = ((''DeleteRepository'', [v_getenv s ''PAC_GITHUB_ORG'', setup_name d s]), r) # hub))"
proof (cases "v_ghClient s")
  case False
  with assms(3) show ?thesis by (simp add: SetupGitHubProject_def)
next
  case True
  obtain res s1 where w: "webhook_secret d s = (res, s1)" by (metis surj_pair)
  then have s1: "objects look s1 = objects look s" "v_hub s1 = v_hub s"
    by (auto simp: webhook_secret_def split: if_splits option.splits)
  show ?thesis
  proof (cases res)
    case (Inl e0)
    with assms(3) True w s1 show ?thesis by (simp add: SetupGitHubProject_def)
  next
    case (Inr sec)
    with w have stamps: "v_stamps s1 = v_stamps s + (if v_getenv s ''PAC_GITHUB_WEBHOOK_TOKEN'' = [] then 1 else 0)"
      by (auto simp: webhook_secret_def split: if_splits option.splits)
    then have nm: "setup_name d s = ''release-tests-pac-'' @ w_stamp d (v_stamps s1)" by (simp only: setup_name_def)
    let ?org = "v_getenv s ''PAC_GITHUB_ORG''"
    let ?s2 = "s1\<lparr>v_stamps := Suc (v_stamps s1)\<rparr>"
    obtain c s3 where h: "hub_call d ''CreateRepository'' [?org, setup_name d s, ''public''] ?s2 = (c, s3)" by (metis surj_pair)
    from assms(1) have "quiet_hub d look" by (simp add: undoable_def)
    from quiet_hub_call [OF this h] s1 have s3: "objects look s3 = objects look s" by simp
    from h s1 have hub: "v_hub s3 = ((''CreateRepository'', [?org, setup_name d s, ''public'']), c) # v_hub s"
      by (auto simp: hub_call_def split: prod.splits)
    have run: "(case c of Inl e0 \<Rightarrow> (Inl (KContext ''failed to create github repository'' (hub_kerror e0)), s3)
        | Inr created \<Rightarrow> own_repository d ns url ?org (setup_name d s) created sec s3) = (Inl e, s')"
      using assms(3) True w Inr h unfolding SetupGitHubProject_def nm by (cases c) (simp_all add: stamp_def Let_def)
    show ?thesis
    proof (cases c)
      case (Inl e0)
      with run s3 hub show ?thesis by simp
    next
      case (Inr created)
      with run own_taken_back [OF assms(1,2) s3, of "setup_name d s" ns url ?org created sec e s']
      show ?thesis by (simp add: taken_back_def setup_name_def)
    qed
  qed
qed

text \<open>A cluster with the Secret already there, and a service that refuses the webhook.\<close>

definition stored :: "kube_body kobject \<Rightarrow> kube_body kobject" where
  "stored ob = (case o_body ob of
     HookSecret dat stringData \<Rightarrow> ob\<lparr>o_body := HookSecret (fold (\<lambda>(k, v). AList.update k v) stringData dat) []\<rparr>
   | _ \<Rightarrow> ob)"

definition tidy :: "store \<Rightarrow> store" where
  "tidy w r = map_option (\<lambda>ob. (stored ob)\<lparr>o_ref := r\<rparr>) (w r)"

definition store_server :: "(store, kube_body) server" where
  "store_server = \<lparr>
     sv_get = \<lambda>r w. (case tidy w r of None \<Rightarrow> Inl NotFound | Some ob \<Rightarrow> Inr ob, w),
     sv_create = \<lambda>ob w. (if w (o_ref ob) = None then (Inr ob, w(o_ref ob \<mapsto> ob)) else (Inl AlreadyExists, w)),
     sv_update = \<lambda>ob w. (Inr ob, w(o_ref ob \<mapsto> ob)),
     sv_delete = \<lambda>r w. (if w r = None then (Some NotFound, w) else (None, w(r := None))),
     sv_list = \<lambda>c k ns sel w. (Inr [], w)\<rparr>"

lemma stored_simps [simp]: "stored (stored ob) = stored ob" "o_ref (stored ob) = o_ref ob"
    "stored (ob\<lparr>o_ref := r\<rparr>) = (stored ob)\<lparr>o_ref := r\<rparr>"
  by (simp_all add: stored_def split: kube_body.splits)

lemma tidy_set: "tidy (w(o_ref ob \<mapsto> ob)) = (tidy w)(o_ref ob \<mapsto> stored ob)"
proof
  fix r
  have "(stored ob)\<lparr>o_ref := o_ref ob\<rparr> = stored ob" using stored_simps(2) [of ob] by (cases "stored ob") simp
  then show "tidy (w(o_ref ob \<mapsto> ob)) r = ((tidy w)(o_ref ob \<mapsto> stored ob)) r" by (simp add: tidy_def)
qed

lemma tidy_None: "tidy w r = None \<longleftrightarrow> w r = None" "tidy (w(r := None)) = (tidy w)(r := None)"
  by (auto simp: tidy_def)

lemma store_server_quiet: "quiet_server store_server tidy stored"
proof -
  have "stored ob = ob \<and> o_ref ob = r" if "tidy w r = Some ob" for w r ob
    using that by (auto simp: tidy_def)
  then show ?thesis
    by (auto simp: quiet_server_def store_server_def tidy_set tidy_None split: option.splits)
qed

definition hub_tools :: "store tool_deps" where
  "hub_tools = \<lparr>w_server = store_server,
     w_poll = rounds_poller 2, w_waitPoll = rounds_poller 2, w_ctx = (\<lambda>s. None),
     w_oc = \<lparr>oc_shell = (\<lambda>args w. (\<lparr>ExitCode = 0, Stdout = [], Stderr = []\<rparr>, w)),
       oc_connection = \<lparr>cn_Kubeconfig = [], cn_Context = [], cn_Cluster = []\<rparr>,
       oc_Context = [], oc_path = id, oc_namespace = []\<rparr>,
     w_hub = (\<lambda>(op, args) w. (if op = ''CreateHook'' then Inl \<lparr>he_status = Some 422, he_text = ''invalid''\<rparr> else Inr [], w)),
     w_stamp = (\<lambda>n. ''00000001''), w_random = (\<lambda>n. Some ''c2VjcmV0''), w_process = 1, w_tempDir = ''/tmp'',
     w_writable = (\<lambda>f. True), w_parseYaml = (\<lambda>t. None), w_printYaml = (\<lambda>c. None),
     w_generate = (\<lambda>e b u. None), w_urlPath = Some, w_apiGroups = (\<lambda>w. None), w_namespace = ''ns'',
     w_watch = (\<lambda>b ns w. (Inr [], w)), w_reasonTimedOut = ''PipelineRunTimeout'', w_reasonTaskCancelled = ''TaskRunCancelled'',
     w_lookPath = (\<lambda>n. True), w_schedule = id\<rparr>"

definition hub_start :: "store tool_state" where
  "hub_start = \<lparr>io_world = [hook_secret_ref ''ns'' \<mapsto> \<lparr>o_ref = hook_secret_ref ''ns'', o_labels = Map.empty, o_uid = ''7'',
       o_body = HookSecret [(''provider.token'', ''old'')] []\<rparr>],
     io_trace = [], v_sa = None, v_run = None, v_name = [], v_projectURL = [], v_files = Map.empty,
     v_env = [''PAC_GITHUB_ORG'' \<mapsto> ''acme'', ''PAC_GITHUB_TOKEN'' \<mapsto> ''new''],
     v_stamps = 0, v_ghClient = True, v_signed = [], v_signature = [], v_attempt = 0, v_triggered = False, v_once = False, v_hub = [], v_slept = []\<rparr>"

theorem failed_setup_undone_witness:
  "\<exists>e s'. SetupGitHubProject hub_tools ''ns'' ''https://smee.io/x'' hub_start = (Inl e, s')
     \<and> objects tidy s' = objects tidy hub_start \<and> length (io_trace s') = 6"
proof -
  have L: "objects tidy hub_start r = Some ob \<Longrightarrow> stored ob = ob \<and> o_ref ob = r" for r ob
    using store_server_quiet by (auto simp: quiet_server_def objects_def)
  have "quiet_server (w_server hub_tools) tidy stored" by (simp add: hub_tools_def store_server_quiet)
  moreover have "quiet_hub hub_tools tidy" by (auto simp: quiet_hub_def hub_tools_def)
  moreover have "accepts_undo (w_server hub_tools) (objects tidy hub_start)"
    by (auto simp: accepts_undo_def hub_tools_def store_server_def split: option.splits)
  ultimately have u: "undoable hub_tools tidy stored (objects tidy hub_start)" by (simp add: undoable_def L)
  have "isl (fst (SetupGitHubProject hub_tools ''ns'' ''https://smee.io/x'' hub_start))
      \<and> length (io_trace (snd (SetupGitHubProject hub_tools ''ns'' ''https://smee.io/x'' hub_start))) = 6"
    by code_simp
  then obtain e s' where r: "SetupGitHubProject hub_tools ''ns'' ''https://smee.io/x'' hub_start = (Inl e, s')"
    and t: "length (io_trace s') = 6" by (auto simp: isl_def prod_eq_iff)
  have "poll_contract (w_poll hub_tools)" by (simp add: hub_tools_def rounds_poller_contract)
  from failed_setup_undone [OF u this r] r t show ?thesis by blast
qed

section \<open>The cleanup tries everything\<close>

definition deletes_of :: "'b event list \<Rightarrow> (ref \<times> api_error option) list" where
  "deletes_of tr = List.map_filter (\<lambda>e. case e of Deleted r x \<Rightarrow> Some (r, x) | _ \<Rightarrow> None) tr"

lemma deletes_of_Cons [simp]:
  "deletes_of (e # tr) = (case e of Deleted r x \<Rightarrow> [(r, x)] | _ \<Rightarrow> []) @ deletes_of tr"
  by (simp add: deletes_of_def List.map_filter_simps split: event.splits)

definition absent :: "api_error option \<Rightarrow> bool" where
  "absent e = (e = None \<or> e = Some NotFound)"

lemma delete_tolerant_asks:
  assumes "delete_tolerant d r s = (err, s')"
  shows "\<exists>x. deletes_of (io_trace s') = (r, x) # deletes_of (io_trace s) \<and> (err = None \<longrightarrow> absent x)
    \<and> v_hub s' = v_hub s \<and> v_files s' = v_files s \<and> v_ghClient s' = v_ghClient s"
  using assms by (auto simp: delete_tolerant_def k_delete_def absent_def split: prod.splits option.splits if_splits)

lemma DeleteDeployment_asks:
  assumes "poll_contract (w_poll d)" and "DeleteDeployment d ns name s = (err, s')"
  shows "\<exists>x. deletes_of (io_trace s') = (deployment_ref ns name, x) # deletes_of (io_trace s) \<and> (err = None \<longrightarrow> absent x)
    \<and> v_hub s' = v_hub s \<and> v_files s' = v_files s \<and> v_ghClient s' = v_ghClient s"
proof -
  obtain x s1 where k: "k_delete (w_server d) (deployment_ref ns name) s = (x, s1)" by (metis surj_pair)
  let ?I = "\<lambda>t. deletes_of (io_trace t) = deletes_of (io_trace s1) \<and> v_hub t = v_hub s1 \<and> v_files t = v_files s1
    \<and> v_ghClient t = v_ghClient s1"
  have "keeps ?I (deleted_condition d ns name)"
    by (rule keepsI) (auto simp: deleted_condition_def k_get_def split: prod.splits sum.splits if_splits)
  then have "?I t" if "WaitForDeploymentDeletion d ns name s1 = (e, t)" for e t
    using that keeps_pollE [OF assms(1)] unfolding WaitForDeploymentDeletion_def by (fastforce split: prod.splits)
  with assms(2) k show ?thesis
    by (auto simp: DeleteDeployment_def k_delete_def absent_def split: prod.splits option.splits if_splits)
qed

text \<open>
  CleanupPACGitHub removes both generated files and asks for the deletion of everything a setup
  made, whatever fails on the way: the Repository resource and the repository on GitHub when they have
  a name, the webhook Secret and the Smee deployment, each once and in this order. It returns nil only
  when each of them is gone.
\<close>

theorem github_cleanup_tries_all:
  assumes "poll_contract (w_poll d)" and "CleanupPACGitHub d ns dep owner repo s = (err, s')"
  shows "\<exists>cr sec dp hub.
     deletes_of (io_trace s') = (deployment_ref ns dep, dp) # (hook_secret_ref ns, sec)
       # (if repo = [] then [] else [(repository_ref ns (sanitizeGitHubK8sName repo), cr)]) @ deletes_of (io_trace s)
     \<and> v_hub s' = (if owner \<noteq> [] \<and> repo \<noteq> [] \<and> v_ghClient s then [((''DeleteRepository'', [owner, repo]), hub)] else []) @ v_hub s
     \<and> v_files s' (pullRequestFile d) = None \<and> v_files s' (pushFile d) = None
     \<and> (err = None \<longrightarrow> absent cr \<and> absent sec \<and> absent dp \<and> \<not> isl hub)"
proof -
  define s0 where "s0 = remove_generated d s"
  have s0: "io_trace s0 = io_trace s" "v_hub s0 = v_hub s" "v_ghClient s0 = v_ghClient s"
      "v_files s0 (pullRequestFile d) = None" "v_files s0 (pushFile d) = None"
    by (simp_all add: s0_def remove_generated_def remove_file_def)
  obtain e1 s1 where r1: "deleteGitHubRepositoryCR d ns repo s0 = (e1, s1)" by (metis surj_pair)
  obtain e2 s2 where r2: "deleteGitHubWebhookSecret d ns s1 = (e2, s2)" by (metis surj_pair)
  obtain e3 s3 where r3: "delete_repository d owner repo s2 = (e3, s3)" by (metis surj_pair)
  obtain e4 s4 where r4: "DeleteDeployment d ns dep s3 = (e4, s4)" by (metis surj_pair)
  from assms(2) r1 r2 r3 r4 have s': "s' = s4" and err: "err = None \<longrightarrow> e1 = None \<and> e2 = None \<and> e3 = None \<and> e4 = None"
    by (auto simp: CleanupPACGitHub_def deleteGitHubK8sResources_def join_all_def wrap_def wrap_error_def
        join_errors_None s0_def [symmetric])
  obtain cr where 1: "deletes_of (io_trace s1) = (if repo = [] then [] else [(repository_ref ns (sanitizeGitHubK8sName repo), cr)]) @ deletes_of (io_trace s0)"
      "e1 = None \<longrightarrow> absent cr" "v_hub s1 = v_hub s0" "v_files s1 = v_files s0" "v_ghClient s1 = v_ghClient s0"
  proof (cases "repo = []")
    case True
    with r1 that [of None] show ?thesis by (simp add: deleteGitHubRepositoryCR_def absent_def)
  next
    case False
    with r1 have "delete_tolerant d (repository_ref ns (sanitizeGitHubK8sName repo)) s0 = (e1, s1)"
      by (simp add: deleteGitHubRepositoryCR_def)
    from delete_tolerant_asks [OF this] False that show ?thesis by auto
  qed
  from r2 have "delete_tolerant d (hook_secret_ref ns) s1 = (e2, s2)" by (simp add: deleteGitHubWebhookSecret_def)
  from delete_tolerant_asks [OF this] obtain sec where 2: "deletes_of (io_trace s2) = (hook_secret_ref ns, sec) # deletes_of (io_trace s1)"
      "e2 = None \<longrightarrow> absent sec" "v_hub s2 = v_hub s1" "v_files s2 = v_files s1" "v_ghClient s2 = v_ghClient s1" by blast
  obtain hub where 3: "v_hub s3 = (if owner \<noteq> [] \<and> repo \<noteq> [] \<and> v_ghClient s2 then [((''DeleteRepository'', [owner, repo]), hub)] else []) @ v_hub s2"
      "e3 = None \<longrightarrow> \<not> isl hub" "io_trace s3 = io_trace s2" "v_files s3 = v_files s2" "v_ghClient s3 = v_ghClient s2"
  proof (cases "owner \<noteq> [] \<and> repo \<noteq> [] \<and> v_ghClient s2")
    case True
    with r3 that show ?thesis
      by (auto simp: delete_repository_def hub_do_def hub_call_def split: prod.splits sum.splits)
  next
    case False
    then have "delete_repository d owner repo s2 = (None, s2)" unfolding delete_repository_def by (rule if_not_P)
    with r3 have s3: "e3 = None" "s3 = s2" by simp_all
    show ?thesis by (rule that [of "Inr []"]) (use False in \<open>simp_all add: s3\<close>)
  qed
  from DeleteDeployment_asks [OF assms(1) r4] obtain dp where 4: "deletes_of (io_trace s4) = (deployment_ref ns dep, dp) # deletes_of (io_trace s3)"
      "e4 = None \<longrightarrow> absent dp" "v_hub s4 = v_hub s3" "v_files s4 = v_files s3" by blast
  have "deletes_of (io_trace s4) = (deployment_ref ns dep, dp) # (hook_secret_ref ns, sec)
       # (if repo = [] then [] else [(repository_ref ns (sanitizeGitHubK8sName repo), cr)]) @ deletes_of (io_trace s)"
    unfolding 4(1) 3(3) 2(1) 1(1) s0(1) by (rule refl)
  moreover have "v_hub s4 = (if owner \<noteq> [] \<and> repo \<noteq> [] \<and> v_ghClient s then [((''DeleteRepository'', [owner, repo]), hub)] else []) @ v_hub s"
    unfolding 4(3) 3(1) 2(3,5) 1(3,5) s0(2,3) by (rule refl)
  moreover have "v_files s4 = v_files s0" unfolding 4(4) 3(4) 2(4) 1(4) by (rule refl)
  moreover have "err = None \<longrightarrow> absent cr \<and> absent sec \<and> absent dp \<and> \<not> isl hub"
    using err 1(2) 2(2) 3(2) 4(2) by blast
  ultimately show ?thesis unfolding s' using s0(4,5) by metis
qed

theorem github_cleanup_tries_all_witness:
  "\<exists>err s' cr sec dp. CleanupPACGitHub hub_tools ''ns'' ''smee'' ''acme'' ''repo'' hub_start = (err, s')
     \<and> deletes_of (io_trace s') = [(deployment_ref ''ns'' ''smee'', dp), (hook_secret_ref ''ns'', sec), (repository_ref ''ns'' ''repo'', cr)]"
proof -
  obtain err s' where r: "CleanupPACGitHub hub_tools ''ns'' ''smee'' ''acme'' ''repo'' hub_start = (err, s')" by (metis surj_pair)
  have p: "poll_contract (w_poll hub_tools)" by (simp add: hub_tools_def rounds_poller_contract)
  have "sanitizeGitHubK8sName ''repo'' = ''repo''" by code_simp
  with github_cleanup_tries_all [OF p r] r show ?thesis
    by (fastforce simp: hub_start_def deletes_of_def List.map_filter_simps)
qed

section \<open>Names for the cluster\<close>

text \<open>
  C26: what sanitizeGitHubK8sName returns is never empty, has at most 63 characters, all of them lower case
  letters, digits or dashes, and does not start with a dash. It ends with a dash only when the name was
  cut at 63 characters, which happens: a dash at that place is not trimmed again.
\<close>

theorem sanitized_names:
  "sanitizeGitHubK8sName inp \<noteq> [] \<and> length (sanitizeGitHubK8sName inp) \<le> 63
   \<and> list_all label_char (sanitizeGitHubK8sName inp) \<and> hd (sanitizeGitHubK8sName inp) \<noteq> CHR ''-''
   \<and> \<not> (last (sanitizeGitHubK8sName inp) = CHR ''-'' \<and> length (sanitizeGitHubK8sName inp) < 63)
   \<and> last (sanitizeGitHubK8sName (replicate 62 CHR ''a'' @ ''-b'')) = CHR ''-''"
proof -
  let ?m = "map (\<lambda>c. if label_char c then c else CHR ''-'') (to_lower inp)"
  define res where "res = trim_set ?m ''-''"
  have san: "sanitizeGitHubK8sName inp = (if res = [] then ''pac-repo'' else if 63 < length res then take 63 res else res)"
    by (simp add: sanitizeGitHubK8sName_def res_def Let_def)
  have "set res \<subseteq> set ?m" unfolding res_def trim_set_def by (rule set_trim_by)
  moreover have "\<forall>c \<in> set ?m. label_char c" by (auto simp: label_char_def)
  ultimately have chars: "\<forall>c \<in> set res. label_char c" by blast
  have ends: "hd res \<noteq> CHR ''-'' \<and> last res \<noteq> CHR ''-''" if "res \<noteq> []"
    using that trim_by_hd [of "\<lambda>c. c \<in> set ''-''" ?m] trim_by_last [of "\<lambda>c. c \<in> set ''-''" ?m]
    by (simp add: res_def trim_set_def)
  have "list_all label_char ''pac-repo''" by code_simp
  moreover have "last (sanitizeGitHubK8sName (replicate 62 CHR ''a'' @ ''-b'')) = CHR ''-''" by code_simp
  moreover have "list_all label_char (take 63 res)" using chars set_take_subset [of 63 res] by (auto simp: list_all_iff)
  ultimately show ?thesis using chars ends unfolding san by (auto simp: list_all_iff hd_take)
qed

section \<open>The latest run of an event\<close>

lemma better_run_fold:
  "case fold (better_run prev ev) prs best of
     None \<Rightarrow> best = None \<and> (\<forall>pr \<in> set prs. \<not> is_candidate prev ev pr)
   | Some b \<Rightarrow> (b \<in> set prs \<and> is_candidate prev ev b \<or> best = Some b)
       \<and> (\<forall>pr \<in> set prs. is_candidate prev ev pr \<longrightarrow> run_start pr \<le> run_start b)
       \<and> (\<forall>b'. best = Some b' \<longrightarrow> run_start b' \<le> run_start b)"
proof (induction prs arbitrary: best)
  case (Cons pr prs)
  show ?case
    using Cons [of "better_run prev ev pr best"]
    by (auto simp: better_run_def split: option.splits if_splits)
qed (simp split: option.splits)

text \<open>
  the run that WaitForNewPipelineRunNameByEventType returns was in a listing, has the event type and
  is not the previous one; no other such run of that listing started later.
\<close>

theorem event_run_is_latest:
  fixes d :: "'w tool_deps"
  assumes "poll_contract (w_poll d)" and "WaitForNewPipelineRunNameByEventType d ns prev ev s = (Inr name, s')"
  shows "\<exists>(t :: 'w tool_state) prs pr. fst (k_list (w_server d) [] ''PipelineRun'' (w_namespace d) [] t) = Inr prs \<and> pr \<in> set prs
     \<and> ref_name (o_ref pr) = name \<and> is_candidate prev ev pr
     \<and> (\<forall>q \<in> set prs. is_candidate prev ev q \<longrightarrow> run_start q \<le> run_start pr)"
proof -
  from assms(2) have "w_poll d 5 600 True (event_condition d prev ev) (s\<lparr>v_name := []\<rparr>) = (None, s')" and n: "name = v_name s'"
    by (auto simp: WaitForNewPipelineRunNameByEventType_def wait_name_def split: prod.splits option.splits)
  from poll_None [OF assms(1) this(1)] obtain t where "event_condition d prev ev t = ((True, None), s')" by blast
  then obtain prs s1 best where l: "k_list (w_server d) [] ''PipelineRun'' (w_namespace d) [] t = (Inr prs, s1)"
    and b: "fold (better_run prev ev) prs None = Some best" and s': "s' = s1\<lparr>v_name := ref_name (o_ref best)\<rparr>"
    by (auto simp: event_condition_def split: prod.splits sum.splits option.splits)
  from better_run_fold [where prev = prev and ev = ev and prs = prs and best = None] b
  have "best \<in> set prs \<and> is_candidate prev ev best \<and> (\<forall>q \<in> set prs. is_candidate prev ev q \<longrightarrow> run_start q \<le> run_start best)"
    by simp
  with l n s' show ?thesis by (intro exI [of _ t] exI [of _ prs] exI [of _ best]) simp
qed

text \<open>Three runs: a later one of another event, and two of the push.\<close>

definition event_run :: "string \<Rightarrow> string \<Rightarrow> nat \<Rightarrow> kube_body kobject" where
  "event_run name ev start = \<lparr>o_ref = Ref [] ''PipelineRun'' ''ns'' name, o_labels = Map.empty, o_uid = name,
     o_body = RunInfoBody \<lparr>ri_accessor = (\<lambda>_. None), ri_CreationTimestamp = 0, ri_StartTime = Some start,
       ri_Annotations = Some [pacEventTypeAnnotationKey \<mapsto> ev]\<rparr>\<rparr>"

definition event_tools :: "store tool_deps" where
  "event_tools = hub_tools\<lparr>w_server := store_server\<lparr>sv_list := \<lambda>c k ns sel w.
     (Inr [event_run ''a'' ''push'' 1, event_run ''b'' ''push'' 3, event_run ''c'' ''pull_request'' 5], w)\<rparr>\<rparr>"

theorem event_run_is_latest_witness:
  "\<exists>s'. WaitForNewPipelineRunNameByEventType event_tools ''ns'' ''x'' ''push'' hub_start = (Inr ''b'', s')
     \<and> (\<exists>prs pr. pr \<in> set prs \<and> ref_name (o_ref pr) = ''b'' \<and> is_candidate ''x'' ''push'' pr)"
proof -
  have "fst (WaitForNewPipelineRunNameByEventType event_tools ''ns'' ''x'' ''push'' hub_start) = Inr ''b''" by code_simp
  then obtain s' where r: "WaitForNewPipelineRunNameByEventType event_tools ''ns'' ''x'' ''push'' hub_start = (Inr ''b'', s')"
    by (metis prod.collapse)
  have "poll_contract (w_poll event_tools)" by (simp add: event_tools_def hub_tools_def rounds_poller_contract)
  from event_run_is_latest [OF this r] r show ?thesis by blast
qed

end
