(* ===== verification/ScenarioStore.thy ===== *)
theory ScenarioStore
  imports GoPrelude
begin

text \<open>
  \<open>pkg/store/store.go\<close>: the values the steps of a scenario share. A value of type \<open>any\<close> is tagged with
  its type, because a read with another type finds nothing. The clients and the HTTP response are
  kept as opaque handles; the lock is left out.
\<close>

section \<open>Values and maps\<close>

text \<open>The names of the custom resources, as far as the packages read them.\<close>

record resource_names =
  rn_TektonConfig :: string
  rn_TektonPipeline :: string
  rn_TektonTrigger :: string
  rn_TektonHub :: string
  rn_TektonChain :: string
  rn_ManualApprovalGate :: string

definition no_names :: resource_names where
  "no_names = \<lparr>rn_TektonConfig = [], rn_TektonPipeline = [], rn_TektonTrigger = [], rn_TektonHub = [],
     rn_TektonChain = [], rn_ManualApprovalGate = []\<rparr>"

datatype stored =
    SString string
  | SStrings "string list"
  | SBytes string
  | SClients nat
  | SResponse nat
  | SNames resource_names
  | SOpc string

record stores =
  scenarioStore :: "string \<rightharpoonup> stored"
  suiteStore :: "string \<rightharpoonup> stored"

text \<open>A read with a type assertion: the value when the key is there and has the type, else the zero value.\<close>

definition typed :: "(stored \<Rightarrow> 'a option) \<Rightarrow> 'a \<Rightarrow> (string \<rightharpoonup> stored) \<Rightarrow> string \<Rightarrow> 'a" where
  "typed as zero m key =
     (case m key of None \<Rightarrow> zero | Some v \<Rightarrow> (case as v of None \<Rightarrow> zero | Some x \<Rightarrow> x))"

fun as_text :: "stored \<Rightarrow> string option" where "as_text (SString v) = Some v" | "as_text _ = None"
fun as_slice :: "stored \<Rightarrow> string list option" where "as_slice (SStrings v) = Some v" | "as_slice _ = None"
fun as_bytes :: "stored \<Rightarrow> string option option" where "as_bytes (SBytes v) = Some (Some v)" | "as_bytes _ = None"
fun as_clients :: "stored \<Rightarrow> nat option option" where "as_clients (SClients c) = Some (Some c)" | "as_clients _ = None"
fun as_response :: "stored \<Rightarrow> nat option option" where "as_response (SResponse r) = Some (Some r)" | "as_response _ = None"
fun as_names :: "stored \<Rightarrow> resource_names option" where "as_names (SNames n) = Some n" | "as_names _ = None"
fun as_opc :: "stored \<Rightarrow> string option option" where "as_opc (SOpc p) = Some (Some p)" | "as_opc _ = None"

section \<open>Operations\<close>

definition Namespace :: "stores \<Rightarrow> string" where
  "Namespace st = typed as_text [] (scenarioStore st) ''namespace''"

definition Clients :: "stores \<Rightarrow> nat option" where
  "Clients st = typed as_clients None (scenarioStore st) ''clients''"

definition GetCRNames :: "stores \<Rightarrow> resource_names" where
  "GetCRNames st = typed as_names no_names (scenarioStore st) ''crnames''"

definition put_scenario :: "string \<Rightarrow> stored \<Rightarrow> stores \<Rightarrow> stores" where
  "put_scenario key v st = st\<lparr>scenarioStore := (scenarioStore st)(key \<mapsto> v)\<rparr>"

definition SetCRNames :: "resource_names \<Rightarrow> stores \<Rightarrow> stores" where
  "SetCRNames names = put_scenario ''crnames'' (SNames names)"

definition HTTPResponse :: "stores \<Rightarrow> nat option" where
  "HTTPResponse st = typed as_response None (scenarioStore st) ''response''"

definition GetPayload :: "stores \<Rightarrow> string option" where
  "GetPayload st = typed as_bytes None (scenarioStore st) ''payload''"

text \<open>None stands for the panic.\<close>

definition Opc :: "stores \<Rightarrow> string option" where
  "Opc st = typed as_opc None (suiteStore st) ''opc''"

definition PutScenarioData :: "string \<Rightarrow> string \<Rightarrow> stores \<Rightarrow> stores" where
  "PutScenarioData key v = put_scenario key (SString v)"

definition SetNamespace :: "string \<Rightarrow> stores \<Rightarrow> stores" where
  "SetNamespace ns = put_scenario ''namespace'' (SString ns)"

definition PutScenarioDataSlice :: "string \<Rightarrow> string list \<Rightarrow> stores \<Rightarrow> stores" where
  "PutScenarioDataSlice key v = put_scenario key (SStrings v)"

definition GetScenarioDataSlice :: "string \<Rightarrow> stores \<Rightarrow> string list" where
  "GetScenarioDataSlice key st = typed as_slice [] (scenarioStore st) key"

definition GetScenarioData :: "string \<Rightarrow> stores \<Rightarrow> string" where
  "GetScenarioData key st = typed as_text [] (scenarioStore st) key"

definition TargetNamespace :: "stores \<Rightarrow> string" where
  "TargetNamespace st = typed as_text [] (scenarioStore st) ''targetNamespace''"

definition PutSuiteData :: "string \<Rightarrow> stored \<Rightarrow> stores \<Rightarrow> stores" where
  "PutSuiteData key v st = st\<lparr>suiteStore := (suiteStore st)(key \<mapsto> v)\<rparr>"

definition GetSuiteData :: "string \<Rightarrow> stores \<Rightarrow> stored option" where
  "GetSuiteData key st = suiteStore st key"

section \<open>The contract of keyed reads and writes\<close>

text \<open>
  What a client relies on: a write is read back under its key, as \<open>view\<close> says, and leaves the other
  keys alone.
\<close>

locale keyed =
  fixes get :: "string \<Rightarrow> 'st \<Rightarrow> 'a" and put :: "string \<Rightarrow> 'v \<Rightarrow> 'st \<Rightarrow> 'st" and view :: "'v \<Rightarrow> 'a"
  assumes get_put: "get k (put k v st) = view v"
    and get_other: "k \<noteq> k' \<Longrightarrow> get k (put k' v st) = get k st"
begin

text \<open>After any sequence of writes a key has the last value written, or the old one.\<close>

lemma get_after:
  "get k (fold (\<lambda>(k', v). put k' v) kvs st) = (case map_of (rev kvs) k of Some v \<Rightarrow> view v | None \<Rightarrow> get k st)"
proof (induction kvs arbitrary: st)
  case (Cons kv kvs)
  obtain k' v where "kv = (k', v)" by (cases kv)
  with Cons show ?case by (cases "k = k'") (auto simp: map_add_def get_put get_other split: option.splits)
qed simp

end

interpretation texts: keyed GetScenarioData PutScenarioData "\<lambda>v. v"
  by unfold_locales (simp_all add: GetScenarioData_def PutScenarioData_def put_scenario_def typed_def)

interpretation slices: keyed GetScenarioDataSlice PutScenarioDataSlice "\<lambda>v. v"
  by unfold_locales (simp_all add: GetScenarioDataSlice_def PutScenarioDataSlice_def put_scenario_def typed_def)

interpretation suite: keyed GetSuiteData PutSuiteData Some
  by unfold_locales (simp_all add: GetSuiteData_def PutSuiteData_def)

lemma namespace_is_data: "Namespace st = GetScenarioData ''namespace'' st"
    "TargetNamespace st = GetScenarioData ''targetNamespace'' st" "SetNamespace ns = PutScenarioData ''namespace'' ns"
  by (simp_all add: Namespace_def TargetNamespace_def SetNamespace_def GetScenarioData_def PutScenarioData_def)

text \<open>
  after any sequence of string writes to the scenario, a key reads as the last value written, and
  Namespace and TargetNamespace are the values under their keys; a slice written under the same key
  hides the string, and the suite's data and the opc command are not affected.
\<close>

theorem scenario_reads_back:
  "GetScenarioData k (fold (\<lambda>(k, v). PutScenarioData k v) kvs st)
     = (case map_of (rev kvs) k of Some v \<Rightarrow> v | None \<Rightarrow> GetScenarioData k st)
   \<and> Namespace (fold (\<lambda>(k, v). PutScenarioData k v) kvs st)
     = (case map_of (rev kvs) ''namespace'' of Some v \<Rightarrow> v | None \<Rightarrow> Namespace st)
   \<and> GetScenarioData k (PutScenarioDataSlice k slice st) = []
   \<and> GetScenarioDataSlice k (PutScenarioData k v st) = []
   \<and> Opc (fold (\<lambda>(k, v). PutScenarioData k v) kvs st) = Opc st"
proof -
  have "suiteStore (fold (\<lambda>(k, v). PutScenarioData k v) kvs st) = suiteStore st"
    by (induction kvs arbitrary: st) (auto simp: PutScenarioData_def put_scenario_def)
  then have "Opc (fold (\<lambda>(k, v). PutScenarioData k v) kvs st) = Opc st" by (simp add: Opc_def)
  then show ?thesis unfolding namespace_is_data(1) texts.get_after
    by (simp add: GetScenarioData_def GetScenarioDataSlice_def PutScenarioData_def PutScenarioDataSlice_def put_scenario_def typed_def)
qed

end
