(* ===== verification/Base64.thy ===== *)
theory Base64
  imports GoPrelude
begin

text \<open>
  What \<open>encoding/base64\<close> does in \<open>StdEncoding\<close>: the decoder that the packages use, and the encoder
  as its reference. Line breaks are skipped, padding is required, trailing bits are ignored.
\<close>

section \<open>Sextets\<close>

definition char64 :: "nat \<Rightarrow> char" where
  "char64 n = char_of
     (if n < 26 then n + 65 else if n < 52 then n + 71 else if n < 62 then n - 4 else if n = 62 then 43 else 47)"

definition val64 :: "char \<Rightarrow> nat option" where
  "val64 c =
     (let n = (of_char c :: nat) in
      if 65 \<le> n \<and> n \<le> 90 then Some (n - 65)
      else if 97 \<le> n \<and> n \<le> 122 then Some (n - 71)
      else if 48 \<le> n \<and> n \<le> 57 then Some (n + 4)
      else if n = 43 then Some 62
      else if n = 47 then Some 63
      else None)"

definition byte :: "nat \<Rightarrow> char" where
  "byte n = char_of (n mod 256)"

section \<open>Decoding\<close>

text \<open>Four characters are 24 bits; the last group may end in one or two padding characters.\<close>

fun quanta64 :: "string \<Rightarrow> string option" where
  "quanta64 [] = Some []"
| "quanta64 (a # b # c # d # rest) =
     (case (val64 a, val64 b) of
        (Some x, Some y) \<Rightarrow>
          (if c = CHR ''='' then
             (if d = CHR ''='' \<and> rest = [] then Some [byte (x * 4 + y div 16)] else None)
           else
             (case val64 c of
                None \<Rightarrow> None
              | Some z \<Rightarrow>
                  (if d = CHR ''='' then
                     (if rest = [] then Some [byte (x * 4 + y div 16), byte (y * 16 + z div 4)] else None)
                   else
                     (case (val64 d, quanta64 rest) of
                        (Some u, Some bytes) \<Rightarrow>
                          Some (byte (x * 4 + y div 16) # byte (y * 16 + z div 4) # byte (z * 64 + u) # bytes)
                      | _ \<Rightarrow> None))))
      | _ \<Rightarrow> None)"
| "quanta64 _ = None"

definition decode64 :: "string \<Rightarrow> string option" where
  "decode64 s = quanta64 (filter (\<lambda>c. c \<noteq> CHR 10 \<and> c \<noteq> CHR 13) s)"

section \<open>The reference encoder\<close>

fun encode64 :: "string \<Rightarrow> string" where
  "encode64 [] = []"
| "encode64 [p] =
     (let a = (of_char p :: nat) in [char64 (a div 4), char64 (a mod 4 * 16), CHR ''='', CHR ''=''])"
| "encode64 [p, q] =
     (let a = (of_char p :: nat); b = (of_char q :: nat) in
      [char64 (a div 4), char64 (a mod 4 * 16 + b div 16), char64 (b mod 16 * 4), CHR ''=''])"
| "encode64 (p # q # r # rest) =
     (let a = (of_char p :: nat); b = (of_char q :: nat); c = (of_char r :: nat) in
      char64 (a div 4) # char64 (a mod 4 * 16 + b div 16) # char64 (b mod 16 * 4 + c div 64) # char64 (c mod 64)
        # encode64 rest)"

lemma val64_char64 [simp]: "n < 64 \<Longrightarrow> val64 (char64 n) = Some n"
  by (auto simp: val64_def char64_def Let_def)

lemma of_char_char64: "(of_char (char64 n) :: nat) =
    (if n < 26 then n + 65 else if n < 52 then n + 71 else if n < 62 then n - 4 else if n = 62 then 43 else 47)"
  by (simp add: char64_def)

text \<open>Padding, line breaks and quotation marks are no sextets.\<close>

lemma char64_special: "char64 n \<noteq> CHR ''=''" "char64 n \<noteq> CHR 10" "char64 n \<noteq> CHR 13" "char64 n \<noteq> CHR 0x27"
proof -
  have "(of_char (char64 n) :: nat) \<notin> {61, 10, 13, 39}" by (simp add: of_char_char64; arith)
  then show "char64 n \<noteq> CHR ''=''" "char64 n \<noteq> CHR 10" "char64 n \<noteq> CHR 13" "char64 n \<noteq> CHR 0x27" by auto
qed

lemma byte_of_char [simp]: "byte (of_char c) = c"
  by (simp add: byte_def)

lemma byte_eqI: "m mod 256 = of_char c \<Longrightarrow> byte m = c"
  by (simp add: byte_def)

lemma byte_first:
  fixes y :: nat
  assumes "y < 16"
  shows "byte (of_char p div 4 * 4 + (of_char p mod 4 * 16 + y) div 16) = p"
proof (rule byte_eqI)
  have "(of_char p mod 4 * 16 + y) div 16 = of_char p mod (4 :: nat)" using assms by simp
  then show "(of_char p div 4 * 4 + (of_char p mod 4 * 16 + y) div 16) mod 256 = (of_char p :: nat)" by simp
qed

lemma byte_second:
  fixes a z :: nat
  assumes "z < 4"
  shows "byte ((a mod 4 * 16 + of_char p div 16) * 16 + (of_char p mod 16 * 4 + z) div 4) = p"
proof (rule byte_eqI)
  have z: "(of_char p mod 16 * 4 + z) div 4 = of_char p mod (16 :: nat)" using assms by simp
  have "(a mod 4 * 16 + of_char p div 16) * 16 + of_char p mod 16 = a mod 4 * 256 + of_char p"
    using div_mult_mod_eq [of "of_char p :: nat" 16] by (simp add: algebra_simps)
  then show "((a mod 4 * 16 + of_char p div 16) * 16 + (of_char p mod 16 * 4 + z) div 4) mod 256 = (of_char p :: nat)"
    unfolding z by simp
qed

lemma byte_third: "byte ((b mod 16 * 4 + of_char p div 64) * 64 + of_char p mod 64) = p" for b :: nat
proof (rule byte_eqI)
  have "(b mod 16 * 4 + of_char p div 64) * 64 + of_char p mod 64 = b mod 16 * 256 + of_char p"
    using div_mult_mod_eq [of "of_char p :: nat" 64] by (simp add: algebra_simps)
  then show "((b mod 16 * 4 + of_char p div 64) * 64 + of_char p mod 64) mod 256 = (of_char p :: nat)" by simp
qed

text \<open>The sextets of the encoder are below 64.\<close>

lemma sextet_bounds:
  "of_char p div 4 < (64 :: nat)" "a mod 4 * 16 + of_char p div 16 < (64 :: nat)"
  "a mod 16 * 4 + of_char p div 64 < (64 :: nat)" "of_char p mod 64 < (64 :: nat)"
  "a mod 4 * 16 < (64 :: nat)" "a mod 16 * 4 < (64 :: nat)"
proof -
  have p: "(of_char p :: nat) < 256" by simp
  then show "of_char p div 4 < (64 :: nat)" by (simp add: less_mult_imp_div_less)
  have "of_char p div 16 < (16 :: nat)" using p by (simp add: less_mult_imp_div_less)
  moreover have "a mod 4 < (4 :: nat)" by simp
  ultimately show "a mod 4 * 16 + of_char p div 16 < (64 :: nat)" by linarith
  have "of_char p div 64 < (4 :: nat)" using p by (simp add: less_mult_imp_div_less)
  moreover have "a mod 16 < (16 :: nat)" by simp
  ultimately show "a mod 16 * 4 + of_char p div 64 < (64 :: nat)" by linarith
  show "of_char p mod 64 < (64 :: nat)" by simp
  show "a mod 4 * 16 < (64 :: nat)" using \<open>a mod 4 < 4\<close> by linarith
  show "a mod 16 * 4 < (64 :: nat)" using \<open>a mod 16 < 16\<close> by linarith
qed

lemma encode64_plain: "c \<in> set (encode64 s) \<Longrightarrow> c \<noteq> CHR 10 \<and> c \<noteq> CHR 13 \<and> c \<noteq> CHR 0x27"
  by (induction s rule: encode64.induct) (auto simp: Let_def char64_special)

lemma quanta64_encode64: "quanta64 (encode64 s) = Some s"
proof (induction s rule: encode64.induct)
  case (2 p)
  show ?case using byte_first [of 0 p] by (simp add: Let_def char64_special sextet_bounds)
next
  case (3 p q)
  show ?case using byte_first [of "of_char q div 16" p] byte_second [of 0 "of_char p" q]
    by (simp add: Let_def char64_special sextet_bounds less_mult_imp_div_less)
next
  case (4 p q r rest)
  show ?case using 4 byte_first [of "of_char q div 16" p] byte_second [of "of_char r div 64" "of_char p" q] byte_third [of "of_char q" r]
    by (simp add: Let_def char64_special sextet_bounds less_mult_imp_div_less)
qed simp

text \<open>Decoding what the encoder made gives the bytes back, wherever line breaks were put.\<close>

theorem decode64_encode64: "filter (\<lambda>c. c \<noteq> CHR 10 \<and> c \<noteq> CHR 13) t = encode64 s \<Longrightarrow> decode64 t = Some s"
  by (simp add: decode64_def quanta64_encode64)

lemma decode64_encoded: "decode64 (encode64 s) = Some s"
  by (rule decode64_encode64) (auto simp: filter_id_conv dest: encode64_plain)

end
