(* ===== verification/TektonChains.thy ===== *)
theory TektonChains
  imports PacGitLab OperatorConfig Base64
begin

text \<open>
  \<open>pkg/operator/tektonchains.go\<close>: configuring Tekton Chains, checking its signatures and
  attestations, and fetching its public key. The variable \<open>repo\<close> is an argument; \<open>json.Unmarshal\<close> of
  the results and of the list of entries are the arguments \<open>results\<close> and \<open>uuids\<close>.
\<close>

section \<open>Running commands\<close>

text \<open>A \<open>MustSucceed\<close> whose output is not used, and a poll whose aborts end the test.\<close>

definition must_do :: "'w tool_deps \<Rightarrow> string list \<Rightarrow> 'w tool_state step" where
  "must_do d args s = (case w_must d args s of (Inl e, s1) \<Rightarrow> (Some e, s1) | (Inr _, s1) \<Rightarrow> (None, s1))"

fun poll_failure :: "kerror \<Rightarrow> kerror poll_error \<Rightarrow> kerror" where
  "poll_failure msg (CondError (KAbort m)) = KAbort m"
| "poll_failure msg _ = msg"

definition publicKeyPath :: "'w tool_deps \<Rightarrow> string" where
  "publicKeyPath d = oc_path (w_oc d) ''testdata/chains/key''"

definition patch_config :: "'w tool_deps \<Rightarrow> string \<Rightarrow> 'w tool_state step" where
  "patch_config d patchData =
     must_do d [''oc'', ''patch'', ''tektonconfig'', ''config'', ''-p'', patchData, ''--type=merge'']"

section \<open>Configuration\<close>

text \<open>The result of the first read is thrown away; \<open>ks\<close> is what the latest read returned.\<close>

definition EnsureTektonChainsExists ::
    "'w tool_deps \<Rightarrow> string \<Rightarrow> 'w tool_state \<Rightarrow> (kerror + kube_body kobject) \<times> 'w tool_state" where
  "EnsureTektonChainsExists d name s =
     (let r = Ref [] ''TektonChain'' [] name in
      (case k_get (w_server d) r s of (_, s1) \<Rightarrow>
        (case w_poll d 5 600 False (exists_condition (w_server d) r) s1 of
           (Some e, s2) \<Rightarrow> (Inl (the (of_poll (Some e))), s2)
         | (None, s2) \<Rightarrow>
             (case last_read r (io_trace s2) of
                Some ks \<Rightarrow> (Inr ks, s2)
              | None \<Rightarrow> (Inl (KMsg ''no TektonChain read''), s2)))))"

definition chains_patch :: "string \<Rightarrow> string \<Rightarrow> string \<Rightarrow> string \<Rightarrow> string \<Rightarrow> string \<Rightarrow> string" where
  "chains_patch format taskrunStorage ociStorage transparency repository ef =
     ''{\"spec\":{\"chain\":{\"options\":{\"disabled\":false},''
     @ ''\"artifacts.taskrun.format\":\"'' @ format @ ''\",''
     @ ''\"artifacts.taskrun.storage\":\"'' @ taskrunStorage @ ''\",''
     @ ''\"artifacts.pipelinerun.format\":\"'' @ format @ ''\",''
     @ ''\"artifacts.pipelinerun.storage\":\"'' @ taskrunStorage @ ''\",''
     @ ''\"artifacts.oci.storage\":\"'' @ ociStorage @ ''\",''
     @ ''\"transparency.enabled\":\"'' @ transparency @ ''\"''
     @ (if repository \<noteq> [] then '',\"storage.oci.repository\":\"'' @ repository @ ''\"'' else [])
     @ (if ef \<noteq> [] then '',\"storage.oci.encoding-format\":\"'' @ ef @ ''\"'' else [])
     @ ''}}}''"

definition UpdateTektonConfigForChains ::
    "'w tool_deps \<Rightarrow> string \<Rightarrow> string \<Rightarrow> string \<Rightarrow> string \<Rightarrow> string \<Rightarrow> string list \<Rightarrow> 'w tool_state step" where
  "UpdateTektonConfigForChains d format taskrunStorage ociStorage transparency repository encodingFormat =
     (let ef = (case encodingFormat of [] \<Rightarrow> [] | x # _ \<Rightarrow> x)
      in patch_config d (chains_patch format taskrunStorage ociStorage transparency repository ef))"

definition restore_patch :: string where
  "restore_patch =
     ''{\"spec\":{\"chain\":{\"options\":{\"disabled\":false},''
     @ ''\"artifacts.taskrun.format\":\"in-toto\",''
     @ ''\"artifacts.taskrun.storage\":\"tekton\",''
     @ ''\"artifacts.pipelinerun.format\":\"in-toto\",''
     @ ''\"artifacts.pipelinerun.storage\":\"tekton\",''
     @ ''\"artifacts.oci.storage\":\"\",''
     @ ''\"transparency.enabled\":\"false\",''
     @ ''\"storage.oci.repository\":\"\",''
     @ ''\"storage.oci.encoding-format\":\"dsse\"}}}''"

definition RestoreTektonConfigChains :: "'w tool_deps \<Rightarrow> 'w tool_state step" where
  "RestoreTektonConfigChains d = patch_config d restore_patch"

section \<open>Signatures\<close>

definition chains_annotation :: "string \<Rightarrow> string" where
  "chains_annotation key =
     ''jsonpath=\"{.metadata.annotations.chains'' @ [backslash] @ ''.tekton'' @ [backslash] @ ''.dev/'' @ key @ ''}\"''"

definition describe_last :: "string \<Rightarrow> string \<Rightarrow> string \<Rightarrow> string list" where
  "describe_last resourceType path ns = [''opc'', resourceType, ''describe'', ''--last'', ''-o'', path, ''-n'', ns]"

definition uid_path :: string where
  "uid_path = ''jsonpath='' @ [CHR 0x27] @ ''{.metadata.uid}'' @ [CHR 0x27]"

text \<open>The closure of the poll assigns \<open>isSigned\<close> and \<open>signature\<close>.\<close>

definition signed_condition :: "'w tool_deps \<Rightarrow> string \<Rightarrow> string \<Rightarrow> string \<Rightarrow> ('w tool_state, kerror) cond" where
  "signed_condition d resourceType sigJSONPath ns s =
     (case output_of d (describe_last resourceType (chains_annotation ''signed'') ns) s of
        (Inl e, s1) \<Rightarrow> ((False, Some e), s1)
      | (Inr out, s1) \<Rightarrow>
          let s1' = s1\<lparr>v_signed := trim_set out [dquote]\<rparr> in
          (case output_of d (describe_last resourceType sigJSONPath ns) s1' of
             (Inl e, s2) \<Rightarrow> ((False, Some e), s2)
           | (Inr out2, s2) \<Rightarrow>
               let s2' = s2\<lparr>v_signature := trim_set out2 [dquote]\<rparr> in
               ((v_signed s2' = ''true'' \<and> v_signature s2' \<noteq> [], None), s2')))"

definition verify_blob :: "'w tool_deps \<Rightarrow> string list" where
  "verify_blob d = [''cosign'', ''verify-blob-attestation'', ''--insecure-ignore-tlog'', ''--key'',
     publicKeyPath d @ ''/cosign.pub'', ''--signature'', ''sign'', ''--type'', ''slsaprovenance'',
     ''--check-claims=false'', ''/dev/null'']"

definition VerifySignature :: "'w tool_deps \<Rightarrow> string \<Rightarrow> 'w tool_state step" where
  "VerifySignature d resourceType s =
     (let ns = oc_namespace (w_oc d) in
      if ns = [] then (Some (KMsg ''VerifySignature: store.Namespace() is empty - ensure hooks are configured''), s)
      else
        (case output_of d (describe_last resourceType uid_path ns) s of
           (Inl e, s1) \<Rightarrow> (Some e, s1)
         | (Inr out, s1) \<Rightarrow>
             let resourceUID = trim_set out [CHR 0x27];
                 sigJSONPath = chains_annotation (''signature-'' @ resourceType @ ''-'' @ resourceUID) in
             (case w_poll d 10 180 True (signed_condition d resourceType sigJSONPath ns)
                     (s1\<lparr>v_signed := [], v_signature := []\<rparr>) of
                (Some e, s2) \<Rightarrow>
                  (Some (poll_failure (KMsg (''timed out waiting for Chains to sign '' @ resourceType)) e), s2)
              | (None, s2) \<Rightarrow>
                  (case decode64 (v_signature s2) of
                     None \<Rightarrow> (Some (KMsg ''error decoding base64 signature''), s2)
                   | Some decodedSignature \<Rightarrow>
                       seq (write_file d ''error creating signature file'' ''sign'' decodedSignature)
                           (must_do d (verify_blob d)) s2))))"

section \<open>Images\<close>

definition StartKanikoTask :: "'w tool_deps \<Rightarrow> string \<Rightarrow> 'w tool_state step" where
  "StartKanikoTask d repo s =
     (let ns = oc_namespace (w_oc d) in
      if ns = [] then fail ''StartKanikoTask: store.Namespace() is empty - ensure hooks are configured'' s
      else
        (case stamp d s of (tag, s1) \<Rightarrow>
           seq (must_do d [''oc'', ''secrets'', ''link'', ''pipeline'', ''chains-image-registry-credentials'',
                  ''--for=pull,mount'', ''-n'', ns])
          (seq (must_do d [''opc'', ''task'', ''start'', ''--param'', ''IMAGE='' @ repo @ '':'' @ tag, ''--use-param-defaults'',
                  ''--workspace'', ''name=source,claimName=chains-pvc'', ''--workspace'',
                  ''name=dockerconfig,secret=chains-image-registry-credentials'', ''kaniko-chains'', ''-n'', ns])
               (must_do d [''sleep'', ''120''])) s1))"

text \<open>The loop over the results: a later digest replaces an earlier one, a value without colon panics.\<close>

fun find_digest :: "(string \<times> string) list \<Rightarrow> string \<Rightarrow> string option" where
  "find_digest [] imageDigest = Some imageDigest"
| "find_digest ((name, val) # results) imageDigest =
     (if contains name ''IMAGE_DIGEST'' then
        (case split_char CHR '':'' val of
           _ # x # _ \<Rightarrow> find_digest results x
         | _ \<Rightarrow> None)
      else find_digest results imageDigest)"

definition GetImageURLAndDigest ::
    "'w tool_deps \<Rightarrow> string \<Rightarrow> (string \<Rightarrow> (string \<times> string) list option) \<Rightarrow> 'w tool_state \<Rightarrow>
     (kerror + string \<times> string) \<times> 'w tool_state" where
  "GetImageURLAndDigest d repo results s =
     (let ns = oc_namespace (w_oc d) in
      if ns = [] then (Inl (KMsg ''GetImageURLAndDigest: store.Namespace() is empty - ensure hooks are configured''), s)
      else
        (case output_of d (describe_last ''tr'' ''jsonpath={.status.results}'' ns) s of
           (Inl e, s1) \<Rightarrow> (Inl e, s1)
         | (Inr jsonOutput, s1) \<Rightarrow>
             (case results jsonOutput of
                None \<Rightarrow> (Inl (KMsg ''error parsing JSON output''), s1)
              | Some rs \<Rightarrow>
                  (case find_digest rs [] of
                     None \<Rightarrow> (Inl (KAbort ''index out of range''), s1)
                   | Some imageDigest \<Rightarrow> (Inr (repo @ ''@sha256:'' @ imageDigest, imageDigest), s1)))))"

definition with_image ::
    "'w tool_deps \<Rightarrow> string \<Rightarrow> (string \<Rightarrow> (string \<times> string) list option) \<Rightarrow> (string \<times> string \<Rightarrow> 'w tool_state step) \<Rightarrow>
     'w tool_state step" where
  "with_image d repo results f s =
     (case GetImageURLAndDigest d repo results s of (Inl e, s1) \<Rightarrow> (Some e, s1) | (Inr img, s1) \<Rightarrow> f img s1)"

definition VerifyImageSignature ::
    "'w tool_deps \<Rightarrow> string \<Rightarrow> (string \<Rightarrow> (string \<times> string) list option) \<Rightarrow> 'w tool_state step" where
  "VerifyImageSignature d repo results = with_image d repo results (\<lambda>(url, _).
     must_do d [''cosign'', ''verify'', ''--key'', publicKeyPath d @ ''/cosign.pub'', url])"

definition VerifyAttestation ::
    "'w tool_deps \<Rightarrow> string \<Rightarrow> (string \<Rightarrow> (string \<times> string) list option) \<Rightarrow> 'w tool_state step" where
  "VerifyAttestation d repo results = with_image d repo results (\<lambda>(url, _).
     must_do d [''cosign'', ''verify-attestation'', ''--key'', publicKeyPath d @ ''/cosign.pub'', ''--type'',
       ''slsaprovenance'', url])"

text \<open>The closure assigns \<open>rekorUUID\<close>.\<close>

definition rekor_condition :: "'w tool_deps \<Rightarrow> (string \<Rightarrow> string list option) \<Rightarrow> string \<Rightarrow> ('w tool_state, kerror) cond" where
  "rekor_condition d uuids imageDigest s =
     (case w_run d [''rekor-cli'', ''search'', ''--format'', ''json'', ''--sha'', imageDigest] s of
        (res, s1) \<Rightarrow>
          if ExitCode res \<noteq> 0 then ((False, None), s1)
          else
            (case uuids (Stdout res) of
               Some (u # _) \<Rightarrow> ((True, None), s1\<lparr>v_name := u\<rparr>)
             | _ \<Rightarrow> ((False, None), s1)))"

definition CheckAttestationExists ::
    "'w tool_deps \<Rightarrow> string \<Rightarrow> (string \<Rightarrow> (string \<times> string) list option) \<Rightarrow> (string \<Rightarrow> string list option) \<Rightarrow>
     'w tool_state step" where
  "CheckAttestationExists d repo results uuids = with_image d repo results (\<lambda>(_, imageDigest) s.
     (case w_poll d 15 300 True (rekor_condition d uuids imageDigest) (s\<lparr>v_name := []\<rparr>) of
        (Some _, s1) \<Rightarrow>
          (Some (KMsg (''attestation not found in transparency log within 5 minutes for digest '' @ imageDigest)), s1)
      | (None, s1) \<Rightarrow>
          (case w_run d [''rekor-cli'', ''get'', ''--uuid'', v_name s1] s1 of
             (res, s2) \<Rightarrow>
               (if contains (Stdout res) ''getLogEntryByUuidNotFound''
                then Some (KMsg (''failed to find attestation for UUID '' @ v_name s1)) else None, s2))))"

section \<open>The public key\<close>

definition pubkey_command :: "string list" where
  "pubkey_command = [''oc'', ''get'', ''secrets'', ''signing-secrets'', ''-n'', ''openshift-pipelines'', ''-o'',
     ''jsonpath='' @ [CHR 0x27] @ ''{.data.cosign'' @ [backslash] @ ''.pub}'' @ [CHR 0x27]]"

definition generate_patch :: string where
  "generate_patch = ''{\"spec\":{\"chain\":{\"generateSigningSecret\":true}}}''"

text \<open>\<open>v_name\<close> is \<open>chainsPublicKey\<close>.\<close>

definition pubkey_condition :: "'w tool_deps \<Rightarrow> ('w tool_state, kerror) cond" where
  "pubkey_condition d s =
     (let s0 = s\<lparr>v_attempt := Suc (v_attempt s)\<rparr> in
      (case output_of d pubkey_command s0 of
         (Inl e, s1) \<Rightarrow> ((False, Some e), s1)
       | (Inr out, s1) \<Rightarrow>
           let raw = trim_set out [CHR 0x27] in
           if raw \<noteq> [] then ((True, None), s1\<lparr>v_name := raw\<rparr>)
           else if 3 \<le> v_attempt s1 \<and> \<not> v_triggered s1 then
             (case patch_config d generate_patch s1 of
                (Some e, s2) \<Rightarrow> ((False, Some e), s2)
              | (None, s2) \<Rightarrow> ((False, None), s2\<lparr>v_triggered := True\<rparr>))
           else ((False, None), s1)))"

definition pubkey_file :: "'w tool_deps \<Rightarrow> string" where
  "pubkey_file d = Clean (Join [publicKeyPath d, ''cosign.pub''])"

definition CreateFileWithCosignPubKey :: "'w tool_deps \<Rightarrow> 'w tool_state step" where
  "CreateFileWithCosignPubKey d s =
     (case w_poll d 10 120 True (pubkey_condition d) (s\<lparr>v_name := [], v_attempt := 0, v_triggered := False\<rparr>) of
        (Some e, s1) \<Rightarrow> (Some (poll_failure (KContext ''timed out waiting for signing-secrets/cosign.pub'' (the (of_poll (Some e)))) e), s1)
      | (None, s1) \<Rightarrow>
          (case decode64 (v_name s1) of
             None \<Rightarrow> (Some (KMsg ''error decoding cosign.pub from base64''), s1)
           | Some decodedPublicKey \<Rightarrow>
               seq (must_do d [''mkdir'', ''-p'', publicKeyPath d])
                   (write_file d ''error creating cosign.pub file'' (pubkey_file d) decodedPublicKey) s1))"

end
