(* ===== verification/MergePatch.thy ===== *)
theory MergePatch
  imports OcPatches
begin

text \<open>
  What \<open>--type=merge\<close> means: a JSON merge patch as RFC 7386 defines it, and when one patch makes
  another one before it irrelevant. The packages build such patches for the TektonConfig; the API
  server applies them.
\<close>

section \<open>Applying a patch\<close>

fun members_of :: "json \<Rightarrow> (string \<times> json) list" where
  "members_of (JObj kvs) = kvs"
| "members_of _ = []"

fun merge_patch :: "json \<Rightarrow> json \<Rightarrow> json"
and merge_members :: "(string \<times> json) list \<Rightarrow> (string \<times> json) list \<Rightarrow> (string \<times> json) list" where
  "merge_patch target (JObj ps) = JObj (merge_members (members_of target) ps)"
| "merge_patch target v = v"
| "merge_members kvs [] = kvs"
| "merge_members kvs ((k, v) # ps) =
     merge_members (if v = JNull then AList.delete k kvs else AList.update k (merge_patch (jget kvs k) v) kvs) ps"

text \<open>The value at a path, when it is not an object.\<close>

fun value_at :: "string list \<Rightarrow> json \<Rightarrow> json option" where
  "value_at [] v = (case v of JObj _ \<Rightarrow> None | _ \<Rightarrow> Some v)"
| "value_at (k # ks) v = (case map_of (members_of v) k of None \<Rightarrow> None | Some w \<Rightarrow> value_at ks w)"

section \<open>Patches that only set\<close>

text \<open>No null, and no key twice.\<close>

fun proper :: "json \<Rightarrow> bool" where
  "proper JNull = False"
| "proper (JObj ps) = (distinct (map fst ps) \<and> list_all (\<lambda>kv. proper (snd kv)) ps)"
| "proper _ = True"

lemma properE: "proper (JObj ps) \<Longrightarrow> map_of ps k = Some v \<Longrightarrow> proper v"
  by (auto simp: list_all_iff dest!: map_of_SomeD)

lemma merge_lookup:
  "distinct (map fst ps) \<Longrightarrow> list_all (\<lambda>kv. proper (snd kv)) ps \<Longrightarrow>
   map_of (merge_members kvs ps) k =
     (case map_of ps k of None \<Rightarrow> map_of kvs k | Some v \<Rightarrow> Some (merge_patch (jget kvs k) v))"
proof (induction ps arbitrary: kvs)
  case (Cons p ps)
  obtain k' v where p: "p = (k', v)" by (cases p)
  with Cons.prems have v: "v \<noteq> JNull" and fresh: "map_of ps k' = None"
    by (auto simp: map_of_eq_None_iff)
  let ?kvs = "AList.update k' (merge_patch (jget kvs k') v) kvs"
  have "map_of (merge_members ?kvs ps) k
      = (case map_of ps k of None \<Rightarrow> map_of ?kvs k | Some v \<Rightarrow> Some (merge_patch (jget ?kvs k) v))"
    by (rule Cons.IH) (use Cons.prems in simp_all)
  with p v fresh show ?case by (cases "k = k'") (auto simp: update_conv' split: option.splits)
qed simp

section \<open>Covering\<close>

text \<open>\<open>covers r u\<close>: the patch \<open>r\<close> sets everything that \<open>u\<close> sets.\<close>

inductive covers :: "json \<Rightarrow> json \<Rightarrow> bool" where
  covers_value: "value_at [] r = Some r \<Longrightarrow> covers r u"
| covers_object: "(\<And>k w. map_of us k = Some w \<Longrightarrow> \<exists>v. map_of rs k = Some v \<and> covers v w) \<Longrightarrow>
    covers (JObj rs) (JObj us)"

inductive_cases covers_objectE: "covers (JObj rs) u"

lemma value_or_object:
  obtains "value_at [] v = Some v" "\<And>t. merge_patch t v = v" | rs where "v = JObj rs"
  by (cases v) auto

theorem covered_patch_absorbed:
  "covers r u \<Longrightarrow> proper r \<Longrightarrow> proper u \<Longrightarrow> value_at p (merge_patch (merge_patch t u) r) = value_at p (merge_patch t r)"
proof (induction p arbitrary: t u r)
  case Nil
  show ?case by (cases r) auto
next
  case (Cons k p)
  show ?case
  proof (cases r rule: value_or_object)
    case 1
    then show ?thesis by simp
  next
    case (2 rs)
    with Cons.prems(1) obtain us where u: "u = JObj us"
      and cov: "\<And>k w. map_of us k = Some w \<Longrightarrow> \<exists>v. map_of rs k = Some v \<and> covers v w"
      by (auto elim: covers_objectE)
    have rs: "distinct (map fst rs)" "list_all (\<lambda>kv. proper (snd kv)) rs" using Cons.prems(2) 2 by simp_all
    have us: "distinct (map fst us)" "list_all (\<lambda>kv. proper (snd kv)) us" using Cons.prems(3) u by simp_all
    note look = merge_lookup [OF rs] merge_lookup [OF us]
    show ?thesis
    proof (cases "map_of us k")
      case None
      with 2 u show ?thesis by (simp add: look split: option.splits)
    next
      case (Some w)
      then obtain v where v: "map_of rs k = Some v" "covers v w" using cov by blast
      have "proper v" "proper w" using properE Cons.prems(2,3) 2 u v(1) Some by blast+
      from Cons.IH [OF v(2) this] Some v(1) 2 u show ?thesis by (simp add: look)
    qed
  qed
qed

text \<open>What a patch sets is what is read afterwards.\<close>

lemma patched_value:
  "proper r \<Longrightarrow> value_at p r = Some v \<Longrightarrow> value_at p (merge_patch t r) = Some v"
proof (induction p arbitrary: t r)
  case Nil
  then show ?case by (cases r) auto
next
  case (Cons k p)
  then obtain rs w where r: "r = JObj rs" and w: "map_of rs k = Some w" "value_at p w = Some v"
    by (cases r) (auto split: option.splits)
  have rs: "distinct (map fst rs)" "list_all (\<lambda>kv. proper (snd kv)) rs" using Cons.prems(1) r by simp_all
  have "proper w" using properE Cons.prems(1) r w(1) by blast
  with Cons.IH w r show ?case by (simp add: merge_lookup [OF rs])
qed

text \<open>Paths that a patch does not reach keep their value.\<close>

fun reaches :: "json \<Rightarrow> string list \<Rightarrow> bool" where
  "reaches (JObj ps) (k # ks) = (case map_of ps k of None \<Rightarrow> False | Some v \<Rightarrow> reaches v ks)"
| "reaches _ _ = True"

lemma patch_keeps_others:
  "proper r \<Longrightarrow> \<not> reaches r p \<Longrightarrow> value_at p (merge_patch t r) = value_at p t"
proof (induction p arbitrary: t r)
  case Nil
  then show ?case by (cases r) auto
next
  case (Cons k p)
  then obtain rs where r: "r = JObj rs" by (cases r) auto
  have rs: "distinct (map fst rs)" "list_all (\<lambda>kv. proper (snd kv)) rs" using Cons.prems(1) r by simp_all
  show ?case
  proof (cases "map_of rs k")
    case None
    with r show ?thesis by (simp add: merge_lookup [OF rs])
  next
    case (Some w)
    have "proper w" "\<not> reaches w p" using properE Cons.prems r Some by auto
    from Cons.IH [OF this] have "value_at p (merge_patch (jget (members_of t) k) w) = value_at p (jget (members_of t) k)" .
    moreover obtain q qs where "p = q # qs" using \<open>\<not> reaches w p\<close> by (cases p) auto
    ultimately show ?thesis using Some r by (cases "map_of (members_of t) k") (simp_all add: merge_lookup [OF rs])
  qed
qed

lemma covers_reaches: "covers r u \<Longrightarrow> \<not> reaches r p \<Longrightarrow> \<not> reaches u p"
proof (induction r u arbitrary: p rule: covers.induct)
  case (covers_value r u)
  then show ?case by (cases r) auto
next
  case (covers_object us rs)
  then obtain k q where p: "p = k # q" by (cases p) auto
  show ?case
  proof (cases "map_of us k")
    case (Some w)
    then obtain v where "map_of rs k = Some v" "\<And>p. \<not> reaches v p \<Longrightarrow> \<not> reaches w p"
      using covers_object.IH by blast
    with covers_object.prems p Some show ?thesis by simp
  qed (simp add: p)
qed

section \<open>The add operation of a JSON patch\<close>

text \<open>\<open>add\<close> sets a member of an object that must exist (RFC 6902; arrays are not needed here).\<close>

fun json_add :: "string list \<Rightarrow> json \<Rightarrow> json \<Rightarrow> json option" where
  "json_add [] v t = Some v"
| "json_add [k] v (JObj kvs) = Some (JObj (AList.update k v kvs))"
| "json_add (k # ks) v (JObj kvs) =
     (case map_of kvs k of
        None \<Rightarrow> None
      | Some w \<Rightarrow> map_option (\<lambda>w'. JObj (AList.update k w' kvs)) (json_add ks v w))"
| "json_add (k # ks) v _ = None"

fun object_at :: "string list \<Rightarrow> json \<Rightarrow> bool" where
  "object_at [] (JObj kvs) = True"
| "object_at (k # ks) (JObj kvs) = (case map_of kvs k of None \<Rightarrow> False | Some w \<Rightarrow> object_at ks w)"
| "object_at _ _ = False"

lemma json_add_iff: "json_add (ks @ [k]) v t \<noteq> None \<longleftrightarrow> object_at ks t"
proof (induction ks arbitrary: t)
  case Nil
  then show ?case by (cases t) auto
next
  case (Cons k' ks)
  show ?case
  proof (cases t)
    case (JObj kvs)
    have "json_add ((k' # ks) @ [k]) v t = (case map_of kvs k' of None \<Rightarrow> None
        | Some w \<Rightarrow> map_option (\<lambda>w'. JObj (AList.update k' w' kvs)) (json_add (ks @ [k]) v w))"
      using JObj by (cases ks) (simp_all split: option.splits)
    with Cons JObj show ?thesis by (auto split: option.splits)
  qed auto
qed

lemma json_add_value:
  "json_add p v t = Some t' \<Longrightarrow> value_at q t' =
     (if take (length p) q = p then value_at (drop (length p) q) v
      else if take (length q) p = q then None else value_at q t)"
proof (induction p v t arbitrary: t' q rule: json_add.induct)
  case (2 k v kvs)
  then show ?case by (cases q) (auto simp: update_conv')
next
  case (3 k k2 ks v kvs)
  then obtain w w' where w: "map_of kvs k = Some w" "json_add (k2 # ks) v w = Some w'" "t' = JObj (AList.update k w' kvs)"
    by (auto split: option.splits)
  note IH = "3.IH" [OF w(1,2)]
  show ?case
  proof (cases q)
    case (Cons a q')
    with w IH [of q'] show ?thesis by (cases "a = k") (auto simp: update_conv')
  qed (use w in simp)
qed simp_all

end
