(* ===== verification/TektonChainsFacts.thy ===== *)
theory TektonChainsFacts
  imports TektonChains MergePatch PipelineRunFacts
begin

text \<open>
  What \<open>pkg/operator/tektonchains.go\<close> does to the cluster and leaves in files: the patches, the
  public key, the signature that is checked.
\<close>

section \<open>Commands\<close>

abbreviation line_of :: "'w tool_deps \<Rightarrow> string list \<Rightarrow> string list" where
  "line_of d args \<equiv> Command (oc_connection (w_oc d)) args"

lemma must_do_frame:
  assumes "must_do d args s = (err, s1)"
  obtains w res where "s1 = s\<lparr>io_world := w, io_trace := Ran (line_of d args) res # io_trace s\<rparr>"
    and "err = None \<longleftrightarrow> ExitCode res = 0"
  using assms
  by (fastforce simp: must_do_def w_must_def MustSucceed_def Assert_def Run_def k_run_def
      split: prod.splits sum.splits if_splits)

lemma output_frame:
  assumes "output_of d args s = (r, s1)"
  obtains w res where "s1 = s\<lparr>io_world := w, io_trace := Ran (line_of d args) res # io_trace s\<rparr>"
    and "\<And>out. r = Inr out \<longleftrightarrow> ExitCode res = 0 \<and> out = Stdout res"
  using assms
  by (fastforce simp: output_of_def w_must_def MustSucceed_def Assert_def Run_def k_run_def
      split: prod.splits sum.splits if_splits)

lemma trim_quotes: "q \<notin> set s \<Longrightarrow> trim_set (q # s @ [q]) [q] = s"
proof -
  assume q: "q \<notin> set s"
  have "trim_set (q # s @ [q]) [q] = trim_by (\<lambda>c. c = q) ((q # s) @ [q])" by (simp add: trim_set_def)
  also have "\<dots> = trim_by (\<lambda>c. c = q) (q # s)" by (rule trim_trailing) (rule refl)
  also have "\<dots> = trim_by (\<lambda>c. c = q) s" by (simp add: trim_by_def trim_left_by_def)
  also have "\<dots> = s" by (rule trim_by_id) (use q in auto)
  finally show ?thesis .
qed

section \<open>The public key\<close>

fun is_line :: "string list \<Rightarrow> 'b event \<Rightarrow> bool" where
  "is_line l (Ran l' res) = (l' = l)"
| "is_line l _ = False"

text \<open>The request to generate a key, and a read that printed no key.\<close>

definition generates :: "'w tool_deps \<Rightarrow> 'b event \<Rightarrow> bool" where
  "generates d = is_line (line_of d [''oc'', ''patch'', ''tektonconfig'', ''config'', ''-p'', generate_patch, ''--type=merge''])"

fun empty_read :: "'w tool_deps \<Rightarrow> 'b event \<Rightarrow> bool" where
  "empty_read d (Ran l res) = (l = line_of d pubkey_command \<and> ExitCode res = 0 \<and> trim_set (Stdout res) [CHR 0x27] = [])"
| "empty_read d _ = False"

lemma last_add_flags: "rest \<noteq> [] \<Longrightarrow> last (Command cn (prog # rest)) = last rest"
  by simp

lemma pubkey_not_patch [simp]: "\<not> generates d (Ran (line_of d pubkey_command) res)"
proof
  assume "generates d (Ran (line_of d pubkey_command) res)"
  then have "last (line_of d pubkey_command)
      = last (line_of d [''oc'', ''patch'', ''tektonconfig'', ''config'', ''-p'', generate_patch, ''--type=merge''])"
    by (simp add: generates_def)
  then show False by (simp add: pubkey_command_def)
qed

lemma patch_not_read: "generates d e \<Longrightarrow> \<not> empty_read d e"
  using pubkey_not_patch by (cases e) auto

text \<open>While the key is waited for: as many empty reads as attempts, and at most one patch, not before the third.\<close>

fun patched_late :: "'w tool_deps \<Rightarrow> 'b event list \<Rightarrow> bool" where
  "patched_late d [] = True"
| "patched_late d (e # es) =
     ((generates d e \<longrightarrow> 3 \<le> length (filter (empty_read d) es) \<and> filter (generates d) es = []) \<and> patched_late d es)"

definition waiting_key :: "'w tool_deps \<Rightarrow> 'w tool_state \<Rightarrow> 'w tool_state \<Rightarrow> bool" where
  "waiting_key d s0 s \<longleftrightarrow> (\<exists>evs. io_trace s = evs @ io_trace s0 \<and> patched_late d evs
     \<and> length (filter (empty_read d) evs) = v_attempt s \<and> (filter (generates d) evs = [] \<longleftrightarrow> \<not> v_triggered s)
     \<and> v_files s = v_files s0)"

lemma pubkey_step:
  assumes "waiting_key d s0 s" and "pubkey_condition d s = ((b, e), s')"
  shows "if b \<or> e \<noteq> None then \<exists>evs. io_trace s' = evs @ io_trace s0 \<and> patched_late d evs else waiting_key d s0 s'"
    and "v_files s' = v_files s0"
proof -
  from assms(1) obtain evs where evs: "io_trace s = evs @ io_trace s0" "patched_late d evs"
      "length (filter (empty_read d) evs) = v_attempt s" "filter (generates d) evs = [] \<longleftrightarrow> \<not> v_triggered s"
      "v_files s = v_files s0"
    by (auto simp: waiting_key_def)
  let ?s0 = "s\<lparr>v_attempt := Suc (v_attempt s)\<rparr>"
  obtain r s1 where o: "output_of d pubkey_command ?s0 = (r, s1)" by (metis surj_pair)
  obtain w res where s1: "s1 = ?s0\<lparr>io_world := w, io_trace := Ran (line_of d pubkey_command) res # io_trace ?s0\<rparr>"
      and r: "\<And>out. r = Inr out \<longleftrightarrow> ExitCode res = 0 \<and> out = Stdout res"
    by (rule output_frame [OF o]) (rule that)
  let ?g = "Ran (line_of d pubkey_command) res # evs"
  have g: "io_trace s1 = ?g @ io_trace s0" "patched_late d ?g" "filter (generates d) ?g = filter (generates d) evs"
      "v_files s1 = v_files s0" "v_attempt s1 = Suc (v_attempt s)" "v_triggered s1 = v_triggered s"
    using evs by (simp_all add: s1)
  have "(if b \<or> e \<noteq> None then \<exists>evs. io_trace s' = evs @ io_trace s0 \<and> patched_late d evs else waiting_key d s0 s')
      \<and> v_files s' = v_files s0"
  proof (cases r)
    case (Inl e')
    with assms(2) o have "b = False" "e = Some e'" "s' = s1" by (auto simp: pubkey_condition_def Let_def)
    with g show ?thesis by auto
  next
    case (Inr out)
    with r have out: "ExitCode res = 0" "out = Stdout res" by auto
    show ?thesis
    proof (cases "trim_set out [CHR 0x27] = []")
      case False
      with Inr assms(2) o have "b" "s' = s1\<lparr>v_name := trim_set out [CHR 0x27]\<rparr>" by (auto simp: pubkey_condition_def Let_def)
      with g show ?thesis by auto
    next
      case True
      with out g evs(3) have reads: "length (filter (empty_read d) ?g) = v_attempt s1" by simp
      show ?thesis
      proof (cases "3 \<le> v_attempt s1 \<and> \<not> v_triggered s1")
        case False
        with Inr True assms(2) o have "\<not> b" "e = None" "s' = s1" by (auto simp: pubkey_condition_def Let_def)
        moreover have "waiting_key d s0 s1"
          unfolding waiting_key_def using g reads evs(4) by (intro exI [of _ ?g]) simp
        ultimately show ?thesis using g by simp
      next
        case late: True
        obtain pe s2 where p: "patch_config d generate_patch s1 = (pe, s2)" by (metis surj_pair)
        define pl where "pl = line_of d [''oc'', ''patch'', ''tektonconfig'', ''config'', ''-p'', generate_patch, ''--type=merge'']"
        obtain w2 res2 where s2: "s2 = s1\<lparr>io_world := w2, io_trace := Ran pl res2 # io_trace s1\<rparr>"
          using p unfolding patch_config_def pl_def by (rule must_do_frame)
        have gp: "generates d (Ran pl res2 :: kube_body event)" by (simp add: generates_def pl_def)
        have late2: "patched_late d (Ran pl res2 # ?g)"
          using g(2,3,6) late reads evs(4) by simp
        have tr: "io_trace s2 = (Ran pl res2 # ?g) @ io_trace s0" using g(1) by (simp add: s2)
        show ?thesis
        proof (cases pe)
          case (Some x)
          with Inr True late assms(2) o p have "\<not> b" "e = Some x" "s' = s2" by (auto simp: pubkey_condition_def Let_def)
          with late2 tr g(4) show ?thesis by (auto simp: s2)
        next
          case None
          with Inr True late assms(2) o p have *: "\<not> b" "e = None" "s' = s2\<lparr>v_triggered := True\<rparr>"
            by (auto simp: pubkey_condition_def Let_def)
          have "waiting_key d s0 s'"
            unfolding waiting_key_def
            by (intro exI [of _ "Ran pl res2 # ?g"] conjI) (use late2 tr g(4) reads gp patch_not_read [OF gp] in \<open>simp_all add: * s2\<close>)
          with * g(4) show ?thesis by (simp add: s2)
        qed
      qed
    qed
  qed
  then show "if b \<or> e \<noteq> None then \<exists>evs. io_trace s' = evs @ io_trace s0 \<and> patched_late d evs else waiting_key d s0 s'"
    and "v_files s' = v_files s0" by auto
qed

lemma waiting_key_pending: "pending (pubkey_condition d) k s u \<Longrightarrow> waiting_key d s0 s \<Longrightarrow> waiting_key d s0 u"
  by (erule pending_invariant) (use pubkey_step(1) in fastforce)+


lemma write_file_frame:
  "write_file d msg file content s = (err, s') \<Longrightarrow>
     io_trace s' = io_trace s \<and> (err = None \<longrightarrow> v_files s' = (v_files s)(file \<mapsto> content))"
  by (auto simp: write_file_def split: if_splits)

lemma mkdir_not_patch: "\<not> generates d (Ran (line_of d [''mkdir'', ''-p'', p]) res)"
  by (simp add: generates_def)

lemma patched_late_split:
  "patched_late d (later @ e # earlier) \<Longrightarrow> generates d e \<Longrightarrow> 3 \<le> length (filter (empty_read d) earlier)"
  by (induction later) auto

lemma patched_late_once: "patched_late d evs \<Longrightarrow> length (filter (generates d) evs) \<le> 1"
  by (induction evs) auto

lemma key_wait:
  assumes "poll_contract (w_poll d)"
    and "w_poll d 10 120 True (pubkey_condition d) (s\<lparr>v_name := [], v_attempt := 0, v_triggered := False\<rparr>) = (r, s1)"
  obtains evs u where "io_trace s1 = evs @ io_trace s" "patched_late d evs" "v_files s1 = v_files s"
    "r = None \<Longrightarrow> pubkey_condition d u = ((True, None), s1)"
proof -
  let ?s = "s\<lparr>v_name := [], v_attempt := 0, v_triggered := False\<rparr>"
  obtain k u where p: "pending (pubkey_condition d) k ?s u" and
    e: "s1 = u \<and> r = Some PollTimeout \<or> (pubkey_condition d u = ((True, None), s1) \<and> r = None)
     \<or> (\<exists>b e. pubkey_condition d u = ((b, Some e), s1) \<and> r = Some (CondError e))"
    by (rule poll_ends [OF assms])
  have w: "waiting_key d s u"
    by (rule waiting_key_pending [OF p]) (simp add: waiting_key_def)
  have "(\<exists>evs. io_trace s1 = evs @ io_trace s \<and> patched_late d evs) \<and> v_files s1 = v_files s"
    using e
  proof (elim disjE exE conjE)
    assume "s1 = u"
    with w show ?thesis by (auto simp: waiting_key_def)
  next
    assume "pubkey_condition d u = ((True, None), s1)"
    from pubkey_step [OF w this] show ?thesis by (auto simp: waiting_key_def split: if_splits)
  next
    fix b e assume "pubkey_condition d u = ((b, Some e), s1)"
    from pubkey_step [OF w this] show ?thesis by (auto split: if_splits)
  qed
  moreover have "r = None \<Longrightarrow> pubkey_condition d u = ((True, None), s1)"
    using e by auto
  ultimately show thesis using that by metis
qed

section \<open>Shells to try them on\<close>

text \<open>A cluster whose commands all succeed and print what \<open>answer\<close> says.\<close>

definition chains_tools :: "string \<Rightarrow> (string list \<Rightarrow> string) \<Rightarrow> unit tool_deps" where
  "chains_tools ns answer = demo_tools\<lparr>w_poll := rounds_poller 4,
     w_oc := (w_oc demo_tools)\<lparr>oc_namespace := ns,
       oc_shell := \<lambda>args w. (\<lparr>ExitCode = 0, Stdout = answer args, Stderr = []\<rparr>, w)\<rparr>\<rparr>"

lemma chains_tools_poll [simp]: "poll_contract (w_poll (chains_tools ns answer))"
  by (simp add: chains_tools_def rounds_poller_contract)

definition quotes_key :: "string list \<Rightarrow> string" where
  "quotes_key args = [CHR 0x27] @ encode64 ''pem'' @ [CHR 0x27]"

definition signs :: "string list \<Rightarrow> string" where
  "signs args =
     (if hd args \<noteq> ''opc'' then []
      else if args ! 5 = uid_path then [CHR 0x27] @ ''u1'' @ [CHR 0x27]
      else if args ! 5 = chains_annotation ''signed'' then ''\"true\"''
      else ''\"c2ln\"'')"

section \<open>The patches\<close>

text \<open>The values that the patch texts mean.\<close>

definition chain_value :: "(string \<times> json) list \<Rightarrow> json" where
  "chain_value members = nest [''spec'', ''chain''] (JObj ((''options'', JObj [(''disabled'', JBool False)]) # members))"

definition update_value :: "string \<Rightarrow> string \<Rightarrow> string \<Rightarrow> string \<Rightarrow> string \<Rightarrow> string \<Rightarrow> json" where
  "update_value format taskrunStorage ociStorage transparency repository ef = chain_value (map (map_prod id JStr) (
     [(''artifacts.taskrun.format'', format), (''artifacts.taskrun.storage'', taskrunStorage),
      (''artifacts.pipelinerun.format'', format), (''artifacts.pipelinerun.storage'', taskrunStorage),
      (''artifacts.oci.storage'', ociStorage), (''transparency.enabled'', transparency)]
     @ (if repository \<noteq> [] then [(''storage.oci.repository'', repository)] else [])
     @ (if ef \<noteq> [] then [(''storage.oci.encoding-format'', ef)] else [])))"

definition default_settings :: "(string \<times> string) list" where
  "default_settings =
     [(''artifacts.taskrun.format'', ''in-toto''), (''artifacts.taskrun.storage'', ''tekton''),
      (''artifacts.pipelinerun.format'', ''in-toto''), (''artifacts.pipelinerun.storage'', ''tekton''),
      (''artifacts.oci.storage'', []), (''transparency.enabled'', ''false''),
      (''storage.oci.repository'', []), (''storage.oci.encoding-format'', ''dsse'')]"

definition restore_value :: json where
  "restore_value = chain_value (map (map_prod id JStr) default_settings)"

lemma plain_settings: "list_all (\<lambda>(k, v). plain k \<and> plain v) default_settings" "plain ''options''" "plain ''disabled''"
    "plain ''spec''" "plain ''chain''"
  by code_simp+

lemma update_patch_renders:
  assumes "plain format" "plain taskrunStorage" "plain ociStorage" "plain transparency" "plain repository" "plain ef"
  shows "chains_patch format taskrunStorage ociStorage transparency repository ef
    = render (update_value format taskrunStorage ociStorage transparency repository ef)"
  using assms plain_settings
  by (simp add: chains_patch_def update_value_def chain_value_def render_members_def quoted_def default_settings_def)

lemma restore_patch_renders: "restore_patch = render restore_value"
  by code_simp

section \<open>Properties\<close>

text \<open>
  CreateFileWithCosignPubKey asks the operator to generate a key at most once, and never before
  three reads of the secret have printed no key; this holds whatever it returns, for every timeout.
\<close>

theorem key_generated_once:
  assumes "poll_contract (w_poll d)" and "CreateFileWithCosignPubKey d s = (err, s')"
  shows "\<exists>evs. io_trace s' = evs @ io_trace s \<and> length (filter (generates d) evs) \<le> 1
    \<and> (\<forall>later e earlier. evs = later @ e # earlier \<and> generates d e \<longrightarrow> 3 \<le> length (filter (empty_read d) earlier))"
proof -
  obtain r s1 where w: "w_poll d 10 120 True (pubkey_condition d) (s\<lparr>v_name := [], v_attempt := 0, v_triggered := False\<rparr>) = (r, s1)"
    by (metis surj_pair)
  obtain evs u where evs: "io_trace s1 = evs @ io_trace s" "patched_late d evs" by (rule key_wait [OF assms(1) w])
  have "\<exists>evs. io_trace s' = evs @ io_trace s \<and> patched_late d evs"
  proof (cases "r = None \<and> decode64 (v_name s1) \<noteq> None")
    case False
    with assms(2) w have "s' = s1" by (auto simp: CreateFileWithCosignPubKey_def split: option.splits)
    with evs show ?thesis by auto
  next
    case True
    then obtain key where key: "r = None" "decode64 (v_name s1) = Some key" by auto
    obtain me s2 where m: "must_do d [''mkdir'', ''-p'', publicKeyPath d] s1 = (me, s2)" by (metis surj_pair)
    obtain w res where s2: "s2 = s1\<lparr>io_world := w, io_trace := Ran (line_of d [''mkdir'', ''-p'', publicKeyPath d]) res # io_trace s1\<rparr>"
      by (rule must_do_frame [OF m])
    have "io_trace s' = io_trace s2"
      using assms(2) w key m by (auto simp: CreateFileWithCosignPubKey_def seq_def write_file_frame split: option.splits)
    with s2 evs mkdir_not_patch show ?thesis
      by (intro exI [of _ "Ran (line_of d [''mkdir'', ''-p'', publicKeyPath d]) res # evs"]) (simp add: generates_def)
  qed
  then show ?thesis by (metis patched_late_once patched_late_split)
qed

theorem key_generated_once_witness:
  "\<exists>evs. io_trace (snd (CreateFileWithCosignPubKey (chains_tools ''ns'' (\<lambda>args. [])) tools_start)) = evs
    \<and> length (filter (generates (chains_tools ''ns'' (\<lambda>args. []))) evs) \<le> 1"
proof -
  let ?d = "chains_tools ''ns'' (\<lambda>args. [])"
  obtain err s' where r: "CreateFileWithCosignPubKey ?d tools_start = (err, s')" by (metis surj_pair)
  have "io_trace tools_start = []" by (simp add: tools_start_def)
  with key_generated_once [OF chains_tools_poll r] r show ?thesis by auto
qed

lemma demo_generates:
  "length (filter (generates (chains_tools ''ns'' (\<lambda>args. [])))
     (io_trace (snd (CreateFileWithCosignPubKey (chains_tools ''ns'' (\<lambda>args. [])) tools_start)))) = 1"
  by code_simp

text \<open>
  when CreateFileWithCosignPubKey returns nil, the key file holds the base64 decoding of a
  non-empty key that the secret was read with, so the key itself when the cluster stores its encoding;
  no other file changes.
\<close>

theorem key_file_is_secret:
  assumes "poll_contract (w_poll d)" and "CreateFileWithCosignPubKey d s = (None, s')"
  shows "\<exists>res key. Ran (line_of d pubkey_command) res \<in> set (io_trace s')
    \<and> trim_set (Stdout res) [CHR 0x27] \<noteq> [] \<and> decode64 (trim_set (Stdout res) [CHR 0x27]) = Some key
    \<and> v_files s' = (v_files s)(pubkey_file d \<mapsto> key)
    \<and> (\<forall>secret. Stdout res = [CHR 0x27] @ encode64 secret @ [CHR 0x27] \<longrightarrow> key = secret)"
proof -
  obtain r s1 where w: "w_poll d 10 120 True (pubkey_condition d) (s\<lparr>v_name := [], v_attempt := 0, v_triggered := False\<rparr>) = (r, s1)"
    by (metis surj_pair)
  with assms(2) obtain key s2 where r: "r = None" and key: "decode64 (v_name s1) = Some key"
    and m: "must_do d [''mkdir'', ''-p'', publicKeyPath d] s1 = (None, s2)"
    and f: "write_file d ''error creating cosign.pub file'' (pubkey_file d) key s2 = (None, s')"
    by (auto simp: CreateFileWithCosignPubKey_def seq_None split: option.splits)
  obtain evs u where files: "v_files s1 = v_files s" and c: "r = None \<Longrightarrow> pubkey_condition d u = ((True, None), s1)"
    by (rule key_wait [OF assms(1) w]) (rule that)
  obtain out s3 where o: "output_of d pubkey_command (u\<lparr>v_attempt := Suc (v_attempt u)\<rparr>) = (out, s3)" by (metis surj_pair)
  obtain w3 res where s3: "s3 = u\<lparr>v_attempt := Suc (v_attempt u), io_world := w3,
        io_trace := Ran (line_of d pubkey_command) res # io_trace u\<rparr>"
      and out: "\<And>x. out = Inr x \<longleftrightarrow> ExitCode res = 0 \<and> x = Stdout res"
    by (rule output_frame [OF o]) (rule that; simp)
  from c [OF r] o obtain x where x: "out = Inr x" "trim_set x [CHR 0x27] \<noteq> []" "s1 = s3\<lparr>v_name := trim_set x [CHR 0x27]\<rparr>"
    by (cases out) (auto simp: pubkey_condition_def Let_def split: if_splits prod.splits option.splits)
  then have x2: "x = Stdout res" using out by simp
  obtain w4 res4 where s2: "s2 = s1\<lparr>io_world := w4, io_trace := Ran (line_of d [''mkdir'', ''-p'', publicKeyPath d]) res4 # io_trace s1\<rparr>"
    by (rule must_do_frame [OF m])
  have "key = secret" if "Stdout res = [CHR 0x27] @ encode64 secret @ [CHR 0x27]" for secret
  proof -
    have "trim_set (Stdout res) [CHR 0x27] = encode64 secret" using that trim_quotes [of "CHR 0x27" "encode64 secret"] encode64_plain [of "CHR 0x27" secret] by auto
    with key x x2 show ?thesis by (simp add: decode64_encoded)
  qed
  moreover have "Ran (line_of d pubkey_command) res \<in> set (io_trace s')" "v_files s' = (v_files s)(pubkey_file d \<mapsto> key)"
    using write_file_frame [OF f] s2 x(3) s3 files by simp_all
  ultimately show ?thesis using key x x2 by auto
qed

lemma restore_covers:
  "covers restore_value (update_value format taskrunStorage ociStorage transparency repository ef)"
  unfolding restore_value_def update_value_def chain_value_def nest.simps default_settings_def
  by (rule covers_object, simp split: if_splits)+ 
    (auto intro!: covers_value covers_object split: if_splits)

lemma demo_key: "fst (CreateFileWithCosignPubKey (chains_tools ''ns'' quotes_key) tools_start) = None"
  by code_simp

theorem key_file_is_secret_witness:
  "v_files (snd (CreateFileWithCosignPubKey (chains_tools ''ns'' quotes_key) tools_start))
     (pubkey_file (chains_tools ''ns'' quotes_key)) = Some ''pem''"
proof -
  let ?d = "chains_tools ''ns'' quotes_key"
  obtain s' where r: "CreateFileWithCosignPubKey ?d tools_start = (None, s')"
    using demo_key by (metis prod.collapse)
  have "list_all (\<lambda>e. case e of Ran l res \<Rightarrow> Stdout res = [CHR 0x27] @ encode64 ''pem'' @ [CHR 0x27] | _ \<Rightarrow> True)
      (io_trace (snd (CreateFileWithCosignPubKey ?d tools_start)))"
    by code_simp
  then have "Ran l res \<in> set (io_trace s') \<Longrightarrow> Stdout res = [CHR 0x27] @ encode64 ''pem'' @ [CHR 0x27]" for l res
    by (fastforce simp: r list_all_iff)
  with key_file_is_secret [OF chains_tools_poll r] show ?thesis by (auto simp: r)
qed

lemma output_frame_vars:
  "output_of d args s = (r, s1) \<Longrightarrow> v_files s1 = v_files s \<and> set (io_trace s) \<subseteq> set (io_trace s1)"
  by (erule output_frame) auto

lemma signed_frame:
  assumes "signed_condition d rt path ns u = (r, u')"
  shows "v_files u' = v_files u \<and> set (io_trace u) \<subseteq> set (io_trace u')"
proof -
  obtain r1 s1 where o1: "output_of d (describe_last rt (chains_annotation ''signed'') ns) u = (r1, s1)" by (metis surj_pair)
  show ?thesis
  proof (cases r1)
    case (Inl e)
    with assms o1 output_frame_vars [OF o1] show ?thesis by (auto simp: signed_condition_def)
  next
    case (Inr out)
    obtain r2 s2 where o2: "output_of d (describe_last rt path ns) (s1\<lparr>v_signed := trim_set out [dquote]\<rparr>) = (r2, s2)"
      by (metis surj_pair)
    with assms o1 Inr output_frame_vars [OF o1] output_frame_vars [OF o2] show ?thesis
      by (cases r2) (auto simp: signed_condition_def Let_def)
  qed
qed

lemma signed_step:
  assumes "signed_condition d rt path ns u = ((True, None), s')"
  obtains w resT resS where "s' = u\<lparr>v_signed := ''true'', v_signature := trim_set (Stdout resS) [dquote], io_world := w,
      io_trace := Ran (line_of d (describe_last rt path ns)) resS
        # Ran (line_of d (describe_last rt (chains_annotation ''signed'') ns)) resT # io_trace u\<rparr>"
    and "ExitCode resT = 0" "ExitCode resS = 0" "trim_set (Stdout resT) [dquote] = ''true''"
    and "trim_set (Stdout resS) [dquote] \<noteq> []"
proof -
  obtain r1 s1 where o1: "output_of d (describe_last rt (chains_annotation ''signed'') ns) u = (r1, s1)" by (metis surj_pair)
  obtain w1 resT where s1: "s1 = u\<lparr>io_world := w1,
        io_trace := Ran (line_of d (describe_last rt (chains_annotation ''signed'') ns)) resT # io_trace u\<rparr>"
      and r1: "\<And>x. r1 = Inr x \<longleftrightarrow> ExitCode resT = 0 \<and> x = Stdout resT"
    by (rule output_frame [OF o1]) (rule that)
  let ?t = "s1\<lparr>v_signed := trim_set (Stdout resT) [dquote]\<rparr>"
  obtain r2 s2 where o2: "output_of d (describe_last rt path ns) ?t = (r2, s2)" by (metis surj_pair)
  obtain w2 resS where s2: "s2 = ?t\<lparr>io_world := w2, io_trace := Ran (line_of d (describe_last rt path ns)) resS # io_trace ?t\<rparr>"
      and r2: "\<And>x. r2 = Inr x \<longleftrightarrow> ExitCode resS = 0 \<and> x = Stdout resS"
    by (rule output_frame [OF o2]) (rule that; simp)
  have e1: "r1 = Inr (Stdout resT)" using assms o1 r1 by (cases r1) (auto simp: signed_condition_def)
  with assms o1 o2 r2 have e2: "r2 = Inr (Stdout resS)" by (cases r2) (auto simp: signed_condition_def Let_def)
  have v: "v_signed s2 = trim_set (Stdout resT) [dquote]" by (simp add: s2)
  have read: "trim_set (Stdout resT) [dquote] = ''true''" "trim_set (Stdout resS) [dquote] \<noteq> []"
    and "s' = s2\<lparr>v_signature := trim_set (Stdout resS) [dquote]\<rparr>"
    using assms o1 o2 e1 e2 v by (auto simp: signed_condition_def Let_def)
  then have "s' = u\<lparr>v_signed := ''true'', v_signature := trim_set (Stdout resS) [dquote], io_world := w2,
      io_trace := Ran (line_of d (describe_last rt path ns)) resS
        # Ran (line_of d (describe_last rt (chains_annotation ''signed'') ns)) resT # io_trace u\<rparr>"
    by (simp add: s1 s2)
  then show thesis
    by (rule that) (use read e1 e2 r1 r2 in auto)
qed

text \<open>
  C38: VerifySignature returns nil only after the last run was read with its UID, then as signed with a
  non-empty signature annotation for that UID, and cosign, run last, accepted the decoded signature that
  the file sign then holds.
\<close>

theorem signature_is_checked:
  assumes "poll_contract (w_poll d)" and "VerifySignature d rt s = (None, s')"
  shows "\<exists>resU resT resS resC sig before. Ran (line_of d (describe_last rt uid_path (oc_namespace (w_oc d)))) resU \<in> set before
    \<and> io_trace s' = Ran (line_of d (verify_blob d)) resC
        # Ran (line_of d (describe_last rt (chains_annotation
            (''signature-'' @ rt @ ''-'' @ trim_set (Stdout resU) [CHR 0x27])) (oc_namespace (w_oc d)))) resS
        # Ran (line_of d (describe_last rt (chains_annotation ''signed'') (oc_namespace (w_oc d)))) resT # before
    \<and> ExitCode resC = 0 \<and> trim_set (Stdout resT) [dquote] = ''true'' \<and> trim_set (Stdout resS) [dquote] \<noteq> []
    \<and> decode64 (trim_set (Stdout resS) [dquote]) = Some sig \<and> v_files s' = (v_files s)(''sign'' \<mapsto> sig)"
proof -
  let ?ns = "oc_namespace (w_oc d)"
  obtain r0 s0 where o: "output_of d (describe_last rt uid_path ?ns) s = (r0, s0)" by (metis surj_pair)
  obtain w0 resU where s0: "s0 = s\<lparr>io_world := w0, io_trace := Ran (line_of d (describe_last rt uid_path ?ns)) resU # io_trace s\<rparr>"
      and r0: "\<And>x. r0 = Inr x \<longleftrightarrow> ExitCode resU = 0 \<and> x = Stdout resU"
    by (rule output_frame [OF o]) (rule that)
  define path where "path = chains_annotation (''signature-'' @ rt @ ''-'' @ trim_set (Stdout resU) [CHR 0x27])"
  let ?c = "signed_condition d rt path ?ns" and ?t = "s0\<lparr>v_signed := [], v_signature := []\<rparr>"
  have ns: "?ns \<noteq> []" and r0': "r0 = Inr (Stdout resU)"
    using assms(2) o r0 by (cases r0; auto simp: VerifySignature_def Let_def split: if_splits)+
  obtain e s2 where p: "w_poll d 10 180 True ?c ?t = (e, s2)" by (metis surj_pair)
  obtain sig s3 where e: "e = None" and sig: "decode64 (v_signature s2) = Some sig"
      and f: "write_file d ''error creating signature file'' ''sign'' sig s2 = (None, s3)"
      and m: "must_do d (verify_blob d) s3 = (None, s')"
    using assms(2) o ns r0' p by (auto simp: VerifySignature_def Let_def path_def seq_None split: option.splits)
  obtain k u where pend: "pending ?c k ?t u" and c: "?c u = ((True, None), s2)"
    using poll_None [OF assms(1)] p e by metis
  have "v_files u = v_files s \<and> Ran (line_of d (describe_last rt uid_path ?ns)) resU \<in> set (io_trace u)"
    by (rule pending_invariant [OF pend]) (auto simp: s0 dest: signed_frame)
  moreover obtain w resT resS where s2: "s2 = u\<lparr>v_signed := ''true'', v_signature := trim_set (Stdout resS) [dquote], io_world := w,
      io_trace := Ran (line_of d (describe_last rt path ?ns)) resS
        # Ran (line_of d (describe_last rt (chains_annotation ''signed'') ?ns)) resT # io_trace u\<rparr>"
    and read: "trim_set (Stdout resT) [dquote] = ''true''" "trim_set (Stdout resS) [dquote] \<noteq> []"
    by (rule signed_step [OF c]) (rule that)
  moreover obtain w4 resC where s': "s' = s3\<lparr>io_world := w4, io_trace := Ran (line_of d (verify_blob d)) resC # io_trace s3\<rparr>"
      and resC: "None = (None :: kerror option) \<longleftrightarrow> ExitCode resC = 0"
    by (rule must_do_frame [OF m]) (rule that)
  ultimately show ?thesis
    using write_file_frame [OF f] sig
    by (intro exI [of _ resU] exI [of _ resT] exI [of _ resS] exI [of _ resC] exI [of _ sig] exI [of _ "io_trace u"])
      (simp add: path_def)
qed

lemma demo_signed: "fst (VerifySignature (chains_tools ''ns'' signs) ''taskrun'' tools_start) = None"
  by code_simp

theorem signature_is_checked_witness:
  "\<exists>sig. v_files (snd (VerifySignature (chains_tools ''ns'' signs) ''taskrun'' tools_start)) = [''sign'' \<mapsto> sig]"
proof -
  obtain s' where r: "VerifySignature (chains_tools ''ns'' signs) ''taskrun'' tools_start = (None, s')"
    using demo_signed by (metis prod.collapse)
  have "v_files tools_start = Map.empty" by (simp add: tools_start_def)
  with signature_is_checked [OF chains_tools_poll r] r show ?thesis by auto
qed

text \<open>
  RestoreTektonConfigChains undoes UpdateTektonConfigForChains whatever its arguments: the text of
  each patch prints the value it means, and, with merge patches applied as RFC 7386 says, an update
  followed by a restore leaves every setting as the restore alone does, the Chains settings at their
  defaults and everything the restore does not mention as it was.
\<close>

theorem restore_undoes_update:
  assumes "list_all plain [format, taskrunStorage, ociStorage, transparency, repository, ef]"
  shows "\<exists>u r. chains_patch format taskrunStorage ociStorage transparency repository ef = render u \<and> restore_patch = render r
    \<and> (\<forall>cfg p. value_at p (merge_patch (merge_patch cfg u) r) = value_at p (merge_patch cfg r))
    \<and> (\<forall>cfg p. \<not> reaches r p \<longrightarrow> value_at p (merge_patch (merge_patch cfg u) r) = value_at p cfg)
    \<and> (\<forall>cfg. \<forall>(k, v) \<in> set default_settings.
         value_at [''spec'', ''chain'', k] (merge_patch (merge_patch cfg u) r) = Some (JStr v))"
proof -
  let ?u = "update_value format taskrunStorage ociStorage transparency repository ef"
  have r: "proper restore_value" by code_simp
  have u: "proper ?u" by (auto simp: update_value_def chain_value_def)
  have absorbed: "value_at p (merge_patch (merge_patch cfg ?u) restore_value) = value_at p (merge_patch cfg restore_value)" for cfg p
    by (rule covered_patch_absorbed [OF restore_covers r u])
  have "value_at p (merge_patch cfg restore_value) = value_at p cfg" if "\<not> reaches restore_value p" for cfg p
    using patch_keeps_others r that by blast
  moreover have "list_all (\<lambda>(k, v). value_at [''spec'', ''chain'', k] restore_value = Some (JStr v)) default_settings"
    by code_simp
  then have "value_at [''spec'', ''chain'', k] (merge_patch cfg restore_value) = Some (JStr v)"
    if "(k, v) \<in> set default_settings" for cfg k v
    using that by (intro patched_value [OF r]) (auto simp: list_all_iff)
  then have "\<forall>(k, v) \<in> set default_settings. value_at [''spec'', ''chain'', k] (merge_patch cfg restore_value) = Some (JStr v)" for cfg
    by blast
  ultimately show ?thesis
    using assms update_patch_renders restore_patch_renders absorbed by (intro exI [of _ ?u] exI [of _ restore_value]) simp
qed

theorem restore_undoes_update_witness:
  "\<exists>u r. chains_patch ''slsa/v1'' ''oci'' ''oci'' ''true'' [] ''dsse'' = render u \<and> restore_patch = render r
    \<and> (\<forall>cfg p. value_at p (merge_patch (merge_patch cfg u) r) = value_at p (merge_patch cfg r))
    \<and> (\<forall>cfg p. \<not> reaches r p \<longrightarrow> value_at p (merge_patch (merge_patch cfg u) r) = value_at p cfg)
    \<and> (\<forall>cfg. \<forall>(k, v) \<in> set default_settings.
         value_at [''spec'', ''chain'', k] (merge_patch (merge_patch cfg u) r) = Some (JStr v))"
  by (rule restore_undoes_update) code_simp

end
