(* ===== verification/TektonResults.thy ===== *)
theory TektonResults
  imports TektonChains
begin

text \<open>
  \<open>pkg/operator/tektonresults.go\<close>: the secrets and the route of Tekton Results, its command line
  client, which is configured once per process, the checks of stored results, and the retention policy.
\<close>

section \<open>Secrets and route\<close>

definition CreateSecretsForTektonResults :: "'w tool_deps \<Rightarrow> 'w tool_state step" where
  "CreateSecretsForTektonResults d s =
     (case output_of d [''openssl'', ''rand'', ''-base64'', ''20''] s of
        (Inl e, s1) \<Rightarrow> (Some e, s1)
      | (Inr out, s1) \<Rightarrow>
          let password = replace_char (CHR 10) [] out in
          seq (must_do d [''oc'', ''create'', ''secret'', ''-n'', ''openshift-pipelines'', ''generic'', ''tekton-results-postgres'',
                 ''--from-literal=POSTGRES_USER=result'', ''--from-literal=POSTGRES_PASSWORD='' @ password])
         (seq (must_do d [''openssl'', ''req'', ''-x509'', ''-newkey'', ''rsa:4096'', ''-keyout'', ''key.pem'', ''-out'', ''cert.pem'',
                 ''-days'', ''365'', ''-nodes'', ''-subj'', ''/CN=tekton-results-api-service.openshift-pipelines.svc.cluster.local'',
                 ''-addext'', ''subjectAltName=DNS:tekton-results-api-service.openshift-pipelines.svc.cluster.local''])
              (must_do d [''oc'', ''create'', ''secret'', ''tls'', ''-n'', ''openshift-pipelines'', ''tekton-results-tls'',
                 ''--cert=cert.pem'', ''--key=key.pem''])) s1)"

definition EnsureResultsReady :: "'w tool_deps \<Rightarrow> 'w tool_state step" where
  "EnsureResultsReady d = must_do d [''oc'', ''wait'', ''--for=condition=Ready'', ''tektoninstallerset'', ''-l'',
     ''operator.tekton.dev/type=result'', ''--timeout=120s'']"

definition CreateResultsRoute :: "'w tool_deps \<Rightarrow> 'w tool_state \<Rightarrow> 'w tool_state" where
  "CreateResultsRoute d s = snd (w_run d [''oc'', ''create'', ''route'', ''-n'', ''openshift-pipelines'', ''passthrough'',
     ''tekton-results-api-service'', ''--service=tekton-results-api-service'', ''--port=8080''] s)"

definition GetResultsAPI :: "'w tool_deps \<Rightarrow> 'w tool_state \<Rightarrow> (kerror + string) \<times> 'w tool_state" where
  "GetResultsAPI d s =
     (case output_of d [''oc'', ''get'', ''route'', ''tekton-results-api-service'', ''-n'', ''openshift-pipelines'',
             ''--no-headers'', ''-o'', ''custom-columns=:spec.host''] s of
        (Inl e, s1) \<Rightarrow> (Inl e, s1)
      | (Inr host, s1) \<Rightarrow> (Inr (''https://'' @ trim_space host), s1))"

section \<open>The client\<close>

definition config_args :: "'w tool_deps \<Rightarrow> string \<Rightarrow> string \<Rightarrow> string list" where
  "config_args d host token =
     [''opc'', ''results'', ''config'', ''set'', ''--host='' @ host, ''--insecure-skip-tls-verify'']
     @ (if token \<noteq> [] then [''--token='' @ token] else [])
     @ (let kubeconfig = cn_Kubeconfig (oc_connection (w_oc d)) in
        if kubeconfig \<noteq> [] then [''--kubeconfig='' @ kubeconfig] else [])"

definition configure_client :: "'w tool_deps \<Rightarrow> 'w tool_state step" where
  "configure_client d s =
     (case GetResultsAPI d s of
        (Inl e, s1) \<Rightarrow> (Some e, s1)
      | (Inr host, s1) \<Rightarrow>
          (case w_run d [''oc'', ''whoami'', ''-t''] s1 of
             (res, s2) \<Rightarrow> must_do d (config_args d host (trim_space (Stdout res))) s2))"

text \<open>\<open>Once.Do\<close> counts the call as made also when it panics, as a failed assertion does.\<close>

definition ConfigureResultsCLI :: "'w tool_deps \<Rightarrow> 'w tool_state step" where
  "ConfigureResultsCLI d s =
     (if v_once s then (None, s)
      else (case configure_client d s of (err, s1) \<Rightarrow> (err, s1\<lparr>v_once := True\<rparr>)))"

section \<open>Stored runs\<close>

definition lastRunName :: "'w tool_deps \<Rightarrow> string \<Rightarrow> string \<Rightarrow> 'w tool_state \<Rightarrow> (kerror + string) \<times> 'w tool_state" where
  "lastRunName d resourceType ns s =
     (case output_of d [''tkn'', resourceType, ''describe'', ''--last'', ''-o'', ''jsonpath={.metadata.name}'', ''-n'', ns] s of
        (Inl e, s1) \<Rightarrow> (Inl e, s1)
      | (Inr name, s1) \<Rightarrow> (Inr (trim_set (trim_space name) [CHR 0x27]), s1))"

definition results_annotation :: "string \<Rightarrow> string" where
  "results_annotation key =
     ''jsonpath='' @ [CHR 0x27] @ ''{.metadata.annotations.results'' @ [backslash] @ ''.tekton'' @ [backslash] @ ''.dev/'' @ key
       @ ''}'' @ [CHR 0x27]"

fun read_annotations :: "'w tool_deps \<Rightarrow> string \<Rightarrow> string \<Rightarrow> string list \<Rightarrow> 'w tool_state \<Rightarrow> (kerror + string list) \<times> 'w tool_state" where
  "read_annotations d resourceType ns [] s = (Inr [], s)"
| "read_annotations d resourceType ns (key # keys) s =
     (case output_of d (describe_last resourceType (results_annotation key) ns) s of
        (Inl e, s1) \<Rightarrow> (Inl e, s1)
      | (Inr out, s1) \<Rightarrow>
          (case read_annotations d resourceType ns keys s1 of
             (Inl e, s2) \<Rightarrow> (Inl e, s2)
           | (Inr vs, s2) \<Rightarrow> (Inr (replace_char (CHR 0x27) [] out # vs), s2)))"

text \<open>The result, the record and whether it is stored.\<close>

definition GetResultsAnnotations :: "'w tool_deps \<Rightarrow> string \<Rightarrow> 'w tool_state \<Rightarrow> (kerror + string list) \<times> 'w tool_state" where
  "GetResultsAnnotations d resourceType s =
     (let ns = oc_namespace (w_oc d) in
      if ns = [] then (Inl (KAbort ''GetResultsAnnotations: store.Namespace() is empty - ensure hooks are configured''), s)
      else read_annotations d resourceType ns [''result'', ''record'', ''stored''] s)"

definition getRunsAnnotations ::
    "'w tool_deps \<Rightarrow> string \<Rightarrow> string \<Rightarrow> 'w tool_state \<Rightarrow> (kerror + (string \<rightharpoonup> string) option) \<times> 'w tool_state" where
  "getRunsAnnotations d resourceType name s =
     (let get = (\<lambda>kind. case k_get (w_server d) (Ref [] kind (w_namespace d) name) s of
          (Inl e, s1) \<Rightarrow> (Inl (KApi e), s1) | (Inr ob, s1) \<Rightarrow> (Inr (ri_Annotations (run_of (o_body ob))), s1)) in
      if resourceType = ''taskrun'' then get ''TaskRun''
      else if resourceType = ''pipelinerun'' then get ''PipelineRun''
      else (Inl (KMsg (''invalid resource type: '' @ resourceType)), s))"

definition stored_condition :: "'w tool_deps \<Rightarrow> string \<Rightarrow> string \<Rightarrow> ('w tool_state, kerror) cond" where
  "stored_condition d resourceType name s =
     (case getRunsAnnotations d resourceType name s of
        (Inl e, s1) \<Rightarrow> ((False, Some e), s1)
      | (Inr None, s1) \<Rightarrow> ((False, None), s1)
      | (Inr (Some annotations), s1) \<Rightarrow> ((label_of annotations ''results.tekton.dev/stored'' = ''true'', None), s1))"

definition name_path :: string where
  "name_path = ''jsonpath='' @ [CHR 0x27] @ ''{.metadata.name}'' @ [CHR 0x27]"

definition VerifyResultsAnnotationStored :: "'w tool_deps \<Rightarrow> string \<Rightarrow> 'w tool_state step" where
  "VerifyResultsAnnotationStored d resourceType s =
     (let ns = oc_namespace (w_oc d) in
      if ns = [] then (Some (KMsg ''VerifyResultsAnnotationStored: store.Namespace() is empty - ensure hooks are configured''), s)
      else
        (case output_of d [''tkn'', resourceType, ''describe'', ''--last'', ''-o'', name_path, ''-n'', ns] s of
           (Inl e, s1) \<Rightarrow> (Some e, s1)
         | (Inr out, s1) \<Rightarrow>
             (case w_poll d 5 600 True (stored_condition d resourceType (replace_char (CHR 0x27) [] out)) s1 of
                (err, s2) \<Rightarrow> (wrap_error ''annotation results.tekton.dev/stored is not true'' (of_poll err), s2))))"

text \<open>The output of a command of the client about the last run, and what it must say.\<close>

definition expect_hello :: "string \<Rightarrow> string \<Rightarrow> string \<Rightarrow> kerror option" where
  "expect_hello missing wrong out =
     (if contains out ''record not found'' then Some (KMsg missing)
      else if \<not> contains out ''Hello, Results!'' \<or> \<not> contains out ''Goodbye, Results!'' then Some (KMsg wrong)
      else None)"

definition check_last_run :: "'w tool_deps \<Rightarrow> string \<Rightarrow> (string \<Rightarrow> string list) \<Rightarrow> string \<Rightarrow> string \<Rightarrow> 'w tool_state step" where
  "check_last_run d resourceType line missing wrong s =
     (case ConfigureResultsCLI d (pause 10 s) of
        (Some e, s1) \<Rightarrow> (Some e, s1)
      | (None, s1) \<Rightarrow>
          (case lastRunName d resourceType (oc_namespace (w_oc d)) s1 of
             (Inl e, s2) \<Rightarrow> (Some e, s2)
           | (Inr name, s2) \<Rightarrow>
               (case output_of d (line name) s2 of
                  (Inl e, s3) \<Rightarrow> (Some e, s3)
                | (Inr out, s3) \<Rightarrow> (expect_hello missing wrong out, s3))))"

definition VerifyResultsLogs :: "'w tool_deps \<Rightarrow> string \<Rightarrow> 'w tool_state step" where
  "VerifyResultsLogs d resourceType s =
     (let ns = oc_namespace (w_oc d) in
      if ns = [] then (Some (KMsg ''VerifyResultsLogs: store.Namespace() is empty - ensure hooks are configured''), s)
      else
        (case GetResultsAnnotations d resourceType s of
           (Inl e, s1) \<Rightarrow> (Some e, s1)
         | (Inr anns, s1) \<Rightarrow>
             if anns ! 1 = [] then (Some (KMsg ''annotation results.tekton.dev/record is not set''), s1)
             else check_last_run d resourceType (\<lambda>name. [''opc'', ''results'', resourceType, ''logs'', name, ''-n'', ns])
                    ''results log not found'' ''logs are incorrect'' s1))"

definition VerifyResultsRecords :: "'w tool_deps \<Rightarrow> string \<Rightarrow> 'w tool_state step" where
  "VerifyResultsRecords d resourceType s =
     (let ns = oc_namespace (w_oc d) in
      if ns = [] then (Some (KMsg ''VerifyResultsRecords: store.Namespace() is empty - ensure hooks are configured''), s)
      else check_last_run d resourceType
             (\<lambda>name. [''opc'', ''results'', resourceType, ''describe'', name, ''-n'', ns, ''-o'', ''json''])
             ''results record not found'' ''records are incorrect'' s)"

section \<open>The retention policy\<close>

definition escape_policies :: "string \<Rightarrow> string" where
  "escape_policies policies =
     replace_char (CHR 10) [backslash, CHR ''n'']
       (replace_char dquote [backslash, dquote] (replace_char backslash [backslash, backslash] policies))"

definition retention_fields :: "string \<Rightarrow> string \<Rightarrow> string \<Rightarrow> string \<Rightarrow> string list" where
  "retention_fields runAt defaultRetention maxRetention policies =
     [''\"runAt\":\"'' @ runAt @ ''\"'']
     @ (if defaultRetention \<noteq> [] then [''\"defaultRetention\":\"'' @ defaultRetention @ ''\"''] else [])
     @ (if maxRetention \<noteq> [] then [''\"maxRetention\":\"'' @ maxRetention @ ''\"''] else [])
     @ (if policies \<noteq> [] then [''\"policies\":\"'' @ escape_policies policies @ ''\"''] else [])"

definition options_patch :: string where
  "options_patch = ''{\"spec\":{\"result\":{\"options\":{}}}}''"

definition retention_patch :: "string \<Rightarrow> string \<Rightarrow> string \<Rightarrow> string \<Rightarrow> string" where
  "retention_patch runAt defaultRetention maxRetention policies =
     ''[{\"op\":\"add\",\"path\":\"/spec/result/options/configMaps\",\"value\":''
     @ ''{\"tekton-results-config-results-retention-policy\":{\"data\":{''
     @ join '','' (retention_fields runAt defaultRetention maxRetention policies) @ ''}}}}]''"

definition ConfigureRetentionPolicy :: "'w tool_deps \<Rightarrow> string \<Rightarrow> string \<Rightarrow> string \<Rightarrow> string \<Rightarrow> 'w tool_state step" where
  "ConfigureRetentionPolicy d runAt defaultRetention maxRetention policies =
     seq (must_do d [''oc'', ''patch'', ''tektonconfig'', ''config'', ''--type=merge'', ''-p'', options_patch])
         (must_do d [''oc'', ''patch'', ''tektonconfig'', ''config'', ''--type=json'', ''-p'',
            retention_patch runAt defaultRetention maxRetention policies])"

section \<open>Deleted results\<close>

definition describe_result :: "string \<Rightarrow> string \<Rightarrow> string \<Rightarrow> string list" where
  "describe_result resourceType name namespace =
     [''opc'', ''results'', resourceType, ''describe'', name, ''-n'', namespace, ''-o'', ''json'']"

definition result_gone :: "cmd_result \<Rightarrow> bool" where
  "result_gone res = (ExitCode res \<noteq> 0 \<or> contains (Stdout res) ''not found'')"

definition VerifyResultExists :: "'w tool_deps \<Rightarrow> string \<Rightarrow> string \<Rightarrow> string \<Rightarrow> 'w tool_state step" where
  "VerifyResultExists d resourceType name namespace s =
     (case ConfigureResultsCLI d s of
        (Some e, s1) \<Rightarrow> (Some e, s1)
      | (None, s1) \<Rightarrow>
          (case w_run d (describe_result resourceType name namespace) s1 of
             (res, s2) \<Rightarrow>
               (if result_gone res then Some (KMsg (''result for '' @ resourceType @ '' '' @ name @ '' not found'')) else None, s2)))"

text \<open>
  The clock and the pause are functions of the world, in nanoseconds. None is a loop that does not
  end.
\<close>

definition pollInterval :: nat where
  "pollInterval = 10000000000"

partial_function (option) deletion_loop ::
    "'w tool_deps \<Rightarrow> ('w \<Rightarrow> nat) \<Rightarrow> (nat \<Rightarrow> 'w \<Rightarrow> 'w) \<Rightarrow> string list \<Rightarrow> kerror \<Rightarrow> nat \<Rightarrow> 'w tool_state \<Rightarrow>
     (kerror option \<times> 'w tool_state) option" where
  "deletion_loop d clock sleep line late deadline s =
     (if clock (io_world s) < deadline then
        (case w_run d line s of
           (res, s1) \<Rightarrow>
             if result_gone res then Some (None, s1)
             else if deadline \<le> clock (io_world s1) then Some (Some late, s1)
             else deletion_loop d clock sleep line late deadline
                    (s1\<lparr>io_world := sleep (min pollInterval (deadline - clock (io_world s1))) (io_world s1)\<rparr>))
      else Some (Some late, s))"

definition VerifyResultDeletedWithTimeout ::
    "'w tool_deps \<Rightarrow> ('w \<Rightarrow> nat) \<Rightarrow> (nat \<Rightarrow> 'w \<Rightarrow> 'w) \<Rightarrow> string \<Rightarrow> string \<Rightarrow> string \<Rightarrow> nat \<Rightarrow> 'w tool_state \<Rightarrow>
     (kerror option \<times> 'w tool_state) option" where
  "VerifyResultDeletedWithTimeout d clock sleep resourceType name namespace timeout s =
     (case ConfigureResultsCLI d s of
        (Some e, s1) \<Rightarrow> Some (Some e, s1)
      | (None, s1) \<Rightarrow>
          deletion_loop d clock sleep (describe_result resourceType name namespace)
            (KMsg (''result for '' @ resourceType @ '' '' @ name @ '' still exists (expected to be deleted)''))
            (clock (io_world s1) + timeout) s1)"

end
