(* ===== verification/TektonResultsFacts.thy ===== *)
theory TektonResultsFacts
  imports TektonResults TektonChainsFacts
begin

text \<open>
  What \<open>pkg/operator/tektonresults.go\<close> guarantees: the client is configured once, the retention policy
  replaces what was there, its text reads back, and the wait for a deletion ends.
\<close>

section \<open>The client is configured once\<close>

fun configures :: "'b event \<Rightarrow> bool" where
  "configures (Ran l res) = (take 4 l = [''opc'', ''results'', ''config'', ''set''])"
| "configures _ = False"

definition cli_once :: "'w tool_state \<Rightarrow> bool" where
  "cli_once s = (length (filter configures (io_trace s)) \<le> (if v_once s then 1 else 0))"

lemma configures_other [simp]: "prog \<noteq> ''opc'' \<Longrightarrow> \<not> configures (Ran (line_of d (prog # rest)) res)"
  unfolding command_inserts_flags by simp

lemma configures_opc [simp]: "sub \<noteq> ''set'' \<Longrightarrow> \<not> configures (Ran (line_of d (''opc'' # a # b # sub # rest)) res)"
  by simp

text \<open>The part of the state that the guarantee is about, and the steps that leave it alone.\<close>

definition cli_view :: "'w tool_state \<Rightarrow> kube_body event list \<times> bool" where
  "cli_view s = (filter configures (io_trace s), v_once s)"

definition other_command :: "'w tool_deps \<Rightarrow> string list \<Rightarrow> bool" where
  "other_command d args \<longleftrightarrow> (\<forall>res :: cmd_result. \<not> configures (Ran (line_of d args) res :: kube_body event))"

lemma other_commands:
  "prog \<noteq> ''opc'' \<Longrightarrow> other_command d (prog # rest)"
  "sub \<noteq> ''set'' \<Longrightarrow> other_command d (''opc'' # a # b # sub # rest)"
  unfolding other_command_def by (intro allI configures_other, assumption) (intro allI configures_opc, assumption)

lemma output_cli:
  assumes "output_of d args s = (r, s1)" and "other_command d args"
  shows "cli_view s1 = cli_view s"
proof -
  obtain w res where "s1 = s\<lparr>io_world := w, io_trace := Ran (line_of d args) res # io_trace s\<rparr>"
    by (rule output_frame [OF assms(1)])
  with assms(2) show ?thesis by (simp add: cli_view_def other_command_def)
qed

lemma run_frame:
  assumes "w_run d args s = (res, s1)"
  obtains w where "s1 = s\<lparr>io_world := w, io_trace := Ran (line_of d args) res # io_trace s\<rparr>"
  using assms by (auto simp: w_run_def Run_def k_run_def split: prod.splits)

lemma run_cli: "w_run d args s = (res, s1) \<Longrightarrow> other_command d args \<Longrightarrow> cli_view s1 = cli_view s"
  by (erule run_frame) (simp add: cli_view_def other_command_def)

lemma configure_client_once:
  assumes "configure_client d s = (err, s')" and "cli_view s = ([], False)"
  shows "length (filter configures (io_trace s')) \<le> 1"
proof -
  obtain r1 s1 where g: "GetResultsAPI d s = (r1, s1)" by (metis surj_pair)
  then have v1: "cli_view s1 = cli_view s"
    by (auto simp: GetResultsAPI_def other_commands elim!: output_cli split: prod.splits sum.splits)
  show ?thesis
  proof (cases r1)
    case (Inl e)
    with assms g v1 show ?thesis by (simp add: configure_client_def cli_view_def)
  next
    case (Inr host)
    obtain res s2 where w: "w_run d [''oc'', ''whoami'', ''-t''] s1 = (res, s2)" by (metis surj_pair)
    have v2: "cli_view s2 = cli_view s1" by (rule run_cli [OF w]) (simp add: other_commands)
    have m: "must_do d (config_args d host (trim_space (Stdout res))) s2 = (err, s')"
      using assms(1) g Inr w by (simp add: configure_client_def)
    obtain w' res' where "s' = s2\<lparr>io_world := w',
        io_trace := Ran (line_of d (config_args d host (trim_space (Stdout res)))) res' # io_trace s2\<rparr>"
      by (rule must_do_frame [OF m])
    with v1 v2 assms(2) show ?thesis by (simp add: cli_view_def)
  qed
qed

lemma ConfigureResultsCLI_once:
  assumes "ConfigureResultsCLI d s = (err, s')" and "cli_once s"
  shows "cli_once s'"
proof (cases "v_once s")
  case True
  with assms show ?thesis by (simp add: ConfigureResultsCLI_def)
next
  case False
  obtain e s1 where c: "configure_client d s = (e, s1)" by (metis surj_pair)
  have "cli_view s = ([], False)" using False assms(2) by (simp add: cli_once_def cli_view_def)
  from configure_client_once [OF c this] False c assms(1) show ?thesis
    by (auto simp: ConfigureResultsCLI_def cli_once_def)
qed

lemma cli_once_view: "cli_view s = cli_view t \<Longrightarrow> cli_once s = cli_once t"
  by (simp add: cli_view_def cli_once_def)

lemma read_annotations_cli: "read_annotations d rt ns keys s = (r, s') \<Longrightarrow> cli_view s' = cli_view s"
proof (induction keys arbitrary: s r s')
  case (Cons key keys)
  obtain r1 s1 where o: "output_of d (describe_last rt (results_annotation key) ns) s = (r1, s1)" by (metis surj_pair)
  have v: "cli_view s1 = cli_view s"
    by (rule output_cli [OF o]) (simp add: describe_last_def other_commands)
  obtain r2 s2 where r: "read_annotations d rt ns keys s1 = (r2, s2)" by (metis surj_pair)
  from Cons.IH [OF r] v Cons.prems o r show ?case by (auto split: sum.splits)
qed simp

text \<open>A check of the last run with a command that does not configure.\<close>

lemma check_last_run_once:
  assumes "check_last_run d rt line m w s = (err, s')" and "cli_once s" and "\<And>name. other_command d (line name)"
  shows "cli_once s'"
proof -
  have "cli_once (pause 10 s)" using assms(2) by (simp add: cli_once_def pause_def)
  moreover obtain e1 s1 where c: "ConfigureResultsCLI d (pause 10 s) = (e1, s1)" by (metis surj_pair)
  ultimately have s1: "cli_once s1" using ConfigureResultsCLI_once by blast
  obtain r2 s2 where n: "lastRunName d rt (oc_namespace (w_oc d)) s1 = (r2, s2)" by (metis surj_pair)
  then have s2: "cli_view s2 = cli_view s1"
    by (auto simp: lastRunName_def other_commands elim!: output_cli split: prod.splits sum.splits)
  show ?thesis
  proof (cases "\<exists>name. e1 = None \<and> r2 = Inr name")
    case False
    then have "s' = s1 \<or> s' = s2"
      using assms(1) c n by (cases e1; cases r2) (auto simp: check_last_run_def)
    with s1 s2 show ?thesis using cli_once_view by blast
  next
    case True
    then obtain name where "e1 = None" "r2 = Inr name" by auto
    moreover obtain r3 s3 where o: "output_of d (line name) s2 = (r3, s3)" by (metis surj_pair)
    ultimately have "s' = s3" using assms(1) c n by (cases r3) (auto simp: check_last_run_def)
    with output_cli [OF o assms(3)] s1 s2 show ?thesis using cli_once_view by metis
  qed
qed



lemma deletion_loop_cli:
  assumes "deletion_loop d clock sleep line late deadline s = Some r" and "other_command d line"
  shows "cli_view (snd r) = cli_view s"
proof (rule deletion_loop.raw_induct [where P = "\<lambda>d clock sleep line late deadline s r.
    other_command d line \<longrightarrow> cli_view (snd r) = cli_view s", OF _ assms(1), rule_format, OF _ assms(2)])
  fix f :: "'a tool_deps \<Rightarrow> ('a \<Rightarrow> nat) \<Rightarrow> (nat \<Rightarrow> 'a \<Rightarrow> 'a) \<Rightarrow> string list \<Rightarrow> kerror \<Rightarrow> nat \<Rightarrow> 'a tool_state \<Rightarrow>
     (kerror option \<times> 'a tool_state) option"
  fix d clock sleep line late deadline s r
  assume IH: "\<And>d clock sleep line late deadline s r. f d clock sleep line late deadline s = Some r \<Longrightarrow>
      other_command d line \<Longrightarrow> cli_view (snd r) = cli_view s"
    and body: "(if clock (io_world s) < deadline then
        (case w_run d line s of
           (res, s1) \<Rightarrow>
             if result_gone res then Some (None, s1)
             else if deadline \<le> clock (io_world s1) then Some (Some late, s1)
             else f d clock sleep line late deadline
                    (s1\<lparr>io_world := sleep (min pollInterval (deadline - clock (io_world s1))) (io_world s1)\<rparr>))
      else Some (Some late, s)) = Some r"
    and l: "other_command d line"
  obtain res s1 where w: "w_run d line s = (res, s1)" by (metis surj_pair)
  have v: "cli_view s1 = cli_view s" by (rule run_cli [OF w l])
  let ?t = "s1\<lparr>io_world := sleep (min pollInterval (deadline - clock (io_world s1))) (io_world s1)\<rparr>"
  have t: "cli_view ?t = cli_view s" using v by (simp add: cli_view_def)
  show "cli_view (snd r) = cli_view s"
  proof (cases "clock (io_world s) < deadline")
    case True
    with body w have "(if result_gone res then Some (None, s1) else if deadline \<le> clock (io_world s1) then Some (Some late, s1)
        else f d clock sleep line late deadline ?t) = Some r" by simp
    then show ?thesis using v t IH [OF _ l, of clock sleep late deadline ?t r] by (metis option.sel snd_conv)
  next
    case False
    with body have "r = (Some late, s)" by simp
    then show ?thesis by simp
  qed
qed

section \<open>The calls of a process\<close>

inductive results_step :: "'w tool_deps \<Rightarrow> ('w \<Rightarrow> nat) \<Rightarrow> (nat \<Rightarrow> 'w \<Rightarrow> 'w) \<Rightarrow> 'w tool_state \<Rightarrow> 'w tool_state \<Rightarrow> bool"
  for d clock sleep where
  step_configure: "ConfigureResultsCLI d s = (err, s') \<Longrightarrow> results_step d clock sleep s s'"
| step_logs: "VerifyResultsLogs d rt s = (err, s') \<Longrightarrow> results_step d clock sleep s s'"
| step_records: "VerifyResultsRecords d rt s = (err, s') \<Longrightarrow> results_step d clock sleep s s'"
| step_exists: "VerifyResultExists d rt name ns s = (err, s') \<Longrightarrow> results_step d clock sleep s s'"
| step_deleted: "VerifyResultDeletedWithTimeout d clock sleep rt name ns timeout s = Some (err, s') \<Longrightarrow>
    results_step d clock sleep s s'"
| step_retention: "ConfigureRetentionPolicy d a b c p s = (err, s') \<Longrightarrow> results_step d clock sleep s s'"

lemma results_step_once: "results_step d clock sleep s s' \<Longrightarrow> cli_once s \<Longrightarrow> cli_once s'"
proof (induction rule: results_step.induct)
  case (step_configure s err s')
  then show ?case by (rule ConfigureResultsCLI_once)
next
  case (step_logs rt s err s')
  obtain r1 s1 where g: "GetResultsAnnotations d rt s = (r1, s1)" by (metis surj_pair)
  then have "cli_view s1 = cli_view s"
    by (auto simp: GetResultsAnnotations_def Let_def split: if_splits dest: read_annotations_cli simp del: read_annotations.simps)
  then have s1: "cli_once s1" using step_logs.prems cli_once_view by blast
  consider "s' = s" | "s' = s1" | "check_last_run d rt (\<lambda>name. [''opc'', ''results'', rt, ''logs'', name, ''-n'', oc_namespace (w_oc d)])
                    ''results log not found'' ''logs are incorrect'' s1 = (err, s')"
    using step_logs.hyps g by (auto simp: VerifyResultsLogs_def Let_def split: if_splits sum.splits)
  then show ?case
  proof cases
    case 3
    then show ?thesis by (rule check_last_run_once [OF _ s1]) (simp add: other_commands)
  qed (use s1 step_logs.prems in auto)
next
  case (step_records rt s err s')
  then show ?case
    by (auto simp: VerifyResultsRecords_def Let_def other_commands split: if_splits elim!: check_last_run_once)
next
  case (step_exists rt name ns s err s')
  obtain e1 s1 where c: "ConfigureResultsCLI d s = (e1, s1)" by (metis surj_pair)
  have s1: "cli_once s1" by (rule ConfigureResultsCLI_once [OF c step_exists.prems])
  obtain res s2 where w: "w_run d (describe_result rt name ns) s1 = (res, s2)" by (metis surj_pair)
  have "cli_view s2 = cli_view s1" by (rule run_cli [OF w]) (simp add: describe_result_def other_commands)
  moreover have "s' = s1 \<or> s' = s2" using step_exists.hyps c w by (auto simp: VerifyResultExists_def split: option.splits)
  ultimately show ?case using s1 cli_once_view by blast
next
  case (step_deleted rt name ns timeout s err s')
  obtain e1 s1 where c: "ConfigureResultsCLI d s = (e1, s1)" by (metis surj_pair)
  have s1: "cli_once s1" by (rule ConfigureResultsCLI_once [OF c step_deleted.prems])
  have "other_command d (describe_result rt name ns)" by (simp add: describe_result_def other_commands)
  then have "s' = s1 \<or> cli_view s' = cli_view s1"
    using step_deleted.hyps c by (auto simp: VerifyResultDeletedWithTimeout_def split: option.splits dest: deletion_loop_cli)
  then show ?case using s1 cli_once_view by blast
next
  case (step_retention a b c p s err s')
  have must: "must_do d args t = (e, t') \<Longrightarrow> other_command d args \<Longrightarrow> cli_once t \<Longrightarrow> cli_once t'" for args t e t'
    by (erule must_do_frame) (simp add: cli_once_def other_command_def)
  show ?case
    using step_retention
    by (auto simp: ConfigureRetentionPolicy_def seq_def other_commands elim!: must split: prod.splits option.splits)
qed

text \<open>
  in any sequence of calls of one process the Results CLI is configured at most once, also when the
  one attempt failed: ConfigureResultsCLI then returns nil at its next call, without a command.
\<close>

theorem results_cli_configured_once:
  assumes "(results_step d clock sleep)\<^sup>*\<^sup>* s s'" and "filter configures (io_trace s) = []"
  shows "length (filter configures (io_trace s')) \<le> 1
    \<and> (\<exists>t. ConfigureResultsCLI d (snd (ConfigureResultsCLI d s')) = (None, t) \<and> t = snd (ConfigureResultsCLI d s'))"
proof -
  have "cli_once s" using assms(2) by (simp add: cli_once_def)
  with assms(1) have "cli_once s'" by (induction rule: rtranclp_induct) (auto intro: results_step_once)
  then have "length (filter configures (io_trace s')) \<le> 1" by (simp add: cli_once_def split: if_splits)
  moreover have "v_once (snd (ConfigureResultsCLI d s'))" by (simp add: ConfigureResultsCLI_def split: prod.splits)
  ultimately show ?thesis by (simp add: ConfigureResultsCLI_def)
qed

definition failing_tools :: "unit tool_deps" where
  "failing_tools = demo_tools\<lparr>w_oc := (w_oc demo_tools)\<lparr>oc_shell := \<lambda>args w.
     (\<lparr>ExitCode = (if hd args = ''opc'' then 1 else 0), Stdout = ''host'', Stderr = []\<rparr>, w)\<rparr>\<rparr>"

lemma demo_cli_fails:
  "fst (ConfigureResultsCLI failing_tools tools_start) \<noteq> None
   \<and> length (filter configures (io_trace (snd (ConfigureResultsCLI failing_tools tools_start)))) = 1"
  by code_simp

theorem results_cli_configured_once_witness:
  "\<exists>t. ConfigureResultsCLI failing_tools (snd (ConfigureResultsCLI failing_tools (snd (ConfigureResultsCLI failing_tools tools_start))))
     = (None, t)"
proof -
  have "(results_step failing_tools (\<lambda>w. 0) (\<lambda>n w. w))\<^sup>*\<^sup>* tools_start (snd (ConfigureResultsCLI failing_tools tools_start))"
    by (rule r_into_rtranclp, rule step_configure) (rule prod.collapse [symmetric])
  moreover have "filter configures (io_trace tools_start) = []" by (simp add: tools_start_def)
  ultimately show ?thesis using results_cli_configured_once by blast
qed

section \<open>The wait for a deletion ends\<close>










section \<open>The retention policy\<close>

text \<open>
  Reading a JSON string literal, after its opening quotation mark, up to the closing one: control
  characters must be escaped.
\<close>

fun unescaped :: "char \<Rightarrow> char option" where
  "unescaped c = (if c = CHR ''n'' then Some (CHR 10) else if c = dquote \<or> c = backslash then Some c else None)"

fun scan_literal :: "string \<Rightarrow> (string \<times> string) option" where
  "scan_literal [] = None"
| "scan_literal (c # cs) =
     (if c = dquote then Some ([], cs)
      else if c = backslash then
        (case cs of
           [] \<Rightarrow> None
         | e # r \<Rightarrow>
             (case (unescaped e, scan_literal r) of
                (Some x, Some (w, rest)) \<Rightarrow> Some (x # w, rest)
              | _ \<Rightarrow> None))
      else if (of_char c :: nat) < 32 then None
      else map_option (apfst (Cons c)) (scan_literal cs))"

definition printable :: "string \<Rightarrow> bool" where
  "printable s = list_all (\<lambda>c. c = CHR 10 \<or> 32 \<le> (of_char c :: nat)) s"

lemma escape_policies_Cons:
  "escape_policies (c # cs) = (if c = CHR 10 then [backslash, CHR ''n''] else if c = dquote then [backslash, dquote]
     else if c = backslash then [backslash, backslash] else [c]) @ escape_policies cs"
  by (simp add: escape_policies_def replace_char_def)

lemma scan_escaped: "printable p \<Longrightarrow> scan_literal (escape_policies p @ dquote # rest) = Some (p, rest)"
proof (induction p)
  case Nil
  then show ?case by (simp add: escape_policies_def replace_char_def)
next
  case (Cons c p)
  then show ?case by (auto simp: printable_def escape_policies_Cons)
qed

text \<open>
  a policies text with line breaks, quotation marks and backslashes reads back from the patch of
  ConfigureRetentionPolicy as it was, followed by what closes the patch, as long as it has no other
  control characters.
\<close>

theorem policies_read_back:
  assumes "printable policies" and "policies \<noteq> []"
  shows "\<exists>before. retention_patch runAt defaultRetention maxRetention policies
      = before @ ''\"policies\":\"'' @ escape_policies policies @ ''\"}}}}]''
    \<and> scan_literal (escape_policies policies @ ''\"}}}}]'') = Some (policies, ''}}}}]'')"
proof -
  have "retention_fields runAt defaultRetention maxRetention policies
      = retention_fields runAt defaultRetention maxRetention [] @ [''\"policies\":\"'' @ escape_policies policies @ ''\"'']"
    using assms(2) by (simp add: retention_fields_def)
  moreover have "\<exists>b. join '','' (xs @ [w]) = b @ w" for xs w
  proof (induction xs)
    case (Cons x xs)
    then obtain b where "join '','' (xs @ [w]) = b @ w" by blast
    then have "join '','' ((x # xs) @ [w]) = (x @ '','' @ b) @ w" by (simp add: join_Cons)
    then show ?case by blast
  qed auto
  ultimately obtain b where "join '','' (retention_fields runAt defaultRetention maxRetention policies)
      = b @ ''\"policies\":\"'' @ escape_policies policies @ ''\"''" by metis
  then show ?thesis using scan_escaped [OF assms(1), of "''}}}}]''"]
    unfolding retention_patch_def by simp
qed

theorem policies_read_back_witness:
  "scan_literal (escape_policies (''a: \"b\"'' @ [CHR 10]) @ ''\"}}}}]'') = Some (''a: \"b\"'' @ [CHR 10], ''}}}}]'')"
proof -
  have "printable (''a: \"b\"'' @ [CHR 10])" by code_simp
  moreover have "''a: \"b\"'' @ [CHR 10] \<noteq> []" by simp
  ultimately show ?thesis using policies_read_back by blast
qed

text \<open>What the two patches mean.\<close>

definition options_value :: json where
  "options_value = nest [''spec'', ''result'', ''options''] (JObj [])"

definition config_maps :: "string list" where
  "config_maps = [''spec'', ''result'', ''options'', ''configMaps'']"

definition retention_value :: "string \<Rightarrow> string \<Rightarrow> string \<Rightarrow> string \<Rightarrow> json" where
  "retention_value runAt defaultRetention maxRetention policies =
     nest [''tekton-results-config-results-retention-policy'', ''data''] (JObj (map (map_prod id JStr) (
       [(''runAt'', runAt)]
       @ (if defaultRetention \<noteq> [] then [(''defaultRetention'', defaultRetention)] else [])
       @ (if maxRetention \<noteq> [] then [(''maxRetention'', maxRetention)] else [])
       @ (if policies \<noteq> [] then [(''policies'', policies)] else []))))"

lemma options_patch_renders: "options_patch = render options_value"
  by code_simp

lemma escape_policies_json: "printable s \<Longrightarrow> escape_policies s = escape s"
proof (induction s)
  case Nil
  then show ?case by (simp add: escape_policies_def escape_def replace_char_def)
next
  case (Cons c s)
  then have "c = CHR 10 \<or> \<not> control c" by (auto simp: printable_def control_def)
  then have "escape_char c = (if c = CHR 10 then [backslash, CHR ''n''] else if c = dquote then [backslash, dquote]
      else if c = backslash then [backslash, backslash] else [c])"
    using escape_plain_char [of c] by (auto simp: escape_char_def)
  with Cons show ?case by (simp add: escape_policies_Cons escape_def printable_def)
qed

lemma plain_retention: "plain ''op''" "plain ''add''" "plain ''path''" "plain ''/spec/result/options/configMaps''" "plain ''value''"
    "plain ''tekton-results-config-results-retention-policy''" "plain ''data''" "plain ''runAt''" "plain ''defaultRetention''"
    "plain ''maxRetention''" "plain ''policies''"
  by code_simp+

lemma retention_patch_renders:
  assumes "plain runAt" "plain defaultRetention" "plain maxRetention" "printable policies"
  shows "retention_patch runAt defaultRetention maxRetention policies = render (JArr [JObj [(''op'', JStr ''add''),
    (''path'', JStr ''/spec/result/options/configMaps''), (''value'', retention_value runAt defaultRetention maxRetention policies)]])"
  using assms plain_retention escape_policies_json [OF assms(4)]
  by (simp add: retention_patch_def retention_value_def retention_fields_def render_members_def quoted_def)

lemma options_always_object: "object_at [''spec'', ''result'', ''options''] (merge_patch cfg options_value)"
  by (simp add: options_value_def update_conv')

lemma options_reaches:
  "reaches options_value p \<longleftrightarrow> p \<in> {[], [''spec''], [''spec'', ''result''], [''spec'', ''result'', ''options'']}"
proof -
  have "reaches (nest ks (JObj [])) p \<longleftrightarrow> take (length p) ks = p" for ks
  proof (induction ks arbitrary: p)
    case Nil
    then show ?case by (cases p) auto
  next
    case (Cons k ks)
    then show ?case by (cases p) auto
  qed
  moreover have "take (length p) [''spec'', ''result'', ''options''] = p
      \<longleftrightarrow> p \<in> {[], [''spec''], [''spec'', ''result''], [''spec'', ''result'', ''options'']}"
    by (cases p rule: remdups_adj.cases; auto simp: take_Cons split: nat.splits)
  ultimately show ?thesis unfolding options_value_def by (simp only:)
qed

lemma options_reached_object: "reaches options_value p \<Longrightarrow> value_at p (merge_patch cfg options_value) = None"
  unfolding options_reaches by (auto simp: options_value_def update_conv')

text \<open>
  the two patches of ConfigureRetentionPolicy work on every configuration: the first one, a merge
  patch, makes the object that the add of the second one needs, whatever was there. Afterwards the
  config maps are exactly the retention policy, so that stale settings are gone, and with them every
  other config map of the options; all else is as before.
\<close>

theorem retention_replaces:
  assumes "list_all plain [runAt, defaultRetention, maxRetention]" and "printable policies"
  shows "\<exists>o1 v. options_patch = render o1
    \<and> retention_patch runAt defaultRetention maxRetention policies = render (JArr [JObj [(''op'', JStr ''add''),
        (''path'', JStr ''/spec/result/options/configMaps''), (''value'', v)]])
    \<and> (\<forall>cfg. \<exists>cfg'. json_add config_maps v (merge_patch cfg o1) = Some cfg'
        \<and> (\<forall>p. value_at p cfg' = (if take 4 p = config_maps then value_at (drop 4 p) v
             else if take (length p) config_maps = p then None else value_at p cfg)))
    \<and> value_at [''tekton-results-config-results-retention-policy'', ''data'', ''runAt''] v = Some (JStr runAt)
    \<and> (maxRetention = [] \<longrightarrow> value_at [''tekton-results-config-results-retention-policy'', ''data'', ''maxRetention''] v = None)"
proof -
  let ?v = "retention_value runAt defaultRetention maxRetention policies"
  have proper: "proper options_value" by code_simp
  have "\<exists>cfg'. json_add config_maps ?v (merge_patch cfg options_value) = Some cfg'
      \<and> (\<forall>p. value_at p cfg' = (if take 4 p = config_maps then value_at (drop 4 p) ?v
           else if take (length p) config_maps = p then None else value_at p cfg))" for cfg
  proof -
    have "config_maps = [''spec'', ''result'', ''options''] @ [''configMaps'']" by (simp add: config_maps_def)
    then obtain cfg' where c: "json_add config_maps ?v (merge_patch cfg options_value) = Some cfg'"
      using json_add_iff [of "[''spec'', ''result'', ''options'']" "''configMaps''" ?v "merge_patch cfg options_value"]
        options_always_object by (metis not_None_eq)
    have len: "length config_maps = 4" by (simp add: config_maps_def)
    have "value_at p cfg' = (if take 4 p = config_maps then value_at (drop 4 p) ?v
           else if take (length p) config_maps = p then None else value_at p cfg)" for p
    proof (cases "reaches options_value p")
      case True
      then have "take (length p) config_maps = p" "take 4 p \<noteq> config_maps" unfolding options_reaches config_maps_def by auto
      with json_add_value [OF c, of p] show ?thesis by (simp add: len)
    next
      case False
      from patch_keeps_others [OF proper this] json_add_value [OF c, of p] show ?thesis by (simp add: len)
    qed
    with c show ?thesis by blast
  qed
  moreover have "value_at [''tekton-results-config-results-retention-policy'', ''data'', ''runAt''] ?v = Some (JStr runAt)"
    "maxRetention = [] \<longrightarrow> value_at [''tekton-results-config-results-retention-policy'', ''data'', ''maxRetention''] ?v = None"
    by (simp_all add: retention_value_def)
  moreover have "retention_patch runAt defaultRetention maxRetention policies = render (JArr [JObj [(''op'', JStr ''add''),
        (''path'', JStr ''/spec/result/options/configMaps''), (''value'', ?v)]])"
    by (rule retention_patch_renders) (use assms in simp_all)
  ultimately show ?thesis using options_patch_renders by blast
qed

theorem retention_replaces_witness:
  "\<exists>o1 v. options_patch = render o1
    \<and> retention_patch ''0 0 * * *'' ''30'' [] [] = render (JArr [JObj [(''op'', JStr ''add''),
        (''path'', JStr ''/spec/result/options/configMaps''), (''value'', v)]])
    \<and> (\<exists>cfg'. json_add config_maps v (merge_patch JNull o1) = Some cfg'
        \<and> value_at [''spec'', ''result'', ''options'', ''configMaps'', ''other'', ''x''] cfg' = value_at [''other'', ''x''] v)"
proof -
  have "list_all plain [''0 0 * * *'', ''30'', []]" by code_simp
  moreover have "printable []" by (simp add: printable_def)
  ultimately obtain o1 v where r: "options_patch = render o1"
      "retention_patch ''0 0 * * *'' ''30'' [] [] = render (JArr [JObj [(''op'', JStr ''add''),
        (''path'', JStr ''/spec/result/options/configMaps''), (''value'', v)]])"
      and a: "\<And>cfg. \<exists>cfg'. json_add config_maps v (merge_patch cfg o1) = Some cfg'
        \<and> (\<forall>p. value_at p cfg' = (if take 4 p = config_maps then value_at (drop 4 p) v
             else if take (length p) config_maps = p then None else value_at p cfg))"
    using retention_replaces by meson
  from a [of JNull] obtain cfg' where c: "json_add config_maps v (merge_patch JNull o1) = Some cfg'"
    and "\<forall>p. value_at p cfg' = (if take 4 p = config_maps then value_at (drop 4 p) v
             else if take (length p) config_maps = p then None else value_at p JNull)"
    by (elim exE conjE)
  from this(2) [rule_format, of "config_maps @ [''other'', ''x'']"]
  have "value_at [''spec'', ''result'', ''options'', ''configMaps'', ''other'', ''x''] cfg' = value_at [''other'', ''x''] v"
    by (simp add: config_maps_def del: value_at.simps)
  with r c show ?thesis by blast
qed

end
