(* ===== verification/OperatorObjects.thy ===== *)
theory OperatorObjects
  imports TektonChains
begin

text \<open>
  The checks of \<open>pkg/operator\<close> that read objects of the cluster: \<open>rbac.go\<close>, \<open>tektonpipelines.go\<close>,
  \<open>tektontriggers.go\<close>, \<open>tektonhubs.go\<close> and \<open>tlsprofile.go\<close>; with \<open>pkg/statefulset\<close>, \<open>pkg/openshift\<close> and
  \<open>pkg/k8s/nodes.go\<close>. A failed \<open>Expect\<close> ends the test.
\<close>

section \<open>Objects that are listed\<close>

text \<open>\<open>Expect(err).NotTo(HaveOccurred(), msg)\<close> after a poll.\<close>

fun expect_poll :: "string \<Rightarrow> kerror poll_error option \<times> 's \<Rightarrow> kerror option \<times> 's" where
  "expect_poll msg (None, s) = (None, s)"
| "expect_poll msg (Some e, s) = (Some (KAbort msg), s)"

definition names_of :: "kube_body kobject list \<Rightarrow> string list" where
  "names_of items = map (\<lambda>ob. ref_name (o_ref ob)) items"

definition listed_condition ::
    "'w tool_deps \<Rightarrow> string \<Rightarrow> string \<Rightarrow> (string list \<Rightarrow> bool) \<Rightarrow> ('w tool_state, kerror) cond" where
  "listed_condition d kind ns p s =
     (case k_list (w_server d) [] kind ns [] s of
        (Inl e, s1) \<Rightarrow> ((False, Some (KApi e)), s1)
      | (Inr items, s1) \<Rightarrow> ((p (names_of items), None), s1))"

definition assert_listed :: "'w tool_deps \<Rightarrow> string \<Rightarrow> string \<Rightarrow> (string list \<Rightarrow> bool) \<Rightarrow> string \<Rightarrow> 'w tool_state step" where
  "assert_listed d kind ns p msg s = expect_poll msg (w_poll d 5 600 False (listed_condition d kind ns p) s)"

definition AssertServiceAccountPresent :: "'w tool_deps \<Rightarrow> string \<Rightarrow> string \<Rightarrow> 'w tool_state step" where
  "AssertServiceAccountPresent d ns targetSA =
     assert_listed d ''ServiceAccount'' ns (\<lambda>names. list_ex (\<lambda>n. n = targetSA) names)
       (''expected Service account '' @ targetSA @ '' present in namespace '' @ ns)"

definition AssertRoleBindingPresent :: "'w tool_deps \<Rightarrow> string \<Rightarrow> string \<Rightarrow> 'w tool_state step" where
  "AssertRoleBindingPresent d ns roleBindingName =
     assert_listed d ''RoleBinding'' ns (\<lambda>names. list_ex (\<lambda>n. n = roleBindingName) names)
       (''expected RoleBinding '' @ roleBindingName @ '' present in namespace '' @ ns)"

definition AssertRoleBindingNotPresent :: "'w tool_deps \<Rightarrow> string \<Rightarrow> string \<Rightarrow> 'w tool_state step" where
  "AssertRoleBindingNotPresent d ns roleBindingName =
     assert_listed d ''RoleBinding'' ns (\<lambda>names. \<not> list_ex (\<lambda>n. n = roleBindingName) names)
       (''expected RoleBinding '' @ roleBindingName @ '' not present in namespace '' @ ns)"

definition AssertConfigMapPresent :: "'w tool_deps \<Rightarrow> string \<Rightarrow> string \<Rightarrow> 'w tool_state step" where
  "AssertConfigMapPresent d ns configMapName =
     assert_listed d ''ConfigMap'' ns (\<lambda>names. list_ex (\<lambda>n. n = configMapName) names)
       (''expected ConfigMap '' @ configMapName @ '' present in namespace '' @ ns)"

definition AssertClusterRolePresent :: "'w tool_deps \<Rightarrow> string \<Rightarrow> 'w tool_state step" where
  "AssertClusterRolePresent d clusterRoleName =
     assert_listed d ''ClusterRole'' [] (\<lambda>names. list_ex (\<lambda>n. n = clusterRoleName) names)
       (''expected ClusterRole '' @ clusterRoleName @ '' present'')"

definition AssertClusterRoleNotPresent :: "'w tool_deps \<Rightarrow> string \<Rightarrow> 'w tool_state step" where
  "AssertClusterRoleNotPresent d clusterRoleName =
     assert_listed d ''ClusterRole'' [] (\<lambda>names. \<not> list_ex (\<lambda>n. n = clusterRoleName) names)
       (''expected ClusterRole '' @ clusterRoleName @ '' not present'')"

definition AssertSCCPresent :: "'w tool_deps \<Rightarrow> string \<Rightarrow> 'w tool_state step" where
  "AssertSCCPresent d sccName =
     assert_listed d ''SecurityContextConstraints'' [] (\<lambda>names. list_ex (\<lambda>n. n = sccName) names)
       (''expected SCC '' @ quoted sccName @ '' present'')"

definition AssertSCCNotPresent :: "'w tool_deps \<Rightarrow> string \<Rightarrow> 'w tool_state step" where
  "AssertSCCNotPresent d sccName =
     assert_listed d ''SecurityContextConstraints'' [] (\<lambda>names. \<not> list_ex (\<lambda>n. n = sccName) names)
       (''expected SCC '' @ quoted sccName @ '' not present'')"

text \<open>Every error of the read ends this poll, a missing role too.\<close>

definition role_condition :: "'w tool_deps \<Rightarrow> string \<Rightarrow> string \<Rightarrow> ('w tool_state, kerror) cond" where
  "role_condition d role namespace s =
     (case k_get (w_server d) (Ref [] ''Role'' namespace role) s of
        (Inl e, s1) \<Rightarrow> ((False, Some (KApi e)), s1)
      | (Inr ob, s1) \<Rightarrow> ((True, None), s1))"

definition VerifyRolesArePresent :: "'w tool_deps \<Rightarrow> string \<Rightarrow> string \<Rightarrow> 'w tool_state step" where
  "VerifyRolesArePresent d role namespace s =
     expect_poll (''failed to verify role '' @ quoted role @ '' present in namespace '' @ quoted namespace)
       (w_poll d 5 600 False (role_condition d role namespace) s)"

section \<open>The custom resources of the operator\<close>

text \<open>The first read is tried at once, then the object is waited for; the result is the latest read.\<close>

definition ensure_exists :: "'w tool_deps \<Rightarrow> ref \<Rightarrow> 'w tool_state \<Rightarrow> (kerror + kube_body kobject) \<times> 'w tool_state" where
  "ensure_exists d r s =
     (case k_get (w_server d) r s of
        (Inr cr, s1) \<Rightarrow> (Inr cr, s1)
      | (Inl _, s1) \<Rightarrow>
          (case w_poll d 5 600 False (exists_condition (w_server d) r) s1 of
             (Some e, s2) \<Rightarrow> (Inl (the (of_poll (Some e))), s2)
           | (None, s2) \<Rightarrow>
               (case last_read r (io_trace s2) of
                  Some cr \<Rightarrow> (Inr cr, s2)
                | None \<Rightarrow> (Inl (KMsg ''nothing read''), s2))))"

definition EnsureTektonPipelineExists :: "'w tool_deps \<Rightarrow> string \<Rightarrow> 'w tool_state \<Rightarrow> (kerror + kube_body kobject) \<times> 'w tool_state" where
  "EnsureTektonPipelineExists d name = ensure_exists d (Ref [] ''TektonPipeline'' [] name)"

definition EnsureTektonTriggerExists :: "'w tool_deps \<Rightarrow> string \<Rightarrow> 'w tool_state \<Rightarrow> (kerror + kube_body kobject) \<times> 'w tool_state" where
  "EnsureTektonTriggerExists d name = ensure_exists d (Ref [] ''TektonTrigger'' [] name)"

definition EnsureTektonHubsExists :: "'w tool_deps \<Rightarrow> string \<Rightarrow> 'w tool_state \<Rightarrow> (kerror + kube_body kobject) \<times> 'w tool_state" where
  "EnsureTektonHubsExists d name = ensure_exists d (Ref [] ''TektonHub'' [] name)"

definition ValidatePipelineDeployments :: "'w tool_deps \<Rightarrow> string \<Rightarrow> 'w tool_state step" where
  "ValidatePipelineDeployments d name s =
     (case EnsureTektonPipelineExists d name s of
        (Inl _, s1) \<Rightarrow> (Some (KAbort ''TektonPipeline does not exist''), s1)
      | (Inr _, s1) \<Rightarrow> (None, s1))"

definition removed_condition :: "'w tool_deps \<Rightarrow> ref \<Rightarrow> ('w tool_state, kerror) cond" where
  "removed_condition d r s =
     (case k_get (w_server d) r s of
        (Inl e, s1) \<Rightarrow> if e = NotFound then ((True, None), s1) else ((False, Some (KApi e)), s1)
      | (Inr _, s1) \<Rightarrow> ((False, None), s1))"

definition verify_none :: "'w tool_deps \<Rightarrow> string \<Rightarrow> 'w tool_state step" where
  "verify_none d kind s =
     (case k_list (w_server d) [] kind [] [] s of
        (Inl _, s1) \<Rightarrow> (Some (KAbort (''failed to list '' @ kind @ '' CRs'')), s1)
      | (Inr items, s1) \<Rightarrow>
          (if items = [] then None else Some (KAbort (''expected no '' @ kind @ '' CRs to exist'')), s1))"

definition delete_and_wait :: "'w tool_deps \<Rightarrow> string \<Rightarrow> string \<Rightarrow> 'w tool_state step" where
  "delete_and_wait d kind name s =
     (let r = Ref [] kind [] name in
      (case k_delete (w_server d) r s of
         (Some _, s1) \<Rightarrow> (Some (KAbort (kind @ '' '' @ quoted name @ '' failed to delete'')), s1)
       | (None, s1) \<Rightarrow>
           (case w_poll d 5 600 True (removed_condition d r) s1 of
              (Some _, s2) \<Rightarrow> (Some (KAbort (''timed out waiting on '' @ kind @ '' to delete'')), s2)
            | (None, s2) \<Rightarrow> verify_none d kind s2)))"

definition verifyNoTektonPipelineCR :: "'w tool_deps \<Rightarrow> 'w tool_state step" where
  "verifyNoTektonPipelineCR d = verify_none d ''TektonPipeline''"

definition TektonPipelineCRDelete :: "'w tool_deps \<Rightarrow> string \<Rightarrow> 'w tool_state step" where
  "TektonPipelineCRDelete d name = delete_and_wait d ''TektonPipeline'' name"

definition verifyNoTektonTriggerCR :: "'w tool_deps \<Rightarrow> 'w tool_state step" where
  "verifyNoTektonTriggerCR d = verify_none d ''TektonTrigger''"

definition TektonTriggerCRDelete :: "'w tool_deps \<Rightarrow> string \<Rightarrow> 'w tool_state step" where
  "TektonTriggerCRDelete d name = delete_and_wait d ''TektonTrigger'' name"

section \<open>TLS profiles\<close>

definition api_server :: ref where
  "api_server = Ref [] ''APIServer'' [] ''cluster''"

fun profile_of :: "kube_body \<Rightarrow> string option" where
  "profile_of (ProfileBody p) = p"
| "profile_of _ = None"

definition GetClusterTLSProfileType :: "'w tool_deps \<Rightarrow> 'w tool_state \<Rightarrow> (kerror + string) \<times> 'w tool_state" where
  "GetClusterTLSProfileType d s =
     (case k_get (w_server d) api_server s of
        (Inl _, s1) \<Rightarrow> (Inl (KAbort ''failed to get APIServer/cluster''), s1)
      | (Inr ob, s1) \<Rightarrow>
          (Inr (case profile_of (o_body ob) of None \<Rightarrow> ''Intermediate'' | Some t \<Rightarrow> t), s1))"

text \<open>The profile that is written: None is the JSON null of a nil pointer. The merge patch is an update.\<close>

definition patched_profile :: "string \<Rightarrow> string option" where
  "patched_profile profileType =
     (if profileType = ''Modern'' then Some ''Modern''
      else if profileType = ''Intermediate'' then Some ''Intermediate''
      else if profileType = ''Old'' then Some ''Old''
      else None)"

definition PatchClusterTLSProfile :: "'w tool_deps \<Rightarrow> string \<Rightarrow> 'w tool_state step" where
  "PatchClusterTLSProfile d profileType s =
     (case k_update (w_server d) \<lparr>o_ref = api_server, o_labels = Map.empty, o_uid = [],
             o_body = ProfileBody (patched_profile profileType)\<rparr> s of
        (Inl _, s1) \<Rightarrow> (Some (KAbort (''failed to patch APIServer/cluster TLS profile to '' @ quoted profileType)), s1)
      | (Inr _, s1) \<Rightarrow> (None, s1))"

text \<open>The loop over the variables of a container: another value ends it.\<close>

fun env_confirmed :: "string \<Rightarrow> string \<Rightarrow> (string \<times> string) list \<Rightarrow> bool \<Rightarrow> bool" where
  "env_confirmed envName expected [] found = found"
| "env_confirmed envName expected ((n, v) # es) found =
     (if n = envName then (if v = expected then env_confirmed envName expected es True else False)
      else env_confirmed envName expected es found)"

fun containers_confirmed :: "string \<Rightarrow> string \<Rightarrow> container_spec list \<Rightarrow> bool" where
  "containers_confirmed envName expected [] = True"
| "containers_confirmed envName expected (c # cs) =
     (if env_confirmed envName expected (ct_Env c) False then containers_confirmed envName expected cs else False)"

definition env_condition :: "'w tool_deps \<Rightarrow> string \<Rightarrow> string \<Rightarrow> string \<Rightarrow> string \<Rightarrow> ('w tool_state, kerror) cond" where
  "env_condition d ns deploymentName envName expectedValue s =
     (case k_get (w_server d) (deployment_ref ns deploymentName) s of
        (Inl _, s1) \<Rightarrow> ((False, None), s1)
      | (Inr ob, s1) \<Rightarrow> ((containers_confirmed envName expectedValue (dp_Containers (deployment_of (o_body ob))), None), s1))"

definition AssertDeploymentHasEnvVar :: "'w tool_deps \<Rightarrow> string \<Rightarrow> string \<Rightarrow> string \<Rightarrow> string \<Rightarrow> 'w tool_state step" where
  "AssertDeploymentHasEnvVar d ns deploymentName envName expectedValue s =
     expect_poll (''deployment '' @ ns @ ''/'' @ deploymentName @ '' does not have '' @ envName @ ''='' @ expectedValue
         @ '' after waiting'')
       (w_poll d 5 600 True (env_condition d ns deploymentName envName expectedValue) s)"

definition required_protocols :: "string \<Rightarrow> string list" where
  "required_protocols profileType =
     (if profileType = ''Modern'' then [''TLSv1.3'']
      else if profileType = ''Intermediate'' then [''TLSv1.2'', ''TLSv1.3'']
      else if profileType = ''Old'' then [''TLSv1'', ''TLSv1.1'', ''TLSv1.2'', ''TLSv1.3'']
      else [''TLSv1.2'', ''TLSv1.3''])"

fun config_entries :: "kube_body \<Rightarrow> (string \<times> string) list" where
  "config_entries (ConfigBodyMap kvs) = kvs"
| "config_entries _ = []"

definition nginx_confirmed :: "string \<Rightarrow> (string \<times> string) list \<Rightarrow> bool" where
  "nginx_confirmed profileType entries =
     list_ex (\<lambda>(key, val). list_all (\<lambda>proto. contains val proto) (required_protocols profileType)) entries"

definition nginx_condition :: "'w tool_deps \<Rightarrow> string \<Rightarrow> string \<Rightarrow> string \<Rightarrow> ('w tool_state, kerror) cond" where
  "nginx_condition d ns configMapName profileType s =
     (case k_get (w_server d) (Ref [] ''ConfigMap'' ns configMapName) s of
        (Inl _, s1) \<Rightarrow> ((False, None), s1)
      | (Inr ob, s1) \<Rightarrow> ((nginx_confirmed profileType (config_entries (o_body ob)), None), s1))"

definition AssertNginxConfigMapHasTLSProfile :: "'w tool_deps \<Rightarrow> string \<Rightarrow> string \<Rightarrow> string \<Rightarrow> 'w tool_state step" where
  "AssertNginxConfigMapHasTLSProfile d ns configMapName profileType s =
     expect_poll (''nginx ConfigMap '' @ ns @ ''/'' @ configMapName @ '' does not reflect TLS profile '' @ profileType)
       (w_poll d 5 600 True (nginx_condition d ns configMapName profileType) s)"

section \<open>StatefulSets\<close>

fun IsStatefulSetAvailable :: "kube_body \<Rightarrow> bool" where
  "IsStatefulSetAvailable (StatefulSetBody None ready) = False"
| "IsStatefulSetAvailable (StatefulSetBody (Some wanted) ready) = (ready = wanted)"
| "IsStatefulSetAvailable _ = False"

definition statefulset_selector :: "string \<Rightarrow> string" where
  "statefulset_selector deploymentName =
     (if deploymentName = ''tekton-pipelines-controller'' \<or> deploymentName = ''tekton-pipelines-remote-resolvers''
      then ''app.kubernetes.io/part-of=tekton-pipelines''
      else if deploymentName = ''tekton-chains-controller'' then ''app.kubernetes.io/part-of=tekton-chains''
      else if deploymentName = ''tekton-results-watcher'' then ''app.kubernetes.io/name=tekton-results-watcher''
      else [])"

definition statefulset_condition :: "'w tool_deps \<Rightarrow> string \<Rightarrow> ('w tool_state, kerror) cond" where
  "statefulset_condition d deploymentName s =
     (case k_list (w_server d) [] ''StatefulSet'' ''openshift-pipelines'' (statefulset_selector deploymentName) s of
        (Inl e, s1) \<Rightarrow> ((False, Some (KContext ''failed to list StatefulSets'' (KApi e))), s1)
      | (Inr items, s1) \<Rightarrow>
          (case List.find (\<lambda>sts. ref_name (o_ref sts) = deploymentName) items of
             None \<Rightarrow> ((False, None), s1)
           | Some sts \<Rightarrow> ((IsStatefulSetAvailable (o_body sts), None), s1)))"

definition ValidateStatefulSetDeployment :: "'w tool_deps \<Rightarrow> string \<Rightarrow> 'w tool_state step" where
  "ValidateStatefulSetDeployment d deploymentName s =
     expect_poll (''StatefulSet '' @ deploymentName @ '' was not found or not available within timeout'')
       (w_poll d 5 600 True (statefulset_condition d deploymentName) s)"

section \<open>OpenShift and nodes\<close>

definition IsHostedCluster :: "'w tool_deps \<Rightarrow> 'w tool_state \<Rightarrow> bool \<times> 'w tool_state" where
  "IsHostedCluster d s =
     (case w_run d [''oc'', ''get'', ''infrastructure'', ''cluster'', ''-o'', ''jsonpath={.status.controlPlaneTopology}''] s of
        (res, s1) \<Rightarrow> (ExitCode res = 0 \<and> trim_space (Stdout res) = ''External'', s1))"

fun tags_of :: "kube_body \<Rightarrow> string list" where
  "tags_of (ImageStreamBody tags) = tags"
| "tags_of _ = []"

definition GetImageStreamTags :: "'w tool_deps \<Rightarrow> string \<Rightarrow> string \<Rightarrow> 'w tool_state \<Rightarrow> (kerror + string list) \<times> 'w tool_state" where
  "GetImageStreamTags d namespace name s =
     (case k_get (w_server d) (Ref [] ''ImageStream'' namespace name) s of
        (Inl _, s1) \<Rightarrow> (Inl (KAbort (''failed to get imagestream '' @ name)), s1)
      | (Inr ob, s1) \<Rightarrow> (Inr (tags_of (o_body ob)), s1))"

definition read_version :: "'w tool_deps \<Rightarrow> (cluster_version \<Rightarrow> 'a) \<Rightarrow> 'w tool_state \<Rightarrow> (kerror + 'a) \<times> 'w tool_state" where
  "read_version d f s =
     (case k_get (w_server d) (Ref [] ''ClusterVersion'' [] ''version'') s of
        (Inl _, s1) \<Rightarrow> (Inl (KAbort ''failed to get ClusterVersion''), s1)
      | (Inr ob, s1) \<Rightarrow> (Inr (f (version_of (o_body ob))), s1))"

definition IsCapabilityEnabled :: "'w tool_deps \<Rightarrow> string \<Rightarrow> 'w tool_state \<Rightarrow> (kerror + bool) \<times> 'w tool_state" where
  "IsCapabilityEnabled d name = read_version d (\<lambda>cv. list_ex (\<lambda>c. c = name) (cv_Capabilities cv))"

definition GetOpenShiftVersion :: "'w tool_deps \<Rightarrow> 'w tool_state \<Rightarrow> (kerror + string) \<times> 'w tool_state" where
  "GetOpenShiftVersion d = read_version d cv_Desired"

fun architecture_of :: "kube_body \<Rightarrow> string" where
  "architecture_of (NodeBody arch) = arch"
| "architecture_of _ = []"

text \<open>The list is limited to one node.\<close>

definition GetClusterArchitecture :: "'w tool_deps \<Rightarrow> 'w tool_state \<Rightarrow> string \<times> 'w tool_state" where
  "GetClusterArchitecture d s =
     (case k_list (w_server d) [] ''Node'' [] ''limit=1'' s of
        (Inl _, s1) \<Rightarrow> ([], s1)
      | (Inr [], s1) \<Rightarrow> ([], s1)
      | (Inr (node # _), s1) \<Rightarrow> (architecture_of (o_body node), s1))"

end
