(* ===== verification/OperatorChecks.thy ===== *)
theory OperatorChecks
  imports OperatorObjects
begin

text \<open>
  \<open>pkg/operator/stubs.go\<close>, \<open>operator.go\<close>, \<open>tektonaddons.go\<close> and \<open>autoprune.go\<close>: configuring the
  product through the TektonConfig and checking what the operator installs. Gomega's \<open>Eventually\<close> is a
  poll that starts at once; the flags are arguments. \<open>isReady\<close> is the readiness of the operator's
  package, \<open>plugins\<close> the JSON decoder of \<open>EnableConsolePlugin\<close>.
\<close>

section \<open>Configuring\<close>

definition update_config :: "'w tool_deps \<Rightarrow> string \<Rightarrow> 'w tool_state step" where
  "update_config d patchData = UpdateTektonConfig (w_oc d) patchData"

definition DefineArtifactHubAPIVariable :: "'w tool_deps \<Rightarrow> 'w tool_state step" where
  "DefineArtifactHubAPIVariable d = update_config d
     ''{\"spec\":{\"pipeline\":{\"hub-resolver-config\":{\"artifact-hub-api\":\"https://artifacthub.io/\"}}}}''"

definition namespace_condition :: "'w tool_deps \<Rightarrow> string \<Rightarrow> ('w tool_state, kerror) cond" where
  "namespace_condition d namespace s =
     (case w_run d [''oc'', ''get'', ''namespace'', namespace] s of (res, s1) \<Rightarrow> ((ExitCode res = 0, None), s1))"

definition VerifyNamespaceExists :: "'w tool_deps \<Rightarrow> string \<Rightarrow> 'w tool_state step" where
  "VerifyNamespaceExists d namespace s =
     expect_poll (''namespace '' @ namespace @ '' did not appear within timeout'')
       (w_poll d 5 600 True (namespace_condition d namespace) s)"

definition git_resolver_patch :: string where
  "git_resolver_patch =
     ''{\"spec\":{\"pipeline\":{\"git-resolver-config\":{\"api-token-secret-key\":\"github-auth-key\",''
     @ ''\"api-token-secret-name\":\"github-auth-secret\",\"api-token-secret-namespace\":\"openshift-pipelines\",''
     @ ''\"default-revision\":\"main\",\"fetch-timeout\":\"1m\",\"scm-type\":\"github\"}}}}''"

definition ConfigureGitResolverToken :: "'w tool_deps \<Rightarrow> 'w tool_state step" where
  "ConfigureGitResolverToken d s =
     (let token = v_getenv s ''GITHUB_TOKEN'' in
      if token = [] then (None, s)
      else
        (case SecretExists (w_oc d) ''github-auth-secret'' ''openshift-pipelines'' s of
           (found, s1) \<Rightarrow>
             seq (if found then Pair None else CreateSecretForGitResolver (w_oc d) token)
                 (update_config d git_resolver_patch) s1))"

definition ConfigureBundlesResolver :: "'w tool_deps \<Rightarrow> 'w tool_state step" where
  "ConfigureBundlesResolver d = update_config d
     ''{\"spec\":{\"pipeline\":{\"bundles-resolver-config\":{\"default-kind\":\"task\",\"defaut-service-account\":\"pipelines\"}}}}''"

definition EnableConsolePluginOperator :: "'w tool_deps \<Rightarrow> (string \<Rightarrow> string list option) \<Rightarrow> 'w tool_state step" where
  "EnableConsolePluginOperator d plugins s =
     (case GetOpenShiftVersion d s of
        (Inl e, s1) \<Rightarrow> (Some e, s1)
      | (Inr openshiftVersion, s1) \<Rightarrow>
          if openshiftVersion = [] then fail ''Unknown version of OpenShift'' s1
          else
            (let parts = split_char CHR ''.'' openshiftVersion in
             if length parts < 2 then fail (''Invalid OpenShift version format: '' @ openshiftVersion) s1
             else
               (case atoi (parts ! 1) of
                  None \<Rightarrow> fail (''Failed to parse OpenShift minor version from '' @ openshiftVersion) s1
                | Some minorVersion \<Rightarrow>
                    if minorVersion < 15 then (None, s1) else EnableConsolePlugin (w_oc d) plugins s1)))"

definition performance_patch :: "string \<Rightarrow> string" where
  "performance_patch part =
     ''{\"spec\":{\"'' @ part @ ''\":{\"performance\":{\"disable-ha\":false,\"statefulset-ordinals\":true,\"replicas\":2,\"buckets\":2}}}}''"

definition EnableStatefulSet :: "'w tool_deps \<Rightarrow> 'w tool_state step" where
  "EnableStatefulSet d = update_config d (performance_patch ''pipeline'')"

definition EnableStatefulSetForComponent :: "'w tool_deps \<Rightarrow> string \<Rightarrow> 'w tool_state step" where
  "EnableStatefulSetForComponent d component =
     (if component = ''chains'' then update_config d (performance_patch ''chain'')
      else if component = ''results'' then update_config d (performance_patch ''result'')
      else fail (''unsupported component: '' @ component @ ''. Cannot generate patch data for statefulset''))"

definition EnableChainsSigningSecret :: "'w tool_deps \<Rightarrow> 'w tool_state step" where
  "EnableChainsSigningSecret d s =
     (case SecretExists (w_oc d) ''signing-secrets'' ''openshift-pipelines'' s of
        (True, s1) \<Rightarrow>
          (case GetSecretsData (w_oc d) ''signing-secrets'' ''openshift-pipelines'' s1 of
             (Inl e, s2) \<Rightarrow> (Some e, s2)
           | (Inr secretData, s2) \<Rightarrow>
               if secretData = ''\"\"'' then update_config d generate_patch s2 else (None, s2))
      | (False, s1) \<Rightarrow>
          seq (must_do d [''oc'', ''create'', ''secret'', ''generic'', ''signing-secrets'', ''--namespace'', ''openshift-pipelines''])
              (update_config d generate_patch) s1)"

definition ConfigureResultsWithLoki :: "'w tool_deps \<Rightarrow> 'w tool_state step" where
  "ConfigureResultsWithLoki d = update_config d
     (''{\"spec\":{\"result\":{\"auth_disable\":true,\"disabled\":false,\"log_level\":\"debug\",''
      @ ''\"loki_stack_name\":\"logging-loki\",\"loki_stack_namespace\":\"openshift-logging\"}}}'')"

section \<open>Deployments\<close>

definition validate :: "'w tool_deps \<Rightarrow> string list \<Rightarrow> 'w tool_state step" where
  "validate d deployments s = (None, ValidateDeployments d ''openshift-pipelines'' deployments s)"

definition ValidateTriggersDeployment :: "'w tool_deps \<Rightarrow> 'w tool_state step" where
  "ValidateTriggersDeployment d = validate d [''tekton-triggers-controller'', ''tekton-triggers-webhook'']"

definition ValidatePACDeployment :: "'w tool_deps \<Rightarrow> 'w tool_state step" where
  "ValidatePACDeployment d = validate d
     [''pipelines-as-code-controller'', ''pipelines-as-code-watcher'', ''pipelines-as-code-webhook'']"

definition WaitForOperatorWebhooks :: "'w tool_deps \<Rightarrow> 'w tool_state step" where
  "WaitForOperatorWebhooks d = validate d [''tekton-operator-proxy-webhook'', ''tekton-pipelines-webhook'']"

definition ValidateHubDeployment :: "'w tool_deps \<Rightarrow> 'w tool_state step" where
  "ValidateHubDeployment d = validate d [''tekton-hub-api'', ''tekton-hub-db'', ''tekton-hub-ui'']"

definition with_console :: "'w tool_deps \<Rightarrow> string list \<Rightarrow> 'w tool_state step" where
  "with_console d deployments s =
     (case IsCapabilityEnabled d ''Console'' s of
        (Inl e, s1) \<Rightarrow> (Some e, s1)
      | (Inr enabled, s1) \<Rightarrow> if enabled then validate d deployments s1 else (None, s1))"

definition ValidateTknServerCLI :: "'w tool_deps \<Rightarrow> 'w tool_state step" where
  "ValidateTknServerCLI d = with_console d [''tkn-cli-serve'']"

definition ValidateConsolePluginDeployment :: "'w tool_deps \<Rightarrow> 'w tool_state step" where
  "ValidateConsolePluginDeployment d = with_console d [''pipelines-console-plugin'']"

definition gate_exists_condition :: "'w tool_deps \<Rightarrow> ('w tool_state, kerror) cond" where
  "gate_exists_condition d = exists_condition (w_server d) (Ref [] ''ManualApprovalGate'' [] ''manual-approval-gate'')"

definition ValidateMAGDeployments :: "'w tool_deps \<Rightarrow> 'w tool_state step" where
  "ValidateMAGDeployments d s =
     (case expect_poll ''failed to ensure ManualApprovalGate exists'' (w_poll d 5 600 False (gate_exists_condition d) s) of
        (Some e, s1) \<Rightarrow> (Some e, s1)
      | (None, s1) \<Rightarrow> validate d [''manual-approval-gate-controller'', ''manual-approval-gate-webhook''] s1)"

section \<open>Add-ons, cron jobs, installer sets\<close>

text \<open>The loop over the conditions of the add-on, with the two flags it sets.\<close>

fun addon_flags :: "condition list \<Rightarrow> bool \<times> bool \<Rightarrow> bool \<times> bool" where
  "addon_flags [] flags = flags"
| "addon_flags (c # cs) (hasReady, hasInstallerSetReady) =
     addon_flags cs
       (if cd_type c = ''Ready'' \<and> cd_status c = ''True'' then True else hasReady,
        if cd_type c = ''InstallerSetReady'' \<and> cd_status c = ''True'' then True else hasInstallerSetReady)"

definition addon_condition :: "'w tool_deps \<Rightarrow> ('w tool_state, kerror) cond" where
  "addon_condition d s =
     (case k_get (w_server d) (Ref [] ''TektonAddon'' [] ''addon'') s of
        (Inl _, s1) \<Rightarrow> ((False, None), s1)
      | (Inr addon, s1) \<Rightarrow>
          (case addon_flags (conditions_of (o_body addon)) (False, False) of
             (hasReady, hasInstallerSetReady) \<Rightarrow> ((hasReady \<and> hasInstallerSetReady, None), s1)))"

definition VerifyTektonAddonsStatus :: "'w tool_deps \<Rightarrow> 'w tool_state step" where
  "VerifyTektonAddonsStatus d s =
     expect_poll ''TektonAddon failed to reach Ready and InstallerSetReady status'' (w_poll d 5 600 True (addon_condition d) s)"

fun schedule_of :: "kube_body \<Rightarrow> string" where
  "schedule_of (CronJobBody schedule container) = schedule"
| "schedule_of _ = []"

definition ValidateAutoPruneCronjob :: "'w tool_deps \<Rightarrow> 'w tool_state step" where
  "ValidateAutoPruneCronjob d s =
     (case k_list (w_server d) [] ''CronJob'' ''openshift-pipelines'' [] s of
        (Inl _, s1) \<Rightarrow> fail ''failed to list cronjobs in namespace openshift-pipelines'' s1
      | (Inr items, s1) \<Rightarrow>
          if items = [] then fail ''no cronjobs present in namespace openshift-pipelines'' s1
          else if list_ex (\<lambda>cj. schedule_of (o_body cj) = ''0 8 * * *''
              \<and> contains (ref_name (o_ref cj)) ''tekton-resource-pruner-'') items
          then (None, s1)
          else fail ''no cronjob with the schedule and prefix found'' s1)"

definition ValidateTektonInstallerSetsStatus :: "(condition list \<Rightarrow> bool) \<Rightarrow> 'w tool_deps \<Rightarrow> 'w tool_state step" where
  "ValidateTektonInstallerSetsStatus isReady d s =
     (case k_list (w_server d) [] ''TektonInstallerSet'' [] [] s of
        (Inl _, s1) \<Rightarrow> fail ''error getting tektoninstallersets'' s1
      | (Inr items, s1) \<Rightarrow>
          let failedInstallersets = names_of (filter (\<lambda>ts. \<not> isReady (conditions_of (o_body ts))) items) in
          if failedInstallersets = [] then (None, s1)
          else fail (''the installersets '' @ join '','' failedInstallersets @ '' is/are not in ready status'') s1)"

definition TektonInstallersetNamePrefixes :: "string list" where
  "TektonInstallersetNamePrefixes =
     [''addon-custom-consolecli'', ''addon-custom-openshiftconsole'', ''addon-custom-pipelinestemplate'',
      ''addon-custom-resolverstepaction'', ''addon-custom-resolvertask'', ''addon-custom-triggersresources'',
      ''addon-versioned-resolverstepactions'', ''addon-versioned-resolvertasks'', ''chain'', ''chain-config'',
      ''chain-secret'', ''manualapprovalgate-main-deployment'', ''manualapprovalgate-main-static'',
      ''openshiftpipelinesascode-main-deployment'', ''openshiftpipelinesascode-main-static'',
      ''openshiftpipelinesascode-post'', ''pipeline-main-statefulset'', ''pipeline-main-static'', ''pipeline-post'',
      ''pipeline-pre'', ''result'', ''result-post'', ''result-pre'', ''rhosp-rbac'',
      ''tekton-config-console-plugin-manifests'', ''tektoncd-pruner'', ''trigger-main-deployment'',
      ''trigger-main-static'', ''validating-mutating-webhook'']"

text \<open>The loop over the prefixes; each round reads the capabilities of the cluster.\<close>

fun missing_prefixes ::
    "'w tool_deps \<Rightarrow> bool \<Rightarrow> string list \<Rightarrow> string list \<Rightarrow> 'w tool_state \<Rightarrow> (kerror + string list) \<times> 'w tool_state" where
  "missing_prefixes d isDisconnected names [] s = (Inr [], s)"
| "missing_prefixes d isDisconnected names (isp # isps) s =
     (case IsCapabilityEnabled d ''Console'' s of
        (Inl e, s1) \<Rightarrow> (Inl e, s1)
      | (Inr console, s1) \<Rightarrow>
          if \<not> console \<and> (isp = ''addon-custom-consolecli'' \<or> isp = ''addon-custom-openshiftconsole'')
          then missing_prefixes d isDisconnected names isps s1
          else if isDisconnected \<and> isp = ''addon-custom-communityclustertask''
          then missing_prefixes d isDisconnected names isps s1
          else
            (case missing_prefixes d isDisconnected names isps s1 of
               (Inl e, s2) \<Rightarrow> (Inl e, s2)
             | (Inr missing, s2) \<Rightarrow>
                 (Inr (if list_ex (\<lambda>n. has_prefix n isp) names then missing else isp # missing), s2)))"

definition ValidateTektonInstallerSetsNames :: "'w tool_deps \<Rightarrow> bool \<Rightarrow> 'w tool_state step" where
  "ValidateTektonInstallerSetsNames d isDisconnected s =
     (case k_list (w_server d) [] ''TektonInstallerSet'' [] [] s of
        (Inl _, s1) \<Rightarrow> fail ''error getting tektoninstallersets'' s1
      | (Inr items, s1) \<Rightarrow>
          (case missing_prefixes d isDisconnected (names_of items) TektonInstallersetNamePrefixes s1 of
             (Inl e, s2) \<Rightarrow> (Some e, s2)
           | (Inr missing, s2) \<Rightarrow>
               if missing = [] then (None, s2)
               else fail (''installersets with prefix '' @ join '','' missing @ '' not found'') s2))"

section \<open>The installed operator\<close>

definition installed :: "'w tool_deps \<Rightarrow> string \<Rightarrow> 'w tool_state step" where
  "installed d name = EnsureTektonConfigStatusInstalled conditions_of (w_server d) (w_poll d) name"

definition WaitForTektonConfigCR :: "'w tool_deps \<Rightarrow> string \<Rightarrow> 'w tool_state step" where
  "WaitForTektonConfigCR d name s =
     (case EnsureTektonConfigExists (w_server d) (w_poll d) name s of
        (Inl _, s1) \<Rightarrow> fail ''TektonConfig does not exist'' s1
      | (Inr _, s1) \<Rightarrow> (None, s1))"

definition ValidateRBAC :: "'w tool_deps \<Rightarrow> string \<Rightarrow> 'w tool_state step" where
  "ValidateRBAC d name =
     (let ns = oc_namespace (w_oc d) in
      for_each id
        [installed d name,
         AssertServiceAccountPresent d ns ''pipeline'',
         AssertClusterRolePresent d ''pipelines-scc-clusterrole'',
         AssertConfigMapPresent d ns ''config-service-cabundle'',
         AssertConfigMapPresent d ns ''config-trusted-cabundle'',
         AssertRoleBindingPresent d ns ''openshift-pipelines-edit'',
         AssertRoleBindingPresent d ns ''pipelines-scc-rolebinding'',
         AssertSCCPresent d ''pipelines-scc''])"

definition ValidateRBACAfterDisable :: "'w tool_deps \<Rightarrow> string \<Rightarrow> 'w tool_state step" where
  "ValidateRBACAfterDisable d name =
     (let ns = oc_namespace (w_oc d) in
      for_each id
        [installed d name,
         AssertServiceAccountPresent d ns ''pipeline'',
         AssertClusterRoleNotPresent d ''pipelines-scc-clusterrole'',
         AssertRoleBindingNotPresent d ns ''edit'',
         AssertRoleBindingNotPresent d ns ''pipelines-scc-rolebinding'',
         AssertSCCNotPresent d ''pipelines-scc''])"

definition ValidateCABundleConfigMaps :: "'w tool_deps \<Rightarrow> string \<Rightarrow> 'w tool_state step" where
  "ValidateCABundleConfigMaps d name =
     (let ns = oc_namespace (w_oc d) in
      for_each id
        [installed d name,
         AssertConfigMapPresent d ns ''config-service-cabundle'',
         AssertConfigMapPresent d ns ''config-trusted-cabundle''])"

definition ValidateOperatorInstallStatus :: "'w tool_deps \<Rightarrow> string \<Rightarrow> 'w tool_state step" where
  "ValidateOperatorInstallStatus d name s =
     (case GetOPCServerVersion d ''operator'' s of
        (Inl e, s1) \<Rightarrow> (Some e, s1)
      | (Inr operatorVersion, s1) \<Rightarrow>
          if contains operatorVersion ''unknown'' then fail ''Operator is not installed'' s1 else installed d name s1)"

definition ValidateOperatorInstalled :: "'w tool_deps \<Rightarrow> 'w tool_state step" where
  "ValidateOperatorInstalled d = ValidateOperatorInstallStatus d ''config''"

section \<open>Presence of tasks, pipelines and cron jobs\<close>

text \<open>\<open>Eventually\<close> over the output of a command; the command itself may end the test.\<close>

definition eventually_run ::
    "'w tool_deps \<Rightarrow> nat \<Rightarrow> string \<Rightarrow> string list \<Rightarrow> (cmd_result \<Rightarrow> bool) \<Rightarrow> 'w tool_state step" where
  "eventually_run d timeout msg args ok s =
     expect_poll msg (w_poll d 5 timeout True (\<lambda>s. case w_run d args s of (res, s1) \<Rightarrow> ((ok res, None), s1)) s)"

definition AssertTaskPresence :: "'w tool_deps \<Rightarrow> string \<Rightarrow> string \<Rightarrow> bool \<Rightarrow> 'w tool_state step" where
  "AssertTaskPresence d namespace taskName shouldBePresent =
     eventually_run d 600 (''unexpected presence of task '' @ taskName) [''oc'', ''get'', ''task'', taskName, ''-n'', namespace]
       (\<lambda>res. if shouldBePresent then ExitCode res = 0 else ExitCode res \<noteq> 0)"

definition AssertPipelinesPresence :: "'w tool_deps \<Rightarrow> string \<Rightarrow> bool \<Rightarrow> 'w tool_state step" where
  "AssertPipelinesPresence d namespace shouldBePresent =
     eventually_run d 600 (''unexpected presence of pipelines in namespace '' @ namespace)
       [''oc'', ''get'', ''pipeline'', ''-n'', namespace, ''-o'', ''name'']
       (\<lambda>res. if shouldBePresent then trim_space (Stdout res) \<noteq> [] else trim_space (Stdout res) = [])"

definition cronjob_names :: "string \<Rightarrow> string list" where
  "cronjob_names namespace = [''oc'', ''get'', ''cronjob'', ''-n'', namespace, ''-o'', ''name'']"

definition cronjob_condition :: "'w tool_deps \<Rightarrow> string \<Rightarrow> string \<Rightarrow> ('w tool_state, kerror) cond" where
  "cronjob_condition d namespace pre s =
     (case output_of d (cronjob_names namespace) s of
        (Inl e, s1) \<Rightarrow> ((False, Some e), s1)
      | (Inr out, s1) \<Rightarrow> ((contains out pre, None), s1))"

definition AssertCronjobPresence :: "'w tool_deps \<Rightarrow> string \<Rightarrow> string \<Rightarrow> bool \<Rightarrow> 'w tool_state step" where
  "AssertCronjobPresence d namespace pre shouldBePresent s =
     (if shouldBePresent then
        expect_poll (''expected cronjob with prefix '' @ pre @ '' to be present'') (w_poll d 5 120 True (cronjob_condition d namespace pre) s)
      else
        eventually_run d 120 (''expected cronjob with prefix '' @ pre @ '' to NOT be present'') (cronjob_names namespace)
          (\<lambda>res. \<not> contains (Stdout res) pre) s)"

definition GetCronjobName :: "'w tool_deps \<Rightarrow> string \<Rightarrow> string \<Rightarrow> 'w tool_state \<Rightarrow> (kerror + string) \<times> 'w tool_state" where
  "GetCronjobName d namespace schedule s =
     (case output_of d [''oc'', ''get'', ''cronjob'', ''-n'', namespace, ''-o'',
             ''jsonpath={range .items[?(@.spec.schedule==\"'' @ schedule @ ''\")]}{.metadata.name}{end}''] s of
        (Inl e, s1) \<Rightarrow> (Inl e, s1)
      | (Inr output, s1) \<Rightarrow>
          if trim_space output = [] then (Inl (KAbort (''expected to find cronjob with schedule '' @ schedule)), s1)
          else (Inr (trim_space output), s1))"

section \<open>Versioned tasks and the pruner\<close>

definition required_version :: "string \<Rightarrow> kerror + string" where
  "required_version expectedVersion =
     (if expectedVersion = [] then Inl (KAbort ''OSP_VERSION is not set. Cannot determine the required version.'')
      else
        (case split_char CHR ''.'' expectedVersion of
           major # minor # _ \<Rightarrow> Inr (major @ ''-'' @ minor @ ''-0'')
         | _ \<Rightarrow> Inl (KAbort (''Invalid OSP_VERSION Version: '' @ expectedVersion))))"

definition verify_versioned :: "'w tool_deps \<Rightarrow> string \<Rightarrow> string list \<Rightarrow> 'w tool_state step" where
  "verify_versioned d kind required s =
     (case output_of d [''oc'', ''get'', kind, ''-n'', ''openshift-pipelines''] s of
        (Inl e, s1) \<Rightarrow> (Some e, s1)
      | (Inr out, s1) \<Rightarrow>
          (case required_version (v_getenv s1 ''OSP_VERSION'') of
             Inl e \<Rightarrow> (Some e, s1)
           | Inr requiredVersion \<Rightarrow>
               for_each (\<lambda>name s. if contains out (name @ ''-'' @ requiredVersion) then (None, s)
                  else (Some (KAbort (name @ ''-'' @ requiredVersion @ '' not found in namespace openshift-pipelines'')), s))
                 required s1))"

definition VerifyVersionedTasks :: "'w tool_deps \<Rightarrow> string \<Rightarrow> 'w tool_state step" where
  "VerifyVersionedTasks d clusterArch = verify_versioned d ''task''
     ([''buildah'', ''git-cli'', ''git-clone'', ''maven'', ''openshift-client'', ''s2i-dotnet'', ''s2i-go'', ''s2i-java'',
       ''s2i-nodejs'', ''s2i-perl'', ''s2i-php'', ''s2i-python'', ''s2i-ruby'', ''skopeo-copy'', ''tkn'']
      @ (if clusterArch \<noteq> ''arm64'' then [''kn'', ''kn-apply''] else []))"

definition VerifyVersionedStepActions :: "'w tool_deps \<Rightarrow> 'w tool_state step" where
  "VerifyVersionedStepActions d = verify_versioned d ''stepaction'' [''git-clone'', ''cache-fetch'', ''cache-upload'']"

definition count_lines :: "string \<Rightarrow> int" where
  "count_lines output = int (length (filter (\<lambda>line. trim_space line \<noteq> []) (split_char (CHR 10) (trim_space output))))"

definition AssertResourceCount :: "'w tool_deps \<Rightarrow> string \<Rightarrow> int \<Rightarrow> nat \<Rightarrow> 'w tool_state step" where
  "AssertResourceCount d resourceType expectedCount timeoutSeconds =
     eventually_run d timeoutSeconds (''expected another number of '' @ resourceType)
       [''oc'', ''get'', resourceType, ''-n'', oc_namespace (w_oc d), ''-o'', ''name'']
       (\<lambda>res. count_lines (Stdout res) = expectedCount)"

definition create_all :: "'w tool_deps \<Rightarrow> string list \<Rightarrow> 'w tool_state step" where
  "create_all d files = for_each (\<lambda>f. Create (w_oc d) f [oc_namespace (w_oc d)]) files"

definition CreatePrunerResources :: "'w tool_deps \<Rightarrow> 'w tool_state step" where
  "CreatePrunerResources d = create_all d
     [''testdata/pruner/pipeline/pipeline-for-pruner.yaml'', ''testdata/pruner/pipeline/pipelinerun-for-pruner.yaml'',
      ''testdata/pruner/task/task-for-pruner.yaml'', ''testdata/pruner/task/taskrun-for-pruner.yaml'']"

definition CreateAdditionalPrunerResources :: "'w tool_deps \<Rightarrow> 'w tool_state step" where
  "CreateAdditionalPrunerResources d = create_all d
     [''testdata/pruner/pipeline/pipelinerun-for-pruner.yaml'', ''testdata/pruner/task/taskrun-for-pruner.yaml'']"

end
