(* ===== verification/OperatorFacts.thy ===== *)
theory OperatorFacts
  imports OperatorChecks PipelineRunFacts
begin

text \<open>
  What the checks of \<open>pkg/operator\<close> establish when they pass: the RBAC objects that were
  listed, the TLS settings.
\<close>

section \<open>Invariants of the calls\<close>

locale tool_invariant = call_invariant I for I :: "'w tool_state \<Rightarrow> bool"
begin

lemma keeps_assert_listed:
  assumes "poll_contract (w_poll d)"
  shows "keeps I (assert_listed d kind ns p msg)"
proof (rule keepsI)
  fix s err s' assume "I s" and a: "assert_listed d kind ns p msg s = (err, s')"
  obtain e s1 where p: "w_poll d 5 600 False (listed_condition d kind ns p) s = (e, s1)" by (metis surj_pair)
  have "keeps I (listed_condition d kind ns p)"
    by (rule keepsI) (auto simp: listed_condition_def split: result_splits elim!: inv_list)
  from keeps_pollE [OF assms p this \<open>I s\<close>] have "I s1" .
  moreover have "s' = s1" using a p by (cases e) (auto simp: assert_listed_def)
  ultimately show "I s'" by simp
qed

lemma keeps_installed:
  assumes "poll_contract (w_poll d)"
  shows "keeps I (installed d name)"
  unfolding installed_def by (rule keeps_EnsureTektonConfigStatusInstalled [OF assms])

end

interpretation tool_growing: tool_invariant "grows s0"
  by unfold_locales (auto simp: grows_def dest!: call_frames)

section \<open>Listed objects\<close>

fun listing :: "string \<Rightarrow> string \<Rightarrow> (string list \<Rightarrow> bool) \<Rightarrow> kube_body event \<Rightarrow> bool" where
  "listing kind ns p (Listed c k n sel res) = (c = [] \<and> k = kind \<and> n = ns \<and> sel = []
     \<and> (case res of Inl _ \<Rightarrow> False | Inr items \<Rightarrow> p (names_of items)))"
| "listing kind ns p _ = False"

lemma assert_listed_saw:
  assumes "poll_contract (w_poll d)" and "assert_listed d kind ns p msg s = (None, s')"
  shows "saw (listing kind ns p) s s'"
proof -
  obtain e s1 where "w_poll d 5 600 False (listed_condition d kind ns p) s = (e, s1)" by (metis surj_pair)
  with assms(2) have p: "w_poll d 5 600 False (listed_condition d kind ns p) s = (None, s')"
    by (cases e) (auto simp: assert_listed_def)
  obtain k u where pend: "pending (listed_condition d kind ns p) k s u" and f: "listed_condition d kind ns p u = ((True, None), s')"
    by (rule poll_None [OF assms(1) p])
  have "grows s u"
    by (rule pending_invariant [OF pend grows_refl])
      (auto simp: listed_condition_def grows_def split: prod.splits sum.splits dest!: call_frames(5))
  moreover obtain items where "k_list (w_server d) [] kind ns [] u = (Inr items, s')" "p (names_of items)"
    using f by (auto simp: listed_condition_def split: prod.splits sum.splits)
  ultimately show ?thesis
    by (intro saw_event [where e = "Listed [] kind ns [] (Inr items)"]) (auto dest: call_frames(5))
qed

lemma for_each_Cons_None:
  "for_each f (x # xs) s = (None, s') \<Longrightarrow> \<exists>t. f x s = (None, t) \<and> for_each f xs t = (None, s')"
  by (auto split: prod.splits option.splits)

text \<open>A list of checks that all pass, each of which saw something.\<close>

lemma checks_saw:
  assumes "for_each (\<lambda>m. m) (map snd checks) s = (None, s')"
    and "\<And>Q m t t'. (Q, m) \<in> set checks \<Longrightarrow> m t = (None, t') \<Longrightarrow> saw Q t t' \<and> grows t t'"
  shows "grows s s' \<and> (\<forall>(Q, m) \<in> set checks. saw Q s s')"
  using assms
proof (induction checks arbitrary: s)
  case (Cons c checks)
  obtain Q m where c: "c = (Q, m)" by (cases c)
  with Cons.prems(1) obtain t where t: "m s = (None, t)" "for_each (\<lambda>m. m) (map snd checks) t = (None, s')"
    by (auto split: prod.splits option.splits)
  have "saw Q s t \<and> grows s t" using Cons.prems(2) t(1) c by (meson list.set_intros(1))
  moreover have "grows t s' \<and> (\<forall>(Q, m) \<in> set checks. saw Q t s')"
    by (rule Cons.IH [OF t(2)]) (use Cons.prems(2) in \<open>meson list.set_intros(2)\<close>)
  ultimately show ?case using c by (auto intro: grows_trans saw_grows grows_saw)
qed simp

lemma checks_through:
  "\<forall>(Q, m) \<in> set (map (\<lambda>(k, ns, n). (L k ns n, M k ns n)) xs). saw Q t s' \<Longrightarrow> grows s t \<Longrightarrow>
     \<forall>(k, ns, n) \<in> set xs. saw (L k ns n) s s'"
  by (fastforce intro: grows_saw)

section \<open>Properties\<close>

text \<open>Which names the two RBAC checks want in a listing, and which they want not to be there.\<close>

definition rbac_present :: "string \<Rightarrow> (string \<times> string \<times> string) list" where
  "rbac_present ns =
     [(''ServiceAccount'', ns, ''pipeline''), (''ClusterRole'', [], ''pipelines-scc-clusterrole''),
      (''ConfigMap'', ns, ''config-service-cabundle''), (''ConfigMap'', ns, ''config-trusted-cabundle''),
      (''RoleBinding'', ns, ''openshift-pipelines-edit''), (''RoleBinding'', ns, ''pipelines-scc-rolebinding''),
      (''SecurityContextConstraints'', [], ''pipelines-scc'')]"

definition rbac_absent :: "string \<Rightarrow> (string \<times> string \<times> string) list" where
  "rbac_absent ns =
     [(''ClusterRole'', [], ''pipelines-scc-clusterrole''), (''RoleBinding'', ns, ''edit''),
      (''RoleBinding'', ns, ''pipelines-scc-rolebinding''), (''SecurityContextConstraints'', [], ''pipelines-scc'')]"

lemma wanted_name: "(\<lambda>names. list_ex (\<lambda>n. n = x) names) = (\<lambda>names. x \<in> set names)"
  by (simp add: list_ex_iff fun_eq_iff)

lemma unwanted_name: "(\<lambda>names. \<not> list_ex (\<lambda>n. n = x) names) = (\<lambda>names. x \<notin> set names)"
  by (simp add: list_ex_iff fun_eq_iff)

lemma listed_ServiceAccountPresent: "\<exists>msg. AssertServiceAccountPresent d ns n = assert_listed d ''ServiceAccount'' ns (\<lambda>names. n \<in> set names) msg"
  unfolding AssertServiceAccountPresent_def wanted_name by (rule exI) (rule refl)

lemma listed_ClusterRolePresent: "\<exists>msg. AssertClusterRolePresent d n = assert_listed d ''ClusterRole'' [] (\<lambda>names. n \<in> set names) msg"
  unfolding AssertClusterRolePresent_def wanted_name by (rule exI) (rule refl)

lemma listed_ConfigMapPresent: "\<exists>msg. AssertConfigMapPresent d ns n = assert_listed d ''ConfigMap'' ns (\<lambda>names. n \<in> set names) msg"
  unfolding AssertConfigMapPresent_def wanted_name by (rule exI) (rule refl)

lemma listed_RoleBindingPresent: "\<exists>msg. AssertRoleBindingPresent d ns n = assert_listed d ''RoleBinding'' ns (\<lambda>names. n \<in> set names) msg"
  unfolding AssertRoleBindingPresent_def wanted_name by (rule exI) (rule refl)

lemma listed_SCCPresent: "\<exists>msg. AssertSCCPresent d n = assert_listed d ''SecurityContextConstraints'' [] (\<lambda>names. n \<in> set names) msg"
  unfolding AssertSCCPresent_def wanted_name by (rule exI) (rule refl)

lemma listed_ClusterRoleNotPresent: "\<exists>msg. AssertClusterRoleNotPresent d n = assert_listed d ''ClusterRole'' [] (\<lambda>names. n \<notin> set names) msg"
  unfolding AssertClusterRoleNotPresent_def unwanted_name by (rule exI) (rule refl)

lemma listed_RoleBindingNotPresent: "\<exists>msg. AssertRoleBindingNotPresent d ns n = assert_listed d ''RoleBinding'' ns (\<lambda>names. n \<notin> set names) msg"
  unfolding AssertRoleBindingNotPresent_def unwanted_name by (rule exI) (rule refl)

lemma listed_SCCNotPresent: "\<exists>msg. AssertSCCNotPresent d n = assert_listed d ''SecurityContextConstraints'' [] (\<lambda>names. n \<notin> set names) msg"
  unfolding AssertSCCNotPresent_def unwanted_name by (rule exI) (rule refl)

lemma listed:
  assumes "poll_contract (w_poll d)" and "assert_listed d kind n p msg t = (None, t')"
  shows "saw (listing kind n p) t t' \<and> grows t t'"
  using assert_listed_saw [OF assms] keepsE [OF tool_growing.keeps_assert_listed [OF assms(1)] assms(2) grows_refl] ..

lemma after_installed:
  assumes "poll_contract (w_poll d)" and "for_each (\<lambda>m. m) (installed d name # ms) s = (None, s')"
  shows "\<exists>t. grows s t \<and> for_each (\<lambda>m. m) ms t = (None, s')"
proof -
  from for_each_Cons_None [OF assms(2)] obtain t where "installed d name s = (None, t)" "for_each (\<lambda>m. m) ms t = (None, s')"
    by (elim exE conjE)
  with keepsE [OF tool_growing.keeps_installed [OF assms(1)] this(1) grows_refl] show ?thesis by (intro exI [of _ t] conjI)
qed

lemma rbac_present_seen:
  assumes "poll_contract (w_poll d)" and "ValidateRBAC d name s = (None, s')"
  shows "\<forall>(kind, ns, n) \<in> set (rbac_present (oc_namespace (w_oc d))). saw (listing kind ns (\<lambda>names. n \<in> set names)) s s'"
proof -
  let ?ns = "oc_namespace (w_oc d)"
  let ?m = "\<lambda>kind ns n. if kind = ''ServiceAccount'' then AssertServiceAccountPresent d ns n
      else if kind = ''ClusterRole'' then AssertClusterRolePresent d n
      else if kind = ''ConfigMap'' then AssertConfigMapPresent d ns n
      else if kind = ''RoleBinding'' then AssertRoleBindingPresent d ns n else AssertSCCPresent d n"
  let ?checks = "map (\<lambda>(kind, ns, n). (listing kind ns (\<lambda>names. n \<in> set names), ?m kind ns n)) (rbac_present ?ns)"
  have "for_each (\<lambda>m. m) (installed d name # map snd ?checks) s = (None, s')"
    using assms(2) unfolding ValidateRBAC_def Let_def rbac_present_def id_def by simp
  from after_installed [OF assms(1) this] obtain t where t: "grows s t" "for_each (\<lambda>m. m) (map snd ?checks) t = (None, s')" by blast
  have "\<forall>(Q, m) \<in> set ?checks. saw Q t s'"
  proof (rule checks_saw [OF t(2), THEN conjunct2])
    fix Q m u u' assume "(Q, m) \<in> set ?checks" and m: "m u = (None, u')"
    then obtain kind ns n where k: "(kind, ns, n) \<in> set (rbac_present ?ns)" "Q = listing kind ns (\<lambda>names. n \<in> set names)" "m = ?m kind ns n"
      by auto
    from k(1) have c: "kind \<in> {''ClusterRole'', ''SecurityContextConstraints''} \<Longrightarrow> ns = []"
        "kind \<in> {''ServiceAccount'', ''ClusterRole'', ''ConfigMap'', ''RoleBinding'', ''SecurityContextConstraints''}"
      by (auto simp: rbac_present_def)
    from c(2) have "\<exists>msg. ?m kind ns n = assert_listed d kind ns (\<lambda>names. n \<in> set names) msg"
      unfolding insert_iff empty_iff
      using c(1) listed_ServiceAccountPresent [of d ns n] listed_ClusterRolePresent [of d n] listed_ConfigMapPresent [of d ns n]
        listed_RoleBindingPresent [of d ns n] listed_SCCPresent [of d n]
      by (elim disjE FalseE) simp_all
    then obtain msg where a: "?m kind ns n = assert_listed d kind ns (\<lambda>names. n \<in> set names) msg" ..
    from m have "assert_listed d kind ns (\<lambda>names. n \<in> set names) msg u = (None, u')" unfolding k(3) a .
    then show "saw Q u u' \<and> grows u u'" unfolding k(2) by (rule listed [OF assms(1)])
  qed
  from checks_through [OF this t(1)]
  show "\<forall>(kind, ns, n) \<in> set (rbac_present ?ns). saw (listing kind ns (\<lambda>names. n \<in> set names)) s s'" .
qed

lemma rbac_absent_seen:
  assumes "poll_contract (w_poll d)" and "ValidateRBACAfterDisable d name s = (None, s')"
  shows "\<forall>(kind, ns, n) \<in> set (rbac_absent (oc_namespace (w_oc d))). saw (listing kind ns (\<lambda>names. n \<notin> set names)) s s'"
proof -
  let ?ns = "oc_namespace (w_oc d)"
  let ?m = "\<lambda>kind ns n. if kind = ''ClusterRole'' then AssertClusterRoleNotPresent d n
      else if kind = ''RoleBinding'' then AssertRoleBindingNotPresent d ns n else AssertSCCNotPresent d n"
  let ?checks = "map (\<lambda>(kind, ns, n). (listing kind ns (\<lambda>names. n \<notin> set names), ?m kind ns n)) (rbac_absent ?ns)"
  have names: "''RoleBinding'' \<noteq> ''ClusterRole''" "''SecurityContextConstraints'' \<noteq> ''ClusterRole''"
      "''SecurityContextConstraints'' \<noteq> ''RoleBinding''"
    by simp_all
  have "map snd ?checks = [AssertClusterRoleNotPresent d ''pipelines-scc-clusterrole'', AssertRoleBindingNotPresent d ?ns ''edit'',
      AssertRoleBindingNotPresent d ?ns ''pipelines-scc-rolebinding'', AssertSCCNotPresent d ''pipelines-scc'']"
    unfolding rbac_absent_def list.map case_prod_conv snd_conv by (simp only: names if_True if_False refl)
  then have "for_each (\<lambda>m. m) (installed d name # AssertServiceAccountPresent d ?ns ''pipeline'' # map snd ?checks) s = (None, s')"
    using assms(2) unfolding ValidateRBACAfterDisable_def Let_def id_def by (simp only:)
  from after_installed [OF assms(1) this] obtain t where t: "grows s t"
      "for_each (\<lambda>m. m) (AssertServiceAccountPresent d ?ns ''pipeline'' # map snd ?checks) t = (None, s')" by blast
  from for_each_Cons_None [OF t(2)] obtain t2 where t2: "AssertServiceAccountPresent d ?ns ''pipeline'' t = (None, t2)"
      "for_each (\<lambda>m. m) (map snd ?checks) t2 = (None, s')"
    by (elim exE conjE)
  obtain msg where "AssertServiceAccountPresent d ?ns ''pipeline'' = assert_listed d ''ServiceAccount'' ?ns (\<lambda>names. ''pipeline'' \<in> set names) msg"
    using listed_ServiceAccountPresent ..
  from t2(1) [unfolded this] have "grows t t2" using listed [OF assms(1)] by blast
  with t(1) have g: "grows s t2" by (rule grows_trans)
  have "\<forall>(Q, m) \<in> set ?checks. saw Q t2 s'"
  proof (rule checks_saw [OF t2(2), THEN conjunct2])
    fix Q m u u' assume "(Q, m) \<in> set ?checks" and m: "m u = (None, u')"
    then obtain kind ns n where k: "(kind, ns, n) \<in> set (rbac_absent ?ns)" "Q = listing kind ns (\<lambda>names. n \<notin> set names)" "m = ?m kind ns n"
      by auto
    from k(1) have c: "kind \<in> {''ClusterRole'', ''SecurityContextConstraints''} \<Longrightarrow> ns = []"
        "kind \<in> {''ClusterRole'', ''RoleBinding'', ''SecurityContextConstraints''}"
      by (auto simp: rbac_absent_def)
    from c(2) have "\<exists>msg. ?m kind ns n = assert_listed d kind ns (\<lambda>names. n \<notin> set names) msg"
      unfolding insert_iff empty_iff
      using c(1) listed_ClusterRoleNotPresent [of d n] listed_RoleBindingNotPresent [of d ns n] listed_SCCNotPresent [of d n]
      by (elim disjE FalseE) simp_all
    then obtain msg where a: "?m kind ns n = assert_listed d kind ns (\<lambda>names. n \<notin> set names) msg" ..
    from m have "assert_listed d kind ns (\<lambda>names. n \<notin> set names) msg u = (None, u')" unfolding k(3) a .
    then show "saw Q u u' \<and> grows u u'" unfolding k(2) by (rule listed [OF assms(1)])
  qed
  from checks_through [OF this g]
  show "\<forall>(kind, ns, n) \<in> set (rbac_absent ?ns). saw (listing kind ns (\<lambda>names. n \<notin> set names)) s s'" .
qed

text \<open>
  ValidateRBAC passes only if every object it is about was in a listing made after the TektonConfig
  was seen installed; ValidateRBACAfterDisable only if the service account was listed and a listing of
  the right kind showed none of the objects that are to be gone.
\<close>

theorem rbac_checks_observe:
  assumes "poll_contract (w_poll d)"
  shows "(ValidateRBAC d name s = (None, s') \<longrightarrow> (\<forall>(kind, ns, n) \<in> set (rbac_present (oc_namespace (w_oc d))).
      saw (listing kind ns (\<lambda>names. n \<in> set names)) s s'))
    \<and> (ValidateRBACAfterDisable d name s = (None, s') \<longrightarrow> (\<forall>(kind, ns, n) \<in> set (rbac_absent (oc_namespace (w_oc d))).
      saw (listing kind ns (\<lambda>names. n \<notin> set names)) s s'))"
  using rbac_present_seen [OF assms] rbac_absent_seen [OF assms] by (intro conjI impI)

text \<open>A cluster where the listed names are given by the kind.\<close>

definition plain_object :: "string \<Rightarrow> string \<Rightarrow> kube_body \<Rightarrow> kube_body kobject" where
  "plain_object kind name body = \<lparr>o_ref = Ref [] kind [] name, o_labels = Map.empty, o_uid = [], o_body = body\<rparr>"

definition listing_tools :: "(string \<Rightarrow> string list) \<Rightarrow> unit tool_deps" where
  "listing_tools names = demo_tools\<lparr>w_server := (w_server demo_tools)\<lparr>
     sv_get := \<lambda>r w. (Inr (plain_object (ref_kind r) (ref_name r) (StatusBody [])), w),
     sv_list := \<lambda>c k ns sel w. (Inr (map (\<lambda>n. plain_object k n AccountBody) (names k)), w)\<rparr>\<rparr>"

definition rbac_names :: "string \<Rightarrow> string list" where
  "rbac_names kind = map (\<lambda>(k, ns, n). n) (filter (\<lambda>(k, ns, n). k = kind) (rbac_present []))"

lemma demo_rbac_listed: "fst (ValidateRBAC (listing_tools rbac_names) ''config'' tools_start) = None"
  by code_simp

theorem rbac_checks_observe_witness:
  "saw (listing ''RoleBinding'' [] (\<lambda>names. ''openshift-pipelines-edit'' \<in> set names)) tools_start
     (snd (ValidateRBAC (listing_tools rbac_names) ''config'' tools_start))"
proof -
  obtain s' where r: "ValidateRBAC (listing_tools rbac_names) ''config'' tools_start = (None, s')"
    using demo_rbac_listed by (metis prod.collapse)
  have c: "poll_contract (w_poll (listing_tools rbac_names))"
    by (simp add: listing_tools_def demo_tools_def rounds_poller_contract)
  have "(''RoleBinding'', [], ''openshift-pipelines-edit'') \<in> set (rbac_present (oc_namespace (w_oc (listing_tools rbac_names))))"
    by (simp add: rbac_present_def listing_tools_def demo_tools_def)
  with rbac_checks_observe [OF c, of "''config''" tools_start s'] r show ?thesis by fastforce
qed

section \<open>TLS settings\<close>

text \<open>The type that is in force, as the reader of the profile sees it.\<close>

definition effective :: "string option \<Rightarrow> string" where
  "effective p = (case p of None \<Rightarrow> ''Intermediate'' | Some t \<Rightarrow> t)"

text \<open>
  saving the cluster's TLS profile with GetClusterTLSProfileType and writing it back with
  PatchClusterTLSProfile restores the type in force exactly when it is Modern, Intermediate or Old; a
  Custom profile is replaced by none, that is by Intermediate.
\<close>

theorem tls_profile_restored_iff:
  assumes "GetClusterTLSProfileType d s = (Inr saved, s1)" and "PatchClusterTLSProfile d saved s2 = (None, s3)"
  shows "\<exists>ob ob' res before. io_trace s1 = Got api_server (Inr ob) # io_trace s
    \<and> io_trace s3 = Updated ob' (Inr res) # io_trace s2 \<and> o_ref ob' = api_server
    \<and> (effective (profile_of (o_body ob')) = effective (profile_of (o_body ob))
       \<longleftrightarrow> effective (profile_of (o_body ob)) \<in> {''Modern'', ''Intermediate'', ''Old''})
    \<and> (saved = ''Custom'' \<longrightarrow> profile_of (o_body ob') = None)"
proof -
  obtain ob where g: "k_get (w_server d) api_server s = (Inr ob, s1)" and saved: "saved = effective (profile_of (o_body ob))"
    using assms(1) by (auto simp: GetClusterTLSProfileType_def effective_def split: prod.splits sum.splits)
  let ?ob = "\<lparr>o_ref = api_server, o_labels = Map.empty, o_uid = [], o_body = ProfileBody (patched_profile saved)\<rparr>"
  obtain res where u: "k_update (w_server d) ?ob s2 = (Inr res, s3)"
    using assms(2) by (auto simp: PatchClusterTLSProfile_def split: prod.splits sum.splits)
  have "effective (patched_profile saved) = saved \<longleftrightarrow> saved \<in> {''Modern'', ''Intermediate'', ''Old''}"
    by (auto simp: patched_profile_def effective_def)
  then show ?thesis
    using call_frames(1) [OF g] call_frames(3) [OF u] saved
    by (intro exI [of _ ob] exI [of _ ?ob] exI [of _ res]) (simp add: patched_profile_def)
qed

definition profile_tools :: "string option \<Rightarrow> unit tool_deps" where
  "profile_tools p = demo_tools\<lparr>w_server := (w_server demo_tools)\<lparr>
     sv_get := \<lambda>r w. (Inr (plain_object ''APIServer'' ''cluster'' (ProfileBody p)), w)\<rparr>\<rparr>"

theorem tls_profile_restored_iff_witness:
  "\<exists>s1 (s3 :: unit tool_state). GetClusterTLSProfileType (profile_tools (Some ''Custom'')) tools_start = (Inr ''Custom'', s1)
     \<and> (\<exists>ob' res. io_trace s3 = Updated ob' (Inr res) # io_trace s1 \<and> profile_of (o_body ob') = None)"
proof -
  let ?d = "profile_tools (Some ''Custom'')"
  have "fst (GetClusterTLSProfileType ?d tools_start) = Inr ''Custom''" by code_simp
  then obtain s1 where g: "GetClusterTLSProfileType ?d tools_start = (Inr ''Custom'', s1)" by (metis prod.collapse)
  obtain s3 where "PatchClusterTLSProfile ?d ''Custom'' s1 = (None, s3)"
    by (simp add: PatchClusterTLSProfile_def k_update_def profile_tools_def demo_tools_def)
  from tls_profile_restored_iff [OF g this] obtain ob' res where
    "io_trace s3 = Updated ob' (Inr res) # io_trace s1" "profile_of (o_body ob') = None" by auto
  with g show ?thesis by blast
qed

text \<open>
  AssertNginxConfigMapHasTLSProfile looks for the required protocols and never for the others: what
  passes for Old passes for Intermediate, and what passes for Intermediate passes for Modern, so that a
  configuration that still allows TLSv1.1 passes as Modern; and Old does not require TLSv1 itself,
  which every other protocol contains.
\<close>

theorem nginx_check_only_requires:
  "(if nginx_confirmed ''Old'' es then nginx_confirmed ''Intermediate'' es else True)
   \<and> (if nginx_confirmed ''Intermediate'' es then nginx_confirmed ''Modern'' es else True)
   \<and> nginx_confirmed ''Modern'' [(''nginx.conf'', ''ssl_protocols TLSv1.1 TLSv1.2 TLSv1.3;'')]
   \<and> nginx_confirmed ''Old'' es = list_ex (\<lambda>(key, val). contains val ''TLSv1.1'' \<and> contains val ''TLSv1.2'' \<and> contains val ''TLSv1.3'') es"
proof -
  have old: "contains val ''TLSv1''" if "contains val ''TLSv1.1''" for val
  proof -
    from that obtain a b where "val = a @ ''TLSv1.1'' @ b" by (auto simp: contains_iff)
    then have "val = a @ ''TLSv1'' @ (''.1'' @ b)" by simp
    then show ?thesis unfolding contains_iff by blast
  qed
  have "nginx_confirmed ''Modern'' [(''nginx.conf'', ''ssl_protocols TLSv1.1 TLSv1.2 TLSv1.3;'')]" by code_simp
  then show ?thesis using old by (auto simp: nginx_confirmed_def required_protocols_def list_ex_iff)
qed

section \<open>Environment variables\<close>

lemma env_confirmed_iff:
  "env_confirmed n v es found \<longleftrightarrow> (\<forall>e \<in> set es. fst e = n \<longrightarrow> snd e = v) \<and> (found \<or> (\<exists>e \<in> set es. fst e = n))"
proof (induction es arbitrary: found)
  case (Cons e es)
  obtain n' v' where "e = (n', v')" by (cases e)
  then show ?case by (auto simp: Cons.IH)
qed simp

text \<open>
  AssertDeploymentHasEnvVar accepts a Deployment exactly when each of its containers has the variable,
  and only with the expected value; a Deployment without containers is accepted.
\<close>

theorem env_check_iff:
  "containers_confirmed n v cs \<longleftrightarrow>
     list_all (\<lambda>c. list_ex (\<lambda>e. fst e = n) (ct_Env c) \<and> list_all (\<lambda>e. fst e \<noteq> n \<or> snd e = v) (ct_Env c)) cs"
  by (induction cs) (auto simp: env_confirmed_iff list_ex_iff list_all_iff)

end
