(* ===== verification/TaskChecks.thy ===== *)
theory TaskChecks
  imports OperatorObjects
begin

text \<open>
  \<open>pkg/pipelines/ecosystem.go\<close>, \<open>taskrun.go\<close> and \<open>helper.go\<close>: whether tasks are installed, the S2I
  pipelines of an image stream, and validating TaskRuns. Goroutines are run one after the other in the
  order \<open>w_schedule\<close>; the half second between two starts is left out.
\<close>

section \<open>Tasks and step actions\<close>

text \<open>Any error of the read means that the object is not there.\<close>

definition presence_condition :: "'w tool_deps \<Rightarrow> bool \<Rightarrow> ref \<Rightarrow> ('w tool_state, kerror) cond" where
  "presence_condition d wanted r s =
     (case k_get (w_server d) r s of
        (Inl _, s1) \<Rightarrow> ((\<not> wanted, None), s1)
      | (Inr _, s1) \<Rightarrow> ((wanted, None), s1))"

definition assert_presence :: "'w tool_deps \<Rightarrow> bool \<Rightarrow> ref \<Rightarrow> string \<Rightarrow> 'w tool_state step" where
  "assert_presence d wanted r msg s = expect_poll msg (w_poll d 5 60 False (presence_condition d wanted r) s)"

definition AssertTaskPresent :: "'w tool_deps \<Rightarrow> string \<Rightarrow> string \<Rightarrow> 'w tool_state step" where
  "AssertTaskPresent d namespace taskName = assert_presence d True (Ref [] ''Task'' namespace taskName)
     (''tasks '' @ taskName @ '' Expected: Present, Actual: Not Present'')"

definition AssertTaskNotPresent :: "'w tool_deps \<Rightarrow> string \<Rightarrow> string \<Rightarrow> 'w tool_state step" where
  "AssertTaskNotPresent d namespace taskName = assert_presence d False (Ref [] ''Task'' namespace taskName)
     (''tasks '' @ taskName @ '' Expected: Not Present, Actual: Present'')"

definition AssertStepActionPresent :: "'w tool_deps \<Rightarrow> string \<Rightarrow> string \<Rightarrow> 'w tool_state step" where
  "AssertStepActionPresent d namespace stepActionName = assert_presence d True (Ref [] ''StepAction'' namespace stepActionName)
     (''StepAction '' @ stepActionName @ '' Expected: Present, Actual: Not Present'')"

definition AssertStepActionNotPresent :: "'w tool_deps \<Rightarrow> string \<Rightarrow> string \<Rightarrow> 'w tool_state step" where
  "AssertStepActionNotPresent d namespace stepActionName = assert_presence d False (Ref [] ''StepAction'' namespace stepActionName)
     (''StepAction '' @ stepActionName @ '' Expected: Not Present, Actual: Present'')"

section \<open>S2I pipelines\<close>

type_synonym ParamCustomizer = "string \<Rightarrow> (string \<times> string) list \<Rightarrow> (string \<times> string) list"

text \<open>What one goroutine does.\<close>

definition s2i_run :: "'w tool_deps \<Rightarrow> string \<Rightarrow> string \<Rightarrow> ParamCustomizer option \<Rightarrow> string \<Rightarrow> 'w tool_state step" where
  "s2i_run d namespace pipelineName customizer tag s =
     (let params = [(''VERSION'', tag)];
          params = (case customizer of None \<Rightarrow> params | Some f \<Rightarrow> f tag params) in
      (case StartPipeline d pipelineName params [(''name=source'', ''claimName=shared-pvc'')] namespace
              [''--use-param-defaults'', ''--prefix-name'', pipelineName @ ''-run-'' @ tag] s of
         (Inl e, s1) \<Rightarrow> (Some e, s1)
       | (Inr prName, s1) \<Rightarrow> ValidatePipelineRun d prName ''successful'' namespace s1))"

text \<open>Every goroutine runs to its end; a failure of one of them is a failure of the test.\<close>

definition first_failure :: "kerror option list \<Rightarrow> kerror option" where
  "first_failure errs = (case List.map_filter id errs of [] \<Rightarrow> None | e # _ \<Rightarrow> Some e)"

definition ValidateS2IPipelineForAllTags ::
    "'w tool_deps \<Rightarrow> string \<Rightarrow> string \<Rightarrow> string \<Rightarrow> ParamCustomizer option \<Rightarrow> 'w tool_state step" where
  "ValidateS2IPipelineForAllTags d namespace imagestreamName pipelineName customizer s =
     (case GetImageStreamTags d ''openshift'' imagestreamName s of
        (Inl e, s1) \<Rightarrow> (Some e, s1)
      | (Inr tags, s1) \<Rightarrow>
          if tags = [] then fail (''no tags found for imagestream '' @ imagestreamName) s1
          else
            (case run_all (map (s2i_run d namespace pipelineName customizer)
                (w_schedule d (filter (\<lambda>tag. tag \<noteq> ''latest'') tags))) s1 of
               (errs, s2) \<Rightarrow> (first_failure errs, s2)))"

text \<open>The leftmost match of \<open>\d+\.\d+\<close>: the digits before and after the dot.\<close>

fun find_version :: "string \<Rightarrow> (string \<times> string) option" where
  "find_version [] = None"
| "find_version (c # cs) =
     (let ds = takeWhile is_digit (c # cs); rest = dropWhile is_digit (c # cs) in
      if ds \<noteq> [] \<and> rest \<noteq> [] \<and> hd rest = CHR ''.'' \<and> takeWhile is_digit (tl rest) \<noteq> []
      then Some (ds, takeWhile is_digit (tl rest))
      else find_version cs)"

text \<open>
  \<open>ParseFloat\<close> rounds to the nearest float64, and half way to the even one: what reads as at least 5 is
  what is at least 5 minus half the distance to the float64 below.
\<close>

definition at_least_five :: "string \<Rightarrow> string \<Rightarrow> bool" where
  "at_least_five whole frac = ((5 * 2 ^ 51 - 1) * 10 ^ length frac \<le> decimal (whole @ frac) * 2 ^ 51)"

definition DotnetParamCustomizer :: ParamCustomizer where
  "DotnetParamCustomizer tag params =
     (case find_version tag of
        None \<Rightarrow> params
      | Some (whole, frac) \<Rightarrow>
          let versionStr = whole @ ''.'' @ frac in
          AList.update ''EXAMPLE_REVISION''
            ((if at_least_five whole frac then ''dotnet-'' else ''dotnetcore-'') @ versionStr) params)"

section \<open>TaskRuns\<close>

definition getTaskrunLogs :: "'w tool_deps \<Rightarrow> string \<Rightarrow> string \<Rightarrow> 'w tool_state \<Rightarrow> string \<times> 'w tool_state" where
  "getTaskrunLogs d trname namespace s =
     (case w_run d [''oc'', ''logs'', ''--selector=tekton.dev/taskRun='' @ trname, ''-n'', namespace,
             ''--all-containers'', ''--ignore-errors=true''] s of
        (res, s1) \<Rightarrow> (Stdout res, s1))"

definition fail_taskrun :: "'w tool_deps \<Rightarrow> string \<Rightarrow> string \<Rightarrow> string \<Rightarrow> 'w tool_state step" where
  "fail_taskrun d trname namespace state s =
     (case getTaskrunLogs d trname namespace s of
        (logs, s1) \<Rightarrow>
          (case GetWarningEvents d namespace s1 of
             (events, s2) \<Rightarrow>
               fail (''task run '' @ trname @ '' was expected to be in '' @ state @ '' state '' @ [CHR 10] @ ''taskrun logs: ''
                 @ [CHR 10] @ logs @ (case events of Inl e \<Rightarrow> '' taskrun events error'' | Inr evs \<Rightarrow>
                   [CHR 10] @ ''taskrun events: '' @ [CHR 10] @ evs)) s2))"

definition validateTaskRunForFailedStatus :: "'w tool_deps \<Rightarrow> string \<Rightarrow> string \<Rightarrow> 'w tool_state step" where
  "validateTaskRunForFailedStatus d trname namespace s =
     (case wait_task d (TaskRunFailed trname) trname s of
        (Some _, s1) \<Rightarrow> fail_taskrun d trname namespace ''TaskRunFailed'' s1
      | (None, s1) \<Rightarrow> (None, s1))"

definition validateTaskRunForSuccessStatus :: "'w tool_deps \<Rightarrow> string \<Rightarrow> string \<Rightarrow> 'w tool_state step" where
  "validateTaskRunForSuccessStatus d trname namespace s =
     (case wait_task d (TaskRunSucceed trname) trname s of
        (Some _, s1) \<Rightarrow> fail_taskrun d trname namespace ''TaskRunSucceed'' s1
      | (None, s1) \<Rightarrow> (None, s1))"

definition validateTaskRunTimeOutFailure :: "'w tool_deps \<Rightarrow> string \<Rightarrow> string \<Rightarrow> 'w tool_state step" where
  "validateTaskRunTimeOutFailure d trname namespace s =
     (case wait_task d (FailedWithReason ''TaskRunTimeout'' trname) trname s of
        (Some _, s1) \<Rightarrow> fail (''task run '' @ trname @ '' was expected to be in TaskRunTimeout state'') s1
      | (None, s1) \<Rightarrow> (None, s1))"

text \<open>
  The pattern is the name followed by \<open>.*?\<close>, and it may match anywhere. For the characters of Kubernetes
  names only the dot is special: it stands for any character.
\<close>

fun matches_here :: "string \<Rightarrow> string \<Rightarrow> bool" where
  "matches_here [] s = True"
| "matches_here (p # ps) [] = False"
| "matches_here (p # ps) (x # xs) = ((p = x \<or> p = CHR ''.'' \<and> x \<noteq> CHR 10) \<and> matches_here ps xs)"

fun matches_in :: "string \<Rightarrow> string \<Rightarrow> bool" where
  "matches_in pat [] = matches_here pat []"
| "matches_in pat (x # xs) = (matches_here pat (x # xs) \<or> matches_in pat xs)"

definition match_condition :: "'w tool_deps \<Rightarrow> string \<Rightarrow> ('w tool_state, kerror) cond" where
  "match_condition d trname s =
     (case k_list (w_server d) [] ''TaskRun'' (w_namespace d) [] s of
        (Inl _, s1) \<Rightarrow> ((False, None), s1)
      | (Inr items, s1) \<Rightarrow>
          (case List.find (matches_in trname) (names_of items) of
             Some name \<Rightarrow> ((True, None), s1\<lparr>v_name := name\<rparr>)
           | None \<Rightarrow> ((False, None), s1)))"

definition getTaskRunNameMatches :: "'w tool_deps \<Rightarrow> string \<Rightarrow> 'w tool_state \<Rightarrow> string \<times> 'w tool_state" where
  "getTaskRunNameMatches d trname s =
     (case w_poll d 5 120 False (match_condition d trname) (s\<lparr>v_name := []\<rparr>) of (_, s1) \<Rightarrow> (v_name s1, s1))"

definition ValidateTaskRun :: "'w tool_deps \<Rightarrow> string \<Rightarrow> string \<Rightarrow> string \<Rightarrow> 'w tool_state step" where
  "ValidateTaskRun d trname status namespace s =
     (case getTaskRunNameMatches d trname s of
        (matchedTrname, s1) \<Rightarrow>
          if matchedTrname = []
          then fail (''Error: Nothing matched with Taskrun name: '' @ trname @ '' in namespace '' @ namespace) s1
          else if contains (to_lower status) ''success'' then validateTaskRunForSuccessStatus d matchedTrname namespace s1
          else if contains (to_lower status) ''fail'' then validateTaskRunForFailedStatus d matchedTrname namespace s1
          else if contains (to_lower status) ''timeout'' then validateTaskRunTimeOutFailure d matchedTrname namespace s1
          else fail (''Error: Not valid status input: '' @ status) s1)"

section \<open>Helpers\<close>

definition GetPodForTaskRun ::
    "'w tool_deps \<Rightarrow> string \<Rightarrow> string \<Rightarrow> 'w tool_state \<Rightarrow> (kerror + kube_body kobject) \<times> 'w tool_state" where
  "GetPodForTaskRun d namespace name s =
     (case k_list (w_server d) [] ''Pod'' namespace (''tekton.dev/taskRun = '' @ name) s of
        (Inl _, s1) \<Rightarrow> (Inl (KAbort (''failed to get pod for task run '' @ name)), s1)
      | (Inr [pod], s1) \<Rightarrow> (Inr pod, s1)
      | (Inr pods, s1) \<Rightarrow>
          (Inl (KAbort (''Expected 1 pod for task run '' @ name @ '', but got '' @ show_nat (length pods) @ '' pods'')), s1))"

fun expect_values :: "string \<Rightarrow> (string \<times> string) list \<Rightarrow> (string \<rightharpoonup> string) \<Rightarrow> kerror option" where
  "expect_values what [] actual = None"
| "expect_values what ((key, expectedVal) # kvs) actual =
     (if actual key = Some expectedVal then expect_values what kvs actual
      else Some (KAbort (''Expected '' @ what @ '' containing '' @ key @ ''='' @ expectedVal)))"

definition AssertLabelsMatch :: "(string \<times> string) list \<Rightarrow> (string \<rightharpoonup> string) \<Rightarrow> kerror option" where
  "AssertLabelsMatch = expect_values ''labels''"

definition AssertAnnotationsMatch :: "(string \<times> string) list \<Rightarrow> (string \<rightharpoonup> string) \<Rightarrow> kerror option" where
  "AssertAnnotationsMatch = expect_values ''annotations''"

definition createKeyValuePairs :: "(string \<times> string) list \<Rightarrow> string" where
  "createKeyValuePairs m = concat (map (\<lambda>(key, val). key @ '' = '' @ val @ [CHR 10]) m)"

section \<open>What the helpers decide\<close>

lemma expect_values_iff:
  "expect_values what kvs actual = None \<longleftrightarrow> (\<forall>(k, v) \<in> set kvs. actual k = Some v)"
  by (induction kvs) (auto split: if_splits)

lemma decimal_append: "decimal (a @ b) = decimal a * 10 ^ length b + decimal b"
proof (induction b rule: rev_induct)
  case (snoc c b)
  have "decimal (a @ b @ [c]) = 10 * decimal (a @ b) + digit_val c" by (metis append_assoc decimal_snoc)
  with snoc show ?case by (simp add: decimal_snoc algebra_simps)
qed (simp add: decimal_def)

lemma decimal_bound: "list_all is_digit s \<Longrightarrow> decimal s < 10 ^ length s"
proof (induction s rule: rev_induct)
  case (snoc c s)
  then have "digit_val c < 10" "decimal s < 10 ^ length s"
    by (auto simp: is_digit_def digit_val_def less_eq_char_def)
  then show ?case by (simp add: decimal_snoc)
qed (simp add: decimal_def)

text \<open>Up to fifteen digits after the dot the rounding does not matter.\<close>

lemma at_least_five_whole:
  assumes "list_all is_digit frac" and "length frac \<le> 15"
  shows "at_least_five whole frac \<longleftrightarrow> 5 \<le> decimal whole"
proof -
  let ?p = "10 ^ length frac :: nat"
  have f: "decimal frac < ?p" by (rule decimal_bound [OF assms(1)])
  have p: "?p \<le> 10 ^ 15" by (rule power_increasing) (use assms(2) in simp_all)
  have v: "decimal (whole @ frac) = decimal whole * ?p + decimal frac" by (rule decimal_append)
  show ?thesis
  proof
    assume "5 \<le> decimal whole"
    then have "5 * ?p \<le> decimal (whole @ frac)" unfolding v by (simp add: trans_le_add1)
    then have "5 * ?p * 2 ^ 51 \<le> decimal (whole @ frac) * 2 ^ 51" by (rule mult_le_mono1)
    then show "at_least_five whole frac" unfolding at_least_five_def by (simp add: algebra_simps diff_mult_distrib)
  next
    assume a: "at_least_five whole frac"
    show "5 \<le> decimal whole"
    proof (rule ccontr)
      assume "\<not> 5 \<le> decimal whole"
      then have "decimal whole \<le> 4" by simp
      then have "decimal whole * ?p \<le> 4 * ?p" by (rule mult_le_mono1)
      then have "decimal (whole @ frac) + 1 \<le> 5 * ?p" using f v by linarith
      then have "(decimal (whole @ frac) + 1) * 2 ^ 51 \<le> 5 * ?p * 2 ^ 51" by (rule mult_le_mono1)
      moreover have "5 * 2 ^ 51 * ?p \<le> decimal (whole @ frac) * 2 ^ 51 + ?p"
        using a unfolding at_least_five_def by (simp add: diff_mult_distrib)
      ultimately have "(2 :: nat) ^ 51 \<le> ?p" by (simp add: algebra_simps)
      with p show False by simp
    qed
  qed
qed

end
