(* ===== verification/TaskFacts.thy ===== *)
theory TaskFacts
  imports TaskChecks PipelineRunFacts
begin

text \<open>
  What \<open>pkg/pipelines/ecosystem.go\<close> and \<open>taskrun.go\<close> establish: every tag of an image stream was built,
  a validated TaskRun was seen to end as asked, and how a .NET tag is read.
\<close>

section \<open>S2I pipelines\<close>

lemma validated_successful:
  assumes "poll_contract (w_waitPoll d)" and "ValidatePipelineRun d prname ''successful'' namespace s = (None, s')"
  shows "\<exists>name. seen d name ''True'' (\<lambda>_. True) s'"
proof -
  from assms(2) obtain name s1 where v: "validate_as d ''successful'' name namespace s1 = (None, s')"
    by (auto simp: ValidatePipelineRun_def fail_def split: prod.splits option.splits)
  have "contains (to_lower ''successful'') ''success''" by code_simp
  with v have "seen d name ''True'' (\<lambda>_. True) s'"
    by (auto simp: validate_as_def validatePipelineRunForSuccessStatus_def
        intro: wait_run_seen [OF assms(1)] dest!: validate_finished_ok)
  then show ?thesis ..
qed

lemma first_failure_None: "first_failure errs = None \<longleftrightarrow> list_all (\<lambda>e. e = None) errs"
  by (induction errs) (auto simp: first_failure_def List.map_filter_simps split: option.splits list.splits)

text \<open>
  \<open>builds d ns pl cust tags s s'\<close>: from \<open>s\<close> to \<open>s'\<close> the pipeline was started for one tag after the other,
  and each time the run was seen to have succeeded before the next.
\<close>

definition start_of :: "'w tool_deps \<Rightarrow> string \<Rightarrow> string \<Rightarrow> ParamCustomizer option \<Rightarrow> string \<Rightarrow>
    'w tool_state \<Rightarrow> (kerror + string) \<times> 'w tool_state" where
  "start_of d namespace pipelineName customizer tag = StartPipeline d pipelineName
     (case customizer of None \<Rightarrow> [(''VERSION'', tag)] | Some f \<Rightarrow> f tag [(''VERSION'', tag)])
     [(''name=source'', ''claimName=shared-pvc'')] namespace
     [''--use-param-defaults'', ''--prefix-name'', pipelineName @ ''-run-'' @ tag]"

inductive builds :: "'w tool_deps \<Rightarrow> string \<Rightarrow> string \<Rightarrow> ParamCustomizer option \<Rightarrow> string list \<Rightarrow>
    'w tool_state \<Rightarrow> 'w tool_state \<Rightarrow> bool" for d namespace pipelineName customizer where
  no_tag: "builds d namespace pipelineName customizer [] s s"
| next_tag: "start_of d namespace pipelineName customizer tag s = (Inr prName, t) \<Longrightarrow>
    ValidatePipelineRun d prName ''successful'' namespace t = (None, t') \<Longrightarrow>
    seen d name ''True'' (\<lambda>_. True) t' \<Longrightarrow>
    builds d namespace pipelineName customizer tags t' s' \<Longrightarrow>
    builds d namespace pipelineName customizer (tag # tags) s s'"

inductive_simps no_tag_iff [simp]: "builds d namespace pipelineName customizer [] s s'"
inductive_cases next_tagE: "builds d namespace pipelineName customizer (tag # tags) s s'"

lemma s2i_run_ok:
  assumes "s2i_run d namespace pipelineName customizer tag s = (None, s')"
  obtains prName t where "start_of d namespace pipelineName customizer tag s = (Inr prName, t)"
    and "ValidatePipelineRun d prName ''successful'' namespace t = (None, s')"
  using assms by (auto simp: s2i_run_def start_of_def Let_def split: prod.splits sum.splits)

lemma run_all_builds:
  assumes "poll_contract (w_waitPoll d)"
  shows "run_all (map (s2i_run d namespace pipelineName customizer) tags) s = (errs, s') \<Longrightarrow>
    list_all (\<lambda>e. e = None) errs \<Longrightarrow> builds d namespace pipelineName customizer tags s s'"
proof (induction tags arbitrary: s errs)
  case (Cons tag tags)
  obtain t errs2 where a: "s2i_run d namespace pipelineName customizer tag s = (None, t)"
    and r: "run_all (map (s2i_run d namespace pipelineName customizer) tags) t = (errs2, s')" "list_all (\<lambda>e. e = None) errs2"
    using Cons.prems by (auto split: prod.splits)
  from a obtain prName u where u: "start_of d namespace pipelineName customizer tag s = (Inr prName, u)"
    and v: "ValidatePipelineRun d prName ''successful'' namespace u = (None, t)" by (rule s2i_run_ok)
  from validated_successful [OF assms v] obtain name where "seen d name ''True'' (\<lambda>_. True) t" ..
  from next_tag [OF u v this Cons.IH [OF r]] show ?case .
qed simp

text \<open>
  ValidateS2IPipelineForAllTags passes only if the image stream has tags and, for each of them but
  "latest", the pipeline was started with that version and its run was then seen to have succeeded; an
  image stream whose only tag is "latest" passes without a single run.
\<close>

theorem s2i_builds_every_tag:
  assumes "poll_contract (w_waitPoll d)" and "\<And>xs. set (w_schedule d xs) = set xs"
    and "ValidateS2IPipelineForAllTags d namespace stream pipelineName customizer s = (None, s')"
  shows "\<exists>tags order s1. GetImageStreamTags d ''openshift'' stream s = (Inr tags, s1) \<and> tags \<noteq> []
    \<and> set order = set tags - {''latest''} \<and> builds d namespace pipelineName customizer order s1 s'
    \<and> (set tags = {''latest''} \<longrightarrow> s' = s1)"
proof -
  obtain r s1 where g: "GetImageStreamTags d ''openshift'' stream s = (r, s1)" by (metis surj_pair)
  with assms(3) obtain tags where r: "r = Inr tags" and ne: "tags \<noteq> []"
    by (cases r) (auto simp: ValidateS2IPipelineForAllTags_def fail_def split: if_splits)
  define order where "order = w_schedule d (filter (\<lambda>tag. tag \<noteq> ''latest'') tags)"
  have o: "set order = set tags - {''latest''}" unfolding order_def assms(2) by auto
  obtain errs where run: "run_all (map (s2i_run d namespace pipelineName customizer) order) s1 = (errs, s')"
    and ok: "list_all (\<lambda>e. e = None) errs"
    using assms(3) g r ne by (auto simp: ValidateS2IPipelineForAllTags_def first_failure_None order_def split: prod.splits)
  have bs: "builds d namespace pipelineName customizer order s1 s'" by (rule run_all_builds [OF assms(1) run ok])
  moreover have "s' = s1" if "set tags = {''latest''}"
  proof -
    have "order = []" using o that by simp
    with bs show ?thesis by simp
  qed
  ultimately show ?thesis using g r ne o by blast
qed

definition stream_tools :: "string list \<Rightarrow> unit tool_deps" where
  "stream_tools tags = demo_tools\<lparr>w_server := (w_server demo_tools)\<lparr>sv_get := \<lambda>r w.
     (Inr \<lparr>o_ref = r, o_labels = Map.empty, o_uid = [],
        o_body = (if ref_kind r = ''ImageStream'' then ImageStreamBody tags
          else RunInfoBody \<lparr>ri_accessor = (\<lambda>_. Some \<lparr>cd_type = ''Succeeded'', cd_status = ''True'',
             cd_reason = [], cd_message = []\<rparr>), ri_CreationTimestamp = 3, ri_StartTime = None, ri_Annotations = None\<rparr>)\<rparr>, w)\<rparr>\<rparr>"

lemma demo_s2i: "fst (ValidateS2IPipelineForAllTags (stream_tools [''1.22'', ''latest'']) ''ns'' ''golang'' ''s2i-go'' None tools_start) = None"
  by code_simp

theorem s2i_builds_every_tag_witness:
  "\<exists>order s1 s'. set order = {''1.22''} \<and> builds (stream_tools [''1.22'', ''latest'']) ''ns'' ''s2i-go'' None order s1 s'"
proof -
  let ?d = "stream_tools [''1.22'', ''latest'']"
  obtain s' where r: "ValidateS2IPipelineForAllTags ?d ''ns'' ''golang'' ''s2i-go'' None tools_start = (None, s')"
    using demo_s2i by (metis prod.collapse)
  have c: "poll_contract (w_waitPoll ?d)" by (simp add: stream_tools_def demo_tools_def rounds_poller_contract)
  have w: "set (w_schedule ?d xs) = set xs" for xs by (simp add: stream_tools_def demo_tools_def)
  have g: "fst (GetImageStreamTags ?d ''openshift'' ''golang'' tools_start) = Inr [''1.22'', ''latest'']" by code_simp
  from s2i_builds_every_tag [OF c w r] obtain tags order s1 where
    t: "GetImageStreamTags ?d ''openshift'' ''golang'' tools_start = (Inr tags, s1)"
    and o: "set order = set tags - {''latest''}" and b: "builds ?d ''ns'' ''s2i-go'' None order s1 s'" by blast
  from t g have "tags = [''1.22'', ''latest'']" by simp
  with o have "set order = {''1.22''}" by auto
  with b show ?thesis by blast
qed

section \<open>TaskRuns\<close>

definition task_seen :: "'w tool_deps \<Rightarrow> string \<Rightarrow> string \<Rightarrow> (string \<Rightarrow> bool) \<Rightarrow> 'w tool_state \<Rightarrow> bool" where
  "task_seen d name status reason s \<longleftrightarrow>
     (\<exists>t acc c. get_run d ''TaskRun'' name t = (Inr acc, s) \<and> acc ''Succeeded'' = Some c
        \<and> cd_status c = status \<and> reason (cd_reason c))"

lemma wait_task_run: "WaitForTaskRunState poll ctx get name v s = WaitForPipelineRunState poll ctx get name v s"
  by (simp add: WaitForTaskRunState_def WaitForPipelineRunState_def)

lemma wait_task_seen:
  assumes c: "poll_contract (w_waitPoll d)"
  shows "wait_task d (TaskRunSucceed name) name s = (None, s') \<Longrightarrow> task_seen d name ''True'' (\<lambda>_. True) s'"
    and "wait_task d (TaskRunFailed name) name s = (None, s') \<Longrightarrow> task_seen d name ''False'' (\<lambda>_. True) s'"
    and "wait_task d (FailedWithReason r name) name s = (None, s') \<Longrightarrow> task_seen d name ''False'' (\<lambda>x. x = r) s'"
proof -
  assume "wait_task d (TaskRunSucceed name) name s = (None, s')"
  then obtain t acc cd where "get_run d ''TaskRun'' name t = (Inr acc, s')" "acc ''Succeeded'' = Some cd"
    and "Succeed name acc = (True, None)"
    unfolding wait_task_def TaskRunSucceed_def wait_task_run by (rule succeed_v.wait_ok_finished [OF c])
  then show "task_seen d name ''True'' (\<lambda>_. True) s'"
    unfolding task_seen_def by (intro exI [of _ t] exI [of _ acc] exI [of _ cd]) (auto simp: Succeed_def split: if_splits)
next
  assume "wait_task d (TaskRunFailed name) name s = (None, s')"
  then obtain t acc cd where "get_run d ''TaskRun'' name t = (Inr acc, s')" "acc ''Succeeded'' = Some cd"
    and "Failed name acc = (True, None)"
    unfolding wait_task_def TaskRunFailed_def wait_task_run by (rule failed_v.wait_ok_finished [OF c])
  then show "task_seen d name ''False'' (\<lambda>_. True) s'"
    unfolding task_seen_def by (intro exI [of _ t] exI [of _ acc] exI [of _ cd]) (auto simp: Failed_def split: if_splits)
next
  assume "wait_task d (FailedWithReason r name) name s = (None, s')"
  then obtain t acc cd where "get_run d ''TaskRun'' name t = (Inr acc, s')" "acc ''Succeeded'' = Some cd"
    and "FailedWithReason r name acc = (True, None)"
    unfolding wait_task_def wait_task_run by (rule reason_v.wait_ok_finished [OF c])
  then show "task_seen d name ''False'' (\<lambda>x. x = r) s'"
    unfolding task_seen_def by (intro exI [of _ t] exI [of _ acc] exI [of _ cd]) (auto simp: FailedWithReason_def split: if_splits)
qed

lemma match_pending:
  "match_condition d trname t = ((False, err), t') \<Longrightarrow> v_name t' = v_name t"
  by (auto simp: match_condition_def k_list_def split: prod.splits sum.splits option.splits)

lemma find_SomeD: "List.find P xs = Some y \<Longrightarrow> P y \<and> y \<in> set xs"
  by (auto simp: find_Some_iff)

lemma match_done:
  assumes "match_condition d trname t = ((True, err), t')"
  shows "\<exists>items evs. matches_in trname (v_name t') \<and> v_name t' \<in> set (names_of items)
    \<and> io_trace t' = Listed [] ''TaskRun'' (w_namespace d) [] (Inr items) # evs"
  using assms by (auto simp: match_condition_def k_list_def dest: find_SomeD
      split: prod.splits sum.splits option.splits)

lemma match_error: "match_condition d trname t = ((b, err), t') \<Longrightarrow> err = None"
  by (auto simp: match_condition_def split: prod.splits sum.splits option.splits)

lemma matched_name_listed:
  assumes "poll_contract (w_poll d)" and "getTaskRunNameMatches d trname s = (name, s1)" and "name \<noteq> []"
  shows "\<exists>items evs. matches_in trname name \<and> name \<in> set (names_of items)
    \<and> io_trace s1 = Listed [] ''TaskRun'' (w_namespace d) [] (Inr items) # evs"
proof -
  let ?f = "match_condition d trname"
  obtain r where p: "w_poll d 5 120 False ?f (s\<lparr>v_name := []\<rparr>) = (r, s1)" and n: "v_name s1 = name"
    using assms(2) by (auto simp: getTaskRunNameMatches_def split: prod.splits)
  obtain k u where pend: "pending ?f k (s\<lparr>v_name := []\<rparr>) u" and
    e: "s1 = u \<and> r = Some PollTimeout \<or> (?f u = ((True, None), s1) \<and> r = None)
     \<or> (\<exists>b e. ?f u = ((b, Some e), s1) \<and> r = Some (CondError e))"
    by (rule poll_ends [OF assms(1) p])
  have "v_name u = []" by (rule pending_invariant [OF pend]) (simp_all add: match_pending)
  with e n assms(3) have "?f u = ((True, None), s1)" by (auto dest: match_error)
  from match_done [OF this] n show ?thesis by simp
qed

text \<open>
  ValidateTaskRun returns normally only if the last request of the name search was a listing, in the
  namespace of the client and not the given one, that showed a TaskRun whose name contains a match of the
  given one, anywhere in it, and the last read was of that TaskRun and showed the end that the first
  matching word of the status asks for.\<close>

theorem validated_taskrun_seen:
  assumes "poll_contract (w_waitPoll d)" and "poll_contract (w_poll d)"
    and "ValidateTaskRun d trname status namespace s = (None, s')"
  shows "\<exists>name items evs t. getTaskRunNameMatches d trname s = (name, t) \<and> matches_in trname name
    \<and> name \<in> set (names_of items) \<and> io_trace t = Listed [] ''TaskRun'' (w_namespace d) [] (Inr items) # evs
    \<and> (if contains (to_lower status) ''success'' then task_seen d name ''True'' (\<lambda>_. True) s'
       else if contains (to_lower status) ''fail'' then task_seen d name ''False'' (\<lambda>_. True) s'
       else contains (to_lower status) ''timeout'' \<and> task_seen d name ''False'' (\<lambda>r. r = ''TaskRunTimeout'') s')"
proof -
  obtain name s1 where m: "getTaskRunNameMatches d trname s = (name, s1)" by (metis surj_pair)
  with assms(3) have ne: "name \<noteq> []" by (auto simp: ValidateTaskRun_def fail_def split: if_splits)
  have "\<exists>items evs. matches_in trname name \<and> name \<in> set (names_of items) \<and> io_trace s1 = Listed [] ''TaskRun'' (w_namespace d) [] (Inr items) # evs"
    using assms(2) m ne by (rule matched_name_listed)
  moreover have "if contains (to_lower status) ''success'' then task_seen d name ''True'' (\<lambda>_. True) s'
       else if contains (to_lower status) ''fail'' then task_seen d name ''False'' (\<lambda>_. True) s'
       else contains (to_lower status) ''timeout'' \<and> task_seen d name ''False'' (\<lambda>r. r = ''TaskRunTimeout'') s'"
    using assms(3) m ne wait_task_seen [OF assms(1)]
    by (auto simp: ValidateTaskRun_def validateTaskRunForSuccessStatus_def validateTaskRunForFailedStatus_def
        validateTaskRunTimeOutFailure_def fail_taskrun_def fail_def split: if_splits prod.splits option.splits)
  ultimately show ?thesis using m by blast
qed

definition run_tools :: "unit tool_deps" where
  "run_tools = (stream_tools [])\<lparr>w_server := (w_server (stream_tools []))\<lparr>sv_list := \<lambda>c k ns sel w.
     (Inr [\<lparr>o_ref = Ref c k ns ''run-1'', o_labels = Map.empty, o_uid = [], o_body = ImageStreamBody []\<rparr>], w)\<rparr>\<rparr>"

lemma demo_taskrun: "fst (ValidateTaskRun run_tools ''run'' ''successful'' ''ns'' tools_start) = None"
  by code_simp

theorem validated_taskrun_seen_witness:
  "\<exists>name s'. matches_in ''run'' name \<and> task_seen run_tools name ''True'' (\<lambda>_. True) s'"
proof -
  obtain s' where r: "ValidateTaskRun run_tools ''run'' ''successful'' ''ns'' tools_start = (None, s')"
    using demo_taskrun by (metis prod.collapse)
  have c: "poll_contract (w_waitPoll run_tools)" "poll_contract (w_poll run_tools)"
    by (simp_all add: run_tools_def stream_tools_def demo_tools_def rounds_poller_contract)
  have "contains (to_lower ''successful'') ''success''" by code_simp
  with validated_taskrun_seen [OF c r] show ?thesis by auto
qed

end
