(* ===== verification/Sha256.thy ===== *)
theory Sha256
  imports GoPrelude "HOL-Library.Word"
begin

text \<open>
  \<open>crypto/sha256\<close>, \<open>crypto/hmac\<close> and \<open>encoding/hex\<close> of the standard library, as FIPS 180-4 and RFC 2104
  define them: byte strings are strings of characters below 256, words have 32 bits and wrap.
\<close>

unbundle bit_operations_syntax

section \<open>The compression function\<close>

text \<open>
  The constants are the first 32 bits of the fractional parts of cube roots and square roots of the
  first primes. \<open>root_bits\<close> finds the integer part of a root bit by bit, from the highest down; the root of
  \<open>p * 2 ^ (32 * k)\<close> is that of \<open>p\<close> shifted by 32 bits, and the word drops what is before the point.
\<close>

fun root_bits :: "nat \<Rightarrow> nat \<Rightarrow> int \<Rightarrow> int \<Rightarrow> int" where
  "root_bits 0 k n r = r"
| "root_bits (Suc b) k n r = root_bits b k n (if (r + 2 ^ b) ^ k \<le> n then r + 2 ^ b else r)"

definition fraction_bits :: "nat \<Rightarrow> nat \<Rightarrow> 32 word" where
  "fraction_bits k p = word_of_int (root_bits 36 k (int p * 2 ^ (32 * k)) 0)"

definition small_primes :: "nat list" where
  "small_primes = filter (\<lambda>p. list_all (\<lambda>q. p mod q \<noteq> 0) [2..<p]) [2..<312]"

definition round_constants :: "32 word list" where
  "round_constants = map (fraction_bits 3) small_primes"

definition initial_hash :: "32 word list" where
  "initial_hash = map (fraction_bits 2) [2, 3, 5, 7, 11, 13, 17, 19]"

definition rotr :: "nat \<Rightarrow> 32 word \<Rightarrow> 32 word" where
  "rotr n x = drop_bit n x OR push_bit (32 - n) x"

definition big_sigma0 :: "32 word \<Rightarrow> 32 word" where
  "big_sigma0 x = rotr 2 x XOR rotr 13 x XOR rotr 22 x"

definition big_sigma1 :: "32 word \<Rightarrow> 32 word" where
  "big_sigma1 x = rotr 6 x XOR rotr 11 x XOR rotr 25 x"

definition small_sigma0 :: "32 word \<Rightarrow> 32 word" where
  "small_sigma0 x = rotr 7 x XOR rotr 18 x XOR drop_bit 3 x"

definition small_sigma1 :: "32 word \<Rightarrow> 32 word" where
  "small_sigma1 x = rotr 17 x XOR rotr 19 x XOR drop_bit 10 x"

definition choice :: "32 word \<Rightarrow> 32 word \<Rightarrow> 32 word \<Rightarrow> 32 word" where
  "choice x y z = (x AND y) XOR ((NOT x) AND z)"

definition majority :: "32 word \<Rightarrow> 32 word \<Rightarrow> 32 word \<Rightarrow> 32 word" where
  "majority x y z = (x AND y) XOR (x AND z) XOR (y AND z)"

text \<open>The schedule holds the latest sixteen words, oldest first; each step hands one out and adds one.\<close>

fun next_word :: "32 word list \<Rightarrow> 32 word" where
  "next_word ws = small_sigma1 (ws ! 14) + ws ! 9 + small_sigma0 (ws ! 1) + ws ! 0"

fun sha_round :: "32 word \<Rightarrow> 32 word \<Rightarrow> 32 word list \<Rightarrow> 32 word list" where
  "sha_round k w [a, b, c, d, e, f, g, h] =
     (let t1 = h + big_sigma1 e + choice e f g + k + w;
          t2 = big_sigma0 a + majority a b c
      in [t1 + t2, a, b, c, d + t1, e, f, g])"
| "sha_round k w hs = hs"

fun sha_rounds :: "32 word list \<Rightarrow> 32 word list \<Rightarrow> 32 word list \<Rightarrow> 32 word list" where
  "sha_rounds [] ws hs = hs"
| "sha_rounds (k # ks) ws hs = sha_rounds ks (tl ws @ [next_word ws]) (sha_round k (hd ws) hs)"

definition compress :: "32 word list \<Rightarrow> 32 word list \<Rightarrow> 32 word list" where
  "compress hs block = map2 (+) hs (sha_rounds round_constants block hs)"

section \<open>Messages\<close>

text \<open>A byte 1000 0000, zeroes up to eight bytes before a multiple of 64, and the length in bits.\<close>

definition byte_char :: "int \<Rightarrow> char" where
  "byte_char n = char_of (n mod 256)"

definition big_endian :: "nat \<Rightarrow> int \<Rightarrow> string" where
  "big_endian k n = map (\<lambda>i. byte_char (drop_bit (8 * i) n)) (rev [0..<k])"

definition pad :: "string \<Rightarrow> string" where
  "pad m = m @ byte_char 128 # replicate ((119 - length m mod 64) mod 64) (byte_char 0) @ big_endian 8 (8 * int (length m))"

fun words_of :: "string \<Rightarrow> 32 word list" where
  "words_of (a # b # c # d # s) =
     word_of_int (((of_char a * 256 + of_char b) * 256 + of_char c) * 256 + of_char d) # words_of s"
| "words_of _ = []"

fun absorb :: "32 word list \<Rightarrow> 32 word list \<Rightarrow> nat \<Rightarrow> 32 word list" where
  "absorb hs ws 0 = hs"
| "absorb hs ws (Suc n) = absorb (compress hs (take 16 ws)) (drop 16 ws) n"

definition sha256 :: "string \<Rightarrow> string" where
  "sha256 m = concat (map (\<lambda>w. big_endian 4 (uint w)) (absorb initial_hash (words_of (pad m)) (length (pad m) div 64)))"

section \<open>HMAC and hexadecimal\<close>

definition xor_char :: "int \<Rightarrow> char \<Rightarrow> char" where
  "xor_char n c = char_of (n XOR of_char c)"

definition block_key :: "string \<Rightarrow> string" where
  "block_key key = (let k = (if 64 < length key then sha256 key else key) in k @ replicate (64 - length k) (byte_char 0))"

definition hmac_sha256 :: "string \<Rightarrow> string \<Rightarrow> string" where
  "hmac_sha256 key m =
     (let k = block_key key in sha256 (map (xor_char 92) k @ sha256 (map (xor_char 54) k @ m)))"

definition hex_digits :: string where
  "hex_digits = ''0123456789abcdef''"

definition hex_encode :: "string \<Rightarrow> string" where
  "hex_encode s = concat (map (\<lambda>c. [hex_digits ! nat (of_char c div 16), hex_digits ! nat (of_char c mod 16)]) s)"

section \<open>Shapes\<close>

text \<open>The search finds the integer part of the root.\<close>

lemma root_bits_bounds:
  assumes "0 \<le> r" and "r ^ k \<le> n" and "n < (r + 2 ^ b) ^ k"
  shows "0 \<le> root_bits b k n r \<and> root_bits b k n r ^ k \<le> n \<and> n < (root_bits b k n r + 1) ^ k"
  using assms
proof (induction b arbitrary: r)
  case (Suc b)
  have step: "n < ((r + 2 ^ b) + 2 ^ b) ^ k" using Suc.prems(3) by (simp add: algebra_simps)
  show ?case
  proof (cases "(r + 2 ^ b) ^ k \<le> n")
    case True
    have "0 \<le> r + 2 ^ b" using Suc.prems(1) by simp
    from Suc.IH [OF this True step] True show ?thesis by simp
  qed (use Suc in simp)
qed simp

text \<open>The first round on the block of "abc", as the standard prints it.\<close>

lemma first_round_abc:
  "sha_round (fraction_bits 3 2) (hd (words_of (pad ''abc''))) initial_hash =
     [0x5d6aebcd, 0x6a09e667, 0xbb67ae85, 0x3c6ef372, 0xfa2a4622, 0x510e527f, 0x9b05688c, 0x1f83d9ab]"
  by code_simp

lemma length_sha_round [simp]: "length (sha_round k w hs) = length hs"
  by (induction k w hs rule: sha_round.induct) (simp_all add: Let_def)

lemma length_sha_rounds [simp]: "length (sha_rounds ks ws hs) = length hs"
  by (induction ks ws hs rule: sha_rounds.induct) simp_all

lemma length_absorb: "length (absorb hs ws n) = length hs"
  by (induction hs ws n rule: absorb.induct) (simp_all add: compress_def)

lemma length_big_endian [simp]: "length (big_endian k n) = k"
  by (simp add: big_endian_def)

lemma length_sha256: "length (sha256 m) = 32"
proof -
  have "length (concat (map (\<lambda>w. big_endian 4 (uint w)) (hs :: 32 word list))) = 4 * length hs" for hs
    by (induction hs) simp_all
  then show ?thesis by (simp add: sha256_def length_absorb initial_hash_def)
qed

text \<open>A padded message consists of whole blocks.\<close>

lemma pad_blocks: "64 dvd length (pad m)"
proof -
  define q r where "q = length m div 64" and "r = length m mod 64"
  have n: "length m = 64 * q + r" and r: "r < 64" by (simp_all add: q_def r_def)
  have z: "(119 - r) mod 64 = (if r \<le> 55 then 55 - r else 119 - r)"
  proof (cases "r \<le> 55")
    case True
    then have "119 - r = 64 + (55 - r)" by simp
    then have "(119 - r) mod 64 = (64 + (55 - r)) mod 64" by (rule arg_cong)
    also have "\<dots> = 55 - r" by simp
    finally show ?thesis using True by simp
  qed simp
  have "length (pad m) = length m + 1 + (119 - r) mod 64 + 8" by (simp add: pad_def r_def)
  also have "\<dots> = (if r \<le> 55 then 64 * (q + 1) else 64 * (q + 2))" unfolding z n using r by simp
  finally show ?thesis by simp
qed

lemma length_hex_encode [simp]: "length (hex_encode s) = 2 * length s"
  by (induction s) (simp_all add: hex_encode_def)

lemma byte_range: "0 \<le> (of_char c :: int)" "(of_char c :: int) < 256"
  by (cases c, auto simp: of_char_def split: if_splits)+

lemma hex_encode_digits: "set (hex_encode s) \<subseteq> set hex_digits"
proof -
  have "nat (of_char c div 16) < 16" "nat (of_char c mod 16) < 16" for c
    using byte_range [of c] by (simp_all add: nat_less_iff)
  moreover have "length hex_digits = 16" by (simp add: hex_digits_def)
  ultimately show ?thesis by (auto simp: hex_encode_def)
qed

text \<open>Two hexadecimal digits tell a byte from every other.\<close>

lemma distinct_hex_digits: "distinct hex_digits"
  by (simp add: hex_digits_def)

lemma inj_hex_encode: "hex_encode s = hex_encode t \<Longrightarrow> s = t"
proof (induction s arbitrary: t)
  case Nil
  then show ?case by (cases t) (simp_all add: hex_encode_def)
next
  case (Cons c s)
  then obtain b t' where t: "t = b # t'" by (cases t) (simp_all add: hex_encode_def)
  have len: "length hex_digits = 16" by (simp add: hex_digits_def)
  have lt: "nat (of_char c div 16) < 16" "nat (of_char c mod 16) < 16" for c
    using byte_range [of c] by (simp_all add: nat_less_iff)
  from Cons.prems t have "hex_digits ! nat (of_char c div 16) = hex_digits ! nat (of_char b div 16)"
      "hex_digits ! nat (of_char c mod 16) = hex_digits ! nat (of_char b mod 16)" "hex_encode s = hex_encode t'"
    by (simp_all add: hex_encode_def)
  with Cons.IH lt [of c] lt [of b] have "nat (of_char c div 16) = nat (of_char b div 16)"
      "nat (of_char c mod 16) = nat (of_char b mod 16)" "s = t'"
    by (simp_all add: nth_eq_iff_index_eq [OF distinct_hex_digits] len)
  moreover have "(of_char c :: int) = of_char b"
  proof -
    have "(of_char c div 16 :: int) = of_char b div 16" "(of_char c mod 16 :: int) = of_char b mod 16"
      using calculation byte_range(1) [of c] byte_range(1) [of b]
      by (simp_all add: eq_nat_nat_iff pos_imp_zdiv_nonneg_iff)
    then show ?thesis by (metis div_mult_mod_eq)
  qed
  ultimately show ?case using t by (simp add: of_char_eq_iff)
qed

end
