(* ===== verification/Triggers.thy ===== *)
theory Triggers
  imports OperatorObjects Sha256
begin

text \<open>
  \<open>pkg/triggers/triggers.go\<close> and \<open>helper.go\<close>: exposing event listeners, sending them signed events,
  checking their answers and removing them.
\<close>

section \<open>Dependencies\<close>

text \<open>
  The HTTP library is \<open>t_send\<close>, where None is an error of the client; \<open>t_validURL\<close> is what
  \<open>http.NewRequest\<close> accepts and \<open>t_keyPair\<close> what \<open>tls.LoadX509KeyPair\<close> accepts as a certificate and its
  key. The files that the commands and the program make are part of the world: \<open>t_disk\<close> reads a file,
  \<open>t_write\<close> writes one (None is an error). \<open>t_selector\<close> is the label selector of an event listener's
  objects, \<open>t_prefix\<close> the prefix of their names, \<open>t_suffix\<close> the random suffix of a name,
  \<open>t_getCondition\<close> knative's \<open>GetCondition\<close> and \<open>t_decode\<close> the JSON decoder of the sink's answer.
\<close>

record http_request =
  rq_method :: string
  rq_url :: string
  rq_headers :: "(string \<times> string) list"
  rq_body :: string

record http_response =
  rp_StatusCode :: nat
  rp_Body :: string

record sink_response =
  sr_EventListener :: string
  sr_Namespace :: string
  sr_EventID :: string
  sr_ErrorMessage :: string

text \<open>A client without and one with certificates: its own, its key, and the authority it trusts.\<close>

datatype http_client = PlainClient | TlsClient string string string

record 'w trigger_deps =
  t_tools :: "'w tool_deps"
  t_send :: "http_client \<Rightarrow> http_request \<Rightarrow> 'w \<Rightarrow> http_response option \<times> 'w"
  t_validURL :: "string \<Rightarrow> bool"
  t_keyPair :: "string \<Rightarrow> string \<Rightarrow> bool"
  t_disk :: "string \<Rightarrow> 'w \<Rightarrow> string option"
  t_write :: "string \<Rightarrow> string \<Rightarrow> 'w \<Rightarrow> 'w option"
  t_selector :: "string \<Rightarrow> string"
  t_prefix :: string
  t_suffix :: "nat \<Rightarrow> string"
  t_getCondition :: "condition list \<Rightarrow> string \<Rightarrow> condition option"
  t_decode :: "string \<Rightarrow> sink_response option"

definition t_path :: "'w trigger_deps \<Rightarrow> string \<Rightarrow> string" where
  "t_path t p = oc_path (w_oc (t_tools t)) p"

definition TriggersSecretToken :: string where
  "TriggersSecretToken = ''1234567''"

section \<open>Clients, signatures, headers\<close>

definition CreateHTTPClient :: http_client where
  "CreateHTTPClient = PlainClient"

text \<open>\<open>log.Fatal\<close> ends the process. A missing key and one that does not fit are the same error.\<close>

definition CreateHTTPSClient :: "'w trigger_deps \<Rightarrow> 'w tool_state \<Rightarrow> kerror + http_client" where
  "CreateHTTPSClient t s =
     (case (t_disk t (t_path t ''testdata/triggers/certs/server.crt'') (io_world s),
            t_disk t (t_path t ''testdata/triggers/certs/server.key'') (io_world s)) of
        (Some crt, Some key) \<Rightarrow>
          if t_keyPair t crt key
          then (case t_disk t (t_path t ''testdata/triggers/certs/ca.crt'') (io_world s) of
              None \<Rightarrow> Inl (KAbort ''open ca.crt'')
            | Some caCert \<Rightarrow> Inr (TlsClient crt key caCert))
          else Inl (KAbort ''load key pair'')
      | _ \<Rightarrow> Inl (KAbort ''load key pair''))"

definition GetSignature :: "string \<Rightarrow> string \<Rightarrow> string" where
  "GetSignature input key = hex_encode (hmac_sha256 key input)"

text \<open>\<open>Header.Add\<close> appends; None is the \<open>Fail\<close> of an unknown interceptor.\<close>

definition add_headers :: "(string \<times> string) list \<Rightarrow> http_request \<Rightarrow> http_request" where
  "add_headers hs req = req\<lparr>rq_headers := rq_headers req @ hs\<rparr>"

definition BuildHeaders :: "http_request \<Rightarrow> string \<Rightarrow> string \<Rightarrow> string \<Rightarrow> http_request option" where
  "BuildHeaders req interceptor eventType payload =
     (if to_lower interceptor = ''github'' then
        Some (add_headers
          [(''Accept'', ''application/json''), (''Content-Type'', ''application/json''),
           (''X-Hub-Signature-256'', ''sha256='' @ GetSignature payload TriggersSecretToken),
           (''X-GitHub-Event'', eventType)] req)
      else if to_lower interceptor = ''gitlab'' then
        Some (add_headers
          [(''Accept'', ''application/json''), (''Content-Type'', ''application/json''),
           (''X-GitLab-Token'', TriggersSecretToken), (''X-Gitlab-Event'', eventType)] req)
      else if to_lower interceptor = ''bitbucket'' then
        Some (add_headers
          [(''Accept'', ''application/json''), (''Content-Type'', ''application/json''),
           (''X-Hub-Signature'', ''sha256='' @ GetSignature payload TriggersSecretToken),
           (''X-Event-Key'', ''repo:'' @ eventType)] req)
      else None)"

section \<open>Sending events\<close>

text \<open>\<open>client.Do\<close>, then the two expectations.\<close>

definition send_event ::
    "'w trigger_deps \<Rightarrow> http_client \<Rightarrow> http_request \<Rightarrow> 'w tool_state \<Rightarrow> (kerror + http_response) \<times> 'w tool_state" where
  "send_event t client req s =
     (case t_send t client req (io_world s) of
        (None, w) \<Rightarrow> (Inl (KAbort ''failed to execute HTTP request''), s\<lparr>io_world := w\<rparr>)
      | (Some resp, w) \<Rightarrow>
          (if rp_StatusCode resp \<le> 202 then Inr resp
           else Inl (KAbort (''sink did not return 2xx response. Got status code: '' @ show_nat (rp_StatusCode resp))),
           s\<lparr>io_world := w\<rparr>))"

definition MockPostEventWithEmptyPayload ::
    "'w trigger_deps \<Rightarrow> string \<Rightarrow> 'w tool_state \<Rightarrow> (kerror + http_response) \<times> 'w tool_state" where
  "MockPostEventWithEmptyPayload t routeurl s =
     (if t_validURL t routeurl
      then send_event t CreateHTTPClient
        \<lparr>rq_method = ''POST'', rq_url = routeurl, rq_headers = [(''Accept'', ''application/json'')], rq_body = ''{}''\<rparr> s
      else (Inl (KAbort ''failed to create HTTP request''), s))"

text \<open>\<open>strings.Split(s, "//")\<close>.\<close>

fun split_slashes :: "string \<Rightarrow> string list" where
  "split_slashes [] = [[]]"
| "split_slashes [c] = [[c]]"
| "split_slashes (c # e # cs) =
     (if c = CHR ''/'' \<and> e = CHR ''/'' then [] # split_slashes cs
      else (case split_slashes (e # cs) of [] \<Rightarrow> [[c]] | w # ws \<Rightarrow> (c # w) # ws))"

text \<open>The second element of the split is there or the program panics.\<close>

definition event_url :: "string \<Rightarrow> bool \<Rightarrow> kerror + string" where
  "event_url routeurl isTLS =
     (if isTLS
      then (case split_slashes routeurl of
          _ # host # _ \<Rightarrow> Inr (''https://'' @ host)
        | _ \<Rightarrow> Inl (KAbort ''index out of range''))
      else Inr routeurl)"

definition MockPostEvent ::
    "'w trigger_deps \<Rightarrow> string \<Rightarrow> string \<Rightarrow> string \<Rightarrow> string \<Rightarrow> bool \<Rightarrow> 'w tool_state \<Rightarrow>
     (kerror + http_response \<times> string) \<times> 'w tool_state" where
  "MockPostEvent t routeurl interceptor eventType payload isTLS s =
     (case t_disk t (t_path t payload) (io_world s) of
        None \<Rightarrow> (Inl (KAbort (''could not load test data from file '' @ payload)), s)
      | Some eventBodyJSON \<Rightarrow>
          (case event_url routeurl isTLS of
             Inl e \<Rightarrow> (Inl e, s)
           | Inr url \<Rightarrow>
               if \<not> t_validURL t url then (Inl (KAbort ''failed to create HTTP request''), s)
               else
                 (case BuildHeaders \<lparr>rq_method = ''POST'', rq_url = url, rq_headers = [], rq_body = eventBodyJSON\<rparr>
                     interceptor eventType eventBodyJSON of
                    None \<Rightarrow> (Inl (KAbort (''unsupported interceptor type: '' @ interceptor)), s)
                  | Some req \<Rightarrow>
                      (case (if isTLS then CreateHTTPSClient t s else Inr CreateHTTPClient) of
                         Inl e \<Rightarrow> (Inl e, s)
                       | Inr client \<Rightarrow>
                           (case send_event t client req s of
                              (Inl e, s1) \<Rightarrow> (Inl e, s1)
                            | (Inr resp, s1) \<Rightarrow> (Inr (resp, eventBodyJSON), s1))))))"

text \<open>The first of the listed objects; the program panics when there is none.\<close>

definition first_listed ::
    "'w trigger_deps \<Rightarrow> string \<Rightarrow> string \<Rightarrow> string \<Rightarrow> 'w tool_state \<Rightarrow> (kerror + kube_body kobject) \<times> 'w tool_state" where
  "first_listed t kind namespace elname s =
     (case k_list (w_server (t_tools t)) [] kind namespace (t_selector t elname) s of
        (Inl _, s1) \<Rightarrow> (Inl (KAbort (''failed to list the objects of event listener '' @ elname)), s1)
      | (Inr [], s1) \<Rightarrow> (Inl (KAbort ''index out of range''), s1)
      | (Inr (ob # _), s1) \<Rightarrow> (Inr ob, s1))"

definition AssertElResponse ::
    "'w trigger_deps \<Rightarrow> http_response \<Rightarrow> string \<Rightarrow> string \<Rightarrow> 'w tool_state step" where
  "AssertElResponse t resp elname namespace s =
     (case t_decode t (rp_Body resp) of
        None \<Rightarrow> fail ''failed to decode sink response'' s
      | Some gotBody \<Rightarrow>
          if (sr_EventListener gotBody, sr_Namespace gotBody, sr_ErrorMessage gotBody) \<noteq> (elname, namespace, [])
          then fail ''unexpected sink response -want/+got'' s
          else if sr_EventID gotBody = [] then fail ''sink response has no eventID'' s
          else
            (case first_listed t ''Pod'' namespace elname s of
               (Inl e, s1) \<Rightarrow> (Some e, s1)
             | (Inr pod, s1) \<Rightarrow>
                 (case output_of (t_tools t) [''oc'', ''-n'', namespace, ''logs'', ''pods/'' @ ref_name (o_ref pod),
                         ''--all-containers'', ''--tail=2''] s1 of
                    (Inl e, s2) \<Rightarrow> (Some e, s2)
                  | (Inr logs, s2) \<Rightarrow>
                      if contains logs ''error'' then fail (''Error: sink logs: '' @ logs) s2 else (None, s2))))"

section \<open>Exposing an event listener\<close>

definition listener_conditions ::
    "'w trigger_deps \<Rightarrow> string \<Rightarrow> string \<Rightarrow> 'w tool_state \<Rightarrow> (api_error option \<times> condition list) \<times> 'w tool_state" where
  "listener_conditions t namespace elname s =
     (case k_get (w_server (t_tools t)) (Ref [] ''EventListener'' namespace elname) s of
        (Inl e, s1) \<Rightarrow> ((Some e, []), s1)
      | (Inr ob, s1) \<Rightarrow> ((None, conditions_of (o_body ob)), s1))"

definition wait_for :: "'w trigger_deps \<Rightarrow> string \<Rightarrow> ('w tool_state, wait_error) cond \<Rightarrow> 'w tool_state step" where
  "wait_for t msg f s =
     (case WaitFor (w_waitPoll (t_tools t)) (w_ctx (t_tools t)) f s of
        (Some _, s1) \<Rightarrow> (Some (KAbort msg), s1)
      | (None, s1) \<Rightarrow> (None, s1))"

fun ports_of :: "kube_body \<Rightarrow> string list" where
  "ports_of (ServicePorts ps) = ps"
| "ports_of _ = []"

definition getServiceNameAndPort ::
    "'w trigger_deps \<Rightarrow> string \<Rightarrow> string \<Rightarrow> 'w tool_state \<Rightarrow> (kerror + string \<times> string) \<times> 'w tool_state" where
  "getServiceNameAndPort t elname namespace s =
     (case wait_for t (''event listener '' @ elname @ '' in namespace '' @ namespace @ '' not ready'')
             (EventListenerReady (listener_conditions t namespace elname) (t_getCondition t)) s of
        (Some e, s1) \<Rightarrow> (Inl e, s1)
      | (None, s1) \<Rightarrow>
          (case first_listed t ''Pod'' namespace elname s1 of
             (Inl e, s2) \<Rightarrow> (Inl e, s2)
           | (Inr _, s2) \<Rightarrow>
               (case first_listed t ''Service'' namespace elname s2 of
                  (Inl e, s3) \<Rightarrow> (Inl e, s3)
                | (Inr svc, s3) \<Rightarrow>
                    (case ports_of (o_body svc) of
                       [] \<Rightarrow> (Inl (KAbort ''index out of range''), s3)
                     | port # _ \<Rightarrow> (Inr (ref_name (o_ref svc), port), s3)))))"

definition quote_mark :: char where
  "quote_mark = CHR 0x27"

definition host_template :: string where
  "host_template = ''--template='' @ [quote_mark] @ ''http://{{.spec.host}}'' @ [quote_mark]"

definition GetRouteURL :: "'w trigger_deps \<Rightarrow> string \<Rightarrow> string \<Rightarrow> 'w tool_state \<Rightarrow> (kerror + string) \<times> 'w tool_state" where
  "GetRouteURL t routeName namespace s =
     (case output_of (t_tools t) [''oc'', ''-n'', namespace, ''get'', ''route'', trim_set routeName [quote_mark], host_template] s of
        (Inl e, s1) \<Rightarrow> (Inl e, s1)
      | (Inr routeURL, s1) \<Rightarrow> (Inr (trim_set routeURL [quote_mark]), s1))"

definition listener_routes :: "string \<Rightarrow> string \<Rightarrow> string \<Rightarrow> string list" where
  "listener_routes elname namespace path =
     [''oc'', ''-n'', namespace, ''get'', ''route'', ''--selector=eventlistener='' @ elname, ''-o'',
      ''jsonpath='' @ [quote_mark] @ path @ [quote_mark]]"

definition write_disk :: "'w trigger_deps \<Rightarrow> string \<Rightarrow> string \<Rightarrow> string \<Rightarrow> 'w tool_state step" where
  "write_disk t msg file content s =
     (case t_write t file content (io_world s) of
        None \<Rightarrow> (Some (KAbort msg), s)
      | Some w \<Rightarrow> (None, s\<lparr>io_world := w\<rparr>))"

definition GetRoute :: "'w trigger_deps \<Rightarrow> string \<Rightarrow> string \<Rightarrow> 'w tool_state \<Rightarrow> (kerror + string) \<times> 'w tool_state" where
  "GetRoute t elname namespace s =
     (case output_of (t_tools t) (listener_routes elname namespace ''{range .items[*]}{.metadata.name}'') s of
        (Inl e, s1) \<Rightarrow> (Inl e, s1)
      | (Inr route, s1) \<Rightarrow>
          (case output_of (t_tools t) (listener_routes elname namespace ''{.items[].spec.tls.certificate}'') s1 of
             (Inl e, s2) \<Rightarrow> (Inl e, s2)
           | (Inr out, s2) \<Rightarrow>
               let serverCert = trim_set out [quote_mark] in
               (case (if serverCert \<noteq> []
                      then write_disk t ''failed to create server.crt file'' (t_path t ''testdata/triggers/certs/server.crt'') serverCert s2
                      else (None, s2)) of
                  (Some e, s3) \<Rightarrow> (Inl e, s3)
                | (None, s3) \<Rightarrow> GetRouteURL t route namespace s3)))"

definition ExposeEventListener :: "'w trigger_deps \<Rightarrow> string \<Rightarrow> string \<Rightarrow> 'w tool_state \<Rightarrow> (kerror + string) \<times> 'w tool_state" where
  "ExposeEventListener t elname namespace s =
     (case VerifyResourceListMatchesName (t_tools t) ''eventlistener'' elname namespace s of
        (Inl _, s1) \<Rightarrow> (Inl (KAbort ''unexpected error''), s1)
      | (Inr _, s1) \<Rightarrow>
          (case getServiceNameAndPort t elname namespace s1 of
             (Inl e, s2) \<Rightarrow> (Inl e, s2)
           | (Inr (svcName, _), s2) \<Rightarrow>
               (case must_do (t_tools t) [''oc'', ''expose'', ''service'', svcName, ''-n'', namespace] s2 of
                  (Some e, s3) \<Rightarrow> (Inl e, s3)
                | (None, s3) \<Rightarrow> GetRoute t elname namespace s3)))"

definition getDomain :: "'w trigger_deps \<Rightarrow> 'w tool_state \<Rightarrow> (kerror + string) \<times> 'w tool_state" where
  "getDomain t s =
     (case output_of (t_tools t) [''oc'', ''get'', ''ingresses.config/cluster'', ''-o'', ''jsonpath={.spec.domain}''] s of
        (Inl e, s1) \<Rightarrow> (Inl e, s1)
      | (Inr routeDomainName, s1) \<Rightarrow>
          (Inr (''tls.rt'' @ t_suffix t (v_stamps s1) @ ''.'' @ routeDomainName), s1\<lparr>v_stamps := Suc (v_stamps s1)\<rparr>))"

section \<open>Certificates\<close>

definition cert_file :: "'w trigger_deps \<Rightarrow> string \<Rightarrow> string" where
  "cert_file t name = t_path t (''testdata/triggers/certs/'' @ name)"

text \<open>A file that is there is not made again.\<close>

definition unless_there :: "'w trigger_deps \<Rightarrow> string \<Rightarrow> string list \<Rightarrow> 'w tool_state step" where
  "unless_there t file args s =
     (if t_disk t file (io_world s) = None then must_do (t_tools t) args s else (None, s))"

definition lines_text :: "string list \<Rightarrow> string" where
  "lines_text ls = concat (map (\<lambda>l. l @ [CHR 10]) ls)"

definition ext_data :: "string \<Rightarrow> string" where
  "ext_data domain = lines_text
     [''authorityKeyIdentifier=keyid,issuer'', ''basicConstraints=CA:FALSE'',
      ''keyUsage = digitalSignature, nonRepudiation, keyEncipherment, dataEncipherment'',
      ''subjectAltName = @alt_names'', [], [], ''[alt_names]'', ''DNS.1 = '' @ domain]"

definition certificate_steps :: "'w trigger_deps \<Rightarrow> string \<Rightarrow> 'w tool_state step list" where
  "certificate_steps t domain =
     (let caKey = cert_file t ''ca.key''; caCrt = cert_file t ''ca.crt''; serverKey = cert_file t ''server.key'';
          serverCrt = cert_file t ''server.crt''; serverCsr = cert_file t ''server.csr''; serverExt = cert_file t ''server.ext''
      in
      [must_do (t_tools t) [''mkdir'', ''-p'', t_path t ''testdata/triggers/certs''],
       unless_there t caKey [''openssl'', ''genrsa'', ''-out'', caKey, ''4096''],
       unless_there t caCrt [''openssl'', ''req'', ''-x509'', ''-new'', ''-nodes'', ''-key'', caKey, ''-sha256'', ''-days'', ''4096'',
         ''-out'', caCrt, ''-subj'', ''/C=IN/ST=Kar/L=Blr/O=RedHat''],
       unless_there t serverKey [''openssl'', ''genrsa'', ''-out'', serverKey, ''4096''],
       must_do (t_tools t) [''openssl'', ''req'', ''-new'', ''-key'', serverKey, ''-out'', serverCsr, ''-subj'',
         ''/C=IN/ST=Kar/L=Blr/O=RedHat/CN=eventlistener''],
       write_disk t ''failed to write server.ext'' serverExt (ext_data domain),
       must_do (t_tools t) [''openssl'', ''x509'', ''-req'', ''-in'', serverCsr, ''-CA'', caCrt, ''-CAkey'', caKey, ''-CAcreateserial'',
         ''-out'', serverCrt, ''-days'', ''4096'', ''-sha256'', ''-extfile'', serverExt]])"

definition ExposeEventListenerForTLS ::
    "'w trigger_deps \<Rightarrow> string \<Rightarrow> string \<Rightarrow> 'w tool_state \<Rightarrow> (kerror + string) \<times> 'w tool_state" where
  "ExposeEventListenerForTLS t elname namespace s =
     (case getServiceNameAndPort t elname namespace s of
        (Inl e, s1) \<Rightarrow> (Inl e, s1)
      | (Inr (svcName, portName), s1) \<Rightarrow>
          (case getDomain t s1 of
             (Inl e, s2) \<Rightarrow> (Inl e, s2)
           | (Inr domain, s2) \<Rightarrow>
               (case for_each id (certificate_steps t domain) s2 of
                  (Some e, s3) \<Rightarrow> (Inl e, s3)
                | (None, s3) \<Rightarrow>
                    (case output_of (t_tools t) [''oc'', ''create'', ''route'', ''reencrypt'', ''--ca-cert='' @ cert_file t ''ca.crt'',
                            ''--cert='' @ cert_file t ''server.crt'', ''--key='' @ cert_file t ''server.key'', ''--service='' @ svcName,
                            ''--hostname='' @ domain, ''--port='' @ portName, ''-n'', namespace] s3 of
                       (Inl e, s4) \<Rightarrow> (Inl e, s4)
                     | (Inr routeName, s4) \<Rightarrow>
                         (case output_of (t_tools t) [''oc'', ''-n'', namespace, ''get'', hd (split_char CHR '' '' routeName), host_template] s4 of
                            (Inl e, s5) \<Rightarrow> (Inl e, s5)
                          | (Inr routeURL, s5) \<Rightarrow> (Inr (trim_set routeURL [quote_mark]), s5))))))"

definition ExposeDeploymentConfig :: "'w trigger_deps \<Rightarrow> string \<Rightarrow> string \<Rightarrow> string \<Rightarrow> 'w tool_state step" where
  "ExposeDeploymentConfig t elname port namespace =
     seq (must_do (t_tools t) [''oc'', ''expose'', ''dc/'' @ elname, ''-n'', namespace, ''--target-port='' @ port])
         (must_do (t_tools t) [''oc'', ''expose'', ''svc'', elname, ''-n'', namespace, ''--port='' @ port])"

section \<open>Cleanup\<close>

definition generated :: "'w trigger_deps \<Rightarrow> string \<Rightarrow> string \<Rightarrow> string \<Rightarrow> ref" where
  "generated t kind namespace elName = Ref [] kind namespace (t_prefix t @ ''-'' @ elName)"

definition delete_or_fail :: "'w trigger_deps \<Rightarrow> string \<Rightarrow> ref \<Rightarrow> 'w tool_state step" where
  "delete_or_fail t msg r s =
     (case k_delete (w_server (t_tools t)) r s of
        (Some _, s1) \<Rightarrow> (Some (KAbort msg), s1)
      | (None, s1) \<Rightarrow> (None, s1))"

definition CleanupTriggers :: "'w trigger_deps \<Rightarrow> string \<Rightarrow> string \<Rightarrow> 'w tool_state step" where
  "CleanupTriggers t elName namespace =
     (let sv = w_server (t_tools t); dep = generated t ''Deployment'' namespace elName;
          svc = generated t ''Service'' namespace elName; route = generated t ''Route'' namespace elName
      in for_each id
        [delete_or_fail t (''failed to delete event listener '' @ elName) (Ref [] ''EventListener'' namespace elName),
         wait_for t ''Deployment of the EventListener was not deleted'' (DeploymentNotExist (k_get sv dep)),
         wait_for t ''Service of the EventListener was not deleted'' (ServiceNotExist (k_get sv svc)),
         delete_or_fail t ''failed to delete Route of the EventListener'' route,
         wait_for t ''Route of the EventListener was not deleted'' (RouteNotExist (k_get sv route)),
         must_do (t_tools t) [''rm'', ''-rf'', t_path t ''testdata/triggers/certs'']])"

end
