(* ===== verification/TriggersFacts.thy ===== *)
theory TriggersFacts
  imports Triggers PipelineRunFacts
begin

text \<open>
  What \<open>pkg/triggers\<close> sends and removes: the signature of an event, and the objects of an event
  listener that a cleanup has seen gone.
\<close>

section \<open>Signed events\<close>

text \<open>
  a signature is 64 lowercase hexadecimal digits, whatever the payload and the key, and two
  signatures agree exactly when the two MACs do.
\<close>

theorem signature_shape:
  "length (GetSignature m key) = 64 \<and> set (GetSignature m key) \<subseteq> set ''0123456789abcdef''
   \<and> (GetSignature m key = GetSignature m' key' \<longleftrightarrow> hmac_sha256 key m = hmac_sha256 key' m')"
  using hex_encode_digits [of "hmac_sha256 key m"]
  by (auto simp: GetSignature_def hmac_sha256_def Let_def length_sha256 hex_digits_def dest: inj_hex_encode)

lemma send_event_ok:
  "send_event t client req s = (Inr resp, s') \<Longrightarrow>
     t_send t client req (io_world s) = (Some resp, io_world s') \<and> rp_StatusCode resp \<le> 202 \<and> s' = s\<lparr>io_world := io_world s'\<rparr>"
  by (auto simp: send_event_def split: prod.splits option.splits if_splits)

lemma https_client: "CreateHTTPSClient t s = Inr client \<Longrightarrow> client \<noteq> PlainClient"
  by (auto simp: CreateHTTPSClient_def split: option.splits if_splits)

text \<open>What each interceptor has to be told about the sender.\<close>

definition credential :: "string \<Rightarrow> string \<Rightarrow> (string \<times> string) option" where
  "credential interceptor body =
     (if to_lower interceptor = ''github''
      then Some (''X-Hub-Signature-256'', ''sha256='' @ hex_encode (hmac_sha256 TriggersSecretToken body))
      else if to_lower interceptor = ''gitlab'' then Some (''X-GitLab-Token'', TriggersSecretToken)
      else if to_lower interceptor = ''bitbucket''
      then Some (''X-Hub-Signature'', ''sha256='' @ hex_encode (hmac_sha256 TriggersSecretToken body))
      else None)"

lemma headers_credential:
  assumes "BuildHeaders req interceptor eventType body = Some req'"
  shows "\<exists>cr. credential interceptor body = Some cr \<and> cr \<in> set (rq_headers req') \<and> rq_body req' = rq_body req
    \<and> rq_url req' = rq_url req \<and> rq_method req' = rq_method req"
proof -
  consider (github) "to_lower interceptor = ''github''" | (gitlab) "to_lower interceptor = ''gitlab''"
    | (bitbucket) "to_lower interceptor = ''bitbucket''"
    using assms by (auto simp: BuildHeaders_def split: if_splits)
  then show ?thesis
    using assms by cases (auto simp: BuildHeaders_def credential_def add_headers_def GetSignature_def)
qed

text \<open>
  when MockPostEvent returns, its last act was to send one request whose body is the content of the
  payload file, the bytes it returns too, with the credential that the interceptor asks for: for GitHub
  and Bitbucket the HMAC of exactly these bytes under the secret token. With TLS the client has
  certificates and the URL is an https one; the answer had a status of at most 202.
\<close>

theorem posted_event_signed:
  assumes "MockPostEvent t routeurl interceptor eventType payload isTLS s = (Inr (resp, body), s')"
  shows "\<exists>client req cr. t_send t client req (io_world s) = (Some resp, io_world s') \<and> s' = s\<lparr>io_world := io_world s'\<rparr>
    \<and> rq_method req = ''POST'' \<and> rq_body req = body \<and> t_disk t (t_path t payload) (io_world s) = Some body
    \<and> credential interceptor body = Some cr \<and> cr \<in> set (rq_headers req)
    \<and> (if isTLS then client \<noteq> PlainClient \<and> has_prefix (rq_url req) ''https://'' else client = PlainClient \<and> rq_url req = routeurl)
    \<and> rp_StatusCode resp \<le> 202"
proof -
  from assms obtain url where d: "t_disk t (t_path t payload) (io_world s) = Some body" and u: "event_url routeurl isTLS = Inr url"
    by (auto simp: MockPostEvent_def split: option.splits sum.splits if_splits prod.splits)
  from assms d u obtain req client where
    b: "BuildHeaders \<lparr>rq_method = ''POST'', rq_url = url, rq_headers = [], rq_body = body\<rparr> interceptor eventType body = Some req"
    and c: "(if isTLS then CreateHTTPSClient t s else Inr CreateHTTPClient) = Inr client"
    and e: "send_event t client req s = (Inr resp, s')"
    by (auto simp: MockPostEvent_def split: option.splits sum.splits if_splits prod.splits)
  from headers_credential [OF b] obtain cr where h: "credential interceptor body = Some cr" "cr \<in> set (rq_headers req)"
    "rq_body req = body" "rq_url req = url" "rq_method req = ''POST''" by auto
  have "if isTLS then client \<noteq> PlainClient \<and> has_prefix url ''https://'' else client = PlainClient \<and> url = routeurl"
    using c u by (auto simp: event_url_def CreateHTTPClient_def has_prefix_def dest: https_client split: if_splits list.splits)
  with send_event_ok [OF e] d h show ?thesis by (intro exI [of _ client] exI [of _ req] exI [of _ cr]) (simp split: if_splits)
qed

definition sending_tools :: "unit trigger_deps" where
  "sending_tools = \<lparr>t_tools = demo_tools, t_send = (\<lambda>c r w. (Some \<lparr>rp_StatusCode = 202, rp_Body = []\<rparr>, w)),
     t_validURL = (\<lambda>_. True), t_keyPair = (\<lambda>_ _. True), t_disk = (\<lambda>_ _. Some ''{}''), t_write = (\<lambda>_ _ w. Some w),
     t_selector = (\<lambda>n. ''eventlistener='' @ n), t_prefix = ''el'', t_suffix = (\<lambda>_. ''-x''),
     t_getCondition = (\<lambda>_ _. None), t_decode = (\<lambda>_. None)\<rparr>"

theorem posted_event_signed_witness:
  "\<exists>req :: http_request. rq_body req = ''{}'' \<and> has_prefix (rq_url req) ''https://''
    \<and> (''X-Hub-Signature-256'', ''sha256='' @ hex_encode (hmac_sha256 TriggersSecretToken ''{}'')) \<in> set (rq_headers req)"
proof -
  have l: "to_lower ''GitHub'' = ''github''" by code_simp
  have u: "event_url ''http://el.example'' True = Inr ''https://el.example''" by code_simp
  have "MockPostEvent sending_tools ''http://el.example'' ''GitHub'' ''push'' ''push.json'' True tools_start
      = (Inr (\<lparr>rp_StatusCode = 202, rp_Body = []\<rparr>, ''{}''), tools_start)"
    by (simp add: MockPostEvent_def u BuildHeaders_def l CreateHTTPSClient_def send_event_def sending_tools_def)
  from posted_event_signed [OF this] show ?thesis by (auto simp: credential_def l)
qed

section \<open>Cleanup\<close>

text \<open>The three conditions are one.\<close>

definition absent_condition :: "('w, kube_body) server \<Rightarrow> ref \<Rightarrow> ('w tool_state, wait_error) cond" where
  "absent_condition sv r s = (case k_get sv r s of (res, s') \<Rightarrow> ((res = Inl NotFound, None), s'))"

lemma absent_conditions:
  "DeploymentNotExist (k_get sv r) = absent_condition sv r"
  "ServiceNotExist (k_get sv r) = absent_condition sv r"
  "RouteNotExist (k_get sv r) = absent_condition sv r"
  by (auto simp: fun_eq_iff DeploymentNotExist_def ServiceNotExist_def RouteNotExist_def absent_condition_def split: prod.splits sum.splits)

fun reads_only :: "ref \<Rightarrow> 'b event \<Rightarrow> bool" where
  "reads_only r (Got r' res) = (r' = r \<and> res \<noteq> Inl NotFound)"
| "reads_only r _ = False"

lemma wait_absent:
  assumes "poll_contract (w_waitPoll (t_tools t))"
    and "wait_for t msg (absent_condition sv r) s = (None, s')"
  obtains w where "io_trace s' = Got r (Inl NotFound) # w @ io_trace s" and "list_all (reads_only r) w"
proof -
  let ?f = "\<lambda>s. case w_ctx (t_tools t) s of Some e \<Rightarrow> ((True, Some (WContext e)), s) | None \<Rightarrow> absent_condition sv r s"
  from assms(2) have p: "w_waitPoll (t_tools t) APIRetry APITimeout True ?f s = (None, s')"
    by (auto simp: wait_for_def WaitFor_def pollImmediateWithContext_def split: prod.splits option.splits)
  obtain k u where pend: "pending ?f k s u" and f: "?f u = ((True, None), s')"
    by (rule poll_None [OF assms(1) p])
  have "\<exists>w. io_trace u = w @ io_trace s \<and> list_all (reads_only r) w"
  proof (rule pending_invariant [OF pend])
    show "\<exists>w. io_trace s = w @ io_trace s \<and> list_all (reads_only r) w" by (rule exI [of _ "[]"]) simp
  next
    fix a b assume "\<exists>w. io_trace a = w @ io_trace s \<and> list_all (reads_only r) w" and a: "?f a = ((False, None), b)"
    then obtain w where w: "io_trace a = w @ io_trace s" "list_all (reads_only r) w" by blast
    from a obtain res where "k_get sv r a = (res, b)" "res \<noteq> Inl NotFound"
      by (auto simp: absent_condition_def split: option.splits prod.splits)
    with w show "\<exists>w. io_trace b = w @ io_trace s \<and> list_all (reads_only r) w"
      by (intro exI [of _ "Got r res # w"]) (auto dest: call_frames(1))
  qed
  moreover from f have "k_get sv r u = (Inl NotFound, s')"
    by (auto simp: absent_condition_def split: option.splits prod.splits)
  ultimately show thesis using that by (auto dest!: call_frames(1))
qed

lemma delete_or_fail_ok:
  "delete_or_fail t msg r s = (None, s') \<Longrightarrow> io_trace s' = Deleted r None # io_trace s"
  by (auto simp: delete_or_fail_def split: prod.splits option.splits dest: call_frames(4))

lemma must_do_ok:
  assumes "must_do d args s = (None, s')"
  obtains res where "io_trace s' = Ran (Command (oc_connection (w_oc d)) args) res # io_trace s" and "ExitCode res = 0"
  using assms
  by (fastforce simp: must_do_def w_must_def MustSucceed_def Assert_def Run_def k_run_def split: prod.splits sum.splits if_splits)

lemma six_steps:
  assumes "for_each id [m1, m2, m3, m4, m5, m6] s = (None, s')"
  obtains s1 s2 s3 s4 s5 where "m1 s = (None, s1)" "m2 s1 = (None, s2)" "m3 s2 = (None, s3)" "m4 s3 = (None, s4)"
    "m5 s4 = (None, s5)" "m6 s5 = (None, s')"
  using assms by (auto split: prod.splits option.splits)

text \<open>
  CleanupTriggers returns normally only if the event listener was deleted, then its Deployment and
  its Service were each waited for until a read did not find them, then the Route was deleted and waited
  for in the same way, and at last the certificates were removed; nothing else was asked for.
\<close>

theorem triggers_cleaned:
  assumes "poll_contract (w_waitPoll (t_tools t))" and "CleanupTriggers t elName ns s = (None, s')"
  shows "\<exists>w1 w2 w3 res. io_trace s' =
      Ran [''rm'', ''-rf'', t_path t ''testdata/triggers/certs''] res
      # Got (generated t ''Route'' ns elName) (Inl NotFound) # w3 @ Deleted (generated t ''Route'' ns elName) None
      # Got (generated t ''Service'' ns elName) (Inl NotFound) # w2
      @ Got (generated t ''Deployment'' ns elName) (Inl NotFound) # w1
      @ Deleted (Ref [] ''EventListener'' ns elName) None # io_trace s
    \<and> ExitCode res = 0 \<and> list_all (reads_only (generated t ''Deployment'' ns elName)) w1
    \<and> list_all (reads_only (generated t ''Service'' ns elName)) w2 \<and> list_all (reads_only (generated t ''Route'' ns elName)) w3"
proof -
  let ?sv = "w_server (t_tools t)" and ?r = "\<lambda>kind. generated t kind ns elName"
  let ?m1 = "delete_or_fail t (''failed to delete event listener '' @ elName) (Ref [] ''EventListener'' ns elName)"
  let ?m2 = "wait_for t ''Deployment of the EventListener was not deleted'' (absent_condition ?sv (?r ''Deployment''))"
  let ?m3 = "wait_for t ''Service of the EventListener was not deleted'' (absent_condition ?sv (?r ''Service''))"
  let ?m4 = "delete_or_fail t ''failed to delete Route of the EventListener'' (?r ''Route'')"
  let ?m5 = "wait_for t ''Route of the EventListener was not deleted'' (absent_condition ?sv (?r ''Route''))"
  let ?m6 = "must_do (t_tools t) [''rm'', ''-rf'', t_path t ''testdata/triggers/certs'']"
  have "for_each id [?m1, ?m2, ?m3, ?m4, ?m5, ?m6] s = (None, s')"
    using assms(2) unfolding CleanupTriggers_def Let_def absent_conditions .
  then obtain s1 s2 s3 s4 s5 where 1: "?m1 s = (None, s1)" and 2: "?m2 s1 = (None, s2)" and 3: "?m3 s2 = (None, s3)"
    and 4: "?m4 s3 = (None, s4)" and 5: "?m5 s4 = (None, s5)" and 6: "?m6 s5 = (None, s')"
    by (rule six_steps)
  obtain w1 where w1: "io_trace s2 = Got (?r ''Deployment'') (Inl NotFound) # w1 @ io_trace s1" "list_all (reads_only (?r ''Deployment'')) w1"
    by (rule wait_absent [OF assms(1) 2])
  obtain w2 where w2: "io_trace s3 = Got (?r ''Service'') (Inl NotFound) # w2 @ io_trace s2" "list_all (reads_only (?r ''Service'')) w2"
    by (rule wait_absent [OF assms(1) 3])
  obtain w3 where w3: "io_trace s5 = Got (?r ''Route'') (Inl NotFound) # w3 @ io_trace s4" "list_all (reads_only (?r ''Route'')) w3"
    by (rule wait_absent [OF assms(1) 5])
  obtain res where "io_trace s' = Ran [''rm'', ''-rf'', t_path t ''testdata/triggers/certs''] res # io_trace s5" "ExitCode res = 0"
    by (rule must_do_ok [OF 6]) (rule that; simp)
  then show ?thesis
    using w1 w2 w3 delete_or_fail_ok [OF 1] delete_or_fail_ok [OF 4]
    by (intro exI [of _ w1] exI [of _ w2] exI [of _ w3] exI [of _ res]) simp
qed

definition clean_tools :: "unit trigger_deps" where
  "clean_tools = sending_tools\<lparr>t_tools := demo_tools\<lparr>w_server := (w_server demo_tools)\<lparr>
     sv_get := \<lambda>r w. (Inl NotFound, w), sv_delete := \<lambda>r w. (None, w)\<rparr>\<rparr>\<rparr>"

lemma demo_cleaned_triggers: "fst (CleanupTriggers clean_tools ''hook'' ''ns'' tools_start) = None"
  by code_simp

theorem triggers_cleaned_witness:
  "\<exists>s' w. io_trace s' = w @ [Deleted (Ref [] ''EventListener'' ''ns'' ''hook'') None]
    \<and> Deleted (Ref [] ''Route'' ''ns'' ''el-hook'') None \<in> set w \<and> snd (CleanupTriggers clean_tools ''hook'' ''ns'' tools_start) = s'"
proof -
  obtain s' where r: "CleanupTriggers clean_tools ''hook'' ''ns'' tools_start = (None, s')"
    using demo_cleaned_triggers by (metis prod.collapse)
  have c: "poll_contract (w_waitPoll (t_tools clean_tools))"
    by (simp add: clean_tools_def demo_tools_def rounds_poller_contract)
  have "generated clean_tools ''Route'' ''ns'' ''hook'' = Ref [] ''Route'' ''ns'' ''el-hook''"
    by (simp add: generated_def clean_tools_def sending_tools_def)
  with triggers_cleaned [OF c r] r show ?thesis by (fastforce simp: tools_start_def)
qed

end
