(* ===== verification/Diagnostics.thy ===== *)
theory Diagnostics
  imports OpcCli
begin

text \<open>
  \<open>pkg/diagnostics\<close>: what is collected from the cluster for the report of a failed spec. The text of the
  error of a command is its exit status; the report entry is the result, None when there is none.
\<close>

section \<open>Running oc\<close>

definition runOC :: "'w tool_deps \<Rightarrow> string list \<Rightarrow> 'w tool_state \<Rightarrow> (string \<times> string option) \<times> 'w tool_state" where
  "runOC d args s =
     (case w_run d (''oc'' # args) s of
        (res, s1) \<Rightarrow>
          (if ExitCode res \<noteq> 0
           then (Stdout res @ Stderr res, Some (''oc '' @ join '' '' args @ '': exit status '' @ show_int (ExitCode res)))
           else (Stdout res, None), s1))"

definition capLines :: "string \<Rightarrow> nat \<Rightarrow> string" where
  "capLines output maxLines =
     (let lines = split_char (CHR 10) output in
      if length lines \<le> maxLines then output
      else join [CHR 10] (take maxLines lines) @ [CHR 10] @ ''... [truncated: showing '' @ show_nat maxLines @ '' of ''
        @ show_nat (length lines) @ '' lines]'')"

section \<open>What is collected\<close>

definition collectEvents :: "'w tool_deps \<Rightarrow> string \<Rightarrow> 'w tool_state \<Rightarrow> string \<times> 'w tool_state" where
  "collectEvents d namespace s =
     (case runOC d [''get'', ''events'', ''-n'', namespace, ''--sort-by=.lastTimestamp''] s of
        ((out, Some err), s1) \<Rightarrow> (''[error collecting events: '' @ err @ '']'' @ [CHR 10] @ out, s1)
      | ((out, None), s1) \<Rightarrow> (capLines out 100, s1))"

definition collectResourceState :: "'w tool_deps \<Rightarrow> string \<Rightarrow> 'w tool_state \<Rightarrow> string \<times> 'w tool_state" where
  "collectResourceState d namespace s =
     (case runOC d [''get'', ''pipelineruns,taskruns,pods'', ''-n'', namespace, ''-o'', ''wide''] s of
        ((out, Some err), s1) \<Rightarrow> (''[error collecting resource state: '' @ err @ '']'' @ [CHR 10] @ out, s1)
      | ((out, None), s1) \<Rightarrow> (out, s1))"

fun container_logs :: "'w tool_deps \<Rightarrow> string \<Rightarrow> string \<Rightarrow> string list \<Rightarrow> 'w tool_state \<Rightarrow> string \<times> 'w tool_state" where
  "container_logs d namespace pod [] s = ([], s)"
| "container_logs d namespace pod (container # cs) s =
     (case runOC d [''logs'', ''-n'', namespace, pod, ''-c'', container, ''--tail=50''] s of
        ((logOut, err), s1) \<Rightarrow>
          (case container_logs d namespace pod cs s1 of
             (rest, s2) \<Rightarrow>
               (''--- Pod: '' @ pod @ ''  Container: '' @ container @ '' (last 50 lines) ---'' @ [CHR 10]
                @ (case err of None \<Rightarrow> logOut | Some e \<Rightarrow> ''[error: '' @ e @ '']'' @ [CHR 10]) @ [CHR 10] @ rest, s2)))"

fun pod_logs :: "'w tool_deps \<Rightarrow> string \<Rightarrow> string list \<Rightarrow> 'w tool_state \<Rightarrow> string \<times> 'w tool_state" where
  "pod_logs d namespace [] s = ([], s)"
| "pod_logs d namespace (pod # pods) s =
     (case runOC d [''get'', ''pod'', pod, ''-n'', namespace, ''-o'', ''jsonpath={.spec.containers[*].name}''] s of
        ((containerOut, err), s1) \<Rightarrow>
          (case (case err of
                   Some e \<Rightarrow> (''--- Pod: '' @ pod @ '' [error getting containers: '' @ e @ ''] ---'' @ [CHR 10], s1)
                 | None \<Rightarrow> container_logs d namespace pod (GoPrelude.fields (trim_space containerOut)) s1) of
             (here, s2) \<Rightarrow> (case pod_logs d namespace pods s2 of (rest, s3) \<Rightarrow> (here @ rest, s3))))"

definition collectPodLogs :: "'w tool_deps \<Rightarrow> string \<Rightarrow> 'w tool_state \<Rightarrow> string \<times> 'w tool_state" where
  "collectPodLogs d namespace s =
     (case runOC d [''get'', ''pods'', ''-n'', namespace, ''-o'', ''jsonpath={.items[*].metadata.name}''] s of
        ((podListOut, Some err), s1) \<Rightarrow> (''[error listing pods: '' @ err @ '']'' @ [CHR 10] @ podListOut, s1)
      | ((podListOut, None), s1) \<Rightarrow>
          let podNames = GoPrelude.fields (trim_space podListOut) in
          if podNames = [] then (''[no pods found in namespace]'', s1)
          else pod_logs d namespace (if 10 < length podNames then take 10 podNames else podNames) s1)"

section \<open>The two reporters\<close>

definition heading :: "string \<Rightarrow> string" where
  "heading t = [CHR 10] @ ''--- '' @ t @ '' ---'' @ [CHR 10]"

definition CollectOperatorLogsOnFailure ::
    "'w tool_deps \<Rightarrow> bool \<Rightarrow> 'w tool_state \<Rightarrow> (string \<times> string) option \<times> 'w tool_state" where
  "CollectOperatorLogsOnFailure d failed s =
     (if \<not> failed then (None, s)
      else
        (let ns = ''openshift-operators'' in
         (case collectEvents d ns s of
            (events, s1) \<Rightarrow>
              (case collectPodLogs d ns s1 of
                 (logs, s2) \<Rightarrow>
                   (Some (''operator-diagnostics'',
                      [CHR 10] @ ''=== Operator Diagnostics ('' @ ns @ '') ==='' @ [CHR 10] @ heading ''Events'' @ events
                      @ heading ''Pod Logs (operator/webhook pods)'' @ logs), s2)))))"

text \<open>The namespace is read when the report is made; None is the nil pointer.\<close>

definition CollectOnFailure ::
    "'w tool_deps \<Rightarrow> string option \<Rightarrow> bool \<Rightarrow> 'w tool_state \<Rightarrow> (string \<times> string) option \<times> 'w tool_state" where
  "CollectOnFailure d namespace failed s =
     (if \<not> failed then (None, s)
      else
        (case namespace of
           None \<Rightarrow> (None, s)
         | Some ns \<Rightarrow>
             if ns = [] then (None, s)
             else
               (case collectEvents d ns s of
                  (events, s1) \<Rightarrow>
                    (case collectResourceState d ns s1 of
                       (resources, s2) \<Rightarrow>
                         (case collectPodLogs d ns s2 of
                            (logs, s3) \<Rightarrow>
                              (Some (''cluster-diagnostics'',
                                 [CHR 10] @ ''=== Diagnostics for namespace: '' @ ns @ '' ==='' @ [CHR 10] @ heading ''Events'' @ events
                                 @ heading ''Resource State'' @ resources @ heading ''Pod Logs'' @ logs), s3))))))"

section \<open>Capped output\<close>

lemma join_snoc: "ws \<noteq> [] \<Longrightarrow> join sep (ws @ [w]) = join sep ws @ sep @ w"
  by (induction sep ws rule: join.induct) (simp_all add: join_Cons)

definition notice :: "nat \<Rightarrow> nat \<Rightarrow> string" where
  "notice n m = ''... [truncated: showing '' @ show_nat n @ '' of '' @ show_nat m @ '' lines]''"

lemma notice_line: "CHR 10 \<notin> set (notice n m)"
  by (auto simp: notice_def is_digit_def less_eq_char_def dest!: show_nat_digits)

text \<open>
  capped output is the output itself when it has at most that many lines, and otherwise its first
  lines followed by one line that says so.
\<close>

theorem capped_lines:
  assumes "0 < n"
  shows "capLines output n = output \<and> length (split_char (CHR 10) output) \<le> n
    \<or> split_char (CHR 10) (capLines output n)
        = take n (split_char (CHR 10) output) @ [notice n (length (split_char (CHR 10) output))]
      \<and> n < length (split_char (CHR 10) output)"
proof (cases "length (split_char (CHR 10) output) \<le> n")
  case True
  then show ?thesis by (simp add: capLines_def)
next
  case False
  let ?ls = "split_char (CHR 10) output"
  have "capLines output n = join [CHR 10] (take n ?ls) @ CHR 10 # notice n (length ?ls)"
    using False by (simp add: capLines_def notice_def Let_def)
  then have "capLines output n = join [CHR 10] (take n ?ls @ [notice n (length ?ls)])"
    using assms by (simp add: join_snoc)
  moreover have "split_char (CHR 10) (join [CHR 10] (take n ?ls @ [notice n (length ?ls)])) = take n ?ls @ [notice n (length ?ls)]"
    by (rule split_char_join) (auto dest: in_set_takeD split_char_no_sep simp: notice_line)
  ultimately show ?thesis using False by simp
qed

theorem capped_lines_witness:
  "split_char (CHR 10) (capLines (''a'' @ [CHR 10] @ ''b'' @ [CHR 10] @ ''c'') 2) = [''a'', ''b'', notice 2 3]"
proof -
  have "split_char (CHR 10) (''a'' @ [CHR 10] @ ''b'' @ [CHR 10] @ ''c'') = [''a'', ''b'', ''c'']" by code_simp
  with capped_lines [of 2 "''a'' @ [CHR 10] @ ''b'' @ [CHR 10] @ ''c''"] show ?thesis by (simp add: numeral_eq_Suc)
qed

section \<open>What collecting asks for\<close>

text \<open>An \<open>oc get\<close> or \<open>oc logs\<close> of the namespace.\<close>

definition observes :: "'w tool_deps \<Rightarrow> string \<Rightarrow> kube_body event \<Rightarrow> bool" where
  "observes d ns e \<longleftrightarrow> (\<exists>verb args res. e = Ran (Command (oc_connection (w_oc d)) (''oc'' # verb # args)) res
     \<and> verb \<in> {''get'', ''logs''} \<and> ''-n'' \<in> set args \<and> ns \<in> set args)"

definition collected :: "'w tool_deps \<Rightarrow> string \<Rightarrow> 'w tool_state \<Rightarrow> 'w tool_state \<Rightarrow> bool" where
  "collected d ns s s' \<longleftrightarrow> (\<exists>evs. io_trace s' = evs @ io_trace s \<and> list_all (observes d ns) evs) \<and> io.more s' = io.more s"

lemma collected_refl [simp]: "collected d ns s s"
  by (simp add: collected_def)

lemma collected_trans: "collected d ns s t \<Longrightarrow> collected d ns t u \<Longrightarrow> collected d ns s u"
  by (auto simp: collected_def)

lemma runOC_collected:
  assumes "runOC d (verb # args) s = (r, s')" and "verb \<in> {''get'', ''logs''}" and "''-n'' \<in> set args" and "ns \<in> set args"
  shows "collected d ns s s'"
proof -
  from assms(1) obtain res where "w_run d (''oc'' # verb # args) s = (res, s')"
    by (auto simp: runOC_def split: prod.splits if_splits)
  then have "io_trace s' = Ran (Command (oc_connection (w_oc d)) (''oc'' # verb # args)) res # io_trace s \<and> io.more s' = io.more s"
    unfolding w_run_def by (rule run_frames)
  moreover have "observes d ns (Ran (Command (oc_connection (w_oc d)) (''oc'' # verb # args)) res)"
    unfolding observes_def using assms(2-4) by blast
  ultimately show ?thesis by (simp add: collected_def)
qed

lemma container_logs_collected: "container_logs d ns pod cs s = (r, s') \<Longrightarrow> collected d ns s s'"
proof (induction cs arbitrary: s r)
  case (Cons c cs)
  obtain out s1 where a: "runOC d [''logs'', ''-n'', ns, pod, ''-c'', c, ''--tail=50''] s = (out, s1)" by (metis surj_pair)
  with Cons.prems obtain rest where c: "container_logs d ns pod cs s1 = (rest, s')" by (auto split: prod.splits)
  have "collected d ns s s1" by (rule runOC_collected [OF a]) simp_all
  from this Cons.IH [OF c] show ?case by (rule collected_trans)
qed simp

lemma pod_logs_collected: "pod_logs d ns pods s = (r, s') \<Longrightarrow> collected d ns s s'"
proof (induction pods arbitrary: s r)
  case (Cons pod pods)
  obtain out err s1 where a: "runOC d [''get'', ''pod'', pod, ''-n'', ns, ''-o'', ''jsonpath={.spec.containers[*].name}''] s = ((out, err), s1)"
    by (metis surj_pair)
  obtain here s2 where b: "(case err of
      Some e \<Rightarrow> (''--- Pod: '' @ pod @ '' [error getting containers: '' @ e @ ''] ---'' @ [CHR 10], s1)
    | None \<Rightarrow> container_logs d ns pod (GoPrelude.fields (trim_space out)) s1) = (here, s2)" by (metis surj_pair)
  obtain rest where c: "pod_logs d ns pods s2 = (rest, s')"
    using Cons.prems a b by (auto split: prod.splits)
  have "collected d ns s s1" by (rule runOC_collected [OF a]) simp_all
  moreover have "collected d ns s1 s2" using b by (auto split: option.splits dest: container_logs_collected)
  ultimately show ?case using Cons.IH [OF c] by (blast intro: collected_trans)
qed simp

lemma collectPodLogs_collected: "collectPodLogs d ns s = (r, s') \<Longrightarrow> collected d ns s s'"
  by (auto simp: collectPodLogs_def Let_def split: prod.splits option.splits if_splits
      elim!: collected_trans [rotated] runOC_collected dest!: pod_logs_collected)

lemma collectEvents_collected: "collectEvents d ns s = (r, s') \<Longrightarrow> collected d ns s s'"
  by (auto simp: collectEvents_def split: prod.splits option.splits elim!: runOC_collected)

lemma collectResourceState_collected: "collectResourceState d ns s = (r, s') \<Longrightarrow> collected d ns s s'"
  by (auto simp: collectResourceState_def split: prod.splits option.splits elim!: runOC_collected)

text \<open>
  the reporters only look: whatever happens, they run nothing but oc get and oc logs of the one
  namespace and leave the state of the process as it was. A report is made exactly when the spec failed
  and, for the namespace of the spec, when that is known; otherwise no command is run.
\<close>

theorem diagnostics_only_observe:
  "(case CollectOnFailure d namespace failed s of (entry, s') \<Rightarrow>
      collected d (case namespace of None \<Rightarrow> [] | Some ns \<Rightarrow> ns) s s'
      \<and> (entry \<noteq> None \<longleftrightarrow> failed \<and> namespace \<notin> {None, Some []}) \<and> (entry \<noteq> None \<or> s' = s))
   \<and> (case CollectOperatorLogsOnFailure d failed s of (entry, s') \<Rightarrow>
      collected d ''openshift-operators'' s s' \<and> (entry \<noteq> None \<longleftrightarrow> failed) \<and> (entry \<noteq> None \<or> s' = s))"
  by (auto simp: CollectOnFailure_def CollectOperatorLogsOnFailure_def Let_def split: prod.splits option.splits
      intro: collected_trans dest!: collectEvents_collected collectResourceState_collected collectPodLogs_collected)

end
