(* ===== verification/SuiteHook.thy ===== *)
theory SuiteHook
  imports TestCaseIds
begin

text \<open>
  \<open>pkg/hooks/tcvalidation_hook.go\<close>: when a test binary starts, the directory of its suite is searched
  for and every test file in it is checked against the specification map. The panic of the hook is the
  directory and the error.
\<close>

section \<open>The hook\<close>

text \<open>
  The variable \<open>GINKGO_SUITE_NAME\<close>, the arguments of the process, the file of the \<open>i\<close>th caller and a
  directory's entries in order, each with whether it is a directory.
\<close>

record suite_env =
  se_files :: files
  se_suiteName :: string
  se_args :: "string list"
  se_caller :: "nat \<Rightarrow> string option"
  se_readDir :: "string \<Rightarrow> (string \<times> bool) list option"

definition isRunningUnderTest :: "suite_env \<Rightarrow> bool" where
  "isRunningUnderTest se = list_ex (\<lambda>arg. contains arg ''.test'' \<or> contains arg ''-test'') (se_args se)"

definition suite_file :: "string \<Rightarrow> string" where
  "suite_file dir = Join [dir, ''suite_test.go'']"

fun caller_dir :: "suite_env \<Rightarrow> nat list \<Rightarrow> string option" where
  "caller_dir se [] = None"
| "caller_dir se (i # is) =
     (case se_caller se i of
        None \<Rightarrow> None
      | Some file \<Rightarrow>
          if contains file ''_test.go'' \<and> fs_stat (se_files se) (suite_file (Dir file)) then Some (Dir file)
          else caller_dir se is)"

text \<open>The second loop; None is a loop that does not end, the empty text that there is no such directory.\<close>

partial_function (option) suite_up :: "suite_env \<Rightarrow> string \<Rightarrow> string option" where
  "suite_up se cwd =
     (if fs_stat (se_files se) (suite_file cwd) then Some cwd
      else let parent = Dir cwd in if parent = cwd then Some [] else suite_up se parent)"

definition findTestSuiteDirectory :: "suite_env \<Rightarrow> string option" where
  "findTestSuiteDirectory se =
     (case caller_dir se [0..<20] of
        Some dir \<Rightarrow> Some dir
      | None \<Rightarrow> (case fs_getwd (se_files se) of None \<Rightarrow> Some [] | Some cwd \<Rightarrow> suite_up se cwd))"

fun validate_entries :: "suite_env \<Rightarrow> string \<Rightarrow> (string \<times> bool) list \<Rightarrow> (string \<times> tc_error) option option" where
  "validate_entries se suiteDir [] = Some None"
| "validate_entries se suiteDir ((name, isDir) # entries) =
     (if isDir \<or> name = ''suite_test.go'' then validate_entries se suiteDir entries
      else if has_suffix name ''_test.go''
      then (case ValidateTestFileAgainstSpecMap (se_files se) (Join [suiteDir, name]) of
          None \<Rightarrow> None
        | Some (Some err) \<Rightarrow> Some (Some (suiteDir, err))
        | Some None \<Rightarrow> validate_entries se suiteDir entries)
      else validate_entries se suiteDir entries)"

definition validateTestSuiteOnInit :: "suite_env \<Rightarrow> (string \<times> tc_error) option option" where
  "validateTestSuiteOnInit se =
     (case findTestSuiteDirectory se of
        None \<Rightarrow> None
      | Some suiteDir \<Rightarrow>
          if suiteDir = [] then Some None
          else (case se_readDir se suiteDir of None \<Rightarrow> Some None | Some entries \<Rightarrow> validate_entries se suiteDir entries))"

definition init_hook :: "suite_env \<Rightarrow> (string \<times> tc_error) option option" where
  "init_hook se =
     (if se_suiteName se \<noteq> [] \<or> isRunningUnderTest se then validateTestSuiteOnInit se else Some None)"

section \<open>What the hook decides\<close>

lemma suite_up_ancestors:
  "suite_up se wd = Some (case find (\<lambda>dir. fs_stat (se_files se) (suite_file dir)) (ancestors wd) of
     None \<Rightarrow> [] | Some dir \<Rightarrow> dir)"
proof (induction wd rule: ancestors.induct)
  case (1 wd)
  then show ?case
    by (subst suite_up.simps, subst ancestors.simps) (simp add: Let_def)
qed

text \<open>Which directory is found, and which of its entries are test files.\<close>

definition suite_dir :: "suite_env \<Rightarrow> string option" where
  "suite_dir se =
     (case caller_dir se [0..<20] of
        Some dir \<Rightarrow> Some dir
      | None \<Rightarrow> Option.bind (fs_getwd (se_files se))
          (\<lambda>wd. find (\<lambda>dir. fs_stat (se_files se) (suite_file dir)) (ancestors wd)))"

definition test_files :: "(string \<times> bool) list \<Rightarrow> string list" where
  "test_files entries = map fst (filter (\<lambda>(name, isDir). \<not> isDir \<and> name \<noteq> ''suite_test.go'' \<and> has_suffix name ''_test.go'') entries)"

lemma found_directory: "findTestSuiteDirectory se = Some (case suite_dir se of None \<Rightarrow> [] | Some dir \<Rightarrow> dir)"
  by (simp add: findTestSuiteDirectory_def suite_dir_def suite_up_ancestors split: option.splits)

lemma validation_ends: "ValidateTestFileAgainstSpecMap fs file \<noteq> None"
  by (simp add: ValidateTestFileAgainstSpecMap_def LoadTCSpecMap_def search_up_ancestors split: option.splits sum.splits)

definition file_error :: "suite_env \<Rightarrow> string \<Rightarrow> string \<Rightarrow> tc_error option" where
  "file_error se dir name = the (ValidateTestFileAgainstSpecMap (se_files se) (Join [dir, name]))"

text \<open>The first file that is refused decides.\<close>

definition first_refused :: "suite_env \<Rightarrow> string \<Rightarrow> string list \<Rightarrow> (string \<times> tc_error) option" where
  "first_refused se dir names =
     (case find (\<lambda>name. file_error se dir name \<noteq> None) names of
        None \<Rightarrow> None | Some name \<Rightarrow> map_option (Pair dir) (file_error se dir name))"

lemma validate_entries_result:
  "validate_entries se dir entries = Some (first_refused se dir (test_files entries))"
proof (induction entries)
  case (Cons e entries)
  obtain name isDir where e: "e = (name, isDir)" by (cases e)
  obtain r where "ValidateTestFileAgainstSpecMap (se_files se) (Join [dir, name]) = Some r"
    using validation_ends by blast
  with Cons show ?case
    by (cases r) (auto simp: e test_files_def file_error_def first_refused_def)
qed (simp add: test_files_def first_refused_def)

text \<open>
  starting a test binary always ends, whatever the call stack and the file system look like. The
  hook panics exactly when it is active, finds the suite's directory (that of the nearest test file in
  the call stack with a suite file beside it, else the nearest directory above the working directory
  that has one) and can read it, and one of the test files in it is refused; the panic is then about the
  first of these. Without a suite file nothing is validated.
\<close>

theorem suite_hook_ends:
  "init_hook se = Some
     (if se_suiteName se \<noteq> [] \<or> isRunningUnderTest se
      then (case suite_dir se of
          None \<Rightarrow> None
        | Some dir \<Rightarrow> if dir = [] then None
            else (case se_readDir se dir of None \<Rightarrow> None | Some entries \<Rightarrow> first_refused se dir (test_files entries)))
      else None)
   \<and> (first_refused se dir names = None \<longleftrightarrow>
        list_all (\<lambda>name. ValidateTestFileAgainstSpecMap (se_files se) (Join [dir, name]) = Some None) names)"
proof
  show "init_hook se = Some
     (if se_suiteName se \<noteq> [] \<or> isRunningUnderTest se
      then (case suite_dir se of
          None \<Rightarrow> None
        | Some dir \<Rightarrow> if dir = [] then None
            else (case se_readDir se dir of None \<Rightarrow> None | Some entries \<Rightarrow> first_refused se dir (test_files entries)))
      else None)"
    by (simp add: init_hook_def validateTestSuiteOnInit_def found_directory validate_entries_result split: option.splits)
  have "file_error se dir name = None \<longleftrightarrow> ValidateTestFileAgainstSpecMap (se_files se) (Join [dir, name]) = Some None" for name
    using validation_ends [of "se_files se" "Join [dir, name]"] by (auto simp: file_error_def)
  then show "first_refused se dir names = None \<longleftrightarrow>
      list_all (\<lambda>name. ValidateTestFileAgainstSpecMap (se_files se) (Join [dir, name]) = Some None) names"
    by (auto simp: first_refused_def list_all_iff find_None_iff find_Some_iff split: option.splits)
qed

end
