(* ===== verification/ConfigPaths.thy ===== *)
theory ConfigPaths
  imports GoPath Effects
begin

text \<open>
  The paths and the temporary directory of \<open>pkg/config/config.go\<close>. The file system is part of the
  world, behind the record \<open>disk\<close>; an error is its text. \<open>dk_caller\<close> is the file of the package as
  \<open>runtime.Caller(0)\<close> gives it.
\<close>

section \<open>The file system\<close>

record 'w disk =
  dk_caller :: string
  dk_missing :: "string \<Rightarrow> 'w \<Rightarrow> bool"
  dk_mkdir :: "string \<Rightarrow> 'w \<Rightarrow> string option \<times> 'w"
  dk_removeAll :: "string \<Rightarrow> 'w \<Rightarrow> string option \<times> 'w"
  dk_readFile :: "string \<Rightarrow> 'w \<Rightarrow> string + string"
  dk_writeFile :: "string \<Rightarrow> string \<Rightarrow> 'w \<Rightarrow> string option \<times> 'w"

definition on_disk :: "('w \<Rightarrow> string option \<times> 'w) \<Rightarrow> ('w, 'b, 'm) io_scheme step" where
  "on_disk f s = (case f (io_world s) of (err, w) \<Rightarrow> (map_option KMsg err, s\<lparr>io_world := w\<rparr>))"

section \<open>Paths\<close>

definition config_Dir :: "'w disk \<Rightarrow> string" where
  "config_Dir dk = Join [Dir (dk_caller dk), ''..'', ''..'', ''template'']"

definition config_File :: "'w disk \<Rightarrow> string list \<Rightarrow> string" where
  "config_File dk elem = Join (config_Dir dk # elem)"

definition config_Read :: "'w disk \<Rightarrow> string \<Rightarrow> ('w, 'b, 'm) io_scheme \<Rightarrow> kerror + string" where
  "config_Read dk path s = map_sum KMsg id (dk_readFile dk (config_File dk [path]) (io_world s))"

text \<open>A missing directory ends the test.\<close>

definition config_Path :: "'w disk \<Rightarrow> string list \<Rightarrow> ('w, 'b, 'm) io_scheme \<Rightarrow> kerror + string" where
  "config_Path dk elem s =
     (let td = Join [config_Dir dk, ''..''] in
      if dk_missing dk td (io_world s) then Inl (KAbort (''test data path not found: '' @ td))
      else Inr (Join (td # elem)))"

section \<open>The temporary directory\<close>

definition temp_path :: "'w disk \<Rightarrow> string" where
  "temp_path dk = Join [config_Dir dk, ''..'', ''tmp'']"

definition TempDir :: "'w disk \<Rightarrow> ('w, 'b, 'm) io_scheme \<Rightarrow> (string \<times> kerror option) \<times> ('w, 'b, 'm) io_scheme" where
  "TempDir dk s =
     (let tmp = temp_path dk in
      if dk_missing dk tmp (io_world s)
      then (case on_disk (dk_mkdir dk tmp) s of (err, s1) \<Rightarrow> ((tmp, err), s1))
      else ((tmp, None), s))"

definition TempFile :: "'w disk \<Rightarrow> string list \<Rightarrow> ('w, 'b, 'm) io_scheme \<Rightarrow> (kerror + string) \<times> ('w, 'b, 'm) io_scheme" where
  "TempFile dk elem s =
     (case TempDir dk s of
        ((tmp, Some err), s1) \<Rightarrow> (Inl err, s1)
      | ((tmp, None), s1) \<Rightarrow> (Inr (Join (tmp # elem)), s1))"

definition RemoveTempDir :: "'w disk \<Rightarrow> ('w, 'b, 'm) io_scheme step" where
  "RemoveTempDir dk s =
     (case TempDir dk s of
        ((tmp, Some err), s1) \<Rightarrow> (Some (KContext ''failed to get temp dir'' err), s1)
      | ((tmp, None), s1) \<Rightarrow>
          (case on_disk (dk_removeAll dk tmp) s1 of
             (Some err, s2) \<Rightarrow> (Some (KContext (''error deleting directory '' @ tmp) err), s2)
           | (None, s2) \<Rightarrow> (None, s2)))"

section \<open>Where the paths lead\<close>

text \<open>
  Beside the caller in \<open>pkg/config\<close>, the test data are the repository itself: a path below \<open>testdata\<close>
  has to say so.
\<close>

lemma demo_path:
  assumes "dk_caller dk = ''/repo/pkg/config/config.go''" and "\<not> dk_missing dk ''/repo'' (io_world s)"
  shows "config_Dir dk = ''/repo/template''" and "temp_path dk = ''/repo/tmp''"
    and "config_Path dk [''testdata/chains/key''] s = Inr ''/repo/testdata/chains/key''"
proof -
  have d: "Join [Dir ''/repo/pkg/config/config.go'', ''..'', ''..'', ''template''] = ''/repo/template''" by code_simp
  then show dir: "config_Dir dk = ''/repo/template''" by (simp only: config_Dir_def assms(1))
  have "Join [''/repo/template'', ''..'', ''tmp''] = ''/repo/tmp''" by code_simp
  then show "temp_path dk = ''/repo/tmp''" by (simp only: temp_path_def dir)
  have t: "Join [''/repo/template'', ''..''] = ''/repo''" by code_simp
  have "Join [''/repo'', ''testdata/chains/key''] = ''/repo/testdata/chains/key''" by code_simp
  with assms(2) show "config_Path dk [''testdata/chains/key''] s = Inr ''/repo/testdata/chains/key''"
    by (simp only: config_Path_def Let_def dir t if_False)
qed

end
