(* ===== verification/OlmCommands.thy ===== *)
theory OlmCommands
  imports OlmSubscription ConfigPaths CmdLine
begin

text \<open>
  The rest of \<open>pkg/olm/subscription.go\<close>: applying a subscription made from the template, and removing
  the operator. The template engine is the argument \<open>render\<close>: None is a template that does not parse,
  else the text or the error of its execution. Deleting a collection is the argument \<open>deleteCSVs\<close>.
\<close>

section \<open>Creating a subscription\<close>

record subscription_data =
  sd_OperatorNamespace :: string
  sd_SourceNamespace :: string
  sd_Channel :: string
  sd_SubscriptionName :: string
  sd_CatalogSource :: string

type_synonym renderer = "string \<Rightarrow> (subscription_data \<Rightarrow> string + string) option"

text \<open>What happens between the first \<open>TempDir\<close> and the deferred removal.\<close>

definition apply_template ::
    "'w disk \<Rightarrow> 'w shell \<Rightarrow> connection \<Rightarrow> renderer \<Rightarrow> subscription_data \<Rightarrow> ('w, kbody, 'm) io_scheme step" where
  "apply_template dk sh cn render data s =
     (case config_Read dk ''subscription.yaml.tmp'' s of
        Inl e \<Rightarrow> (Some (KContext ''failed to read subscription template'' e), s)
      | Inr tmpl \<Rightarrow>
          (case render tmpl of
             None \<Rightarrow> (Some (KMsg ''failed to parse subscription template''), s)
           | Some run \<Rightarrow>
               (case run data of
                  Inl e \<Rightarrow> (Some (KContext ''failed to execute subscription template'' (KMsg e)), s)
                | Inr buffer \<Rightarrow>
                    (case TempFile dk [''subscription.yaml''] s of
                       (Inl e, s1) \<Rightarrow> (Some (KContext ''failed to create temp file'' e), s1)
                     | (Inr file, s1) \<Rightarrow>
                         (case on_disk (dk_writeFile dk file buffer) s1 of
                            (Some e, s2) \<Rightarrow> (Some (KContext ''failed to write subscription file'' e), s2)
                          | (None, s2) \<Rightarrow>
                              (case MustSucceed sh cn [''oc'', ''apply'', ''-f'', file] s2 of
                                 (Inl e, s3) \<Rightarrow> (Some e, s3)
                               | (Inr _, s3) \<Rightarrow> (None, s3)))))))"

text \<open>The error of the deferred removal is dropped; it also runs when the test is aborted.\<close>

definition createSubscription ::
    "'w disk \<Rightarrow> 'w shell \<Rightarrow> connection \<Rightarrow> renderer \<Rightarrow> string \<Rightarrow> string \<Rightarrow> string \<Rightarrow> ('w, kbody, 'm) io_scheme step" where
  "createSubscription dk sh cn render name channel catalogsource s =
     (let subscription = \<lparr>sd_OperatorNamespace = OperatorsNamespace, sd_SourceNamespace = OLMNamespace,
        sd_Channel = channel, sd_SubscriptionName = name, sd_CatalogSource = catalogsource\<rparr> in
      (case TempDir dk s of
         ((_, Some err), s1) \<Rightarrow> (Some (KContext ''failed to create temp dir'' err), s1)
       | ((_, None), s1) \<Rightarrow>
           (case apply_template dk sh cn render subscription s1 of
              (err, s2) \<Rightarrow> (err, snd (RemoveTempDir dk s2)))))"

section \<open>Removing the operator\<close>

definition OperatorCleanup ::
    "('w \<Rightarrow> api_error option \<times> 'w) \<Rightarrow> ('w, kbody) server \<Rightarrow> 'w shell \<Rightarrow> connection \<Rightarrow> string \<Rightarrow>
     ('w, kbody, 'm) io_scheme step" where
  "OperatorCleanup deleteCSVs sv sh cn name s =
     (case getSubcription sv name s of
        (Inl e, s1) \<Rightarrow> (Some (KContext ''failed to get subscription for cleanup'' e), s1)
      | (Inr sub, s1) \<Rightarrow>
          (case deleteCSVs (io_world s1) of
             (Some e, w) \<Rightarrow>
               (Some (KContext (''failed to delete CSVs in namespace '' @ OperatorsNamespace) (KApi e)), s1\<lparr>io_world := w\<rparr>)
           | (None, w) \<Rightarrow>
               (case MustSucceed sh cn [''oc'', ''delete'', ''--ignore-not-found'', ''-n'', OperatorsNamespace, ''subscription'',
                       ref_name (o_ref sub)] (s1\<lparr>io_world := w\<rparr>) of
                  (Inl e, s2) \<Rightarrow> (Some e, s2)
                | (Inr _, s2) \<Rightarrow> (None, s2))))"

section \<open>What a subscription needs\<close>

text \<open>A file system where a directory that was made is there and one that was removed is not.\<close>

definition disk_ok :: "'w disk \<Rightarrow> bool" where
  "disk_ok dk \<longleftrightarrow> (\<forall>p w w'. (dk_mkdir dk p w = (None, w') \<longrightarrow> \<not> dk_missing dk p w')
     \<and> (dk_removeAll dk p w = (None, w') \<longrightarrow> dk_missing dk p w'))"

lemma removed_or_failed:
  assumes "disk_ok dk" and "RemoveTempDir dk s = (None, s')"
  shows "dk_missing dk (temp_path dk) (io_world s')"
  using assms by (auto simp: RemoveTempDir_def TempDir_def on_disk_def disk_ok_def Let_def
      split: prod.splits option.splits if_splits)

text \<open>Whatever fails in between, also when the test is aborted, the removal comes last.\<close>

lemma temp_dir_removed:
  assumes "disk_ok dk" and "createSubscription dk sh cn render name channel source s = (err, s')" and "snd (fst (TempDir dk s)) = None"
  shows "\<exists>t. snd (RemoveTempDir dk t) = s' \<and> (fst (RemoveTempDir dk t) = None \<longrightarrow> dk_missing dk (temp_path dk) (io_world s'))"
proof -
  obtain tmp s1 where t: "TempDir dk s = ((tmp, None), s1)" using assms(3) by (metis prod.collapse)
  with assms(2) obtain t1 where r: "snd (RemoveTempDir dk t1) = s'"
    by (auto simp: createSubscription_def Let_def split: prod.splits)
  have "dk_missing dk (temp_path dk) (io_world s')" if n: "fst (RemoveTempDir dk t1) = None"
  proof -
    from surjective_pairing [of "RemoveTempDir dk t1"] have "RemoveTempDir dk t1 = (None, s')" unfolding r n .
    then show ?thesis by (rule removed_or_failed [OF assms(1)])
  qed
  then show ?thesis by (intro exI [of _ t1] conjI impI r)
qed

lemma on_disk_frame: "on_disk f s = (err, s') \<Longrightarrow> io_trace s' = io_trace s \<and> (err = None \<longleftrightarrow> fst (f (io_world s)) = None)"
  by (auto simp: on_disk_def split: prod.splits)

lemma TempDir_frame: "TempDir dk s = ((tmp, err), s') \<Longrightarrow> tmp = temp_path dk \<and> io_trace s' = io_trace s"
  by (auto simp: TempDir_def Let_def split: prod.splits if_splits dest: on_disk_frame)

lemma RemoveTempDir_frame: "RemoveTempDir dk s = (err, s') \<Longrightarrow> io_trace s' = io_trace s"
  by (auto simp: RemoveTempDir_def split: prod.splits option.splits dest!: TempDir_frame on_disk_frame)

lemma apply_template_ok:
  assumes "apply_template dk sh cn render data s = (None, s')"
  shows "\<exists>tmpl run yaml res w. render tmpl = Some run \<and> run data = Inr yaml
    \<and> fst (dk_writeFile dk (Join [temp_path dk, ''subscription.yaml'']) yaml w) = None
    \<and> io_trace s' = Ran (Command cn [''oc'', ''apply'', ''-f'', Join [temp_path dk, ''subscription.yaml'']]) res # io_trace s
    \<and> ExitCode res = 0"
proof -
  let ?file = "Join [temp_path dk, ''subscription.yaml'']"
  from assms obtain tmpl run yaml path s1 where r: "render tmpl = Some run" "run data = Inr yaml"
    and t: "TempFile dk [''subscription.yaml''] s = (Inr path, s1)"
    by (auto simp: apply_template_def split: sum.splits option.splits prod.splits)
  from t have f: "path = ?file" "io_trace s1 = io_trace s"
    by (auto simp: TempFile_def split: prod.splits option.splits dest!: TempDir_frame)
  from assms obtain tmpl2 run2 yaml2 s2 res where r2: "render tmpl2 = Some run2" "run2 data = Inr yaml2"
    and w: "on_disk (dk_writeFile dk path yaml2) s1 = (None, s2)"
    and m: "MustSucceed sh cn [''oc'', ''apply'', ''-f'', path] s2 = (Inr res, s')"
    using t by (auto simp: apply_template_def split: sum.splits option.splits prod.splits)
  from m have "Run sh cn [''oc'', ''apply'', ''-f'', path] s2 = (res, s')" "ExitCode res = 0"
    by (auto simp: MustSucceed_def Assert_def split: prod.splits if_splits)
  with run_frames [OF this(1)] on_disk_frame [OF w] f r2 show ?thesis
    by (intro exI [of _ tmpl2] exI [of _ run2] exI [of _ yaml2] exI [of _ res] exI [of _ "io_world s1"]) simp
qed

text \<open>
  createSubscription returns nil only if the template was rendered with the operators' namespace for
  the operator and OLM's for the source, this text was written to the file in the temporary directory,
  and oc apply of that file, the one command it ran, succeeded; the temporary directory is gone
  afterwards unless its removal failed.
\<close>

theorem subscription_applied:
  assumes "disk_ok dk" and "createSubscription dk sh cn render name channel source s = (None, s')"
  shows "\<exists>tmpl run yaml res w t. render tmpl = Some run
    \<and> run \<lparr>sd_OperatorNamespace = ''openshift-operators'', sd_SourceNamespace = ''openshift-marketplace'',
         sd_Channel = channel, sd_SubscriptionName = name, sd_CatalogSource = source\<rparr> = Inr yaml
    \<and> fst (dk_writeFile dk (Join [temp_path dk, ''subscription.yaml'']) yaml w) = None
    \<and> io_trace s' = Ran (Command cn [''oc'', ''apply'', ''-f'', Join [temp_path dk, ''subscription.yaml'']]) res # io_trace s
    \<and> ExitCode res = 0 \<and> snd (RemoveTempDir dk t) = s'
    \<and> (fst (RemoveTempDir dk t) = None \<longrightarrow> dk_missing dk (temp_path dk) (io_world s'))"
proof -
  from assms(2) obtain tmp s1 s2 where t: "TempDir dk s = ((tmp, None), s1)"
    and a: "apply_template dk sh cn render \<lparr>sd_OperatorNamespace = OperatorsNamespace, sd_SourceNamespace = OLMNamespace,
         sd_Channel = channel, sd_SubscriptionName = name, sd_CatalogSource = source\<rparr> s1 = (None, s2)"
    and r: "s' = snd (RemoveTempDir dk s2)"
    by (auto simp: createSubscription_def Let_def split: prod.splits option.splits)
  have "io_trace s' = io_trace s2" using r RemoveTempDir_frame by (metis prod.collapse)
  moreover have "io_trace s1 = io_trace s" using TempDir_frame [OF t] ..
  moreover obtain u where "snd (RemoveTempDir dk u) = s'"
      "fst (RemoveTempDir dk u) = None \<longrightarrow> dk_missing dk (temp_path dk) (io_world s')"
    using temp_dir_removed [OF assms] t by auto
  ultimately show ?thesis
    using apply_template_ok [OF a] unfolding OperatorsNamespace_def OLMNamespace_def by (metis (no_types))
qed

text \<open>A world that is the list of the directories and files that are there.\<close>

definition list_disk :: "string list disk" where
  "list_disk = \<lparr>dk_caller = ''/r/pkg/config/config.go'', dk_missing = (\<lambda>p w. p \<notin> set w), dk_mkdir = (\<lambda>p w. (None, p # w)),
     dk_removeAll = (\<lambda>p w. (None, filter (\<lambda>q. q \<noteq> p) w)), dk_readFile = (\<lambda>p w. Inr ''t''), dk_writeFile = (\<lambda>p c w. (None, p # w))\<rparr>"

definition list_start :: "(string list, kbody) io" where
  "list_start = \<lparr>io_world = [], io_trace = []\<rparr>"

definition list_shell :: "string list shell" where
  "list_shell args w = (\<lparr>ExitCode = 0, Stdout = [], Stderr = []\<rparr>, w)"

definition list_connection :: connection where
  "list_connection = \<lparr>cn_Kubeconfig = [], cn_Context = [], cn_Cluster = []\<rparr>"

lemma demo_subscribed:
  "fst (createSubscription list_disk list_shell list_connection (\<lambda>t. Some (\<lambda>d. Inr (sd_Channel d))) ''op'' ''latest'' ''src'' list_start) = None"
  by code_simp

theorem subscription_applied_witness:
  "\<exists>s' res. createSubscription list_disk list_shell list_connection (\<lambda>t. Some (\<lambda>d. Inr (sd_Channel d))) ''op'' ''latest'' ''src'' list_start = (None, s')
    \<and> io_trace s' = [Ran [''oc'', ''apply'', ''-f'', ''/r/tmp/subscription.yaml''] res]"
proof -
  let ?r = "\<lambda>t :: string. Some (\<lambda>d. Inr (sd_Channel d) :: string + string)"
  obtain s' where c: "createSubscription list_disk list_shell list_connection ?r ''op'' ''latest'' ''src'' list_start = (None, s')"
    using demo_subscribed by (metis prod.collapse)
  have "disk_ok list_disk" by (auto simp: disk_ok_def list_disk_def)
  moreover have "Join [temp_path list_disk, ''subscription.yaml''] = ''/r/tmp/subscription.yaml''" by code_simp
  moreover have "Command list_connection [''oc'', ''apply'', ''-f'', ''/r/tmp/subscription.yaml''] = [''oc'', ''apply'', ''-f'', ''/r/tmp/subscription.yaml'']"
    by code_simp
  ultimately show ?thesis using subscription_applied [OF _ c] c by (auto simp: list_start_def)
qed

end
