(* ===== verification/Spec2Isabelle.thy ===== *)
theory Spec2Isabelle
  imports Wait KueueSpokes OlmSubscription OperatorConfig MultiClusterPolicies ConfigEnv SkipRange OcPatches NamespaceSafety TestCaseIds ApprovalProperties Prometheus ScanResults ScannerProperties
    PipelineRunFacts OpcCli PacGitLabFacts PacGitHubFacts ScenarioStore TektonChainsFacts TektonResultsFacts
    OperatorFacts TaskFacts TriggersFacts Diagnostics SuiteHook OlmCommands
begin

text \<open>
  A model of the packages under \<open>src/pkg\<close> of the release tests of OpenShift Pipelines, with the
  properties that make them correct. The packages are the machinery of the tests: they prepare a
  cluster, drive the product through its API and its command line tools, wait for what should happen,
  decide whether it did, and clean up. The test files under \<open>src/tests\<close> only call them.

  \<^bold>\<open>How the program is modelled.\<close> A function that changes something is a function on an explicit state
  that returns its result and the new state; a Go error is a value of \<open>kerror\<close> (theory \<open>Effects\<close>) or
  of a datatype of the component, and \<open>(T, error)\<close> is a sum. A failed Gomega assertion, \<open>Fail\<close> and a
  panic end the test: they are the error \<open>KAbort\<close>, and nothing after them runs. Structures are records
  with the fields that the code reads, maps are partial functions, or lists of entries where the code
  ranges over them. The outside world is a type \<open>'w\<close> that no definition looks into: the API server
  (record \<open>server\<close> in \<open>ClusterApi\<close>), the shell that runs \<open>oc\<close>, \<open>opc\<close> and \<open>tkn\<close>, GitLab and GitHub,
  the JSON and YAML codecs, the clock and the random generator are parameters, functions that may change
  the world at every call. Every request and its answer is recorded in a trace, which is not part of
  the program: properties about what was asked for, and in which order, are statements about it, and
  hold for every server and every interference by other clients.

  \<^bold>\<open>Bounds.\<close> The polling loops of the Kubernetes libraries are parameters with the contract
  \<open>poll_contract\<close> of theory \<open>Polling\<close>: some finite number of rounds, no condition called after one that
  was true or failed. The number of rounds is not fixed, so a property holds for every timeout; the
  witnesses use \<open>rounds_poller\<close>, which satisfies the contract. \<open>RetryOnConflict\<close> has the analogous
  \<open>retry_contract\<close>. Loops that the code writes itself are structural or have a measure: the number of
  path elements in \<open>GoPath\<close>, the 30 rounds of the namespace loop of the scanner, the ten tries for a
  free branch. The wait for a GitLab pipeline has no bound in the code and is a partial function;
  \<open>pipeline_wait\<close> says when it returns and when it does not.

  \<^bold>\<open>The library.\<close> \<open>GoPrelude\<close> has what Go's \<open>strings\<close> and \<open>strconv\<close> packages do, \<open>GoPath\<close> what
  \<open>path/filepath\<close> does. \<open>Polling\<close>, \<open>ClusterApi\<close>, \<open>ApiObjects\<close> and \<open>Effects\<close> are the world, the
  objects and the ways the code chains fallible steps, with the rules that carry an invariant through
  them (\<open>keeps\<close>).

  \<^bold>\<open>Theories and code.\<close>
  \<^item> \<open>Wait\<close>: \<open>pkg/wait\<close>. The verdicts as functions of a condition, and the waits. Lemmas: what decided
    the result of a wait.
  \<^item> \<open>CmdLine\<close>, \<open>OcCli\<close>, \<open>OcPatches\<close>: \<open>pkg/cmd\<close> and \<open>pkg/oc/oc.go\<close>. Each wrapper is the command line
    it runs. Lemmas: the patch texts are JSON values.
  \<^item> \<open>SkipRange\<close>: \<open>pkg/oc/olm_skiprange.go\<close>, its regular expressions as matchers.
  \<^item> \<open>ConfigEnv\<close>: \<open>pkg/config\<close>, the two loaders of the properties file and the flags.
  \<^item> \<open>NamespaceHooks\<close>, \<open>NamespaceSafety\<close>: \<open>pkg/hooks\<close>, the Ginkgo hooks as a step relation over any
    sequence of specs, with its reachable states.
  \<^item> \<open>TestCaseIds\<close>: \<open>pkg/testcase\<close>.
  \<^item> \<open>KueueTypes\<close>, \<open>KueueResources\<close>, \<open>KueueEnvironment\<close>, \<open>KueueScheduler\<close>, \<open>KueueWorkload\<close>,
    \<open>KueueLifecycle\<close>: \<open>pkg/tektonkueue\<close>; then \<open>KueueFrames\<close>, \<open>KueueSafety\<close>, \<open>KueueCleanup\<close>,
    \<open>KueueProperties\<close>, \<open>KueueExecution\<close>, \<open>KueueSpokes\<close>: what it creates is registered for cleanup, what
    it deletes is its own, a cleanup that returns nil leaves nothing, and a result names the spoke that
    ran the workload.
  \<^item> \<open>OlmBootstrap\<close>, \<open>OlmSubscription\<close>: \<open>pkg/olm\<close>. \<open>OperatorConfig\<close>: \<open>pkg/operator/tektonconfig.go\<close>.
  \<^item> \<open>MultiCluster\<close>, \<open>MultiClusterSetup\<close>: \<open>pkg/multicluster\<close>; then \<open>MultiClusterInvariants\<close>,
    \<open>MultiClusterProperties\<close>, \<open>MultiClusterDemo\<close>, \<open>MultiClusterPolicies\<close>: guarded deletes, complete
    cleanup, restored scheduler, network policies.
  \<^item> \<open>ApprovalTasks\<close>, \<open>ApprovalGate\<close>, \<open>ApprovalSessions\<close>: \<open>pkg/manualapprovalgate\<close>; then
    \<open>ApprovalSafety\<close> and \<open>ApprovalProperties\<close>: counters, groups, and the cached sessions of the test
    users as the refinement of an automaton.
  \<^item> \<open>MetricsMtls\<close>, \<open>MetricsToggle\<close>, \<open>MetricsProperties\<close>, \<open>Prometheus\<close>: \<open>pkg/monitoring\<close>.
  \<^item> \<open>ScannerJob\<close>, \<open>ScannerProperties\<close>, \<open>ScanResults\<close>: \<open>pkg/tlsscanner\<close>.
  \<^item> \<open>KubeHelpers\<close>: \<open>pkg/k8s/k8s.go\<close>, and the state shared with the next three. \<open>OpcCli\<close>: \<open>pkg/opc\<close>.
    \<open>PipelineRuns\<close>, \<open>PipelineRunFacts\<close>: \<open>pkg/pipelines/pipelines.go\<close>.
  \<^item> \<open>PacGitLab\<close>, \<open>PacMergeRequests\<close>, \<open>PacGitLabFacts\<close>: \<open>pkg/pac/pac.go\<close>. \<open>PacGitHub\<close>,
    \<open>PacGitHubRuns\<close>, \<open>PacGitHubFacts\<close>: \<open>pkg/pac/pac-github.go\<close>, whose setup is undone when it fails.
  \<^item> \<open>ScenarioStore\<close>: \<open>pkg/store\<close>, both maps with their type assertions. Lemma: the last write is read.
  \<^item> \<open>TektonChains\<close>, \<open>TektonResults\<close>: \<open>pkg/operator/tektonchains.go\<close> and \<open>tektonresults.go\<close>. Their patches
    are texts; \<open>MergePatch\<close> says what such a patch means (RFC 7386, RFC 6902) and \<open>Base64\<close> what
    \<open>encoding/base64\<close> does. \<open>TektonChainsFacts\<close>, \<open>TektonResultsFacts\<close>: a restore undoes an update, a
    signature that was accepted was read and checked, a key is asked for once, the wait for a deletion
    ends, the retention policy replaces what was there.
  \<^item> \<open>OperatorObjects\<close>, \<open>OperatorChecks\<close>, \<open>OperatorFacts\<close>: the other files of \<open>pkg/operator\<close>, with
    \<open>pkg/statefulset\<close>, \<open>pkg/openshift\<close> and \<open>pkg/k8s/nodes.go\<close>: what a check that passes has seen.
  \<^item> \<open>TaskChecks\<close>, \<open>TaskFacts\<close>: \<open>ecosystem.go\<close>, \<open>taskrun.go\<close> and \<open>helper.go\<close> of \<open>pkg/pipelines\<close>.
  \<^item> \<open>Sha256\<close>, \<open>Triggers\<close>, \<open>TriggersFacts\<close>: \<open>pkg/triggers\<close>. HMAC-SHA256 is defined on 32 bit words as
    FIPS 180-4 and RFC 2104 have it; a posted event carries the code of its payload, and a cleanup waits
    until each object is gone.
  \<^item> \<open>Diagnostics\<close>: \<open>pkg/diagnostics\<close>. \<open>SuiteHook\<close>: the check that every test binary runs when it starts
    (\<open>pkg/hooks/tcvalidation_hook.go\<close>). \<open>ConfigPaths\<close>, \<open>OlmCommands\<close>: the
    paths and temporary directory of \<open>pkg/config\<close>, and the functions of \<open>pkg/olm/subscription.go\<close> that
    write a template and apply it.

  \<^bold>\<open>Not modelled.\<close> Log output and the progress detail of timeout messages. Real time: pauses and
  deadlines matter only through the contract of the pollers, except where a theory records the pauses
  or takes a clock. Goroutines: waits that run side by side are made one after the other in an arbitrary
  order; mutexes are left out with them. Three parts have no theory: \<open>pkg/clients\<close> only calls the
  constructors of client libraries, whose requests are the parameter \<open>server\<close>; the test suites under
  \<open>tests\<close> hold no logic of their own; scripts, templates and test data are not Go code. Of
  \<open>pkg/k8s/k8s.go\<close> the dynamic client glue and of \<open>pkg/pipelines/helper.go\<close> the converter are left out,
  because they only call libraries. The component list of the manifest names each part with its status.
\<close>

end
